(* ===== verification/GoPrelude.thy ===== *)
theory GoPrelude
  imports Main "HOL-Library.Word"
begin

text \<open>
  What every component of the back end shares: the machine integers, the error values, the
  state-and-error computations that stand for Go functions which call MySQL, Redis or the message
  queues, the model of failing I/O calls, and GORM transactions.

  A Go function \<open>f(args) (T, error)\<close> is a computation: it takes the state and returns
  \<open>Inl e\<close> for a non-nil error (or a panic) or \<open>Inr v\<close>, with the new state. Each call that
  leaves the process (a MySQL statement, a Redis command, a publish) first consults the script
  \<open>faults\<close>: \<open>True\<close> at its head means that this call fails and has no effect. A property proved
  for every state therefore holds for every pattern of failing calls. An exhausted script means no
  further failure.
\<close>

section \<open>Automation\<close>

named_theorems go_exec \<open>execution of computations, step by step\<close>
named_theorems go_frame \<open>what an operation leaves alone\<close>

section \<open>Integers\<close>

type_synonym u64 = "64 word"
type_synonym u32 = "32 word"
type_synonym u8 = "8 word"

text \<open>Go's \<open>int64\<close> and \<open>int\<close> arithmetic wraps around; MySQL's BIGINT arithmetic fails instead.\<close>

definition i64_ok :: "int \<Rightarrow> bool" where
  "i64_ok x \<longleftrightarrow> - (2 ^ 63) \<le> x \<and> x < 2 ^ 63"

text \<open>The zero \<open>time.Time\<close>, in nanoseconds from the epoch.\<close>

definition zero_time :: int where
  "zero_time = -62135596800000000000"

definition i64 :: "int \<Rightarrow> int" where
  "i64 x = (x + 2 ^ 63) mod 2 ^ 64 - 2 ^ 63"

lemma i64_id [simp]: "i64_ok x \<Longrightarrow> i64 x = x"
  by (simp add: i64_def i64_ok_def)

lemma i64_ok_i64 [simp]: "i64_ok (i64 x)"
proof -
  have "0 \<le> (x + 2 ^ 63) mod 2 ^ 64" and "(x + 2 ^ 63) mod 2 ^ 64 < (2 ^ 64 :: int)"
    by simp_all
  then show ?thesis by (simp add: i64_def i64_ok_def)
qed

text \<open>Wrapping a part of a sum early makes no difference.\<close>

lemma i64_add_i64: "i64 (a + i64 b) = i64 (a + b)"
proof -
  have "(a + i64 b + 2 ^ 63) mod 2 ^ 64 = (a + (b + 2 ^ 63) mod 2 ^ 64) mod 2 ^ 64"
    by (simp add: i64_def)
  also have "\<dots> = (a + b + 2 ^ 63) mod 2 ^ 64"
    by (simp add: mod_add_right_eq add.assoc)
  finally show ?thesis by (simp add: i64_def [of "a + i64 b"] i64_def [of "a + b"])
qed

lemma i64_diff: "i64 (a - b) = i64 (a + i64 (- b))"
  by (simp add: i64_add_i64)

section \<open>Errors\<close>

text \<open>
  One constructor per error value of the Go code. Go compares these by identity
  (\<open>err == database.ErrWalletNotFound\<close>, \<open>errors.Is\<close>), which is equality of constructors here.
  \<open>IOError\<close> is any other driver error, \<open>DupKey\<close> a driver error that \<open>isDuplicateKeyError\<close>
  recognises, \<open>GoPanic\<close> a run-time panic. \<open>BizErr h c\<close> is a business error made in place
  (\<open>tool.NewBizError(h, c, msg)\<close>), without its message; \<open>MsgError\<close> is an
  answer by \<open>ResponseErrorWithMsg\<close>.
\<close>

datatype err =
    IOError
  | DupKey
  | OutOfRange
  | RecordNotFound
  | InvalidData
  | GoPanic
  | PlainError string
  | ErrWalletNotFound
  | ErrInsufficientBalance
  | ErrConcurrentModify
  | ErrDailyLimitExceeded
  | ErrPointsTxnIdempotentSkip
  | ErrAlreadyCheckedIn
  | ErrMallProductNotFound
  | ErrMallOutOfStock
  | ErrMallRedeemBusy
  | ErrGameOutOfStock
  | ErrInsufficientAccount
  | ErrGameInvalidParam
  | ErrCodeInvalidParam
  | ErrInvalidToken
  | CodeServerBusy
  | ErrInternalServer
  | ErrCommentNotFound
  | ErrCommentNoPermission
  | ErrInvalidTopicName
  | ErrTopicNoGameLink
  | BizErr nat nat
  | MsgError

section \<open>Computations\<close>

type_synonym ('s, 'a) op = "'s \<Rightarrow> (err + 'a) \<times> 's"

definition ret :: "'a \<Rightarrow> ('s, 'a) op" where
  "ret x = (\<lambda>s. (Inr x, s))"

definition throw :: "err \<Rightarrow> ('s, 'a) op" where
  "throw e = (\<lambda>s. (Inl e, s))"

definition gets :: "('s \<Rightarrow> 'a) \<Rightarrow> ('s, 'a) op" where
  "gets f = (\<lambda>s. (Inr (f s), s))"

definition modify :: "('s \<Rightarrow> 's) \<Rightarrow> ('s, unit) op" where
  "modify f = (\<lambda>s. (Inr (), f s))"

text \<open>\<open>v, err := m(); if err != nil { return err }; \<dots>\<close>\<close>

definition bnd :: "('s, 'a) op \<Rightarrow> ('a \<Rightarrow> ('s, 'b) op) \<Rightarrow> ('s, 'b) op" where
  "bnd m f = (\<lambda>s. case m s of (Inl e, t) \<Rightarrow> (Inl e, t) | (Inr x, t) \<Rightarrow> f x t)"

text \<open>\<open>v, err := m()\<close> with the error inspected by the code that follows; a panic is not caught.\<close>

definition attempt :: "('s, 'a) op \<Rightarrow> ('s, err + 'a) op" where
  "attempt m = (\<lambda>s. case m s of
       (Inl GoPanic, t) \<Rightarrow> (Inl GoPanic, t)
     | (r, t) \<Rightarrow> (Inr r, t))"

text \<open>\<open>_ = m()\<close>: the error is dropped.\<close>

definition ignore :: "('s, 'a) op \<Rightarrow> ('s, unit) op" where
  "ignore m = bnd (attempt m) (\<lambda>_. ret ())"

definition guarded :: "bool \<Rightarrow> ('s, unit) op \<Rightarrow> ('s, unit) op" where
  "guarded b m = (if b then m else ret ())"

text \<open>\<open>defer f()\<close>: \<open>f\<close> runs when \<open>m\<close> has returned, with an error or not, and its own error is dropped.\<close>

definition deferred :: "('s, 'a) op \<Rightarrow> ('s, unit) op \<Rightarrow> ('s, 'a) op" where
  "deferred m f = (\<lambda>s. case m s of (r, t) \<Rightarrow> (r, snd (f t)))"

primrec for_each :: "'a list \<Rightarrow> ('a \<Rightarrow> ('s, unit) op) \<Rightarrow> ('s, unit) op" where
  "for_each [] f = ret ()"
| "for_each (x # xs) f = bnd (f x) (\<lambda>_. for_each xs f)"

primrec map_each :: "'a list \<Rightarrow> ('a \<Rightarrow> ('s, 'b) op) \<Rightarrow> ('s, 'b list) op" where
  "map_each [] f = ret []"
| "map_each (x # xs) f = bnd (f x) (\<lambda>y. bnd (map_each xs f) (\<lambda>ys. ret (y # ys)))"

text \<open>The handlers' answer to an error they do not tell apart.\<close>

definition or_busy :: "('s, 'a) op \<Rightarrow> ('s, 'a) op" where
  "or_busy m = bnd (attempt m) (\<lambda>r. case r of Inl _ \<Rightarrow> throw CodeServerBusy | Inr x \<Rightarrow> ret x)"

lemma ret_run [go_exec]: "ret x s = (Inr x, s)"
  by (simp add: ret_def)

lemma throw_run [go_exec]: "throw e s = (Inl e, s)"
  by (simp add: throw_def)

lemma gets_run [go_exec]: "gets f s = (Inr (f s), s)"
  by (simp add: gets_def)

lemma modify_run [go_exec]: "modify f s = (Inr (), f s)"
  by (simp add: modify_def)

lemma guarded_run [go_exec]: "guarded b m s = (if b then m s else (Inr (), s))"
  by (simp add: guarded_def ret_run)

text \<open>Running a sequence forwards: the result of the first part decides.\<close>

lemma bnd_Inl_run [go_exec]: "m s = (Inl e, t) \<Longrightarrow> bnd m f s = (Inl e, t)"
  by (simp add: bnd_def)

lemma bnd_Inr_run [go_exec]: "m s = (Inr x, t) \<Longrightarrow> bnd m f s = f x t"
  by (simp add: bnd_def)

lemma bnd_eq_Inr: "bnd m f s = (Inr y, t) \<longleftrightarrow> (\<exists>x u. m s = (Inr x, u) \<and> f x u = (Inr y, t))"
  by (auto simp: bnd_def split: prod.splits sum.splits)

lemma bnd_eq_Inl: "bnd m f s = (Inl e, t) \<longleftrightarrow>
    m s = (Inl e, t) \<or> (\<exists>x u. m s = (Inr x, u) \<and> f x u = (Inl e, t))"
  by (auto simp: bnd_def split: prod.splits sum.splits)

lemma attempt_eq_Inr: "attempt m s = (Inr r, t) \<longleftrightarrow> m s = (r, t) \<and> r \<noteq> Inl GoPanic"
  by (auto simp: attempt_def split: prod.splits sum.splits err.splits)

lemma attempt_eq_Inl: "attempt m s = (Inl e, t) \<longleftrightarrow> m s = (Inl e, t) \<and> e = GoPanic"
  by (auto simp: attempt_def split: prod.splits sum.splits err.splits)

lemma attempt_Inr_run [go_exec]: "m s = (Inr x, t) \<Longrightarrow> attempt m s = (Inr (Inr x), t)"
  by (simp add: attempt_eq_Inr)

lemma attempt_Inl_run [go_exec]:
  "m s = (Inl e, t) \<Longrightarrow> e \<noteq> GoPanic \<Longrightarrow> attempt m s = (Inr (Inl e), t)"
  by (simp add: attempt_eq_Inr)

lemma ignore_snd: "snd (ignore m s) = snd (m s)"
  by (cases "m s"; cases "fst (m s)")
    (auto simp: ignore_def bnd_def attempt_def ret_def split: err.splits)

lemma ignore_eq_Inr: "ignore m s = (Inr u, t) \<longleftrightarrow> (\<exists>r. m s = (r, t) \<and> r \<noteq> Inl GoPanic)"
  by (auto simp: ignore_def bnd_eq_Inr attempt_eq_Inr ret_def)

lemma ignore_eq_Inl: "ignore m s = (Inl e, t) \<longleftrightarrow> m s = (Inl e, t) \<and> e = GoPanic"
  by (auto simp: ignore_def bnd_eq_Inl attempt_eq_Inl ret_def)

lemma ret_eq: "ret x s = (r, t) \<longleftrightarrow> r = Inr x \<and> t = s"
  by (auto simp: ret_def)

lemma throw_eq: "throw e s = (r, t) \<longleftrightarrow> r = Inl e \<and> t = s"
  by (auto simp: throw_def)

lemma gets_eq: "gets f s = (r, t) \<longleftrightarrow> r = Inr (f s) \<and> t = s"
  by (auto simp: gets_def)

lemma modify_eq: "modify f s = (r, t) \<longleftrightarrow> r = Inr () \<and> t = f s"
  by (auto simp: modify_def)

text \<open>The equations above as eliminations, to run a computation that is known to have returned.\<close>

lemma bnd_InrE:
  assumes "bnd m f s = (Inr y, t)"
  obtains x u where "m s = (Inr x, u)" and "f x u = (Inr y, t)"
  using assms by (auto simp: bnd_eq_Inr)

lemma bnd_InlE:
  assumes "bnd m f s = (Inl e, t)"
  obtains (first) "m s = (Inl e, t)" | (second) x u where "m s = (Inr x, u)" and "f x u = (Inl e, t)"
  using assms by (auto simp: bnd_eq_Inl)

lemma ignore_InrE:
  assumes "ignore m s = (Inr y, t)"
  obtains r where "m s = (r, t)" and "r \<noteq> Inl GoPanic"
  using assms by (auto simp: ignore_eq_Inr)

lemmas op_eqs = attempt_eq_Inr attempt_eq_Inl ignore_eq_Inl ret_eq throw_eq gets_eq modify_eq guarded_run

lemmas op_elims = bnd_InrE bnd_InlE ignore_InrE

section \<open>Calls that may fail\<close>

record io_st =
  faults :: "bool list"

definition io :: "('r io_st_scheme, 'a) op \<Rightarrow> ('r io_st_scheme, 'a) op" where
  "io m = (\<lambda>s. case faults s of
       [] \<Rightarrow> m s
     | f # fs \<Rightarrow> (if f then (Inl IOError, s\<lparr>faults := fs\<rparr>) else m (s\<lparr>faults := fs\<rparr>)))"

text \<open>The state without its script: what an operation does to the data.\<close>

definition quiet :: "'r io_st_scheme \<Rightarrow> 'r io_st_scheme" where
  "quiet s = s\<lparr>faults := []\<rparr>"

lemma quiet_faults [simp]: "quiet (s\<lparr>faults := fs\<rparr>) = quiet s"
  by (simp add: quiet_def)

lemma faults_quiet [simp]: "faults (quiet s) = []"
  by (simp add: quiet_def)

lemma io_nil [go_exec]: "faults s = [] \<Longrightarrow> io m s = m s"
  by (simp add: io_def)

lemma io_cases:
  assumes "io m s = (r, t)"
  obtains (fail) fs where "r = Inl IOError" and "t = s\<lparr>faults := fs\<rparr>"
  | (run) fs where "m (s\<lparr>faults := fs\<rparr>) = (r, t)"
  using assms
proof (cases "faults s")
  case Nil
  then have "m (s\<lparr>faults := []\<rparr>) = (r, t)" using assms by (cases s) (simp add: io_def)
  then show ?thesis by (rule run)
next
  case (Cons f fs)
  with assms show ?thesis by (auto simp: io_def intro: fail run split: if_splits)
qed

lemma io_InrE:
  assumes "io m s = (Inr x, t)"
  obtains fs where "m (s\<lparr>faults := fs\<rparr>) = (Inr x, t)"
  using assms by (cases rule: io_cases) auto

lemma io_InlE:
  assumes "io m s = (Inl e, t)"
  obtains (fail) fs where "e = IOError" and "t = s\<lparr>faults := fs\<rparr>"
  | (run) fs where "m (s\<lparr>faults := fs\<rparr>) = (Inl e, t)"
  using assms by (cases rule: io_cases) auto

section \<open>Invariants of computations\<close>

text \<open>
  \<open>keeps I m\<close>: whatever \<open>m\<close> returns, it leaves \<open>I\<close> true. \<open>quietly I\<close>: \<open>I\<close> does not look at
  the script of faults.
\<close>

definition keeps :: "('s \<Rightarrow> bool) \<Rightarrow> ('s, 'a) op \<Rightarrow> bool" where
  "keeps I m \<longleftrightarrow> (\<forall>s. I s \<longrightarrow> I (snd (m s)))"

definition quietly :: "('r io_st_scheme \<Rightarrow> bool) \<Rightarrow> bool" where
  "quietly I \<longleftrightarrow> (\<forall>s fs. I (s\<lparr>faults := fs\<rparr>) = I s)"

named_theorems keeps_rules \<open>invariant preservation by computations\<close>

lemma keepsD: "keeps I m \<Longrightarrow> m s = (r, t) \<Longrightarrow> I s \<Longrightarrow> I t"
  by (metis keeps_def snd_conv)

lemma keepsI: "(\<And>s r t. m s = (r, t) \<Longrightarrow> I s \<Longrightarrow> I t) \<Longrightarrow> keeps I m"
  unfolding keeps_def by (metis prod.collapse)

lemma keeps_ret [keeps_rules]: "keeps I (ret x)"
  by (simp add: keeps_def ret_def)

lemma keeps_throw [keeps_rules]: "keeps I (throw e)"
  by (simp add: keeps_def throw_def)

lemma keeps_gets [keeps_rules]: "keeps I (gets f)"
  by (simp add: keeps_def gets_def)

lemma keeps_modify: "(\<And>s. I s \<Longrightarrow> I (f s)) \<Longrightarrow> keeps I (modify f)"
  by (simp add: keeps_def modify_def)

lemma keeps_bnd [keeps_rules]: "keeps I m \<Longrightarrow> (\<And>x. keeps I (f x)) \<Longrightarrow> keeps I (bnd m f)"
  by (fastforce simp: keeps_def bnd_def split: prod.splits sum.splits dest: spec)

lemma keeps_attempt [keeps_rules]: "keeps I m \<Longrightarrow> keeps I (attempt m)"
  by (fastforce simp: keeps_def attempt_def split: prod.splits sum.splits err.splits dest: spec)

lemma keeps_ignore [keeps_rules]: "keeps I m \<Longrightarrow> keeps I (ignore m)"
  by (simp add: keeps_def ignore_snd)

lemma keeps_deferred [keeps_rules]: "keeps I m \<Longrightarrow> keeps I f \<Longrightarrow> keeps I (deferred m f)"
  by (fastforce simp: keeps_def deferred_def split: prod.splits dest: spec)

lemma keeps_guarded [keeps_rules]: "keeps I m \<Longrightarrow> keeps I (guarded b m)"
  by (simp add: guarded_def keeps_ret)

lemma keeps_if [keeps_rules]: "keeps I m \<Longrightarrow> keeps I n \<Longrightarrow> keeps I (if b then m else n)"
  by simp

lemma keeps_case_option [keeps_rules]:
  "keeps I m \<Longrightarrow> (\<And>x. keeps I (f x)) \<Longrightarrow> keeps I (case v of None \<Rightarrow> m | Some x \<Rightarrow> f x)"
  by (simp split: option.split)

lemma keeps_case_sum [keeps_rules]:
  "(\<And>e. keeps I (f e)) \<Longrightarrow> (\<And>x. keeps I (g x)) \<Longrightarrow> keeps I (case r of Inl e \<Rightarrow> f e | Inr x \<Rightarrow> g x)"
  by (simp split: sum.split)

lemma keeps_case_prod [keeps_rules]:
  "(\<And>a b. keeps I (f a b)) \<Longrightarrow> keeps I (case p of (a, b) \<Rightarrow> f a b)"
  by (simp split: prod.split)

text \<open>A single call, by what it does to the state.\<close>

lemma keeps_call:
  assumes "quietly I" and "\<And>s. I s \<Longrightarrow> I (snd (f s))"
  shows "keeps I (io f)"
proof (rule keepsI)
  fix s r t
  assume run: "io f s = (r, t)" and "I s"
  from run show "I t"
  proof (cases rule: io_cases)
    case (run fs)
    from \<open>I s\<close> assms(1) have "I (s\<lparr>faults := fs\<rparr>)" by (simp add: quietly_def)
    with assms(2) [of "s\<lparr>faults := fs\<rparr>"] run show ?thesis by simp
  qed (use \<open>I s\<close> assms(1) in \<open>simp add: quietly_def\<close>)
qed

lemma keeps_io [keeps_rules]:
  assumes "quietly I" and "keeps I m" shows "keeps I (io m)"
proof (rule keepsI)
  fix s r t
  assume run: "io m s = (r, t)" and "I s"
  from run show "I t"
  proof (cases rule: io_cases)
    case (fail fs)
    with \<open>I s\<close> \<open>quietly I\<close> show ?thesis by (simp add: quietly_def)
  next
    case (run fs)
    moreover from \<open>I s\<close> \<open>quietly I\<close> have "I (s\<lparr>faults := fs\<rparr>)" by (simp add: quietly_def)
    ultimately show ?thesis using \<open>keeps I m\<close> by (rule keepsD [rotated 1])
  qed
qed

lemma keeps_for_each [keeps_rules]: "(\<And>x. keeps I (f x)) \<Longrightarrow> keeps I (for_each xs f)"
  by (induction xs) (auto intro: keeps_rules)

lemma keeps_map_each [keeps_rules]: "(\<And>x. keeps I (f x)) \<Longrightarrow> keeps I (map_each xs f)"
  by (induction xs) (auto intro: keeps_rules)

section \<open>Weakest preconditions\<close>

text \<open>
  \<open>wp m Q s\<close>: running \<open>m\<close> from \<open>s\<close> ends in a result and a state that satisfy \<open>Q\<close>. The equations
  \<open>wp_simps\<close> run the sequencing; a component adds one rule per operation to \<open>wp_rules\<close>.
\<close>

named_theorems wp_simps \<open>weakest preconditions of the sequencing operators\<close>
named_theorems wp_rules \<open>weakest preconditions of a component's operations\<close>

declare split_paired_All [simp del] split_paired_Ex [simp del]

definition wp :: "('s, 'a) op \<Rightarrow> (err + 'a \<Rightarrow> 's \<Rightarrow> bool) \<Rightarrow> 's \<Rightarrow> bool" where
  "wp m Q s \<longleftrightarrow> (case m s of (r, t) \<Rightarrow> Q r t)"

lemma wpD: "wp m Q s \<Longrightarrow> m s = (r, t) \<Longrightarrow> Q r t"
  by (simp add: wp_def)

lemma wpI: "(\<And>r t. m s = (r, t) \<Longrightarrow> Q r t) \<Longrightarrow> wp m Q s"
  by (auto simp: wp_def split: prod.splits)

lemma wp_run: "m s = (r, t) \<Longrightarrow> wp m Q s = Q r t"
  by (simp add: wp_def)

lemma wp_mono: "wp m P s \<Longrightarrow> (\<And>r t. P r t \<Longrightarrow> Q r t) \<Longrightarrow> wp m Q s"
  by (auto simp: wp_def split: prod.splits)

lemma wp_conj: "wp m P s \<Longrightarrow> wp m Q s \<Longrightarrow> wp m (\<lambda>r t. P r t \<and> Q r t) s"
  by (auto simp: wp_def split: prod.splits)

lemma wp_keeps: "keeps I m \<Longrightarrow> I s \<Longrightarrow> wp m (\<lambda>_ t. I t) s"
  by (auto intro!: wpI dest: keepsD)

text \<open>An operation that leaves the view \<open>f\<close> of the state alone.\<close>

lemma wp_view:
  assumes "keeps (\<lambda>q. f q = f s) m" and "\<And>r t. f t = f s \<Longrightarrow> Q r t"
  shows "wp m Q s"
  using assms by (auto intro!: wpI dest: keepsD)

lemma keeps_wpI: "(\<And>s. I s \<Longrightarrow> wp m (\<lambda>_ t. I t) s) \<Longrightarrow> keeps I m"
  by (auto intro!: keepsI dest: wpD)

lemma wp_True [wp_simps, simp]: "wp m (\<lambda>_ _. True) s"
  by (simp add: wp_def split: prod.splits)

lemma wp_ret [wp_simps]: "wp (ret x) Q s = Q (Inr x) s"
  by (simp add: wp_def ret_def)

lemma wp_throw [wp_simps]: "wp (throw e) Q s = Q (Inl e) s"
  by (simp add: wp_def throw_def)

lemma wp_gets [wp_simps]: "wp (gets f) Q s = Q (Inr (f s)) s"
  by (simp add: wp_def gets_def)

lemma wp_modify [wp_simps]: "wp (modify f) Q s = Q (Inr ()) (f s)"
  by (simp add: wp_def modify_def)

lemma wp_bnd [wp_simps]: "wp (bnd m f) Q s =
    wp m (\<lambda>r t. (\<forall>e. r = Inl e \<longrightarrow> Q (Inl e) t) \<and> (\<forall>x. r = Inr x \<longrightarrow> wp (f x) Q t)) s"
  by (auto simp: wp_def bnd_def split: prod.splits sum.splits)

lemma wp_bnd_view:
  assumes "keeps (\<lambda>q. f q = f s) m" and "\<And>e t. f t = f s \<Longrightarrow> Q (Inl e) t"
    and "\<And>x t. f t = f s \<Longrightarrow> wp (g x) Q t"
  shows "wp (bnd m g) Q s"
  unfolding wp_bnd by (rule wp_view [of f, OF assms(1)]) (auto intro: assms)

lemma wp_attempt [wp_simps]: "wp (attempt m) Q s =
    wp m (\<lambda>r t. if r = Inl GoPanic then Q (Inl GoPanic) t else Q (Inr r) t) s"
  by (auto simp: wp_def attempt_def split: prod.splits sum.splits err.splits)

lemma wp_ignore [wp_simps]: "wp (ignore m) Q s =
    wp m (\<lambda>r t. if r = Inl GoPanic then Q (Inl GoPanic) t else Q (Inr ()) t) s"
  by (auto simp: ignore_def wp_simps intro: wp_mono)

lemma wp_deferred [wp_simps]: "wp (deferred m f) Q s = wp m (\<lambda>r t. wp f (\<lambda>_ u. Q r u) t) s"
  by (simp add: wp_def deferred_def split: prod.splits)

lemma wp_if [wp_simps]: "wp (if b then m else n) Q s = (if b then wp m Q s else wp n Q s)"
  by simp

lemma wp_guarded [wp_simps]: "wp (guarded b m) Q s = (if b then wp m Q s else Q (Inr ()) s)"
  by (simp add: guarded_def wp_ret)

lemma wp_io:
  assumes "\<And>fs. Q (Inl IOError) (s\<lparr>faults := fs\<rparr>)" and "\<And>fs. wp m Q (s\<lparr>faults := fs\<rparr>)"
  shows "wp (io m) Q s"
  by (rule wpI, erule io_cases) (auto intro: assms dest: wpD [OF assms(2)])

text \<open>
  Two shorthands for runs of steps: \<open>ends P m Q\<close> takes every state in \<open>P\<close> to one in \<open>Q\<close>, \<open>ok P m Q\<close> does so
  without an error.
\<close>

definition ends :: "('s \<Rightarrow> bool) \<Rightarrow> ('s, 'a) op \<Rightarrow> ('s \<Rightarrow> bool) \<Rightarrow> bool" where
  "ends P m Q \<longleftrightarrow> (\<forall>s r t. P s \<longrightarrow> m s = (r, t) \<longrightarrow> Q t)"

definition ok :: "('s \<Rightarrow> bool) \<Rightarrow> ('s, unit) op \<Rightarrow> ('s \<Rightarrow> bool) \<Rightarrow> bool" where
  "ok P m Q \<longleftrightarrow> (\<forall>s r t. P s \<longrightarrow> m s = (r, t) \<longrightarrow> r = Inr () \<and> Q t)"

lemma okI: "(\<And>s r t. P s \<Longrightarrow> m s = (r, t) \<Longrightarrow> r = Inr () \<and> Q t) \<Longrightarrow> ok P m Q"
  by (simp add: ok_def)

lemma endsI: "(\<And>s r t. P s \<Longrightarrow> m s = (r, t) \<Longrightarrow> Q t) \<Longrightarrow> ends P m Q"
  by (simp add: ends_def)

lemma endsD: "ends P m Q \<Longrightarrow> m s = (r, t) \<Longrightarrow> P s \<Longrightarrow> Q t"
  by (simp add: ends_def)

lemma ends_keeps: "ends I m I = keeps I m"
proof
  assume "ends I m I"
  then show "keeps I m" by (intro keepsI) (erule endsD)
next
  assume "keeps I m"
  then show "ends I m I" by (intro endsI) (erule keepsD)
qed

lemma ends_ok: "ok P m Q \<Longrightarrow> ends P m Q"
  by (simp add: ends_def ok_def)

lemma okD: "ok P m Q \<Longrightarrow> m s = (r, t) \<Longrightarrow> P s \<Longrightarrow> r = Inr () \<and> Q t"
  by (simp add: ok_def)

lemma ends_then:
  assumes first: "ok P m P'" and rest: "ends P' (f ()) Q"
  shows "ends P (bnd m f) Q"
proof (rule endsI)
  fix s r t
  assume "P s" and run: "bnd m f s = (r, t)"
  obtain r1 u where m: "m s = (r1, u)" by (metis prod.collapse)
  from okD [OF first m \<open>P s\<close>] have "r1 = Inr ()" and "P' u" by simp_all
  with run m have "f () u = (r, t)" by (simp add: bnd_def)
  with rest show "Q t" using \<open>P' u\<close> by (rule endsD)
qed

lemma ends_throw: "(\<And>s. P s \<Longrightarrow> Q s) \<Longrightarrow> ends P (throw e) Q"
  by (simp add: ends_def throw_eq)

lemma ends_ret: "(\<And>s. P s \<Longrightarrow> Q s) \<Longrightarrow> ends P (ret x) Q"
  by (simp add: ends_def ret_eq)

section \<open>Transactions\<close>

text \<open>
  \<open>db.Transaction(func(tx) error { \<dots> })\<close>: BEGIN and COMMIT are calls that may fail; when the body
  returns an error, panics, or the COMMIT fails, the tables are what they were before
  (\<open>rollback old new\<close> is \<open>new\<close> with the tables of \<open>old\<close>). What the body did outside MySQL stays.
\<close>

definition tx ::
  "('r io_st_scheme \<Rightarrow> 'r io_st_scheme \<Rightarrow> 'r io_st_scheme) \<Rightarrow>
   ('r io_st_scheme, 'a) op \<Rightarrow> ('r io_st_scheme, 'a) op" where
  "tx rollback body = (\<lambda>s. case io (ret ()) s of
       (Inl e, s1) \<Rightarrow> (Inl e, s1)
     | (Inr _, s1) \<Rightarrow>
        (case body s1 of
           (Inl e, s2) \<Rightarrow> (Inl e, rollback s1 s2)
         | (Inr x, s2) \<Rightarrow>
            (case io (ret ()) s2 of
               (Inl e, s3) \<Rightarrow> (Inl e, rollback s1 s3)
             | (Inr _, s3) \<Rightarrow> (Inr x, s3))))"

text \<open>What a transaction's body and the rollback both keep, the transaction keeps.\<close>

lemma keeps_tx [keeps_rules]:
  assumes quiet: "quietly I" and roll: "\<And>s t. I s \<Longrightarrow> I t \<Longrightarrow> I (rollback s t)" and body: "keeps I body"
  shows "keeps I (tx rollback body)"
proof (rule keepsI)
  fix s r t
  assume run: "tx rollback body s = (r, t)" and "I s"
  have io: "keeps I (io (ret () :: ('a io_st_scheme, unit) op))"
    using quiet by (intro keeps_rules)
  obtain r1 s1 where start: "io (ret ()) s = (r1, s1)" by (metis prod.collapse)
  from io start \<open>I s\<close> have s1: "I s1" by (rule keepsD)
  obtain r2 s2 where mid: "body s1 = (r2, s2)" by (metis prod.collapse)
  from body mid s1 have s2: "I s2" by (rule keepsD)
  obtain r3 s3 where commit: "io (ret ()) s2 = (r3, s3)" by (metis prod.collapse)
  from io commit s2 have s3: "I s3" by (rule keepsD)
  from run start mid commit \<open>I s\<close> s1 s2 s3 roll show "I t"
    by (auto simp: tx_def split: sum.splits)
qed

section \<open>Computations that never panic\<close>

definition no_panic :: "('s, 'a) op \<Rightarrow> bool" where
  "no_panic m \<longleftrightarrow> (\<forall>s. fst (m s) \<noteq> Inl GoPanic)"

named_theorems no_panic_rules \<open>computations that never panic\<close>

lemma no_panic_iff: "no_panic m \<longleftrightarrow> (\<forall>s t. m s \<noteq> (Inl GoPanic, t))"
  unfolding no_panic_def by (metis fst_conv prod.collapse)

lemma no_panicD: "no_panic m \<Longrightarrow> m s \<noteq> (Inl GoPanic, t)"
  by (simp add: no_panic_iff)

lemma no_panic_basic [no_panic_rules]: "no_panic (ret x)" "no_panic (gets f)" "no_panic (modify g)"
  by (simp_all add: no_panic_def ret_def gets_def modify_def)

lemma no_panic_throw [no_panic_rules]: "e \<noteq> GoPanic \<Longrightarrow> no_panic (throw e)"
  by (simp add: no_panic_def throw_def)

lemma no_panic_bnd [no_panic_rules]: "no_panic m \<Longrightarrow> (\<And>x. no_panic (f x)) \<Longrightarrow> no_panic (bnd m f)"
  by (auto simp: no_panic_iff bnd_eq_Inl)

text \<open>After an error that was caught, the handler may rely on it not being a panic.\<close>

lemma no_panic_bnd_attempt [no_panic_rules]:
  assumes "no_panic m" and "\<And>e. e \<noteq> GoPanic \<Longrightarrow> no_panic (f (Inl e))" and "\<And>x. no_panic (f (Inr x))"
  shows "no_panic (bnd (attempt m) f)"
proof -
  have "f r s \<noteq> (Inl GoPanic, t)" if "r \<noteq> Inl GoPanic" for r s t
    using that assms(2,3) by (cases r) (auto simp: no_panic_iff)
  with assms(1) show ?thesis by (auto simp: no_panic_iff bnd_eq_Inl attempt_eq_Inl attempt_eq_Inr)
qed

lemma no_panic_ignore [no_panic_rules]: "no_panic m \<Longrightarrow> no_panic (ignore m)"
  unfolding ignore_def by (intro no_panic_rules) simp_all

lemma no_panic_if [no_panic_rules]: "(b \<Longrightarrow> no_panic m) \<Longrightarrow> (\<not> b \<Longrightarrow> no_panic n) \<Longrightarrow> no_panic (if b then m else n)"
  by simp

lemma no_panic_guarded [no_panic_rules]: "no_panic m \<Longrightarrow> no_panic (guarded b m)"
  by (simp add: guarded_def no_panic_basic(1))

lemma no_panic_case_option [no_panic_rules]:
  "no_panic m \<Longrightarrow> (\<And>x. no_panic (f x)) \<Longrightarrow> no_panic (case v of None \<Rightarrow> m | Some x \<Rightarrow> f x)"
  by (simp split: option.split)

lemma no_panic_case_Inl [no_panic_rules]: "no_panic (f e) \<Longrightarrow> no_panic (case Inl e of Inl e \<Rightarrow> f e | Inr x \<Rightarrow> g x)"
  by simp

lemma no_panic_case_Inr [no_panic_rules]: "no_panic (g x) \<Longrightarrow> no_panic (case Inr x of Inl e \<Rightarrow> f e | Inr x \<Rightarrow> g x)"
  by simp

lemma no_panic_call: "(\<And>s. fst (f s) \<noteq> Inl GoPanic) \<Longrightarrow> no_panic (io f)"
  by (simp add: no_panic_def io_def split: list.split)

lemma no_panic_io_gets [no_panic_rules]: "no_panic (io (gets f))" "no_panic (io (modify g))" "no_panic (io (ret x))"
  by (intro no_panic_call; simp add: gets_run modify_run ret_run)+

lemma no_panic_tx [no_panic_rules]:
  assumes "no_panic body" shows "no_panic (tx rollback body)"
proof -
  have "io (ret ()) s \<noteq> (Inl GoPanic, t)" for s t :: "'a io_st_scheme"
    by (rule no_panicD [OF no_panic_call]) (simp add: ret_def)
  with assms show ?thesis
    by (auto simp: no_panic_iff tx_def split: prod.splits sum.splits)
qed

section \<open>Runs without failing calls\<close>

text \<open>Without failing calls: \<open>calm\<close>. The operations keep it.\<close>

definition calm :: "'r io_st_scheme \<Rightarrow> bool" where
  "calm s \<longleftrightarrow> faults s = []"

lemma keeps_calm_io [keeps_rules]: "keeps calm m \<Longrightarrow> keeps calm (io m)"
  by (auto simp: keeps_def calm_def io_nil)

lemma keeps_calm_call: "(\<And>s. faults (snd (f s)) = faults s) \<Longrightarrow> keeps calm (io f)"
  by (rule keeps_calm_io) (simp add: keeps_def calm_def)

lemma wp_io_calm: "calm s \<Longrightarrow> wp (io m) Q s = wp m Q s"
  by (simp add: wp_def calm_def io_nil)

lemma tx_calm_result:
  assumes "calm s" and "keeps calm body"
  shows "tx rollback body s = (case body s of (Inl e, t) \<Rightarrow> (Inl e, rollback s t) | (Inr x, t) \<Rightarrow> (Inr x, t))"
proof -
  obtain r t where b: "body s = (r, t)" by (metis prod.collapse)
  with assms have "calm t" by (auto dest: keepsD)
  with assms(1) b show ?thesis by (simp add: tx_def io_nil calm_def ret_run split: sum.split)
qed

lemma keeps_calm_tx:
  assumes "keeps calm body" and "\<And>s t. faults (rollback s t) = faults t"
  shows "keeps calm (tx rollback body)"
proof (rule keepsI)
  fix s r t
  assume run: "tx rollback body s = (r, t)" and s: "calm s"
  obtain r1 s1 where b: "body s = (r1, s1)" by (metis prod.collapse)
  with assms(1) s have "calm s1" by (blast dest: keepsD)
  with run b s assms show "calm t"
    by (auto simp: tx_calm_result split: sum.splits) (auto simp: calm_def)
qed

section \<open>The interface of a store\<close>

text \<open>
  The interface between a component's tables and \<open>tx\<close>: what a rollback promises. Each component
  with tables interprets it; the client's facts about atomicity are proved once, here.
\<close>

locale store_tx =
  fixes rollback :: "'r io_st_scheme \<Rightarrow> 'r io_st_scheme \<Rightarrow> 'r io_st_scheme"
    and tables :: "'r io_st_scheme \<Rightarrow> 'd"
  assumes tables_rollback: "tables (rollback s t) = tables s"
    and tables_faults: "tables (s\<lparr>faults := fs\<rparr>) = tables s"
begin

lemma io_ret_cases:
  assumes "io (ret ()) s = (r, t)"
  shows "tables t = tables s \<and> quiet t = quiet s"
  using assms
  by (cases rule: io_cases) (auto simp: ret_eq tables_faults)

text \<open>A transaction that returns an error leaves the tables alone.\<close>

lemma tx_error_tables:
  assumes "tx rollback body s = (Inl e, t)"
  shows "tables t = tables s"
  using assms
  by (auto simp: tx_def tables_rollback split: prod.splits sum.splits dest: io_ret_cases)

text \<open>A transaction that succeeds ran its body from the same data, to the same data.\<close>

lemma tx_success:
  assumes "tx rollback body s = (Inr x, t)"
  obtains s1 s2 where "quiet s1 = quiet s" and "tables s1 = tables s"
    and "body s1 = (Inr x, s2)" and "quiet t = quiet s2" and "tables t = tables s2"
  using assms
  by (auto simp: tx_def split: prod.splits sum.splits dest!: io_ret_cases)

text \<open>An error other than that of BEGIN or COMMIT is the body's own.\<close>

lemma tx_error_body:
  assumes "tx rollback body s = (Inl e, t)" and "e \<noteq> IOError"
  obtains s1 s2 where "quiet s1 = quiet s" and "tables s1 = tables s" and "body s1 = (Inl e, s2)"
proof -
  have "e' = IOError" if "io (ret ()) q = (Inl e', q')" for q q' :: "'r io_st_scheme" and e'
    using that by (auto simp: ret_eq elim: io_InlE)
  with assms obtain x s1 s2 where "io (ret ()) s = (Inr x, s1)" and "body s1 = (Inl e, s2)"
    by (auto simp: tx_def split: prod.splits sum.splits)
  with io_ret_cases show thesis by (blast intro: that)
qed

text \<open>An invariant of the tables that the body re-establishes when it succeeds is kept.\<close>

lemma tx_keeps:
  assumes inv: "\<And>s t. tables s = tables t \<Longrightarrow> I s = I t"
    and body: "\<And>s x t. I s \<Longrightarrow> body s = (Inr x, t) \<Longrightarrow> I t"
  shows "keeps I (tx rollback body)"
proof (rule keepsI)
  fix s r t
  assume run: "tx rollback body s = (r, t)" and "I s"
  show "I t"
  proof (cases r)
    case (Inl e)
    with run have "tables t = tables s" by (simp add: tx_error_tables)
    with \<open>I s\<close> inv show ?thesis by blast
  next
    case (Inr x)
    with run obtain s1 s2 where "tables s1 = tables s"
      and "body s1 = (Inr x, s2)" and "tables t = tables s2"
      by (auto elim: tx_success)
    with \<open>I s\<close> inv body show ?thesis by metis
  qed
qed

end

text \<open>
  The extended interface: \<open>rest\<close> is the state beside the tables, which a rollback does not bring back.
  When the body leaves it alone, so does the transaction, and \<open>wp_tx\<close> is all a client needs.
\<close>

locale store_tx_rest = store_tx +
  fixes rest :: "'a io_st_scheme \<Rightarrow> 'e"
  assumes rest_rollback: "rest (rollback s t) = rest t"
    and rest_faults: "rest (s\<lparr>faults := fs\<rparr>) = rest s"
begin

lemma quietly_rest: "quietly (\<lambda>s. rest s = c)"
  by (simp add: quietly_def rest_faults)

lemma keeps_rest_tx:
  assumes "keeps (\<lambda>s. rest s = c) body"
  shows "keeps (\<lambda>s. rest s = c) (tx rollback body)"
  using assms by (intro keeps_tx quietly_rest) (simp_all add: rest_rollback)

lemma keeps_rest_io:
  assumes "\<And>s. rest (snd (f s)) = rest s"
  shows "keeps (\<lambda>s. rest s = c) (io f)"
  by (intro keeps_io quietly_rest) (simp add: keeps_def assms)

lemma wp_tx:
  assumes body: "keeps (\<lambda>q. rest q = rest s) body"
    and error: "\<And>e t. tables t = tables s \<Longrightarrow> rest t = rest s \<Longrightarrow>
      (e = IOError \<or> (\<exists>s1 s2. tables s1 = tables s \<and> quiet s1 = quiet s \<and> body s1 = (Inl e, s2))) \<Longrightarrow> Q (Inl e) t"
    and success: "\<And>x t s1 s2. quiet s1 = quiet s \<Longrightarrow> tables s1 = tables s \<Longrightarrow> body s1 = (Inr x, s2) \<Longrightarrow>
      tables t = tables s2 \<Longrightarrow> rest t = rest s \<Longrightarrow> Q (Inr x) t"
  shows "wp (tx rollback body) Q s"
proof (rule wpI)
  fix r t
  assume run: "tx rollback body s = (r, t)"
  from keepsD [OF keeps_rest_tx [OF body] run] have same: "rest t = rest s" by simp
  show "Q r t"
  proof (cases r)
    case (Inl e)
    with run have "e = IOError \<or> (\<exists>s1 s2. tables s1 = tables s \<and> quiet s1 = quiet s \<and> body s1 = (Inl e, s2))"
      using tx_error_body by metis
    with run Inl same show ?thesis by (simp add: error tx_error_tables)
  next
    case (Inr x)
    with run obtain s1 s2 where "quiet s1 = quiet s" "tables s1 = tables s" "body s1 = (Inr x, s2)" "tables t = tables s2"
      by (auto elim: tx_success)
    with Inr same show ?thesis by (simp add: success)
  qed
qed

end

end
