(* ===== verification/Table.thy ===== *)
theory Table
  imports GoPrelude
begin

text \<open>
  MySQL tables as lists of rows, in insertion order, and the three statements the repositories
  issue on them: a lookup by key, an INSERT that fails on a duplicate key, and an UPDATE with a
  WHERE clause. The lemmas say what each does to lookups, to the key column and to sums over it.
\<close>

definition row_of :: "('r \<Rightarrow> 'k) \<Rightarrow> 'k \<Rightarrow> 'r list \<Rightarrow> 'r option" where
  "row_of key k rows = find (\<lambda>r. key r = k) rows"

definition has_row :: "('r \<Rightarrow> 'k) \<Rightarrow> 'k \<Rightarrow> 'r list \<Rightarrow> bool" where
  "has_row key k rows \<longleftrightarrow> (\<exists>r \<in> set rows. key r = k)"

definition upd_rows :: "('r \<Rightarrow> bool) \<Rightarrow> ('r \<Rightarrow> 'r) \<Rightarrow> 'r list \<Rightarrow> 'r list" where
  "upd_rows P f rows = map (\<lambda>r. if P r then f r else r) rows"

definition del_rows :: "('r \<Rightarrow> bool) \<Rightarrow> 'r list \<Rightarrow> 'r list" where
  "del_rows P rows = filter (\<lambda>r. \<not> P r) rows"

text \<open>\<open>First\<close>: the matching row with the least primary key.\<close>

definition first_row :: "('r \<Rightarrow> 'k::linorder) \<Rightarrow> ('r \<Rightarrow> bool) \<Rightarrow> 'r list \<Rightarrow> 'r option" where
  "first_row key P rows = (case sort_key key (filter P rows) of [] \<Rightarrow> None | r # _ \<Rightarrow> Some r)"

definition sum_rows :: "('r \<Rightarrow> int) \<Rightarrow> ('r \<Rightarrow> bool) \<Rightarrow> 'r list \<Rightarrow> int" where
  "sum_rows f P rows = sum_list (map f (filter P rows))"

definition count_rows :: "('r \<Rightarrow> bool) \<Rightarrow> 'r list \<Rightarrow> nat" where
  "count_rows P rows = length (filter P rows)"

lemma row_of_Nil [simp]: "row_of key k [] = None"
  by (simp add: row_of_def)

lemma row_of_Cons [simp]:
  "row_of key k (r # rows) = (if key r = k then Some r else row_of key k rows)"
  by (simp add: row_of_def)

lemma row_of_Some_in: "row_of key k rows = Some r \<Longrightarrow> r \<in> set rows \<and> key r = k"
  by (induction rows) (auto split: if_splits)

lemma row_of_None: "row_of key k rows = None \<longleftrightarrow> \<not> has_row key k rows"
  by (induction rows) (auto simp: has_row_def)

lemma row_of_None_notin: "row_of key k rows = None \<longleftrightarrow> k \<notin> key ` set rows"
  by (induction rows) auto

lemma row_of_in: "distinct (map key rows) \<Longrightarrow> r \<in> set rows \<Longrightarrow> row_of key (key r) rows = Some r"
  by (induction rows) (auto simp: image_iff)

lemma row_of_append [simp]: "row_of key k (rows @ rows') =
    (case row_of key k rows of None \<Rightarrow> row_of key k rows' | Some r \<Rightarrow> Some r)"
  by (induction rows) auto

lemma row_of_upd [simp]:
  assumes "\<And>r. key (f r) = key r"
  shows "row_of key k (upd_rows P f rows) = map_option (\<lambda>r. if P r then f r else r) (row_of key k rows)"
  by (induction rows) (auto simp: upd_rows_def assms)

lemma map_key_upd [simp]: "(\<And>r. key (f r) = key r) \<Longrightarrow> map key (upd_rows P f rows) = map key rows"
  by (induction rows) (auto simp: upd_rows_def)

lemma length_upd [simp]: "length (upd_rows P f rows) = length rows"
  by (simp add: upd_rows_def)

lemma set_upd: "r \<in> set (upd_rows P f rows) \<longleftrightarrow> (\<exists>q \<in> set rows. r = (if P q then f q else q))"
  by (auto simp: upd_rows_def)

lemma has_row_upd [simp]:
  "(\<And>r. key (f r) = key r) \<Longrightarrow> has_row key k (upd_rows P f rows) = has_row key k rows"
  by (auto simp: has_row_def upd_rows_def)

lemma has_row_snoc [simp]: "has_row key k (rows @ [r]) \<longleftrightarrow> has_row key k rows \<or> key r = k"
  by (auto simp: has_row_def)

lemma has_row_Nil [simp]: "\<not> has_row key k []"
  by (simp add: has_row_def)

lemma row_of_has_row: "row_of key k rows = Some r \<Longrightarrow> has_row key k rows"
  by (auto simp: has_row_def dest: row_of_Some_in)

lemma not_has_row_notin: "\<not> has_row key k rows \<longleftrightarrow> k \<notin> key ` set rows"
  by (auto simp: has_row_def)

lemma upd_rows_none: "(\<And>r. r \<in> set rows \<Longrightarrow> \<not> P r) \<Longrightarrow> upd_rows P f rows = rows"
  by (induction rows) (auto simp: upd_rows_def)

lemma sum_rows_Nil [simp]: "sum_rows f P [] = 0"
  by (simp add: sum_rows_def)

lemma sum_rows_snoc [simp]: "sum_rows f P (rows @ [r]) = sum_rows f P rows + (if P r then f r else 0)"
  by (simp add: sum_rows_def)

lemma count_rows_snoc [simp]: "count_rows P (rows @ [r]) = count_rows P rows + (if P r then 1 else 0)"
  by (simp add: count_rows_def)

lemma first_row_Some: "first_row key P rows = Some r \<Longrightarrow>
    r \<in> set rows \<and> P r \<and> (\<forall>q \<in> set rows. P q \<longrightarrow> key r \<le> key q)"
proof -
  assume first: "first_row key P rows = Some r"
  then obtain rs where sorted: "sort_key key (filter P rows) = r # rs"
    by (auto simp: first_row_def split: list.splits)
  then have "sorted (map key (r # rs))" by (metis sorted_sort_key)
  moreover have "set (r # rs) = set (filter P rows)" by (metis sorted set_sort)
  ultimately show ?thesis by auto
qed

lemma first_row_None: "first_row key P rows = None \<longleftrightarrow> (\<forall>r \<in> set rows. \<not> P r)"
proof -
  have "first_row key P rows = None \<longleftrightarrow> sort_key key (filter P rows) = []"
    by (auto simp: first_row_def split: list.splits)
  also have "\<dots> \<longleftrightarrow> filter P rows = []" by (metis length_0_conv length_sort)
  finally show ?thesis by (auto simp: filter_empty_conv)
qed

lemma count_rows_zero: "count_rows P rows = 0 \<longleftrightarrow> (\<forall>r \<in> set rows. \<not> P r)"
  by (auto simp: count_rows_def filter_empty_conv)

text \<open>An UPDATE that hits exactly one row, by its key, takes one row out of a count.\<close>

lemma count_rows_upd_one:
  assumes "distinct (map key rows)" and "r \<in> set rows" and "Q r" and "\<not> Q (f r)"
    and "\<And>q. P q \<longleftrightarrow> key q = key r"
  shows "count_rows Q (upd_rows P f rows) + 1 = count_rows Q rows"
  using assms(1,2)
proof (induction rows)
  case Nil
  then show ?case by simp
next
  case (Cons q rows)
  show ?case
  proof (cases "q = r")
    case True
    with Cons.prems have "\<And>x. x \<in> set rows \<Longrightarrow> \<not> P x" by (auto simp: assms(5) image_iff)
    then have "upd_rows P f rows = rows" by (rule upd_rows_none)
    with True show ?thesis by (simp add: upd_rows_def assms count_rows_def)
  next
    case False
    with Cons.prems have "key q \<noteq> key r" by (auto simp: image_iff)
    with False Cons show ?thesis by (auto simp: upd_rows_def assms(5) count_rows_def)
  qed
qed

lemma sum_rows_upd_eq:
  assumes "\<And>r. P (f r) = P r" and "\<And>r. g (f r) = g r"
  shows "sum_rows g P (upd_rows Q f rows) = sum_rows g P rows"
  by (induction rows) (auto simp: upd_rows_def sum_rows_def assms)

lemma row_of_del: "row_of key k (del_rows (\<lambda>r. key r = i) rows) = (if k = i then None else row_of key k rows)"
  by (induction rows) (auto simp: del_rows_def)

lemma row_of_put:
  "key r = k' \<Longrightarrow> k \<noteq> k' \<Longrightarrow> row_of key k (upd_rows (\<lambda>q. key q = k') (\<lambda>_. r) rows) = row_of key k rows"
  by (induction rows) (auto simp: upd_rows_def)

lemma map_key_put: "key r = k \<Longrightarrow> map key (upd_rows (\<lambda>q. key q = k) (\<lambda>_. r) rows) = map key rows"
  by (induction rows) (auto simp: upd_rows_def)

lemma distinct_key_del: "distinct (map key rows) \<Longrightarrow> distinct (map key (del_rows P rows))"
  by (simp add: del_rows_def distinct_map_filter)

text \<open>Rows that a query does not select may change.\<close>

lemma filter_upd_other:
  "(\<And>q. q \<in> set rows \<Longrightarrow> P q \<Longrightarrow> \<not> Q q) \<Longrightarrow> \<not> Q r \<Longrightarrow> filter Q (upd_rows P (\<lambda>_. r) rows) = filter Q rows"
  by (induction rows) (auto simp: upd_rows_def)

lemma filter_del_other:
  "(\<And>q. q \<in> set rows \<Longrightarrow> P q \<Longrightarrow> \<not> Q q) \<Longrightarrow> filter Q (del_rows P rows) = filter Q rows"
  by (induction rows) (auto simp: del_rows_def)

lemma row_of_unique: "distinct (map key rows) \<Longrightarrow> row_of key k rows = Some r \<Longrightarrow> q \<in> set rows \<Longrightarrow> key q = k \<Longrightarrow> q = r"
  by (metis option.inject row_of_in)

end
