(* ===== verification/Tool.thy ===== *)
theory Tool
  imports GoPrelude "HOL-Library.Word"
begin

text \<open>
  The package \<open>tool\<close> (src/tool): business errors and their HTTP rendering (tool.go), and the
  stable idempotency key of a points transaction (points_txn_id.go), a 64-bit FNV-1a hash of the
  beneficiary and of the business reference. The properties are about collisions of that key: it is
  never 0, and references that differ in one byte never share it.
\<close>

unbundle bit_operations_syntax

section \<open>Strings\<close>

text \<open>A Go string is a sequence of bytes; the Chinese literals are given by their UTF-8 bytes.\<close>

definition utf8 :: "nat list \<Rightarrow> string" where
  "utf8 bs = map char_of bs"

definition bytes :: "string \<Rightarrow> u8 list" where
  "bytes cs = map (\<lambda>c. of_nat (of_char c)) cs"

section \<open>Business errors\<close>

text \<open>HTTP status and business code of the \<open>BizError\<close> values; any other error is \<open>None\<close>.
  \<open>ResponseErrorWithMsg\<close> answers 400 without a code, here 0.\<close>

fun biz_error :: "err \<Rightarrow> (nat \<times> nat) option" where
  "biz_error ErrWalletNotFound = Some (404, 40020)"
| "biz_error ErrInsufficientBalance = Some (400, 40021)"
| "biz_error ErrConcurrentModify = Some (409, 40022)"
| "biz_error ErrDailyLimitExceeded = Some (400, 40024)"
| "biz_error ErrAlreadyCheckedIn = Some (400, 40030)"
| "biz_error ErrMallProductNotFound = Some (404, 40030)"
| "biz_error ErrMallOutOfStock = Some (400, 40031)"
| "biz_error ErrMallRedeemBusy = Some (409, 40032)"
| "biz_error ErrGameOutOfStock = Some (400, 40041)"
| "biz_error ErrInsufficientAccount = Some (400, 40042)"
| "biz_error ErrGameInvalidParam = Some (400, 40001)"
| "biz_error ErrCodeInvalidParam = Some (400, 40001)"
| "biz_error ErrInvalidToken = Some (401, 40002)"
| "biz_error CodeServerBusy = Some (500, 50001)"
| "biz_error ErrInternalServer = Some (500, 50000)"
| "biz_error ErrCommentNotFound = Some (404, 40011)"
| "biz_error ErrCommentNoPermission = Some (403, 40012)"
| "biz_error ErrInvalidTopicName = Some (400, 40001)"
| "biz_error MsgError = Some (400, 0)"
| "biz_error (BizErr h c) = Some (h, c)"
| "biz_error _ = None"

text \<open>
  \<open>ResponseError\<close>: nothing is written for a nil error; a business error is rendered with its own
  status and code, anything else as 500 / 50000.
\<close>

definition response_error :: "err option \<Rightarrow> (nat \<times> nat) option" where
  "response_error e = (case e of
       None \<Rightarrow> None
     | Some e \<Rightarrow> (case biz_error e of Some hc \<Rightarrow> Some hc | None \<Rightarrow> Some (500, 50000)))"

section \<open>FNV-1a\<close>

definition fnv_offset :: u64 where "fnv_offset = 14695981039346656037"

definition fnv_prime :: u64 where "fnv_prime = 1099511628211"

definition fnv_byte :: "u64 \<Rightarrow> u8 \<Rightarrow> u64" where
  "fnv_byte h b = (h XOR ucast b) * fnv_prime"

definition fnv_write :: "u64 \<Rightarrow> u8 list \<Rightarrow> u64" where
  "fnv_write h bs = foldl fnv_byte h bs"

definition put_uint64_le :: "u64 \<Rightarrow> u8 list" where
  "put_uint64_le x = map (\<lambda>i. ucast (drop_bit (8 * i) x)) [0..<8]"

definition txn_id_input :: "u64 \<Rightarrow> string \<Rightarrow> u64 \<Rightarrow> u64 \<Rightarrow> u8 list" where
  "txn_id_input user ref_type ref_id salt =
     put_uint64_le user @ [0] @ bytes ref_type @ [0] @ put_uint64_le ref_id @ put_uint64_le salt"

definition points_stable_txn_id :: "u64 \<Rightarrow> string \<Rightarrow> u64 \<Rightarrow> u64 \<Rightarrow> u64" where
  "points_stable_txn_id user ref_type ref_id salt =
     (let h = fnv_write fnv_offset (put_uint64_le user);
          h = fnv_write h [0];
          h = fnv_write h (bytes ref_type);
          h = fnv_write h [0];
          h = fnv_write h (put_uint64_le ref_id);
          id = fnv_write h (put_uint64_le salt)
      in if id = 0 then 1 else id)"

lemma points_stable_txn_id_alt:
  "points_stable_txn_id user ref_type ref_id salt =
     (let id = fnv_write fnv_offset (txn_id_input user ref_type ref_id salt) in if id = 0 then 1 else id)"
  by (simp add: points_stable_txn_id_def txn_id_input_def fnv_write_def Let_def)

text \<open>The odd multiplier is invertible, so each byte is absorbed by a bijection of the state.\<close>

lemma fnv_prime_inverse: "fnv_prime * 14886173955864302971 = 1"
  by (simp add: fnv_prime_def)

lemma fnv_prime_cancel [simp]: "a * fnv_prime = b * fnv_prime \<longleftrightarrow> a = b"
proof
  assume "a * fnv_prime = b * fnv_prime"
  then have "a * (fnv_prime * 14886173955864302971) = b * (fnv_prime * 14886173955864302971)"
    by (simp only: mult.assoc [symmetric])
  then show "a = b" by (simp only: fnv_prime_inverse mult_1_right)
qed simp

lemma xor_cancel_left: "a XOR c = b XOR c \<longleftrightarrow> a = (b :: 'a::len word)"
  by (metis xor.assoc xor.right_neutral xor_self_eq)

lemma xor_cancel_right: "c XOR a = c XOR b \<longleftrightarrow> a = (b :: 'a::len word)"
  by (metis xor.commute xor_cancel_left)

lemma ucast_u8_u64_inj: "(ucast (b :: u8) :: u64) = ucast c \<longleftrightarrow> b = c"
proof
  assume "(ucast b :: u64) = ucast c"
  then have "uint (ucast b :: u64) = uint (ucast c :: u64)" by simp
  moreover have "uint (ucast d :: u64) = uint d" for d :: u8
    using uint_bounded [of d] by (simp add: unsigned_ucast_eq take_bit_int_eq_self)
  ultimately have "uint b = uint c" by (simp only:)
  then show "b = c" by (simp only: word_eq_iff_unsigned [where ?'a = int])
qed simp

lemma fnv_byte_state_inj: "fnv_byte h b = fnv_byte k b \<longleftrightarrow> h = k"
  by (simp add: fnv_byte_def xor_cancel_left)

lemma fnv_byte_byte_inj: "fnv_byte h b = fnv_byte h c \<longleftrightarrow> b = c"
  by (simp add: fnv_byte_def xor_cancel_right ucast_u8_u64_inj)

lemma fnv_write_append: "fnv_write h (xs @ ys) = fnv_write (fnv_write h xs) ys"
  by (simp add: fnv_write_def)

lemma fnv_write_state_inj: "fnv_write h bs = fnv_write k bs \<longleftrightarrow> h = k"
  by (induction bs arbitrary: h k) (simp_all add: fnv_write_def fnv_byte_state_inj)

lemma fnv_one_byte: "fnv_write h (xs @ b # ys) = fnv_write h (xs @ c # ys) \<longleftrightarrow> b = c"
proof -
  have cons: "fnv_write k (d # ys) = fnv_write (fnv_byte k d) ys" for k d
    by (simp add: fnv_write_def)
  show ?thesis by (simp add: fnv_write_append cons fnv_write_state_inj fnv_byte_byte_inj)
qed

text \<open>the stable transaction id is never 0, the value that stands for "no id" everywhere else
  (TxnIDExists, earnPoints, ProcessPointsEarnMessage).\<close>

theorem points_stable_txn_id_nonzero: "points_stable_txn_id user ref_type ref_id salt \<noteq> 0"
  by (simp add: points_stable_txn_id_def Let_def)

text \<open>two awards whose hashed references differ in exactly one byte (for example two likers
  whose user ids differ in one byte) get different transaction ids, but for the one id that the
  remapping of 0 to 1 shares.\<close>

theorem points_stable_txn_id_one_byte:
  assumes "txn_id_input u t r s = xs @ b # ys" and "txn_id_input u' t' r' s' = xs @ c # ys" and "b \<noteq> c"
    and "points_stable_txn_id u t r s \<noteq> 1"
  shows "points_stable_txn_id u t r s \<noteq> points_stable_txn_id u' t' r' s'"
  using assms fnv_one_byte [of fnv_offset xs b ys c]
  by (auto simp: points_stable_txn_id_alt Let_def split: if_splits)

lemma points_stable_txn_id_one_byte_witness:
  "points_stable_txn_id 7 ''like'' 5 1 \<noteq> points_stable_txn_id 7 ''like'' 5 2"
proof (rule points_stable_txn_id_one_byte)
  show "txn_id_input 7 ''like'' 5 1 = (put_uint64_le 7 @ [0] @ bytes ''like'' @ [0] @ put_uint64_le 5) @ 1 # replicate 7 0"
    by code_simp
  show "txn_id_input 7 ''like'' 5 2 = (put_uint64_le 7 @ [0] @ bytes ''like'' @ [0] @ put_uint64_le 5) @ 2 # replicate 7 0"
    by code_simp
  show "(1 :: u8) \<noteq> 2" by simp
  show "points_stable_txn_id 7 ''like'' 5 1 \<noteq> 1" by code_simp
qed

end
