(* ===== verification/Points.thy ===== *)
theory Points
  imports GoPrelude Table Tool "HOL-Library.Product_Lexorder"
begin

text \<open>
  The points account of a user: models UserWallet and PointsTransaction
  (src/models/game_model.go), the MySQL repository (src/database/points_sql.go), the Redis
  repository (src/database/points_redis.go), PointsService (src/service/points_service.go), the
  Kafka producer of earnings (src/mq/kafka_init.go) and the handlers that use them
  (src/handler/points_handler.go).

  The central invariant is \<open>ledger_inv\<close>: the balance of every wallet is the sum of the user's
  ledger rows, the condition that the hourly reconciliation of the service checks.
\<close>

section \<open>Data\<close>

record wallet =
  w_user :: u64
  w_balance :: int
  w_frozen :: int
  w_version :: int
  w_updated :: int
  w_created :: int

record points_txn =
  t_id :: u64
  t_user :: u64
  t_amount :: int
  t_type :: string
  t_ref_type :: string
  t_ref_id :: u64
  t_balance_after :: int
  t_desc :: string
  t_created :: int

record points_rule =
  rule_amount :: int
  rule_daily_limit :: int
  rule_desc :: string

record earn_payload =
  e_user :: u64
  e_ref_type :: string
  e_ref_id :: u64
  e_txn_id :: u64

type_synonym date = "nat \<times> nat \<times> nat"

text \<open>\<open>YearDay\<close> and the day key of a check-in, \<open>Format("20060102")\<close> read as a number.\<close>

definition leap_year :: "nat \<Rightarrow> bool" where
  "leap_year y \<longleftrightarrow> y mod 4 = 0 \<and> y mod 100 \<noteq> 0 \<or> y mod 400 = 0"

definition month_days :: "nat \<Rightarrow> nat \<Rightarrow> nat" where
  "month_days y m = (if m = 2 then (if leap_year y then 29 else 28)
     else if m \<in> {4, 6, 9, 11} then 30 else 31)"

fun year_day :: "date \<Rightarrow> nat" where
  "year_day (y, m, d) = sum_list (map (month_days y) [1..<m]) + d"

fun day_key :: "date \<Rightarrow> u64" where
  "day_key (y, m, d) = of_nat (y * 10000 + m * 100 + d)"

text \<open>
  The state: the two MySQL tables, the clock (nanoseconds, and the date as year, month, day) fixed
  during a request, the snowflake generator (a third-party package: the stream
  of ids it yields), the four Redis key families of points_redis.go, and the Kafka topic.
  \<open>points_redis\<close> is whether a Redis client is configured (the repository is non-nil),
  \<open>earn_kafka\<close> whether the Kafka writer is.
\<close>

record points_st = io_st +
  wallets :: "wallet list"
  ledger :: "points_txn list"
  clock_now :: int
  clock_day :: date
  snowflake :: "nat \<Rightarrow> u64"
  id_seq :: nat
  points_redis :: bool
  daily :: "u64 \<times> string \<times> date \<Rightarrow> int option"
  checkins :: "u64 \<times> nat \<Rightarrow> nat \<Rightarrow> bool"
  wallet_cache :: "u64 \<Rightarrow> (int \<times> int) option"
  earn_kafka :: bool
  earn_topic :: "earn_payload list"

definition points_rollback :: "'r points_st_scheme \<Rightarrow> 'r points_st_scheme \<Rightarrow> 'r points_st_scheme" where
  "points_rollback old new = new\<lparr>wallets := wallets old, ledger := ledger old\<rparr>"

definition points_tables :: "'r points_st_scheme \<Rightarrow> wallet list \<times> points_txn list" where
  "points_tables s = (wallets s, ledger s)"

definition beside_tables :: "'r points_st_scheme \<Rightarrow> 'r points_st_scheme" where
  "beside_tables s = s\<lparr>faults := [], wallets := [], ledger := []\<rparr>"

interpretation points_db: store_tx_rest points_rollback points_tables beside_tables
  by unfold_locales (simp_all add: points_rollback_def points_tables_def beside_tables_def)

section \<open>Ids and rules\<close>

definition generate_id :: "('r points_st_scheme, u64) op" where
  "generate_id = (\<lambda>s. (Inr (snowflake s (id_seq s)), s\<lparr>id_seq := Suc (id_seq s)\<rparr>))"

definition points_rules :: "string \<Rightarrow> points_rule option" where
  "points_rules = map_of
    [(''article'', \<lparr>rule_amount = 10, rule_daily_limit = 50,
        rule_desc = utf8 [229, 143, 145, 230, 150, 135, 229, 165, 150, 229, 138, 177]\<rparr>),
     (''comment'', \<lparr>rule_amount = 5, rule_daily_limit = 30,
        rule_desc = utf8 [232, 175, 132, 232, 174, 186, 229, 165, 150, 229, 138, 177]\<rparr>),
     (''article_liked'', \<lparr>rule_amount = 1, rule_daily_limit = 20,
        rule_desc = utf8 [230, 150, 135, 231, 171, 160, 232, 162, 171, 231, 130, 185, 232, 181, 158]\<rparr>),
     (''comment_liked'', \<lparr>rule_amount = 1, rule_daily_limit = 10,
        rule_desc = utf8 [232, 175, 132, 232, 174, 186, 232, 162, 171, 231, 130, 185, 232, 181, 158]\<rparr>),
     (''checkin'', \<lparr>rule_amount = 2, rule_daily_limit = 2,
        rule_desc = utf8 [231, 173, 190, 229, 136, 176, 229, 165, 150, 229, 138, 177]\<rparr>)]"

definition initial_wallet_balance :: int where
  "initial_wallet_balance = 100"

section \<open>The MySQL repository\<close>

definition get_wallet :: "u64 \<Rightarrow> ('r points_st_scheme, wallet) op" where
  "get_wallet u = io (\<lambda>s. case row_of w_user u (wallets s) of
       None \<Rightarrow> (Inl ErrWalletNotFound, s)
     | Some w \<Rightarrow> (Inr w, s))"

definition get_wallet_by_user_id_tx :: "u64 \<Rightarrow> ('r points_st_scheme, wallet) op" where
  "get_wallet_by_user_id_tx u = io (\<lambda>s. case row_of w_user u (wallets s) of
       None \<Rightarrow> (Inl ErrWalletNotFound, s)
     | Some w \<Rightarrow> (Inr w, s))"

definition get_wallet_for_update :: "u64 \<Rightarrow> ('r points_st_scheme, wallet) op" where
  "get_wallet_for_update u = io (\<lambda>s. case row_of w_user u (wallets s) of
       None \<Rightarrow> (Inl ErrWalletNotFound, s)
     | Some w \<Rightarrow> (Inr w, s))"

text \<open>\<open>tx.Create\<close> on the two tables: the primary key makes a second insertion fail.\<close>

definition insert_wallet :: "wallet \<Rightarrow> ('r points_st_scheme, unit) op" where
  "insert_wallet w = io (\<lambda>s. if has_row w_user (w_user w) (wallets s) then (Inl DupKey, s)
     else (Inr (), s\<lparr>wallets := wallets s @ [w]\<rparr>))"

definition insert_transaction :: "points_txn \<Rightarrow> ('r points_st_scheme, unit) op" where
  "insert_transaction t = io (\<lambda>s. if has_row t_id (t_id t) (ledger s) then (Inl DupKey, s)
     else (Inr (), s\<lparr>ledger := ledger s @ [t]\<rparr>))"

definition try_insert_transaction :: "points_txn \<Rightarrow> ('r points_st_scheme, bool) op" where
  "try_insert_transaction t = bnd (attempt (insert_transaction t)) (\<lambda>r. case r of
       Inl e \<Rightarrow> if e = DupKey then ret False else throw e
     | Inr _ \<Rightarrow> ret True)"

definition new_wallet :: "u64 \<Rightarrow> int \<Rightarrow> wallet" where
  "new_wallet u now = \<lparr>w_user = u, w_balance = initial_wallet_balance, w_frozen = 0, w_version = 0,
     w_updated = now, w_created = now\<rparr>"

definition grant_id :: "u64 \<Rightarrow> u64" where
  "grant_id u = points_stable_txn_id u ''initial_grant'' u 0"

definition grant_txn :: "u64 \<Rightarrow> int \<Rightarrow> points_txn" where
  "grant_txn u now = \<lparr>t_id = grant_id u, t_user = u, t_amount = initial_wallet_balance,
     t_type = ''income'', t_ref_type = ''initial_grant'', t_ref_id = u,
     t_balance_after = initial_wallet_balance,
     t_desc = utf8 [230, 150, 176, 231, 148, 168, 230, 136, 183, 229, 136, 157, 229, 167, 139, 231, 167, 175, 229, 136, 134],
     t_created = now\<rparr>"

text \<open>The first lookup returns the raw row or \<open>gorm.ErrRecordNotFound\<close>.\<close>

definition create_wallet_in_tx :: "u64 \<Rightarrow> ('r points_st_scheme, wallet) op" where
  "create_wallet_in_tx u =
     bnd (io (gets (\<lambda>s. row_of w_user u (wallets s)))) (\<lambda>existing. case existing of
       Some w \<Rightarrow> ret w
     | None \<Rightarrow>
        bnd (gets clock_now) (\<lambda>now.
        bnd (attempt (insert_wallet (new_wallet u now))) (\<lambda>r. case r of
          Inl e \<Rightarrow> if e = DupKey then get_wallet_by_user_id_tx u else throw e
        | Inr _ \<Rightarrow>
           bnd (attempt (insert_transaction (grant_txn u now))) (\<lambda>r. case r of
             Inl e \<Rightarrow> if e = DupKey then ret (new_wallet u now) else throw e
           | Inr _ \<Rightarrow> ret (new_wallet u now)))))"

definition create_wallet :: "u64 \<Rightarrow> ('r points_st_scheme, unit) op" where
  "create_wallet u = tx points_rollback (bnd (create_wallet_in_tx u) (\<lambda>_. ret ()))"

text \<open>
  \<open>UpdateBalance\<close>: one conditional UPDATE (the \<open>balance >=\<close> clause only for a deduction); when
  no row matched, a second query tells a version conflict from an insufficient balance.
\<close>

definition balance_guard :: "u64 \<Rightarrow> int \<Rightarrow> int \<Rightarrow> wallet \<Rightarrow> bool" where
  "balance_guard u amount version w \<longleftrightarrow>
     w_user w = u \<and> w_version w = version \<and> (amount < 0 \<longrightarrow> i64 (- amount) \<le> w_balance w)"

definition bump_wallet :: "int \<Rightarrow> int \<Rightarrow> int \<Rightarrow> wallet \<Rightarrow> wallet" where
  "bump_wallet amount version now w =
     w\<lparr>w_balance := w_balance w + amount, w_version := i64 (version + 1), w_updated := now\<rparr>"

definition update_balance_stmt :: "u64 \<Rightarrow> int \<Rightarrow> int \<Rightarrow> ('r points_st_scheme, nat) op" where
  "update_balance_stmt u amount version = io (\<lambda>s.
     let P = balance_guard u amount version
     in if \<exists>w \<in> set (wallets s). P w \<and> \<not> i64_ok (w_balance w + amount) then (Inl OutOfRange, s)
        else (Inr (count_rows P (wallets s)),
              s\<lparr>wallets := upd_rows P (bump_wallet amount version (clock_now s)) (wallets s)\<rparr>))"

definition update_balance :: "u64 \<Rightarrow> int \<Rightarrow> int \<Rightarrow> ('r points_st_scheme, unit) op" where
  "update_balance u amount version =
     bnd (update_balance_stmt u amount version) (\<lambda>affected.
       if affected = 0 then
         bnd (attempt (io (gets (\<lambda>s. row_of w_user u (wallets s))))) (\<lambda>cur. case cur of
           Inr (Some w) \<Rightarrow>
             if w_version w \<noteq> version then throw ErrConcurrentModify
             else if w_balance w < i64 (- amount) then throw ErrInsufficientBalance
             else throw ErrConcurrentModify
         | _ \<Rightarrow> throw ErrConcurrentModify)
       else ret ())"

definition txn_id_exists :: "u64 \<Rightarrow> ('r points_st_scheme, bool) op" where
  "txn_id_exists txn = (if txn = 0 then ret False
     else io (gets (\<lambda>s. has_row t_id txn (ledger s))))"

text \<open>Page and size are clamped; the page is cut from the user's rows, newest first.\<close>

definition list_transactions_by_user ::
  "u64 \<Rightarrow> int \<Rightarrow> int \<Rightarrow> ('r points_st_scheme, points_txn list \<times> nat) op" where
  "list_transactions_by_user u page sz =
     (if u = 0 then ret ([], 0)
      else
        let page = (if page \<le> 0 then 1 else page);
            sz = (if sz \<le> 0 then 20 else sz);
            sz = (if sz > 50 then 50 else sz)
        in bnd (io (gets (\<lambda>s. count_rows (\<lambda>t. t_user t = u) (ledger s)))) (\<lambda>total.
           bnd (io (gets (\<lambda>s. take (nat sz) (drop (nat (i64 ((page - 1) * sz)))
                  (rev (sort_key (\<lambda>t. (t_created t, t_id t)) (filter (\<lambda>t. t_user t = u) (ledger s)))))))) (\<lambda>rows.
           ret (rows, total))))"

definition user_total :: "u64 \<Rightarrow> points_txn list \<Rightarrow> int" where
  "user_total u l = sum_rows t_amount (\<lambda>t. t_user t = u) l"

text \<open>The reconciliation query: wallets whose balance is not \<open>COALESCE(SUM(amount), 0)\<close>.\<close>

definition list_wallet_ledger_mismatches ::
  "int \<Rightarrow> ('r points_st_scheme, (u64 \<times> int \<times> int) list) op" where
  "list_wallet_ledger_mismatches limit =
     (let limit = (if limit \<le> 0 then 100 else limit)
      in io (gets (\<lambda>s. take (nat limit)
           (map (\<lambda>w. (w_user w, w_balance w, user_total (w_user w) (ledger s)))
              (filter (\<lambda>w. w_balance w \<noteq> user_total (w_user w) (ledger s)) (wallets s))))))"

section \<open>The Redis repository\<close>

definition daily_limit_key :: "u64 \<Rightarrow> string \<Rightarrow> date \<Rightarrow> u64 \<times> string \<times> date" where
  "daily_limit_key u ref_type d = (u, ref_type, d)"

text \<open>The Lua script: INCR, and DECR again when the limit is passed; returns -1 then.\<close>

definition daily_script :: "u64 \<times> string \<times> date \<Rightarrow> int \<Rightarrow> ('r points_st_scheme, int) op" where
  "daily_script key limit = io (\<lambda>s.
     let cur = (case daily s key of None \<Rightarrow> 0 | Some n \<Rightarrow> n) + 1
     in if cur > limit then (Inr (-1), s\<lparr>daily := (daily s)(key := Some (cur - 1))\<rparr>)
        else (Inr cur, s\<lparr>daily := (daily s)(key := Some cur)\<rparr>))"

definition check_and_incr_daily_limit :: "u64 \<Rightarrow> string \<Rightarrow> int \<Rightarrow> ('r points_st_scheme, int) op" where
  "check_and_incr_daily_limit u ref_type limit =
     bnd (gets points_redis) (\<lambda>on. if \<not> on then ret 0 else
     bnd (gets clock_day) (\<lambda>d.
     bnd (daily_script (daily_limit_key u ref_type d) limit) (\<lambda>result.
       if result = -1 then throw ErrDailyLimitExceeded else ret result)))"

definition get_daily_limit :: "u64 \<Rightarrow> string \<Rightarrow> ('r points_st_scheme, int) op" where
  "get_daily_limit u ref_type =
     bnd (gets points_redis) (\<lambda>on. if \<not> on then ret 0 else
     bnd (gets clock_day) (\<lambda>d.
     io (gets (\<lambda>s. case daily s (daily_limit_key u ref_type d) of None \<Rightarrow> 0 | Some n \<Rightarrow> n))))"

definition rollback_daily_limit :: "u64 \<Rightarrow> string \<Rightarrow> ('r points_st_scheme, unit) op" where
  "rollback_daily_limit u ref_type =
     bnd (gets points_redis) (\<lambda>on. if \<not> on then ret () else
     bnd (gets clock_day) (\<lambda>d.
     io (modify (\<lambda>s. s\<lparr>daily := (daily s)(daily_limit_key u ref_type d :=
        Some ((case daily s (daily_limit_key u ref_type d) of None \<Rightarrow> 0 | Some n \<Rightarrow> n) - 1))\<rparr>))))"

definition mark_checkin :: "u64 \<Rightarrow> ('r points_st_scheme, bool) op" where
  "mark_checkin u =
     bnd (gets points_redis) (\<lambda>on. if \<not> on then ret False else
     bnd (gets clock_day) (\<lambda>date.
     let key = (u, fst date); day = year_day date - 1
     in bnd (io (gets (\<lambda>s. checkins s key day))) (\<lambda>old. if old then ret False else
     bnd (io (modify (\<lambda>s. s\<lparr>checkins := (checkins s)(key := (checkins s key)(day := True))\<rparr>))) (\<lambda>_.
     bnd (io (ret ())) (\<lambda>_. \<comment> \<open>EXPIRE\<close>
     ret True)))))"

definition has_checked_in :: "u64 \<Rightarrow> ('r points_st_scheme, bool) op" where
  "has_checked_in u =
     bnd (gets points_redis) (\<lambda>on. if \<not> on then ret False else
     bnd (gets clock_day) (\<lambda>date.
     io (gets (\<lambda>s. checkins s (u, fst date) (year_day date - 1)))))"

text \<open>BITCOUNT over the days of a year (bits 0 to 365).\<close>

definition get_checkin_count :: "u64 \<Rightarrow> nat \<Rightarrow> ('r points_st_scheme, nat) op" where
  "get_checkin_count u year =
     bnd (gets points_redis) (\<lambda>on. if \<not> on then ret 0 else
     io (gets (\<lambda>s. length (filter (checkins s (u, year)) [0..<366]))))"

definition set_wallet_balance :: "u64 \<Rightarrow> int \<Rightarrow> int \<Rightarrow> ('r points_st_scheme, unit) op" where
  "set_wallet_balance u balance frozen =
     bnd (gets points_redis) (\<lambda>on. if \<not> on \<or> u = 0 then ret () else
     io (modify (\<lambda>s. s\<lparr>wallet_cache := (wallet_cache s)(u := Some (balance, frozen))\<rparr>)))"

definition get_wallet_balance :: "u64 \<Rightarrow> ('r points_st_scheme, (int \<times> int) option) op" where
  "get_wallet_balance u =
     bnd (gets points_redis) (\<lambda>on. if \<not> on \<or> u = 0 then ret None else
     io (gets (\<lambda>s. wallet_cache s u)))"

definition del_wallet_balance :: "u64 \<Rightarrow> ('r points_st_scheme, unit) op" where
  "del_wallet_balance u =
     bnd (gets points_redis) (\<lambda>on. if \<not> on \<or> u = 0 then ret () else
     io (modify (\<lambda>s. s\<lparr>wallet_cache := (wallet_cache s)(u := None)\<rparr>)))"

section \<open>The ledger invariant\<close>

text \<open>
  \<open>running\<close>: each row's \<open>balance_after\<close> is the user's total up to that row.
\<close>

definition running :: "points_txn list \<Rightarrow> bool" where
  "running l \<longleftrightarrow> (\<forall>i < length l. t_balance_after (l ! i) = user_total (t_user (l ! i)) (take (Suc i) l))"

definition ledger_inv :: "'r points_st_scheme \<Rightarrow> bool" where
  "ledger_inv s \<longleftrightarrow>
     distinct (map w_user (wallets s)) \<and> distinct (map t_id (ledger s)) \<and>
     (\<forall>w \<in> set (wallets s). w_balance w = user_total (w_user w) (ledger s)) \<and>
     (\<forall>t \<in> set (ledger s). has_row w_user (t_user t) (wallets s)) \<and>
     running (ledger s)"

text \<open>No ledger row of another reference carries the id of \<open>u\<close>'s initial grant.\<close>

definition grant_free :: "u64 \<Rightarrow> 'r points_st_scheme \<Rightarrow> bool" where
  "grant_free u s \<longleftrightarrow> has_row w_user u (wallets s) \<or> \<not> has_row t_id (grant_id u) (ledger s)"

lemma user_total_snoc [simp]:
  "user_total u (l @ [t]) = user_total u l + (if t_user t = u then t_amount t else 0)"
  by (simp add: user_total_def)

lemma user_total_Nil [simp]: "user_total u [] = 0"
  by (simp add: user_total_def)

lemma user_total_none: "(\<And>t. t \<in> set l \<Longrightarrow> t_user t \<noteq> u) \<Longrightarrow> user_total u l = 0"
  by (induction l) (auto simp: user_total_def sum_rows_def)

lemma running_snoc [simp]:
  "running (l @ [t]) \<longleftrightarrow> running l \<and> t_balance_after t = user_total (t_user t) l + t_amount t"
  by (auto simp: running_def nth_append less_Suc_eq)

lemma running_Nil [simp]: "running []"
  by (simp add: running_def)

lemma quietly_ledger_inv: "quietly ledger_inv"
  by (simp add: quietly_def ledger_inv_def)

lemma ledger_inv_tables: "points_tables s = points_tables t \<Longrightarrow> ledger_inv s = ledger_inv t"
  by (simp add: points_tables_def ledger_inv_def)

lemma ledger_invD:
  assumes "ledger_inv s" and "row_of w_user u (wallets s) = Some w"
  shows "w \<in> set (wallets s)" and "w_user w = u" and "w_balance w = user_total u (ledger s)"
  using assms by (auto simp: ledger_inv_def dest!: row_of_Some_in)

text \<open>Creating a wallet with its initial grant keeps the invariant when the grant id is free.\<close>

lemma ledger_inv_new_wallet:
  assumes inv: "ledger_inv s" and new: "\<not> has_row w_user u (wallets s)"
    and free: "\<not> has_row t_id (grant_id u) (ledger s)"
  shows "ledger_inv (s\<lparr>wallets := wallets s @ [new_wallet u now], ledger := ledger s @ [grant_txn u now]\<rparr>)"
proof -
  from inv new have none: "t_user t \<noteq> u" if "t \<in> set (ledger s)" for t
    using that by (auto simp: ledger_inv_def)
  then have "user_total u (ledger s) = 0" by (rule user_total_none)
  moreover have "w_user w \<noteq> u" if "w \<in> set (wallets s)" for w
    using that new by (auto simp: has_row_def)
  ultimately show ?thesis
    using inv new free
    by (auto simp: ledger_inv_def new_wallet_def grant_txn_def has_row_def)
qed

text \<open>A ledger row and the matching balance update, under the optimistic lock, keep the invariant.\<close>

lemma ledger_inv_post:
  assumes inv: "ledger_inv s" and w: "row_of w_user u (wallets s) = Some w"
    and fresh: "\<not> has_row t_id (t_id t) (ledger s)" and user: "t_user t = u"
    and after: "t_balance_after t = w_balance w + t_amount t"
    and guard: "balance_guard u (t_amount t) v w"
  shows "ledger_inv (s\<lparr>ledger := ledger s @ [t],
            wallets := upd_rows (balance_guard u (t_amount t) v) (bump_wallet (t_amount t) v now) (wallets s)\<rparr>)"
proof -
  note bal = ledger_invD [OF inv w]
  have same: "q = w" if "q \<in> set (wallets s)" and "w_user q = u" for q
    using that inv w by (metis ledger_inv_def option.inject row_of_in)
  have key: "w_user (bump_wallet a v now q) = w_user q" for a q
    by (simp add: bump_wallet_def)
  have "w_balance q = user_total (w_user q) (ledger s @ [t])"
    if "q \<in> set (upd_rows (balance_guard u (t_amount t) v) (bump_wallet (t_amount t) v now) (wallets s))" for q
  proof -
    from that obtain p where p: "p \<in> set (wallets s)"
      and q: "q = (if balance_guard u (t_amount t) v p then bump_wallet (t_amount t) v now p else p)"
      by (auto simp: set_upd)
    show ?thesis
    proof (cases "w_user p = u")
      case True
      with p have "p = w" by (rule same)
      with q guard bal user show ?thesis by (simp add: bump_wallet_def)
    next
      case False
      with q have "q = p" by (simp add: balance_guard_def)
      with p inv False user show ?thesis by (auto simp: ledger_inv_def)
    qed
  qed
  moreover from bal user after have "t_balance_after t = user_total (t_user t) (ledger s) + t_amount t"
    by simp
  moreover from bal have "has_row w_user u (wallets s)" by (auto simp: has_row_def)
  ultimately show ?thesis
    using inv fresh user by (auto simp: ledger_inv_def key has_row_def [of t_id])
qed

section \<open>What each call does\<close>

lemma get_wallet_by_user_id_txE:
  assumes "get_wallet_by_user_id_tx u s = (Inr w, t)"
  obtains fs where "t = s\<lparr>faults := fs\<rparr>" and "row_of w_user u (wallets s) = Some w"
  using assms unfolding get_wallet_by_user_id_tx_def
  by (elim io_InrE) (auto split: option.splits)

lemma get_wallet_by_user_id_tx_errE:
  assumes "get_wallet_by_user_id_tx u s = (Inl e, t)"
  obtains fs where "t = s\<lparr>faults := fs\<rparr>"
    and "e = IOError \<or> e = ErrWalletNotFound \<and> \<not> has_row w_user u (wallets s)"
  using assms unfolding get_wallet_by_user_id_tx_def
  by (elim io_InlE) (auto split: option.splits simp: row_of_None)

lemma insert_walletE:
  assumes "insert_wallet w s = (Inr x, t)"
  obtains fs where "t = s\<lparr>faults := fs, wallets := wallets s @ [w]\<rparr>" and "\<not> has_row w_user (w_user w) (wallets s)"
  using assms unfolding insert_wallet_def by (elim io_InrE) (auto split: if_splits)

lemma insert_wallet_errE:
  assumes "insert_wallet w s = (Inl e, t)"
  obtains fs where "t = s\<lparr>faults := fs\<rparr>" and "e = IOError \<or> e = DupKey \<and> has_row w_user (w_user w) (wallets s)"
  using assms unfolding insert_wallet_def by (elim io_InlE) (auto split: if_splits)

lemma insert_transactionE:
  assumes "insert_transaction x s = (Inr y, t)"
  obtains fs where "t = s\<lparr>faults := fs, ledger := ledger s @ [x]\<rparr>" and "\<not> has_row t_id (t_id x) (ledger s)"
  using assms unfolding insert_transaction_def by (elim io_InrE) (auto split: if_splits)

lemma insert_transaction_errE:
  assumes "insert_transaction x s = (Inl e, t)"
  obtains fs where "t = s\<lparr>faults := fs\<rparr>" and "e = IOError \<or> e = DupKey \<and> has_row t_id (t_id x) (ledger s)"
  using assms unfolding insert_transaction_def by (elim io_InlE) (auto split: if_splits)

lemma try_insert_transactionE:
  assumes "try_insert_transaction x s = (Inr b, t)"
  obtains (inserted) fs where "b" and "t = s\<lparr>faults := fs, ledger := ledger s @ [x]\<rparr>" and "\<not> has_row t_id (t_id x) (ledger s)"
  | (duplicate) fs where "\<not> b" and "t = s\<lparr>faults := fs\<rparr>" and "has_row t_id (t_id x) (ledger s)"
  using assms unfolding try_insert_transaction_def
  by (auto simp: op_eqs split: sum.splits if_splits elim!: op_elims insert_transactionE insert_transaction_errE)

text \<open>A successful \<open>create_wallet_in_tx\<close> returns the wallet row, old or new.\<close>

lemma create_wallet_in_txE:
  assumes "create_wallet_in_tx u s = (Inr w, t)"
  obtains (existing) fs where "t = s\<lparr>faults := fs\<rparr>" and "row_of w_user u (wallets s) = Some w"
  | (granted) fs where "\<not> has_row w_user u (wallets s)" and "w = new_wallet u (clock_now s)"
      and "t = s\<lparr>wallets := wallets s @ [new_wallet u (clock_now s)], faults := fs, ledger := ledger s @ [grant_txn u (clock_now s)]\<rparr>"
      and "\<not> has_row t_id (grant_id u) (ledger s)"
  | (clash) fs where "\<not> has_row w_user u (wallets s)" and "w = new_wallet u (clock_now s)"
      and "t = s\<lparr>wallets := wallets s @ [new_wallet u (clock_now s)], faults := fs\<rparr>" and "has_row t_id (grant_id u) (ledger s)"
proof -
  have user: "w_user (new_wallet u n) = u" and id: "t_id (grant_txn u n) = grant_id u" for n
    by (simp_all add: new_wallet_def grant_txn_def)
  from assms obtain fs0 r where run: "(case row_of w_user u (wallets s) of Some w \<Rightarrow> ret w
     | None \<Rightarrow>
        bnd (gets clock_now) (\<lambda>now.
        bnd (attempt (insert_wallet (new_wallet u now))) (\<lambda>r. case r of
          Inl e \<Rightarrow> if e = DupKey then get_wallet_by_user_id_tx u else throw e
        | Inr _ \<Rightarrow>
           bnd (attempt (insert_transaction (grant_txn u now))) (\<lambda>r. case r of
             Inl e \<Rightarrow> if e = DupKey then ret (new_wallet u now) else throw e
           | Inr _ \<Rightarrow> ret (new_wallet u now))))) (s\<lparr>faults := fs0\<rparr>) = (Inr w, t)"
    unfolding create_wallet_in_tx_def by (auto simp: gets_eq elim!: op_elims io_InrE)
  show thesis
  proof (cases "row_of w_user u (wallets s)")
    case (Some v)
    with run show thesis by (auto simp: ret_eq intro: existing)
  next
    case None
    then have new: "\<not> has_row w_user u (wallets s)" by (simp add: row_of_None)
    from None run show thesis
      by (auto simp: op_eqs user id new split: sum.splits if_splits
          elim!: op_elims insert_walletE insert_wallet_errE insert_transactionE insert_transaction_errE
            get_wallet_by_user_id_txE)
        (rule clash [OF new] granted [OF new]; assumption)+
  qed
qed

text \<open>A successful balance update hit the row it was aimed at.\<close>

lemma update_balanceE:
  assumes "update_balance u a v s = (Inr x, t)"
  obtains fs w where "t = s\<lparr>faults := fs, wallets := upd_rows (balance_guard u a v) (bump_wallet a v (clock_now s)) (wallets s)\<rparr>"
    and "w \<in> set (wallets s)" and "balance_guard u a v w" and "i64_ok (w_balance w + a)"
proof -
  from assms obtain n t1 where stmt: "update_balance_stmt u a v s = (Inr n, t1)" and "n \<noteq> 0" and "t = t1"
    unfolding update_balance_def
    by (auto simp: op_eqs split: if_splits sum.splits option.splits elim!: op_elims)
  then obtain fs where "t = s\<lparr>faults := fs, wallets := upd_rows (balance_guard u a v) (bump_wallet a v (clock_now s)) (wallets s)\<rparr>"
    and "count_rows (balance_guard u a v) (wallets s) \<noteq> 0"
    and "\<forall>w \<in> set (wallets s). balance_guard u a v w \<longrightarrow> i64_ok (w_balance w + a)"
    unfolding update_balance_stmt_def by (auto simp: Let_def split: if_splits elim!: io_InrE)
  then show thesis by (auto simp: count_rows_zero intro: that)
qed

section \<open>Reading a wallet, then posting against it\<close>

text \<open>
  \<open>wallet_ready\<close>: what the read half of a transaction leaves: the wallet was there, or it was
  created with its initial grant. \<open>w\<close> is the row it returns.
\<close>

definition wallet_ready :: "u64 \<Rightarrow> 'r points_st_scheme \<Rightarrow> wallet \<Rightarrow> 'r points_st_scheme \<Rightarrow> bool" where
  "wallet_ready u s w t \<longleftrightarrow> clock_now t = clock_now s \<and>
     (wallets t = wallets s \<and> ledger t = ledger s \<and> row_of w_user u (wallets s) = Some w \<or>
      \<not> has_row w_user u (wallets s) \<and> \<not> has_row t_id (grant_id u) (ledger s) \<and>
      wallets t = wallets s @ [new_wallet u (clock_now s)] \<and>
      ledger t = ledger s @ [grant_txn u (clock_now s)] \<and> w = new_wallet u (clock_now s))"

lemma wallet_ready_inv:
  assumes "wallet_ready u s w t" and "ledger_inv s"
  shows "ledger_inv t" and "row_of w_user u (wallets t) = Some w"
proof -
  let ?w = "new_wallet u (clock_now s)" and ?g = "grant_txn u (clock_now s)"
  from assms(1) consider (old) "wallets t = wallets s" "ledger t = ledger s" "row_of w_user u (wallets s) = Some w"
    | (new) "\<not> has_row w_user u (wallets s)" "\<not> has_row t_id (grant_id u) (ledger s)"
        "wallets t = wallets s @ [?w]" "ledger t = ledger s @ [?g]" "w = ?w"
    unfolding wallet_ready_def by blast
  then have "ledger_inv t \<and> row_of w_user u (wallets t) = Some w"
  proof cases
    case old
    then have "points_tables t = points_tables s" by (simp add: points_tables_def)
    with old assms(2) ledger_inv_tables [of t s] show ?thesis by simp
  next
    case new
    have "ledger_inv (s\<lparr>wallets := wallets s @ [?w], ledger := ledger s @ [?g]\<rparr>)"
      using assms(2) new(1,2) by (rule ledger_inv_new_wallet)
    then have "ledger_inv t" using new by (simp add: ledger_inv_def)
    moreover from new(1) have "row_of w_user u (wallets s) = None" by (simp add: row_of_None)
    then have "row_of w_user u (wallets t) = Some w" using new by (simp add: new_wallet_def)
    ultimately show ?thesis by simp
  qed
  then show "ledger_inv t" and "row_of w_user u (wallets t) = Some w" by simp_all
qed

lemma wallet_ready_rows: "wallet_ready u s w t \<Longrightarrow>
    ledger t = ledger s \<or> \<not> has_row w_user u (wallets s) \<and> ledger t = ledger s @ [grant_txn u (clock_now s)]"
  by (auto simp: wallet_ready_def)

text \<open>
  The post half: a row \<open>x\<close> computed from the wallet \<open>w\<close> that was read, and the balance update under
  \<open>w\<close>'s version. The current wallet \<open>cw\<close> may be newer; then the update finds no row.
\<close>

lemma ledger_inv_posted:
  assumes inv: "ledger_inv s" and cur: "row_of w_user u (wallets s) = Some cw"
    and stale: "w_version cw = w_version w \<Longrightarrow> w_balance cw = w_balance w"
    and x: "t_user x = u" "t_balance_after x = i64 (w_balance w + t_amount x)" "\<not> has_row t_id (t_id x) (ledger s)"
    and q: "q \<in> set (wallets s)" "balance_guard u (t_amount x) (w_version w) q" "i64_ok (w_balance q + t_amount x)"
    and t: "ledger t = ledger s @ [x]"
      "wallets t = upd_rows (balance_guard u (t_amount x) (w_version w)) (bump_wallet (t_amount x) (w_version w) now) (wallets s)"
  shows "ledger_inv t" and "balance_guard u (t_amount x) (w_version w) cw"
proof -
  from q(2) have "w_user q = u" by (simp add: balance_guard_def)
  with q(1) cur inv have "q = cw" by (metis ledger_inv_def option.inject row_of_in)
  with q(2) stale have bal: "w_balance cw = w_balance w" by (simp add: balance_guard_def)
  with q(3) \<open>q = cw\<close> x(2) have after: "t_balance_after x = w_balance cw + t_amount x" by simp
  from q(2) \<open>q = cw\<close> show guard: "balance_guard u (t_amount x) (w_version w) cw" by simp
  from ledger_inv_post [OF inv cur x(3,1) after guard, of now]
  show "ledger_inv t" by (simp add: t ledger_inv_def)
qed

section \<open>No panics\<close>

lemma no_panic_points [no_panic_rules]:
  "no_panic (get_wallet_by_user_id_tx x)" "no_panic (insert_transaction t)" "no_panic (insert_wallet w)"
  "no_panic (update_balance_stmt a b c)"
  unfolding get_wallet_by_user_id_tx_def insert_transaction_def insert_wallet_def update_balance_stmt_def
  by (intro no_panic_call; simp add: Let_def split: option.split)+

lemma no_panic_wallet [no_panic_rules]:
  "no_panic (update_balance u a v)" "no_panic (try_insert_transaction x)" "no_panic (create_wallet_in_tx u)"
  unfolding update_balance_def try_insert_transaction_def create_wallet_in_tx_def
  by ((intro no_panic_bnd_attempt no_panic_rules; simp?)+)

end
