(* ===== verification/PointsService.thy ===== *)
theory PointsService
  imports Points
begin

text \<open>
  PointsService (src/service/points_service.go), the Kafka producer of earnings
  (src/mq/kafka_init.go) and the points handlers (src/handler/points_handler.go): how points are
  credited. The properties: the ledger invariant under any pattern of failing calls and under
  interleaved transactions, at-most-once crediting of a transaction id, all-or-nothing failures,
  and the daily limit.
\<close>

section \<open>Crediting\<close>

definition income_txn :: "u64 \<Rightarrow> u64 \<Rightarrow> points_rule \<Rightarrow> string \<Rightarrow> u64 \<Rightarrow> wallet \<Rightarrow> int \<Rightarrow> points_txn" where
  "income_txn txn u rule ref_type ref_id w now =
     \<lparr>t_id = txn, t_user = u, t_amount = rule_amount rule, t_type = ''income'',
      t_ref_type = ref_type, t_ref_id = ref_id,
      t_balance_after = i64 (w_balance w + rule_amount rule),
      t_desc = rule_desc rule, t_created = now\<rparr>"

text \<open>The transaction of \<open>earnPoints\<close> in its two halves: read the wallet, then post against it.\<close>

definition earn_read :: "u64 \<Rightarrow> ('r points_st_scheme, wallet) op" where
  "earn_read u = bnd (attempt (get_wallet_by_user_id_tx u)) (\<lambda>r. case r of
       Inl e \<Rightarrow> if e = ErrWalletNotFound then create_wallet_in_tx u else throw e
     | Inr w \<Rightarrow> ret w)"

definition earn_post ::
  "u64 \<Rightarrow> points_rule \<Rightarrow> string \<Rightarrow> u64 \<Rightarrow> u64 \<Rightarrow> wallet \<Rightarrow> ('r points_st_scheme, unit) op" where
  "earn_post u rule ref_type ref_id txn w =
     bnd (gets clock_now) (\<lambda>now.
     bnd (try_insert_transaction (income_txn txn u rule ref_type ref_id w now)) (\<lambda>inserted.
       if \<not> inserted then throw ErrPointsTxnIdempotentSkip
       else update_balance u (rule_amount rule) (w_version w)))"

definition earn_body ::
  "u64 \<Rightarrow> points_rule \<Rightarrow> string \<Rightarrow> u64 \<Rightarrow> u64 \<Rightarrow> ('r points_st_scheme, unit) op" where
  "earn_body u rule ref_type ref_id txn =
     bnd (earn_read u) (earn_post u rule ref_type ref_id txn)"

definition invalidate_wallet_redis :: "u64 \<Rightarrow> ('r points_st_scheme, unit) op" where
  "invalidate_wallet_redis u =
     bnd (gets points_redis) (\<lambda>on. if \<not> on \<or> u = 0 then ret () else del_wallet_balance u)"

definition earn_points ::
  "u64 \<Rightarrow> string \<Rightarrow> u64 \<Rightarrow> u64 \<Rightarrow> ('r points_st_scheme, unit) op" where
  "earn_points u ref_type ref_id txn_or_zero = (case points_rules ref_type of
       None \<Rightarrow> ret ()
     | Some rule \<Rightarrow>
        bnd (if txn_or_zero = 0 then generate_id else ret txn_or_zero) (\<lambda>txn.
        bnd (txn_id_exists txn) (\<lambda>exists. if exists then ret () else
        bnd (check_and_incr_daily_limit u ref_type (rule_daily_limit rule)) (\<lambda>_.
        bnd (attempt (tx points_rollback (earn_body u rule ref_type ref_id txn))) (\<lambda>r. case r of
          Inl e \<Rightarrow>
            bnd (ignore (rollback_daily_limit u ref_type)) (\<lambda>_.
            if e = ErrPointsTxnIdempotentSkip then ret () else throw e)
        | Inr _ \<Rightarrow> bnd (ignore (invalidate_wallet_redis u)) (\<lambda>_. ret ()))))))"

text \<open>\<open>PublishPointsEarn\<close>, and the unified entry with its synchronous fallback.\<close>

definition publish_points_earn :: "earn_payload \<Rightarrow> ('r points_st_scheme, unit) op" where
  "publish_points_earn p =
     bnd (gets earn_kafka) (\<lambda>on.
       if \<not> on then throw (PlainError ''kafka points earn writer is not initialized'')
       else if e_user p = 0 \<or> e_ref_type p = [] \<or> e_txn_id p = 0
       then throw (PlainError ''invalid points earn payload'')
       else io (modify (\<lambda>s. s\<lparr>earn_topic := earn_topic s @ [p]\<rparr>)))"

definition enqueue_earn ::
  "u64 \<Rightarrow> string \<Rightarrow> u64 \<Rightarrow> u64 \<Rightarrow> ('r points_st_scheme, unit) op" where
  "enqueue_earn u ref_type ref_id salt = (case points_rules ref_type of
       None \<Rightarrow> ret ()
     | Some _ \<Rightarrow>
        let txn = points_stable_txn_id u ref_type ref_id salt
        in bnd (gets earn_kafka) (\<lambda>kafka.
           if kafka then
             bnd (attempt (publish_points_earn
                \<lparr>e_user = u, e_ref_type = ref_type, e_ref_id = ref_id, e_txn_id = txn\<rparr>)) (\<lambda>r. case r of
               Inl _ \<Rightarrow> earn_points u ref_type ref_id txn
             | Inr _ \<Rightarrow> ret ())
           else earn_points u ref_type ref_id txn))"

section \<open>Wallet queries\<close>

definition ensure_wallet :: "u64 \<Rightarrow> ('r points_st_scheme, wallet) op" where
  "ensure_wallet u = bnd (attempt (get_wallet u)) (\<lambda>r. case r of
       Inr w \<Rightarrow> ret w
     | Inl e \<Rightarrow> if e \<noteq> ErrWalletNotFound then throw e else
         bnd (create_wallet u) (\<lambda>_.
         bnd (ignore (invalidate_wallet_redis u)) (\<lambda>_.
         get_wallet u)))"

definition warm_wallet_redis_from_db :: "u64 \<Rightarrow> ('r points_st_scheme, wallet) op" where
  "warm_wallet_redis_from_db u =
     bnd (ensure_wallet u) (\<lambda>w.
     bnd (set_wallet_balance u (w_balance w) (w_frozen w)) (\<lambda>_. ret w))"

definition get_wallet_from_redis :: "u64 \<Rightarrow> ('r points_st_scheme, (int \<times> int) option) op" where
  "get_wallet_from_redis u =
     bnd (gets points_redis) (\<lambda>on. if \<not> on \<or> u = 0 then ret None else get_wallet_balance u)"

section \<open>Check-in\<close>

definition checkin :: "u64 \<Rightarrow> ('r points_st_scheme, unit) op" where
  "checkin u =
     bnd (has_checked_in u) (\<lambda>done. if done then throw ErrAlreadyCheckedIn else
     bnd (mark_checkin u) (\<lambda>_.
     bnd (gets clock_day) (\<lambda>d.
     enqueue_earn u ''checkin'' 0 (day_key d))))"

section \<open>Handlers\<close>

text \<open>A Kafka message: \<open>None\<close> when its JSON does not decode.\<close>

definition process_points_earn_message :: "earn_payload option \<Rightarrow> ('r points_st_scheme, unit) op" where
  "process_points_earn_message payload = (case payload of
       None \<Rightarrow> ret ()
     | Some p \<Rightarrow>
        if e_user p = 0 \<or> e_ref_type p = [] \<or> e_txn_id p = 0 then ret ()
        else earn_points (e_user p) (e_ref_type p) (e_ref_id p) (e_txn_id p))"

datatype wallet_source = FromDB | FromRedis

text \<open>
  \<open>GetMyWallet\<close>: balance, frozen balance and where they come from. A failed or missed Redis read
  falls back to MySQL.
\<close>

definition get_my_wallet :: "u64 \<Rightarrow> bool \<Rightarrow> ('r points_st_scheme, int \<times> int \<times> wallet_source) op" where
  "get_my_wallet u warm =
     (let from_db = bnd (ensure_wallet u) (\<lambda>w. ret (w_balance w, w_frozen w, FromDB));
          from_cache = bnd (attempt (get_wallet_from_redis u)) (\<lambda>c. case c of
            Inr (Some (b, f)) \<Rightarrow> ret (b, f, FromRedis)
          | _ \<Rightarrow> from_db)
      in if u = 0 then throw ErrInvalidToken
         else if warm then bnd (warm_wallet_redis_from_db u) (\<lambda>_. from_cache)
         else from_cache)"

text \<open>
  \<open>Checkin\<close>: a non-zero \<open>user_id\<close> in the JSON body replaces the authenticated user. The wallet is
  read with its error dropped; a nil wallet is then dereferenced.
\<close>

definition balance_of_wallet :: "err + wallet \<Rightarrow> ('s, int) op" where
  "balance_of_wallet r = (case r of Inr w \<Rightarrow> ret (w_balance w) | Inl _ \<Rightarrow> throw GoPanic)"

definition checkin_handler :: "u64 \<Rightarrow> u64 option \<Rightarrow> ('r points_st_scheme, int) op" where
  "checkin_handler auth body =
     (if auth = 0 then throw ErrInvalidToken else
      let u = (case body of Some v \<Rightarrow> if v \<noteq> 0 then v else auth | None \<Rightarrow> auth)
      in bnd (checkin u) (\<lambda>_.
         bnd (attempt (get_wallet u)) (\<lambda>w.
         bnd (ignore (invalidate_wallet_redis u)) (\<lambda>_.
         balance_of_wallet w))))"

definition checkin_via_query :: "u64 \<Rightarrow> ('r points_st_scheme, int) op" where
  "checkin_via_query auth =
     (if auth = 0 then throw ErrInvalidToken else
      bnd (checkin auth) (\<lambda>_.
      bnd (attempt (get_wallet auth)) (\<lambda>w.
      bnd (ignore (invalidate_wallet_redis auth)) (\<lambda>_.
      balance_of_wallet w))))"

section \<open>The ledger under crediting\<close>

lemma earn_readE:
  assumes "earn_read u s = (Inr w, t)" and "grant_free u s"
  obtains "wallet_ready u s w t"
proof -
  from assms have "wallet_ready u s w t"
    unfolding earn_read_def grant_free_def wallet_ready_def
    by (auto simp: op_eqs split: sum.splits if_splits
        elim!: op_elims get_wallet_by_user_id_txE get_wallet_by_user_id_tx_errE create_wallet_in_txE)
  then show thesis by (rule that)
qed

lemma earn_postE:
  assumes "earn_post u rule ref_type ref_id txn w s = (Inr x, t)"
    and inv: "ledger_inv s" and cur: "row_of w_user u (wallets s) = Some cw"
    and stale: "w_version cw = w_version w \<Longrightarrow> w_balance cw = w_balance w"
  obtains (posted) "ledger_inv t"
    and "ledger t = ledger s @ [income_txn txn u rule ref_type ref_id w (clock_now s)]"
    and "\<not> has_row t_id txn (ledger s)"
    and "wallets t = upd_rows (balance_guard u (rule_amount rule) (w_version w))
           (bump_wallet (rule_amount rule) (w_version w) (clock_now s)) (wallets s)"
    and "balance_guard u (rule_amount rule) (w_version w) cw"
proof -
  let ?x = "income_txn txn u rule ref_type ref_id w (clock_now s)"
  let ?P = "balance_guard u (rule_amount rule) (w_version w)"
  from assms(1) have t: "ledger t = ledger s @ [?x] \<and> clock_now t = clock_now s \<and> wallets t =
        upd_rows ?P (bump_wallet (rule_amount rule) (w_version w) (clock_now s)) (wallets s)"
    and fresh: "\<not> has_row t_id (t_id ?x) (ledger s)"
    and "\<exists>q \<in> set (wallets s). ?P q \<and> i64_ok (w_balance q + rule_amount rule)"
    unfolding earn_post_def
    by (auto simp: op_eqs split: if_splits elim!: op_elims try_insert_transactionE update_balanceE) (rule bexI, rule conjI)
  then obtain q where q: "q \<in> set (wallets s)" "?P q" "i64_ok (w_balance q + rule_amount rule)"
    by blast
  have fields: "t_user ?x = u" "t_amount ?x = rule_amount rule" "t_id ?x = txn"
    "t_balance_after ?x = i64 (w_balance w + rule_amount rule)"
    by (simp_all add: income_txn_def)
  note kept = ledger_inv_posted [OF inv cur stale, where x = ?x and q = q and t = t and now = "clock_now s"]
  show thesis
    by (rule posted) (use kept fields t fresh q in \<open>simp_all add: fields\<close>)
qed

lemma earn_body_inv:
  assumes "ledger_inv s" and "grant_free u s" and "earn_body u rule ref_type ref_id txn s = (Inr x, t)"
  shows "ledger_inv t"
  using assms unfolding earn_body_def
  by (elim bnd_InrE) (erule (1) earn_readE, erule earn_postE, simp_all add: wallet_ready_inv)


section \<open>Crediting, step by step\<close>

text \<open>
  \<open>beside_daily\<close> is the state without the daily counters: what the two operations on the counters
  leave alone, as \<open>beside_tables\<close> is for a transaction.
\<close>

definition beside_daily :: "'r points_st_scheme \<Rightarrow> 'r points_st_scheme" where
  "beside_daily s = s\<lparr>faults := [], daily := (\<lambda>_. None)\<rparr>"

definition daily_count :: "'r points_st_scheme \<Rightarrow> u64 \<times> string \<times> date \<Rightarrow> int" where
  "daily_count s key = (case daily s key of None \<Rightarrow> 0 | Some n \<Rightarrow> n)"

lemma daily_count_faults [simp]: "daily_count (s\<lparr>faults := fs\<rparr>) = daily_count s"
  by (rule ext) (simp add: daily_count_def)

lemma daily_count_upd [simp]:
  "daily_count (s\<lparr>faults := fs, daily := (daily s)(k := Some n)\<rparr>) = (daily_count s)(k := n)"
  by (rule ext) (simp add: daily_count_def)

lemma beside_daily_faults [simp]: "beside_daily (s\<lparr>faults := fs\<rparr>) = beside_daily s"
  by (simp add: beside_daily_def)

lemma beside_daily_upd [simp]: "beside_daily (s\<lparr>faults := fs, daily := d\<rparr>) = beside_daily s"
  by (simp add: beside_daily_def)

lemma beside_tablesD:
  assumes "beside_tables t = beside_tables s"
  shows "daily t = daily s" and "clock_now t = clock_now s" and "clock_day t = clock_day s"
    and "points_redis t = points_redis s" and "snowflake t = snowflake s" and "id_seq t = id_seq s"
    and "earn_topic t = earn_topic s" and "checkins t = checkins s" and "earn_kafka t = earn_kafka s"
  using assms unfolding beside_tables_def
  by (cases s; cases t; simp)+

lemma beside_dailyD:
  assumes "beside_daily t = beside_daily s"
  shows "wallets t = wallets s" and "ledger t = ledger s" and "clock_now t = clock_now s"
    and "clock_day t = clock_day s" and "points_redis t = points_redis s"
  using assms unfolding beside_daily_def by (cases s; cases t; simp)+

lemma beside_tables_body [keeps_rules]:
  "keeps (\<lambda>s. beside_tables s = c) (earn_body u rule ref_type ref_id txn)"
proof -
  note m = points_db.keeps_rest_io and q = points_db.quietly_rest
  have "keeps (\<lambda>s. beside_tables s = c) (get_wallet_by_user_id_tx u)"
    unfolding get_wallet_by_user_id_tx_def by (rule m) (simp split: option.split)
  moreover have "keeps (\<lambda>s. beside_tables s = c) (insert_transaction x)" for x
    unfolding insert_transaction_def by (rule m) (simp add: beside_tables_def)
  moreover have "keeps (\<lambda>s. beside_tables s = c) (insert_wallet x)" for x
    unfolding insert_wallet_def by (rule m) (simp add: beside_tables_def)
  moreover have "keeps (\<lambda>s. beside_tables s = c) (update_balance_stmt x y z)" for x y z
    unfolding update_balance_stmt_def by (rule m) (simp add: beside_tables_def Let_def)
  ultimately show ?thesis
    unfolding earn_body_def earn_read_def earn_post_def create_wallet_in_tx_def try_insert_transaction_def
      update_balance_def
    by (auto intro!: keeps_rules q split: sum.splits option.splits)
qed

text \<open>The transaction of \<open>earn_points\<close>.\<close>

lemma wp_earn_tx [wp_rules]:
  assumes "\<And>e t. points_tables t = points_tables s \<Longrightarrow> beside_tables t = beside_tables s \<Longrightarrow> Q (Inl e) t"
    and "\<And>t s1 s2. quiet s1 = quiet s \<Longrightarrow> earn_body u rule ref_type ref_id txn s1 = (Inr (), s2) \<Longrightarrow>
      points_tables t = points_tables s2 \<Longrightarrow> beside_tables t = beside_tables s \<Longrightarrow> Q (Inr ()) t"
  shows "wp (tx points_rollback (earn_body u rule ref_type ref_id txn)) Q s"
  using assms by (intro points_db.wp_tx beside_tables_body) auto

text \<open>The two operations on the counters.\<close>

lemma wp_check_daily [wp_rules]:
  assumes "\<And>e t. beside_daily t = beside_daily s \<Longrightarrow>
      daily_count t = daily_count s \<or>
      daily_count s (u, r, clock_day s) = - 2 \<and> daily_count t = (daily_count s)((u, r, clock_day s) := - 1) \<Longrightarrow>
      Q (Inl e) t"
    and "\<And>n t. beside_daily t = beside_daily s \<Longrightarrow>
      (points_redis s \<Longrightarrow> daily_count s (u, r, clock_day s) < limit) \<Longrightarrow>
      (points_redis s \<Longrightarrow> daily_count t = (daily_count s)((u, r, clock_day s) := daily_count s (u, r, clock_day s) + 1)) \<Longrightarrow>
      (\<not> points_redis s \<Longrightarrow> daily t = daily s) \<Longrightarrow> Q (Inr n) t"
  shows "wp (check_and_incr_daily_limit u r limit) Q s"
proof -
  let ?k = "(u, r, clock_day s)"
  have script: "wp (daily_script ?k limit)
      (\<lambda>res t. (\<forall>e. res = Inl e \<longrightarrow> Q (Inl e) t) \<and>
         (\<forall>n. res = Inr n \<longrightarrow> (if n = - 1 then Q (Inl ErrDailyLimitExceeded) t else Q (Inr n) t))) s"
    if "points_redis s"
    unfolding daily_script_def daily_count_def [of s, symmetric]
    by (rule wp_io)
      (auto simp: wp_def Let_def daily_count_def [symmetric] that intro!: assms)
  show ?thesis
  proof (cases "points_redis s")
    case True
    with script show ?thesis
      unfolding check_and_incr_daily_limit_def daily_limit_key_def
      by (auto simp: wp_simps elim!: wp_mono split: if_splits)
  next
    case False
    then show ?thesis
      unfolding check_and_incr_daily_limit_def
      by (auto simp: wp_simps intro!: assms(2))
  qed
qed

lemma wp_rollback_daily [wp_rules]:
  assumes "\<And>res t. res \<noteq> Inl GoPanic \<Longrightarrow> beside_daily t = beside_daily s \<Longrightarrow>
      daily_count t = daily_count s \<or>
      points_redis s \<and> daily_count t = (daily_count s)((u, r, clock_day s) := daily_count s (u, r, clock_day s) - 1) \<Longrightarrow> Q res t"
  shows "wp (rollback_daily_limit u r) Q s"
  unfolding rollback_daily_limit_def daily_limit_key_def
  by (auto simp: wp_simps daily_count_def [symmetric] intro!: wp_io assms)

lemma wp_invalidate [wp_rules]:
  assumes "\<And>res t. res \<noteq> Inl GoPanic \<Longrightarrow> points_tables t = points_tables s \<Longrightarrow> daily t = daily s \<Longrightarrow> Q res t"
  shows "wp (invalidate_wallet_redis u) Q s"
  unfolding invalidate_wallet_redis_def del_wallet_balance_def
  by (auto simp: wp_simps points_tables_def intro!: wp_io assms)

lemma wp_txn_id_exists [wp_rules]:
  assumes "\<And>t. quiet t = quiet s \<Longrightarrow> Q (Inl IOError) t"
    and "\<And>t. quiet t = quiet s \<Longrightarrow> Q (Inr (x \<noteq> 0 \<and> has_row t_id x (ledger s))) t"
  shows "wp (txn_id_exists x) Q s"
  using assms(1) assms(2) [of s] assms(2) [of "s\<lparr>faults := fs\<rparr>" for fs]
  unfolding txn_id_exists_def by (auto simp: wp_simps intro!: wp_io)

lemma wp_generate_id [wp_simps]:
  "wp generate_id Q s = Q (Inr (snowflake s (id_seq s))) (s\<lparr>id_seq := Suc (id_seq s)\<rparr>)"
  by (simp add: wp_def generate_id_def)

text \<open>
  The outcomes of \<open>earn_points\<close>. Nothing posted: the tables are the same and the day's counter has
  not gone down, and has gone up by one at most, below the limit, when its rollback failed. Posted:
  one run of the body succeeded on the tables, and the counter went up by one below the limit.
\<close>

definition counted :: "'r points_st_scheme \<Rightarrow> 'r points_st_scheme \<Rightarrow> u64 \<times> string \<times> date \<Rightarrow> int \<Rightarrow> bool" where
  "counted s t k limit \<longleftrightarrow> daily_count s k < limit \<and> daily_count t = (daily_count s)(k := daily_count s k + 1)"

definition earn_idle :: "u64 \<Rightarrow> string \<Rightarrow> 'r points_st_scheme \<Rightarrow> 'r points_st_scheme \<Rightarrow> bool" where
  "earn_idle u ref_type s t \<longleftrightarrow> points_tables t = points_tables s \<and>
     (daily_count t = daily_count s \<or>
      (\<exists>rule. points_rules ref_type = Some rule \<and>
         (counted s t (u, ref_type, clock_day s) (rule_daily_limit rule) \<or>
          daily_count s (u, ref_type, clock_day s) = - 2 \<and>
          daily_count t = (daily_count s)((u, ref_type, clock_day s) := - 1))))"

definition earn_posted ::
  "u64 \<Rightarrow> string \<Rightarrow> u64 \<Rightarrow> u64 \<Rightarrow> 'r points_st_scheme \<Rightarrow> 'r points_st_scheme \<Rightarrow> bool" where
  "earn_posted u ref_type ref_id txn0 s t \<longleftrightarrow>
     (\<exists>rule txn (s1 :: 'r points_st_scheme) s2. points_rules ref_type = Some rule \<and> (txn0 \<noteq> 0 \<longrightarrow> txn = txn0) \<and>
        points_tables s1 = points_tables s \<and> clock_now s1 = clock_now s \<and>
        earn_body u rule ref_type ref_id txn s1 = (Inr (), s2) \<and> points_tables t = points_tables s2 \<and>
        (if points_redis s then counted s t (u, ref_type, clock_day s) (rule_daily_limit rule)
         else daily_count t = daily_count s))"

lemma daily_count_cong: "daily t = daily s \<Longrightarrow> daily_count t = daily_count s"
  by (rule ext) (simp add: daily_count_def)

lemma quiet_points:
  assumes "quiet t = quiet s"
  shows "wallets t = wallets s" and "ledger t = ledger s" and "daily_count t = daily_count s"
    and "clock_now t = clock_now s" and "clock_day t = clock_day s" and "points_redis t = points_redis s"
  using assms unfolding quiet_def by (cases s; cases t; simp add: daily_count_def fun_eq_iff)+

text \<open>From the counter check on: \<open>q\<close> is the state then, \<open>s\<close> the one at the start.\<close>

definition same_books :: "'r points_st_scheme \<Rightarrow> 'r points_st_scheme \<Rightarrow> bool" where
  "same_books s q \<longleftrightarrow> points_tables q = points_tables s \<and> daily_count q = daily_count s \<and>
     clock_now q = clock_now s \<and> clock_day q = clock_day s \<and> points_redis q = points_redis s"

definition earn_tail :: "u64 \<Rightarrow> string \<Rightarrow> u64 \<Rightarrow> points_rule \<Rightarrow> u64 \<Rightarrow> ('r points_st_scheme, unit) op" where
  "earn_tail u ref_type ref_id rule txn =
     bnd (check_and_incr_daily_limit u ref_type (rule_daily_limit rule)) (\<lambda>_.
        bnd (attempt (tx points_rollback (earn_body u rule ref_type ref_id txn))) (\<lambda>r. case r of
          Inl e \<Rightarrow>
            bnd (ignore (rollback_daily_limit u ref_type)) (\<lambda>_.
            if e = ErrPointsTxnIdempotentSkip then ret () else throw e)
        | Inr _ \<Rightarrow> bnd (ignore (invalidate_wallet_redis u)) (\<lambda>_. ret ())))"

lemma wp_earn_tail:
  assumes q: "same_books s q" and rule: "points_rules ref_type = Some rule" and txn: "txn0 \<noteq> 0 \<longrightarrow> txn = txn0"
  shows "wp (earn_tail u ref_type ref_id rule txn)
     (\<lambda>r t. earn_idle u ref_type s t \<or> r = Inr () \<and> earn_posted u ref_type ref_id txn0 s t) q"
  unfolding earn_tail_def wp_bnd [of "check_and_incr_daily_limit u ref_type (rule_daily_limit rule)"]
proof (rule wp_check_daily, goal_cases)
  case (1 e t)
  then have "earn_idle u ref_type s t"
    using q rule beside_dailyD [OF 1(1)] by (auto simp: earn_idle_def same_books_def points_tables_def)
  then show ?case by simp
next
  case (2 n t)
  then have t: "points_tables t = points_tables s" "clock_now t = clock_now s" "clock_day t = clock_day s"
      "points_redis t = points_redis s"
    using q beside_dailyD [OF 2(1)] by (simp_all add: same_books_def points_tables_def)
  have cnt: "if points_redis s then counted s t (u, ref_type, clock_day s) (rule_daily_limit rule)
      else daily_count t = daily_count s"
    using 2(2-4) q daily_count_cong [of t q] by (auto simp: same_books_def counted_def)
  have idle: "earn_idle u ref_type s v"
    if "points_tables v = points_tables s" "daily_count v = daily_count t" for v
    using that cnt rule by (auto simp: earn_idle_def counted_def split: if_splits)
  show ?case
    unfolding wp_bnd wp_attempt
  proof (intro conjI allI impI, simp, rule wp_earn_tx, goal_cases)
    case (1 m e v)
    then have v: "points_tables v = points_tables s" "daily_count v = daily_count t" "clock_day v = clock_day s"
        "points_redis v = points_redis s"
      using t beside_tablesD [OF 1(3)] daily_count_cong [of v t] by simp_all
    then have "earn_idle u ref_type s v" by (simp add: idle)
    moreover have "earn_idle u ref_type s w"
      if "beside_daily w = beside_daily v"
        "daily_count w = daily_count v \<or> points_redis v \<and>
           daily_count w = (daily_count v)((u, ref_type, clock_day v) := daily_count v (u, ref_type, clock_day v) - 1)" for w
      using that(2) v cnt idle [of w] beside_dailyD [OF that(1)]
      by (auto simp: earn_idle_def counted_def points_tables_def split: if_splits)
    ultimately show ?case
      by (auto simp: wp_simps intro!: wp_rollback_daily)
  next
    case (2 m v s1 s2)
    note body = quiet_points [OF 2(2)]
    have "earn_posted u ref_type ref_id txn0 s w"
      if "points_tables w = points_tables v" "daily w = daily v" for w
      unfolding earn_posted_def
    proof (intro exI conjI)
      show "earn_body u rule ref_type ref_id txn s1 = (Inr (), s2)" by (rule 2(3))
      show "if points_redis s then counted s w (u, ref_type, clock_day s) (rule_daily_limit rule)
            else daily_count w = daily_count s"
        using cnt that(2) beside_tablesD(1) [OF 2(5)] daily_count_cong [of w t] by (auto simp: counted_def split: if_splits)
    qed (use that 2(4) t txn rule body in \<open>auto simp: points_tables_def\<close>)
    then show ?case
      by (auto simp: wp_simps intro!: wp_invalidate)
  qed
qed

lemma earn_points_outcome:
  "wp (earn_points u ref_type ref_id txn0)
     (\<lambda>r t. earn_idle u ref_type s t \<or> r = Inr () \<and> earn_posted u ref_type ref_id txn0 s t) s"
proof (cases "points_rules ref_type")
  case None
  then show ?thesis by (simp add: earn_points_def wp_simps earn_idle_def)
next
  case (Some rule)
  have exists: "wp (bnd (txn_id_exists txn) (\<lambda>exists. if exists then ret () else earn_tail u ref_type ref_id rule txn))
     (\<lambda>r t. earn_idle u ref_type s t \<or> r = Inr () \<and> earn_posted u ref_type ref_id txn0 s t) q"
    if q: "same_books s q" and txn: "txn0 \<noteq> 0 \<longrightarrow> txn = txn0" for txn q
  proof -
    have same: "same_books s t" if "quiet t = quiet q" for t
      using quiet_points [OF that] q by (simp add: same_books_def points_tables_def)
    have idle: "earn_idle u ref_type s t" if "same_books s t" for t
      using that by (simp add: earn_idle_def same_books_def)
    show ?thesis
      using txn by (auto simp: wp_simps intro!: wp_txn_id_exists wp_earn_tail Some intro: idle same)
  qed
  have start: "same_books s s" and gen: "same_books s (s\<lparr>id_seq := n\<rparr>)" for n
    by (simp_all add: same_books_def points_tables_def daily_count_def fun_eq_iff)
  show ?thesis
    using exists [OF start, of txn0] exists [OF gen, of "snowflake s (id_seq s)" "Suc (id_seq s)"]
    unfolding earn_points_def earn_tail_def Some
    by (simp add: wp_simps)
qed


end
