(* ===== verification/PointsProps.thy ===== *)
theory PointsProps
  imports PointsService
begin

text \<open>
  What crediting guarantees: the properties of PointsService, of its Kafka consumer and of the
  check-in handlers.
\<close>

section \<open>Properties of crediting\<close>

lemma outcomeE:
  assumes "earn_points u ref_type ref_id txn0 s = (r, t)"
  obtains (idle) "earn_idle u ref_type s t" | (posted) "r = Inr ()" and "earn_posted u ref_type ref_id txn0 s t"
  using wpD [OF earn_points_outcome assms] by blast

lemma earn_postedE:
  fixes s :: "'r points_st_scheme"
  assumes "earn_posted u ref_type ref_id txn0 s t"
  obtains rule txn and s1 s2 :: "'r points_st_scheme" where "points_rules ref_type = Some rule"
    and "txn0 \<noteq> 0 \<Longrightarrow> txn = txn0" and "points_tables s1 = points_tables s" and "clock_now s1 = clock_now s"
    and "earn_body u rule ref_type ref_id txn s1 = (Inr (), s2)" and "points_tables t = points_tables s2"
    and "if points_redis s then counted s t (u, ref_type, clock_day s) (rule_daily_limit rule)
         else daily_count t = daily_count s"
  using assms unfolding earn_posted_def by blast

lemma earn_points_inv:
  fixes s :: "'r points_st_scheme"
  assumes "ledger_inv s" and "grant_free u s" and "earn_points u ref_type ref_id txn0 s = (r, t)"
  shows "ledger_inv t"
  using assms(3)
proof (cases rule: outcomeE)
  case idle
  with assms(1) show ?thesis using ledger_inv_tables [of t s] by (simp add: earn_idle_def)
next
  case posted
  then obtain rule txn and s1 s2 :: "'r points_st_scheme" where q: "points_tables s1 = points_tables s"
    "earn_body u rule ref_type ref_id txn s1 = (Inr (), s2)" "points_tables t = points_tables s2"
    by (elim earn_postedE)
  from q(1) assms(1,2) have "ledger_inv s1" "grant_free u s1"
    using ledger_inv_tables [of s1 s] by (auto simp: grant_free_def points_tables_def)
  then have "ledger_inv s2" using q(2) by (rule earn_body_inv)
  then show ?thesis using ledger_inv_tables [of t s2] q(3) by simp
qed

text \<open>A state to run examples in: one wallet and no ledger row, Redis configured, no Kafka.\<close>

definition points_demo :: points_st where
  "points_demo = \<lparr>faults = [], wallets = [\<lparr>w_user = 7, w_balance = 0, w_frozen = 0, w_version = 3,
       w_updated = 0, w_created = 0\<rparr>], ledger = [], clock_now = 0, clock_day = (2025, 3, 1),
     snowflake = (\<lambda>n. of_nat (Suc n)), id_seq = 0, points_redis = True, daily = (\<lambda>_. None),
     checkins = (\<lambda>_ _. False), wallet_cache = (\<lambda>_. None), earn_kafka = False, earn_topic = []\<rparr>"

text \<open>What it takes to run the code on a concrete state.\<close>

lemmas points_run = earn_points_def points_rules_def txn_id_exists_def io_def bnd_def gets_def ret_def throw_def
  modify_def attempt_def ignore_def tx_def check_and_incr_daily_limit_def daily_limit_key_def daily_script_def
  rollback_daily_limit_def earn_body_def earn_read_def earn_post_def get_wallet_by_user_id_tx_def
  try_insert_transaction_def insert_transaction_def update_balance_def update_balance_stmt_def Let_def
  has_row_def balance_guard_def bump_wallet_def upd_rows_def count_rows_def income_txn_def
  invalidate_wallet_redis_def del_wallet_balance_def i64_ok_def points_rollback_def points_demo_def

lemma ledger_inv_demo: "ledger_inv points_demo"
  by (simp add: ledger_inv_def points_demo_def user_total_def sum_rows_def running_def)

lemma grant_free_demo: "grant_free u points_demo"
  by (simp add: grant_free_def points_demo_def)

text \<open>C1: crediting keeps the books: whatever calls fail, after \<open>earnPoints\<close> every wallet balance is
  still the sum of the user's ledger rows, transaction ids are still unique, and each row's
  \<open>balance_after\<close> is the running total, provided no other row took the id of the user's initial
  grant.\<close>

theorem earn_points_keeps_ledger:
  assumes "ledger_inv s" and "grant_free u s"
  shows "ledger_inv (snd (earn_points u ref_type ref_id txn s))"
  using assms earn_points_inv by (metis prod.collapse)

lemma earn_points_keeps_ledger_witness:
  "ledger_inv (snd (earn_points 7 ''article'' 1 9 points_demo)) \<and>
   map w_balance (wallets (snd (earn_points 7 ''article'' 1 9 points_demo))) = [10]"
proof
  show "ledger_inv (snd (earn_points 7 ''article'' 1 9 points_demo))"
    by (rule earn_points_keeps_ledger [OF ledger_inv_demo grant_free_demo])
  show "map w_balance (wallets (snd (earn_points 7 ''article'' 1 9 points_demo))) = [10]"
    by (simp add: points_run)
qed

text \<open>A failed award is all or nothing: when \<open>earnPoints\<close> returns an error, both tables are what
  they were, and the day's counter is unchanged unless its own rollback failed (then it is one up).\<close>

theorem earn_points_error_atomic:
  assumes "earn_points u ref_type ref_id txn s = (Inl e, t)" and "0 \<le> daily_count s (u, ref_type, clock_day s)"
  shows "wallets t = wallets s \<and> ledger t = ledger s \<and>
    (daily_count t = daily_count s \<or>
     daily_count t = (daily_count s)((u, ref_type, clock_day s) := daily_count s (u, ref_type, clock_day s) + 1))"
  using assms(1)
  by (cases rule: outcomeE) (use assms(2) in \<open>auto simp: earn_idle_def counted_def points_tables_def\<close>)

lemma earn_points_error_atomic_witness:
  "wallets (snd (earn_points 7 ''article'' 1 9 (points_demo\<lparr>faults := [False, False, False, True]\<rparr>))) = wallets points_demo"
proof -
  let ?s = "points_demo\<lparr>faults := [False, False, False, True]\<rparr>"
  have "fst (earn_points 7 ''article'' 1 9 ?s) = Inl IOError" by (simp add: points_run)
  then have "earn_points 7 ''article'' 1 9 ?s = (Inl IOError, snd (earn_points 7 ''article'' 1 9 ?s))"
    by (metis prod.collapse)
  from earn_points_error_atomic [OF this] show ?thesis
    by (simp add: daily_count_def points_demo_def)
qed


lemma update_balance_ok:
  assumes "faults s = []" and "distinct (map w_user (wallets s))" and w: "row_of w_user u (wallets s) = Some w"
    and guard: "balance_guard u a v w" and ok: "i64_ok (w_balance w + a)"
  shows "update_balance u a v s =
    (Inr (), s\<lparr>wallets := upd_rows (balance_guard u a v) (bump_wallet a v (clock_now s)) (wallets s)\<rparr>)"
proof -
  have only: "q = w" if "q \<in> set (wallets s)" "balance_guard u a v q" for q
    using that w assms(2) by (metis balance_guard_def option.inject row_of_in)
  have "count_rows (balance_guard u a v) (wallets s) \<noteq> 0"
    using w guard by (auto simp: count_rows_zero dest: row_of_Some_in)
  moreover have "\<not> (\<exists>q \<in> set (wallets s). balance_guard u a v q \<and> \<not> i64_ok (w_balance q + a))"
    using only ok by blast
  ultimately show ?thesis
    by (simp add: update_balance_def update_balance_stmt_def bnd_def io_nil assms(1) Let_def ret_run)
qed

lemma earn_body_ok:
  assumes "faults s = []" and "ledger_inv s" and w: "row_of w_user u (wallets s) = Some w"
    and "\<not> has_row t_id txn (ledger s)" and ok: "i64_ok (w_balance w + rule_amount rule)"
    and pos: "0 < rule_amount rule"
  shows "earn_body u rule ref_type ref_id txn s =
    (Inr (), s\<lparr>ledger := ledger s @ [income_txn txn u rule ref_type ref_id w (clock_now s)],
       wallets := upd_rows (balance_guard u (rule_amount rule) (w_version w))
          (bump_wallet (rule_amount rule) (w_version w) (clock_now s)) (wallets s)\<rparr>)"
proof -
  let ?s = "s\<lparr>ledger := ledger s @ [income_txn txn u rule ref_type ref_id w (clock_now s)]\<rparr>"
  from w have "balance_guard u (rule_amount rule) (w_version w) w"
    using pos by (auto simp: balance_guard_def dest: row_of_Some_in)
  then have "update_balance u (rule_amount rule) (w_version w) ?s =
      (Inr (), ?s\<lparr>wallets := upd_rows (balance_guard u (rule_amount rule) (w_version w))
          (bump_wallet (rule_amount rule) (w_version w) (clock_now ?s)) (wallets ?s)\<rparr>)"
    using assms by (intro update_balance_ok) (auto simp: ledger_inv_def)
  then show ?thesis
    using assms by (simp add: earn_body_def earn_read_def earn_post_def get_wallet_by_user_id_tx_def
        try_insert_transaction_def insert_transaction_def bnd_def attempt_def io_nil ret_run gets_run income_txn_def)
qed

text \<open>A new award is credited: with no failing call, a fresh transaction id, an existing wallet
  and room under the daily limit, \<open>earnPoints\<close> succeeds, appends exactly the income row and adds the
  rule's amount to the wallet under the next version.\<close>

theorem earn_points_credits:
  assumes "faults s = []" and "ledger_inv s" and "row_of w_user u (wallets s) = Some w"
    and "points_rules ref_type = Some rule" and "txn \<noteq> 0" and "\<not> has_row t_id txn (ledger s)"
    and "i64_ok (w_balance w + rule_amount rule)"
    and "0 \<le> daily_count s (u, ref_type, clock_day s)"
    and "daily_count s (u, ref_type, clock_day s) < rule_daily_limit rule"
  shows "\<exists>t. earn_points u ref_type ref_id txn s = (Inr (), t) \<and>
     ledger t = ledger s @ [income_txn txn u rule ref_type ref_id w (clock_now s)] \<and>
     row_of w_user u (wallets t) = Some (bump_wallet (rule_amount rule) (w_version w) (clock_now s) w)"
proof -
  have pos: "0 < rule_amount rule"
    using assms(4) by (auto simp: points_rules_def split: if_splits)
  let ?k = "(u, ref_type, clock_day s)"
  define s1 where "s1 = (if points_redis s then s\<lparr>daily := (daily s)(?k := Some (daily_count s ?k + 1))\<rparr> else s)"
  have chk: "\<exists>n. check_and_incr_daily_limit u ref_type (rule_daily_limit rule) s = (Inr n, s1)"
    using assms(1,8,9) unfolding s1_def daily_count_def
    by (auto simp: check_and_incr_daily_limit_def daily_script_def daily_limit_key_def bnd_def gets_run
        ret_run io_nil Let_def split: option.splits)
  have s1: "faults s1 = []" "wallets s1 = wallets s" "ledger s1 = ledger s" "clock_now s1 = clock_now s"
    by (simp_all add: s1_def assms(1))
  then have inv: "ledger_inv s1" using assms(2) by (simp add: ledger_inv_def)
  let ?t = "s1\<lparr>ledger := ledger s1 @ [income_txn txn u rule ref_type ref_id w (clock_now s1)],
       wallets := upd_rows (balance_guard u (rule_amount rule) (w_version w))
          (bump_wallet (rule_amount rule) (w_version w) (clock_now s1)) (wallets s1)\<rparr>"
  have "earn_body u rule ref_type ref_id txn s1 = (Inr (), ?t)"
    using assms s1 inv pos by (intro earn_body_ok) simp_all
  then have "tx points_rollback (earn_body u rule ref_type ref_id txn) s1 = (Inr (), ?t)"
    by (simp add: tx_def io_nil s1 ret_run)
  moreover define v where "v = snd (invalidate_wallet_redis u ?t)"
  have v: "invalidate_wallet_redis u ?t = (Inr (), v)" "ledger v = ledger ?t" "wallets v = wallets ?t"
    unfolding v_def
    by (simp_all add: invalidate_wallet_redis_def del_wallet_balance_def bnd_def gets_run ret_run io_nil s1 modify_run)
  moreover have "txn_id_exists txn s = (Inr False, s)"
    using assms by (simp add: txn_id_exists_def io_nil gets_run)
  moreover obtain n where "check_and_incr_daily_limit u ref_type (rule_daily_limit rule) s = (Inr n, s1)"
    using chk by blast
  ultimately have "earn_points u ref_type ref_id txn s = (Inr (), v)"
    using assms by (simp add: earn_points_def bnd_def attempt_def ignore_def ret_run)
  moreover have "row_of w_user u (wallets v) = Some (bump_wallet (rule_amount rule) (w_version w) (clock_now s) w)"
    using assms(3) pos row_of_Some_in [OF assms(3)]
    by (simp add: v s1 bump_wallet_def balance_guard_def)
  ultimately show ?thesis using v s1 by simp
qed

lemma earn_points_credits_witness:
  "\<exists>t. earn_points 7 ''article'' 1 9 points_demo = (Inr (), t) \<and>
     ledger t = [income_txn 9 7 \<lparr>rule_amount = 10, rule_daily_limit = 50,
        rule_desc = utf8 [229, 143, 145, 230, 150, 135, 229, 165, 150, 229, 138, 177]\<rparr> ''article'' 1 (hd (wallets points_demo)) 0]"
  using earn_points_credits [of points_demo 7 "hd (wallets points_demo)" "''article''" _ 9 1] ledger_inv_demo
  by (auto simp: points_demo_def points_rules_def i64_ok_def daily_count_def)

fun redeliver :: "nat \<Rightarrow> earn_payload \<Rightarrow> 'r points_st_scheme \<Rightarrow> 'r points_st_scheme" where
  "redeliver 0 p s = s"
| "redeliver (Suc n) p s = redeliver n p (snd (process_points_earn_message (Some p) s))"

lemma earn_points_seen:
  assumes "txn \<noteq> 0" and "has_row t_id txn (ledger s)"
  shows "quiet (snd (earn_points u ref_type ref_id txn s)) = quiet s"
proof -
  have "wp (earn_points u ref_type ref_id txn) (\<lambda>r t. quiet t = quiet s) s"
    using assms unfolding earn_points_def
    by (auto simp: wp_simps intro!: wp_txn_id_exists split: option.splits)
  then show ?thesis by (auto simp: wp_def split: prod.splits)
qed

text \<open>C4: crediting is idempotent: once the ledger holds a transaction id, any number of further
  deliveries of that id, under any pattern of failing calls, changes nothing at all (not even the
  daily counter).\<close>

theorem redelivery_changes_nothing:
  assumes "has_row t_id (e_txn_id p) (ledger s)"
  shows "quiet (redeliver n p s) = quiet s"
  using assms
proof (induction n arbitrary: s)
  case 0
  then show ?case by simp
next
  case (Suc n)
  let ?t = "snd (process_points_earn_message (Some p) s)"
  have same: "quiet ?t = quiet s"
    using Suc.prems by (auto simp: process_points_earn_message_def ret_run earn_points_seen)
  then have "has_row t_id (e_txn_id p) (ledger ?t)"
    using Suc.prems quiet_points(2) by metis
  with same show ?case by (simp add: Suc.IH)
qed

lemma redelivery_changes_nothing_witness:
  "quiet (redeliver 3 \<lparr>e_user = 7, e_ref_type = ''article'', e_ref_id = 1, e_txn_id = 9\<rparr>
      (snd (earn_points 7 ''article'' 1 9 points_demo)))
   = quiet (snd (earn_points 7 ''article'' 1 9 points_demo))"
proof (rule redelivery_changes_nothing)
  show "has_row t_id (e_txn_id \<lparr>e_user = 7, e_ref_type = ''article'', e_ref_id = 1, e_txn_id = 9\<rparr>)
      (ledger (snd (earn_points 7 ''article'' 1 9 points_demo)))"
    by (simp add: points_run)
qed

section \<open>The daily limit\<close>

text \<open>What crediting never touches.\<close>

definition points_config :: "'r points_st_scheme \<Rightarrow> int \<times> date \<times> bool \<times> bool \<times> (u64 \<times> nat \<Rightarrow> nat \<Rightarrow> bool)" where
  "points_config s = (clock_now s, clock_day s, points_redis s, earn_kafka s, checkins s)"

lemma quietly_config: "quietly (\<lambda>s. points_config s = c)"
  by (simp add: quietly_def points_config_def)

lemma points_config_upd [simp]:
  "points_config (s\<lparr>daily := d\<rparr>) = points_config s"
  "points_config (s\<lparr>wallet_cache := wc\<rparr>) = points_config s"
  "points_config (s\<lparr>id_seq := n\<rparr>) = points_config s"
  "points_config (s\<lparr>earn_topic := et\<rparr>) = points_config s"
  "points_config (s\<lparr>faults := fs\<rparr>) = points_config s"
  "points_config (points_rollback q s) = points_config s"
  by (simp_all add: points_config_def points_rollback_def)

lemma beside_config:
  assumes "beside_tables t = beside_tables s" shows "points_config t = points_config s"
  by (simp add: points_config_def beside_tablesD [OF assms])

lemma keeps_config_tx [keeps_rules]:
  "keeps (\<lambda>s :: 'r points_st_scheme. points_config s = c) (tx points_rollback (earn_body u rule ref_type ref_id txn))"
proof (rule keeps_tx [OF quietly_config])
  show "keeps (\<lambda>s :: 'r points_st_scheme. points_config s = c) (earn_body u rule ref_type ref_id txn)"
  proof (rule keepsI)
    fix s t :: "'r points_st_scheme" and r
    assume "earn_body u rule ref_type ref_id txn s = (r, t)" and "points_config s = c"
    from this(1) have "beside_tables t = beside_tables s" 
      using keepsD [OF beside_tables_body [of "beside_tables s"]] by blast
    then have "points_config t = points_config s" by (rule beside_config)
    with \<open>points_config s = c\<close> show "points_config t = c" by simp
  qed
qed simp

lemma keeps_config_earn [keeps_rules]:
  "keeps (\<lambda>s. points_config s = c) (earn_points u ref_type ref_id txn)"
proof -
  have m: "keeps (\<lambda>s. points_config s = c) (modify f)"
    if "\<And>s. points_config (f s) = points_config s" for f :: "'a points_st_scheme \<Rightarrow> 'a points_st_scheme"
    using that by (auto intro: keeps_modify)
  have d: "keeps (\<lambda>s. points_config s = c) (daily_script k l)" for k l
    unfolding daily_script_def by (intro keeps_io quietly_config) (simp add: keeps_def Let_def)
  have g: "keeps (\<lambda>s. points_config s = c) generate_id"
    by (simp add: keeps_def generate_id_def)
  show ?thesis
    unfolding earn_points_def txn_id_exists_def check_and_incr_daily_limit_def rollback_daily_limit_def
      invalidate_wallet_redis_def del_wallet_balance_def
    by (auto intro!: keeps_rules quietly_config m d g split: option.splits sum.splits)
qed

text \<open>The rows a successful body appends: possibly the initial grant, then the income row.\<close>

lemma earn_read_rows:
  assumes "earn_read u s = (Inr w, t)"
  shows "clock_now t = clock_now s \<and> (ledger t = ledger s \<or> ledger t = ledger s @ [grant_txn u (clock_now s)])"
  using assms unfolding earn_read_def
  by (auto simp: op_eqs split: sum.splits if_splits
      elim!: op_elims get_wallet_by_user_id_txE get_wallet_by_user_id_tx_errE create_wallet_in_txE)

lemma earn_post_rows:
  assumes "earn_post u rule ref_type ref_id txn w s = (Inr x, t)"
  shows "ledger t = ledger s @ [income_txn txn u rule ref_type ref_id w (clock_now s)]"
  using assms unfolding earn_post_def
  by (auto simp: op_eqs split: if_splits elim!: op_elims try_insert_transactionE update_balanceE)

lemma earn_body_rows:
  assumes "earn_body u rule ref_type ref_id txn s = (Inr x, t)"
  obtains g w where "ledger t = ledger s @ g @ [income_txn txn u rule ref_type ref_id w (clock_now s)]"
    and "g = [] \<or> g = [grant_txn u (clock_now s)]"
proof -
  from assms obtain w q where "earn_read u s = (Inr w, q)" "earn_post u rule ref_type ref_id txn w q = (Inr x, t)"
    unfolding earn_body_def by (elim bnd_InrE)
  then show thesis using that [of "[]" w] that [of "[grant_txn u (clock_now s)]" w]
    by (auto dest!: earn_read_rows earn_post_rows)
qed

type_synonym earn_request = "u64 \<times> string \<times> u64 \<times> u64"

text \<open>Requests served one after another within a day, each under its own pattern of failing calls.\<close>

fun earn_all :: "(earn_request \<times> bool list) list \<Rightarrow> 'r points_st_scheme \<Rightarrow> 'r points_st_scheme" where
  "earn_all [] s = s"
| "earn_all (((u, ref_type, ref_id, txn), fs) # rs) s =
     earn_all rs (snd (earn_points u ref_type ref_id txn (s\<lparr>faults := fs\<rparr>)))"

definition awarded :: "u64 \<Rightarrow> string \<Rightarrow> points_txn list \<Rightarrow> nat" where
  "awarded u ref_type l = count_rows (\<lambda>t. t_user t = u \<and> t_ref_type t = ref_type) l"

lemma earn_step_counts:
  fixes s :: "'r points_st_scheme"
  assumes "points_rules ref = Some rule" and "points_redis s"
    and t: "t = snd (earn_points v r i x (s\<lparr>faults := fs\<rparr>))"
    and lo: "0 \<le> daily_count s (u, ref, clock_day s)" and hi: "daily_count s (u, ref, clock_day s) \<le> rule_daily_limit rule"
  shows "int (awarded u ref (ledger t)) - int (awarded u ref (ledger s))
       \<le> daily_count t (u, ref, clock_day s) - daily_count s (u, ref, clock_day s)"
    and "daily_count s (u, ref, clock_day s) \<le> daily_count t (u, ref, clock_day s)"
    and "daily_count t (u, ref, clock_day s) \<le> rule_daily_limit rule"
proof -
  let ?s = "s\<lparr>faults := fs\<rparr>" and ?k = "(u, ref, clock_day s)"
  have nogrant: "ref \<noteq> ''initial_grant''"
    using assms(1) by (auto simp: points_rules_def)
  obtain res where run: "earn_points v r i x ?s = (res, t)" using t by (metis prod.collapse)
  have "int (awarded u ref (ledger t)) - int (awarded u ref (ledger s)) \<le> daily_count t ?k - daily_count s ?k \<and>
        daily_count s ?k \<le> daily_count t ?k \<and> daily_count t ?k \<le> rule_daily_limit rule"
    using run
  proof (cases rule: outcomeE)
    case idle
    with lo hi assms(1) show ?thesis
      by (auto simp: earn_idle_def points_tables_def counted_def)
  next
    case posted
    then obtain rule' txn and s1 s2 :: "'r points_st_scheme" where p: "points_rules r = Some rule'" "points_tables s1 = points_tables ?s"
        "earn_body v rule' r i txn s1 = (Inr (), s2)" "points_tables t = points_tables s2"
        "counted s t (v, r, clock_day s) (rule_daily_limit rule')"
      using assms(2) by (elim earn_postedE) (auto simp: counted_def)
    from p(3) obtain g w where "ledger s2 = ledger s1 @ g @ [income_txn txn v rule' r i w (clock_now s1)]"
        "g = [] \<or> g = [grant_txn v (clock_now s1)]"
      by (elim earn_body_rows)
    then have "awarded u ref (ledger t) = awarded u ref (ledger s) + (if v = u \<and> r = ref then 1 else 0)"
      using p(2,4) nogrant by (auto simp: awarded_def count_rows_def points_tables_def grant_txn_def income_txn_def)
    with p(1,5) assms(1) hi show ?thesis by (auto simp: counted_def)
  qed
  then show "int (awarded u ref (ledger t)) - int (awarded u ref (ledger s)) \<le> daily_count t ?k - daily_count s ?k"
    and "daily_count s ?k \<le> daily_count t ?k" and "daily_count t ?k \<le> rule_daily_limit rule"
    by simp_all
qed

text \<open>C3: the daily limit holds: of any series of requests on one day, under any pattern of failing
  calls, at most \<open>DailyLimit\<close> minus the day's counter rows of a kind are credited to a user.\<close>

theorem daily_limit_bounds_awards:
  assumes "points_rules ref = Some rule" and "points_redis s"
    and "0 \<le> daily_count s (u, ref, clock_day s)" and "daily_count s (u, ref, clock_day s) \<le> rule_daily_limit rule"
  shows "int (awarded u ref (ledger (earn_all rs s))) - int (awarded u ref (ledger s))
     \<le> rule_daily_limit rule - daily_count s (u, ref, clock_day s)"
  using assms(2-4)
proof (induction rs arbitrary: s)
  case Nil
  then show ?case by simp
next
  case (Cons q rs)
  obtain v r i x fs where q: "q = ((v, r, i, x), fs)" by (cases q) auto
  let ?t = "snd (earn_points v r i x (s\<lparr>faults := fs\<rparr>))"
  note step = earn_step_counts [OF assms(1) Cons.prems(1) refl Cons.prems(2,3), of v r i x fs]
  have "points_config ?t = points_config s"
    using keeps_config_earn [of "points_config s" v r i x] unfolding keeps_def
    by (metis points_config_upd(5))
  then have "points_redis ?t" "clock_day ?t = clock_day s"
    using Cons.prems(1) by (simp_all add: points_config_def)
  with Cons.IH [of ?t] step Cons.prems show ?case by (simp add: q)
qed


lemma daily_limit_bounds_awards_witness:
  "int (awarded 7 ''checkin'' (ledger (earn_all [((7, ''checkin'', 0, 11), []), ((7, ''checkin'', 0, 12), []), ((7, ''checkin'', 0, 13), [])] points_demo))) \<le> 2"
  using daily_limit_bounds_awards [of "''checkin''" _ points_demo 7
      "[((7, ''checkin'', 0, 11), []), ((7, ''checkin'', 0, 12), []), ((7, ''checkin'', 0, 13), [])]"]
  by (simp add: points_rules_def points_demo_def daily_count_def awarded_def count_rows_def del: earn_all.simps)

section \<open>No award is lost on the way\<close>

lemma update_balance_err:
  assumes "update_balance u a v s = (Inl e, t)"
  shows "e \<in> {IOError, OutOfRange, ErrConcurrentModify, ErrInsufficientBalance, GoPanic}"
  using assms unfolding update_balance_def update_balance_stmt_def
  by (auto simp: op_eqs Let_def split: if_splits sum.splits option.splits elim!: op_elims io_InlE)

lemma earn_post_skip:
  assumes "earn_post u rule ref_type ref_id txn w s = (Inl e, t)" and "e = ErrPointsTxnIdempotentSkip"
  shows "has_row t_id txn (ledger s)"
  using assms unfolding earn_post_def try_insert_transaction_def
  by (auto simp: op_eqs income_txn_def split: if_splits sum.splits
        elim!: op_elims insert_transactionE insert_transaction_errE dest!: update_balance_err)

lemma earn_read_err:
  assumes "earn_read u s = (Inl e, t)"
  shows "e \<noteq> ErrPointsTxnIdempotentSkip"
  using assms unfolding earn_read_def create_wallet_in_tx_def
  by (auto simp: op_eqs split: if_splits sum.splits option.splits
      elim!: op_elims io_InlE io_InrE get_wallet_by_user_id_txE get_wallet_by_user_id_tx_errE
        insert_walletE insert_wallet_errE insert_transactionE insert_transaction_errE)

lemma earn_body_skip:
  assumes "earn_body u rule ref_type ref_id txn s = (Inl ErrPointsTxnIdempotentSkip, t)" and "txn \<noteq> grant_id u"
  shows "has_row t_id txn (ledger s)"
proof -
  from assms(1) consider "earn_read u s = (Inl ErrPointsTxnIdempotentSkip, t)"
    | w q where "earn_read u s = (Inr w, q)" "earn_post u rule ref_type ref_id txn w q = (Inl ErrPointsTxnIdempotentSkip, t)"
    unfolding earn_body_def by (elim bnd_InlE)
  then show ?thesis
  proof cases
    case 1
    then show ?thesis using earn_read_err by blast
  next
    case 2
    then have "has_row t_id txn (ledger q)" by (auto dest: earn_post_skip)
    with earn_read_rows [OF 2(1)] assms(2) show ?thesis by (auto simp: grant_txn_def)
  qed
qed

lemma wp_earn_tx_recorded:
  fixes s :: "'r points_st_scheme"
  assumes "txn \<noteq> grant_id u" and "txn \<noteq> 0"
  shows "wp (tx points_rollback (earn_body u rule ref_type ref_id txn))
     (\<lambda>r t. r = Inr () \<or> r = Inl ErrPointsTxnIdempotentSkip \<longrightarrow> has_row t_id txn (ledger t)) s"
proof (rule wpI)
  fix r and t :: "'r points_st_scheme"
  assume run: "tx points_rollback (earn_body u rule ref_type ref_id txn) s = (r, t)"
  have "has_row t_id txn (ledger t)" if "r = Inr ()"
  proof -
    from run that obtain s1 s2 :: "'r points_st_scheme" where "earn_body u rule ref_type ref_id txn s1 = (Inr (), s2)" "points_tables t = points_tables s2"
      by (auto elim: points_db.tx_success)
    then show ?thesis by (auto elim!: earn_body_rows simp: points_tables_def income_txn_def has_row_def)
  qed
  moreover have "has_row t_id txn (ledger t)" if "r = Inl ErrPointsTxnIdempotentSkip"
  proof -
    from run that obtain s1 s2 :: "'r points_st_scheme" where q: "points_tables s1 = points_tables s"
        "earn_body u rule ref_type ref_id txn s1 = (Inl ErrPointsTxnIdempotentSkip, s2)"
      by (auto elim: points_db.tx_error_body)
    from run that have "points_tables t = points_tables s" by (simp add: points_db.tx_error_tables)
    with q earn_body_skip [OF q(2) assms(1)] show ?thesis by (simp add: points_tables_def)
  qed
  ultimately show "r = Inr () \<or> r = Inl ErrPointsTxnIdempotentSkip \<longrightarrow> has_row t_id txn (ledger t)" by blast
qed

lemma earn_points_recorded:
  fixes s :: "'r points_st_scheme"
  assumes "points_rules ref_type = Some rule" and "txn \<noteq> grant_id u" and "txn \<noteq> 0"
    and "earn_points u ref_type ref_id txn s = (Inr (), t)"
  shows "has_row t_id txn (ledger t)"
proof -
  let ?Q = "\<lambda>r (t :: 'r points_st_scheme). r = Inr () \<longrightarrow> has_row t_id txn (ledger t)"
  have inval: "wp (invalidate_wallet_redis u) (\<lambda>r t. has_row t_id txn (ledger t)) q"
    if "has_row t_id txn (ledger q)" for q :: "'r points_st_scheme"
    using that by (auto intro!: wp_invalidate simp: points_tables_def)
  have roll: "wp (rollback_daily_limit u ref_type) (\<lambda>r t. has_row t_id txn (ledger t)) q"
    if "has_row t_id txn (ledger q)" for q :: "'r points_st_scheme"
  proof (rule wp_rollback_daily)
    fix res :: "err + unit" and t assume "beside_daily t = beside_daily q"
    then have "ledger t = ledger q" by (rule beside_dailyD)
    with that show "has_row t_id txn (ledger t)" by simp
  qed
  have tail: "wp (bnd (attempt (tx points_rollback (earn_body u rule ref_type ref_id txn))) (\<lambda>r. case r of
          Inl e \<Rightarrow>
            bnd (ignore (rollback_daily_limit u ref_type)) (\<lambda>_.
            if e = ErrPointsTxnIdempotentSkip then ret () else throw e)
        | Inr _ \<Rightarrow> bnd (ignore (invalidate_wallet_redis u)) (\<lambda>_. ret ()))) ?Q q" for q :: "'r points_st_scheme"
    unfolding wp_bnd wp_attempt
    by (rule wp_mono [OF wp_earn_tx_recorded [OF assms(2,3)]])
      (auto simp: wp_simps split: sum.splits intro: wp_mono [OF inval] wp_mono [OF roll])
  have "wp (bnd (txn_id_exists txn) (\<lambda>exists. if exists then ret () else
        bnd (check_and_incr_daily_limit u ref_type (rule_daily_limit rule)) (\<lambda>_.
        bnd (attempt (tx points_rollback (earn_body u rule ref_type ref_id txn))) (\<lambda>r. case r of
          Inl e \<Rightarrow>
            bnd (ignore (rollback_daily_limit u ref_type)) (\<lambda>_.
            if e = ErrPointsTxnIdempotentSkip then ret () else throw e)
        | Inr _ \<Rightarrow> bnd (ignore (invalidate_wallet_redis u)) (\<lambda>_. ret ()))))) ?Q s"
    unfolding wp_bnd [of "txn_id_exists txn"]
  proof (rule wp_txn_id_exists, goal_cases)
    case (2 t)
    then have "ledger t = ledger s" by (rule quiet_points)
    then show ?case
      unfolding wp_if wp_ret wp_bnd [of "check_and_incr_daily_limit u ref_type (rule_daily_limit rule)"]
      using tail assms(3) by (auto intro!: wpI) (blast dest: wpD)
  qed simp
  then have "wp (earn_points u ref_type ref_id txn) ?Q s"
    using assms(1,3) unfolding earn_points_def
    by (simp add: wp_bnd [of "ret txn"] wp_ret)
  from wpD [OF this assms(4)] show ?thesis by simp
qed


text \<open>C5: an accepted award is never lost: when \<open>EnqueueEarn\<close> returns without an error for a kind of
  reward that has a rule, its message is in the Kafka topic or its row is in the ledger, whichever
  calls failed on the way (the Kafka publish included).\<close>

theorem enqueue_earn_not_lost:
  assumes "points_rules ref_type = Some rule"
    and "enqueue_earn u ref_type ref_id salt s = (Inr (), t)"
    and "points_stable_txn_id u ref_type ref_id salt \<noteq> grant_id u"
  shows "\<lparr>e_user = u, e_ref_type = ref_type, e_ref_id = ref_id,
            e_txn_id = points_stable_txn_id u ref_type ref_id salt\<rparr> \<in> set (earn_topic t)
      \<or> has_row t_id (points_stable_txn_id u ref_type ref_id salt) (ledger t)"
proof -
  let ?x = "points_stable_txn_id u ref_type ref_id salt"
  let ?p = "\<lparr>e_user = u, e_ref_type = ref_type, e_ref_id = ref_id, e_txn_id = ?x\<rparr>"
  have pub: "?p \<in> set (earn_topic t')" if "publish_points_earn ?p q = (Inr y, t')" for q t' :: "'a points_st_scheme" and y
    using that unfolding publish_points_earn_def
    by (auto simp: op_eqs split: if_splits elim!: op_elims io_InrE)
  have "?x \<noteq> 0" by (simp add: points_stable_txn_id_def Let_def)
  from assms(1,2) consider q where "earn_points u ref_type ref_id ?x q = (Inr (), t)"
    | q where "publish_points_earn ?p q = (Inr (), t)"
    unfolding enqueue_earn_def
    by (auto simp: op_eqs Let_def split: if_splits sum.splits elim!: op_elims)
  then show ?thesis
    by cases (auto dest: pub earn_points_recorded [OF assms(1) assms(3) \<open>?x \<noteq> 0\<close>])
qed

lemma points_demo_publishes:
  "points_stable_txn_id 7 r i x \<noteq> 0 \<Longrightarrow> r \<noteq> [] \<Longrightarrow> points_rules r \<noteq> None \<Longrightarrow>
   fst (enqueue_earn 7 r i x (points_demo\<lparr>earn_kafka := True, checkins := c\<rparr>)) = Inr ()"
  by (auto simp: enqueue_earn_def Let_def publish_points_earn_def bnd_def gets_def ret_def attempt_def io_def modify_def
      points_demo_def)

lemma enqueue_earn_not_lost_witness:
  "let r = enqueue_earn 7 ''article'' 5 0 (points_demo\<lparr>earn_kafka := True\<rparr>); x = points_stable_txn_id 7 ''article'' 5 0
   in \<lparr>e_user = 7, e_ref_type = ''article'', e_ref_id = 5, e_txn_id = x\<rparr> \<in> set (earn_topic (snd r))
      \<or> has_row t_id x (ledger (snd r))"
proof -
  let ?s = "points_demo\<lparr>earn_kafka := True\<rparr>"
  have "?s = points_demo\<lparr>earn_kafka := True, checkins := checkins points_demo\<rparr>" by simp
  moreover have "points_stable_txn_id 7 ''article'' 5 0 \<noteq> 0" by (simp add: points_stable_txn_id_def Let_def)
  ultimately have "fst (enqueue_earn 7 ''article'' 5 0 ?s) = Inr ()"
    using points_demo_publishes [of "''article''" 5 0 "checkins points_demo"] by (simp add: points_rules_def)
  then have run: "enqueue_earn 7 ''article'' 5 0 ?s = (Inr (), snd (enqueue_earn 7 ''article'' 5 0 ?s))"
    by (metis prod.collapse)
  obtain rule where "points_rules ''article'' = Some rule" by (simp add: points_rules_def)
  moreover have "points_stable_txn_id 7 ''article'' 5 0 \<noteq> grant_id 7" by code_simp
  ultimately show ?thesis using enqueue_earn_not_lost [OF _ run] by (simp add: Let_def)
qed

section \<open>Check-in\<close>

lemma keeps_config_publish [keeps_rules]: "keeps (\<lambda>s. points_config s = c) (publish_points_earn p)"
proof -
  have "keeps (\<lambda>s. points_config s = c) (modify (\<lambda>s. s\<lparr>earn_topic := earn_topic s @ [p]\<rparr>))"
    by (rule keeps_modify) simp
  then show ?thesis unfolding publish_points_earn_def by (auto intro!: keeps_rules quietly_config)
qed

lemma keeps_config_enqueue [keeps_rules]: "keeps (\<lambda>s. points_config s = c) (enqueue_earn u ref_type ref_id salt)"
  unfolding enqueue_earn_def Let_def
  by (auto intro!: keeps_rules split: option.splits sum.splits)

definition checked_in :: "u64 \<Rightarrow> 'r points_st_scheme \<Rightarrow> bool" where
  "checked_in u s \<longleftrightarrow> points_redis s \<and> checkins s (u, fst (clock_day s)) (year_day (clock_day s) - 1)"

lemma checked_in_config: "points_config t = points_config s \<Longrightarrow> checked_in u t = checked_in u s"
  by (simp add: points_config_def checked_in_def)

lemma has_checked_in_run:
  assumes "checked_in u s"
  shows "wp (has_checked_in u) (\<lambda>r t. quiet t = quiet s \<and> (r = Inl IOError \<or> r = Inr True)) s"
  using assms unfolding has_checked_in_def checked_in_def by (auto simp: wp_simps intro!: wp_io)

lemma mark_checkin_marks:
  assumes "mark_checkin u s = (Inr b, t)" and "points_redis s"
  shows "checked_in u t"
  using assms unfolding mark_checkin_def checked_in_def
  by (auto simp: op_eqs Let_def split: if_splits elim!: op_elims io_InrE)

lemma checkin_marks:
  assumes "checkin u s = (Inr (), t)" and "points_redis s"
  shows "checked_in u t"
proof -
  from assms obtain s1 b s2 where "has_checked_in u s = (Inr False, s1)" "mark_checkin u s1 = (Inr b, s2)"
      "enqueue_earn u ''checkin'' 0 (day_key (clock_day s2)) s2 = (Inr (), t)"
    unfolding checkin_def by (auto simp: op_eqs split: if_splits elim!: op_elims)
  moreover from this(1) assms(2) have "points_redis s1"
    unfolding has_checked_in_def by (auto simp: op_eqs split: if_splits elim!: op_elims io_InrE)
  ultimately have "checked_in u s2" and "points_config t = points_config s2"
    by (auto intro: mark_checkin_marks keepsD [OF keeps_config_enqueue])
  then show ?thesis using checked_in_config by blast
qed

text \<open>One check-in a day: after a successful check-in with Redis configured, every further
  check-in of the user on that day is refused and changes nothing, whichever calls fail.\<close>

theorem checkin_once_a_day:
  assumes "checkin u s = (Inr (), t)" and "points_redis s" and "clock_day t' = clock_day t"
    and "checkins t' = checkins t" and "points_redis t'"
  shows "fst (checkin u t') \<in> {Inl IOError, Inl ErrAlreadyCheckedIn} \<and> quiet (snd (checkin u t')) = quiet t'"
proof -
  from checkin_marks [OF assms(1,2)] assms(3-5) have "checked_in u t'" by (simp add: checked_in_def)
  then have "wp (checkin u) (\<lambda>r q. r \<in> {Inl IOError, Inl ErrAlreadyCheckedIn} \<and> quiet q = quiet t') t'"
    unfolding checkin_def wp_bnd [of "has_checked_in u"]
    by (rule wp_mono [OF has_checked_in_run]) (auto simp: wp_simps)
  then show ?thesis by (auto simp: wp_def split: prod.splits)
qed

lemma checkin_once_a_day_witness:
  "let t = snd (checkin 7 (points_demo\<lparr>earn_kafka := True\<rparr>))
   in fst (checkin 7 t) \<in> {Inl IOError, Inl ErrAlreadyCheckedIn} \<and> quiet (snd (checkin 7 t)) = quiet t"
proof -
  let ?s = "points_demo\<lparr>earn_kafka := True\<rparr>"
  have nz: "points_stable_txn_id 7 ''checkin'' 0 x \<noteq> 0" for x by (simp add: points_stable_txn_id_def Let_def)
  have "fst (checkin 7 ?s) = Inr () \<and> points_redis (snd (checkin 7 ?s))"
    using nz by (simp add: checkin_def has_checked_in_def mark_checkin_def bnd_def gets_def ret_def io_def modify_def
        enqueue_earn_def points_rules_def publish_points_earn_def attempt_def Let_def points_demo_def)
  then have run: "checkin 7 ?s = (Inr (), snd (checkin 7 ?s))" and redis: "points_redis (snd (checkin 7 ?s))"
    using prod.collapse [of "checkin 7 ?s"] by simp_all
  from checkin_once_a_day [OF run _ refl refl redis] show ?thesis by (simp add: Let_def points_demo_def)
qed

section \<open>Reports\<close>

text \<open>the reconciliation query is sound and complete: with no failing call it reports no wallet
  exactly when every balance is the sum of the user's ledger rows.\<close>

theorem reconcile_finds_mismatch:
  assumes "faults s = []"
  shows "fst (list_wallet_ledger_mismatches limit s) = Inr [] \<longleftrightarrow>
     (\<forall>w \<in> set (wallets s). w_balance w = user_total (w_user w) (ledger s))"
proof -
  have "0 < nat (if limit \<le> 0 then 100 else limit)" by simp
  then show ?thesis
    by (auto simp: list_wallet_ledger_mismatches_def io_nil assms gets_run Let_def filter_empty_conv take_eq_Nil)
qed

lemma reconcile_finds_mismatch_witness:
  "fst (list_wallet_ledger_mismatches 20 (points_demo\<lparr>ledger := [grant_txn 7 0]\<rparr>)) \<noteq> Inr []"
proof -
  have "faults (points_demo\<lparr>ledger := [grant_txn 7 0]\<rparr>) = []" by (simp add: points_demo_def)
  from reconcile_finds_mismatch [OF this] show ?thesis
    by (simp add: points_demo_def user_total_def sum_rows_def grant_txn_def initial_wallet_balance_def)
qed

lemma take_drop_pages: "concat (map (\<lambda>k. take m (drop (k * m) xs)) [0..<n]) = take (n * m) xs"
  by (induction n) (simp_all add: take_add [symmetric] add.commute)

text \<open>Paging a user's transactions loses none and repeats none: with no failing call, the pages
  1 to \<open>n\<close> of size \<open>sz\<close>, with \<open>n\<close> pages covering the total, are in order the user's rows, newest first.\<close>

theorem transaction_pages_cover:
  assumes "faults s = []" and "u \<noteq> 0" and "0 < sz" and "sz \<le> 50" and "n * sz < 2 ^ 63"
    and "count_rows (\<lambda>t. t_user t = u) (ledger s) \<le> n * sz"
  shows "concat (map (\<lambda>k. case fst (list_transactions_by_user u (int k + 1) (int sz) s) of Inr (rows, _) \<Rightarrow> rows) [0..<n]) =
     rev (sort_key (\<lambda>t. (t_created t, t_id t)) (filter (\<lambda>t. t_user t = u) (ledger s)))"
proof -
  let ?rows = "rev (sort_key (\<lambda>t. (t_created t, t_id t)) (filter (\<lambda>t. t_user t = u) (ledger s)))"
  have page: "(case fst (list_transactions_by_user u (int k + 1) (int sz) s) of Inr (rows, _) \<Rightarrow> rows) =
      take sz (drop (k * sz) ?rows)" if "k < n" for k
  proof -
    have "k * sz \<le> n * sz" using that by simp
    then have "k * sz < 2 ^ 63" using assms(5) by (rule le_less_trans)
    then have "int (k * sz) < 2 ^ 63" using of_nat_less_iff [of "k * sz" "2 ^ 63", where ?'a = int] by simp
    then have "i64_ok (int (k * sz))" by (simp add: i64_ok_def del: of_nat_mult)
    then have "i64 (int k * int sz) = int (k * sz)" by (metis i64_id of_nat_mult)
    moreover have "\<not> int k + 1 \<le> 0" "\<not> int sz \<le> 0" "\<not> 50 < int sz" using assms by simp_all
    ultimately show ?thesis
      by (simp only: list_transactions_by_user_def bnd_def io_nil [OF assms(1)] gets_run ret_run Let_def assms(2) if_False
          add_diff_cancel_right' nat_int prod.case sum.case fst_conv)
  qed
  have "concat (map (\<lambda>k. case fst (list_transactions_by_user u (int k + 1) (int sz) s) of Inr (rows, _) \<Rightarrow> rows) [0..<n]) =
      concat (map (\<lambda>k. take sz (drop (k * sz) ?rows)) [0..<n])"
    by (intro arg_cong [of _ _ concat] map_cong refl page) simp
  also have "\<dots> = ?rows"
    using assms(6) by (simp add: take_drop_pages count_rows_def)
  finally show ?thesis .
qed

lemma transaction_pages_cover_witness:
  "let s = snd (earn_points 7 ''article'' 1 9 points_demo)
   in concat (map (\<lambda>k. case fst (list_transactions_by_user 7 (int k + 1) 1 s) of Inr (rows, _) \<Rightarrow> rows) [0..<2]) =
      rev (sort_key (\<lambda>t. (t_created t, t_id t)) (filter (\<lambda>t. t_user t = 7) (ledger s)))"
proof -
  let ?s = "snd (earn_points 7 ''article'' 1 9 points_demo)"
  have "faults ?s = []" and "count_rows (\<lambda>t. t_user t = 7) (ledger ?s) \<le> 2 * 1"
    by (simp_all add: points_run)
  from transaction_pages_cover [of ?s 7 1 2, OF this(1) _ _ _ _ this(2)] show ?thesis
    by (simp add: Let_def del: upt_rec_numeral)
qed

section \<open>The calendar\<close>

definition valid_date :: "date \<Rightarrow> bool" where
  "valid_date d \<longleftrightarrow> (case d of (y, m, k) \<Rightarrow> 1 \<le> y \<and> y \<le> 9999 \<and> 1 \<le> m \<and> m \<le> 12 \<and> 1 \<le> k \<and> k \<le> month_days y m)"

lemma month_days_pos: "28 \<le> month_days y m" and month_days_le: "month_days y m \<le> 31"
  by (simp_all add: month_days_def)

lemma days_before_next:
  assumes "m < m'" and "1 \<le> m"
  shows "sum_list (map (month_days y) [1..<m]) + month_days y m \<le> sum_list (map (month_days y) [1..<m'])"
proof -
  obtain k where m': "m' = m + Suc k" using assms(1) less_imp_Suc_add by force
  have "[1..<m'] = [1..<m] @ m # [Suc m..<m']"
    using upt_add_eq_append [OF assms(2), of "Suc k"] by (simp add: m' upt_conv_Cons)
  then show ?thesis by simp
qed

text \<open>two days of a year never share a bit of the check-in bitmap.\<close>

theorem year_day_inj:
  assumes "valid_date (y, m, d)" and "valid_date (y, m', d')" and "year_day (y, m, d) = year_day (y, m', d')"
  shows "m = m' \<and> d = d'"
proof -
  have le: "\<not> a < b" if "valid_date (y, a, c)" "valid_date (y, b, e)" "year_day (y, a, c) = year_day (y, b, e)" for a b c e
    using that days_before_next [of a b y] by (auto simp: valid_date_def)
  have "m = m'" using le [OF assms] le [OF assms(2,1) assms(3) [symmetric]] by simp
  with assms(3) show ?thesis by simp
qed

lemma year_day_inj_witness: "2 = (2 :: nat) \<and> 29 = (29 :: nat)"
  by (rule year_day_inj [of 2024]) (simp_all add: valid_date_def month_days_def leap_year_def)

end
