(* ===== verification/PointsConcurrency.thy ===== *)
theory PointsConcurrency
  imports PointsProps
begin

text \<open>
  Crediting under concurrency: the two halves of the transactions of \<open>earnPoints\<close> interleave. The
  optimistic lock (the version in the WHERE clause of UpdateBalance) is what keeps the books.
\<close>

section \<open>Concurrent crediting\<close>

text \<open>
  Transactions of several requests interleave: each reads the wallet without a lock, and posts later
  against the state of that moment. \<open>pending\<close> is a transaction between its read and its post. A
  transaction that has to create the wallet holds the lock of the new row, so it runs as one step.
\<close>

record pending =
  p_user :: u64
  p_rule :: points_rule
  p_ref_type :: string
  p_ref_id :: u64
  p_txn :: u64
  p_wallet :: wallet

inductive points_step :: "points_st \<times> pending list \<Rightarrow> points_st \<times> pending list \<Rightarrow> bool" where
  award: "grant_free u s \<Longrightarrow> points_step (s, P) (snd (earn_points u ref_type ref_id txn s), P)"
| read: "get_wallet_by_user_id_tx u s = (Inr w, t) \<Longrightarrow> points_rules ref_type = Some rule \<Longrightarrow>
    points_step (s, P) (t, \<lparr>p_user = u, p_rule = rule, p_ref_type = ref_type, p_ref_id = ref_id,
       p_txn = txn, p_wallet = w\<rparr> # P)"
| post: "p \<in> set P \<Longrightarrow>
    earn_post (p_user p) (p_rule p) (p_ref_type p) (p_ref_id p) (p_txn p) (p_wallet p) s = (Inr (), t) \<Longrightarrow>
    points_step (s, P) (t, remove1 p P)"
| rollback: "p \<in> set P \<Longrightarrow> points_step (s, P) (s, remove1 p P)"
| tick: "points_step (s, P) (s\<lparr>clock_now := now, clock_day := day, faults := fs\<rparr>, P)"

text \<open>
  The invariant: the books are right, versions stay clear of the wrap-around for \<open>n\<close> more steps, and
  what a pending transaction has read is out of date or still the current balance.
\<close>

definition version_room :: "nat \<Rightarrow> 'r points_st_scheme \<Rightarrow> bool" where
  "version_room n s \<longleftrightarrow> int n < 2 ^ 63 \<and> (\<forall>w \<in> set (wallets s). 0 \<le> w_version w \<and> w_version w + int n < 2 ^ 63)"

definition read_ok :: "wallet list \<Rightarrow> pending \<Rightarrow> bool" where
  "read_ok ws p \<longleftrightarrow> (\<exists>cw. row_of w_user (p_user p) ws = Some cw \<and>
     (w_version (p_wallet p) < w_version cw \<or>
      w_version (p_wallet p) = w_version cw \<and> w_balance (p_wallet p) = w_balance cw))"

definition points_conc :: "nat \<Rightarrow> points_st \<times> pending list \<Rightarrow> bool" where
  "points_conc n = (\<lambda>(s, P). ledger_inv s \<and> version_room n s \<and> (\<forall>p \<in> set P. read_ok (wallets s) p))"

text \<open>How a step may move the wallets: versions grow by one with a change, new ones start at 0 (and may be
  changed at once).\<close>

definition wallets_advance :: "wallet list \<Rightarrow> wallet list \<Rightarrow> bool" where
  "wallets_advance ws vs \<longleftrightarrow>
     (\<forall>u cw. row_of w_user u ws = Some cw \<longrightarrow>
        (\<exists>cw'. row_of w_user u vs = Some cw' \<and> (cw' = cw \<or> w_version cw < w_version cw'))) \<and>
     (\<forall>v \<in> set vs. w_version v \<in> {0, 1} \<or> (\<exists>w \<in> set ws. w_version v = w_version w \<or> w_version v = w_version w + 1))"

lemma advance_refl: "wallets_advance ws ws"
  by (auto simp: wallets_advance_def)

lemma advance_read_ok: "wallets_advance ws vs \<Longrightarrow> read_ok ws p \<Longrightarrow> read_ok vs p"
  unfolding read_ok_def wallets_advance_def by (fastforce dest: spec)

lemma advance_room:
  assumes adv: "wallets_advance (wallets s) (wallets t)" and room: "version_room (Suc n) s"
  shows "version_room n t"
proof -
  have "0 \<le> w_version v \<and> w_version v + int n < 2 ^ 63" if "v \<in> set (wallets t)" for v
  proof -
    from adv that consider "w_version v \<in> {0, 1}"
      | w where "w \<in> set (wallets s)" "w_version v = w_version w \<or> w_version v = w_version w + 1"
      unfolding wallets_advance_def by blast
    then show ?thesis
    proof cases
      case 2
      then have "0 \<le> w_version w \<and> w_version w + int (Suc n) < 2 ^ 63" using room by (simp add: version_room_def)
      with 2(2) show ?thesis by auto
    qed (use room in \<open>auto simp: version_room_def\<close>)
  qed
  with room show ?thesis by (simp add: version_room_def)
qed

lemma advance_bump:
  assumes fit: "\<forall>w \<in> set ws. 0 \<le> w_version w \<and> w_version w + 1 < 2 ^ 63" and new: "\<forall>w \<in> set vs. w_version w = 0"
  shows "wallets_advance ws (upd_rows (balance_guard u a v) (bump_wallet a v now) (ws @ vs))"
proof -
  let ?us = "upd_rows (balance_guard u a v) (bump_wallet a v now) (ws @ vs)"
  have key: "w_user (bump_wallet a v now q) = w_user q" for q by (simp add: bump_wallet_def)
  have step: "w_version (bump_wallet a v now w) = w_version w + 1" if "w \<in> set (ws @ vs)" "balance_guard u a v w" for w
  proof -
    from that fit new have "i64_ok (w_version w + 1)" by (auto simp: i64_ok_def)
    with that(2) show ?thesis by (simp add: bump_wallet_def balance_guard_def)
  qed
  show ?thesis
    unfolding wallets_advance_def
  proof (intro conjI allI impI ballI)
    fix x cw assume cw: "row_of w_user x ws = Some cw"
    then have "cw \<in> set (ws @ vs)" by (auto dest: row_of_Some_in)
    with cw step show "\<exists>cw'. row_of w_user x ?us = Some cw' \<and> (cw' = cw \<or> w_version cw < w_version cw')"
      by (simp add: key)
  next
    fix q assume "q \<in> set ?us"
    then obtain w where "w \<in> set (ws @ vs)" "w_version q = w_version w \<or> w_version q = w_version w + 1"
      using step by (metis set_upd)
    with new show "w_version q \<in> {0, 1} \<or> (\<exists>w \<in> set ws. w_version q = w_version w \<or> w_version q = w_version w + 1)"
      by auto
  qed
qed

lemma update_balance_advance:
  assumes "version_room (Suc n) s" and "wallets q = wallets s @ vs" and "\<forall>w \<in> set vs. w_version w = 0"
    and "update_balance u a v q = (Inr x, t)"
  shows "wallets_advance (wallets s) (wallets t)"
  using assms(4)
proof (rule update_balanceE)
  fix fs w
  assume t: "t = q\<lparr>faults := fs, wallets := upd_rows (balance_guard u a v) (bump_wallet a v (clock_now q)) (wallets q)\<rparr>"
  have "\<forall>w \<in> set (wallets s). 0 \<le> w_version w \<and> w_version w + 1 < 2 ^ 63"
    using assms(1) by (auto simp: version_room_def)
  from advance_bump [OF this assms(3)] show ?thesis by (simp add: t assms(2))
qed

lemma earn_post_advance:
  fixes q :: "'r points_st_scheme"
  assumes "version_room (Suc n) s" and "wallets q = wallets s @ vs" and "\<forall>w \<in> set vs. w_version w = 0"
    and "earn_post u rule ref_type ref_id txn w q = (Inr x, t)"
  shows "wallets_advance (wallets s) (wallets t)"
proof -
  from assms(4) obtain p :: "'r points_st_scheme"
    where p: "try_insert_transaction (income_txn txn u rule ref_type ref_id w (clock_now q)) q = (Inr True, p)"
      and "update_balance u (rule_amount rule) (w_version w) p = (Inr x, t)"
    unfolding earn_post_def by (auto simp: op_eqs split: if_splits elim!: op_elims)
  moreover from p have "wallets p = wallets q" by (auto elim: try_insert_transactionE)
  ultimately show ?thesis using assms(1-3) by (intro update_balance_advance) simp_all
qed

lemma earn_read_wallets:
  assumes "earn_read u s = (Inr w, t)"
  obtains vs where "wallets t = wallets s @ vs" and "\<forall>v \<in> set vs. w_version v = 0"
proof -
  from assms have "wallets t = wallets s \<or> wallets t = wallets s @ [new_wallet u (clock_now s)]"
    unfolding earn_read_def
    by (auto simp: op_eqs split: sum.splits if_splits
        elim!: op_elims get_wallet_by_user_id_txE get_wallet_by_user_id_tx_errE create_wallet_in_txE)
  then show thesis using that [of "[]"] that [of "[new_wallet u (clock_now s)]"] by (auto simp: new_wallet_def)
qed

lemma earn_points_advance:
  fixes s :: "'r points_st_scheme"
  assumes "version_room (Suc n) s"
  shows "wallets_advance (wallets s) (wallets (snd (earn_points u ref_type ref_id txn s)))"
proof -
  obtain r t where run: "earn_points u ref_type ref_id txn s = (r, t)" by (metis prod.collapse)
  then have "wallets_advance (wallets s) (wallets t)"
  proof (cases rule: outcomeE)
    case idle
    then show ?thesis by (simp add: earn_idle_def points_tables_def advance_refl)
  next
    case posted
    then obtain rule x and s1 s2 :: "'r points_st_scheme" where p: "points_tables s1 = points_tables s"
        "earn_body u rule ref_type ref_id x s1 = (Inr (), s2)" "points_tables t = points_tables s2"
      by (elim earn_postedE)
    from p(2) obtain w q where read: "earn_read u s1 = (Inr w, q)"
        and post: "earn_post u rule ref_type ref_id x w q = (Inr (), s2)"
      unfolding earn_body_def by (elim bnd_InrE)
    from read obtain vs where "wallets q = wallets s1 @ vs" "\<forall>v \<in> set vs. w_version v = 0"
      by (elim earn_read_wallets)
    with p(1) assms post have "wallets_advance (wallets s) (wallets s2)"
      by (intro earn_post_advance [of n s q vs]) (simp_all add: points_tables_def)
    with p(3) show ?thesis by (simp add: points_tables_def)
  qed
  with run show ?thesis by simp
qed

lemma points_conc_step:
  assumes inv: "points_conc (Suc n) c" and step: "points_step c d"
  shows "points_conc n d"
proof -
  obtain s P where c: "c = (s, P)" by (cases c)
  from inv c have books: "ledger_inv s" and room: "version_room (Suc n) s" and reads: "\<forall>p \<in> set P. read_ok (wallets s) p"
    by (auto simp: points_conc_def)
  have room0: "version_room n t" if "wallets t = wallets s" for t :: points_st
    using room that by (auto simp: version_room_def)
  have moved: "points_conc n (t, Q)"
    if "ledger_inv t" "wallets_advance (wallets s) (wallets t)" "set Q \<subseteq> set P" for t Q
    using that reads room advance_room advance_read_ok by (auto simp: points_conc_def)
  from step [unfolded c] show ?thesis
  proof (cases rule: points_step.cases)
    case award
    have "ledger_inv (snd (earn_points u ref_type ref_id txn s))" if "grant_free u s" for u ref_type ref_id txn
      using earn_points_inv [OF books that] by (metis prod.collapse)
    with award room show ?thesis by (auto intro!: moved earn_points_advance)
  next
    case (read u w t)
    then obtain fs where "t = s\<lparr>faults := fs\<rparr>" "row_of w_user u (wallets s) = Some w"
      by (elim get_wallet_by_user_id_txE)
    with read books reads room0 show ?thesis by (auto simp: points_conc_def read_ok_def ledger_inv_def)
  next
    case (post p t)
    with reads obtain cw where cw: "row_of w_user (p_user p) (wallets s) = Some cw"
      "w_version cw = w_version (p_wallet p) \<Longrightarrow> w_balance cw = w_balance (p_wallet p)"
      by (auto simp: read_ok_def)
    from post(3) books cw have "ledger_inv t" by (rule earn_postE)
    moreover from room post(3) have "wallets_advance (wallets s) (wallets t)"
      by (intro earn_post_advance [of n s s "[]"]) simp_all
    ultimately show ?thesis using post by (auto intro!: moved set_remove1_subset)
  next
    case (rollback p)
    with books show ?thesis by (auto intro!: moved advance_refl set_remove1_subset)
  next
    case (tick now day fs)
    with books show ?thesis by (auto intro!: moved simp: advance_refl ledger_inv_def)
  qed
qed

text \<open>C2: interleaved awards keep the books: let any number of requests read the wallet without a
  lock and post later, interleaved with each other, with rollbacks and with failing calls; after any
  \<open>n < 2^63\<close> steps every balance is still the sum of the ledger rows (no update is lost).\<close>

theorem interleaved_awards_keep_ledger:
  assumes "(points_step ^^ n) (s, []) (t, P)" and "ledger_inv s" and "version_room n s"
  shows "ledger_inv t"
proof -
  have "points_conc 0 d" if "(points_step ^^ n) c d" "points_conc n c" for n c d
    using that
  proof (induction n arbitrary: c)
    case (Suc n)
    from Suc.prems(1) obtain e where "points_step c e" "(points_step ^^ n) e d" by (elim relpowp_Suc_E2)
    with Suc points_conc_step show ?case by blast
  qed simp
  from this [OF assms(1)] assms(2,3) show ?thesis by (simp add: points_conc_def)
qed


lemma relpowp_4: "R a b \<Longrightarrow> R b c \<Longrightarrow> R c d \<Longrightarrow> R d e \<Longrightarrow> (R ^^ 4) a e"
  by (simp add: numeral_eq_Suc) blast

lemma interleaved_awards_keep_ledger_witness:
  "\<exists>t. (points_step ^^ 4) (points_demo, []) (t, []) \<and> ledger_inv t \<and> map w_balance (wallets t) = [2]"
proof -
  let ?p = "\<lparr>p_user = 7, p_rule = the (points_rules ''checkin''), p_ref_type = ''checkin'', p_ref_id = 0,
     p_txn = 5, p_wallet = hd (wallets points_demo)\<rparr>" and ?q = "\<lparr>p_user = 7, p_rule = the (points_rules ''checkin''),
     p_ref_type = ''checkin'', p_ref_id = 0, p_txn = 6, p_wallet = hd (wallets points_demo)\<rparr>"
  let ?t = "snd (earn_post (p_user ?p) (p_rule ?p) (p_ref_type ?p) (p_ref_id ?p) (p_txn ?p) (p_wallet ?p) points_demo)"
  have get: "get_wallet_by_user_id_tx 7 points_demo = (Inr (hd (wallets points_demo)), points_demo)"
    by (simp add: points_run)
  have "fst (earn_post (p_user ?p) (p_rule ?p) (p_ref_type ?p) (p_ref_id ?p) (p_txn ?p) (p_wallet ?p) points_demo) = Inr ()"
    by (simp add: points_run)
  then have run: "earn_post (p_user ?p) (p_rule ?p) (p_ref_type ?p) (p_ref_id ?p) (p_txn ?p) (p_wallet ?p) points_demo = (Inr (), ?t)"
    by (metis prod.collapse)
  have rule: "points_rules ''checkin'' = Some (the (points_rules ''checkin''))" by (simp add: points_rules_def)
  have "points_step (points_demo, []) (points_demo, [?p])"
    using points_step.read [OF get rule, of "[]" 0 5] by simp
  moreover have "points_step (points_demo, [?p]) (points_demo, [?q, ?p])"
    using points_step.read [OF get rule, of "[?p]" 0 6] by simp
  moreover have "points_step (points_demo, [?q, ?p]) (?t, [?q])"
    using points_step.post [OF _ run, of "[?q, ?p]"] by simp
  moreover have "points_step (?t, [?q]) (?t, [])"
    using points_step.rollback [of ?q "[?q]" ?t] by simp
  ultimately have steps: "(points_step ^^ 4) (points_demo, []) (?t, [])"
    by (rule relpowp_4)
  moreover have "version_room 4 points_demo" by (simp add: version_room_def points_demo_def)
  ultimately have "ledger_inv ?t"
    by (rule interleaved_awards_keep_ledger [OF _ ledger_inv_demo])
  moreover have "map w_balance (wallets ?t) = [2]" by (simp add: points_run)
  ultimately show ?thesis by (intro exI [of _ ?t] conjI steps)
qed

end
