(* ===== verification/GoStrings.thy ===== *)
theory GoStrings
  imports Tool "HOL-Library.Sublist"
begin

text \<open>
  What the code uses of Go's \<open>strings\<close>, \<open>strconv\<close> and \<open>unicode/utf8\<close>: \<open>TrimSpace\<close>, \<open>ParseUint\<close>,
  \<open>Atoi\<close>, prefixes, and runes. A Go string is its bytes.
\<close>

section \<open>White space\<close>

text \<open>The UTF-8 encodings of the runes for which \<open>unicode.IsSpace\<close> holds.\<close>

definition space_codes :: "string list" where
  "space_codes = map utf8 ([[9], [10], [11], [12], [13], [32], [194, 133], [194, 160], [225, 154, 128]]
     @ map (\<lambda>x. [226, 128, x]) ([128..<139] @ [168, 169, 175]) @ [[226, 129, 159], [227, 128, 128]])"

text \<open>Take leading codes off, as long as there are any.\<close>

function strip_codes :: "string list \<Rightarrow> string \<Rightarrow> string" where
  "strip_codes codes s = (case find (\<lambda>p. p \<noteq> [] \<and> prefix p s) codes of
       None \<Rightarrow> s
     | Some p \<Rightarrow> strip_codes codes (drop (length p) s))"
  by auto
termination
proof (relation "measure (\<lambda>(_, s). length s)")
  fix codes :: "string list" and s p :: string
  assume "find (\<lambda>p. p \<noteq> [] \<and> prefix p s) codes = Some p"
  then have "p \<noteq> []" and "prefix p s" by (auto simp: find_Some_iff)
  then show "((codes, drop (length p) s), (codes, s)) \<in> measure (\<lambda>(_, s). length s)"
    by (cases p; cases s) auto
qed simp

declare strip_codes.simps [simp del]

definition trim_left :: "string \<Rightarrow> string" where
  "trim_left s = strip_codes space_codes s"

definition trim_right :: "string \<Rightarrow> string" where
  "trim_right s = rev (strip_codes (map rev space_codes) (rev s))"

definition trim_space :: "string \<Rightarrow> string" where
  "trim_space s = trim_right (trim_left s)"

lemma find_code_None: "find (\<lambda>p. p \<noteq> [] \<and> prefix p s) codes = None \<longleftrightarrow> (\<forall>p \<in> set codes. p \<noteq> [] \<longrightarrow> \<not> prefix p s)"
  by (auto simp: find_None_iff)

lemma strip_codes_clean: "p \<in> set codes \<Longrightarrow> p \<noteq> [] \<Longrightarrow> \<not> prefix p (strip_codes codes s)"
proof (induction codes s rule: strip_codes.induct)
  case (1 codes s)
  show ?case
  proof (cases "find (\<lambda>p. p \<noteq> [] \<and> prefix p s) codes")
    case None
    with 1 show ?thesis by (simp add: strip_codes.simps [of codes s]) (simp add: find_code_None)
  next
    case (Some q)
    with 1 show ?thesis by (simp add: strip_codes.simps [of codes s])
  qed
qed

lemma strip_codes_suffix: "suffix (strip_codes codes s) s"
proof (induction codes s rule: strip_codes.induct)
  case (1 codes s)
  show ?case
  proof (cases "find (\<lambda>p. p \<noteq> [] \<and> prefix p s) codes")
    case None
    then show ?thesis by (simp add: strip_codes.simps [of codes s])
  next
    case (Some p)
    from 1 [OF Some] suffix_drop have "suffix (strip_codes codes (drop (length p) s)) s"
      by (rule suffix_order.order_trans)
    with Some show ?thesis by (simp add: strip_codes.simps [of codes s])
  qed
qed

lemma strip_codes_id: "(\<And>p. p \<in> set codes \<Longrightarrow> p \<noteq> [] \<Longrightarrow> \<not> prefix p s) \<Longrightarrow> strip_codes codes s = s"
  by (simp add: strip_codes.simps [of codes s] find_code_None [THEN iffD2])

lemma trim_right_prefix: "prefix (trim_right s) s"
  using strip_codes_suffix [of "map rev space_codes" "rev s"]
  by (simp add: trim_right_def suffix_to_prefix)

lemma trim_space_trimmed:
  assumes "p \<in> set space_codes" and "p \<noteq> []"
  shows "\<not> prefix p (trim_space s)" and "\<not> suffix p (trim_space s)"
proof -
  from assms have "\<not> prefix p (trim_left s)" by (simp add: trim_left_def strip_codes_clean)
  then show "\<not> prefix p (trim_space s)"
    unfolding trim_space_def using trim_right_prefix prefix_order.order_trans by blast
  from assms have "\<not> prefix (rev p) (strip_codes (map rev space_codes) (rev (trim_left s)))"
    by (intro strip_codes_clean) auto
  then show "\<not> suffix p (trim_space s)"
    by (simp add: trim_space_def trim_right_def suffix_to_prefix)
qed

lemma trim_space_idem [simp]: "trim_space (trim_space s) = trim_space s"
proof -
  let ?t = "trim_space s"
  have "trim_left ?t = ?t"
    unfolding trim_left_def by (rule strip_codes_id) (rule trim_space_trimmed)
  moreover have "strip_codes (map rev space_codes) (rev ?t) = rev ?t"
    by (rule strip_codes_id) (use trim_space_trimmed(2) in \<open>auto simp: suffix_to_prefix\<close>)
  ultimately show ?thesis by (simp add: trim_space_def [of ?t] trim_right_def)
qed

lemma trim_space_Nil [simp]: "trim_space [] = []"
  using trim_right_prefix [of "[]"]
  by (simp add: trim_space_def trim_left_def strip_codes_id)

text \<open>A text that begins and ends with a printing ASCII character has nothing to trim.\<close>

definition printing :: "char \<Rightarrow> bool" where
  "printing c \<longleftrightarrow> (let n = of_char c :: nat in 33 \<le> n \<and> n < 127)"

lemma space_codes_printing: "list_all (\<lambda>p. \<not> printing (hd p) \<and> \<not> printing (last p)) space_codes"
  by code_simp

lemma trim_space_id:
  assumes "s \<noteq> []" and "printing (hd s)" and "printing (last s)"
  shows "trim_space s = s"
proof -
  have "\<not> prefix p s" "\<not> prefix (rev p) (rev s)" if "p \<in> set space_codes" "p \<noteq> []" for p
    using space_codes_printing that assms
    unfolding suffix_to_prefix [symmetric]
    by (auto simp: list_all_iff prefix_def suffix_def hd_append split: if_splits)
  then have "\<forall>p \<in> set space_codes. p \<noteq> [] \<longrightarrow> \<not> prefix p s" and "\<forall>p \<in> set (map rev space_codes). p \<noteq> [] \<longrightarrow> \<not> prefix p (rev s)"
    by fastforce+
  then have "trim_left s = s" and "strip_codes (map rev space_codes) (rev s) = rev s"
    unfolding trim_left_def by (blast intro: strip_codes_id)+
  then show ?thesis by (simp add: trim_space_def trim_right_def)
qed

section \<open>Numbers\<close>

definition digit_val :: "char \<Rightarrow> nat option" where
  "digit_val c = (let n = of_char c :: nat in if 48 \<le> n \<and> n \<le> 57 then Some (n - 48) else None)"

fun digits_val :: "nat \<Rightarrow> string \<Rightarrow> nat option" where
  "digits_val acc [] = Some acc"
| "digits_val acc (c # cs) = (case digit_val c of None \<Rightarrow> None | Some d \<Rightarrow> digits_val (10 * acc + d) cs)"

text \<open>\<open>strconv.ParseUint(s, 10, 64)\<close>: \<open>None\<close> for a syntax error or a number out of range.\<close>

definition parse_uint :: "string \<Rightarrow> u64 option" where
  "parse_uint s = (if s = [] then None else case digits_val 0 s of
       None \<Rightarrow> None | Some n \<Rightarrow> if n < 2 ^ 64 then Some (of_nat n) else None)"

text \<open>
  \<open>strconv.Atoi\<close> on a 64-bit platform, with the value it returns along with an error: 0 for bad
  syntax, the nearest \<open>int\<close> when out of range.
\<close>

definition atoi :: "string \<Rightarrow> int \<times> bool" where
  "atoi s = (let neg = (s \<noteq> [] \<and> hd s = CHR ''-''); digits = (if s \<noteq> [] \<and> (hd s = CHR ''-'' \<or> hd s = CHR ''+'') then tl s else s)
     in if digits = [] then (0, False) else case digits_val 0 digits of
          None \<Rightarrow> (0, False)
        | Some n \<Rightarrow> (let x = (if neg then - int n else int n) in
            if x < - (2 ^ 63) then (- (2 ^ 63), False) else if x \<ge> 2 ^ 63 then (2 ^ 63 - 1, False) else (x, True)))"

lemma atoi_in_range: "i64_ok (fst (atoi s))"
  by (auto simp: atoi_def i64_ok_def Let_def split: option.splits)

text \<open>\<open>%d\<close> of a number, and back.\<close>

fun show_nat :: "nat \<Rightarrow> string" where
  "show_nat n = (if n < 10 then [char_of (48 + n)] else show_nat (n div 10) @ [char_of (48 + n mod 10)])"

declare show_nat.simps [simp del]

definition show_u64 :: "u64 \<Rightarrow> string" where
  "show_u64 x = show_nat (unat x)"

lemma digit_val_char [simp]: "d < 10 \<Longrightarrow> digit_val (char_of (48 + d)) = Some d"
  by (simp add: digit_val_def of_char_of take_bit_nat_eq_self)

lemma digits_val_snoc: "digits_val acc (cs @ [c]) =
    (case digits_val acc cs of None \<Rightarrow> None | Some n \<Rightarrow> map_option (\<lambda>d. 10 * n + d) (digit_val c))"
  by (induction cs arbitrary: acc) (auto split: option.split)

lemma digits_val_show: "digits_val 0 (show_nat n) = Some n"
proof (induction n rule: show_nat.induct)
  case (1 n)
  show ?case
  proof (cases "n < 10")
    case True
    then show ?thesis by (simp add: show_nat.simps [of n])
  next
    case False
    with 1 have "digits_val 0 (show_nat (n div 10)) = Some (n div 10)" by simp
    with False show ?thesis by (simp add: show_nat.simps [of n] digits_val_snoc)
  qed
qed

lemma show_nat_Nil [simp]: "show_nat n \<noteq> []"
  by (simp add: show_nat.simps [of n])

lemma parse_uint_show [simp]: "parse_uint (show_u64 x) = Some x"
proof -
  have "unat x < 2 ^ 64" by (rule order_less_le_trans [OF unsigned_less]) simp
  then show ?thesis by (simp add: parse_uint_def show_u64_def digits_val_show)
qed

lemma show_u64_inj [simp]: "show_u64 x = show_u64 y \<longleftrightarrow> x = y"
  by (metis option.inject parse_uint_show)

definition hex_digit :: "nat \<Rightarrow> char" where
  "hex_digit d = (if d < 10 then char_of (48 + d) else char_of (55 + d))"

text \<open>\<open>%04X\<close> of a number below 65536.\<close>

definition hex4 :: "nat \<Rightarrow> string" where
  "hex4 n = map (\<lambda>i. hex_digit (n div 16 ^ i mod 16)) [3, 2, 1, 0]"

section \<open>Runes\<close>

text \<open>
  \<open>len([]rune(s))\<close>: \<open>utf8.DecodeRune\<close> consumes a valid encoding as a whole and any other byte as one
  (replacement) rune.
\<close>

definition cont_byte :: "nat \<Rightarrow> bool" where
  "cont_byte b \<longleftrightarrow> 128 \<le> b \<and> b < 192"

fun rune_len :: "nat list \<Rightarrow> nat" where
  "rune_len (a # b # c # d # _) =
    (if 194 \<le> a \<and> a < 224 \<and> cont_byte b then 2
     else if 224 \<le> a \<and> a < 240 \<and> cont_byte b \<and> cont_byte c \<and> (a = 224 \<longrightarrow> 160 \<le> b) \<and> (a = 237 \<longrightarrow> b < 160) then 3
     else if 240 \<le> a \<and> a < 245 \<and> cont_byte b \<and> cont_byte c \<and> cont_byte d \<and> (a = 240 \<longrightarrow> 144 \<le> b) \<and> (a = 244 \<longrightarrow> b < 144) then 4
     else 1)"
| "rune_len [a, b, c] =
    (if 194 \<le> a \<and> a < 224 \<and> cont_byte b then 2
     else if 224 \<le> a \<and> a < 240 \<and> cont_byte b \<and> cont_byte c \<and> (a = 224 \<longrightarrow> 160 \<le> b) \<and> (a = 237 \<longrightarrow> b < 160) then 3
     else 1)"
| "rune_len [a, b] = (if 194 \<le> a \<and> a < 224 \<and> cont_byte b then 2 else 1)"
| "rune_len _ = 1"

lemma rune_len_pos [simp]: "0 < rune_len bs"
  by (cases bs rule: rune_len.cases) auto

lemma rune_len_le: "bs \<noteq> [] \<Longrightarrow> rune_len bs \<le> length bs"
  by (cases bs rule: rune_len.cases) auto

text \<open>The runes of a string, each as its bytes.\<close>

function runes :: "string \<Rightarrow> string list" where
  "runes s = (if s = [] then [] else let n = rune_len (map of_char s) in take n s # runes (drop n s))"
  by auto
termination
  by (relation "measure length") simp_all

declare runes.simps [simp del]

lemma runes_Nil [simp]: "runes [] = []"
  by (simp add: runes.simps)

lemma concat_runes: "concat (runes s) = s"
proof (induction s rule: runes.induct)
  case (1 s)
  then show ?case by (simp add: runes.simps [of s] Let_def)
qed

lemma length_runes_le: "length (runes s) \<le> length s"
proof (induction s rule: runes.induct)
  case (1 s)
  show ?case
  proof (cases "s = []")
    case False
    let ?n = "rune_len (map of_char s :: nat list)"
    from 1 [OF False refl] have "length (runes (drop ?n s)) \<le> length s - ?n" by simp
    moreover have "0 < ?n" by simp
    moreover from False have "?n \<le> length s" using rune_len_le [of "map of_char s"] by simp
    ultimately have "Suc (length (runes (drop ?n s))) \<le> length s" by linarith
    with False show ?thesis by (simp add: runes.simps [of s] Let_def)
  qed simp
qed

lemma rune_len_ascii: "a < 128 \<Longrightarrow> rune_len (a # bs) = 1"
  by (cases "a # bs" rule: rune_len.cases) auto

lemma runes_ascii: "(\<And>c. c \<in> set s \<Longrightarrow> (of_char c :: nat) < 128) \<Longrightarrow> runes s = map (\<lambda>c. [c]) s"
proof (induction s)
  case (Cons c s)
  then show ?case by (simp add: runes.simps [of "c # s"] rune_len_ascii)
qed simp

text \<open>\<open>string(rune)\<close>: a byte that was no encoding has become U+FFFD.\<close>

definition rune_text :: "string \<Rightarrow> string" where
  "rune_text r = (case map of_char r :: nat list of [b] \<Rightarrow> if b < 128 then r else utf8 [239, 191, 189] | _ \<Rightarrow> r)"

text \<open>\<open>strings.ReplaceAll\<close> for a non-empty \<open>old\<close>: from left to right, what is inserted is not looked at again.\<close>

function replace_all :: "string \<Rightarrow> string \<Rightarrow> string \<Rightarrow> string" where
  "replace_all old new s =
     (if s = [] \<or> old = [] then s
      else if take (length old) s = old then new @ replace_all old new (drop (length old) s)
      else hd s # replace_all old new (tl s))"
  by auto
termination
  by (relation "measure (\<lambda>(_, _, s). length s)") (auto simp: neq_Nil_conv)

declare replace_all.simps [simp del]

end
