(* ===== verification/Mall.thy ===== *)
theory Mall
  imports Points GoStrings
begin

text \<open>
  The points mall: models src/models/points_mall_model.go, the MySQL repository
  (src/database/points_mall_sql.go), the Redis repository (src/database/points_mall_redis.go),
  PointsMallService (src/service/points_mall_service.go) and the handlers of
  src/handler/points_mall_handler.go. This theory holds the data and the operations.

  A redemption takes one activation code, charges the wallet and writes the order in one MySQL
  transaction, after a stock counter in Redis let it through.
\<close>

section \<open>Data\<close>

record mall_product =
  m_id :: u64
  m_name :: string
  m_subtitle :: string
  m_description :: string
  m_price :: int
  m_cover :: string
  m_sort :: int
  m_status :: string
  m_created :: int
  m_updated :: int

record mall_code =
  c_id :: u64
  c_product :: u64
  c_code :: string
  c_status :: string
  c_order :: u64
  c_buyer :: u64
  c_sold :: "int option"
  c_created :: int

record mall_order =
  o_id :: u64
  o_user :: u64
  o_product :: u64
  o_name :: string
  o_spent :: int
  o_code :: string
  o_created :: int

record mall_product_vo =
  v_product :: mall_product
  v_stock :: int

definition mall_on_sale :: string where "mall_on_sale = ''on_sale''"
definition mall_code_available :: string where "mall_code_available = ''available''"
definition mall_code_sold :: string where "mall_code_sold = ''sold''"

text \<open>
  The state: that of the points account, the three MySQL tables, whether Redis is configured, and
  the four Redis key families of points_mall_redis.go. Keys do not expire by themselves here; the
  expiry of a lock or of a cache entry is a step of the environment.
\<close>

record mall_st = points_st +
  mall_products :: "mall_product list"
  mall_codes :: "mall_code list"
  mall_orders :: "mall_order list"
  mall_redis :: bool
  mall_stock :: "u64 \<Rightarrow> int option"
  mall_locks :: "u64 \<Rightarrow> bool"
  mall_idem :: "u64 \<times> string \<Rightarrow> u64 option"
  mall_cache :: "u64 \<Rightarrow> mall_order list option"

definition mall_rollback :: "'r mall_st_scheme \<Rightarrow> 'r mall_st_scheme \<Rightarrow> 'r mall_st_scheme" where
  "mall_rollback old new = (points_rollback old new)\<lparr>mall_products := mall_products old,
     mall_codes := mall_codes old, mall_orders := mall_orders old\<rparr>"

definition mall_tables ::
  "'r mall_st_scheme \<Rightarrow> (wallet list \<times> points_txn list) \<times> mall_product list \<times> mall_code list \<times> mall_order list" where
  "mall_tables s = (points_tables s, mall_products s, mall_codes s, mall_orders s)"

definition beside_mall :: "'r mall_st_scheme \<Rightarrow> 'r mall_st_scheme" where
  "beside_mall s = s\<lparr>faults := [], wallets := [], ledger := [], mall_products := [], mall_codes := [], mall_orders := []\<rparr>"

interpretation mall_db: store_tx_rest mall_rollback mall_tables beside_mall
  by unfold_locales (simp_all add: mall_rollback_def mall_tables_def points_rollback_def points_tables_def beside_mall_def)

section \<open>The demo catalogue\<close>

definition format_demo_code :: "string \<Rightarrow> nat \<Rightarrow> string" where
  "format_demo_code pre seq = pre @ ''-'' @ hex4 (seq * 7919 mod 65536) @ ''-'' @
     hex4 (seq * 1301 mod 65536) @ ''-'' @ hex4 (seq * 4177 mod 65536)"

record seed_product =
  s_id :: u64
  s_name :: string
  s_subtitle :: string
  s_description :: string
  s_price :: int
  s_cover :: string
  s_sort :: int
  s_prefix :: string
  s_count :: nat

definition mall_seeds :: "seed_product list" where
  "mall_seeds = [
    \<lparr>s_id = 910001, s_name = utf8 [229, 183, 171, 229, 184, 136, 32, 51, 239, 188, 154, 231, 139, 130, 231, 140, 142],
       s_subtitle = ''The Witcher 3: Wild Hunt'',
       s_description = utf8 [67, 68, 32, 80, 82, 79, 74, 69, 75, 84, 32, 82, 69, 68, 32, 229, 188, 128, 230, 148,
       190, 228, 184, 150, 231, 149, 140, 32, 82, 80, 71, 32, 231, 187, 143, 229, 133, 184,
       228, 185, 139, 228, 189, 156, 227, 128, 130, 229, 133, 145, 230, 141, 162, 229, 144,
       142, 232, 142, 183, 229, 190, 151, 32, 71, 79, 71, 47, 83, 116, 101, 97, 109, 32, 233,
       163, 142, 230, 160, 188, 230, 188, 148, 231, 164, 186, 230, 191, 128, 230, 180, 187,
       231, 160, 129, 239, 188, 136, 228, 187, 133, 228, 190, 155, 230, 156, 172, 233, 161,
       185, 231, 155, 174, 231, 167, 175, 229, 136, 134, 229, 149, 134, 229, 159, 142, 230,
       188, 148, 231, 164, 186, 239, 188, 137, 227, 128, 130],
       s_price = 30, s_cover = ''https://pic4.zhimg.com/v2-cad31f1efa6d4940651ebec9063fd5cb_r.jpg'',
       s_sort = 1, s_prefix = ''W3WILD'', s_count = 30\<rparr>,
    \<lparr>s_id = 910002, s_name = utf8 [232, 141, 146, 233, 135, 142, 229, 164, 167, 233, 149, 150, 229, 174, 162, 239, 188,
       154, 230, 149, 145, 232, 181, 142, 32, 50],
       s_subtitle = ''Red Dead Redemption 2'',
       s_description = utf8 [82, 111, 99, 107, 115, 116, 97, 114, 32, 232, 165, 191, 233, 131, 168, 229, 143, 178,
       232, 175, 151, 227, 128, 130, 229, 133, 145, 230, 141, 162, 229, 144, 142, 232, 142,
       183, 229, 190, 151, 229, 185, 179, 229, 143, 176, 230, 188, 148, 231, 164, 186, 230,
       191, 128, 230, 180, 187, 231, 160, 129, 239, 188, 136, 228, 187, 133, 228, 190, 155,
       230, 156, 172, 233, 161, 185, 231, 155, 174, 231, 167, 175, 229, 136, 134, 229, 149,
       134, 229, 159, 142, 230, 188, 148, 231, 164, 186, 239, 188, 137, 227, 128, 130],
       s_price = 40, s_cover = ''https://pic4.zhimg.com/v2-cad31f1efa6d4940651ebec9063fd5cb_r.jpg'',
       s_sort = 2, s_prefix = ''RDR2'', s_count = 25\<rparr>,
    \<lparr>s_id = 910003, s_name = utf8 [229, 164, 169, 229, 155, 189, 239, 188, 154, 230, 139, 175, 230, 149, 145],
       s_subtitle = ''Kingdom Come: Deliverance'',
       s_description = utf8 [87, 97, 114, 104, 111, 114, 115, 101, 32, 228, 184, 173, 228, 184, 150, 231, 186, 170,
       229, 134, 153, 229, 174, 158, 32, 82, 80, 71, 227, 128, 130, 229, 133, 145, 230, 141,
       162, 229, 144, 142, 232, 142, 183, 229, 190, 151, 229, 185, 179, 229, 143, 176, 230,
       188, 148, 231, 164, 186, 230, 191, 128, 230, 180, 187, 231, 160, 129, 239, 188, 136,
       228, 187, 133, 228, 190, 155, 230, 156, 172, 233, 161, 185, 231, 155, 174, 231, 167,
       175, 229, 136, 134, 229, 149, 134, 229, 159, 142, 230, 188, 148, 231, 164, 186, 239,
       188, 137, 227, 128, 130],
       s_price = 25, s_cover = ''https://pic4.zhimg.com/v2-cad31f1efa6d4940651ebec9063fd5cb_r.jpg'',
       s_sort = 3, s_prefix = ''KCD'', s_count = 25\<rparr>]"

definition insert_product :: "mall_product \<Rightarrow> ('r mall_st_scheme, unit) op" where
  "insert_product p = io (\<lambda>s. if has_row m_id (m_id p) (mall_products s) then (Inl DupKey, s)
     else (Inr (), s\<lparr>mall_products := mall_products s @ [p]\<rparr>))"

text \<open>\<open>CreateInBatches\<close> of at most 50 rows is one INSERT: all rows or none; ids and code texts are unique.\<close>

definition insert_codes :: "mall_code list \<Rightarrow> ('r mall_st_scheme, unit) op" where
  "insert_codes cs = io (\<lambda>s. let all = mall_codes s @ cs in
     if \<not> (distinct (map c_id all) \<and> distinct (map c_code all)) then (Inl DupKey, s)
     else (Inr (), s\<lparr>mall_codes := all\<rparr>))"

definition seed_row :: "seed_product \<Rightarrow> int \<Rightarrow> mall_product" where
  "seed_row d now = \<lparr>m_id = s_id d, m_name = s_name d, m_subtitle = s_subtitle d, m_description = s_description d,
     m_price = s_price d, m_cover = s_cover d, m_sort = s_sort d, m_status = mall_on_sale,
     m_created = now, m_updated = now\<rparr>"

definition seed_code :: "seed_product \<Rightarrow> int \<Rightarrow> nat \<Rightarrow> ('r mall_st_scheme, mall_code) op" where
  "seed_code d now i = bnd generate_id (\<lambda>x. ret \<lparr>c_id = x, c_product = s_id d,
     c_code = format_demo_code (s_prefix d) i, c_status = mall_code_available, c_order = 0, c_buyer = 0,
     c_sold = None, c_created = now\<rparr>)"

definition seed_catalog_if_empty :: "('r mall_st_scheme, unit) op" where
  "seed_catalog_if_empty =
     bnd (io (gets (\<lambda>s. length (mall_products s)))) (\<lambda>n. if n > 0 then ret () else
     bnd (gets clock_now) (\<lambda>now.
     for_each mall_seeds (\<lambda>d.
       bnd (insert_product (seed_row d now)) (\<lambda>_.
       bnd (map_each [1..<s_count d + 1] (seed_code d now)) insert_codes))))"

section \<open>The MySQL repository\<close>

text \<open>\<open>ORDER BY sort_order ASC, id ASC\<close>.\<close>

definition on_sale_products :: "mall_product list \<Rightarrow> mall_product list" where
  "on_sale_products ps = sort_key (\<lambda>p. (m_sort p, m_id p)) (filter (\<lambda>p. m_status p = mall_on_sale) ps)"

definition list_on_sale_products :: "('r mall_st_scheme, mall_product list) op" where
  "list_on_sale_products = io (gets (\<lambda>s. on_sale_products (mall_products s)))"

text \<open>
  \<open>SearchProductsByName\<close>: \<open>name_like q s\<close> is MySQL's \<open>s LIKE '%q%'\<close> under the column's collation.
\<close>

definition search_products_by_name ::
  "(string \<Rightarrow> string \<Rightarrow> bool) \<Rightarrow> string \<Rightarrow> int \<Rightarrow> ('r mall_st_scheme, mall_product list) op" where
  "search_products_by_name name_like q limit =
     (let q = trim_space q in
      if q = [] then ret []
      else let limit = (if limit \<le> 0 then 5 else limit); limit = (if limit > 5 then 5 else limit)
        in io (gets (\<lambda>s. take (nat limit)
             (filter (\<lambda>p. name_like q (m_name p) \<or> name_like q (m_subtitle p)) (on_sale_products (mall_products s))))))"

definition get_product_by_id :: "u64 \<Rightarrow> ('r mall_st_scheme, mall_product) op" where
  "get_product_by_id i = io (\<lambda>s. case first_row m_id (\<lambda>p. m_id p = i \<and> m_status p = mall_on_sale) (mall_products s) of
       None \<Rightarrow> (Inl ErrMallProductNotFound, s)
     | Some p \<Rightarrow> (Inr p, s))"

definition code_free :: "u64 \<Rightarrow> mall_code \<Rightarrow> bool" where
  "code_free product c \<longleftrightarrow> c_product c = product \<and> c_status c = mall_code_available"

definition count_available_codes :: "u64 \<Rightarrow> ('r mall_st_scheme, int) op" where
  "count_available_codes product = io (gets (\<lambda>s. int (count_rows (code_free product) (mall_codes s))))"

definition get_order_by_id :: "u64 \<Rightarrow> ('r mall_st_scheme, mall_order) op" where
  "get_order_by_id i = io (\<lambda>s. case row_of o_id i (mall_orders s) of
       None \<Rightarrow> (Inl RecordNotFound, s)
     | Some r \<Rightarrow> (Inr r, s))"

text \<open>\<open>ORDER BY created_at DESC\<close>; rows of the same time come in insertion order.\<close>

definition orders_by_user :: "u64 \<Rightarrow> int \<Rightarrow> mall_order list \<Rightarrow> mall_order list" where
  "orders_by_user u limit l =
     (let limit = (if limit \<le> 0 then 50 else limit); limit = (if limit > 100 then 100 else limit)
      in take (nat limit) (sort_key (\<lambda>r. - o_created r) (filter (\<lambda>r. o_user r = u) l)))"

definition list_orders_by_user :: "u64 \<Rightarrow> int \<Rightarrow> ('r mall_st_scheme, mall_order list) op" where
  "list_orders_by_user u limit = io (gets (\<lambda>s. orders_by_user u limit (mall_orders s)))"

definition insert_order :: "mall_order \<Rightarrow> ('r mall_st_scheme, unit) op" where
  "insert_order r = io (\<lambda>s. if has_row o_id (o_id r) (mall_orders s) then (Inl DupKey, s)
     else (Inr (), s\<lparr>mall_orders := mall_orders s @ [r]\<rparr>))"

definition sell_code :: "u64 \<Rightarrow> u64 \<Rightarrow> int \<Rightarrow> mall_code \<Rightarrow> mall_code" where
  "sell_code order buyer now c =
     c\<lparr>c_status := mall_code_sold, c_order := order, c_buyer := buyer, c_sold := Some now\<rparr>"

definition mark_code_sold :: "u64 \<Rightarrow> u64 \<Rightarrow> u64 \<Rightarrow> int \<Rightarrow> ('r mall_st_scheme, unit) op" where
  "mark_code_sold code order buyer now = io (modify (\<lambda>s. s\<lparr>mall_codes :=
     upd_rows (\<lambda>c. c_id c = code \<and> c_status c = mall_code_available) (sell_code order buyer now) (mall_codes s)\<rparr>))"

definition redeem_txn :: "u64 \<Rightarrow> mall_product \<Rightarrow> u64 \<Rightarrow> wallet \<Rightarrow> int \<Rightarrow> points_txn" where
  "redeem_txn u product order w now =
     \<lparr>t_id = points_stable_txn_id u ''mall_redeem'' order (m_id product), t_user = u,
      t_amount = i64 (- m_price product), t_type = ''expense'', t_ref_type = ''mall_redeem'', t_ref_id = order,
      t_balance_after = i64 (w_balance w - m_price product),
      t_desc = utf8 [229, 133, 145, 230, 141, 162, 239, 188, 154] @ m_name product, t_created = now\<rparr>"

definition redeem_order :: "u64 \<Rightarrow> mall_product \<Rightarrow> u64 \<Rightarrow> mall_code \<Rightarrow> int \<Rightarrow> mall_order" where
  "redeem_order u product order code now =
     \<lparr>o_id = order, o_user = u, o_product = m_id product, o_name = m_name product,
      o_spent = m_price product, o_code = c_code code, o_created = now\<rparr>"

definition redeem_wallet :: "u64 \<Rightarrow> ('r mall_st_scheme, wallet) op" where
  "redeem_wallet u = bnd (attempt (get_wallet_for_update u)) (\<lambda>r. case r of
       Inl e \<Rightarrow> if e = ErrWalletNotFound then bnd (create_wallet_in_tx u) (\<lambda>_. get_wallet_for_update u) else throw e
     | Inr w \<Rightarrow> ret w)"

definition redeem_body :: "u64 \<Rightarrow> mall_product \<Rightarrow> u64 \<Rightarrow> ('r mall_st_scheme, mall_order) op" where
  "redeem_body u product order =
     bnd (io (gets (\<lambda>s. first_row c_id (code_free (m_id product)) (mall_codes s)))) (\<lambda>found. case found of
       None \<Rightarrow> throw ErrMallOutOfStock
     | Some code \<Rightarrow>
     bnd (redeem_wallet u) (\<lambda>w. if w_balance w < m_price product then throw ErrInsufficientBalance else
     bnd (gets clock_now) (\<lambda>now.
     bnd (mark_code_sold (c_id code) order u now) (\<lambda>_.
     bnd (try_insert_transaction (redeem_txn u product order w now)) (\<lambda>inserted.
     if \<not> inserted then throw ErrPointsTxnIdempotentSkip else
     bnd (update_balance u (i64 (- m_price product)) (w_version w)) (\<lambda>_.
     bnd (attempt (insert_order (redeem_order u product order code now))) (\<lambda>r. case r of
       Inl e \<Rightarrow> if e = DupKey then throw ErrPointsTxnIdempotentSkip else throw e
     | Inr _ \<Rightarrow> ret (redeem_order u product order code now))))))))"

definition redeem_in_tx :: "u64 \<Rightarrow> mall_product \<Rightarrow> u64 \<Rightarrow> ('r mall_st_scheme, mall_order) op" where
  "redeem_in_tx u product order =
     bnd (attempt (tx mall_rollback (redeem_body u product order))) (\<lambda>r. case r of
       Inr out \<Rightarrow> ret out
     | Inl e \<Rightarrow> if e = ErrPointsTxnIdempotentSkip
         then bnd (attempt (get_order_by_id order)) (\<lambda>f. case f of Inr existing \<Rightarrow> ret existing | Inl _ \<Rightarrow> throw e)
         else throw e)"

section \<open>The Redis repository\<close>

definition set_stock :: "u64 \<Rightarrow> int \<Rightarrow> ('r mall_st_scheme, unit) op" where
  "set_stock product n = bnd (gets mall_redis) (\<lambda>on. if \<not> on then ret () else
     io (modify (\<lambda>s. s\<lparr>mall_stock := (mall_stock s)(product := Some n)\<rparr>)))"

definition get_stock :: "u64 \<Rightarrow> ('r mall_st_scheme, int) op" where
  "get_stock product = bnd (gets mall_redis) (\<lambda>on. if \<not> on then ret 0 else
     io (gets (\<lambda>s. case mall_stock s product of None \<Rightarrow> -1 | Some n \<Rightarrow> n)))"

definition try_decr_stock :: "u64 \<Rightarrow> ('r mall_st_scheme, bool) op" where
  "try_decr_stock product = bnd (gets mall_redis) (\<lambda>on. if \<not> on then ret True else
     io (\<lambda>s. let cur = (case mall_stock s product of None \<Rightarrow> 0 | Some n \<Rightarrow> n) in
        if cur \<le> 0 then (Inr False, s)
        else (Inr True, s\<lparr>mall_stock := (mall_stock s)(product := Some (cur - 1))\<rparr>)))"

definition incr_stock :: "u64 \<Rightarrow> ('r mall_st_scheme, unit) op" where
  "incr_stock product = bnd (gets mall_redis) (\<lambda>on. if \<not> on then ret () else
     io (modify (\<lambda>s. s\<lparr>mall_stock := (mall_stock s)(product :=
        Some ((case mall_stock s product of None \<Rightarrow> 0 | Some n \<Rightarrow> n) + 1))\<rparr>)))"

text \<open>SETNX: true when the lock was free.\<close>

definition acquire_redeem_lock :: "u64 \<Rightarrow> ('r mall_st_scheme, bool) op" where
  "acquire_redeem_lock u = bnd (gets mall_redis) (\<lambda>on. if \<not> on then ret True else
     io (\<lambda>s. (Inr (\<not> mall_locks s u), s\<lparr>mall_locks := (mall_locks s)(u := True)\<rparr>)))"

definition release_redeem_lock :: "u64 \<Rightarrow> ('r mall_st_scheme, unit) op" where
  "release_redeem_lock u = bnd (gets mall_redis) (\<lambda>on. if \<not> on then ret () else
     ignore (io (modify (\<lambda>s. s\<lparr>mall_locks := (mall_locks s)(u := False)\<rparr>))))"

definition get_idempotent_order_id :: "u64 \<Rightarrow> string \<Rightarrow> ('r mall_st_scheme, u64 option) op" where
  "get_idempotent_order_id u key = bnd (gets mall_redis) (\<lambda>on. if \<not> on \<or> key = [] then ret None else
     io (gets (\<lambda>s. mall_idem s (u, key))))"

definition save_idempotent_order_id :: "u64 \<Rightarrow> string \<Rightarrow> u64 \<Rightarrow> ('r mall_st_scheme, unit) op" where
  "save_idempotent_order_id u key order = bnd (gets mall_redis) (\<lambda>on. if \<not> on \<or> key = [] \<or> order = 0 then ret () else
     io (modify (\<lambda>s. s\<lparr>mall_idem := (mall_idem s)((u, key) := Some order)\<rparr>)))"

definition get_user_orders :: "u64 \<Rightarrow> ('r mall_st_scheme, mall_order list option) op" where
  "get_user_orders u = bnd (gets mall_redis) (\<lambda>on. if \<not> on \<or> u = 0 then ret None else
     io (gets (\<lambda>s. mall_cache s u)))"

definition set_user_orders :: "u64 \<Rightarrow> mall_order list \<Rightarrow> ('r mall_st_scheme, unit) op" where
  "set_user_orders u l = bnd (gets mall_redis) (\<lambda>on. if \<not> on \<or> u = 0 then ret () else
     io (modify (\<lambda>s. s\<lparr>mall_cache := (mall_cache s)(u := Some l)\<rparr>)))"

definition del_user_orders :: "u64 \<Rightarrow> ('r mall_st_scheme, unit) op" where
  "del_user_orders u = bnd (gets mall_redis) (\<lambda>on. if \<not> on \<or> u = 0 then ret () else
     io (modify (\<lambda>s. s\<lparr>mall_cache := (mall_cache s)(u := None)\<rparr>)))"

definition sync_all_product_stocks :: "('r mall_st_scheme, unit) op" where
  "sync_all_product_stocks = bnd (gets mall_redis) (\<lambda>on. if \<not> on then ret () else
     bnd (io (gets (\<lambda>s. map m_id (filter (\<lambda>p. m_status p = mall_on_sale) (mall_products s))))) (\<lambda>ids.
     for_each ids (\<lambda>i. bnd (count_available_codes i) (set_stock i))))"

section \<open>The service\<close>

definition init_stock_cache :: "('r mall_st_scheme, unit) op" where
  "init_stock_cache = ignore sync_all_product_stocks"

definition stock_for_product :: "u64 \<Rightarrow> ('r mall_st_scheme, int) op" where
  "stock_for_product i = bnd (gets mall_redis) (\<lambda>on.
     if on then bnd (get_stock i) (\<lambda>n. if n \<ge> 0 then ret n else count_available_codes i)
     else count_available_codes i)"

definition product_vo :: "mall_product \<Rightarrow> ('r mall_st_scheme, mall_product_vo) op" where
  "product_vo p = bnd (stock_for_product (m_id p)) (\<lambda>n. ret \<lparr>v_product = p, v_stock = n\<rparr>)"

definition list_products :: "('r mall_st_scheme, mall_product_vo list) op" where
  "list_products = bnd list_on_sale_products (\<lambda>ps. map_each ps product_vo)"

definition search_products ::
  "(string \<Rightarrow> string \<Rightarrow> bool) \<Rightarrow> string \<Rightarrow> int \<Rightarrow> ('r mall_st_scheme, mall_product_vo list) op" where
  "search_products name_like q limit =
     bnd (search_products_by_name name_like q limit) (\<lambda>ps. map_each ps product_vo)"

definition get_product :: "u64 \<Rightarrow> ('r mall_st_scheme, mall_product_vo) op" where
  "get_product i = bnd (get_product_by_id i) product_vo"

definition list_my_orders :: "u64 \<Rightarrow> ('r mall_st_scheme, mall_order list) op" where
  "list_my_orders u =
     (let from_db = bnd (list_orders_by_user u 50) (\<lambda>l.
            bnd (gets mall_redis) (\<lambda>on. bnd (guarded on (ignore (set_user_orders u l))) (\<lambda>_. ret l)))
      in bnd (gets mall_redis) (\<lambda>on. if \<not> on then from_db else
         bnd (attempt (get_user_orders u)) (\<lambda>c. case c of Inr (Some l) \<Rightarrow> ret l | _ \<Rightarrow> from_db)))"

definition get_order_for_user :: "u64 \<Rightarrow> u64 \<Rightarrow> ('r mall_st_scheme, mall_order) op" where
  "get_order_for_user u order = bnd (attempt (get_order_by_id order)) (\<lambda>r. case r of
       Inl e \<Rightarrow> if e = RecordNotFound then throw ErrMallProductNotFound else throw e
     | Inr x \<Rightarrow> if o_user x \<noteq> u then throw ErrMallProductNotFound else ret x)"

text \<open>The check of the stock, the transaction with its compensation, and what follows a success.\<close>

definition reserve_stock :: "u64 \<Rightarrow> ('r mall_st_scheme, unit) op" where
  "reserve_stock product = bnd (gets mall_redis) (\<lambda>on.
     if on then bnd (try_decr_stock product) (\<lambda>ok. if ok then ret () else throw ErrMallOutOfStock)
     else bnd (count_available_codes product) (\<lambda>n. if n \<le> 0 then throw ErrMallOutOfStock else ret ()))"

definition after_redeem :: "u64 \<Rightarrow> u64 \<Rightarrow> string \<Rightarrow> mall_order \<Rightarrow> ('r mall_st_scheme, unit) op" where
  "after_redeem u product key r =
     bnd (gets mall_redis) (\<lambda>on.
     bnd (guarded (key \<noteq> [] \<and> on) (ignore (save_idempotent_order_id u key (o_id r)))) (\<lambda>_.
     bnd (attempt (count_available_codes product)) (\<lambda>n.
     bnd (case n of Inr n \<Rightarrow> ignore (set_stock product n) | Inl _ \<Rightarrow> ret ()) (\<lambda>_.
     bnd (gets points_redis) (\<lambda>wallet_on.
     bnd (guarded wallet_on (ignore (del_wallet_balance u))) (\<lambda>_.
     guarded on (ignore (del_user_orders u))))))))"

definition redeem_locked :: "u64 \<Rightarrow> u64 \<Rightarrow> string \<Rightarrow> ('r mall_st_scheme, mall_order) op" where
  "redeem_locked u product key =
     bnd (get_product_by_id product) (\<lambda>p.
     bnd (reserve_stock product) (\<lambda>_.
     bnd generate_id (\<lambda>order.
     bnd (attempt (redeem_in_tx u p order)) (\<lambda>r. case r of
       Inl e \<Rightarrow> bnd (gets mall_redis) (\<lambda>on. bnd (guarded on (ignore (incr_stock product))) (\<lambda>_. throw e))
     | Inr x \<Rightarrow> bnd (after_redeem u product key x) (\<lambda>_. ret x)))))"

definition redeem_once :: "u64 \<Rightarrow> u64 \<Rightarrow> string \<Rightarrow> ('r mall_st_scheme, mall_order) op" where
  "redeem_once u product key = bnd (gets mall_redis) (\<lambda>on. if \<not> on then redeem_locked u product key else
     bnd (acquire_redeem_lock u) (\<lambda>ok. if \<not> ok then throw ErrMallRedeemBusy else
     deferred (redeem_locked u product key) (release_redeem_lock u)))"

definition redeem :: "u64 \<Rightarrow> u64 \<Rightarrow> string \<Rightarrow> ('r mall_st_scheme, mall_order) op" where
  "redeem u product key =
     (if u = 0 \<or> product = 0 then throw ErrMallProductNotFound else
      bnd (gets mall_redis) (\<lambda>on.
        if key \<noteq> [] \<and> on then
          bnd (get_idempotent_order_id u key) (\<lambda>hit. case hit of
            Some order \<Rightarrow> if order \<noteq> 0 then get_order_for_user u order else redeem_once u product key
          | None \<Rightarrow> redeem_once u product key)
        else redeem_once u product key))"

section \<open>Handlers\<close>

text \<open>
  \<open>Redeem\<close>: \<open>body\<close> is the decoded JSON (product id, if it parsed, and the key), \<open>None\<close> when the JSON is
  bad; the header is the fallback for the key. The answer is the order and its activation code.
\<close>

definition redeem_handler ::
  "u64 \<Rightarrow> (u64 option \<times> string) option \<Rightarrow> string \<Rightarrow> ('r mall_st_scheme, mall_order \<times> string) op" where
  "redeem_handler u body header =
     (if u = 0 then throw ErrInvalidToken else case body of
        None \<Rightarrow> throw ErrCodeInvalidParam
      | Some (pid, key) \<Rightarrow> (case pid of
          None \<Rightarrow> throw ErrCodeInvalidParam
        | Some product \<Rightarrow> if product = 0 then throw ErrCodeInvalidParam else
            let idem = trim_space key; idem = (if idem = [] then trim_space header else idem)
            in bnd (redeem u product idem) (\<lambda>r. ret (r, o_code r))))"

definition list_my_orders_handler :: "u64 \<Rightarrow> ('r mall_st_scheme, mall_order list) op" where
  "list_my_orders_handler u = (if u = 0 then throw ErrInvalidToken else list_my_orders u)"

definition get_product_handler :: "u64 option \<Rightarrow> ('r mall_st_scheme, mall_product_vo) op" where
  "get_product_handler i = (case i of None \<Rightarrow> throw ErrCodeInvalidParam | Some i \<Rightarrow> get_product i)"

definition search_products_handler ::
  "(string \<Rightarrow> string \<Rightarrow> bool) \<Rightarrow> string \<Rightarrow> int \<Rightarrow> ('r mall_st_scheme, mall_product_vo list \<times> nat) op" where
  "search_products_handler name_like q limit =
     (let q = trim_space q in if q = [] then throw ErrCodeInvalidParam
      else bnd (search_products name_like q limit) (\<lambda>l. ret (l, length l)))"

end
