(* ===== verification/MallProps.thy ===== *)
theory MallProps
  imports Mall PointsProps
begin

text \<open>
  What redeeming guarantees: the ledger and the code pool stay consistent, no code is sold twice, a
  failed redemption is undone in MySQL and in Redis, and a repeated request is answered with the
  order it already has.
\<close>

section \<open>The books of the mall\<close>

text \<open>
  \<open>mall_inv\<close>: the points ledger is right, keys are unique, and sold codes and orders correspond: each
  order has the code it names, sold to that order's buyer, and each sold code has its order.
\<close>

definition order_backed :: "mall_code list \<Rightarrow> mall_order \<Rightarrow> bool" where
  "order_backed cs r \<longleftrightarrow> (\<exists>c \<in> set cs. c_code c = o_code r \<and> c_status c = mall_code_sold \<and>
     c_order c = o_id r \<and> c_buyer c = o_user r \<and> c_product c = o_product r)"

definition mall_inv :: "'r mall_st_scheme \<Rightarrow> bool" where
  "mall_inv s \<longleftrightarrow> ledger_inv s \<and>
     distinct (map c_id (mall_codes s)) \<and> distinct (map c_code (mall_codes s)) \<and> distinct (map o_id (mall_orders s)) \<and>
     (\<forall>r \<in> set (mall_orders s). order_backed (mall_codes s) r) \<and>
     (\<forall>c \<in> set (mall_codes s). c_status c = mall_code_sold \<longrightarrow> has_row o_id (c_order c) (mall_orders s))"

lemma mall_inv_tables: "mall_tables t = mall_tables s \<Longrightarrow> mall_inv t = mall_inv s"
  using ledger_inv_tables [of t s] by (simp add: mall_inv_def mall_tables_def)

lemma status_neq: "mall_code_sold \<noteq> mall_code_available"
  by (simp add: mall_code_sold_def mall_code_available_def)

lemma sell_code_sel [simp]:
  "c_id (sell_code r u now c) = c_id c" "c_code (sell_code r u now c) = c_code c"
  "c_product (sell_code r u now c) = c_product c" "c_status (sell_code r u now c) = mall_code_sold"
  "c_order (sell_code r u now c) = r" "c_buyer (sell_code r u now c) = u"
  by (simp_all add: sell_code_def)

text \<open>Selling a free code to a new order keeps codes and orders in step.\<close>

lemma mall_inv_sold:
  assumes inv: "mall_inv s" and free: "first_row c_id (code_free p) (mall_codes s) = Some c"
    and new: "\<not> has_row o_id r (mall_orders s)" and led: "ledger_inv t"
    and codes: "mall_codes t = upd_rows (\<lambda>q. c_id q = c_id c \<and> c_status q = mall_code_available) (sell_code r u now) (mall_codes s)"
    and orders: "mall_orders t = mall_orders s @ [x]"
    and x: "o_id x = r" "o_user x = u" "o_product x = p" "o_code x = c_code c"
  shows "mall_inv t"
proof -
  let ?P = "\<lambda>q. c_id q = c_id c \<and> c_status q = mall_code_available"
  from free have c: "c \<in> set (mall_codes s)" "c_product c = p" "c_status c = mall_code_available"
    by (auto simp: code_free_def dest!: first_row_Some)
  have in_t: "(if ?P q then sell_code r u now q else q) \<in> set (mall_codes t)" if "q \<in> set (mall_codes s)" for q
    using that by (auto simp: codes set_upd)
  have "order_backed (mall_codes t) y" if y: "y \<in> set (mall_orders s)" for y
  proof -
    from inv y obtain q where q: "q \<in> set (mall_codes s)" "c_code q = o_code y" "c_status q = mall_code_sold"
        "c_order q = o_id y" "c_buyer q = o_user y" "c_product q = o_product y"
      by (auto simp: mall_inv_def order_backed_def)
    with in_t [OF q(1)] status_neq show ?thesis by (auto simp: order_backed_def)
  qed
  moreover have "order_backed (mall_codes t) x"
    using in_t [OF c(1)] c x unfolding order_backed_def by (auto intro!: bexI [of _ "sell_code r u now c"])
  moreover have "has_row o_id (c_order q) (mall_orders t)"
    if q: "q \<in> set (mall_codes t)" "c_status q = mall_code_sold" for q
  proof -
    from q(1) obtain q' where "q' \<in> set (mall_codes s)" "q = (if ?P q' then sell_code r u now q' else q')"
      by (auto simp: codes set_upd)
    with inv q(2) x(1) show ?thesis by (auto simp: mall_inv_def orders split: if_splits)
  qed
  ultimately show ?thesis
    using inv led new x(1) by (auto simp: mall_inv_def orders codes has_row_def)
qed

lemma get_wallet_for_update_eq: "get_wallet_for_update = get_wallet_by_user_id_tx"
  by (rule ext) (simp add: get_wallet_for_update_def get_wallet_by_user_id_tx_def)

definition same_mall :: "'r mall_st_scheme \<Rightarrow> 'r mall_st_scheme \<Rightarrow> bool" where
  "same_mall s t \<longleftrightarrow> mall_products t = mall_products s \<and> mall_codes t = mall_codes s \<and> mall_orders t = mall_orders s"

lemma redeem_walletE:
  assumes "redeem_wallet u s = (Inr w, t)" and "grant_free u s"
  obtains "wallet_ready u s w t" and "same_mall s t"
proof -
  from assms have "wallet_ready u s w t \<and> same_mall s t"
    unfolding redeem_wallet_def grant_free_def wallet_ready_def get_wallet_for_update_eq same_mall_def
    by (auto simp: op_eqs new_wallet_def row_of_None [where key = w_user, symmetric] split: sum.splits if_splits option.splits
        elim!: op_elims get_wallet_by_user_id_txE get_wallet_by_user_id_tx_errE create_wallet_in_txE)
  then show thesis using that by blast
qed

text \<open>What a successful redemption did.\<close>

lemma redeem_bodyE:
  assumes "redeem_body u p r s = (Inr x, t)" and "ledger_inv s" and "grant_free u s"
  obtains c w q where "first_row c_id (code_free (m_id p)) (mall_codes s) = Some c"
    and "mall_codes t = upd_rows (\<lambda>q. c_id q = c_id c \<and> c_status q = mall_code_available) (sell_code r u (clock_now s)) (mall_codes s)"
    and "mall_orders t = mall_orders s @ [x]" and "x = redeem_order u p r c (clock_now s)"
    and "\<not> has_row o_id r (mall_orders s)" and "mall_products t = mall_products s"
    and "ledger_inv t" and "wallet_ready u s w q" and "m_price p \<le> w_balance w"
    and "ledger t = ledger q @ [redeem_txn u p r w (clock_now s)]"
    and "row_of w_user u (wallets t) = Some (bump_wallet (i64 (- m_price p)) (w_version w) (clock_now s) w)"
proof -
  let ?P = "\<lambda>c q. c_id q = c_id c \<and> c_status q = mall_code_available"
  let ?now = "clock_now s"
  note update_balance_some = update_balanceE
  from assms(1) obtain c w fs q q1 q2 q3 where
      c: "first_row c_id (code_free (m_id p)) (mall_codes s) = Some c"
      and wal: "redeem_wallet u (s\<lparr>faults := fs\<rparr>) = (Inr w, q)"
      and price: "\<not> w_balance w < m_price p"
      and mark: "mark_code_sold (c_id c) r u (clock_now q) q = (Inr (), q1)"
      and ins: "try_insert_transaction (redeem_txn u p r w (clock_now q)) q1 = (Inr True, q2)"
      and upd: "update_balance u (i64 (- m_price p)) (w_version w) q2 = (Inr (), q3)"
      and ord: "insert_order (redeem_order u p r c (clock_now q)) q3 = (Inr (), t)"
      and x: "x = redeem_order u p r c (clock_now q)"
    unfolding redeem_body_def
    by (auto simp: op_eqs split: sum.splits if_splits option.splits elim!: op_elims io_InrE)
  from wal assms(3) have rdy: "wallet_ready u (s\<lparr>faults := fs\<rparr>) w q" and same: "same_mall (s\<lparr>faults := fs\<rparr>) q"
    by (auto simp: grant_free_def elim!: redeem_walletE)
  then have rdy': "wallet_ready u s w q" and now: "clock_now q = ?now"
    by (simp_all add: wallet_ready_def)
  note kept = wallet_ready_inv [OF rdy' assms(2)]
  from mark obtain fs1 where q1: "q1 = q\<lparr>faults := fs1, mall_codes := upd_rows (?P c) (sell_code r u ?now) (mall_codes q)\<rparr>"
    unfolding mark_code_sold_def by (auto simp: op_eqs now elim!: io_InrE)
  from ins obtain fs2 where q2: "q2 = q1\<lparr>faults := fs2, ledger := ledger q1 @ [redeem_txn u p r w ?now]\<rparr>"
      and fresh: "\<not> has_row t_id (t_id (redeem_txn u p r w ?now)) (ledger q1)"
    by (auto simp: now elim!: try_insert_transactionE)
  from upd obtain fs3 v where q3: "q3 = q2\<lparr>faults := fs3, wallets := upd_rows (balance_guard u (i64 (- m_price p)) (w_version w))
        (bump_wallet (i64 (- m_price p)) (w_version w) (clock_now q2)) (wallets q2)\<rparr>"
      and v: "v \<in> set (wallets q2)" "balance_guard u (i64 (- m_price p)) (w_version w) v" "i64_ok (w_balance v + i64 (- m_price p))"
    by (elim update_balanceE)
  from ord obtain fs4 where t: "t = q3\<lparr>faults := fs4, mall_orders := mall_orders q3 @ [x]\<rparr>"
      and new: "\<not> has_row o_id (o_id x) (mall_orders q3)"
    unfolding insert_order_def by (auto simp: x split: if_splits elim!: io_InrE)
  let ?x = "redeem_txn u p r w ?now"
  have fields: "t_user ?x = u" "t_amount ?x = i64 (- m_price p)"
    "t_balance_after ?x = i64 (w_balance w + i64 (- m_price p))"
    by (simp_all add: redeem_txn_def i64_diff)
  from q1 fresh have fresh': "\<not> has_row t_id (t_id ?x) (ledger q)" by simp
  have "ledger t = ledger q @ [?x]" and "wallets t = upd_rows (balance_guard u (t_amount ?x) (w_version w))
      (bump_wallet (t_amount ?x) (w_version w) ?now) (wallets q)"
    by (simp_all add: t q3 q2 q1 now fields)
  note posted = ledger_inv_posted [OF kept refl fields(1,3) [folded fields(2)] fresh' _ _ _ this, of v]
  have led: "ledger_inv t" and guard: "balance_guard u (i64 (- m_price p)) (w_version w) w"
    using posted v by (simp_all add: fields q2 q1)
  have key: "w_user (bump_wallet a b n z) = w_user z" for a b n z by (simp add: bump_wallet_def)
  have "row_of w_user u (wallets t) = Some (bump_wallet (i64 (- m_price p)) (w_version w) ?now w)"
    using guard kept(2) by (simp add: t q3 q2 q1 now key)
  moreover have "mall_products t = mall_products s"
    using same by (simp add: t q3 q2 q1 same_mall_def)
  moreover have "\<not> has_row o_id r (mall_orders s)"
    using same new by (simp add: q3 q2 q1 same_mall_def x redeem_order_def)
  ultimately show thesis
    using that [OF c] led rdy' price same by (simp add: t q3 q2 q1 same_mall_def x now)
qed

lemma redeem_body_inv:
  assumes "redeem_body u p r s = (Inr x, t)" and "mall_inv s" and "grant_free u s"
  shows "mall_inv t"
proof -
  from assms(2) have "ledger_inv s" by (simp add: mall_inv_def)
  with assms(1) show ?thesis using assms(3)
  proof (rule redeem_bodyE)
    fix c w q
    assume "first_row c_id (code_free (m_id p)) (mall_codes s) = Some c" "\<not> has_row o_id r (mall_orders s)" "ledger_inv t"
      "mall_codes t = upd_rows (\<lambda>q. c_id q = c_id c \<and> c_status q = mall_code_available) (sell_code r u (clock_now s)) (mall_codes s)"
      "mall_orders t = mall_orders s @ [x]" "x = redeem_order u p r c (clock_now s)"
    then show ?thesis by (intro mall_inv_sold [OF assms(2)]) (simp add: redeem_order_def; fail)+
  qed
qed

text \<open>What a transaction does not touch, and what the operations on Redis do not touch.\<close>

lemma beside_mallD:
  assumes "beside_mall t = beside_mall s"
  shows "mall_redis t = mall_redis s" and "mall_stock t = mall_stock s" and "mall_locks t = mall_locks s"
    and "mall_idem t = mall_idem s" and "mall_cache t = mall_cache s" and "points_redis t = points_redis s"
    and "clock_now t = clock_now s"
  using assms unfolding beside_mall_def by (cases s; cases t; simp)+

lemma beside_mall_body: "keeps (\<lambda>s. beside_mall s = c) (redeem_body u p r)"
proof -
  note m = mall_db.keeps_rest_io and q = mall_db.quietly_rest
  have "keeps (\<lambda>s. beside_mall s = c) (get_wallet_by_user_id_tx x)" for x
    unfolding get_wallet_by_user_id_tx_def by (rule m) (simp split: option.split)
  moreover have "keeps (\<lambda>s. beside_mall s = c) (insert_transaction x)" for x
    unfolding insert_transaction_def by (rule m) (simp add: beside_mall_def)
  moreover have "keeps (\<lambda>s. beside_mall s = c) (insert_wallet x)" for x
    unfolding insert_wallet_def by (rule m) (simp add: beside_mall_def)
  moreover have "keeps (\<lambda>s. beside_mall s = c) (update_balance_stmt x y z)" for x y z
    unfolding update_balance_stmt_def by (rule m) (simp add: beside_mall_def Let_def)
  moreover have "keeps (\<lambda>s. beside_mall s = c) (insert_order x)" for x
    unfolding insert_order_def by (rule m) (simp add: beside_mall_def)
  moreover have "keeps (\<lambda>s. beside_mall s = c) (mark_code_sold x y z n)" for x y z n
    unfolding mark_code_sold_def by (rule m) (simp add: modify_run beside_mall_def)
  ultimately show ?thesis
    unfolding redeem_body_def redeem_wallet_def get_wallet_for_update_eq create_wallet_in_tx_def
      try_insert_transaction_def update_balance_def
    by (auto intro!: keeps_rules q split: sum.splits option.splits)
qed

text \<open>The transaction and its recovery of an existing order.\<close>

definition redeemed :: "u64 \<Rightarrow> mall_product \<Rightarrow> u64 \<Rightarrow> 'r mall_st_scheme \<Rightarrow> mall_order \<Rightarrow> 'r mall_st_scheme \<Rightarrow> bool" where
  "redeemed u p r s x t \<longleftrightarrow> (\<exists>(s1 :: 'r mall_st_scheme) s2. mall_tables s1 = mall_tables s \<and> clock_now s1 = clock_now s \<and>
     redeem_body u p r s1 = (Inr x, s2) \<and> mall_tables t = mall_tables s2)"

lemma wp_redeem_in_tx [wp_rules]:
  assumes "\<And>e t. mall_tables t = mall_tables s \<Longrightarrow> beside_mall t = beside_mall s \<Longrightarrow> Q (Inl e) t"
    and "\<And>x t. redeemed u p r s x t \<Longrightarrow> beside_mall t = beside_mall s \<Longrightarrow> Q (Inr x) t"
    and "\<And>x t. mall_tables t = mall_tables s \<Longrightarrow> beside_mall t = beside_mall s \<Longrightarrow>
      row_of o_id r (mall_orders s) = Some x \<Longrightarrow> Q (Inr x) t"
  shows "wp (redeem_in_tx u p r) Q s"
proof -
  have get: "wp (get_order_by_id r) (\<lambda>f v. mall_tables v = mall_tables t \<and> beside_mall v = beside_mall t \<and>
      (\<forall>x. f = Inr x \<longrightarrow> row_of o_id r (mall_orders t) = Some x)) t" for t :: "'a mall_st_scheme"
    unfolding get_order_by_id_def
    by (rule wp_io) (auto simp: wp_def mall_tables_def points_tables_def beside_mall_def split: option.splits)
  show ?thesis
    unfolding redeem_in_tx_def wp_bnd wp_attempt
  proof (rule mall_db.wp_tx [OF beside_mall_body], goal_cases)
    case (1 e t)
    obtain f v where run: "get_order_by_id r t = (f, v)" by (metis prod.collapse)
    with get [of t] have v: "mall_tables v = mall_tables t" "beside_mall v = beside_mall t"
        "\<And>x. f = Inr x \<Longrightarrow> row_of o_id r (mall_orders t) = Some x"
      by (simp_all add: wp_run)
    from v(1,2) 1(1,2) have vt: "mall_tables v = mall_tables s" "beside_mall v = beside_mall s" by simp_all
    have err: "Q (Inl e') v" for e' by (rule assms(1) [OF vt])
    have "Q (Inl e) t" by (rule assms(1) [OF 1(1,2)])
    moreover have "Q (Inr x) v" if "f = Inr x" for x
    proof -
      from 1(1) have "mall_orders t = mall_orders s" by (simp add: mall_tables_def)
      with v(3) [OF that] show ?thesis by (intro assms(3) [OF vt]) simp
    qed
    ultimately show ?case
      using err by (cases f) (auto simp: wp_simps wp_run [where m = "get_order_by_id r", OF run])
  next
    case (2 x t s1 s2)
    have "redeemed u p r s x t"
      unfolding redeemed_def using 2(2-4) quiet_points(4) [OF 2(1)] by blast
    then have "Q (Inr x) t" by (rule assms(2)) (rule 2(5))
    then show ?case by (simp add: wp_ret)
  qed
qed


text \<open>The books: the tables, the clock, and what is configured. The operations on Redis leave them alone.\<close>

definition mall_books ::
  "'r mall_st_scheme \<Rightarrow> ((wallet list \<times> points_txn list) \<times> mall_product list \<times> mall_code list \<times> mall_order list) \<times> int \<times> bool \<times> bool" where
  "mall_books s = (mall_tables s, clock_now s, mall_redis s, points_redis s)"

lemma mall_books_upd [simp]:
  "mall_books (s\<lparr>mall_stock := a\<rparr>) = mall_books s" "mall_books (s\<lparr>mall_locks := b\<rparr>) = mall_books s"
  "mall_books (s\<lparr>mall_idem := d\<rparr>) = mall_books s" "mall_books (s\<lparr>mall_cache := e\<rparr>) = mall_books s"
  "mall_books (s\<lparr>wallet_cache := f\<rparr>) = mall_books s" "mall_books (s\<lparr>id_seq := n\<rparr>) = mall_books s"
  "mall_books (s\<lparr>faults := fs\<rparr>) = mall_books s"
  by (simp_all add: mall_books_def mall_tables_def points_tables_def)

lemma keeps_books_call:
  assumes "\<And>s. mall_books (snd (f s)) = mall_books s"
  shows "keeps (\<lambda>s. mall_books s = c) (io f)"
  by (rule keeps_call) (simp_all add: quietly_def assms)

lemma keeps_books_redis [keeps_rules]:
  "keeps (\<lambda>s. mall_books s = c) (set_stock p n)" "keeps (\<lambda>s. mall_books s = c) (get_stock p)"
  "keeps (\<lambda>s. mall_books s = c) (try_decr_stock p)" "keeps (\<lambda>s. mall_books s = c) (incr_stock p)"
  "keeps (\<lambda>s. mall_books s = c) (acquire_redeem_lock u)" "keeps (\<lambda>s. mall_books s = c) (release_redeem_lock u)"
  "keeps (\<lambda>s. mall_books s = c) (get_idempotent_order_id u k)"
  "keeps (\<lambda>s. mall_books s = c) (save_idempotent_order_id u k r)"
  "keeps (\<lambda>s. mall_books s = c) (get_user_orders u)" "keeps (\<lambda>s. mall_books s = c) (set_user_orders u l)"
  "keeps (\<lambda>s. mall_books s = c) (del_user_orders u)" "keeps (\<lambda>s. mall_books s = c) (del_wallet_balance u)"
  "keeps (\<lambda>s. mall_books s = c) (get_order_by_id r)"
  "keeps (\<lambda>s. mall_books s = c) (get_product_by_id p)" "keeps (\<lambda>s. mall_books s = c) (count_available_codes p)"
  unfolding set_stock_def get_stock_def try_decr_stock_def incr_stock_def acquire_redeem_lock_def release_redeem_lock_def
    get_idempotent_order_id_def save_idempotent_order_id_def get_user_orders_def set_user_orders_def del_user_orders_def
    del_wallet_balance_def get_order_by_id_def get_product_by_id_def count_available_codes_def
  by ((intro keeps_books_call keeps_if keeps_bnd keeps_ret keeps_gets keeps_ignore;
      simp add: gets_run modify_run Let_def keeps_def split: option.split)+)

lemma keeps_books_service [keeps_rules]:
  "keeps (\<lambda>s. mall_books s = c) generate_id" "keeps (\<lambda>s. mall_books s = c) (reserve_stock p)"
  "keeps (\<lambda>s. mall_books s = c) (after_redeem u p k x)" "keeps (\<lambda>s. mall_books s = c) (get_order_for_user u r)"
proof -
  show "keeps (\<lambda>s. mall_books s = c) generate_id" by (simp add: generate_id_def keeps_def)
qed (auto simp: reserve_stock_def after_redeem_def get_order_for_user_def intro!: keeps_rules)

lemma beside_mall_clock: "beside_mall t = beside_mall s \<Longrightarrow> mall_tables t = mall_tables s \<Longrightarrow> mall_books t = mall_books s"
  unfolding mall_books_def using beside_mallD [of t s] by simp

section \<open>Redemptions\<close>

text \<open>What follows a success never fails.\<close>

lemma after_redeem_ok: "wp (after_redeem u p k x) (\<lambda>r t. r = Inr () \<and> mall_books t = mall_books s) s"
proof -
  have "wp (after_redeem u p k x) (\<lambda>r t. r = Inr ()) s"
    unfolding after_redeem_def save_idempotent_order_id_def count_available_codes_def set_stock_def
      del_wallet_balance_def del_user_orders_def
    by (auto simp: wp_simps intro!: wp_io split: sum.split)
  moreover have "wp (after_redeem u p k x) (\<lambda>r t. mall_books t = mall_books s) s"
    by (rule wp_keeps [OF keeps_books_service(3)]) simp
  ultimately show ?thesis by (rule wp_conj)
qed

lemma wp_get_product: "wp (get_product_by_id product) (\<lambda>r t. mall_books t = mall_books s \<and>
    (\<forall>p. r = Inr p \<longrightarrow> first_row m_id (\<lambda>p. m_id p = product \<and> m_status p = mall_on_sale) (mall_products s) = Some p)) s"
  unfolding get_product_by_id_def by (rule wp_io) (auto simp: wp_def split: option.split)

lemma wp_redeem_locked:
  fixes s :: "'r mall_st_scheme"
  assumes idle: "\<And>r t. mall_books t = mall_books s \<Longrightarrow> Q r t"
    and posted: "\<And>x r p (q :: 'r mall_st_scheme) v t. redeemed u p r q x v \<Longrightarrow> mall_books q = mall_books s \<Longrightarrow>
      first_row m_id (\<lambda>p. m_id p = product \<and> m_status p = mall_on_sale) (mall_products s) = Some p \<Longrightarrow>
      beside_mall v = beside_mall q \<Longrightarrow> mall_books t = mall_books v \<Longrightarrow> Q (Inr x) t"
  shows "wp (redeem_locked u product key) Q s"
  unfolding redeem_locked_def wp_bnd [of "get_product_by_id product"]
proof (rule wp_mono [OF wp_get_product], intro conjI allI impI, simp add: idle,
    rule wp_bnd_view [of mall_books, OF keeps_books_service(2)], simp add: idle,
    rule wp_bnd_view [of mall_books, OF keeps_books_service(1)], simp add: idle, goal_cases)
  case (1 _ s1 p _ s2 r s3)
  then have s3: "mall_books s3 = mall_books s"
    and p: "first_row m_id (\<lambda>p. m_id p = product \<and> m_status p = mall_on_sale) (mall_products s) = Some p"
    by simp_all
  show ?case
    unfolding wp_bnd [of "attempt (redeem_in_tx u p r)"] wp_attempt
  proof (rule wp_redeem_in_tx, goal_cases)
    case (1 e t)
    then have "mall_books t = mall_books s" using s3 beside_mall_clock [of t s3] by simp
    moreover have "keeps (\<lambda>q. mall_books q = mall_books t)
        (bnd (gets mall_redis) (\<lambda>on. bnd (guarded on (ignore (incr_stock product))) (\<lambda>_. throw e :: ('r mall_st_scheme, mall_order) op)))"
      by (intro keeps_rules)
    ultimately show ?case by (auto intro!: idle wp_view [of mall_books])
  next
    case (2 x t)
    have "Q (Inr x) v" if "mall_books v = mall_books t" for v
      by (rule posted [OF 2(1) s3 p 2(2) that])
    then have "wp (bnd (after_redeem u product key x) (\<lambda>_. ret x)) Q t"
      unfolding wp_bnd by (intro wp_mono [OF after_redeem_ok]) (simp add: wp_ret)
    then show ?case by simp
  next
    case (3 x t)
    then have "mall_books t = mall_books s" using s3 beside_mall_clock [of t s3] by simp
    then have "wp (bnd (after_redeem u product key x) (\<lambda>_. ret x)) Q t"
      unfolding wp_bnd by (intro wp_mono [OF after_redeem_ok]) (simp add: wp_ret idle)
    then show ?case by simp
  qed
qed


text \<open>The outcomes of \<open>Redeem\<close>: no change to the books, or one transaction ran.\<close>

definition redeem_posted :: "u64 \<Rightarrow> u64 \<Rightarrow> 'r mall_st_scheme \<Rightarrow> mall_order \<Rightarrow> 'r mall_st_scheme \<Rightarrow> bool" where
  "redeem_posted u product s x t \<longleftrightarrow> (\<exists>p r (q :: 'r mall_st_scheme) v. mall_books q = mall_books s \<and>
     first_row m_id (\<lambda>p. m_id p = product \<and> m_status p = mall_on_sale) (mall_products s) = Some p \<and> redeemed u p r q x v \<and>
     mall_tables t = mall_tables v)"

lemma redeem_outcome:
  fixes s :: "'r mall_st_scheme"
  shows "wp (redeem u product key) (\<lambda>r t. mall_tables t = mall_tables s \<or> (\<exists>x. r = Inr x \<and> redeem_posted u product s x t)) s"
proof -
  let ?Q = "\<lambda>r (t :: 'r mall_st_scheme). mall_tables t = mall_tables s \<or> (\<exists>x. r = Inr x \<and> redeem_posted u product s x t)"
  have tables: "mall_books a = mall_books b \<Longrightarrow> mall_tables a = mall_tables b" for a b :: "'r mall_st_scheme"
    by (simp add: mall_books_def)
  have locked: "wp (redeem_locked u product key) ?Q t" if t: "mall_books t = mall_books s" for t
  proof (rule wp_redeem_locked)
    fix x r p and q v w :: "'r mall_st_scheme"
    assume "redeemed u p r q x v" "mall_books q = mall_books t" "mall_books w = mall_books v"
      "first_row m_id (\<lambda>p. m_id p = product \<and> m_status p = mall_on_sale) (mall_products t) = Some p"
    moreover from t have "mall_products t = mall_products s" by (simp add: mall_books_def mall_tables_def)
    ultimately show "?Q (Inr x) w" unfolding redeem_posted_def using tables t by metis
  qed (use t tables in metis)
  have keep: "?Q r t" if "mall_books t = mall_books s" for r t
    using tables [OF that] by simp
  have release: "wp (release_redeem_lock u) (\<lambda>_ v. ?Q r v) t" if "?Q r t" for r and t :: "'r mall_st_scheme"
  proof (rule wp_view [of mall_books, OF keeps_books_redis(6)])
    fix z :: "err + unit" and v :: "'r mall_st_scheme" assume "mall_books v = mall_books t"
    then have "mall_tables v = mall_tables t" by (rule tables)
    with that show "?Q r v" by (auto simp: redeem_posted_def)
  qed
  have guarded: "wp (deferred (redeem_locked u product key) (release_redeem_lock u)) ?Q t"
    if "mall_books t = mall_books s" for t
    unfolding wp_deferred by (rule wp_mono [OF locked [OF that] release])
  have once: "wp (redeem_once u product key) ?Q t" if "mall_books t = mall_books s" for t
    unfolding redeem_once_def
  proof (rule wp_bnd_view [of mall_books, OF keeps_gets])
    fix on and v :: "'r mall_st_scheme" assume v: "mall_books v = mall_books t"
    with that have "mall_books v = mall_books s" by simp
    then show "wp (if \<not> on then redeem_locked u product key
            else bnd (acquire_redeem_lock u) (\<lambda>ok. if \<not> ok then throw ErrMallRedeemBusy
                  else deferred (redeem_locked u product key) (release_redeem_lock u))) ?Q v"
      by (auto intro!: locked guarded wp_bnd_view [of mall_books, OF keeps_books_redis(5)]
          simp: wp_throw dest: tables)
  qed (use that in \<open>auto dest: tables\<close>)
  have repeat: "wp (get_order_for_user u r) ?Q t" if "mall_books t = mall_books s" for r t
    by (rule wp_view [of mall_books, OF keeps_books_service(4)]) (use that in \<open>auto dest: tables\<close>)
  show ?thesis
    unfolding redeem_def using once [OF refl]
    by (auto simp: wp_throw wp_gets wp_bnd [of "gets mall_redis"] split: option.split
        intro!: once wp_bnd_view [of mall_books, OF keeps_books_redis(7)] repeat dest: tables)
qed

end
