(* ===== verification/MallRedeem.thy ===== *)
theory MallRedeem
  imports MallProps
begin

text \<open>
  The mall as a state machine, and what one redemption does when it succeeds and when it fails: codes
  sold once, the price charged once, failures undone, requests with a key answered once. The examples
  at the end run the model on a small mall.
\<close>

lemma redeem_inv:
  fixes s :: "'r mall_st_scheme"
  assumes inv: "mall_inv s" and free: "grant_free u s" and run: "redeem u product key s = (r, t)"
  shows "mall_inv t"
proof -
  from wpD [OF redeem_outcome run] consider "mall_tables t = mall_tables s" | x where "redeem_posted u product s x t"
    by blast
  then show ?thesis
  proof cases
    case 1
    with inv show ?thesis using mall_inv_tables by blast
  next
    case 2
    then obtain p i and q v s1 s2 :: "'r mall_st_scheme" where "mall_books q = mall_books s" "mall_tables s1 = mall_tables q"
        and body: "redeem_body u p i s1 = (Inr x, s2)" and v: "mall_tables v = mall_tables s2" "mall_tables t = mall_tables v"
      unfolding redeem_posted_def redeemed_def by blast
    then have s1: "mall_tables s1 = mall_tables s" by (simp add: mall_books_def)
    with free have "grant_free u s1" by (simp add: grant_free_def mall_tables_def points_tables_def)
    moreover from s1 inv have "mall_inv s1" using mall_inv_tables by blast
    ultimately have "mall_inv s2" using body redeem_body_inv by blast
    with v show ?thesis using mall_inv_tables by metis
  qed
qed

text \<open>Two orders never carry the same code.\<close>

lemma mall_inv_codes:
  assumes "mall_inv s"
  shows "distinct (map o_code (mall_orders s))"
proof -
  have "r = r'" if "r \<in> set (mall_orders s)" "r' \<in> set (mall_orders s)" "o_code r = o_code r'" for r r'
  proof -
    from assms that(1,2) have "order_backed (mall_codes s) r" "order_backed (mall_codes s) r'"
      by (simp_all add: mall_inv_def)
    then obtain c c' where c: "c \<in> set (mall_codes s)" "c_code c = o_code r" "c_order c = o_id r"
        and c': "c' \<in> set (mall_codes s)" "c_code c' = o_code r'" "c_order c' = o_id r'"
      unfolding order_backed_def by blast
    from assms have "inj_on c_code (set (mall_codes s))" by (simp add: mall_inv_def distinct_map)
    with c c' that(3) have "c = c'" by (metis inj_onD)
    moreover from assms have "inj_on o_id (set (mall_orders s))" by (simp add: mall_inv_def distinct_map)
    ultimately show ?thesis using c c' that(1,2) by (metis inj_onD)
  qed
  moreover from assms have "distinct (mall_orders s)" by (simp add: mall_inv_def distinct_map)
  ultimately show ?thesis by (auto simp: distinct_map inj_on_def)
qed

section \<open>The mall as a state machine\<close>

text \<open>
  One step: a redemption or an award under any pattern of failing calls, the expiry of a Redis lock,
  of an idempotency key or of a cache entry, an operator's change of the catalogue, or time passing.
\<close>

inductive mall_step :: "mall_st \<Rightarrow> mall_st \<Rightarrow> bool" where
  redeem: "grant_free u s \<Longrightarrow> mall_step s (snd (redeem u product key (s\<lparr>faults := fs\<rparr>)))"
| award: "grant_free u s \<Longrightarrow> mall_step s (snd (earn_points u ref_type ref_id txn (s\<lparr>faults := fs\<rparr>)))"
| lock_expires: "mall_step s (s\<lparr>mall_locks := (mall_locks s)(u := False)\<rparr>)"
| key_expires: "mall_step s (s\<lparr>mall_idem := (mall_idem s)(k := None)\<rparr>)"
| cache_expires: "mall_step s (s\<lparr>mall_cache := (mall_cache s)(u := None)\<rparr>)"
| catalogue: "mall_step s (s\<lparr>mall_products := ps\<rparr>)"
| tick: "mall_step s (s\<lparr>clock_now := now, clock_day := day\<rparr>)"

inductive_cases mall_stepE: "mall_step s t"

text \<open>Awards do not touch the tables of the mall.\<close>

definition mall_part :: "'r mall_st_scheme \<Rightarrow> mall_product list \<times> mall_code list \<times> mall_order list" where
  "mall_part s = (mall_products s, mall_codes s, mall_orders s)"

lemma mall_part_upd [simp]:
  "mall_part (s\<lparr>daily := d\<rparr>) = mall_part s" "mall_part (s\<lparr>wallet_cache := wc\<rparr>) = mall_part s"
  "mall_part (s\<lparr>id_seq := n\<rparr>) = mall_part s" "mall_part (s\<lparr>faults := fs\<rparr>) = mall_part s"
  "mall_part (s\<lparr>wallets := w\<rparr>) = mall_part s" "mall_part (s\<lparr>ledger := l\<rparr>) = mall_part s"
  by (simp_all add: mall_part_def)

lemma quietly_mall_part: "quietly (\<lambda>s. mall_part s = c)"
  by (simp add: quietly_def)

lemma keeps_mall_part_call: "(\<And>s. mall_part (snd (f s)) = mall_part s) \<Longrightarrow> keeps (\<lambda>s. mall_part s = c) (io f)"
  by (rule keeps_call [OF quietly_mall_part]) simp

lemma keeps_mall_part_points:
  "keeps (\<lambda>s. mall_part s = c) (daily_script k l)" "keeps (\<lambda>s. mall_part s = c) (insert_wallet w)"
  "keeps (\<lambda>s. mall_part s = c) (insert_transaction t)" "keeps (\<lambda>s. mall_part s = c) (update_balance_stmt x y z)"
  "keeps (\<lambda>s. mall_part s = c) (get_wallet_by_user_id_tx x)"
  unfolding daily_script_def insert_wallet_def insert_transaction_def update_balance_stmt_def get_wallet_by_user_id_tx_def
  by (intro keeps_mall_part_call; simp add: Let_def split: option.split)+

lemma keeps_mall_part_generate_id: "keeps (\<lambda>s. mall_part s = c) generate_id"
  by (simp add: generate_id_def keeps_def)

lemma keeps_mall_part_earn: "keeps (\<lambda>s. mall_part s = c) (earn_points u ref_type ref_id txn)"
  unfolding earn_points_def txn_id_exists_def check_and_incr_daily_limit_def rollback_daily_limit_def earn_body_def
    invalidate_wallet_redis_def del_wallet_balance_def earn_read_def earn_post_def create_wallet_in_tx_def
    try_insert_transaction_def update_balance_def
  by (intro keeps_mall_part_points keeps_mall_part_generate_id keeps_mall_part_call keeps_tx quietly_mall_part keeps_if
      keeps_bnd keeps_ret keeps_throw keeps_gets keeps_attempt keeps_ignore keeps_case_option keeps_case_sum)
    (simp_all add: gets_run modify_run ret_run points_rollback_def)

lemma mall_step_inv:
  assumes "mall_step s t" and "mall_inv s"
  shows "mall_inv t"
  using assms(1)
proof (rule mall_stepE)
  fix u product key fs assume t: "t = snd (redeem u product key (s\<lparr>faults := fs\<rparr>))" and "grant_free u s"
  then have "grant_free u (s\<lparr>faults := fs\<rparr>)" by (simp add: grant_free_def)
  moreover have "mall_inv (s\<lparr>faults := fs\<rparr>)" using assms(2) mall_inv_tables by (metis mall_db.tables_faults)
  ultimately show ?thesis using redeem_inv t by (metis prod.collapse)
next
  fix u ref_type ref_id txn fs
  assume t: "t = snd (earn_points u ref_type ref_id txn (s\<lparr>faults := fs\<rparr>))" and free: "grant_free u s"
  let ?s = "s\<lparr>faults := fs\<rparr>"
  from free have "grant_free u ?s" by (simp add: grant_free_def)
  moreover have "ledger_inv ?s" using assms(2) by (simp add: mall_inv_def ledger_inv_def)
  ultimately have "ledger_inv t" using earn_points_inv t by (metis prod.collapse)
  moreover have "mall_part t = mall_part s"
    using keeps_mall_part_earn [of "mall_part s" u ref_type ref_id txn] unfolding keeps_def t
    by (metis mall_part_upd(4))
  ultimately show ?thesis using assms(2) by (simp add: mall_inv_def mall_part_def)
qed (use assms(2) in \<open>simp_all add: mall_inv_def ledger_inv_def\<close>)

text \<open>C6: no activation code is sold twice: in every state the mall can reach from a consistent one, by
  redemptions and awards under any failures and with locks and keys expiring at any time, the ledger
  balances and no two orders carry the same code.\<close>

theorem reachable_codes_sold_once:
  assumes "mall_step\<^sup>*\<^sup>* s t" and "mall_inv s"
  shows "mall_inv t \<and> distinct (map o_code (mall_orders t))"
proof -
  from assms have "mall_inv t"
    by (induction rule: rtranclp_induct) (auto intro: mall_step_inv)
  then show ?thesis by (simp add: mall_inv_codes)
qed

section \<open>Success and failure of a redemption\<close>

lemma keeps_calm_body: "keeps calm (redeem_body u p r)"
proof -
  note m = keeps_calm_call
  have "keeps calm (get_wallet_by_user_id_tx x)" for x
    unfolding get_wallet_by_user_id_tx_def by (rule m) (simp split: option.split)
  moreover have "keeps calm (insert_transaction x)" for x
    unfolding insert_transaction_def by (rule m) simp
  moreover have "keeps calm (insert_wallet x)" for x
    unfolding insert_wallet_def by (rule m) simp
  moreover have "keeps calm (update_balance_stmt x y z)" for x y z
    unfolding update_balance_stmt_def by (rule m) (simp add: Let_def)
  moreover have "keeps calm (insert_order x)" for x
    unfolding insert_order_def by (rule m) simp
  moreover have "keeps calm (mark_code_sold x y z n)" for x y z n
    unfolding mark_code_sold_def by (rule m) (simp add: modify_run)
  ultimately show ?thesis
    unfolding redeem_body_def redeem_wallet_def get_wallet_for_update_eq create_wallet_in_tx_def
      try_insert_transaction_def update_balance_def
    by (auto intro!: keeps_rules split: sum.splits option.splits)
qed

lemma mall_state_eq:
  assumes "mall_tables t = mall_tables s" and "beside_mall t = beside_mall s" and "calm t" and "calm s"
  shows "t = s"
  using assms unfolding mall_tables_def points_tables_def beside_mall_def calm_def
  by (cases s; cases t) simp

lemma mall_rollback_calm:
  assumes "calm s" and "calm t" and "beside_mall t = beside_mall s"
  shows "mall_rollback s t = s"
proof (rule mall_state_eq)
  show "mall_tables (mall_rollback s t) = mall_tables s" by (rule mall_db.tables_rollback)
  show "beside_mall (mall_rollback s t) = beside_mall s" using assms(3) mall_db.rest_rollback by (rule trans [rotated])
  show "calm (mall_rollback s t)" using assms(2) by (simp add: calm_def mall_rollback_def points_rollback_def)
qed (rule assms)

text \<open>Calm, \<open>RedeemInTx\<close> either runs its body, or leaves the state exactly as it was.\<close>

lemma redeem_in_tx_calm:
  fixes s :: "'r mall_st_scheme"
  assumes "calm s"
  shows "wp (redeem_in_tx u p r) (\<lambda>res t. case res of
       Inl e \<Rightarrow> t = s
     | Inr x \<Rightarrow> redeem_body u p r s = (Inr x, t) \<or> t = s \<and> row_of o_id r (mall_orders s) = Some x) s"
proof -
  obtain res t where body: "redeem_body u p r s = (res, t)" by (metis prod.collapse)
  have "calm t" using keepsD [OF keeps_calm_body body assms] .
  moreover have "beside_mall t = beside_mall s" using keepsD [OF beside_mall_body body] by simp
  ultimately have undo: "mall_rollback s t = s" using assms by (simp add: mall_rollback_calm)
  have get: "get_order_by_id r s = (case row_of o_id r (mall_orders s) of None \<Rightarrow> (Inl RecordNotFound, s) | Some x \<Rightarrow> (Inr x, s))"
    using assms by (simp add: get_order_by_id_def io_nil calm_def)
  show ?thesis
    using body undo get
    by (auto simp: redeem_in_tx_def wp_def bnd_def attempt_def tx_calm_result [OF assms keeps_calm_body]
        ret_def throw_def split: sum.splits option.splits err.splits)
qed

lemma calm_calls:
  assumes "calm s"
  shows "get_product_by_id i s = ((case first_row m_id (\<lambda>p. m_id p = i \<and> m_status p = mall_on_sale) (mall_products s) of
         None \<Rightarrow> Inl ErrMallProductNotFound | Some p \<Rightarrow> Inr p), s)"
    and "count_available_codes i s = (Inr (int (count_rows (code_free i) (mall_codes s))), s)"
    and "mall_redis s \<Longrightarrow> try_decr_stock i s = (let cur = (case mall_stock s i of None \<Rightarrow> 0 | Some n \<Rightarrow> n) in
        if cur \<le> 0 then (Inr False, s) else (Inr True, s\<lparr>mall_stock := (mall_stock s)(i := Some (cur - 1))\<rparr>))"
    and "mall_redis s \<Longrightarrow> incr_stock i s = (Inr (), s\<lparr>mall_stock := (mall_stock s)(i :=
        Some ((case mall_stock s i of None \<Rightarrow> 0 | Some n \<Rightarrow> n) + 1))\<rparr>)"
  using assms
  by (simp_all add: calm_def get_product_by_id_def count_available_codes_def try_decr_stock_def incr_stock_def io_nil
      gets_run modify_run bnd_def split: option.split)

lemma no_panic_mall [no_panic_rules]: "no_panic (insert_order x)" "no_panic (get_order_by_id r)" "no_panic (mark_code_sold a b c d)"
  unfolding insert_order_def get_order_by_id_def mark_code_sold_def
  by (intro no_panic_call; simp add: modify_run split: option.split)+

lemma redeem_in_tx_no_panic: "no_panic (redeem_in_tx u p r)"
  unfolding redeem_in_tx_def redeem_body_def redeem_wallet_def get_wallet_for_update_eq
  by ((intro no_panic_bnd_attempt no_panic_rules; simp?)+)

lemma redeem_locked_calm:
  fixes s :: "'r mall_st_scheme"
  assumes "calm s" and "redeem_locked u product key s = (Inl e, t)"
  shows "\<exists>n. t = s\<lparr>id_seq := n\<rparr>"
proof -
  have noop: "\<exists>n. s = s\<lparr>id_seq := n\<rparr>" by (rule exI [of _ "id_seq s"]) simp
  have ok: "\<exists>v. bnd (after_redeem u product key x) (\<lambda>_. ret x) q = (Inr x, v)" for x and q :: "'r mall_st_scheme"
  proof -
    obtain v where "after_redeem u product key x q = (Inr (), v)"
      using after_redeem_ok [of u product key x q] by (cases "after_redeem u product key x q") (simp add: wp_def)
    then show ?thesis by (simp add: bnd_def ret_def)
  qed
  show ?thesis
  proof (cases "first_row m_id (\<lambda>p. m_id p = product \<and> m_status p = mall_on_sale) (mall_products s)")
    case None
    with assms noop show ?thesis by (auto simp: redeem_locked_def bnd_def calm_calls)
  next
    case (Some p)
    let ?cur = "case mall_stock s product of None \<Rightarrow> 0 | Some n \<Rightarrow> n"
    define s1 where "s1 = (if mall_redis s then s\<lparr>mall_stock := (mall_stock s)(product := Some (?cur - 1))\<rparr> else s)"
    show ?thesis
    proof (cases "if mall_redis s then ?cur \<le> 0 else count_rows (code_free product) (mall_codes s) = 0")
      case True
      with Some assms noop show ?thesis
        by (auto simp: redeem_locked_def reserve_stock_def bnd_def gets_run ret_run throw_run calm_calls Let_def split: if_splits)
    next
      case False
      then have res: "reserve_stock product s = (Inr (), s1)"
        using assms(1) by (auto simp: reserve_stock_def bnd_def gets_run ret_run calm_calls Let_def s1_def)
      define s2 where "s2 = s1\<lparr>id_seq := Suc (id_seq s1)\<rparr>"
      let ?r = "snowflake s1 (id_seq s1)"
      have s2: "calm s2" "mall_redis s2 = mall_redis s" "mall_stock s2 = mall_stock s1"
        using assms(1) by (simp_all add: calm_def s1_def s2_def)
      obtain res q where tx: "redeem_in_tx u p ?r s2 = (res, q)" by (metis prod.collapse)
      have run: "redeem_locked u product key s =
          bnd (attempt (redeem_in_tx u p ?r)) (\<lambda>r. case r of
             Inl e \<Rightarrow> bnd (gets mall_redis) (\<lambda>on. bnd (guarded on (ignore (incr_stock product))) (\<lambda>_. throw e))
           | Inr x \<Rightarrow> bnd (after_redeem u product key x) (\<lambda>_. ret x)) s2"
        using Some assms(1) res by (simp add: redeem_locked_def bnd_def calm_calls generate_id_def s2_def)
      show ?thesis
      proof (cases res)
        case (Inl e')
        with tx wpD [OF redeem_in_tx_calm [OF s2(1), of u p ?r] tx] have "q = s2" by simp
        moreover from tx Inl have "e' \<noteq> GoPanic" using no_panicD [OF redeem_in_tx_no_panic] by blast
        ultimately have at: "attempt (redeem_in_tx u p ?r) s2 = (Inr (Inl e'), s2)" using tx Inl by (simp add: attempt_Inl_run)
        show ?thesis
        proof (cases "mall_redis s")
          case True
          with False obtain c where "mall_stock s product = Some c" by (cases "mall_stock s product") auto
          then have "(mall_stock s)(product := Some (c - 1 + 1)) = mall_stock s" by (simp add: fun_upd_idem)
          with True \<open>mall_stock s product = Some c\<close> have "t = s\<lparr>id_seq := Suc (id_seq s)\<rparr>"
            using run at assms(2) s2 calm_calls(4) [OF s2(1), of product]
            by (simp add: bnd_def gets_run guarded_run ignore_def throw_run ret_run attempt_def s2_def s1_def)
          then show ?thesis by blast
        next
          case off: False
          with run at assms(2) s2 have "t = s\<lparr>id_seq := Suc (id_seq s)\<rparr>"
            by (simp add: bnd_def gets_run guarded_run throw_run s2_def s1_def)
          then show ?thesis by blast
        qed
      next
        case (Inr x)
        with tx have "attempt (redeem_in_tx u p ?r) s2 = (Inr (Inr x), q)" by (simp add: attempt_Inr_run)
        with run ok [of x q] assms(2) show ?thesis by (auto simp: bnd_Inr_run)
      qed
    qed
  qed
qed


lemma redeem_calm_error:
  fixes s :: "'r mall_st_scheme"
  assumes "calm s" and run: "redeem u product key s = (Inl e, t)"
  shows "\<exists>n. t = s\<lparr>id_seq := n\<rparr>"
proof -
  have noop: "\<exists>n. s = s\<lparr>id_seq := n\<rparr>" by (rule exI [of _ "id_seq s"]) simp
  note calm = \<open>calm s\<close> [unfolded calm_def]
  have once: "\<exists>n. t = s\<lparr>id_seq := n\<rparr>" if "redeem_once u product key s = (Inl e, t)"
  proof (cases "mall_redis s")
    case False
    with that have "redeem_locked u product key s = (Inl e, t)" by (simp add: redeem_once_def bnd_def gets_run)
    then show ?thesis by (rule redeem_locked_calm [OF assms(1)])
  next
    case True
    let ?s = "s\<lparr>mall_locks := (mall_locks s)(u := True)\<rparr>"
    have acq: "acquire_redeem_lock u s = (Inr (\<not> mall_locks s u), ?s)"
      using True by (simp add: acquire_redeem_lock_def bnd_def gets_run io_nil calm)
    show ?thesis
    proof (cases "mall_locks s u")
      case busy: True
      then have "?s = s" by (simp add: fun_upd_idem)
      with busy True acq that noop show ?thesis by (simp add: redeem_once_def bnd_def gets_run throw_run)
    next
      case free: False
      then have restore: "(mall_locks s)(u := True, u := False) = mall_locks s" by (simp add: fun_upd_idem)
      from that True acq free have def: "deferred (redeem_locked u product key) (release_redeem_lock u) ?s = (Inl e, t)"
        by (simp add: redeem_once_def bnd_def gets_run)
      obtain r' v where rv: "redeem_locked u product key ?s = (r', v)" by (metis prod.collapse)
      with def have v: "redeem_locked u product key ?s = (Inl e, v)" "t = snd (release_redeem_lock u v)"
        by (simp_all add: deferred_def)
      from redeem_locked_calm [OF _ v(1)] calm obtain n where n: "v = ?s\<lparr>id_seq := n\<rparr>"
        by (auto simp: calm_def)
      with v(2) True calm restore have "t = s\<lparr>id_seq := n\<rparr>"
        by (simp add: release_redeem_lock_def bnd_def gets_run ignore_def attempt_def io_nil modify_run ret_run)
      then show ?thesis by blast
    qed
  qed
  have repeat: "\<exists>n. t = s\<lparr>id_seq := n\<rparr>" if "get_order_for_user u r s = (Inl e, t)" for r
    using that noop calm
    by (auto simp: get_order_for_user_def get_order_by_id_def bnd_def io_nil attempt_def throw_def ret_def
        split: option.splits if_splits)
  show ?thesis
    using run once repeat noop calm
    by (auto simp: redeem_def bnd_def gets_run throw_run get_idempotent_order_id_def io_nil split: if_splits option.splits)
qed

text \<open>C8: a failed redemption leaves nothing behind: when no call fails and \<open>Redeem\<close> returns an error
  (unknown product, sold out, busy, not enough points), the whole state is what it was, Redis stock
  and lock included, but for the snowflake ids drawn.\<close>

theorem failed_redeem_undone:
  assumes "faults s = []" and "redeem u product key s = (Inl e, t)"
  shows "\<exists>n. t = s\<lparr>id_seq := n\<rparr>"
  using redeem_calm_error [of s] assms by (simp add: calm_def)

text \<open>What a new order changed, in the state the caller sees.\<close>

lemma free_code_sold:
  assumes "distinct (map c_id cs)" and "first_row c_id (code_free p) cs = Some c"
  shows "count_rows (code_free p) (upd_rows (\<lambda>q. c_id q = c_id c \<and> c_status q = mall_code_available) (sell_code r u now) cs) + 1
    = count_rows (code_free p) cs"
proof -
  from assms(2) have c: "c \<in> set cs" "code_free p c" by (auto dest: first_row_Some)
  have "q = c" if "q \<in> set cs" "c_id q = c_id c" for q
    using that c(1) assms(1) by (simp add: distinct_map inj_on_def)
  with c(2) have "upd_rows (\<lambda>q. c_id q = c_id c \<and> c_status q = mall_code_available) (sell_code r u now) cs =
      upd_rows (\<lambda>q. c_id q = c_id c) (sell_code r u now) cs"
    by (auto simp: upd_rows_def code_free_def)
  with count_rows_upd_one [of c_id cs c "code_free p" "sell_code r u now" "\<lambda>q. c_id q = c_id c"] assms(1) c status_neq
  show ?thesis by (simp add: code_free_def)
qed

text \<open>C7: a redemption that creates an order charges the product's price, once: the order is the buyer's and for
  that product and records the price that the catalogue has for it, exactly one free code of the product is gone, and
  the wallet (created with its grant if need be) holds what it held less that price, never less than nothing.\<close>

theorem redeem_charges:
  fixes s :: "'r mall_st_scheme"
  assumes inv: "mall_inv s" and free: "grant_free u s" and run: "redeem u product key s = (Inr x, t)"
    and new: "mall_orders t \<noteq> mall_orders s"
    and price: "\<forall>p \<in> set (mall_products s). 0 \<le> m_price p \<and> m_price p < 2 ^ 63"
  shows "mall_orders t = mall_orders s @ [x] \<and> o_user x = u \<and> o_product x = product \<and>
    count_rows (code_free product) (mall_codes t) + 1 = count_rows (code_free product) (mall_codes s) \<and>
    (\<exists>p w. first_row m_id (\<lambda>p. m_id p = product \<and> m_status p = mall_on_sale) (mall_products s) = Some p \<and> o_spent x = m_price p \<and>
       row_of w_user u (wallets t) = Some w \<and> 0 \<le> w_balance w \<and>
       w_balance w = (case row_of w_user u (wallets s) of Some v \<Rightarrow> w_balance v | None \<Rightarrow> initial_wallet_balance) - m_price p)"
proof -
  from wpD [OF redeem_outcome run] new have "redeem_posted u product s x t"
    by (auto simp: mall_tables_def)
  then obtain p r and q v s1 s2 :: "'r mall_st_scheme" where
      p: "first_row m_id (\<lambda>p. m_id p = product \<and> m_status p = mall_on_sale) (mall_products s) = Some p"
      and q: "mall_books q = mall_books s" "mall_tables s1 = mall_tables q"
      and body: "redeem_body u p r s1 = (Inr x, s2)" and v: "mall_tables v = mall_tables s2" "mall_tables t = mall_tables v"
    unfolding redeem_posted_def redeemed_def by blast
  from p have pid: "m_id p = product" "p \<in> set (mall_products s)" by (auto dest: first_row_Some)
  with price have cost: "0 \<le> m_price p" "i64 (- m_price p) = - m_price p" by (auto simp: i64_ok_def)
  from q have s1: "wallets s1 = wallets s" "ledger s1 = ledger s" "mall_codes s1 = mall_codes s" "mall_orders s1 = mall_orders s"
    by (simp_all add: mall_books_def mall_tables_def points_tables_def)
  from v have t: "wallets t = wallets s2" "mall_codes t = mall_codes s2" "mall_orders t = mall_orders s2"
    by (simp_all add: mall_tables_def points_tables_def)
  have "ledger_inv s1" "grant_free u s1" using inv free s1 by (simp_all add: mall_inv_def ledger_inv_def grant_free_def)
  with body show ?thesis
  proof (rule redeem_bodyE)
    fix c w q'
    assume c: "first_row c_id (code_free (m_id p)) (mall_codes s1) = Some c"
      "mall_codes s2 = upd_rows (\<lambda>q. c_id q = c_id c \<and> c_status q = mall_code_available) (sell_code r u (clock_now s1)) (mall_codes s1)"
      and o: "mall_orders s2 = mall_orders s1 @ [x]" "x = redeem_order u p r c (clock_now s1)"
      and w: "wallet_ready u s1 w q'" "m_price p \<le> w_balance w"
        "row_of w_user u (wallets s2) = Some (bump_wallet (i64 (- m_price p)) (w_version w) (clock_now s1) w)"
    have "w_balance w = (case row_of w_user u (wallets s) of Some v \<Rightarrow> w_balance v | None \<Rightarrow> initial_wallet_balance)"
      using w(1) by (auto simp: wallet_ready_def s1 new_wallet_def row_of_None [symmetric])
    moreover have "count_rows (code_free product) (mall_codes t) + 1 = count_rows (code_free product) (mall_codes s)"
      using free_code_sold [of "mall_codes s" product c] c inv by (simp add: t s1 pid mall_inv_def)
    ultimately show ?thesis
      using p w(2,3) o cost by (simp add: t s1 pid redeem_order_def bump_wallet_def)
  qed
qed

lemma after_redeem_calm:
  assumes "calm s" and "mall_redis s" and "key \<noteq> []" and "o_id x \<noteq> 0" and "after_redeem u p key x s = (r, t)"
  shows "mall_redis t \<and> mall_idem t = (mall_idem s)((u, key) := Some (o_id x)) \<and> mall_orders t = mall_orders s \<and> calm t"
  using assms
  by (auto simp: after_redeem_def save_idempotent_order_id_def count_available_codes_def set_stock_def del_wallet_balance_def
      del_user_orders_def bnd_def gets_def ret_def guarded_def ignore_def attempt_def io_nil calm_def modify_def split: if_splits)

lemma redeem_locked_remembers:
  fixes s :: "'r mall_st_scheme"
  assumes calm: "calm s" and on: "mall_redis s" and key: "key \<noteq> []" and led: "ledger_inv s" and free: "grant_free u s"
    and fresh: "snowflake s (id_seq s) \<noteq> 0" "\<not> has_row o_id (snowflake s (id_seq s)) (mall_orders s)"
    and run: "redeem_locked u product key s = (Inr x, t)"
  shows "mall_redis t \<and> mall_idem t (u, key) = Some (o_id x) \<and> o_id x \<noteq> 0 \<and>
    row_of o_id (o_id x) (mall_orders t) = Some x \<and> o_user x = u \<and> calm t"
proof -
  from run obtain p s1 s2 q where "get_product_by_id product s = (Inr p, s1)" and res: "reserve_stock product s1 = (Inr (), s2)"
      and tx: "redeem_in_tx u p (snowflake s2 (id_seq s2)) (s2\<lparr>id_seq := Suc (id_seq s2)\<rparr>) = (Inr x, q)"
      and aft: "after_redeem u product key x q = (Inr (), t)"
    unfolding redeem_locked_def
    by (auto simp: generate_id_def op_eqs split: sum.splits elim!: op_elims)
  then have "s1 = s" using calm by (simp add: calm_calls)
  with res on calm obtain st where s2: "s2 = s\<lparr>mall_stock := st\<rparr>"
    by (auto simp: reserve_stock_def bnd_def gets_run calm_calls Let_def throw_run ret_run split: if_splits)
  let ?s = "s2\<lparr>id_seq := Suc (id_seq s2)\<rparr>" and ?r = "snowflake s2 (id_seq s2)"
  have r: "?r \<noteq> 0" "row_of o_id ?r (mall_orders ?s) = None" using fresh by (simp_all add: s2 row_of_None)
  have calm': "calm ?s" using calm by (simp add: s2 calm_def)
  from wpD [OF redeem_in_tx_calm [OF calm'] tx] r(2) have body: "redeem_body u p ?r ?s = (Inr x, q)" by simp
  have same: "calm q" "mall_redis q"
    using keepsD [OF keeps_calm_body body calm'] keepsD [OF beside_mall_body body refl] on beside_mallD(1) [of q ?s]
    by (simp_all add: s2)
  have "ledger_inv ?s" "grant_free u ?s" using led free by (simp_all add: s2 ledger_inv_def grant_free_def)
  with body have x: "mall_orders q = mall_orders ?s @ [x]" "o_id x = ?r" "o_user x = u"
    by (rule redeem_bodyE; simp add: redeem_order_def)+
  with r have "row_of o_id (o_id x) (mall_orders q) = Some x" and "o_id x \<noteq> 0" by simp_all
  with after_redeem_calm [OF same key _ aft] x show ?thesis by simp
qed

lemma redeem_remembers:
  fixes s :: "'r mall_st_scheme"
  assumes calm: "calm s" and on: "mall_redis s" and key: "key \<noteq> []" and led: "ledger_inv s" and free: "grant_free u s"
    and fresh: "snowflake s (id_seq s) \<noteq> 0" "\<not> has_row o_id (snowflake s (id_seq s)) (mall_orders s)"
    and run: "redeem u product key s = (Inr x, t)"
  shows "mall_redis t \<and> mall_idem t (u, key) = Some (o_id x) \<and> o_id x \<noteq> 0 \<and>
    row_of o_id (o_id x) (mall_orders t) = Some x \<and> o_user x = u"
proof -
  have idem: "get_idempotent_order_id u key s = (Inr (mall_idem s (u, key)), s)"
    using calm on key by (simp add: get_idempotent_order_id_def bnd_def gets_run io_nil calm_def)
  show ?thesis
  proof (cases "\<exists>r. mall_idem s (u, key) = Some r \<and> r \<noteq> 0")
    case True
    with run on key idem obtain r where r: "mall_idem s (u, key) = Some r" "r \<noteq> 0" "get_order_for_user u r s = (Inr x, t)"
      by (auto simp: redeem_def bnd_def gets_run throw_run split: if_splits)
    from r(3) calm have "t = s" "row_of o_id r (mall_orders s) = Some x" "o_user x = u"
      by (auto simp: get_order_for_user_def get_order_by_id_def bnd_def io_nil calm_def attempt_def throw_def ret_def
          split: option.splits if_splits)
    with r on show ?thesis by (auto dest: row_of_Some_in)
  next
    case False
    with run on key idem have "redeem_once u product key s = (Inr x, t)"
      by (auto simp: redeem_def bnd_def gets_run throw_run split: if_splits option.splits)
    moreover let ?s = "s\<lparr>mall_locks := (mall_locks s)(u := True)\<rparr>"
    have "acquire_redeem_lock u s = (Inr (\<not> mall_locks s u), ?s)"
      using on calm by (simp add: acquire_redeem_lock_def bnd_def gets_run io_nil calm_def)
    ultimately have "deferred (redeem_locked u product key) (release_redeem_lock u) ?s = (Inr x, t)"
      using on by (simp add: redeem_once_def bnd_def gets_run throw_run split: if_splits)
    then obtain v where v: "redeem_locked u product key ?s = (Inr x, v)" "t = snd (release_redeem_lock u v)"
      by (cases "redeem_locked u product key ?s") (auto simp: deferred_def)
    have s': "calm ?s" "mall_redis ?s" "ledger_inv ?s" "grant_free u ?s" "snowflake ?s (id_seq ?s) \<noteq> 0"
        "\<not> has_row o_id (snowflake ?s (id_seq ?s)) (mall_orders ?s)"
      using calm on led free fresh by (simp_all add: calm_def ledger_inv_def grant_free_def)
    note kept = redeem_locked_remembers [OF s'(1,2) key s'(3-6) v(1)]
    then have "t = v\<lparr>mall_locks := (mall_locks v)(u := False)\<rparr>"
      using v(2) by (auto simp: release_redeem_lock_def bnd_def gets_run ignore_def attempt_def io_nil calm_def modify_run ret_run)
    with kept show ?thesis by simp
  qed
qed

text \<open>C9: redeeming is idempotent: once a redemption with an idempotency key has succeeded with no
  failing call, the same request (even for another product) changes no table, whichever calls fail then. It is
  answered with the same order, unless one of its two calls (reading the remembered id, reading the order) fails,
  and then with the I/O error.\<close>

theorem redeem_idempotent:
  assumes "faults s = []" and "mall_redis s" and "key \<noteq> []" and "mall_inv s" and "grant_free u s"
    and "snowflake s (id_seq s) \<noteq> 0" and "\<not> has_row o_id (snowflake s (id_seq s)) (mall_orders s)"
    and "redeem u product key s = (Inr x, t)" and "product' \<noteq> 0"
  shows "fst (redeem u product' key (t\<lparr>faults := fs\<rparr>)) = (if True \<in> set (take 2 fs) then Inl IOError else Inr x) \<and>
    mall_tables (snd (redeem u product' key (t\<lparr>faults := fs\<rparr>))) = mall_tables t"
proof -
  have "u \<noteq> 0" using assms(8) by (auto simp: redeem_def throw_run)
  from assms have "mall_redis t \<and> mall_idem t (u, key) = Some (o_id x) \<and> o_id x \<noteq> 0 \<and>
      row_of o_id (o_id x) (mall_orders t) = Some x \<and> o_user x = u"
    by (intro redeem_remembers) (simp_all add: calm_def mall_inv_def)
  then have run: "redeem u product' key (t\<lparr>faults := gs\<rparr>) = bnd (io (gets (\<lambda>s. mall_idem s (u, key))))
      (\<lambda>hit. case hit of Some r \<Rightarrow> if r \<noteq> 0 then get_order_for_user u r else redeem_once u product' key | None \<Rightarrow> redeem_once u product' key)
      (t\<lparr>faults := gs\<rparr>)"
    and remembered: "mall_idem t (u, key) = Some (o_id x)" "o_id x \<noteq> 0" "row_of o_id (o_id x) (mall_orders t) = Some x" "o_user x = u" for gs
    using assms(3,9) \<open>u \<noteq> 0\<close> by (simp_all add: redeem_def get_idempotent_order_id_def bnd_def gets_run cong: option.case_cong)
  have "fst (redeem u product' key (t\<lparr>faults := fs\<rparr>)) = (if True \<in> set (take 2 fs) then Inl IOError else Inr x) \<and>
      (\<exists>gs. snd (redeem u product' key (t\<lparr>faults := fs\<rparr>)) = t\<lparr>faults := gs\<rparr>)"
    unfolding run by (cases fs rule: remdups_adj.cases)
      (auto simp: bnd_def io_def gets_def remembered get_order_for_user_def get_order_by_id_def attempt_def throw_def ret_def)
  then show ?thesis using mall_db.tables_faults by metis
qed

section \<open>Activation codes\<close>

lemma hex_digit_inj: "a < 16 \<Longrightarrow> b < 16 \<Longrightarrow> hex_digit a = hex_digit b \<longleftrightarrow> a = b"
  by (auto simp: hex_digit_def char_of_eq_iff take_bit_eq_mod split: if_splits)

lemma div_mod_inj: "n div 16 = m div 16 \<Longrightarrow> n mod 16 = m mod 16 \<Longrightarrow> n = (m :: nat)"
  by (metis div_mult_mod_eq)

lemma hex4_inj:
  assumes "n < 65536" and "m < 65536" and "hex4 n = hex4 m"
  shows "n = m"
proof -
  from assms(3) have "n div 4096 mod 16 = m div 4096 mod 16" "n div 256 mod 16 = m div 256 mod 16"
      "n div 16 mod 16 = m div 16 mod 16" "n mod 16 = m mod 16"
    by (simp_all add: hex4_def hex_digit_inj)
  moreover have "n div 4096 < 16" "m div 4096 < 16" using assms by auto
  ultimately have "n div 256 div 16 = m div 256 div 16" by (simp add: div_mult2_eq [symmetric])
  then have "n div 256 = m div 256" using \<open>n div 256 mod 16 = m div 256 mod 16\<close> by (rule div_mod_inj)
  then have "n div 16 div 16 = m div 16 div 16" by (simp add: div_mult2_eq [symmetric])
  then have "n div 16 = m div 16" using \<open>n div 16 mod 16 = m div 16 mod 16\<close> by (rule div_mod_inj)
  then show ?thesis using \<open>n mod 16 = m mod 16\<close> by (rule div_mod_inj)
qed

lemma length_hex4 [simp]: "length (hex4 n) = 4"
  by (simp add: hex4_def)

lemma times_7919_inj:
  assumes "a < 65536" and "b < 65536" and "a * 7919 mod 65536 = b * 7919 mod (65536 :: nat)"
  shows "a = b"
proof -
  have inverse: "421789697 * x mod 65536 = x mod 65536" for x :: nat
  proof -
    have "421789697 * x = x + 65536 * (x * 6436)" by simp
    then show ?thesis by (simp only: mod_mult_self2)
  qed
  have "(a * 7919 mod 65536) * 53263 mod 65536 = (b * 7919 mod 65536) * 53263 mod 65536"
    using assms(3) by simp
  then have "a * 7919 * 53263 mod 65536 = b * 7919 * 53263 mod 65536"
    by (simp only: mod_mult_left_eq)
  then have "421789697 * a mod 65536 = 421789697 * b mod 65536" by simp
  then have "a mod 65536 = b mod 65536" by (simp only: inverse)
  then show ?thesis using assms(1,2) by simp
qed

text \<open>the demo activation codes of a product are pairwise distinct, for the first 65536 serial
  numbers (the middle blocks wrap around, the first one does not repeat).\<close>

theorem format_demo_code_inj:
  assumes "a < 65536" and "b < 65536" and "format_demo_code pre a = format_demo_code pre b"
  shows "a = b"
proof -
  from assms(3) have "hex4 (a * 7919 mod 65536) = hex4 (b * 7919 mod 65536)"
    by (simp add: format_demo_code_def append_eq_append_conv)
  then have "a * 7919 mod 65536 = b * 7919 mod 65536" by (rule hex4_inj [rotated 2]) simp_all
  with assms(1,2) show ?thesis by (rule times_7919_inj)
qed


lemma format_demo_code_inj_witness: "format_demo_code ''KCD'' 1 = ''KCD-1EEF-0515-1051'' \<and> (4 :: nat) = 4"
proof
  show "format_demo_code ''KCD'' 1 = ''KCD-1EEF-0515-1051''"
    by (simp add: format_demo_code_def hex4_def hex_digit_def char_of_def bit_iff_odd)
  show "(4 :: nat) = 4" by (rule format_demo_code_inj [of 4 4 "''KCD''"]) simp_all
qed

section \<open>Examples\<close>

text \<open>A mall to run examples in: one user with 100 points, one product with two codes.\<close>

definition mall_demo :: mall_st where
  "mall_demo = \<lparr>faults = [],
     wallets = [\<lparr>w_user = 7, w_balance = 100, w_frozen = 0, w_version = 0, w_updated = 0, w_created = 0\<rparr>],
     ledger = [\<lparr>t_id = 5, t_user = 7, t_amount = 100, t_type = ''income'', t_ref_type = ''gift'', t_ref_id = 0,
        t_balance_after = 100, t_desc = [], t_created = 0\<rparr>],
     clock_now = 0, clock_day = (2025, 3, 1), snowflake = (\<lambda>n. of_nat (Suc n)), id_seq = 0, points_redis = True,
     daily = (\<lambda>_. None), checkins = (\<lambda>_ _. False), wallet_cache = (\<lambda>_. None), earn_kafka = False, earn_topic = [],
     mall_products = [\<lparr>m_id = 1, m_name = ''G'', m_subtitle = [], m_description = [], m_price = 30, m_cover = [],
        m_sort = 1, m_status = mall_on_sale, m_created = 0, m_updated = 0\<rparr>],
     mall_codes = [\<lparr>c_id = 1, c_product = 1, c_code = ''A'', c_status = mall_code_available, c_order = 0, c_buyer = 0,
          c_sold = None, c_created = 0\<rparr>,
        \<lparr>c_id = 2, c_product = 1, c_code = ''B'', c_status = mall_code_available, c_order = 0, c_buyer = 0,
          c_sold = None, c_created = 0\<rparr>],
     mall_orders = [], mall_redis = True, mall_stock = (\<lambda>_. None)(1 := Some 2), mall_locks = (\<lambda>_. False),
     mall_idem = (\<lambda>_. None), mall_cache = (\<lambda>_. None)\<rparr>"

lemma mall_demo_ok: "mall_inv mall_demo" "grant_free 7 mall_demo"
  by (simp_all add: mall_inv_def ledger_inv_def mall_demo_def running_def user_total_def sum_rows_def grant_free_def
      mall_code_available_def mall_code_sold_def has_row_def)

lemmas mall_run = redeem_def redeem_once_def redeem_locked_def get_idempotent_order_id_def acquire_redeem_lock_def
  release_redeem_lock_def deferred_def get_product_by_id_def first_row_def reserve_stock_def try_decr_stock_def
  redeem_in_tx_def redeem_body_def redeem_wallet_def get_wallet_for_update_def mark_code_sold_def sell_code_def
  code_free_def redeem_txn_def redeem_order_def insert_order_def after_redeem_def save_idempotent_order_id_def
  count_available_codes_def set_stock_def del_user_orders_def guarded_def generate_id_def incr_stock_def mall_rollback_def
  mall_on_sale_def mall_code_available_def mall_code_sold_def mall_demo_def

lemma mall_demo_txn: "points_stable_txn_id 7 ''mall_redeem'' 1 1 \<noteq> 5"
  by code_simp

lemma mall_demo_redeems:
  "\<exists>x t. redeem 7 1 ''k'' mall_demo = (Inr x, t) \<and> map o_spent (mall_orders t) = [30]"
  using mall_demo_txn by (simp add: mall_run points_run)

lemma reachable_codes_sold_once_witness:
  "\<exists>t :: mall_st. map o_spent (mall_orders t) = [30] \<and> mall_inv t \<and> distinct (map o_code (mall_orders t))"
proof -
  obtain x t where run: "redeem 7 1 ''k'' mall_demo = (Inr x, t)" and o: "map o_spent (mall_orders t) = [30]"
    using mall_demo_redeems by (elim exE conjE)
  have "mall_demo\<lparr>faults := []\<rparr> = mall_demo" by (simp add: mall_demo_def)
  then have "mall_step mall_demo t"
    using mall_step.redeem [OF mall_demo_ok(2), of 1 "''k''" "[]"] run by simp
  then have "mall_step\<^sup>*\<^sup>* mall_demo t" by simp
  from reachable_codes_sold_once [OF this mall_demo_ok(1)] o show ?thesis by (intro exI [of _ t]) simp
qed

lemma failed_redeem_undone_witness:
  "let s = mall_demo\<lparr>wallets := map (w_balance_update (\<lambda>_. 29)) (wallets mall_demo)\<rparr>
   in fst (redeem 7 1 ''k'' s) = Inl ErrInsufficientBalance \<and> (\<exists>n. snd (redeem 7 1 ''k'' s) = s\<lparr>id_seq := n\<rparr>)"
proof -
  let ?s = "mall_demo\<lparr>wallets := map (w_balance_update (\<lambda>_. 29)) (wallets mall_demo)\<rparr>"
  have err: "fst (redeem 7 1 ''k'' ?s) = Inl ErrInsufficientBalance"
    by (simp add: mall_run points_run)
  then have "redeem 7 1 ''k'' ?s = (Inl ErrInsufficientBalance, snd (redeem 7 1 ''k'' ?s))"
    by (metis prod.collapse)
  from failed_redeem_undone [OF _ this] err show ?thesis by (simp add: Let_def mall_demo_def)
qed

lemma redeem_charges_witness:
  "\<exists>w. row_of w_user 7 (wallets (snd (redeem 7 1 ''k'' mall_demo))) = Some w \<and> w_balance w = 70"
proof -
  obtain x t where run: "redeem 7 1 ''k'' mall_demo = (Inr x, t)" and o: "map o_spent (mall_orders t) = [30]"
    using mall_demo_redeems by (elim exE conjE)
  have "mall_orders mall_demo = []" by (simp add: mall_demo_def)
  with o have new: "mall_orders t \<noteq> mall_orders mall_demo" by auto
  have price: "\<forall>p \<in> set (mall_products mall_demo). 0 \<le> m_price p \<and> m_price p < 2 ^ 63" by (simp add: mall_demo_def)
  from redeem_charges [OF mall_demo_ok run new price] o run show ?thesis by (auto simp: mall_demo_def)
qed

lemma redeem_idempotent_witness:
  "\<exists>x t. redeem 7 1 ''k'' mall_demo = (Inr x, t) \<and>
     fst (redeem 7 1 ''k'' (t\<lparr>faults := [False, False, True]\<rparr>)) = Inr x \<and>
     mall_tables (snd (redeem 7 1 ''k'' (t\<lparr>faults := [False, False, True]\<rparr>))) = mall_tables t"
proof -
  obtain x t where run: "redeem 7 1 ''k'' mall_demo = (Inr x, t)"
    using mall_demo_redeems by (elim exE conjE)
  have "faults mall_demo = []" "mall_redis mall_demo" "snowflake mall_demo (id_seq mall_demo) \<noteq> 0"
    "\<not> has_row o_id (snowflake mall_demo (id_seq mall_demo)) (mall_orders mall_demo)"
    by (simp_all add: mall_demo_def)
  from redeem_idempotent [OF this(1,2) _ mall_demo_ok this(3,4) run, of 1 "[False, False, True]"] run show ?thesis by simp
qed

end
