(* ===== verification/GoJson.thy ===== *)
theory GoJson
  imports GoStrings
begin

text \<open>
  What the code uses of \<open>encoding/json\<close>: the encoding of strings and of lists of strings
  (\<open>json.Marshal\<close> with its HTML escaping).
\<close>

definition hex_lower :: "nat \<Rightarrow> nat" where
  "hex_lower d = (if d < 10 then 48 + d else 87 + d)"

definition json_byte :: "nat \<Rightarrow> nat list" where
  "json_byte b =
    (if b = 34 \<or> b = 92 then [92, b]
     else if b = 8 then [92, 98] else if b = 12 then [92, 102] else if b = 10 then [92, 110]
     else if b = 13 then [92, 114] else if b = 9 then [92, 116]
     else if b < 32 \<or> b = 60 \<or> b = 62 \<or> b = 38 then [92, 117, 48, 48, hex_lower (b div 16), hex_lower (b mod 16)]
     else [b])"

text \<open>A rune by its bytes: a byte that is no encoding becomes U+FFFD.\<close>

definition json_rune :: "nat list \<Rightarrow> nat list" where
  "json_rune r = (case r of
       [b] \<Rightarrow> if b < 128 then json_byte b else [92, 117, 102, 102, 102, 100]
     | _ \<Rightarrow> if r = [226, 128, 168] then [92, 117, 50, 48, 50, 56]
         else if r = [226, 128, 169] then [92, 117, 50, 48, 50, 57] else r)"

definition json_string :: "string \<Rightarrow> string" where
  "json_string s = [CHR 34] @ utf8 (concat (map (\<lambda>r. json_rune (map of_char r)) (runes s))) @ [CHR 34]"

fun join_with :: "string \<Rightarrow> string list \<Rightarrow> string" where
  "join_with sep [] = []"
| "join_with sep [x] = x"
| "join_with sep (x # y # ys) = x @ sep @ join_with sep (y # ys)"

definition json_strings :: "string list \<Rightarrow> string" where
  "json_strings xs = ''['' @ join_with '','' (map json_string xs) @ '']''"

end
