(* ===== verification/Redis.thy ===== *)
theory Redis
  imports GoPrelude "HOL-Library.AList"
begin

text \<open>
  Redis as the repositories use it for caching: string keys with a JSON value (GET, SET, DEL), the
  SCAN/DEL loop of \<open>deleteKeysByPattern\<close> (src/database/cache_util.go), and the read-through that every
  service method writes out: look in the cache, else load from MySQL and fill the cache.

  A family of keys with one format is a finite map from what the format prints to the decoded value, an
  association list in some field of the state; \<open>upd\<close> is that field's update. Encoding to JSON and back
  is the identity on the values that are cached. A nil repository or client is \<open>on s = False\<close>. Entries
  do not expire by themselves: the expiry of an entry is a step of the environment.
\<close>

section \<open>The commands\<close>

text \<open>GET: a missing key is a miss, not an error.\<close>

definition cache_get ::
  "('r io_st_scheme \<Rightarrow> bool) \<Rightarrow> ('r io_st_scheme \<Rightarrow> ('k \<times> 'v) list) \<Rightarrow> 'k \<Rightarrow> ('r io_st_scheme, 'v option) op" where
  "cache_get on store k = bnd (gets on) (\<lambda>b. if \<not> b then ret None else io (gets (\<lambda>s. map_of (store s) k)))"

definition cache_put ::
  "('r io_st_scheme \<Rightarrow> bool) \<Rightarrow> ((('k \<times> 'v) list \<Rightarrow> ('k \<times> 'v) list) \<Rightarrow> 'r io_st_scheme \<Rightarrow> 'r io_st_scheme) \<Rightarrow>
   'k \<Rightarrow> 'v \<Rightarrow> ('r io_st_scheme, unit) op" where
  "cache_put on upd k v = bnd (gets on) (\<lambda>b. if \<not> b then ret () else io (modify (upd (AList.update k v))))"

definition cache_del ::
  "('r io_st_scheme \<Rightarrow> bool) \<Rightarrow> ((('k \<times> 'v) list \<Rightarrow> ('k \<times> 'v) list) \<Rightarrow> 'r io_st_scheme \<Rightarrow> 'r io_st_scheme) \<Rightarrow>
   'k \<Rightarrow> ('r io_st_scheme, unit) op" where
  "cache_del on upd k = bnd (gets on) (\<lambda>b. if \<not> b then ret () else io (modify (upd (AList.delete k))))"

text \<open>
  \<open>deleteKeysByPattern\<close>: each SCAN call walks over the next keys of the database (\<open>split n\<close> more than
  one in the \<open>n\<close>-th call: COUNT is only a hint) and returns those that match; they are deleted with one DEL,
  if any; the loop ends when the cursor is back at 0. An error ends the loop half-way.
\<close>

definition drop_keys :: "'k list \<Rightarrow> ('k \<times> 'v) list \<Rightarrow> ('k \<times> 'v) list" where
  "drop_keys ks l = filter (\<lambda>p. fst p \<notin> set ks) l"

function scan_del ::
  "(nat \<Rightarrow> nat) \<Rightarrow> ((('k \<times> 'v) list \<Rightarrow> ('k \<times> 'v) list) \<Rightarrow> 'r io_st_scheme \<Rightarrow> 'r io_st_scheme) \<Rightarrow>
   ('k \<Rightarrow> bool) \<Rightarrow> nat \<Rightarrow> 'k list \<Rightarrow> ('r io_st_scheme, unit) op" where
  "scan_del split upd P n ks =
     bnd (io (ret ())) (\<lambda>_.
     bnd (if filter P (take (Suc (split n)) ks) = [] then ret ()
          else io (modify (upd (drop_keys (filter P (take (Suc (split n)) ks)))))) (\<lambda>_.
     if drop (Suc (split n)) ks = [] then ret () else scan_del split upd P (Suc n) (drop (Suc (split n)) ks)))"
  by auto
termination
  by (relation "measure (\<lambda>(_, _, _, _, ks). length ks)") auto

declare scan_del.simps [simp del]

definition delete_keys_by_pattern ::
  "('r io_st_scheme \<Rightarrow> bool) \<Rightarrow> (nat \<Rightarrow> nat) \<Rightarrow> ('r io_st_scheme \<Rightarrow> ('k \<times> 'v) list) \<Rightarrow>
   ((('k \<times> 'v) list \<Rightarrow> ('k \<times> 'v) list) \<Rightarrow> 'r io_st_scheme \<Rightarrow> 'r io_st_scheme) \<Rightarrow>
   ('k \<Rightarrow> bool) \<Rightarrow> ('r io_st_scheme, unit) op" where
  "delete_keys_by_pattern on split store upd P =
     bnd (gets on) (\<lambda>b. if \<not> b then ret () else
     bnd (gets store) (\<lambda>l. scan_del split upd P 0 (map fst l)))"

text \<open>The read-through: an error of the cache is a miss, an error of the database is returned.\<close>

definition read_through ::
  "('s, 'v option) op \<Rightarrow> ('s, 'v) op \<Rightarrow> ('v \<Rightarrow> ('s, unit) op) \<Rightarrow> ('s, 'v) op" where
  "read_through get load put = bnd (attempt get) (\<lambda>c. case c of
       Inr (Some v) \<Rightarrow> ret v
     | _ \<Rightarrow> bnd load (\<lambda>v. bnd (ignore (put v)) (\<lambda>_. ret v)))"

section \<open>The interface of a key family\<close>

text \<open>
  What a family of keys promises to its clients: the field can be read back, and the switch and the script
  of faults lie beside it.
\<close>

locale key_family =
  fixes on :: "'r io_st_scheme \<Rightarrow> bool"
    and store :: "'r io_st_scheme \<Rightarrow> ('k \<times> 'v) list"
    and upd :: "(('k \<times> 'v) list \<Rightarrow> ('k \<times> 'v) list) \<Rightarrow> 'r io_st_scheme \<Rightarrow> 'r io_st_scheme"
  assumes store_upd: "store (upd f s) = f (store s)"
    and upd_upd: "upd f (upd g s) = upd (\<lambda>l. f (g l)) s"
    and upd_id: "upd (\<lambda>l. l) s = s"
    and upd_cong: "f (store s) = g (store s) \<Longrightarrow> upd f s = upd g s"
    and upd_faults: "faults (upd f s) = faults s"
    and store_faults: "store (s\<lparr>faults := fs\<rparr>) = store s"
    and on_upd: "on (upd f s) = on s"
    and on_faults: "on (s\<lparr>faults := fs\<rparr>) = on s"
begin

abbreviation "get \<equiv> cache_get on store"
abbreviation "put \<equiv> cache_put on upd"
abbreviation "del \<equiv> cache_del on upd"

lemma calm_upd: "calm (upd f s) = calm s"
  by (simp add: calm_def upd_faults)

lemma get_calm: "calm s \<Longrightarrow> get k s = (Inr (if on s then map_of (store s) k else None), s)"
  by (simp add: cache_get_def calm_def go_exec)

lemma put_calm: "calm s \<Longrightarrow> put k v s = (Inr (), if on s then upd (AList.update k v) s else s)"
  by (simp add: cache_put_def calm_def go_exec)

lemma del_calm: "calm s \<Longrightarrow> del k s = (Inr (), if on s then upd (AList.delete k) s else s)"
  by (simp add: cache_del_def calm_def go_exec)

text \<open>A read after a write returns what was written, other keys keep their value.\<close>

lemma get_put:
  assumes "calm s" and "on s" and "put k v s = (Inr (), t)"
  shows "get k' t = (Inr (if k' = k then Some v else map_of (store s) k'), t)"
  using assms by (auto simp: put_calm get_calm calm_def upd_faults on_upd store_upd update_conv')

text \<open>A property of the state that an edit of the entries keeps, the command keeps.\<close>

lemma keeps_get: "quietly I \<Longrightarrow> keeps I (get k)"
  unfolding cache_get_def by (intro keeps_bnd keeps_gets keeps_if keeps_ret keeps_io)

lemma keeps_put:
  assumes "quietly I" and "\<And>s. I s \<Longrightarrow> I (upd (AList.update k v) s)"
  shows "keeps I (put k v)"
  unfolding cache_put_def
  by (intro keeps_bnd keeps_gets keeps_if keeps_ret keeps_io keeps_modify assms)

lemma keeps_del:
  assumes "quietly I" and "\<And>s. I s \<Longrightarrow> I (upd (AList.delete k) s)"
  shows "keeps I (del k)"
  unfolding cache_del_def
  by (intro keeps_bnd keeps_gets keeps_if keeps_ret keeps_io keeps_modify assms)

lemma keeps_scan_del:
  assumes "quietly I" and "\<And>s ks. I s \<Longrightarrow> I (upd (drop_keys ks) s)"
  shows "keeps I (scan_del split upd P n ks)"
proof (induction ks arbitrary: n rule: length_induct)
  case (1 ks)
  have loop: "keeps I (if drop (Suc (split n)) ks = [] then ret () else scan_del split upd P (Suc n) (drop (Suc (split n)) ks))"
    using 1 by (auto intro: keeps_ret)
  then show ?case
    unfolding scan_del.simps [of split upd P n ks]
    by (intro loop keeps_bnd keeps_io keeps_ret keeps_if keeps_modify assms)
qed

lemma keeps_by_pattern:
  assumes "quietly I" and "\<And>s ks. I s \<Longrightarrow> I (upd (drop_keys ks) s)"
  shows "keeps I (delete_keys_by_pattern on split store upd P)"
  unfolding delete_keys_by_pattern_def
  by (intro keeps_bnd keeps_gets keeps_if keeps_ret keeps_scan_del assms)

text \<open>The loop ends, and when no call fails no matching key is left and no other key is lost.\<close>

lemma drop_keys_Nil [simp]: "drop_keys [] = (\<lambda>l. l)"
  by (simp add: drop_keys_def fun_eq_iff)

lemma drop_keys_append: "drop_keys ks (drop_keys ks' l) = drop_keys (ks' @ ks) l"
  by (simp add: drop_keys_def)

lemma scan_del_calm:
  "calm s \<Longrightarrow> scan_del split upd P n ks s = (Inr (), upd (drop_keys (filter P ks)) s)"
proof (induction ks arbitrary: n s rule: length_induct)
  case (1 ks)
  let ?a = "filter P (take (Suc (split n)) ks)" and ?rest = "drop (Suc (split n)) ks"
  have all: "filter P ks = ?a @ filter P ?rest"
    by (metis append_take_drop_id filter_append)
  have step: "(if ?a = [] then ret () else io (modify (upd (drop_keys ?a)))) s = (Inr (), upd (drop_keys ?a) s)"
    using \<open>calm s\<close> by (simp add: go_exec calm_def upd_id)
  have rest: "scan_del split upd P (Suc n) ?rest (upd (drop_keys ?a) s) =
      (Inr (), upd (drop_keys (filter P ?rest)) (upd (drop_keys ?a) s))" if "?rest \<noteq> []"
    using 1 that by (auto simp: calm_upd)
  have "scan_del split upd P n ks s = (if ?rest = [] then ret () else scan_del split upd P (Suc n) ?rest) (upd (drop_keys ?a) s)"
    unfolding scan_del.simps [of split upd P n ks]
    using step \<open>calm s\<close> by (simp add: bnd_def io_nil calm_def ret_run)
  also have "\<dots> = (Inr (), upd (drop_keys (filter P ks)) s)"
    unfolding all using rest by (cases "?rest = []") (simp_all add: ret_run upd_upd drop_keys_append)
  finally show ?case .
qed

lemma by_pattern_calm:
  assumes "calm s"
  shows "delete_keys_by_pattern on split store upd P s =
    (Inr (), if on s then upd (filter (\<lambda>p. \<not> P (fst p))) s else s)"
proof -
  have "drop_keys (filter P (map fst (store s))) (store s) = filter (\<lambda>p. \<not> P (fst p)) (store s)"
    unfolding drop_keys_def by (rule filter_cong) auto
  then have "upd (drop_keys (filter P (map fst (store s)))) s = upd (filter (\<lambda>p. \<not> P (fst p))) s"
    by (rule upd_cong)
  with assms show ?thesis
    by (simp add: delete_keys_by_pattern_def bnd_def gets_run ret_run scan_del_calm)
qed

lemma keeps_calm: "keeps calm (get k)" "keeps calm (put k v)" "keeps calm (del k)"
  "keeps calm (delete_keys_by_pattern on split store upd P)"
  by (auto simp: keeps_def get_calm put_calm del_calm by_pattern_calm calm_upd)

text \<open>A read-through fills the cache with what it loaded and answers with it; a hit is answered as cached.\<close>

lemma read_through_calm:
  assumes "calm s" and "keeps calm load"
  shows "read_through (get k) load (put k) s =
    (case (if on s then map_of (store s) k else None) of
       Some v \<Rightarrow> (Inr v, s)
     | None \<Rightarrow> (case load s of (Inl e, t) \<Rightarrow> (Inl e, t)
         | (Inr v, t) \<Rightarrow> (Inr v, if on t then upd (AList.update k v) t else t)))"
proof -
  obtain r t where l: "load s = (r, t)" by (metis prod.collapse)
  with assms have "calm t" by (auto dest: keepsD)
  with assms l show ?thesis
    by (auto simp: read_through_def bnd_def attempt_def get_calm put_calm ignore_def ret_run split: option.split sum.split)
qed

end

text \<open>What every step of a read-through keeps, it keeps.\<close>

lemma keeps_read_through:
  assumes "keeps I get" and "keeps I load" and "\<And>v. keeps I (put v)"
  shows "keeps I (read_through get load put)"
proof -
  have "keeps I (bnd load (\<lambda>v. bnd (ignore (put v)) (\<lambda>_. ret v)))"
    by (intro keeps_bnd keeps_ignore keeps_ret assms)
  then show ?thesis
    unfolding read_through_def
    by (intro keeps_bnd keeps_attempt assms(1)) (auto split: sum.split option.split intro: keeps_ret)
qed

section \<open>The commands never panic\<close>

lemma no_panic_scan_del: "no_panic (scan_del split upd P n ks)"
proof (induction ks arbitrary: n rule: length_induct)
  case (1 ks)
  have loop: "no_panic (if drop (Suc (split n)) ks = [] then ret () else scan_del split upd P (Suc n) (drop (Suc (split n)) ks))"
    using 1 by (auto intro: no_panic_basic)
  show ?case
    unfolding scan_del.simps [of split upd P n ks]
    by (intro loop no_panic_bnd no_panic_io_gets no_panic_if no_panic_basic)
qed

lemma no_panic_cache [no_panic_rules]:
  "no_panic (cache_get on store k)" "no_panic (cache_put on upd k v)" "no_panic (cache_del on upd k)"
  "no_panic (delete_keys_by_pattern on split store upd P)"
  unfolding cache_get_def cache_put_def cache_del_def delete_keys_by_pattern_def
  by (intro no_panic_scan_del no_panic_bnd no_panic_if no_panic_io_gets no_panic_basic)+

end
