(* ===== verification/Content.thy ===== *)
theory Content
  imports Points GoStrings Redis
begin

text \<open>
  The tables that the blog, the topics and the game pages share: the models of src/models
  (user_model.go, blog_model.go, comment_model.go, topic_model.go), the state that holds them, the
  statements GORM makes of \<open>Create\<close> and \<open>Save\<close>, and the lookups of src/database/user_sql.go.
  The migrations create no foreign keys (\<open>DisableForeignKeyConstraintWhenMigrating\<close>, db_init.go).
\<close>

section \<open>Data\<close>

record user =
  u_id :: u64
  u_name :: string
  u_email :: string
  u_tel :: string
  u_password :: string
  u_avatar :: string
  u_github :: string
  u_following_count :: int
  u_balance :: int
  u_created :: int

record tag =
  tag_id :: u64
  tag_name :: string

record article =
  art_id :: u64
  art_author :: u64
  art_title :: string
  art_summary :: string
  art_cover :: string
  art_content :: string
  art_views :: int
  art_likes :: int
  art_category :: u64
  art_created :: int
  art_updated :: int

record comment =
  com_article :: u64
  com_id :: u64
  com_user :: u64
  com_root :: u64
  com_parent :: u64
  com_reply_user :: u64
  com_content :: string
  com_type :: string
  com_likes :: int
  com_created :: int

record topic =
  top_id :: u64
  top_name :: string
  top_temporary :: bool
  top_expires :: "int option"
  top_created :: int
  top_updated :: int

record topic_discussion =
  dis_id :: u64
  dis_topic :: u64
  dis_user :: u64
  dis_content :: string
  dis_created :: int

record game_topic =
  gt_game :: u64
  gt_topic :: u64
  gt_created :: int
  gt_updated :: int

text \<open>
  Relation tables are pairs: \<open>article_tags\<close> (article, tag), \<open>article_likes\<close> and \<open>comment_likes\<close> (user,
  article or comment). \<open>auto_id\<close> is the next AUTO_INCREMENT value of a table, \<open>scan_split\<close> how many more
  keys than one the n-th SCAN call of a loop walks over, \<open>same_text\<close> the collation under which MySQL
  compares texts (it may ignore case and accents).
\<close>

record content_st = points_st +
  users :: "user list"
  articles :: "article list"
  tags :: "tag list"
  article_tags :: "(u64 \<times> u64) list"
  article_likes :: "(u64 \<times> u64) list"
  comments :: "comment list"
  comment_likes :: "(u64 \<times> u64) list"
  topics :: "topic list"
  topic_links :: "game_topic list"
  discussions :: "topic_discussion list"
  auto_id :: "string \<Rightarrow> u64"
  scan_split :: "nat \<Rightarrow> nat"
  same_text :: "string \<Rightarrow> string \<Rightarrow> bool"

definition content_rollback :: "'r content_st_scheme \<Rightarrow> 'r content_st_scheme \<Rightarrow> 'r content_st_scheme" where
  "content_rollback old new = new\<lparr>users := users old, articles := articles old, tags := tags old,
     article_tags := article_tags old, article_likes := article_likes old, comments := comments old,
     comment_likes := comment_likes old, topics := topics old, topic_links := topic_links old,
     discussions := discussions old\<rparr>"

definition content_tables :: "'r content_st_scheme \<Rightarrow> (user list \<times> article list \<times> tag list \<times> (u64 \<times> u64) list \<times>
    (u64 \<times> u64) list) \<times> comment list \<times> (u64 \<times> u64) list \<times> topic list \<times> game_topic list \<times> topic_discussion list" where
  "content_tables s = ((users s, articles s, tags s, article_tags s, article_likes s),
     comments s, comment_likes s, topics s, topic_links s, discussions s)"

definition beside_content :: "'r content_st_scheme \<Rightarrow> 'r content_st_scheme" where
  "beside_content s = s\<lparr>faults := [], users := [], articles := [], tags := [], article_tags := [], article_likes := [],
     comments := [], comment_likes := [], topics := [], topic_links := [], discussions := []\<rparr>"

interpretation content_db: store_tx_rest content_rollback content_tables beside_content
  by unfold_locales (simp_all add: content_rollback_def content_tables_def beside_content_def)

section \<open>Statements\<close>

text \<open>
  A table is a field of the state, \<open>rows\<close>, with its setter \<open>put\<close>. \<open>Create\<close>: a zero primary key is filled in from the table's counter; the primary key and the unique
  indexes (\<open>clash\<close>) reject the row.
\<close>

definition pk_or_auto :: "string \<Rightarrow> u64 \<Rightarrow> 'r content_st_scheme \<Rightarrow> u64" where
  "pk_or_auto tbl k s = (if k = 0 then auto_id s tbl else k)"

definition bump_auto :: "string \<Rightarrow> u64 \<Rightarrow> 'r content_st_scheme \<Rightarrow> 'r content_st_scheme" where
  "bump_auto tbl k s = s\<lparr>auto_id := (auto_id s)(tbl := max (auto_id s tbl) (k + 1))\<rparr>"

definition create_row ::
  "string \<Rightarrow> ('t \<Rightarrow> u64) \<Rightarrow> ((u64 \<Rightarrow> u64) \<Rightarrow> 't \<Rightarrow> 't) \<Rightarrow> ('t \<Rightarrow> 't \<Rightarrow> bool) \<Rightarrow> ('r content_st_scheme \<Rightarrow> 't list) \<Rightarrow>
   ('t list \<Rightarrow> 'r content_st_scheme \<Rightarrow> 'r content_st_scheme) \<Rightarrow> 't \<Rightarrow> ('r content_st_scheme, 't) op" where
  "create_row tbl key key_upd clash rows put r = io (\<lambda>s.
     let r' = key_upd (\<lambda>k. pk_or_auto tbl k s) r in
     if \<exists>q \<in> set (rows s). key q = key r' \<or> clash r' q then (Inl DupKey, s)
     else (Inr r', bump_auto tbl (key r') (put (rows s @ [r']) s)))"

text \<open>
  \<open>Save\<close> with a non-zero key: an UPDATE of all columns; when it hits no row, an INSERT (with the defaults
  and times that \<open>Create\<close> fills in).
\<close>

definition save_existing ::
  "('t \<Rightarrow> 'k) \<Rightarrow> ('r io_st_scheme \<Rightarrow> 't list) \<Rightarrow> ('t list \<Rightarrow> 'r io_st_scheme \<Rightarrow> 'r io_st_scheme) \<Rightarrow>
   't \<Rightarrow> 't \<Rightarrow> ('r io_st_scheme, unit) op" where
  "save_existing key rows put updated inserted =
     bnd (io (\<lambda>s. (Inr (has_row key (key updated) (rows s)), put (upd_rows (\<lambda>q. key q = key updated) (\<lambda>_. updated) (rows s)) s))) (\<lambda>hit.
     if hit then ret () else io (modify (\<lambda>s. put (rows s @ [inserted]) s)))"

text \<open>A page: OFFSET is written only when it is positive; both are 64-bit numbers.\<close>

definition page_of :: "int \<Rightarrow> int \<Rightarrow> 'a list \<Rightarrow> 'a list" where
  "page_of page sz rows = take (nat sz) (drop (nat (i64 (i64 (page - 1) * sz))) rows)"

definition newest_first :: "('a \<Rightarrow> int) \<Rightarrow> 'a list \<Rightarrow> 'a list" where
  "newest_first created rows = sort_key (\<lambda>r. - created r) rows"

lemma set_newest_first [simp]: "set (newest_first f rows) = set rows"
  by (simp add: newest_first_def)

lemma length_newest_first [simp]: "length (newest_first f rows) = length rows"
  by (simp add: newest_first_def)

text \<open>A row that was saved is found under its key, and no other row changes.\<close>

lemma row_of_save:
  "row_of key k (upd_rows (\<lambda>q. key q = key r) (\<lambda>_. r) rows) =
    (if has_row key (key r) rows \<and> k = key r then Some r else row_of key k rows)"
  by (induction rows) (auto simp: upd_rows_def has_row_def)

section \<open>Users\<close>

definition get_user_by_id :: "u64 \<Rightarrow> ('r content_st_scheme, user) op" where
  "get_user_by_id u = io (\<lambda>s. case row_of u_id u (users s) of None \<Rightarrow> (Inl RecordNotFound, s) | Some r \<Rightarrow> (Inr r, s))"

definition get_user_for_update :: "u64 \<Rightarrow> ('r content_st_scheme, user) op" where
  "get_user_for_update u = io (\<lambda>s. case row_of u_id u (users s) of None \<Rightarrow> (Inl RecordNotFound, s) | Some r \<Rightarrow> (Inr r, s))"

definition get_user_by_tel :: "string \<Rightarrow> ('r content_st_scheme, user) op" where
  "get_user_by_tel tel = io (\<lambda>s. case first_row u_id (\<lambda>r. u_tel r = tel) (users s) of
       None \<Rightarrow> (Inl RecordNotFound, s) | Some r \<Rightarrow> (Inr r, s))"

definition increment_following_count :: "u64 \<Rightarrow> ('r content_st_scheme, unit) op" where
  "increment_following_count u = io (modify (\<lambda>s. s\<lparr>users :=
     upd_rows (\<lambda>r. u_id r = u) (\<lambda>r. r\<lparr>u_following_count := u_following_count r + 1\<rparr>) (users s)\<rparr>))"

end
