(* ===== verification/Topics.thy ===== *)
theory Topics
  imports Content
begin

text \<open>
  Topics: src/models/topic_model.go, the repository src/database/topic_sql.go, the list cache
  src/database/topic_redis.go and src/service/topic_service.go. A temporary topic lives for 48 hours; a
  cleanup job removes the expired ones with their articles, the articles' comments, likes and tags, and
  the discussions.
\<close>

section \<open>State\<close>

record topics_st = content_st +
  topic_redis :: bool
  topic_cache :: "((int \<times> int) \<times> (topic list \<times> int)) list"

interpretation topic_lists: key_family topic_redis topic_cache topic_cache_update
  by unfold_locales simp_all

section \<open>Queries\<close>

definition topic_open :: "int \<Rightarrow> topic \<Rightarrow> bool" where
  "topic_open now t \<longleftrightarrow> \<not> top_temporary t \<or> (\<exists>e \<in> set_option (top_expires t). e > now)"

text \<open>The WHERE clause of \<open>GetActiveTopicsPaged\<close>: it keeps every temporary topic, expired or not.\<close>

definition topic_listed :: "int \<Rightarrow> topic \<Rightarrow> bool" where
  "topic_listed now t \<longleftrightarrow>
     (\<not> top_temporary t \<and> (case top_expires t of None \<Rightarrow> True | Some e \<Rightarrow> e > now)) \<or> top_temporary t"

definition get_active_topics_paged :: "int \<Rightarrow> int \<Rightarrow> int \<Rightarrow> ('r topics_st_scheme, topic list \<times> int) op" where
  "get_active_topics_paged now page sz =
     (let page = (if page \<le> 0 then 1 else page); sz = (if sz \<le> 0 then 6 else sz) in
      bnd (io (gets (\<lambda>s. int (count_rows (topic_listed now) (topics s))))) (\<lambda>total.
      bnd (io (gets (\<lambda>s. page_of page sz (newest_first top_created (filter (topic_listed now) (topics s)))))) (\<lambda>l.
      ret (l, total))))"

definition get_active_topics :: "int \<Rightarrow> ('r topics_st_scheme, topic list) op" where
  "get_active_topics now = io (gets (\<lambda>s. sort_key top_id (filter (topic_open now) (topics s))))"

definition get_active_topic_by_id :: "u64 \<Rightarrow> int \<Rightarrow> ('r topics_st_scheme, topic) op" where
  "get_active_topic_by_id i now = (if i = 0 then throw RecordNotFound else io (\<lambda>s.
     case first_row top_id (\<lambda>t. top_id t = i \<and> topic_open now t) (topics s) of
       None \<Rightarrow> (Inl RecordNotFound, s) | Some t \<Rightarrow> (Inr t, s)))"

definition get_topic_id_by_game_id :: "u64 \<Rightarrow> ('r topics_st_scheme, u64) op" where
  "get_topic_id_by_game_id g = (if g = 0 then throw RecordNotFound else io (\<lambda>s.
     case row_of gt_game g (topic_links s) of None \<Rightarrow> (Inl RecordNotFound, s) | Some l \<Rightarrow> (Inr (gt_topic l), s)))"

definition get_game_id_by_topic_id :: "u64 \<Rightarrow> ('r topics_st_scheme, u64) op" where
  "get_game_id_by_topic_id i = (if i = 0 then throw RecordNotFound else io (\<lambda>s.
     case first_row gt_game (\<lambda>l. gt_topic l = i) (topic_links s) of
       None \<Rightarrow> (Inl RecordNotFound, s) | Some l \<Rightarrow> (Inr (gt_game l), s)))"

definition get_topics_by_ids :: "u64 list \<Rightarrow> ('r topics_st_scheme, topic list) op" where
  "get_topics_by_ids ids = (if ids = [] then ret [] else
     io (gets (\<lambda>s. filter (\<lambda>t. top_id t \<in> set ids) (topics s))))"

definition get_topic_ids_by_game_ids :: "u64 list \<Rightarrow> ('r topics_st_scheme, u64 list) op" where
  "get_topic_ids_by_game_ids ids = (if ids = [] then ret [] else
     bnd (io (gets (\<lambda>s. filter (\<lambda>l. gt_game l \<in> set ids) (topic_links s)))) (\<lambda>rows.
     ret (filter (\<lambda>i. i \<noteq> 0) (map gt_topic rows))))"

text \<open>\<open>Preload("Tags")\<close>: an article with the tags its rows in \<open>article_tags\<close> lead to.\<close>

definition tags_of :: "'r content_st_scheme \<Rightarrow> u64 \<Rightarrow> tag list" where
  "tags_of s a = filter (\<lambda>t. (a, tag_id t) \<in> set (article_tags s)) (tags s)"

definition get_articles_by_topic ::
  "u64 \<Rightarrow> int \<Rightarrow> int \<Rightarrow> ('r topics_st_scheme, (article \<times> tag list) list \<times> int) op" where
  "get_articles_by_topic i page sz = (if i = 0 then ret ([], 0) else
     let page = (if page \<le> 0 then 1 else page); sz = (if sz \<le> 0 then 30 else sz); hit = (\<lambda>a. art_category a = i) in
     bnd (io (gets (\<lambda>s. int (count_rows hit (articles s))))) (\<lambda>total.
     bnd (io (gets (\<lambda>s. page_of page sz (newest_first art_created (filter hit (articles s)))))) (\<lambda>l.
     bnd (io (gets (\<lambda>s. map (\<lambda>a. (a, tags_of s (art_id a))) l))) (\<lambda>rows. ret (rows, total)))))"

definition create_discussion_row :: "topic_discussion \<Rightarrow> ('r topics_st_scheme, unit) op" where
  "create_discussion_row d =
     (if dis_id d = 0 \<or> dis_topic d = 0 \<or> dis_user d = 0 then throw InvalidData else
      let content = trim_space (dis_content d) in
      if content = [] \<or> length (runes content) > 500 then throw (BizErr 400 40001) else
      bnd (gets clock_now) (\<lambda>now.
      bnd (create_row ''topic_discussions'' dis_id dis_id_update (\<lambda>_ _. False) discussions (\<lambda>v. discussions_update (\<lambda>_. v))
        (d\<lparr>dis_content := content, dis_created := (if dis_created d = zero_time then now else dis_created d)\<rparr>)) (\<lambda>_. ret ())))"

text \<open>A LEFT JOIN: the name of an unknown user reads as the empty string.\<close>

definition discussion_page :: "u64 \<Rightarrow> int \<Rightarrow> int \<Rightarrow> ('r topics_st_scheme, (topic_discussion \<times> string) list \<times> int) op" where
  "discussion_page i page sz = (if i = 0 then ret ([], 0) else
     let page = (if page \<le> 0 then 1 else page); sz = (if sz \<le> 0 then 20 else sz); hit = (\<lambda>d. dis_topic d = i) in
     bnd (io (gets (\<lambda>s. int (count_rows hit (discussions s))))) (\<lambda>total.
     bnd (io (gets (\<lambda>s. map (\<lambda>d. (d, case row_of u_id (dis_user d) (users s) of None \<Rightarrow> [] | Some u \<Rightarrow> u_name u))
        (page_of page sz (newest_first dis_created (filter hit (discussions s))))))) (\<lambda>rows. ret (rows, total))))"

section \<open>Deleting a topic\<close>

text \<open>The statements of the cascade, each a call; the second group only when there are articles.\<close>

definition cascade_articles :: "u64 list \<Rightarrow> ('r topics_st_scheme, unit) op" where
  "cascade_articles ids = (if ids = [] then ret () else
     bnd (io (modify (\<lambda>s. s\<lparr>comments := del_rows (\<lambda>c. com_article c \<in> set ids) (comments s)\<rparr>))) (\<lambda>_.
     bnd (io (modify (\<lambda>s. s\<lparr>article_likes := del_rows (\<lambda>l. snd l \<in> set ids) (article_likes s)\<rparr>))) (\<lambda>_.
     io (modify (\<lambda>s. s\<lparr>article_tags := del_rows (\<lambda>l. fst l \<in> set ids) (article_tags s)\<rparr>)))))"

definition article_ids_of :: "u64 \<Rightarrow> 'r topics_st_scheme \<Rightarrow> u64 list" where
  "article_ids_of i s = map art_id (filter (\<lambda>a. art_category a = i) (articles s))"

definition cascade_body :: "u64 \<Rightarrow> ('r topics_st_scheme, unit) op" where
  "cascade_body i =
     bnd (io (gets (article_ids_of i))) (\<lambda>ids.
     bnd (cascade_articles ids) (\<lambda>_.
     bnd (io (modify (\<lambda>s. s\<lparr>articles := del_rows (\<lambda>a. art_category a = i) (articles s)\<rparr>))) (\<lambda>_.
     bnd (io (modify (\<lambda>s. s\<lparr>discussions := del_rows (\<lambda>d. dis_topic d = i) (discussions s)\<rparr>))) (\<lambda>_.
     io (modify (\<lambda>s. s\<lparr>topics := del_rows (\<lambda>t. top_id t = i) (topics s)\<rparr>))))))"

definition delete_topic_cascade :: "u64 \<Rightarrow> ('r topics_st_scheme, unit) op" where
  "delete_topic_cascade i = (if i = 0 then throw InvalidData else tx content_rollback (cascade_body i))"

section \<open>Cleaning up\<close>

definition topic_expired :: "int \<Rightarrow> topic \<Rightarrow> bool" where
  "topic_expired now t \<longleftrightarrow> top_temporary t \<and> (case top_expires t of None \<Rightarrow> False | Some e \<Rightarrow> e \<le> now)"

definition expired_topics :: "int \<Rightarrow> int \<Rightarrow> topic list \<Rightarrow> topic list" where
  "expired_topics now limit rows =
     (let l = sort_key (\<lambda>t. case top_expires t of None \<Rightarrow> 0 | Some e \<Rightarrow> e) (filter (topic_expired now) rows)
      in if limit > 0 then take (nat limit) l else l)"

text \<open>A topic that cannot be deleted is skipped.\<close>

primrec cleanup_loop :: "topic list \<Rightarrow> nat \<Rightarrow> ('r topics_st_scheme, nat) op" where
  "cleanup_loop [] n = ret n"
| "cleanup_loop (t # ts) n = (if top_id t = 0 then cleanup_loop ts n else
     bnd (attempt (delete_topic_cascade (top_id t))) (\<lambda>r. case r of
       Inl _ \<Rightarrow> cleanup_loop ts n
     | Inr _ \<Rightarrow> cleanup_loop ts (n + 1)))"

definition cleanup_expired_temporary_topics :: "int \<Rightarrow> int \<Rightarrow> ('r topics_st_scheme, nat) op" where
  "cleanup_expired_temporary_topics now limit =
     bnd (io (gets (\<lambda>s. expired_topics now limit (topics s)))) (\<lambda>expired. cleanup_loop expired 0)"

section \<open>Creating a topic\<close>

definition default_topic_name :: string where
  "default_topic_name = utf8 [233, 187, 152, 232, 174, 164]"

definition find_topic_by_name :: "string \<Rightarrow> ('r topics_st_scheme, topic) op" where
  "find_topic_by_name name = io (\<lambda>s. case first_row top_id (\<lambda>t. same_text s (top_name t) name) (topics s) of
       None \<Rightarrow> (Inl RecordNotFound, s) | Some t \<Rightarrow> (Inr t, s))"

definition insert_topic :: "topic \<Rightarrow> ('r topics_st_scheme, topic) op" where
  "insert_topic t = bnd (gets same_text) (\<lambda>same.
     create_row ''topics'' top_id top_id_update (\<lambda>a b. same (top_name b) (top_name a)) topics (\<lambda>v. topics_update (\<lambda>_. v)) t)"

definition new_topic :: "string \<Rightarrow> bool \<Rightarrow> int option \<Rightarrow> int \<Rightarrow> topic" where
  "new_topic name temporary expires now = \<lparr>top_id = 0, top_name = name, top_temporary = temporary,
     top_expires = expires, top_created = now, top_updated = now\<rparr>"

definition hours_48 :: int where "hours_48 = 172800000000000"

text \<open>
  An existing topic of that name is returned, unless it is an expired temporary one: that one is deleted
  first, and the name looked up once more.
\<close>

definition create_fresh_topic :: "string \<Rightarrow> bool \<Rightarrow> int \<Rightarrow> ('r topics_st_scheme, topic) op" where
  "create_fresh_topic name temporary now = bnd (gets clock_now) (\<lambda>t.
     insert_topic (new_topic name temporary (if temporary then Some (now + hours_48) else None) t))"

definition release_name :: "string \<Rightarrow> topic \<Rightarrow> ('r topics_st_scheme, unit) op" where
  "release_name name existing =
     bnd (ignore (delete_topic_cascade (top_id existing))) (\<lambda>_.
     bnd (attempt (find_topic_by_name name)) (\<lambda>r. case r of
       Inr _ \<Rightarrow> throw (BizErr 400 40001)
     | Inl e \<Rightarrow> if e = RecordNotFound then ret () else throw e))"

definition create_topic :: "string \<Rightarrow> bool \<Rightarrow> int \<Rightarrow> ('r topics_st_scheme, topic) op" where
  "create_topic raw temporary now =
     (let name = trim_space raw in
      if name = [] \<or> length (runes name) > 50 then throw ErrInvalidTopicName else
      bnd (attempt (find_topic_by_name name)) (\<lambda>r. case r of
        Inr existing \<Rightarrow>
          if topic_expired now existing
          then bnd (release_name name existing) (\<lambda>_. create_fresh_topic name temporary now)
          else ret existing
      | Inl e \<Rightarrow> if e = RecordNotFound then create_fresh_topic name temporary now else throw e))"

definition find_default_topic :: "('r topics_st_scheme, topic) op" where
  "find_default_topic = io (\<lambda>s.
     case first_row top_id (\<lambda>t. same_text s (top_name t) default_topic_name \<and> \<not> top_temporary t) (topics s) of
       None \<Rightarrow> (Inl RecordNotFound, s) | Some t \<Rightarrow> (Inr t, s))"

text \<open>\<open>OnConflict{DoNothing: true}\<close>: a duplicate key is no error.\<close>

definition ensure_default_topic :: "('r topics_st_scheme, u64) op" where
  "ensure_default_topic = bnd (attempt find_default_topic) (\<lambda>r. case r of
       Inr t \<Rightarrow> ret (top_id t)
     | Inl e \<Rightarrow> if e \<noteq> RecordNotFound then throw e else
         bnd (gets clock_now) (\<lambda>now.
         bnd (attempt (insert_topic (new_topic default_topic_name False None now))) (\<lambda>c. case c of
           Inl e \<Rightarrow> if e = DupKey then bnd find_default_topic (\<lambda>t. ret (top_id t)) else throw e
         | Inr _ \<Rightarrow> bnd find_default_topic (\<lambda>t. ret (top_id t)))))"

text \<open>
  The link of a game to its topic. \<open>INSERT \<dots> ON DUPLICATE KEY UPDATE\<close> also fires on the unique index on
  the topic: then the link that another game has to that topic is the row that is updated, and the game
  itself gets none.
\<close>

definition upsert_game_topic :: "u64 \<Rightarrow> u64 \<Rightarrow> ('r topics_st_scheme, unit) op" where
  "upsert_game_topic g i = bnd (gets clock_now) (\<lambda>now. io (modify (\<lambda>s.
     case find (\<lambda>l. gt_game l = g \<or> gt_topic l = i) (topic_links s) of
       None \<Rightarrow> s\<lparr>topic_links := topic_links s @ [\<lparr>gt_game = g, gt_topic = i, gt_created = now, gt_updated = now\<rparr>]\<rparr>
     | Some q \<Rightarrow> s\<lparr>topic_links := upd_rows (\<lambda>l. gt_game l = gt_game q)
         (\<lambda>l. l\<lparr>gt_topic := i, gt_updated := now\<rparr>) (topic_links s)\<rparr>)))"

definition game_topic_name :: "string \<Rightarrow> string" where
  "game_topic_name raw = utf8 [230, 184, 184, 230, 136, 143, 58] @
     (let name = trim_space raw in if name = [] then utf8 [230, 184, 184, 230, 136, 143, 232, 175, 157, 233, 162, 152] else name)"

definition ensure_game_topic :: "u64 \<Rightarrow> string \<Rightarrow> ('r topics_st_scheme, u64) op" where
  "ensure_game_topic g name = (if g = 0 then throw InvalidData else
     bnd (io (gets (\<lambda>s. row_of gt_game g (topic_links s)))) (\<lambda>r. case r of
       Some l \<Rightarrow> ret (gt_topic l)
     | None \<Rightarrow>
         bnd (gets clock_now) (\<lambda>now.
         bnd (create_topic (game_topic_name name) False now) (\<lambda>t.
         bnd (upsert_game_topic g (top_id t)) (\<lambda>_. ret (top_id t))))))"

section \<open>The service\<close>

definition invalidate_topic_list_cache :: "('r topics_st_scheme, unit) op" where
  "invalidate_topic_list_cache = bnd (gets scan_split) (\<lambda>split.
     ignore (delete_keys_by_pattern topic_redis split topic_cache topic_cache_update (\<lambda>_. True)))"

definition delete_temporary_topic :: "u64 \<Rightarrow> ('r topics_st_scheme, unit) op" where
  "delete_temporary_topic i = bnd (gets clock_now) (\<lambda>now.
     bnd (attempt (get_active_topic_by_id i now)) (\<lambda>r. case r of
       Inl _ \<Rightarrow> throw (BizErr 404 40001)
     | Inr t \<Rightarrow> if \<not> top_temporary t then throw (BizErr 403 40001) else
         bnd (delete_topic_cascade i) (\<lambda>_. invalidate_topic_list_cache)))"

definition list_active_topics_paged :: "int \<Rightarrow> int \<Rightarrow> ('r topics_st_scheme, topic list \<times> int) op" where
  "list_active_topics_paged page sz = read_through (cache_get topic_redis topic_cache (page, sz))
     (bnd (gets clock_now) (\<lambda>now. get_active_topics_paged now page sz))
     (cache_put topic_redis topic_cache_update (page, sz))"

definition list_active_topics :: "('r topics_st_scheme, topic list) op" where
  "list_active_topics = bnd (gets clock_now) get_active_topics"

definition get_active_topic :: "u64 \<Rightarrow> ('r topics_st_scheme, topic) op" where
  "get_active_topic i = bnd (gets clock_now) (get_active_topic_by_id i)"

definition get_linked_game_id :: "u64 \<Rightarrow> ('r topics_st_scheme, u64) op" where
  "get_linked_game_id i = (if i = 0 then throw ErrTopicNoGameLink else get_game_id_by_topic_id i)"

definition service_create_topic :: "string \<Rightarrow> bool \<Rightarrow> ('r topics_st_scheme, topic) op" where
  "service_create_topic name temporary = bnd (gets clock_now) (\<lambda>now.
     bnd (create_topic name temporary now) (\<lambda>t. bnd invalidate_topic_list_cache (\<lambda>_. ret t)))"

text \<open>The guard of the three operations on an open topic.\<close>

definition with_open_topic :: "u64 \<Rightarrow> ('r topics_st_scheme, 'a) op \<Rightarrow> ('r topics_st_scheme, 'a) op" where
  "with_open_topic i m = bnd (gets clock_now) (\<lambda>now.
     bnd (attempt (get_active_topic_by_id i now)) (\<lambda>r. case r of Inl _ \<Rightarrow> throw (BizErr 400 40001) | Inr _ \<Rightarrow> m))"

definition list_topic_articles :: "u64 \<Rightarrow> int \<Rightarrow> int \<Rightarrow> ('r topics_st_scheme, (article \<times> tag list) list \<times> int) op" where
  "list_topic_articles i page sz = with_open_topic i (get_articles_by_topic i page sz)"

definition list_discussions :: "u64 \<Rightarrow> int \<Rightarrow> int \<Rightarrow> ('r topics_st_scheme, (topic_discussion \<times> string) list \<times> int) op" where
  "list_discussions i page sz = with_open_topic i (discussion_page i page sz)"

definition create_discussion :: "u64 \<Rightarrow> u64 \<Rightarrow> string \<Rightarrow> ('r topics_st_scheme, unit) op" where
  "create_discussion i u content = with_open_topic i (bnd generate_id (\<lambda>k.
     create_discussion_row \<lparr>dis_id = k, dis_topic = i, dis_user = u, dis_content = content, dis_created = zero_time\<rparr>))"

end
