(* ===== verification/TopicProps.thy ===== *)
theory TopicProps
  imports Topics
begin

text \<open>
  Correctness of the topics: the cascade removes a topic with all that hangs on it or nothing, the cleanup
  job removes exactly the expired temporary topics, and topic names stay unique.
\<close>

section \<open>An example\<close>

text \<open>Two topics at time 10: topic 2 is temporary, expired, and has an article with a comment, and a discussion.\<close>

definition topics_demo :: topics_st where
  "topics_demo = \<lparr>faults = [], wallets = [], ledger = [], clock_now = 10, clock_day = (2025, 3, 1),
     snowflake = (\<lambda>n. of_nat (Suc n)), id_seq = 0, points_redis = True, daily = (\<lambda>_. None), checkins = (\<lambda>_ _. False),
     wallet_cache = (\<lambda>_. None), earn_kafka = False, earn_topic = [], users = [],
     articles = [\<lparr>art_id = 9, art_author = 7, art_title = ''t'', art_summary = [], art_cover = [], art_content = [],
        art_views = 0, art_likes = 0, art_category = 2, art_created = 1, art_updated = 1\<rparr>],
     tags = [], article_tags = [(9, 1)], article_likes = [(7, 9)],
     comments = [\<lparr>com_article = 9, com_id = 4, com_user = 7, com_root = 0, com_parent = 0, com_reply_user = 0,
        com_content = ''c'', com_type = ''comment'', com_likes = 0, com_created = 2\<rparr>], comment_likes = [],
     topics = [\<lparr>top_id = 1, top_name = ''a'', top_temporary = False, top_expires = None, top_created = 0, top_updated = 0\<rparr>,
        \<lparr>top_id = 2, top_name = ''b'', top_temporary = True, top_expires = Some 5, top_created = 0, top_updated = 0\<rparr>],
     topic_links = [], discussions = [\<lparr>dis_id = 3, dis_topic = 2, dis_user = 7, dis_content = ''d'', dis_created = 3\<rparr>],
     auto_id = (\<lambda>_. 3), scan_split = (\<lambda>_. 9), same_text = (=), topic_redis = True, topic_cache = []\<rparr>"

section \<open>The cascade\<close>

text \<open>The specification: one edit of the tables.\<close>

definition without_topic :: "u64 \<Rightarrow> 'r topics_st_scheme \<Rightarrow> 'r topics_st_scheme" where
  "without_topic i s = (let ids = set (article_ids_of i s) in
     s\<lparr>articles := del_rows (\<lambda>a. art_category a = i) (articles s),
       comments := del_rows (\<lambda>c. com_article c \<in> ids) (comments s),
       article_likes := del_rows (\<lambda>l. snd l \<in> ids) (article_likes s),
       article_tags := del_rows (\<lambda>l. fst l \<in> ids) (article_tags s),
       discussions := del_rows (\<lambda>d. dis_topic d = i) (discussions s),
       topics := del_rows (\<lambda>t. top_id t = i) (topics s)\<rparr>)"

lemma del_rows_none [simp]: "del_rows (\<lambda>_. False) rows = rows"
  by (simp add: del_rows_def)

lemma del_rows_del_rows [simp]: "del_rows P (del_rows Q rows) = del_rows (\<lambda>r. Q r \<or> P r) rows"
  by (simp add: del_rows_def conj_commute)

lemma set_del_rows [simp]: "set (del_rows P rows) = {r \<in> set rows. \<not> P r}"
  by (auto simp: del_rows_def)

lemma article_ids_faults [simp]: "article_ids_of i (s\<lparr>faults := fs\<rparr>) = article_ids_of i s"
  by (simp add: article_ids_of_def)

lemma cascade_body_run:
  assumes "cascade_body i s = (Inr (), t)"
  shows "quiet t = quiet (without_topic i s)"
  using assms
  by (auto simp: cascade_body_def cascade_articles_def without_topic_def quiet_def op_eqs Let_def
      split: if_splits elim!: bnd_InrE io_InrE)

lemma cascade_body_calm:
  assumes "calm s"
  shows "cascade_body i s = (Inr (), without_topic i s)"
  using assms by (cases "article_ids_of i s = []")
    (simp_all add: cascade_body_def cascade_articles_def without_topic_def Let_def bnd_def io_nil calm_def gets_run modify_run ret_run)

lemma without_topic_tables:
  assumes "content_tables s' = content_tables s"
  shows "content_tables (without_topic i s') = content_tables (without_topic i s)"
proof -
  from assms have "articles s' = articles s" by (simp add: content_tables_def)
  then have "article_ids_of i s' = article_ids_of i s" by (simp add: article_ids_of_def)
  with assms show ?thesis by (simp add: content_tables_def without_topic_def Let_def)
qed

lemma content_tables_quiet: "quiet t = quiet s \<Longrightarrow> content_tables t = content_tables s"
  by (metis content_db.tables_faults quiet_def)

lemma delete_cascade_keeps_calm: "keeps calm (cascade_body i)"
  by (simp add: keeps_def cascade_body_calm) (simp add: calm_def without_topic_def Let_def)

lemma delete_topic_cascade_tables:
  assumes "delete_topic_cascade i s = (r, t)"
  shows "content_tables t = (case r of Inl _ \<Rightarrow> content_tables s | Inr _ \<Rightarrow> content_tables (without_topic i s))"
proof (cases "i = 0")
  case True
  with assms show ?thesis by (auto simp: delete_topic_cascade_def throw_eq)
next
  case False
  with assms have run: "tx content_rollback (cascade_body i) s = (r, t)" by (simp add: delete_topic_cascade_def)
  show ?thesis
  proof (cases r)
    case (Inl e)
    with run show ?thesis by (simp add: content_db.tx_error_tables)
  next
    case (Inr x)
    with run have "tx content_rollback (cascade_body i) s = (Inr (), t)" by simp
    then obtain s1 s2 where "quiet s1 = quiet s" and s1: "content_tables s1 = content_tables s"
      and body: "cascade_body i s1 = (Inr (), s2)" and "quiet t = quiet s2" and t: "content_tables t = content_tables s2"
      by (rule content_db.tx_success)
    have "content_tables s2 = content_tables (without_topic i s1)"
      by (rule content_tables_quiet [OF cascade_body_run [OF body]])
    with t Inr without_topic_tables [OF s1] show ?thesis by simp
  qed
qed

text \<open>C10: deleting a topic removes the topic, its discussions, its articles and the comments, likes and tags of
  those articles, and nothing else; when it returns an error, whichever call failed, no table has changed.\<close>

theorem delete_topic_cascade_exact:
  assumes "delete_topic_cascade i s = (r, t)"
  shows "content_tables t = (case r of Inl _ \<Rightarrow> content_tables s | Inr _ \<Rightarrow> content_tables (without_topic i s))"
  using assms by (rule delete_topic_cascade_tables)

lemma calm_topics_demo: "calm topics_demo"
  by (simp add: calm_def topics_demo_def)

lemma delete_topic_cascade_exact_witness:
  "comments (snd (delete_topic_cascade 2 topics_demo)) = [] \<and> length (topics (snd (delete_topic_cascade 2 topics_demo))) = 1"
proof -
  have run: "delete_topic_cascade 2 topics_demo = (Inr (), without_topic 2 topics_demo)"
    using calm_topics_demo by (simp add: delete_topic_cascade_def tx_calm_result delete_cascade_keeps_calm cascade_body_calm)
  from delete_topic_cascade_exact [OF run] run show ?thesis
    by (simp add: content_tables_def without_topic_def Let_def article_ids_of_def topics_demo_def del_rows_def)
qed

section \<open>The cleanup job\<close>

lemma delete_topic_cascade_calm:
  assumes "calm s" and "i \<noteq> 0"
  shows "delete_topic_cascade i s = (Inr (), without_topic i s)"
  using assms by (simp add: delete_topic_cascade_def tx_calm_result delete_cascade_keeps_calm cascade_body_calm)

lemma calm_without_topic [simp]: "calm (without_topic i s) = calm s"
  by (simp add: calm_def without_topic_def Let_def)

lemma cleanup_loop_calm:
  assumes "calm s" and "\<And>x. x \<in> set ts \<Longrightarrow> top_id x \<noteq> 0"
  obtains t where "cleanup_loop ts n s = (Inr (n + length ts), t)" and "calm t"
    and "topics t = del_rows (\<lambda>x. top_id x \<in> top_id ` set ts) (topics s)"
    and "discussions t = del_rows (\<lambda>d. dis_topic d \<in> top_id ` set ts) (discussions s)"
    and "articles t = del_rows (\<lambda>a. art_category a \<in> top_id ` set ts) (articles s)"
  using assms
proof (induction ts arbitrary: s n thesis)
  case Nil
  then show ?case by (simp add: ret_run)
next
  case (Cons x ts)
  let ?s = "without_topic (top_id x) s"
  have "calm ?s" using Cons.prems(2) by simp
  with Cons.prems(3) obtain t where t: "cleanup_loop ts (n + 1) ?s = (Inr (n + 1 + length ts), t)" "calm t"
    and tabs: "topics t = del_rows (\<lambda>x. top_id x \<in> top_id ` set ts) (topics ?s)"
      "discussions t = del_rows (\<lambda>d. dis_topic d \<in> top_id ` set ts) (discussions ?s)"
      "articles t = del_rows (\<lambda>a. art_category a \<in> top_id ` set ts) (articles ?s)"
    using Cons.IH [of "n + 1" ?s] by auto
  have "cleanup_loop (x # ts) n s = (Inr (n + length (x # ts)), t)"
    using Cons.prems(2,3) t(1) by (simp add: bnd_def attempt_def delete_topic_cascade_calm)
  with t(2) show ?case
    using Cons.prems(1) tabs by (simp add: without_topic_def Let_def)
qed

text \<open>When no call fails, a cleanup without a limit deletes exactly the temporary topics that have expired, with
  their articles and discussions, reports how many they were, and leaves the other topics alone.\<close>

theorem cleanup_removes_expired:
  assumes "calm s" and "limit \<le> 0" and "distinct (map top_id (topics s))" and "0 \<notin> top_id ` set (topics s)"
  shows "\<exists>t. cleanup_expired_temporary_topics now limit s = (Inr (count_rows (topic_expired now) (topics s)), t) \<and>
    topics t = del_rows (topic_expired now) (topics s) \<and>
    discussions t = del_rows (\<lambda>d. \<exists>x \<in> set (topics s). topic_expired now x \<and> dis_topic d = top_id x) (discussions s) \<and>
    articles t = del_rows (\<lambda>a. \<exists>x \<in> set (topics s). topic_expired now x \<and> art_category a = top_id x) (articles s)"
proof -
  let ?ts = "expired_topics now limit (topics s)"
  have set: "set ?ts = {x \<in> set (topics s). topic_expired now x}" and len: "length ?ts = count_rows (topic_expired now) (topics s)"
    using assms(2) by (auto simp: expired_topics_def Let_def count_rows_def)
  have "top_id x \<noteq> 0" if "x \<in> set ?ts" for x using that assms(4) set by auto
  then obtain t where t: "cleanup_loop ?ts 0 s = (Inr (length ?ts), t)"
    "topics t = del_rows (\<lambda>x. top_id x \<in> top_id ` set ?ts) (topics s)"
    "discussions t = del_rows (\<lambda>d. dis_topic d \<in> top_id ` set ?ts) (discussions s)"
    "articles t = del_rows (\<lambda>a. art_category a \<in> top_id ` set ?ts) (articles s)"
    using cleanup_loop_calm [OF assms(1), of ?ts 0] by auto
  have "x \<in> set (topics s) \<Longrightarrow> top_id x \<in> top_id ` set ?ts \<longleftrightarrow> topic_expired now x" for x
    using assms(3) set by (auto simp: distinct_map inj_on_def)
  then have "topics t = del_rows (topic_expired now) (topics s)"
    unfolding t(2) del_rows_def by (intro filter_cong) auto
  moreover have "i \<in> top_id ` set ?ts \<longleftrightarrow> (\<exists>x \<in> set (topics s). topic_expired now x \<and> i = top_id x)" for i
    using set by auto
  ultimately show ?thesis
    using assms(1) t by (simp add: cleanup_expired_temporary_topics_def bnd_def io_nil calm_def gets_run len)
qed

lemma cleanup_removes_expired_witness:
  "\<exists>t. cleanup_expired_temporary_topics 10 0 topics_demo = (Inr 1, t) \<and> length (topics t) = 1 \<and> discussions t = []"
proof -
  have "\<exists>t. cleanup_expired_temporary_topics 10 0 topics_demo = (Inr (count_rows (topic_expired 10) (topics topics_demo)), t) \<and>
      topics t = del_rows (topic_expired 10) (topics topics_demo) \<and>
      discussions t = del_rows (\<lambda>d. \<exists>x \<in> set (topics topics_demo). topic_expired 10 x \<and> dis_topic d = top_id x) (discussions topics_demo) \<and>
      articles t = del_rows (\<lambda>a. \<exists>x \<in> set (topics topics_demo). topic_expired 10 x \<and> art_category a = top_id x) (articles topics_demo)"
    by (rule cleanup_removes_expired [OF calm_topics_demo]) (simp_all add: topics_demo_def)
  then show ?thesis by (auto simp: topics_demo_def count_rows_def topic_expired_def del_rows_def)
qed

section \<open>Names\<close>

text \<open>Names are unique under the collation, which is an equivalence.\<close>

definition topics_inv :: "'r topics_st_scheme \<Rightarrow> bool" where
  "topics_inv s \<longleftrightarrow> distinct (map top_id (topics s)) \<and>
     (\<forall>a \<in> set (topics s). \<forall>b \<in> set (topics s). same_text s (top_name a) (top_name b) \<longrightarrow> a = b)"

definition collation_ok :: "'r topics_st_scheme \<Rightarrow> bool" where
  "collation_ok s \<longleftrightarrow> (\<forall>a. same_text s a a) \<and> (\<forall>a b. same_text s a b \<longrightarrow> same_text s b a)
     \<and> (\<forall>a b c. same_text s a b \<longrightarrow> same_text s b c \<longrightarrow> same_text s a c)"

text \<open>What the cascade does not touch.\<close>

lemma beside_cascade: "keeps (\<lambda>s. beside_content s = c) (cascade_body i)"
  unfolding cascade_body_def cascade_articles_def
  by (intro keeps_bnd keeps_if keeps_ret content_db.keeps_rest_io) (simp_all add: gets_run modify_run beside_content_def)

lemma delete_cascade_outcome:
  assumes "delete_topic_cascade i s = (r, t)"
  shows "same_text t = same_text s" and "auto_id t = auto_id s" and "clock_now t = clock_now s"
    and "topics t = topics s \<or> topics t = del_rows (\<lambda>x. top_id x = i) (topics s)"
proof -
  have "keeps (\<lambda>q. beside_content q = beside_content s) (delete_topic_cascade i)"
    unfolding delete_topic_cascade_def by (intro keeps_if keeps_throw content_db.keeps_rest_tx beside_cascade)
  from keepsD [OF this assms] have same: "beside_content t = beside_content s" by simp
  then have "same_text (beside_content t) = same_text (beside_content s)" by simp
  then show "same_text t = same_text s" by (simp add: beside_content_def)
  from same have "auto_id (beside_content t) = auto_id (beside_content s)" by simp
  then show "auto_id t = auto_id s" by (simp add: beside_content_def)
  from same have "clock_now (beside_content t) = clock_now (beside_content s)" by simp
  then show "clock_now t = clock_now s" by (simp add: beside_content_def)
  from delete_topic_cascade_tables [OF assms]
  show "topics t = topics s \<or> topics t = del_rows (\<lambda>x. top_id x = i) (topics s)"
    by (auto simp: content_tables_def without_topic_def Let_def split: sum.splits)
qed

lemma topics_inv_subset:
  assumes "topics_inv s" and "topics t = topics s \<or> topics t = del_rows P (topics s)" and "same_text t = same_text s"
  shows "topics_inv t"
  using assms by (auto simp: topics_inv_def del_rows_def distinct_map_filter)

text \<open>Inserting a topic whose name is not taken.\<close>

lemma create_fresh_topicE:
  assumes "create_fresh_topic name temporary now s = (Inr x, t)"
  obtains "topics t = topics s @ [x]" and "same_text t = same_text s" and "top_name x = name"
    and "\<And>q. q \<in> set (topics s) \<Longrightarrow> top_id q \<noteq> top_id x \<and> \<not> same_text s (top_name q) name"
    and "top_temporary x \<longleftrightarrow> temporary" and "top_expires x = (if temporary then Some (now + hours_48) else None)"
  using assms
  by (auto simp: create_fresh_topic_def insert_topic_def create_row_def new_topic_def bump_auto_def pk_or_auto_def Let_def
      bnd_eq_Inr gets_eq split: if_splits elim!: io_InrE)

lemma find_topic_by_nameE:
  assumes "find_topic_by_name name s = (Inr x, t)"
  obtains fs where "t = s\<lparr>faults := fs\<rparr>" and "x \<in> set (topics s)" and "same_text s (top_name x) name"
  using assms by (auto simp: find_topic_by_name_def split: option.splits elim!: io_InrE dest!: first_row_Some)

lemma find_topic_frame:
  assumes "find_topic_by_name name s = (r, t)"
  shows "topics t = topics s \<and> same_text t = same_text s"
  using assms by (auto simp: find_topic_by_name_def split: option.splits elim!: io_cases)

lemma release_nameE:
  assumes "release_name name x s = (Inr (), t)"
  shows "same_text t = same_text s" and "topics t = topics s \<or> topics t = del_rows (\<lambda>q. top_id q = top_id x) (topics s)"
proof -
  from assms obtain r u f v where del: "delete_topic_cascade (top_id x) s = (r, u)"
    and look: "find_topic_by_name name u = (f, v)" and f: "(case f of Inr _ \<Rightarrow> throw (BizErr 400 40001)
       | Inl e \<Rightarrow> if e = RecordNotFound then ret () else throw e) v = (Inr (), t)"
    by (auto simp: release_name_def attempt_eq_Inr elim!: bnd_InrE ignore_InrE)
  from f have "t = v" by (auto simp: ret_eq throw_eq split: sum.splits if_splits)
  with find_topic_frame [OF look] delete_cascade_outcome [OF del]
  show "same_text t = same_text s" and "topics t = topics s \<or> topics t = del_rows (\<lambda>q. top_id q = top_id x) (topics s)"
    by simp_all
qed

text \<open>Topic names stay unique under the database's collation, whichever calls fail; the topic that is returned
  carries the trimmed name asked for, is in the table, and has not expired, even where an expired temporary topic
  held the name before.\<close>

theorem create_topic_unique_name:
  assumes "create_topic raw temporary now s = (Inr x, t)" and "topics_inv s" and "collation_ok s"
  shows "topics_inv t \<and> x \<in> set (topics t) \<and> same_text s (top_name x) (trim_space raw) \<and> \<not> topic_expired now x"
proof -
  let ?name = "trim_space raw"
  have fresh: "topics_inv t \<and> x \<in> set (topics t) \<and> same_text s (top_name x) ?name \<and> \<not> topic_expired now x"
    if "create_fresh_topic ?name temporary now u = (Inr x, t)" and u: "topics_inv u" "same_text u = same_text s" for u
    using that(1)
  proof (rule create_fresh_topicE)
    assume t: "topics t = topics u @ [x]" "same_text t = same_text u" "top_name x = ?name"
      and new: "\<And>q. q \<in> set (topics u) \<Longrightarrow> top_id q \<noteq> top_id x \<and> \<not> same_text u (top_name q) ?name"
      and kind: "top_temporary x \<longleftrightarrow> temporary" "top_expires x = (if temporary then Some (now + hours_48) else None)"
    have "\<not> same_text s ?name (top_name q)" if "q \<in> set (topics u)" for q
      using new [OF that] u(2) assms(3) unfolding collation_ok_def by metis
    moreover have "\<not> same_text s (top_name q) ?name \<and> top_id q \<noteq> top_id x" if "q \<in> set (topics u)" for q
      using new [OF that] u(2) by simp
    then have "top_id x \<notin> top_id ` set (topics u)" by force
    ultimately have "topics_inv t" using u(1) t new by (auto simp: topics_inv_def u(2))
    moreover have "\<not> topic_expired now x" using kind by (simp add: topic_expired_def hours_48_def)
    ultimately show ?thesis using t assms(3) by (simp add: collation_ok_def)
  qed
  from assms(1) have "bnd (attempt (find_topic_by_name ?name)) (\<lambda>r. case r of
      Inr existing \<Rightarrow> if topic_expired now existing
        then bnd (release_name ?name existing) (\<lambda>_. create_fresh_topic ?name temporary now) else ret existing
    | Inl e \<Rightarrow> if e = RecordNotFound then create_fresh_topic ?name temporary now else throw e) s = (Inr x, t)"
    by (simp add: create_topic_def Let_def throw_eq split: if_splits)
  then obtain r u where look: "find_topic_by_name ?name s = (r, u)" and rest: "(case r of
      Inr existing \<Rightarrow> if topic_expired now existing
        then bnd (release_name ?name existing) (\<lambda>_. create_fresh_topic ?name temporary now) else ret existing
    | Inl e \<Rightarrow> if e = RecordNotFound then create_fresh_topic ?name temporary now else throw e) u = (Inr x, t)"
    by (elim bnd_InrE) (simp add: attempt_eq_Inr)
  then consider (found) "find_topic_by_name ?name s = (Inr x, u)" "t = u" "\<not> topic_expired now x"
    | (expired) e v where "find_topic_by_name ?name s = (Inr e, u)" "release_name ?name e u = (Inr (), v)"
        "create_fresh_topic ?name temporary now v = (Inr x, t)"
    | (new) "find_topic_by_name ?name s = (Inl RecordNotFound, u)" "create_fresh_topic ?name temporary now u = (Inr x, t)"
    by (auto simp: ret_eq throw_eq split: sum.splits if_splits elim!: bnd_InrE)
  then show ?thesis
  proof cases
    case found
    then show ?thesis using assms(2) by (auto simp: topics_inv_def elim!: find_topic_by_nameE)
  next
    case expired
    from expired(1) have u: "topics u = topics s" "same_text u = same_text s" by (auto elim!: find_topic_by_nameE)
    from release_nameE [OF expired(2)] u have "topics_inv v" "same_text v = same_text s"
      using topics_inv_subset assms(2) by (metis, simp)
    with expired(3) show ?thesis by (rule fresh)
  next
    case new
    from new(1) have u: "topics u = topics s" "same_text u = same_text s"
      by (auto simp: find_topic_by_name_def split: option.splits elim!: io_InlE)
    with assms(2) have "topics_inv u" by (simp add: topics_inv_def)
    with new(2) show ?thesis using u(2) by (intro fresh)
  qed
qed

text \<open>Creating \<open>''b''\<close> in the example deletes the expired topic of that name.\<close>

lemma topics_demo_inv: "topics_inv topics_demo" "collation_ok topics_demo"
  by (simp_all add: topics_inv_def collation_ok_def topics_demo_def)

lemma trim_b: "trim_space ''b'' = ''b''" "length (runes ''b'') = 1"
  using runes_ascii [of "''b''"] by (simp_all add: trim_space_id printing_def)

lemmas topics_run = create_topic_def find_topic_by_name_def first_row_def topic_expired_def release_name_def
  delete_topic_cascade_def cascade_body_def cascade_articles_def article_ids_of_def content_rollback_def del_rows_def
  create_fresh_topic_def insert_topic_def create_row_def new_topic_def pk_or_auto_def tx_def io_def bnd_def attempt_def
  ignore_def ret_def throw_def gets_def modify_def Let_def topics_demo_def

lemma create_b_run: "\<exists>x t. create_topic ''b'' False 10 topics_demo = (Inr x, t) \<and> top_id x = 3"
  by (simp add: topics_run trim_b)

lemma create_topic_unique_name_witness: "\<exists>x t. create_topic ''b'' False 10 topics_demo = (Inr x, t) \<and> top_id x = 3 \<and> topics_inv t"
  using create_b_run create_topic_unique_name [OF _ topics_demo_inv] by blast

end
