(* ===== verification/Game.thy ===== *)
theory Game
  imports Topics
begin

text \<open>
  The game pages: the models of src/models/game_model.go and src/models/game_store_model.go, and the two
  MySQL repositories src/database/game_sql.go and src/database/game_store_sql.go. This theory holds the
  data, the state and the statements; \<open>GameService\<close> has the service on top of them.
\<close>

section \<open>Data\<close>

text \<open>JSON columns are their text, \<open>None\<close> for NULL; a \<open>float64\<close> is its 64 bits.\<close>

type_synonym json_col = "string option"

record game =
  g_id :: u64
  g_name :: string
  g_description :: string
  g_release :: int
  g_publisher :: string
  g_developer :: string
  g_cover :: string
  g_price :: int
  g_tags :: json_col
  g_achievements :: json_col
  g_created :: int
  g_updated :: int

record game_review =
  rev_id :: u64
  rev_game :: u64
  rev_user :: u64
  rev_reviewed :: int
  rev_rating :: nat
  rev_content :: string
  rev_created :: int
  rev_updated :: int

record review_comment =
  rc_id :: u64
  rc_review :: u64
  rc_user :: u64
  rc_parent :: u64
  rc_content :: string
  rc_created :: int
  rc_updated :: int

record game_play =
  gp_user :: u64
  gp_game :: u64
  gp_total :: u64
  gp_two_weeks :: u64
  gp_achieved :: json_col
  gp_updated :: int
  gp_created :: int

record license_code =
  lic_id :: u64
  lic_game :: u64
  lic_code :: string
  lic_status :: string
  lic_order :: u64
  lic_buyer :: u64
  lic_sold :: "int option"
  lic_created :: int

record game_order =
  go_id :: u64
  go_user :: u64
  go_game :: u64
  go_name :: string
  go_price :: int
  go_code :: string
  go_created :: int

record account_txn =
  at_id :: u64
  at_user :: u64
  at_amount :: int
  at_type :: string
  at_ref_type :: string
  at_ref_id :: u64
  at_balance_after :: int
  at_desc :: string
  at_created :: int

definition is_free_game :: "int \<Rightarrow> bool" where "is_free_game price \<longleftrightarrow> price \<le> 0"

definition is_paid_game :: "int \<Rightarrow> bool" where "is_paid_game price \<longleftrightarrow> price > 0"

definition normalize_game_price_cents :: "int \<Rightarrow> int" where
  "normalize_game_price_cents price = (if price < 0 then 0 else price)"

definition game_code_available :: string where "game_code_available = ''available''"
definition game_code_sold :: string where "game_code_sold = ''sold''"

text \<open>A play as it is read: with its game, the zero game when that does not exist.\<close>

type_synonym play_view = "game_play \<times> game option"

text \<open>
  The state: the seven tables, whether Redis is configured for games and for users, the key families of
  src/database/game_redis.go, each under what its key format prints, and the cached account balances of
  src/database/user_redis.go.
\<close>

record game_st = topics_st +
  games :: "game list"
  reviews :: "game_review list"
  review_comments :: "review_comment list"
  plays :: "game_play list"
  licenses :: "license_code list"
  game_orders :: "game_order list"
  account_txns :: "account_txn list"
  game_redis :: bool
  user_redis :: bool
  game_cache :: "(u64 \<times> game) list"
  review_cache :: "(u64 \<times> game_review) list"
  review_lists :: "((u64 \<times> int \<times> int) \<times> game_review list) list"
  rcomment_lists :: "((u64 \<times> int \<times> int) \<times> review_comment list) list"
  play_cache :: "((u64 \<times> u64) \<times> play_view) list"
  play_lists :: "(u64 \<times> play_view list) list"
  order_lists :: "(u64 \<times> game_order list) list"
  topic_map :: "(u64 \<times> u64) list"
  game_lists :: "((int \<times> int) \<times> (game list \<times> int)) list"
  balance_cache :: "(u64 \<times> int) list"

definition game_rollback :: "'r game_st_scheme \<Rightarrow> 'r game_st_scheme \<Rightarrow> 'r game_st_scheme" where
  "game_rollback old new = (content_rollback old new)\<lparr>games := games old, reviews := reviews old,
     review_comments := review_comments old, plays := plays old, licenses := licenses old,
     game_orders := game_orders old, account_txns := account_txns old\<rparr>"

definition game_tables :: "'r game_st_scheme \<Rightarrow> game list \<times> game_review list \<times> review_comment list \<times> game_play list \<times>
    license_code list \<times> game_order list \<times> account_txn list \<times> user list" where
  "game_tables s = (games s, reviews s, review_comments s, plays s, licenses s, game_orders s, account_txns s, users s)"

definition beside_game :: "'r game_st_scheme \<Rightarrow> 'r game_st_scheme" where
  "beside_game s = (beside_content s)\<lparr>games := [], reviews := [], review_comments := [], plays := [],
     licenses := [], game_orders := [], account_txns := []\<rparr>"

interpretation game_db: store_tx_rest game_rollback game_tables beside_game
  by unfold_locales
    (simp_all add: game_rollback_def game_tables_def content_rollback_def beside_game_def beside_content_def)

text \<open>The key families.\<close>

interpretation game_details: key_family game_redis game_cache game_cache_update
  by unfold_locales simp_all

interpretation review_details: key_family game_redis review_cache review_cache_update
  by unfold_locales simp_all

interpretation review_pages: key_family game_redis review_lists review_lists_update
  by unfold_locales simp_all

interpretation rcomment_pages: key_family game_redis rcomment_lists rcomment_lists_update
  by unfold_locales simp_all

interpretation play_details: key_family game_redis play_cache play_cache_update
  by unfold_locales simp_all

interpretation user_plays: key_family game_redis play_lists play_lists_update
  by unfold_locales simp_all

interpretation user_orders: key_family game_redis order_lists order_lists_update
  by unfold_locales simp_all

interpretation topic_of_game: key_family game_redis topic_map topic_map_update
  by unfold_locales simp_all

interpretation game_pages: key_family game_redis game_lists game_lists_update
  by unfold_locales simp_all

interpretation account_balances: key_family user_redis balance_cache balance_cache_update
  by unfold_locales simp_all

section \<open>The catalogue repository\<close>

text \<open>
  A zero \<open>PriceCents\<close> is stored as the column's default, -1 (GORM fills in defaults for zero values on
  \<open>Create\<close>, not on \<open>Save\<close>); times are filled in when they are zero, \<open>updated_at\<close> always on \<open>Save\<close>.
\<close>

definition or_now :: "int \<Rightarrow> int \<Rightarrow> int" where
  "or_now now t = (if t = zero_time then now else t)"

definition game_defaults :: "int \<Rightarrow> game \<Rightarrow> game" where
  "game_defaults now g = g\<lparr>g_price := (if g_price g = 0 then -1 else g_price g), g_created := or_now now (g_created g),
     g_updated := or_now now (g_updated g)\<rparr>"

definition create_game_row :: "game \<Rightarrow> ('r game_st_scheme, game) op" where
  "create_game_row g = bnd (gets clock_now) (\<lambda>now. create_row ''games'' g_id g_id_update (\<lambda>_ _. False)
     games (\<lambda>v. games_update (\<lambda>_. v)) (game_defaults now g))"

definition update_game_row :: "game \<Rightarrow> ('r game_st_scheme, unit) op" where
  "update_game_row g = (if g_id g = 0 then bnd (create_game_row g) (\<lambda>_. ret ()) else
     bnd (gets clock_now) (\<lambda>now. save_existing g_id games (\<lambda>v. games_update (\<lambda>_. v))
       (g\<lparr>g_updated := now\<rparr>) (game_defaults now (g\<lparr>g_updated := now\<rparr>))))"

definition delete_game_row :: "u64 \<Rightarrow> ('r game_st_scheme, unit) op" where
  "delete_game_row i = io (modify (\<lambda>s. s\<lparr>games := del_rows (\<lambda>g. g_id g = i) (games s)\<rparr>))"

definition get_game_row :: "u64 \<Rightarrow> ('r game_st_scheme, game) op" where
  "get_game_row i = io (\<lambda>s. case row_of g_id i (games s) of None \<Rightarrow> (Inl RecordNotFound, s) | Some g \<Rightarrow> (Inr g, s))"

text \<open>A page with the number of all rows; no rows, no second query.\<close>

definition games_page :: "int \<Rightarrow> int \<Rightarrow> game list \<Rightarrow> game list" where
  "games_page page sz rows = page_of page sz (newest_first g_created rows)"

definition list_games_rows :: "int \<Rightarrow> int \<Rightarrow> ('r game_st_scheme, game list \<times> int) op" where
  "list_games_rows page sz = bnd (io (gets (\<lambda>s. int (length (games s))))) (\<lambda>total.
     if total = 0 then ret ([], 0) else
     bnd (io (gets (\<lambda>s. games_page page sz (games s)))) (\<lambda>l. ret (l, total)))"

definition clamp5 :: "int \<Rightarrow> int" where
  "clamp5 limit = (if limit \<le> 0 then 5 else if limit > 5 then 5 else limit)"

text \<open>\<open>LIKE\<close> and the order of names are MySQL's: \<open>like name pattern\<close> and the sort \<open>by_name\<close>.\<close>

definition search_games_by_name ::
  "(string \<Rightarrow> string \<Rightarrow> bool) \<Rightarrow> (game list \<Rightarrow> game list) \<Rightarrow> string \<Rightarrow> int \<Rightarrow> ('r game_st_scheme, game list) op" where
  "search_games_by_name like by_name q limit =
     (let q = trim_space q in if q = [] then ret [] else
      io (gets (\<lambda>s. take (nat (clamp5 limit)) (by_name (filter (\<lambda>g. like (g_name g) (''%'' @ q @ ''%'')) (games s))))))"

definition review_defaults :: "int \<Rightarrow> game_review \<Rightarrow> game_review" where
  "review_defaults now r = r\<lparr>rev_rating := (if rev_rating r = 0 then 5 else rev_rating r),
     rev_created := or_now now (rev_created r), rev_updated := or_now now (rev_updated r)\<rparr>"

definition create_review_row :: "game_review \<Rightarrow> ('r game_st_scheme, game_review) op" where
  "create_review_row r = bnd (gets clock_now) (\<lambda>now. create_row ''game_reviews'' rev_id rev_id_update (\<lambda>_ _. False)
     reviews (\<lambda>v. reviews_update (\<lambda>_. v)) (review_defaults now r))"

definition update_review_row :: "game_review \<Rightarrow> ('r game_st_scheme, unit) op" where
  "update_review_row r = (if rev_id r = 0 then bnd (create_review_row r) (\<lambda>_. ret ()) else
     bnd (gets clock_now) (\<lambda>now. save_existing rev_id reviews (\<lambda>v. reviews_update (\<lambda>_. v))
       (r\<lparr>rev_updated := now\<rparr>) (review_defaults now (r\<lparr>rev_updated := now\<rparr>))))"

definition delete_review_row :: "u64 \<Rightarrow> ('r game_st_scheme, unit) op" where
  "delete_review_row i = io (modify (\<lambda>s. s\<lparr>reviews := del_rows (\<lambda>r. rev_id r = i) (reviews s)\<rparr>))"

definition get_review_row :: "u64 \<Rightarrow> ('r game_st_scheme, game_review) op" where
  "get_review_row i = io (\<lambda>s. case row_of rev_id i (reviews s) of None \<Rightarrow> (Inl RecordNotFound, s) | Some r \<Rightarrow> (Inr r, s))"

definition get_review_by_game_and_user :: "u64 \<Rightarrow> u64 \<Rightarrow> ('r game_st_scheme, game_review) op" where
  "get_review_by_game_and_user g u = io (\<lambda>s. case first_row rev_id (\<lambda>r. rev_game r = g \<and> rev_user r = u) (reviews s) of
       None \<Rightarrow> (Inl RecordNotFound, s) | Some r \<Rightarrow> (Inr r, s))"

definition reviews_page :: "u64 \<Rightarrow> int \<Rightarrow> int \<Rightarrow> game_review list \<Rightarrow> game_review list" where
  "reviews_page g page sz rows = page_of page sz
     (sort_key (\<lambda>r. (- rev_reviewed r, - rev_created r)) (filter (\<lambda>r. rev_game r = g) rows))"

definition list_reviews_rows :: "u64 \<Rightarrow> int \<Rightarrow> int \<Rightarrow> ('r game_st_scheme, game_review list \<times> int) op" where
  "list_reviews_rows g page sz = bnd (io (gets (\<lambda>s. int (count_rows (\<lambda>r. rev_game r = g) (reviews s))))) (\<lambda>total.
     if total = 0 then ret ([], 0) else
     bnd (io (gets (\<lambda>s. reviews_page g page sz (reviews s)))) (\<lambda>l. ret (l, total)))"

definition rcomment_defaults :: "int \<Rightarrow> review_comment \<Rightarrow> review_comment" where
  "rcomment_defaults now c = c\<lparr>rc_created := or_now now (rc_created c), rc_updated := or_now now (rc_updated c)\<rparr>"

definition create_rcomment_row :: "review_comment \<Rightarrow> ('r game_st_scheme, review_comment) op" where
  "create_rcomment_row c = bnd (gets clock_now) (\<lambda>now. create_row ''game_review_comments'' rc_id rc_id_update (\<lambda>_ _. False)
     review_comments (\<lambda>v. review_comments_update (\<lambda>_. v)) (rcomment_defaults now c))"

definition update_rcomment_row :: "review_comment \<Rightarrow> ('r game_st_scheme, unit) op" where
  "update_rcomment_row c = (if rc_id c = 0 then bnd (create_rcomment_row c) (\<lambda>_. ret ()) else
     bnd (gets clock_now) (\<lambda>now. save_existing rc_id review_comments (\<lambda>v. review_comments_update (\<lambda>_. v))
       (c\<lparr>rc_updated := now\<rparr>) (rcomment_defaults now (c\<lparr>rc_updated := now\<rparr>))))"

definition delete_rcomment_row :: "u64 \<Rightarrow> ('r game_st_scheme, unit) op" where
  "delete_rcomment_row i = io (modify (\<lambda>s. s\<lparr>review_comments := del_rows (\<lambda>c. rc_id c = i) (review_comments s)\<rparr>))"

definition get_rcomment_row :: "u64 \<Rightarrow> ('r game_st_scheme, review_comment) op" where
  "get_rcomment_row i = io (\<lambda>s. case row_of rc_id i (review_comments s) of
       None \<Rightarrow> (Inl RecordNotFound, s) | Some c \<Rightarrow> (Inr c, s))"

definition rcomments_page :: "u64 \<Rightarrow> int \<Rightarrow> int \<Rightarrow> review_comment list \<Rightarrow> review_comment list" where
  "rcomments_page r page sz rows = page_of page sz (newest_first rc_created (filter (\<lambda>c. rc_review c = r) rows))"

definition list_rcomments_rows :: "u64 \<Rightarrow> int \<Rightarrow> int \<Rightarrow> ('r game_st_scheme, review_comment list \<times> int) op" where
  "list_rcomments_rows r page sz = bnd (io (gets (\<lambda>s. int (count_rows (\<lambda>c. rc_review c = r) (review_comments s))))) (\<lambda>total.
     if total = 0 then ret ([], 0) else
     bnd (io (gets (\<lambda>s. rcomments_page r page sz (review_comments s)))) (\<lambda>l. ret (l, total)))"

section \<open>Plays\<close>

definition play_key :: "game_play \<Rightarrow> u64 \<times> u64" where
  "play_key p = (gp_user p, gp_game p)"

text \<open>\<open>Save\<close> overwrites the whole row, the times played included.\<close>

definition upsert_play_row :: "game_play \<Rightarrow> ('r game_st_scheme, unit) op" where
  "upsert_play_row p = bnd (gets clock_now) (\<lambda>now. save_existing play_key plays (\<lambda>v. plays_update (\<lambda>_. v))
     (p\<lparr>gp_updated := now\<rparr>) (p\<lparr>gp_updated := now, gp_created := or_now now (gp_created p)\<rparr>))"

definition with_game :: "'r game_st_scheme \<Rightarrow> game_play \<Rightarrow> play_view" where
  "with_game s p = (p, row_of g_id (gp_game p) (games s))"

definition get_play_row :: "u64 \<Rightarrow> u64 \<Rightarrow> ('r game_st_scheme, play_view) op" where
  "get_play_row u g =
     bnd (io (\<lambda>s. case row_of play_key (u, g) (plays s) of None \<Rightarrow> (Inl RecordNotFound, s) | Some p \<Rightarrow> (Inr p, s))) (\<lambda>p.
     io (gets (\<lambda>s. with_game s p)))"

definition list_plays_rows :: "u64 \<Rightarrow> ('r game_st_scheme, play_view list) op" where
  "list_plays_rows u =
     bnd (io (gets (\<lambda>s. newest_first gp_updated (filter (\<lambda>p. gp_user p = u) (plays s))))) (\<lambda>l.
     if l = [] then ret [] else io (gets (\<lambda>s. map (with_game s) l)))"

definition delete_play_row :: "u64 \<Rightarrow> u64 \<Rightarrow> ('r game_st_scheme, unit) op" where
  "delete_play_row u g = io (modify (\<lambda>s. s\<lparr>plays := del_rows (\<lambda>p. play_key p = (u, g)) (plays s)\<rparr>))"

section \<open>The store repository\<close>

definition license_free :: "u64 \<Rightarrow> license_code \<Rightarrow> bool" where
  "license_free g l \<longleftrightarrow> lic_game l = g \<and> lic_status l = game_code_available"

definition count_available_licenses :: "u64 \<Rightarrow> ('r game_st_scheme, int) op" where
  "count_available_licenses g = io (gets (\<lambda>s. int (count_rows (license_free g) (licenses s))))"

definition list_game_orders_by_user :: "u64 \<Rightarrow> int \<Rightarrow> ('r game_st_scheme, game_order list) op" where
  "list_game_orders_by_user u limit =
     (let limit = (if limit \<le> 0 then 50 else limit); limit = (if limit > 100 then 100 else limit)
      in io (gets (\<lambda>s. take (nat limit) (newest_first go_created (filter (\<lambda>r. go_user r = u) (game_orders s))))))"

definition get_game_order_by_id :: "u64 \<Rightarrow> ('r game_st_scheme, game_order) op" where
  "get_game_order_by_id i = io (\<lambda>s. case row_of go_id i (game_orders s) of
       None \<Rightarrow> (Inl RecordNotFound, s) | Some r \<Rightarrow> (Inr r, s))"

text \<open>Twenty codes for every paid game without a free one.\<close>

definition license_text :: "u64 \<Rightarrow> nat \<Rightarrow> string" where
  "license_text g i = ''G'' @ show_nat (unat g mod 100000) @ ''-'' @ hex4 (i * 7919 mod 65536) @ ''-'' @ hex4 (i * 4177 mod 65536)"

definition seed_license :: "u64 \<Rightarrow> int \<Rightarrow> nat \<Rightarrow> ('r game_st_scheme, license_code) op" where
  "seed_license g now i = bnd generate_id (\<lambda>k. ret \<lparr>lic_id = k, lic_game = g, lic_code = license_text g i,
     lic_status = game_code_available, lic_order = 0, lic_buyer = 0, lic_sold = None, lic_created = now\<rparr>)"

text \<open>One INSERT for the batch: it fails as a whole when one of its codes is taken.\<close>

definition insert_licenses :: "license_code list \<Rightarrow> ('r game_st_scheme, unit) op" where
  "insert_licenses ls = io (\<lambda>s.
     if distinct (map lic_code (licenses s @ ls)) \<and> distinct (map lic_id (licenses s @ ls))
     then (Inr (), s\<lparr>licenses := licenses s @ ls\<rparr>) else (Inl DupKey, s))"

definition seed_game_licenses :: "int \<Rightarrow> game \<Rightarrow> ('r game_st_scheme, unit) op" where
  "seed_game_licenses now g = (if \<not> is_paid_game (g_price g) then ret () else
     bnd (count_available_licenses (g_id g)) (\<lambda>n. if n > 0 then ret () else
     bnd (map_each [1..<21] (seed_license (g_id g) now)) insert_licenses))"

definition seed_licenses_for_games_without_stock :: "('r game_st_scheme, unit) op" where
  "seed_licenses_for_games_without_stock = bnd (io (gets games)) (\<lambda>gs. bnd (gets clock_now) (\<lambda>now.
     for_each gs (seed_game_licenses now)))"

section \<open>A purchase\<close>

definition insert_account_txn :: "account_txn \<Rightarrow> ('r game_st_scheme, unit) op" where
  "insert_account_txn x = io (\<lambda>s. if has_row at_id (at_id x) (account_txns s) then (Inl DupKey, s)
     else (Inr (), s\<lparr>account_txns := account_txns s @ [x]\<rparr>))"

definition insert_game_order :: "game_order \<Rightarrow> ('r game_st_scheme, unit) op" where
  "insert_game_order r = io (\<lambda>s. if has_row go_id (go_id r) (game_orders s) then (Inl DupKey, s)
     else (Inr (), s\<lparr>game_orders := game_orders s @ [r]\<rparr>))"

text \<open>\<open>UPDATE users SET account_balance = account_balance - ? WHERE id = ? AND account_balance >= ?\<close>\<close>

definition charge_account :: "u64 \<Rightarrow> int \<Rightarrow> ('r game_st_scheme, unit) op" where
  "charge_account u yuan = bnd (io (\<lambda>s. let hit = (\<lambda>r. u_id r = u \<and> u_balance r \<ge> yuan) in
       (Inr (count_rows hit (users s)), s\<lparr>users := upd_rows hit (\<lambda>r. r\<lparr>u_balance := u_balance r - yuan\<rparr>) (users s)\<rparr>))) (\<lambda>n.
     if n = 0 then throw ErrInsufficientAccount else ret ())"

definition sell_license :: "u64 \<Rightarrow> u64 \<Rightarrow> int \<Rightarrow> license_code \<Rightarrow> license_code" where
  "sell_license order buyer now l = l\<lparr>lic_status := game_code_sold, lic_order := order, lic_buyer := buyer, lic_sold := Some now\<rparr>"

definition mark_license_sold :: "u64 \<Rightarrow> u64 \<Rightarrow> u64 \<Rightarrow> int \<Rightarrow> ('r game_st_scheme, unit) op" where
  "mark_license_sold i order buyer now = io (modify (\<lambda>s. s\<lparr>licenses :=
     upd_rows (\<lambda>l. lic_id l = i \<and> lic_status l = game_code_available) (sell_license order buyer now) (licenses s)\<rparr>))"

text \<open>What is charged, in yuan, for a price in cents.\<close>

definition charge_yuan :: "int \<Rightarrow> int" where
  "charge_yuan price = (let yuan = price div 100 in if yuan \<le> 0 then 1 else yuan)"

definition purchase_txn :: "u64 \<Rightarrow> game \<Rightarrow> u64 \<Rightarrow> int \<Rightarrow> int \<Rightarrow> int \<Rightarrow> account_txn" where
  "purchase_txn u g order yuan new_balance now =
     \<lparr>at_id = points_stable_txn_id u ''game_purchase'' order (g_id g), at_user = u, at_amount = - yuan,
      at_type = ''expense'', at_ref_type = ''game_purchase'', at_ref_id = order, at_balance_after = new_balance,
      at_desc = utf8 [232, 180, 173, 228, 185, 176, 230, 184, 184, 230, 136, 143, 239, 188, 154] @ g_name g, at_created = now\<rparr>"

text \<open>
  On a duplicate key the order is looked up outside the transaction's connection; when it is there, the
  transaction ends with it and without an error, so that what it has done so far is committed.
\<close>

definition existing_order :: "u64 \<Rightarrow> err \<Rightarrow> ('r game_st_scheme, game_order) op" where
  "existing_order order e = (if e \<noteq> DupKey then throw e else
     bnd (attempt (get_game_order_by_id order)) (\<lambda>f. case f of Inr x \<Rightarrow> ret x | Inl _ \<Rightarrow> throw e))"

text \<open>The paid part: \<open>Inr code\<close> goes on with the code, \<open>Inl order\<close> ends with that order.\<close>

definition pay_for_game :: "game \<Rightarrow> u64 \<Rightarrow> u64 \<Rightarrow> int \<Rightarrow> ('r game_st_scheme, game_order + string) op" where
  "pay_for_game g u order now =
     (let yuan = charge_yuan (normalize_game_price_cents (g_price g)) in
      bnd (io (gets (\<lambda>s. first_row lic_id (license_free (g_id g)) (licenses s)))) (\<lambda>found. case found of
        None \<Rightarrow> throw ErrGameOutOfStock
      | Some lic \<Rightarrow>
      bnd (get_user_for_update u) (\<lambda>user.
      if u_balance user < yuan then throw ErrInsufficientAccount else
      bnd (charge_account u yuan) (\<lambda>_.
      bnd (attempt (insert_account_txn (purchase_txn u g order yuan (u_balance user - yuan) now))) (\<lambda>r. case r of
        Inl e \<Rightarrow> bnd (existing_order order e) (\<lambda>x. ret (Inl x))
      | Inr _ \<Rightarrow> bnd (mark_license_sold (lic_id lic) order u now) (\<lambda>_. ret (Inr (lic_code lic))))))))"

definition blank_play :: "u64 \<Rightarrow> u64 \<Rightarrow> game_play" where
  "blank_play u g = \<lparr>gp_user = u, gp_game = g, gp_total = 0, gp_two_weeks = 0, gp_achieved = None,
     gp_updated = zero_time, gp_created = zero_time\<rparr>"

definition new_order :: "game \<Rightarrow> u64 \<Rightarrow> u64 \<Rightarrow> int \<Rightarrow> int \<Rightarrow> string \<Rightarrow> game_order" where
  "new_order g u order price now code = \<lparr>go_id = order, go_user = u, go_game = g_id g, go_name = g_name g,
     go_price = price, go_code = code, go_created = now\<rparr>"

definition place_game_order :: "game \<Rightarrow> u64 \<Rightarrow> u64 \<Rightarrow> int \<Rightarrow> int \<Rightarrow> string \<Rightarrow> ('r game_st_scheme, game_order) op" where
  "place_game_order g u order price now code =
     bnd (attempt (insert_game_order (new_order g u order price now code))) (\<lambda>r. case r of
       Inl e \<Rightarrow> existing_order order e
     | Inr _ \<Rightarrow> bnd (upsert_play_row (blank_play u (g_id g))) (\<lambda>_. ret (new_order g u order price now code)))"

definition purchase_body :: "game \<Rightarrow> u64 \<Rightarrow> u64 \<Rightarrow> ('r game_st_scheme, game_order) op" where
  "purchase_body g u order = bnd (gets clock_now) (\<lambda>now.
     if is_free_game (g_price g) then place_game_order g u order (g_price g) now ''FREE''
     else bnd (pay_for_game g u order now) (\<lambda>p. case p of
         Inl x \<Rightarrow> ret x
       | Inr code \<Rightarrow> place_game_order g u order (normalize_game_price_cents (g_price g)) now code))"

definition purchase_in_tx :: "game option \<Rightarrow> u64 \<Rightarrow> u64 \<Rightarrow> ('r game_st_scheme, game_order) op" where
  "purchase_in_tx g u order = (case g of None \<Rightarrow> throw ErrGameInvalidParam
     | Some g \<Rightarrow> if g_id g = 0 \<or> u = 0 then throw ErrGameInvalidParam else tx game_rollback (purchase_body g u order))"

end
