(* ===== verification/GameService.thy ===== *)
theory GameService
  imports Game GoJson
begin

text \<open>
  The caches of the game pages (src/database/game_redis.go, and the account balance of
  src/database/user_redis.go), \<open>GameService\<close> (src/service/game_service.go) and the handlers of
  src/handler/game_handler.go, from the decoded request on.
\<close>

section \<open>The caches\<close>

definition get_cached_game :: "u64 \<Rightarrow> ('r game_st_scheme, game option) op" where
  "get_cached_game i = cache_get game_redis game_cache i"

definition set_cached_game :: "game \<Rightarrow> ('r game_st_scheme, unit) op" where
  "set_cached_game g = (if g_id g = 0 then ret () else cache_put game_redis game_cache_update (g_id g) g)"

definition get_cached_review :: "u64 \<Rightarrow> ('r game_st_scheme, game_review option) op" where
  "get_cached_review i = cache_get game_redis review_cache i"

definition set_cached_review :: "game_review \<Rightarrow> ('r game_st_scheme, unit) op" where
  "set_cached_review r = (if rev_id r = 0 then ret () else cache_put game_redis review_cache_update (rev_id r) r)"

definition get_review_list :: "u64 \<Rightarrow> int \<Rightarrow> int \<Rightarrow> ('r game_st_scheme, game_review list option) op" where
  "get_review_list g page sz = cache_get game_redis review_lists (g, page, sz)"

definition set_review_list :: "u64 \<Rightarrow> int \<Rightarrow> int \<Rightarrow> game_review list \<Rightarrow> ('r game_st_scheme, unit) op" where
  "set_review_list g page sz l = cache_put game_redis review_lists_update (g, page, sz) l"

definition get_rcomment_list :: "u64 \<Rightarrow> int \<Rightarrow> int \<Rightarrow> ('r game_st_scheme, review_comment list option) op" where
  "get_rcomment_list r page sz = cache_get game_redis rcomment_lists (r, page, sz)"

definition set_rcomment_list :: "u64 \<Rightarrow> int \<Rightarrow> int \<Rightarrow> review_comment list \<Rightarrow> ('r game_st_scheme, unit) op" where
  "set_rcomment_list r page sz l = cache_put game_redis rcomment_lists_update (r, page, sz) l"

text \<open>\<open>DeleteKey\<close> and \<open>DeleteKeysByPattern\<close>, for the formats they are called with.\<close>

definition delete_game_key :: "u64 \<Rightarrow> ('r game_st_scheme, unit) op" where
  "delete_game_key i = cache_del game_redis game_cache_update i"

definition delete_review_key :: "u64 \<Rightarrow> ('r game_st_scheme, unit) op" where
  "delete_review_key i = cache_del game_redis review_cache_update i"

definition delete_review_lists :: "u64 \<Rightarrow> ('r game_st_scheme, unit) op" where
  "delete_review_lists g = bnd (gets scan_split) (\<lambda>split.
     delete_keys_by_pattern game_redis split review_lists review_lists_update (\<lambda>k. fst k = g))"

definition delete_rcomment_lists :: "u64 \<Rightarrow> ('r game_st_scheme, unit) op" where
  "delete_rcomment_lists r = bnd (gets scan_split) (\<lambda>split.
     delete_keys_by_pattern game_redis split rcomment_lists rcomment_lists_update (\<lambda>k. fst k = r))"

definition get_cached_play :: "u64 \<Rightarrow> u64 \<Rightarrow> ('r game_st_scheme, play_view option) op" where
  "get_cached_play u g = cache_get game_redis play_cache (u, g)"

definition set_cached_play :: "play_view \<Rightarrow> ('r game_st_scheme, unit) op" where
  "set_cached_play v = cache_put game_redis play_cache_update (play_key (fst v)) v"

definition delete_cached_play :: "u64 \<Rightarrow> u64 \<Rightarrow> ('r game_st_scheme, unit) op" where
  "delete_cached_play u g = cache_del game_redis play_cache_update (u, g)"

definition get_play_list :: "u64 \<Rightarrow> ('r game_st_scheme, play_view list option) op" where
  "get_play_list u = cache_get game_redis play_lists u"

definition set_play_list :: "u64 \<Rightarrow> play_view list \<Rightarrow> ('r game_st_scheme, unit) op" where
  "set_play_list u l = cache_put game_redis play_lists_update u l"

definition delete_play_list :: "u64 \<Rightarrow> ('r game_st_scheme, unit) op" where
  "delete_play_list u = cache_del game_redis play_lists_update u"

definition get_user_game_orders :: "u64 \<Rightarrow> ('r game_st_scheme, game_order list option) op" where
  "get_user_game_orders u = (if u = 0 then ret None else cache_get game_redis order_lists u)"

definition set_user_game_orders :: "u64 \<Rightarrow> game_order list \<Rightarrow> ('r game_st_scheme, unit) op" where
  "set_user_game_orders u l = (if u = 0 then ret () else cache_put game_redis order_lists_update u l)"

definition del_user_game_orders :: "u64 \<Rightarrow> ('r game_st_scheme, unit) op" where
  "del_user_game_orders u = (if u = 0 then ret () else cache_del game_redis order_lists_update u)"

definition get_game_topic_map :: "u64 \<Rightarrow> ('r game_st_scheme, u64 option) op" where
  "get_game_topic_map g = cache_get game_redis topic_map g"

definition set_game_topic_map :: "u64 \<Rightarrow> u64 \<Rightarrow> ('r game_st_scheme, unit) op" where
  "set_game_topic_map g i = cache_put game_redis topic_map_update g i"

definition delete_game_topic_map :: "u64 \<Rightarrow> ('r game_st_scheme, unit) op" where
  "delete_game_topic_map g = cache_del game_redis topic_map_update g"

definition get_games_list :: "int \<Rightarrow> int \<Rightarrow> ('r game_st_scheme, (game list \<times> int) option) op" where
  "get_games_list page sz = cache_get game_redis game_lists (page, sz)"

definition set_games_list :: "int \<Rightarrow> int \<Rightarrow> game list \<times> int \<Rightarrow> ('r game_st_scheme, unit) op" where
  "set_games_list page sz l = cache_put game_redis game_lists_update (page, sz) l"

definition invalidate_games_list_cache :: "('r game_st_scheme, unit) op" where
  "invalidate_games_list_cache = bnd (gets scan_split) (\<lambda>split.
     delete_keys_by_pattern game_redis split game_lists game_lists_update (\<lambda>_. True))"

definition get_account_balance :: "u64 \<Rightarrow> ('r game_st_scheme, int option) op" where
  "get_account_balance u = (if u = 0 then ret None else cache_get user_redis balance_cache u)"

definition set_account_balance :: "u64 \<Rightarrow> int \<Rightarrow> ('r game_st_scheme, unit) op" where
  "set_account_balance u n = (if u = 0 then ret () else cache_put user_redis balance_cache_update u n)"

definition del_account_balance :: "u64 \<Rightarrow> ('r game_st_scheme, unit) op" where
  "del_account_balance u = (if u = 0 then ret () else cache_del user_redis balance_cache_update u)"

section \<open>Games\<close>

text \<open>A pointer argument is an option: \<open>None\<close> is nil.\<close>

definition ensure_game_topic_after_create :: "u64 \<Rightarrow> string \<Rightarrow> ('r game_st_scheme, u64) op" where
  "ensure_game_topic_after_create g name = (if g = 0 then ret 0 else
     bnd (ensure_game_topic g name) (\<lambda>i. bnd (ignore (delete_game_topic_map g)) (\<lambda>_. ret i)))"

definition create_game :: "game option \<Rightarrow> ('r game_st_scheme, game) op" where
  "create_game g = (case g of None \<Rightarrow> throw ErrGameInvalidParam | Some g \<Rightarrow>
     let g = g\<lparr>g_name := trim_space (g_name g)\<rparr> in
     if g_name g = [] then throw ErrGameInvalidParam else
     bnd (create_game_row g) (\<lambda>g.
     bnd (ensure_game_topic_after_create (g_id g) (g_name g)) (\<lambda>_.
     bnd (ignore invalidate_games_list_cache) (\<lambda>_. ret g))))"

definition create_game_with_topic :: "game option \<Rightarrow> ('r game_st_scheme, u64) op" where
  "create_game_with_topic g = bnd (create_game g) (\<lambda>g. get_topic_id_by_game_id (g_id g))"

definition update_game :: "game option \<Rightarrow> ('r game_st_scheme, unit) op" where
  "update_game g = (case g of None \<Rightarrow> throw ErrGameInvalidParam | Some g \<Rightarrow>
     if g_id g = 0 then throw ErrGameInvalidParam else
     let g = g\<lparr>g_name := trim_space (g_name g)\<rparr> in
     if g_name g = [] then throw ErrGameInvalidParam else
     bnd (update_game_row g) (\<lambda>_.
     bnd (ignore (delete_game_key (g_id g))) (\<lambda>_. ignore invalidate_games_list_cache)))"

definition delete_game :: "u64 \<Rightarrow> ('r game_st_scheme, unit) op" where
  "delete_game i = (if i = 0 then throw ErrGameInvalidParam else
     bnd (delete_game_row i) (\<lambda>_.
     bnd (ignore (delete_game_key i)) (\<lambda>_.
     bnd (ignore (delete_review_lists i)) (\<lambda>_.
     bnd (ignore (delete_game_topic_map i)) (\<lambda>_. ignore invalidate_games_list_cache)))))"

definition get_game_by_id :: "u64 \<Rightarrow> ('r game_st_scheme, game) op" where
  "get_game_by_id i = (if i = 0 then throw ErrGameInvalidParam else
     read_through (get_cached_game i) (get_game_row i) set_cached_game)"

definition list_games :: "int \<Rightarrow> int \<Rightarrow> ('r game_st_scheme, game list \<times> int) op" where
  "list_games page sz = (let page = (if page \<le> 0 then 1 else page); sz = (if sz \<le> 0 then 10 else sz) in
     read_through (get_games_list page sz) (list_games_rows page sz) (set_games_list page sz))"

section \<open>Reviews\<close>

definition review_ok :: "game_review \<Rightarrow> bool" where
  "review_ok r \<longleftrightarrow> rev_content r \<noteq> [] \<and> \<not> rev_rating r < 1 \<and> \<not> rev_rating r > 5"

definition create_review :: "game_review option \<Rightarrow> ('r game_st_scheme, game_review) op" where
  "create_review r = (case r of None \<Rightarrow> throw ErrGameInvalidParam | Some r \<Rightarrow>
     if rev_game r = 0 \<or> rev_user r = 0 then throw ErrGameInvalidParam else
     let r = r\<lparr>rev_content := trim_space (rev_content r)\<rparr> in
     if \<not> review_ok r then throw ErrGameInvalidParam else
     bnd (gets clock_now) (\<lambda>now.
     let r = r\<lparr>rev_reviewed := or_now now (rev_reviewed r)\<rparr> in
     bnd (attempt (get_review_by_game_and_user (rev_game r) (rev_user r))) (\<lambda>f. case f of
       Inr _ \<Rightarrow> throw (BizErr 400 40001)
     | Inl e \<Rightarrow> if e \<noteq> RecordNotFound then throw e else
     bnd (create_review_row r) (\<lambda>r.
     bnd (ignore (delete_review_lists (rev_game r))) (\<lambda>_. ret r)))))"

text \<open>What an edited or deleted review makes stale.\<close>

definition drop_review_caches :: "u64 \<Rightarrow> u64 \<Rightarrow> ('r game_st_scheme, unit) op" where
  "drop_review_caches i g =
     bnd (ignore (delete_review_key i)) (\<lambda>_.
     bnd (ignore (delete_review_lists g)) (\<lambda>_. ignore (delete_rcomment_lists i)))"

definition update_review :: "game_review option \<Rightarrow> ('r game_st_scheme, unit) op" where
  "update_review r = (case r of None \<Rightarrow> throw ErrGameInvalidParam | Some r \<Rightarrow>
     if rev_id r = 0 then throw ErrGameInvalidParam else
     let r = r\<lparr>rev_content := trim_space (rev_content r)\<rparr> in
     if \<not> review_ok r then throw ErrGameInvalidParam else
     bnd (gets clock_now) (\<lambda>now.
     let r = r\<lparr>rev_reviewed := or_now now (rev_reviewed r)\<rparr> in
     bnd (update_review_row r) (\<lambda>_. drop_review_caches (rev_id r) (rev_game r))))"

definition delete_review :: "u64 \<Rightarrow> ('r game_st_scheme, unit) op" where
  "delete_review i = (if i = 0 then throw ErrGameInvalidParam else
     bnd (get_review_row i) (\<lambda>r.
     bnd (delete_review_row i) (\<lambda>_. drop_review_caches i (rev_game r))))"

definition get_review_by_id :: "u64 \<Rightarrow> ('r game_st_scheme, game_review) op" where
  "get_review_by_id i = (if i = 0 then throw ErrGameInvalidParam else
     read_through (get_cached_review i) (get_review_row i) set_cached_review)"

text \<open>A page from the cache is answered with its own length as the total.\<close>

definition cached_page ::
  "('s, 'v list option) op \<Rightarrow> ('s, 'v list \<times> int) op \<Rightarrow> ('v list \<Rightarrow> ('s, unit) op) \<Rightarrow> ('s, 'v list \<times> int) op" where
  "cached_page get load put = bnd (attempt get) (\<lambda>c. case c of
       Inr (Some l) \<Rightarrow> ret (l, int (length l))
     | _ \<Rightarrow> bnd load (\<lambda>v. bnd (ignore (put (fst v))) (\<lambda>_. ret v)))"

definition list_reviews_by_game_id :: "u64 \<Rightarrow> int \<Rightarrow> int \<Rightarrow> ('r game_st_scheme, game_review list \<times> int) op" where
  "list_reviews_by_game_id g page sz = (if g = 0 then throw ErrGameInvalidParam else
     let page = (if page \<le> 0 then 1 else page); sz = (if sz \<le> 0 then 10 else sz) in
     cached_page (get_review_list g page sz) (list_reviews_rows g page sz) (set_review_list g page sz))"

section \<open>Comments on reviews\<close>

definition create_review_comment :: "review_comment option \<Rightarrow> ('r game_st_scheme, review_comment) op" where
  "create_review_comment c = (case c of None \<Rightarrow> throw ErrGameInvalidParam | Some c \<Rightarrow>
     if rc_review c = 0 \<or> rc_user c = 0 then throw ErrGameInvalidParam else
     let c = c\<lparr>rc_content := trim_space (rc_content c)\<rparr> in
     if rc_content c = [] then throw ErrGameInvalidParam else
     bnd (create_rcomment_row c) (\<lambda>c. bnd (ignore (delete_rcomment_lists (rc_review c))) (\<lambda>_. ret c)))"

definition get_review_comment_by_id :: "u64 \<Rightarrow> ('r game_st_scheme, review_comment) op" where
  "get_review_comment_by_id i = (if i = 0 then throw ErrGameInvalidParam else get_rcomment_row i)"

definition update_review_comment :: "review_comment option \<Rightarrow> ('r game_st_scheme, unit) op" where
  "update_review_comment c = (case c of None \<Rightarrow> throw ErrGameInvalidParam | Some c \<Rightarrow>
     if rc_id c = 0 then throw ErrGameInvalidParam else
     let c = c\<lparr>rc_content := trim_space (rc_content c)\<rparr> in
     if rc_content c = [] then throw ErrGameInvalidParam else
     bnd (update_rcomment_row c) (\<lambda>_. ignore (delete_rcomment_lists (rc_review c))))"

definition delete_review_comment :: "u64 \<Rightarrow> ('r game_st_scheme, unit) op" where
  "delete_review_comment i = (if i = 0 then throw ErrGameInvalidParam else
     bnd (get_rcomment_row i) (\<lambda>c.
     bnd (delete_rcomment_row i) (\<lambda>_. ignore (delete_rcomment_lists (rc_review c)))))"

definition list_review_comments :: "u64 \<Rightarrow> int \<Rightarrow> int \<Rightarrow> ('r game_st_scheme, review_comment list \<times> int) op" where
  "list_review_comments r page sz = (if r = 0 then throw ErrGameInvalidParam else
     let page = (if page \<le> 0 then 1 else page); sz = (if sz \<le> 0 then 20 else sz) in
     cached_page (get_rcomment_list r page sz) (list_rcomments_rows r page sz) (set_rcomment_list r page sz))"

section \<open>Plays, topics, stock\<close>

definition drop_play_caches :: "u64 \<Rightarrow> u64 \<Rightarrow> ('r game_st_scheme, unit) op" where
  "drop_play_caches u g = bnd (ignore (delete_cached_play u g)) (\<lambda>_. ignore (delete_play_list u))"

definition upsert_user_game_play :: "game_play option \<Rightarrow> ('r game_st_scheme, unit) op" where
  "upsert_user_game_play p = (case p of None \<Rightarrow> throw ErrGameInvalidParam | Some p \<Rightarrow>
     if gp_user p = 0 \<or> gp_game p = 0 then throw ErrGameInvalidParam else
     bnd (upsert_play_row p) (\<lambda>_. drop_play_caches (gp_user p) (gp_game p)))"

definition get_user_game_play :: "u64 \<Rightarrow> u64 \<Rightarrow> ('r game_st_scheme, play_view) op" where
  "get_user_game_play u g = (if u = 0 \<or> g = 0 then throw ErrGameInvalidParam else
     read_through (get_cached_play u g) (get_play_row u g) set_cached_play)"

definition list_user_game_plays :: "u64 \<Rightarrow> ('r game_st_scheme, play_view list) op" where
  "list_user_game_plays u = (if u = 0 then throw ErrGameInvalidParam else
     read_through (get_play_list u) (list_plays_rows u) (set_play_list u))"

definition delete_user_game_play :: "u64 \<Rightarrow> u64 \<Rightarrow> ('r game_st_scheme, unit) op" where
  "delete_user_game_play u g = (if u = 0 \<or> g = 0 then throw ErrGameInvalidParam else
     bnd (delete_play_row u g) (\<lambda>_. drop_play_caches u g))"

definition get_game_topic_id :: "u64 \<Rightarrow> ('r game_st_scheme, u64) op" where
  "get_game_topic_id g = (if g = 0 then throw ErrGameInvalidParam else
     read_through (get_game_topic_map g) (get_topic_id_by_game_id g) (set_game_topic_map g))"

text \<open>-1 stands for a free game: no limit.\<close>

definition stock_for_game :: "u64 \<Rightarrow> int \<Rightarrow> ('r game_st_scheme, int) op" where
  "stock_for_game g price = (if is_free_game price then ret (-1) else count_available_licenses g)"

record game_detail_vo =
  gd_game :: game
  gd_stock :: int
  gd_owned :: bool
  gd_free :: bool

definition get_game_detail_for_user :: "u64 \<Rightarrow> u64 \<Rightarrow> ('r game_st_scheme, game_detail_vo) op" where
  "get_game_detail_for_user i u = bnd (get_game_by_id i) (\<lambda>g.
     bnd (stock_for_game (g_id g) (g_price g)) (\<lambda>n.
     ret \<lparr>gd_game = g, gd_stock = n, gd_owned = False, gd_free = is_free_game (g_price g)\<rparr>))"

section \<open>Purchases\<close>

definition hash_idem :: "string \<Rightarrow> u64" where
  "hash_idem key = fnv_write fnv_offset (bytes key)"

text \<open>The order id: fresh, or a hash of the buyer, the game and the idempotency key.\<close>

definition purchase_order_id :: "u64 \<Rightarrow> u64 \<Rightarrow> string \<Rightarrow> ('r game_st_scheme, u64) op" where
  "purchase_order_id u g key = bnd generate_id (\<lambda>k.
     ret (if key \<noteq> [] then points_stable_txn_id u ''game_purchase_idem'' g (hash_idem key) else k))"

definition drop_purchase_caches :: "u64 \<Rightarrow> u64 \<Rightarrow> ('r game_st_scheme, unit) op" where
  "drop_purchase_caches u g =
     bnd (ignore (delete_cached_play u g)) (\<lambda>_.
     bnd (ignore (delete_play_list u)) (\<lambda>_.
     bnd (ignore (del_user_game_orders u)) (\<lambda>_. ignore (del_account_balance u))))"

definition purchase_game :: "u64 \<Rightarrow> u64 \<Rightarrow> string \<Rightarrow> ('r game_st_scheme, game_order) op" where
  "purchase_game u g key =
     bnd (get_game_by_id g) (\<lambda>game.
     bnd (purchase_order_id u g key) (\<lambda>order.
     bnd (purchase_in_tx (Some game) u order) (\<lambda>x.
     bnd (drop_purchase_caches u g) (\<lambda>_. ret x))))"

definition list_my_game_orders :: "u64 \<Rightarrow> ('r game_st_scheme, game_order list) op" where
  "list_my_game_orders u =
     read_through (get_user_game_orders u) (list_game_orders_by_user u 50) (set_user_game_orders u)"

end
