(* ===== verification/GameHandlers.thy ===== *)
theory GameHandlers
  imports GameService
begin

text \<open>
  The handlers of src/handler/game_handler.go and src/handler/topic_handler.go, from the decoded request
  on: path and query parameters are strings, a JSON body that does not decode is \<open>None\<close>, and a date is the
  result of \<open>time.Parse\<close> (\<open>None\<close> for an error). An error value is what \<open>ResponseError\<close> is called with.
\<close>

section \<open>Parameters\<close>

definition parse_uint64_param :: "string \<Rightarrow> u64 option" where
  "parse_uint64_param s = (case parse_uint (trim_space s) of None \<Rightarrow> None | Some v \<Rightarrow> if v = 0 then None else Some v)"

text \<open>\<open>ParseUint(\<dots>, 10, 32)\<close>\<close>

definition parse_uint_param :: "string \<Rightarrow> u64 option" where
  "parse_uint_param s = (case parse_uint (trim_space s) of None \<Rightarrow> None
     | Some v \<Rightarrow> if v = 0 \<or> unat v \<ge> 2 ^ 32 then None else Some v)"

definition encode_game_tags :: "string list option \<Rightarrow> string" where
  "encode_game_tags ts = json_strings (case ts of None \<Rightarrow> [] | Some ts \<Rightarrow> ts)"

text \<open>\<open>page, _ := strconv.Atoi(c.DefaultQuery(key, d))\<close>\<close>

definition query_int :: "string option \<Rightarrow> string \<Rightarrow> int" where
  "query_int q d = fst (atoi (case q of None \<Rightarrow> d | Some s \<Rightarrow> s))"

definition with_id :: "string \<Rightarrow> (u64 \<Rightarrow> ('s, 'a) op) \<Rightarrow> ('s, 'a) op" where
  "with_id s f = (case parse_uint64_param s of None \<Rightarrow> throw ErrCodeInvalidParam | Some i \<Rightarrow> f i)"

definition with_body :: "'p option \<Rightarrow> ('p \<Rightarrow> ('s, 'a) op) \<Rightarrow> ('s, 'a) op" where
  "with_body b f = (case b of None \<Rightarrow> throw ErrCodeInvalidParam | Some p \<Rightarrow> f p)"

text \<open>\<open>if err == gorm.ErrRecordNotFound { ResponseErrorWithMsg(\<dots>) }\<close>\<close>

definition or_not_found :: "('s, 'a) op \<Rightarrow> ('s, 'a) op" where
  "or_not_found m = bnd (attempt m) (\<lambda>r. case r of
       Inl e \<Rightarrow> throw (if e = RecordNotFound then MsgError else e) | Inr x \<Rightarrow> ret x)"

section \<open>Games\<close>

record game_param =
  pg_name :: string
  pg_description :: string
  pg_release :: "int option"
  pg_publisher :: string
  pg_developer :: string
  pg_cover :: string
  pg_price :: "int option"
  pg_tags :: "string list option"

definition create_game_handler :: "game_param option \<Rightarrow> ('r game_st_scheme, string) op" where
  "create_game_handler body = with_body body (\<lambda>p. case pg_release p of None \<Rightarrow> throw ErrCodeInvalidParam | Some release \<Rightarrow>
     bnd generate_id (\<lambda>k.
     bnd (create_game (Some \<lparr>g_id = k, g_name = pg_name p, g_description = pg_description p, g_release = release,
        g_publisher = pg_publisher p, g_developer = pg_developer p, g_cover = trim_space (pg_cover p),
        g_price = (case pg_price p of None \<Rightarrow> -1 | Some n \<Rightarrow> n), g_tags = Some (encode_game_tags (pg_tags p)),
        g_achievements = None, g_created = zero_time, g_updated = zero_time\<rparr>)) (\<lambda>g. ret (show_u64 (g_id g)))))"

definition update_game_handler :: "string \<Rightarrow> game_param option \<Rightarrow> ('r game_st_scheme, string) op" where
  "update_game_handler i body = with_id i (\<lambda>i. with_body body (\<lambda>p.
     bnd (or_not_found (get_game_by_id i)) (\<lambda>old. case pg_release p of None \<Rightarrow> throw ErrCodeInvalidParam | Some release \<Rightarrow>
     bnd (update_game (Some (old\<lparr>g_name := pg_name p, g_description := pg_description p, g_release := release,
        g_publisher := pg_publisher p, g_developer := pg_developer p, g_cover := trim_space (pg_cover p),
        g_price := (case pg_price p of None \<Rightarrow> g_price old | Some n \<Rightarrow> n),
        g_tags := Some (encode_game_tags (pg_tags p))\<rparr>))) (\<lambda>_. ret (show_u64 i)))))"

definition delete_game_handler :: "string \<Rightarrow> ('r game_st_scheme, unit) op" where
  "delete_game_handler i = with_id i delete_game"

definition get_game_handler :: "string \<Rightarrow> u64 \<Rightarrow> ('r game_st_scheme, game_detail_vo) op" where
  "get_game_handler i u = with_id i (\<lambda>i. or_not_found (get_game_detail_for_user i u))"

text \<open>The stock of each game of the page; a failed count shows as 0.\<close>

definition game_list_row :: "game \<Rightarrow> ('r game_st_scheme, game \<times> bool \<times> int) op" where
  "game_list_row g = bnd (attempt (stock_for_game (g_id g) (g_price g))) (\<lambda>n.
     ret (g, is_free_game (g_price g), case n of Inl _ \<Rightarrow> 0 | Inr n \<Rightarrow> n))"

definition list_games_handler :: "string option \<Rightarrow> string option \<Rightarrow> ('r game_st_scheme, (game \<times> bool \<times> int) list \<times> int) op" where
  "list_games_handler page sz = bnd (list_games (query_int page ''1'') (query_int sz ''10'')) (\<lambda>(l, total).
     bnd (map_each l game_list_row) (\<lambda>rows. ret (rows, total)))"

text \<open>The key of the body (\<open>\<open>''\<close>\<close> when it does not decode), or else the header's; the answer repeats the code.\<close>

definition purchase_game_handler :: "u64 \<Rightarrow> string \<Rightarrow> string \<Rightarrow> string \<Rightarrow> ('r game_st_scheme, game_order \<times> string) op" where
  "purchase_game_handler u i key header = (if u = 0 then throw ErrInvalidToken else with_id i (\<lambda>i.
     let idem = trim_space key; idem = (if idem = [] then trim_space header else idem) in
     bnd (purchase_game u i idem) (\<lambda>x. ret (x, go_code x))))"

definition list_my_game_orders_handler :: "u64 \<Rightarrow> ('r game_st_scheme, game_order list) op" where
  "list_my_game_orders_handler u = (if u = 0 then throw ErrInvalidToken else list_my_game_orders u)"

definition search_games_handler ::
  "(string \<Rightarrow> string \<Rightarrow> bool) \<Rightarrow> (game list \<Rightarrow> game list) \<Rightarrow> string \<Rightarrow> string option \<Rightarrow> ('r game_st_scheme, game list \<times> nat) op" where
  "search_games_handler like by_name q limit = (let q = trim_space q in if q = [] then throw ErrCodeInvalidParam else
     bnd (search_games_by_name like by_name q (query_int limit ''5'')) (\<lambda>l. ret (l, length l)))"

section \<open>Reviews\<close>

text \<open>A review's body: the rating (\<open>uint8\<close>) and the text.\<close>

definition create_review_handler :: "string \<Rightarrow> u64 \<Rightarrow> (nat \<times> string) option \<Rightarrow> ('r game_st_scheme, string) op" where
  "create_review_handler g u body = with_id g (\<lambda>g. with_body body (\<lambda>(rating, content).
     bnd generate_id (\<lambda>k. bnd (gets clock_now) (\<lambda>now.
     bnd (create_review (Some \<lparr>rev_id = k, rev_game = g, rev_user = u, rev_reviewed = now, rev_rating = rating,
        rev_content = content, rev_created = zero_time, rev_updated = zero_time\<rparr>)) (\<lambda>r. ret (show_u64 (rev_id r)))))))"

definition update_review_handler :: "string \<Rightarrow> u64 \<Rightarrow> (nat \<times> string) option \<Rightarrow> ('r game_st_scheme, string) op" where
  "update_review_handler i u body = with_id i (\<lambda>i. with_body body (\<lambda>(rating, content).
     bnd (or_not_found (get_review_by_id i)) (\<lambda>r. if rev_user r \<noteq> u then throw MsgError else
     bnd (gets clock_now) (\<lambda>now.
     bnd (update_review (Some (r\<lparr>rev_rating := rating, rev_content := content, rev_reviewed := now\<rparr>))) (\<lambda>_. ret (show_u64 i))))))"

definition delete_review_handler :: "string \<Rightarrow> u64 \<Rightarrow> ('r game_st_scheme, unit) op" where
  "delete_review_handler i u = with_id i (\<lambda>i.
     bnd (or_not_found (get_review_by_id i)) (\<lambda>r. if rev_user r \<noteq> u then throw MsgError else delete_review i))"

definition get_review_handler :: "string \<Rightarrow> ('r game_st_scheme, game_review) op" where
  "get_review_handler i = with_id i (\<lambda>i. or_not_found (get_review_by_id i))"

definition create_review_comment_handler :: "string \<Rightarrow> u64 \<Rightarrow> (u64 \<times> string) option \<Rightarrow> ('r game_st_scheme, string) op" where
  "create_review_comment_handler r u body = with_id r (\<lambda>r. with_body body (\<lambda>(parent, content).
     bnd generate_id (\<lambda>k.
     bnd (create_review_comment (Some \<lparr>rc_id = k, rc_review = r, rc_user = u, rc_parent = parent, rc_content = content,
        rc_created = zero_time, rc_updated = zero_time\<rparr>)) (\<lambda>c. ret (show_u64 (rc_id c))))))"

definition update_review_comment_handler :: "string \<Rightarrow> u64 \<Rightarrow> string option \<Rightarrow> ('r game_st_scheme, string) op" where
  "update_review_comment_handler i u body = with_id i (\<lambda>i. with_body body (\<lambda>content.
     bnd (or_not_found (get_review_comment_by_id i)) (\<lambda>c. if rc_user c \<noteq> u then throw MsgError else
     bnd (update_review_comment (Some (c\<lparr>rc_content := content\<rparr>))) (\<lambda>_. ret (show_u64 i)))))"

definition delete_review_comment_handler :: "string \<Rightarrow> u64 \<Rightarrow> ('r game_st_scheme, unit) op" where
  "delete_review_comment_handler i u = with_id i (\<lambda>i.
     bnd (or_not_found (get_review_comment_by_id i)) (\<lambda>c. if rc_user c \<noteq> u then throw MsgError else delete_review_comment i))"

definition list_review_comments_handler ::
  "string \<Rightarrow> string option \<Rightarrow> string option \<Rightarrow> ('r game_st_scheme, review_comment list \<times> int) op" where
  "list_review_comments_handler r page sz = with_id r (\<lambda>r. list_review_comments r (query_int page ''1'') (query_int sz ''20''))"

section \<open>Plays\<close>

record play_param =
  pp_game :: string
  pp_total :: u64
  pp_two_weeks :: u64
  pp_achieved :: "nat list"

definition upsert_my_game_play :: "u64 \<Rightarrow> play_param option \<Rightarrow> ('r game_st_scheme, unit) op" where
  "upsert_my_game_play u body = with_body body (\<lambda>p. with_id (pp_game p) (\<lambda>g.
     upsert_user_game_play (Some \<lparr>gp_user = u, gp_game = g, gp_total = pp_total p, gp_two_weeks = pp_two_weeks p,
       gp_achieved = (if pp_achieved p = [] then None else Some (''['' @ join_with '','' (map show_nat (pp_achieved p)) @ '']'')),
       gp_updated = zero_time, gp_created = zero_time\<rparr>)))"

definition get_user_game_plays :: "string \<Rightarrow> ('r game_st_scheme, play_view list) op" where
  "get_user_game_plays u = with_id u list_user_game_plays"

definition delete_my_game_play :: "u64 \<Rightarrow> string \<Rightarrow> ('r game_st_scheme, unit) op" where
  "delete_my_game_play u g = with_id g (delete_user_game_play u)"

section \<open>Topics\<close>

definition with_topic_id :: "string \<Rightarrow> (u64 \<Rightarrow> ('s, 'a) op) \<Rightarrow> ('s, 'a) op" where
  "with_topic_id s f = (case parse_uint_param s of None \<Rightarrow> throw ErrCodeInvalidParam | Some i \<Rightarrow> f i)"

definition clamp_query :: "int \<Rightarrow> int \<Rightarrow> int \<Rightarrow> int" where
  "clamp_query d m n = (let n = (if n \<le> 0 then d else n) in if n > m then m else n)"

definition page_query :: "string option \<Rightarrow> int" where
  "page_query q = (let n = query_int q ''1'' in if n \<le> 0 then 1 else n)"

definition delete_temporary_topic_handler :: "string \<Rightarrow> ('r topics_st_scheme, unit) op" where
  "delete_temporary_topic_handler i = with_topic_id i delete_temporary_topic"

definition get_topics_public :: "string option \<Rightarrow> string option \<Rightarrow> ('r topics_st_scheme, topic list \<times> int) op" where
  "get_topics_public page sz =
     bnd (attempt (list_active_topics_paged (page_query page) (clamp_query 6 30 (query_int sz ''6'')))) (\<lambda>r. case r of
       Inl _ \<Rightarrow> throw CodeServerBusy | Inr x \<Rightarrow> ret x)"

text \<open>The kind of a new topic: the old flag, if it is there, or the new field, up to letter case (ASCII).\<close>

definition to_lower :: "string \<Rightarrow> string" where
  "to_lower s = map (\<lambda>c. let n = of_char c :: nat in if 65 \<le> n \<and> n \<le> 90 then char_of (n + 32) else c) s"

definition temporary_kind :: "bool option \<Rightarrow> string \<Rightarrow> bool" where
  "temporary_kind flag kind = (case flag of Some b \<Rightarrow> b
     | None \<Rightarrow> to_lower (trim_space kind) = ''temporary'' \<or> trim_space kind = utf8 [228, 184, 180, 230, 151, 182])"

definition create_topic_auth :: "(string \<times> string \<times> bool option) option \<Rightarrow> ('r topics_st_scheme, topic) op" where
  "create_topic_auth body = with_body body (\<lambda>(name, kind, flag).
     service_create_topic (trim_space name) (temporary_kind flag kind))"

definition get_topic_articles_public ::
  "string \<Rightarrow> string option \<Rightarrow> string option \<Rightarrow> ('r topics_st_scheme, (article \<times> tag list) list \<times> int) op" where
  "get_topic_articles_public i page sz = with_topic_id i (\<lambda>i.
     list_topic_articles i (page_query page) (clamp_query 30 30 (query_int sz ''30'')))"

definition get_topic_discussions_public ::
  "string \<Rightarrow> string option \<Rightarrow> string option \<Rightarrow> ('r topics_st_scheme, (topic_discussion \<times> string) list \<times> int) op" where
  "get_topic_discussions_public i page sz = with_topic_id i (\<lambda>i.
     list_discussions i (page_query page) (clamp_query 20 50 (query_int sz ''20'')))"

definition create_topic_discussion_auth :: "string \<Rightarrow> u64 \<Rightarrow> string option \<Rightarrow> ('r topics_st_scheme, unit) op" where
  "create_topic_discussion_auth i u body = with_topic_id i (\<lambda>i.
     if u = 0 then throw ErrInvalidToken else with_body body (create_discussion i u))"

end
