(* ===== verification/GameStore.thy ===== *)
theory GameStore
  imports GameService TopicProps
begin

text \<open>
  Correctness of the game store: every paid order has its own licence, no balance falls below zero, a new
  order is charged once, a failed purchase changes nothing, and what happens when a request is repeated
  with its idempotency key.
\<close>

section \<open>The parts of a purchase\<close>

lemma not_has_upd: "\<not> has_row key k rows \<Longrightarrow> upd_rows (\<lambda>q. key q = k) f rows = rows"
  by (rule upd_rows_none) (auto simp: has_row_def)

lemma upsert_play_rowE:
  assumes "upsert_play_row p s = (Inr (), t)"
  obtains fs ps where "t = s\<lparr>faults := fs, plays := ps\<rparr>" and "has_row play_key (play_key p) ps"
    and "\<And>k. k \<noteq> play_key p \<Longrightarrow> row_of play_key k ps = row_of play_key k (plays s)"
proof -
  have key: "play_key (p\<lparr>gp_updated := n\<rparr>) = play_key p" "play_key (p\<lparr>gp_updated := n, gp_created := m\<rparr>) = play_key p" for n m
    by (simp_all add: play_key_def)
  let ?ps = "if has_row play_key (play_key p) (plays s)
      then upd_rows (\<lambda>q. play_key q = play_key p) (\<lambda>_. p\<lparr>gp_updated := clock_now s\<rparr>) (plays s)
      else plays s @ [p\<lparr>gp_updated := clock_now s, gp_created := or_now (clock_now s) (gp_created p)\<rparr>]"
  from assms obtain fs where t: "t = s\<lparr>faults := fs, plays := ?ps\<rparr>"
    by (auto simp: upsert_play_row_def save_existing_def key op_eqs not_has_upd split: if_splits elim!: bnd_InrE io_InrE)
  moreover have "has_row play_key (play_key p) (upd_rows (\<lambda>q. play_key q = play_key p) (\<lambda>_. p\<lparr>gp_updated := n\<rparr>) rows)"
    if "has_row play_key (play_key p) rows" for n and rows :: "game_play list"
    unfolding has_row_def by (rule bexI [of _ "p\<lparr>gp_updated := n\<rparr>"]) (use that in \<open>auto simp: has_row_def set_upd key\<close>)
  moreover have "row_of play_key k (upd_rows (\<lambda>q. play_key q = play_key p) (\<lambda>_. p\<lparr>gp_updated := n\<rparr>) rows) = row_of play_key k rows"
    if "k \<noteq> play_key p" for k n and rows :: "game_play list"
    using that by (induction rows) (auto simp: upd_rows_def key)
  ultimately show thesis
    by (intro that [OF t]) (auto simp: key split: option.split)
qed

lemma existing_orderE:
  assumes "existing_order order e s = (Inr x, t)"
  obtains fs where "t = s\<lparr>faults := fs\<rparr>" and "row_of go_id order (game_orders s) = Some x" and "e = DupKey"
  using assms
  by (auto simp: existing_order_def get_game_order_by_id_def op_eqs split: if_splits sum.splits option.splits elim!: bnd_InrE io_InrE)

lemma place_game_orderE:
  assumes "place_game_order g u order price now code s = (Inr x, t)"
  obtains (new) fs ps where "x = new_order g u order price now code" and "\<not> has_row go_id order (game_orders s)"
      and "t = s\<lparr>faults := fs, game_orders := game_orders s @ [x], plays := ps\<rparr>" and "has_row play_key (u, g_id g) ps"
    | (existing) fs where "row_of go_id order (game_orders s) = Some x" and "t = s\<lparr>faults := fs\<rparr>"
proof -
  let ?x = "new_order g u order price now code"
  have id: "go_id ?x = order" by (simp add: new_order_def)
  from assms obtain r q where ins: "insert_game_order ?x s = (r, q)"
    and rest: "(case r of Inl e \<Rightarrow> existing_order order e | Inr _ \<Rightarrow> bnd (upsert_play_row (blank_play u (g_id g))) (\<lambda>_. ret ?x)) q = (Inr x, t)"
    unfolding place_game_order_def by (elim bnd_InrE) (simp add: attempt_eq_Inr)
  show thesis
  proof (cases r)
    case (Inl e)
    then have "game_orders q = game_orders s" "\<exists>fs. q = s\<lparr>faults := fs\<rparr>"
      using ins by (auto simp: insert_game_order_def split: if_splits elim!: io_cases)
    with rest Inl show thesis by (auto intro: existing elim!: existing_orderE)
  next
    case (Inr v)
    then obtain fs where q: "q = s\<lparr>faults := fs, game_orders := game_orders s @ [?x]\<rparr>" and "\<not> has_row go_id order (game_orders s)"
      using ins by (auto simp: insert_game_order_def id split: if_splits elim!: io_InrE)
    moreover from rest Inr have x: "x = ?x" and "upsert_play_row (blank_play u (g_id g)) q = (Inr (), t)"
      by (auto simp: ret_eq elim!: bnd_InrE)
    then obtain gs ps where "t = q\<lparr>faults := gs, plays := ps\<rparr>" "has_row play_key (u, g_id g) ps"
      by (auto simp: play_key_def blank_play_def elim!: upsert_play_rowE)
    ultimately show thesis using x by (intro new [of ps gs]) simp_all
  qed
qed

definition charged :: "u64 \<Rightarrow> int \<Rightarrow> user list \<Rightarrow> user list" where
  "charged u yuan rows = upd_rows (\<lambda>r. u_id r = u \<and> u_balance r \<ge> yuan) (\<lambda>r. r\<lparr>u_balance := u_balance r - yuan\<rparr>) rows"

abbreviation game_yuan :: "game \<Rightarrow> int" where
  "game_yuan g \<equiv> charge_yuan (normalize_game_price_cents (g_price g))"

lemma charge_accountE:
  assumes "charge_account u yuan s = (Inr (), t)"
  obtains fs where "t = s\<lparr>faults := fs, users := charged u yuan (users s)\<rparr>"
  using assms by (auto simp: charge_account_def charged_def op_eqs Let_def split: if_splits elim!: bnd_InrE io_InrE)

text \<open>What the paid part leaves: charged, and either a licence was sold or the order was there already.\<close>

definition paid_now :: "game \<Rightarrow> u64 \<Rightarrow> u64 \<Rightarrow> user \<Rightarrow> license_code \<Rightarrow> 'r game_st_scheme \<Rightarrow> 'r game_st_scheme \<Rightarrow> bool" where
  "paid_now g u order usr lic s t \<longleftrightarrow>
     (let x = purchase_txn u g order (game_yuan g) (u_balance usr - game_yuan g) (clock_now s) in
      \<not> has_row at_id (at_id x) (account_txns s) \<and> (\<exists>fs. t = s\<lparr>faults := fs, users := charged u (game_yuan g) (users s),
        account_txns := account_txns s @ [x], licenses := upd_rows (\<lambda>l. lic_id l = lic_id lic \<and> lic_status l = game_code_available)
          (sell_license order u (clock_now s)) (licenses s)\<rparr>))"

definition paid_before :: "game \<Rightarrow> u64 \<Rightarrow> u64 \<Rightarrow> game_order \<Rightarrow> 'r game_st_scheme \<Rightarrow> 'r game_st_scheme \<Rightarrow> bool" where
  "paid_before g u order y s t \<longleftrightarrow> row_of go_id order (game_orders s) = Some y \<and>
     has_row at_id (points_stable_txn_id u ''game_purchase'' order (g_id g)) (account_txns s) \<and>
     (\<exists>usr. row_of u_id u (users s) = Some usr \<and> game_yuan g \<le> u_balance usr) \<and> (\<exists>fs. t = s\<lparr>faults := fs, users := charged u (game_yuan g) (users s)\<rparr>)"

lemma pay_for_gameE:
  assumes "pay_for_game g u order (clock_now s) s = (Inr p, t)"
  obtains lic usr where "first_row lic_id (license_free (g_id g)) (licenses s) = Some lic"
    and "row_of u_id u (users s) = Some usr" and "game_yuan g \<le> u_balance usr"
    and "p = Inr (lic_code lic) \<and> paid_now g u order usr lic s t \<or> (\<exists>y. p = Inl y \<and> paid_before g u order y s t)"
proof -
  let ?yuan = "game_yuan g" and ?now = "clock_now s"
  from assms obtain f0 where pay: "(case first_row lic_id (license_free (g_id g)) (licenses s) of
        None \<Rightarrow> throw ErrGameOutOfStock
      | Some lic \<Rightarrow>
      bnd (get_user_for_update u) (\<lambda>user.
      if u_balance user < ?yuan then throw ErrInsufficientAccount else
      bnd (charge_account u ?yuan) (\<lambda>_.
      bnd (attempt (insert_account_txn (purchase_txn u g order ?yuan (u_balance user - ?yuan) ?now))) (\<lambda>r. case r of
        Inl e \<Rightarrow> bnd (existing_order order e) (\<lambda>x. ret (Inl x))
      | Inr _ \<Rightarrow> bnd (mark_license_sold (lic_id lic) order u ?now) (\<lambda>_. ret (Inr (lic_code lic))))))) (s\<lparr>faults := f0\<rparr>) = (Inr p, t)"
    by (auto simp: pay_for_game_def Let_def gets_eq elim!: bnd_InrE io_InrE)
  then obtain lic where lic: "first_row lic_id (license_free (g_id g)) (licenses s) = Some lic"
    by (cases "first_row lic_id (license_free (g_id g)) (licenses s)") (simp_all add: throw_eq)
  let ?x = "\<lambda>usr. purchase_txn u g order ?yuan (u_balance usr - ?yuan) ?now"
  from pay lic obtain usr f1 q r v where usr: "row_of u_id u (users s) = Some usr" "?yuan \<le> u_balance usr"
    and q: "charge_account u ?yuan (s\<lparr>faults := f1\<rparr>) = (Inr (), q)"
    and ins: "insert_account_txn (?x usr) q = (r, v)" and last: "(case r of
        Inl e \<Rightarrow> bnd (existing_order order e) (\<lambda>x. ret (Inl x))
      | Inr _ \<Rightarrow> bnd (mark_license_sold (lic_id lic) order u ?now) (\<lambda>_. ret (Inr (lic_code lic)))) v = (Inr p, t)"
    by (auto simp: get_user_for_update_def throw_eq attempt_eq_Inr split: option.splits if_splits elim!: bnd_InrE io_InrE)
  from q obtain f2 where q: "q = s\<lparr>faults := f2, users := charged u ?yuan (users s)\<rparr>"
    by (auto elim!: charge_accountE)
  have id: "at_id (?x usr) = points_stable_txn_id u ''game_purchase'' order (g_id g)" by (simp add: purchase_txn_def)
  have "p = Inr (lic_code lic) \<and> paid_now g u order usr lic s t \<or> (\<exists>y. p = Inl y \<and> paid_before g u order y s t)"
  proof (cases r)
    case (Inl e)
    with last obtain y where "existing_order order e v = (Inr y, t)" and p: "p = Inl y" by (auto simp: ret_eq elim!: bnd_InrE)
    then obtain f3 where t: "t = v\<lparr>faults := f3\<rparr>" and y: "row_of go_id order (game_orders v) = Some y" and "e = DupKey"
      by (elim existing_orderE)
    with ins Inl obtain f4 where "v = q\<lparr>faults := f4\<rparr>" "has_row at_id (at_id (?x usr)) (account_txns q)"
      by (auto simp: insert_account_txn_def split: if_splits elim!: io_InlE)
    with t y q p id usr show ?thesis by (auto simp: paid_before_def intro!: exI [of _ f3])
  next
    case (Inr z)
    with ins obtain f3 where v: "v = q\<lparr>faults := f3, account_txns := account_txns q @ [?x usr]\<rparr>" "\<not> has_row at_id (at_id (?x usr)) (account_txns q)"
      by (auto simp: insert_account_txn_def split: if_splits elim!: io_InrE)
    from last Inr obtain f4 where "p = Inr (lic_code lic)" and "t = v\<lparr>faults := f4, licenses :=
        upd_rows (\<lambda>l. lic_id l = lic_id lic \<and> lic_status l = game_code_available) (sell_license order u ?now) (licenses v)\<rparr>"
      by (auto simp: mark_license_sold_def op_eqs elim!: bnd_InrE io_InrE)
    with v q show ?thesis by (simp add: paid_now_def Let_def) (intro exI [of _ f4], simp)
  qed
  with lic usr show thesis by (rule that)
qed

section \<open>A purchase as a whole\<close>

text \<open>
  A purchase that returns an order has either placed it now, \<open>order_placed\<close>, free or with the licence it
  sold, or it found an order with that id, \<open>order_found\<close>; in the second case a paid request has still
  charged the account, and may have taken a licence.
\<close>

definition order_placed :: "game \<Rightarrow> u64 \<Rightarrow> u64 \<Rightarrow> game_order \<Rightarrow> 'r game_st_scheme \<Rightarrow> 'r game_st_scheme \<Rightarrow> bool" where
  "order_placed g u order x s t \<longleftrightarrow> \<not> has_row go_id order (game_orders s) \<and> (\<exists>q fs ps.
     t = q\<lparr>faults := fs, game_orders := game_orders s @ [x], plays := ps\<rparr> \<and> has_row play_key (u, g_id g) ps \<and>
     (if is_free_game (g_price g) then q = s \<and> x = new_order g u order (g_price g) (clock_now s) ''FREE''
      else (\<exists>lic usr. first_row lic_id (license_free (g_id g)) (licenses s) = Some lic \<and> row_of u_id u (users s) = Some usr \<and>
        game_yuan g \<le> u_balance usr \<and> paid_now g u order usr lic s q \<and>
        x = new_order g u order (normalize_game_price_cents (g_price g)) (clock_now s) (lic_code lic))))"

definition order_found :: "game \<Rightarrow> u64 \<Rightarrow> u64 \<Rightarrow> game_order \<Rightarrow> 'r game_st_scheme \<Rightarrow> 'r game_st_scheme \<Rightarrow> bool" where
  "order_found g u order x s t \<longleftrightarrow> row_of go_id order (game_orders s) = Some x \<and> (\<exists>q fs. t = q\<lparr>faults := fs\<rparr> \<and>
     (if is_free_game (g_price g) then q = s
      else paid_before g u order x s q \<or> (\<exists>lic usr. first_row lic_id (license_free (g_id g)) (licenses s) = Some lic \<and>
        row_of u_id u (users s) = Some usr \<and> paid_now g u order usr lic s q)))"

lemma paid_now_frame:
  assumes "paid_now g u order usr lic s q"
  shows "game_orders q = game_orders s" and "plays q = plays s" and "clock_now q = clock_now s"
    and "users q = charged u (game_yuan g) (users s)"
    and "licenses q = upd_rows (\<lambda>l. lic_id l = lic_id lic \<and> lic_status l = game_code_available)
      (sell_license order u (clock_now s)) (licenses s)"
  using assms by (auto simp: paid_now_def Let_def)

lemma purchase_body_outcome:
  assumes "purchase_body g u order s = (Inr x, t)"
  shows "order_placed g u order x s t \<or> order_found g u order x s t"
proof (cases "is_free_game (g_price g)")
  case True
  with assms have "place_game_order g u order (g_price g) (clock_now s) ''FREE'' s = (Inr x, t)"
    by (simp add: purchase_body_def bnd_def gets_run)
  then show ?thesis
  proof (cases rule: place_game_orderE)
    case (new fs ps)
    with True show ?thesis by (auto simp: order_placed_def)
  next
    case (existing fs)
    with True show ?thesis by (auto simp: order_found_def)
  qed
next
  case False
  with assms obtain p q where pay: "pay_for_game g u order (clock_now s) s = (Inr p, q)" and last: "(case p of Inl x \<Rightarrow> ret x
      | Inr code \<Rightarrow> place_game_order g u order (normalize_game_price_cents (g_price g)) (clock_now s) code) q = (Inr x, t)"
    by (auto simp: purchase_body_def gets_eq elim!: bnd_InrE)
  from pay show ?thesis
  proof (rule pay_for_gameE)
    fix lic usr
    assume found: "first_row lic_id (license_free (g_id g)) (licenses s) = Some lic" "row_of u_id u (users s) = Some usr"
      "game_yuan g \<le> u_balance usr"
      and "p = Inr (lic_code lic) \<and> paid_now g u order usr lic s q \<or> (\<exists>y. p = Inl y \<and> paid_before g u order y s q)"
    then consider (now) "p = Inr (lic_code lic)" "paid_now g u order usr lic s q" | (before) y where "p = Inl y" "paid_before g u order y s q"
      by blast
    then show ?thesis
    proof cases
      case now
      with last have "place_game_order g u order (normalize_game_price_cents (g_price g)) (clock_now s) (lic_code lic) q = (Inr x, t)"
        by simp
      then show ?thesis
      proof (cases rule: place_game_orderE)
        case (new fs ps)
        with False found now(2) paid_now_frame(1) [OF now(2)] show ?thesis
          by (auto simp: order_placed_def intro!: exI [of _ q] exI [of _ fs] exI [of _ ps])
      next
        case (existing fs)
        with False found now(2) paid_now_frame(1) [OF now(2)] show ?thesis by (auto simp: order_found_def)
      qed
    next
      case before
      with last have "x = y" "t = q" by (simp_all add: ret_eq)
      moreover have "\<exists>fs. q = q\<lparr>faults := fs\<rparr>" by (intro exI [of _ "faults q"]) simp
      moreover from before have "row_of go_id order (game_orders s) = Some y" by (simp add: paid_before_def)
      ultimately show ?thesis using False before(2) unfolding order_found_def by auto
    qed
  qed
qed

section \<open>The invariant of the store\<close>

definition order_licensed :: "license_code list \<Rightarrow> game_order \<Rightarrow> bool" where
  "order_licensed ls x \<longleftrightarrow> go_code x = ''FREE'' \<or> (\<exists>l \<in> set ls. lic_code l = go_code x \<and> lic_status l = game_code_sold \<and>
     lic_order l = go_id x \<and> lic_buyer l = go_user x \<and> lic_game l = go_game x)"

definition store_inv :: "'r game_st_scheme \<Rightarrow> bool" where
  "store_inv s \<longleftrightarrow> distinct (map lic_id (licenses s)) \<and> distinct (map lic_code (licenses s)) \<and>
     distinct (map go_id (game_orders s)) \<and> (\<forall>x \<in> set (game_orders s). order_licensed (licenses s) x) \<and>
     (\<forall>r \<in> set (users s). 0 \<le> u_balance r)"

lemma store_inv_tables: "game_tables s = game_tables t \<Longrightarrow> store_inv s = store_inv t"
  by (simp add: game_tables_def store_inv_def)

lemma sell_license_simps [simp]:
  "lic_id (sell_license order u now l) = lic_id l" "lic_code (sell_license order u now l) = lic_code l"
  "lic_game (sell_license order u now l) = lic_game l" "lic_status (sell_license order u now l) = game_code_sold"
  "lic_order (sell_license order u now l) = order" "lic_buyer (sell_license order u now l) = u"
  by (simp_all add: sell_license_def)

text \<open>A licence that is sold backs the order it is sold to, and those sold before still back theirs.\<close>

lemma order_licensed_sell:
  assumes "order_licensed ls x"
  shows "order_licensed (upd_rows (\<lambda>l. lic_id l = i \<and> lic_status l = game_code_available) (sell_license order u now) ls) x"
proof (cases "go_code x = ''FREE''")
  case False
  with assms obtain l where "l \<in> set ls" "lic_status l = game_code_sold" "lic_code l = go_code x"
    "lic_order l = go_id x" "lic_buyer l = go_user x" "lic_game l = go_game x" by (auto simp: order_licensed_def)
  moreover from this have "l \<in> set (upd_rows (\<lambda>l. lic_id l = i \<and> lic_status l = game_code_available) (sell_license order u now) ls)"
    unfolding set_upd by (intro bexI [of _ l]) (simp_all add: game_code_available_def game_code_sold_def)
  ultimately show ?thesis by (auto simp: order_licensed_def)
qed (simp add: order_licensed_def)

lemma order_licensed_new:
  assumes "first_row lic_id (license_free (g_id g)) ls = Some lic"
  shows "order_licensed (upd_rows (\<lambda>l. lic_id l = lic_id lic \<and> lic_status l = game_code_available) (sell_license order u now) ls)
    (new_order g u order price n (lic_code lic))"
proof -
  from first_row_Some [OF assms] have "sell_license order u now lic \<in>
      set (upd_rows (\<lambda>l. lic_id l = lic_id lic \<and> lic_status l = game_code_available) (sell_license order u now) ls)"
    and "lic_game lic = g_id g"
    by (auto simp: set_upd license_free_def)
  then show ?thesis unfolding order_licensed_def by (intro disjI2 bexI) (simp_all add: new_order_def)
qed

lemma charged_nonneg: "\<forall>r \<in> set rows. 0 \<le> u_balance r \<Longrightarrow> \<forall>r \<in> set (charged u yuan rows). 0 \<le> u_balance r"
  by (auto simp: charged_def set_upd)

lemma store_inv_paid:
  assumes "store_inv s" and "paid_now g u order usr lic s q"
  shows "store_inv q"
  using assms paid_now_frame [OF assms(2)] by (auto simp: store_inv_def order_licensed_sell charged_nonneg)

lemma purchase_body_inv:
  assumes "store_inv s" and "purchase_body g u order s = (Inr x, t)"
  shows "store_inv t"
  using purchase_body_outcome [OF assms(2)]
proof
  assume "order_placed g u order x s t"
  then obtain q fs ps where fresh: "\<not> has_row go_id order (game_orders s)"
    and t: "t = q\<lparr>faults := fs, game_orders := game_orders s @ [x], plays := ps\<rparr>"
    and q: "if is_free_game (g_price g) then q = s \<and> x = new_order g u order (g_price g) (clock_now s) ''FREE''
      else (\<exists>lic usr. first_row lic_id (license_free (g_id g)) (licenses s) = Some lic \<and> row_of u_id u (users s) = Some usr \<and>
        game_yuan g \<le> u_balance usr \<and> paid_now g u order usr lic s q \<and>
        x = new_order g u order (normalize_game_price_cents (g_price g)) (clock_now s) (lic_code lic))"
    unfolding order_placed_def by blast
  have id: "go_id x = order" using q by (auto simp: new_order_def split: if_splits)
  have "store_inv q \<and> game_orders q = game_orders s \<and> order_licensed (licenses q) x"
  proof (cases "is_free_game (g_price g)")
    case True
    with q assms(1) show ?thesis by (simp add: order_licensed_def new_order_def)
  next
    case False
    with q obtain lic usr where lic: "first_row lic_id (license_free (g_id g)) (licenses s) = Some lic"
      and paid: "paid_now g u order usr lic s q"
      and x: "x = new_order g u order (normalize_game_price_cents (g_price g)) (clock_now s) (lic_code lic)" by auto
    from paid_now_frame [OF paid] store_inv_paid [OF assms(1) paid] order_licensed_new [OF lic] show ?thesis by (simp add: x)
  qed
  with fresh id t show ?thesis by (auto simp: store_inv_def not_has_row_notin)
next
  assume "order_found g u order x s t"
  then obtain q fs where t: "t = q\<lparr>faults := fs\<rparr>" and q: "if is_free_game (g_price g) then q = s
      else paid_before g u order x s q \<or> (\<exists>lic usr. first_row lic_id (license_free (g_id g)) (licenses s) = Some lic \<and>
        row_of u_id u (users s) = Some usr \<and> paid_now g u order usr lic s q)"
    unfolding order_found_def by blast
  have "store_inv q" if "paid_before g u order x s q"
    using that assms(1) by (auto simp: paid_before_def store_inv_def charged_nonneg)
  with q assms(1) store_inv_paid have "store_inv q" by (auto split: if_splits)
  with t show ?thesis by (simp add: store_inv_def)
qed

lemma keeps_store_inv_tx: "keeps store_inv (tx game_rollback (purchase_body g u order))"
  by (rule game_db.tx_keeps) (auto intro: purchase_body_inv dest: store_inv_tables)

text \<open>A licence that is still free names no order and no buyer.\<close>

definition free_unsold :: "'r game_st_scheme \<Rightarrow> bool" where
  "free_unsold s \<longleftrightarrow> (\<forall>l \<in> set (licenses s). lic_status l = game_code_available \<longrightarrow> lic_order l = 0 \<and> lic_buyer l = 0)"

lemma free_unsold_tables: "game_tables s = game_tables t \<Longrightarrow> free_unsold s = free_unsold t"
  by (simp add: game_tables_def free_unsold_def)

lemma free_unsold_sell:
  assumes "free_unsold s" and "licenses t = upd_rows P (sell_license order u now) (licenses s)"
  shows "free_unsold t"
  using assms by (auto simp: free_unsold_def set_upd game_code_available_def game_code_sold_def)

lemma purchase_body_unsold:
  assumes "free_unsold s" and "purchase_body g u order s = (Inr x, t)"
  shows "free_unsold t"
proof -
  have paid: "free_unsold q" if "paid_now g u order usr lic s q" for usr lic q
    using free_unsold_sell [OF assms(1) paid_now_frame(5) [OF that]] .
  have same: "free_unsold q" if "licenses q = licenses s" for q :: "'a game_st_scheme"
    using that assms(1) by (simp add: free_unsold_def)
  from purchase_body_outcome [OF assms(2)] show ?thesis
  proof
    assume "order_placed g u order x s t"
    then obtain q fs ps where t: "t = q\<lparr>faults := fs, game_orders := game_orders s @ [x], plays := ps\<rparr>"
      and "if is_free_game (g_price g) then q = s \<and> x = new_order g u order (g_price g) (clock_now s) ''FREE''
        else (\<exists>lic usr. first_row lic_id (license_free (g_id g)) (licenses s) = Some lic \<and> row_of u_id u (users s) = Some usr \<and>
          game_yuan g \<le> u_balance usr \<and> paid_now g u order usr lic s q \<and>
          x = new_order g u order (normalize_game_price_cents (g_price g)) (clock_now s) (lic_code lic))"
      unfolding order_placed_def by blast
    then have "q = s \<or> (\<exists>lic usr. paid_now g u order usr lic s q)" by (auto split: if_splits)
    with paid same have "free_unsold q" by blast
    with t show ?thesis by (simp add: free_unsold_def)
  next
    assume "order_found g u order x s t"
    then obtain q fs where t: "t = q\<lparr>faults := fs\<rparr>" and "if is_free_game (g_price g) then q = s
        else paid_before g u order x s q \<or> (\<exists>lic usr. first_row lic_id (license_free (g_id g)) (licenses s) = Some lic \<and>
          row_of u_id u (users s) = Some usr \<and> paid_now g u order usr lic s q)"
      unfolding order_found_def by blast
    then have "q = s \<or> paid_before g u order x s q \<or> (\<exists>lic usr. paid_now g u order usr lic s q)" by (auto split: if_splits)
    moreover have "free_unsold q" if "paid_before g u order x s q" using that by (intro same) (auto simp: paid_before_def)
    ultimately have "free_unsold q" using paid same by blast
    with t show ?thesis by (simp add: free_unsold_def)
  qed
qed

lemma keeps_unsold_tx: "keeps free_unsold (tx game_rollback (purchase_body g u order))"
  by (rule game_db.tx_keeps) (auto intro: purchase_body_unsold dest: free_unsold_tables)

text \<open>What only touches Redis, the id generator or the script of faults leaves the tables alone.\<close>

lemma quietly_game_tables: "quietly (\<lambda>s. game_tables s = c)"
  by (simp add: quietly_def game_db.tables_faults)

lemma keeps_tables_caches:
  "keeps (\<lambda>s. game_tables s = c) (get_cached_game i)" "keeps (\<lambda>s. game_tables s = c) (set_cached_game x)"
  "keeps (\<lambda>s. game_tables s = c) (delete_cached_play u i)" "keeps (\<lambda>s. game_tables s = c) (delete_play_list u)"
  "keeps (\<lambda>s. game_tables s = c) (del_user_game_orders u)" "keeps (\<lambda>s. game_tables s = c) (del_account_balance u)"
  unfolding get_cached_game_def set_cached_game_def delete_cached_play_def delete_play_list_def del_user_game_orders_def
    del_account_balance_def
  by (intro keeps_if keeps_ret game_details.keeps_get game_details.keeps_put play_details.keeps_del user_plays.keeps_del
      user_orders.keeps_del account_balances.keeps_del quietly_game_tables; simp add: game_tables_def)+

lemma keeps_tables_get_game: "keeps (\<lambda>s. game_tables s = c) (get_game_by_id i)"
proof -
  have "keeps (\<lambda>s. game_tables s = c) (get_game_row i)"
    unfolding get_game_row_def by (intro keeps_call quietly_game_tables) (simp split: option.split)
  then show ?thesis
    unfolding get_game_by_id_def by (intro keeps_if keeps_throw keeps_read_through keeps_tables_caches)
qed

lemma keeps_tables_order_id: "keeps (\<lambda>s. game_tables s = c) (purchase_order_id u g key)"
  unfolding purchase_order_id_def by (intro keeps_bnd keeps_ret) (simp add: keeps_def generate_id_def game_tables_def)

lemma keeps_tables_drop: "keeps (\<lambda>s. game_tables s = c) (drop_purchase_caches u g)"
  unfolding drop_purchase_caches_def by (intro keeps_bnd keeps_ignore keeps_tables_caches)

lemma keeps_tablesD: "(\<And>c. keeps (\<lambda>s. game_tables s = c) m) \<Longrightarrow> keeps store_inv m"
  unfolding keeps_def using store_inv_tables by metis

lemma keeps_store_inv_purchase: "keeps store_inv (purchase_game u g key)"
  unfolding purchase_game_def purchase_in_tx_def option.case
  by (intro keeps_bnd keeps_ret keeps_if keeps_throw keeps_store_inv_tx keeps_tables_get_game keeps_tables_order_id
      keeps_tables_drop keeps_tablesD)

lemma keeps_store_inv_seed: "keeps store_inv seed_licenses_for_games_without_stock"
proof -
  have q: "quietly store_inv" by (simp add: quietly_def store_inv_def)
  have "keeps store_inv (insert_licenses ls)" for ls
    unfolding insert_licenses_def
    by (intro keeps_call q) (auto simp: store_inv_def order_licensed_def distinct_append)
  moreover have "keeps store_inv generate_id" by (simp add: keeps_def generate_id_def store_inv_def)
  ultimately show ?thesis
    unfolding seed_licenses_for_games_without_stock_def seed_game_licenses_def seed_license_def count_available_licenses_def
    by (intro keeps_bnd keeps_io keeps_gets keeps_for_each keeps_map_each keeps_if keeps_ret q)
qed

lemma keeps_unsold_tablesD: "(\<And>c. keeps (\<lambda>s. game_tables s = c) m) \<Longrightarrow> keeps free_unsold m"
  unfolding keeps_def using free_unsold_tables by metis

lemma keeps_unsold_purchase: "keeps free_unsold (purchase_game u g key)"
  unfolding purchase_game_def purchase_in_tx_def option.case
  by (intro keeps_bnd keeps_ret keeps_if keeps_throw keeps_unsold_tx keeps_tables_get_game keeps_tables_order_id
      keeps_tables_drop keeps_unsold_tablesD)

text \<open>Seeding makes licences that are free and name nobody.\<close>

definition blank_license :: "license_code \<Rightarrow> bool" where
  "blank_license l \<longleftrightarrow> lic_order l = 0 \<and> lic_buyer l = 0"

lemma seed_license_blank:
  "map_each is (seed_license g now) s = (r, t) \<Longrightarrow> licenses t = licenses s \<and> (\<forall>ls. r = Inr ls \<longrightarrow> list_all blank_license ls)"
proof (induction "is" arbitrary: s r t)
  case (Cons i "is")
  let ?s = "s\<lparr>id_seq := Suc (id_seq s)\<rparr>"
  obtain l where l: "seed_license g now i s = (Inr l, ?s)" "blank_license l"
    by (simp add: seed_license_def bnd_def ret_def generate_id_def blank_license_def)
  obtain r' t' where rest: "map_each is (seed_license g now) ?s = (r', t')" by (metis prod.collapse)
  from Cons.prems l rest have "t = t'" "r = (case r' of Inl e \<Rightarrow> Inl e | Inr ls \<Rightarrow> Inr (l # ls))"
    by (auto simp: bnd_def ret_def split: sum.splits)
  with Cons.IH [OF rest] l(2) show ?case by (auto split: sum.splits)
qed (simp add: ret_def)

lemma keeps_unsold_seed: "keeps free_unsold seed_licenses_for_games_without_stock"
proof -
  have q: "quietly free_unsold" by (simp add: quietly_def free_unsold_def)
  have insert: "keeps free_unsold (insert_licenses ls)" if "list_all blank_license ls" for ls
    using that unfolding insert_licenses_def
    by (intro keeps_call q) (auto simp: free_unsold_def blank_license_def list_all_iff)
  have "keeps free_unsold (bnd (map_each is (seed_license g now)) insert_licenses)" for "is" g now
  proof (rule keepsI)
    fix s r t
    assume run: "bnd (map_each is (seed_license g now)) insert_licenses s = (r, t)" and s: "free_unsold s"
    obtain r1 s1 where one: "map_each is (seed_license g now) s = (r1, s1)" by (metis prod.collapse)
    from seed_license_blank [OF one] s have "free_unsold s1" by (simp add: free_unsold_def)
    with run one seed_license_blank [OF one] keepsD [OF insert] show "free_unsold t"
      by (cases r1) (auto simp: bnd_def)
  qed
  then show ?thesis
    unfolding seed_licenses_for_games_without_stock_def seed_game_licenses_def count_available_licenses_def
    by (intro keeps_bnd [of _ "io (gets _)"] keeps_bnd [of _ "gets _"] keeps_io keeps_gets keeps_for_each keeps_if keeps_ret q)
qed

section \<open>The store as a state machine\<close>

text \<open>
  One step: a purchase or a round of seeding under any pattern of failing calls, any change of the
  catalogue, of the other tables and of the caches, a new user, and time passing.
\<close>

inductive store_step :: "game_st \<Rightarrow> game_st \<Rightarrow> bool" where
  purchase: "store_step s (snd (purchase_game u g key (s\<lparr>faults := fs\<rparr>)))"
| seed: "store_step s (snd (seed_licenses_for_games_without_stock (s\<lparr>faults := fs\<rparr>)))"
| catalogue: "store_step s (s\<lparr>games := gs, reviews := rs, review_comments := cs, plays := ps\<rparr>)"
| caches: "store_step s (s\<lparr>game_cache := gc, order_lists := ol, balance_cache := bc\<rparr>)"
| sign_up: "0 \<le> u_balance r \<Longrightarrow> store_step s (s\<lparr>users := users s @ [r]\<rparr>)"
| tick: "store_step s (s\<lparr>clock_now := now\<rparr>)"

inductive_simps store_step_iff: "store_step s t"

lemma store_step_inv:
  assumes "store_step s t" and "store_inv s"
  shows "store_inv t"
proof -
  from assms(2) have inv: "store_inv (s\<lparr>faults := fs\<rparr>)" for fs by (simp add: store_inv_def)
  have "store_inv (snd (m (s\<lparr>faults := fs\<rparr>)))" if "keeps store_inv m" for m :: "(game_st, 'a) op" and fs
    using that inv by (simp add: keeps_def)
  note kept = this [OF keeps_store_inv_purchase] this [OF keeps_store_inv_seed]
  from assms show ?thesis
    unfolding store_step_iff by (auto simp: store_inv_def kept [unfolded store_inv_def])
qed

lemma store_step_unsold:
  assumes "store_step s t" and "free_unsold s"
  shows "free_unsold t"
proof -
  from assms(2) have inv: "free_unsold (s\<lparr>faults := fs\<rparr>)" for fs by (simp add: free_unsold_def)
  have "free_unsold (snd (m (s\<lparr>faults := fs\<rparr>)))" if "keeps free_unsold m" for m :: "(game_st, 'a) op" and fs
    using that inv by (simp add: keeps_def)
  note kept = this [OF keeps_unsold_purchase] this [OF keeps_unsold_seed]
  from assms show ?thesis
    unfolding store_step_iff by (auto simp: free_unsold_def kept [unfolded free_unsold_def])
qed

text \<open>C11: in every state that purchases, seeding and other requests can lead to, whatever calls fail on the way, no
  licence is in two orders, the licence of every paid order is marked as sold to that order and its buyer, a licence that
  is still free names no order and no buyer, and no account balance is negative.\<close>

theorem reachable_licenses_sold_once:
  assumes "store_step\<^sup>*\<^sup>* s t" and "store_inv s" and "free_unsold s"
    and "x \<in> set (game_orders t)" and "y \<in> set (game_orders t)" and "go_code x = go_code y" and "go_code x \<noteq> ''FREE''"
  shows "x = y \<and> order_licensed (licenses t) x \<and>
    (\<forall>l \<in> set (licenses t). lic_status l = game_code_available \<longrightarrow> lic_order l = 0 \<and> lic_buyer l = 0) \<and>
    (\<forall>r \<in> set (users t). 0 \<le> u_balance r)"
proof -
  from assms(1,2) have inv: "store_inv t" by (induction rule: rtranclp_induct) (auto intro: store_step_inv)
  from assms(1,3) have unsold: "free_unsold t" by (induction rule: rtranclp_induct) (auto intro: store_step_unsold)
  from inv assms(4-7) have "order_licensed (licenses t) x" "order_licensed (licenses t) y" "go_code y \<noteq> ''FREE''"
    by (simp_all add: store_inv_def)
  with assms(6) obtain l l' where l: "l \<in> set (licenses t)" "lic_code l = go_code x" "lic_order l = go_id x"
    and l': "l' \<in> set (licenses t)" "lic_code l' = go_code y" "lic_order l' = go_id y"
    unfolding order_licensed_def by metis
  from inv have "inj_on lic_code (set (licenses t))" by (simp add: store_inv_def distinct_map)
  with l l' assms(6) have "l = l'" by (metis inj_onD)
  with l l' have "go_id x = go_id y" by simp
  moreover from inv have "inj_on go_id (set (game_orders t))" by (simp add: store_inv_def distinct_map)
  ultimately have "x = y" using assms(4,5) by (metis inj_onD)
  with inv unsold assms(4) show ?thesis by (simp add: store_inv_def free_unsold_def)
qed

section \<open>What a purchase charges\<close>

text \<open>The transaction, by its body.\<close>

lemma purchase_in_tx_outcome:
  fixes s :: "'r game_st_scheme"
  assumes "purchase_in_tx (Some g) u order s = (Inr x, t)"
  obtains s1 s2 :: "'r game_st_scheme" where "game_tables s1 = game_tables s" and "clock_now s1 = clock_now s"
    and "game_tables t = game_tables s2" and "clock_now t = clock_now s2"
    and "order_placed g u order x s1 s2 \<or> order_found g u order x s1 s2"
proof -
  from assms have "tx game_rollback (purchase_body g u order) s = (Inr x, t)"
    by (simp add: purchase_in_tx_def throw_eq split: if_splits)
  then obtain s1 s2 where q: "quiet s1 = quiet s" "quiet t = quiet s2" and tabs: "game_tables s1 = game_tables s" "game_tables t = game_tables s2"
    and body: "purchase_body g u order s1 = (Inr x, s2)"
    by (auto elim: game_db.tx_success)
  have clock: "clock_now b = clock_now a" if "quiet b = quiet a" for a b :: "'r game_st_scheme"
  proof -
    from that have "clock_now (quiet b) = clock_now (quiet a)" by simp
    then show ?thesis by (simp add: quiet_def)
  qed
  from that [OF tabs(1) clock [OF q(1)] tabs(2) clock [OF q(2)]] purchase_body_outcome [OF body] show thesis by blast
qed

lemma row_of_charged:
  assumes "row_of u_id u rows = Some usr" and "yuan \<le> u_balance usr"
  shows "row_of u_id k (charged u yuan rows) = (if k = u then Some (usr\<lparr>u_balance := u_balance usr - yuan\<rparr>) else row_of u_id k rows)"
proof -
  have "row_of u_id k (charged u yuan rows) = map_option (\<lambda>r. if u_id r = u \<and> u_balance r \<ge> yuan
      then r\<lparr>u_balance := u_balance r - yuan\<rparr> else r) (row_of u_id k rows)"
    unfolding charged_def by (rule row_of_upd) simp
  then show ?thesis using assms by (cases "row_of u_id k rows") (auto dest: row_of_Some_in)
qed

lemma count_free_sold:
  assumes "distinct (map lic_id ls)" and "lic \<in> set ls" and "license_free g lic"
  shows "count_rows (license_free g) (upd_rows (\<lambda>l. lic_id l = lic_id lic \<and> lic_status l = game_code_available)
    (sell_license order u now) ls) + 1 = count_rows (license_free g) ls"
proof -
  have "upd_rows (\<lambda>l. lic_id l = lic_id lic \<and> lic_status l = game_code_available) (sell_license order u now) ls =
      upd_rows (\<lambda>l. lic_id l = lic_id lic) (sell_license order u now) ls"
    using assms by (auto simp: upd_rows_def license_free_def distinct_map inj_on_def intro!: map_cong)
  moreover have "\<not> license_free g (sell_license order u now lic)"
    by (simp add: license_free_def game_code_sold_def game_code_available_def)
  ultimately show ?thesis using count_rows_upd_one [OF assms(1,2), of "license_free g"] assms(3) by simp
qed

lemma game_tablesD:
  assumes "game_tables t = game_tables s"
  shows "users t = users s" and "licenses t = licenses s" and "game_orders t = game_orders s"
    and "account_txns t = account_txns s" and "plays t = plays s" and "games t = games s"
  using assms by (simp_all add: game_tables_def)

text \<open>The books of a purchase: what the buyer's account, the ledger, the orders and the licences look like afterwards.\<close>

definition charged_once :: "game \<Rightarrow> u64 \<Rightarrow> u64 \<Rightarrow> game_order \<Rightarrow> 'r game_st_scheme \<Rightarrow> 'r game_st_scheme \<Rightarrow> bool" where
  "charged_once g u order x s t \<longleftrightarrow> (\<exists>usr. row_of u_id u (users s) = Some usr \<and> game_yuan g \<le> u_balance usr \<and>
     row_of u_id u (users t) = Some (usr\<lparr>u_balance := u_balance usr - game_yuan g\<rparr>) \<and>
     (\<forall>k. k \<noteq> u \<longrightarrow> row_of u_id k (users t) = row_of u_id k (users s)) \<and>
     account_txns t = account_txns s @ [purchase_txn u g order (game_yuan g) (u_balance usr - game_yuan g) (clock_now s)] \<and>
     game_orders t = game_orders s @ [x] \<and> go_id x = order \<and> go_user x = u \<and> go_price x = g_price g \<and>
     count_rows (license_free (g_id g)) (licenses t) + 1 = count_rows (license_free (g_id g)) (licenses s) \<and>
     has_row play_key (u, g_id g) (plays t))"

lemma purchase_placed:
  fixes s :: "'r game_st_scheme"
  assumes run: "purchase_in_tx (Some g) u order s = (Inr x, t)" and fresh: "\<not> has_row go_id order (game_orders s)"
    and paid: "is_paid_game (g_price g)" and inv: "store_inv s"
  shows "charged_once g u order x s t"
  using run
proof (rule purchase_in_tx_outcome)
  fix s1 s2 :: "'r game_st_scheme"
  assume tabs: "game_tables s1 = game_tables s" and clock: "clock_now s1 = clock_now s" and tabs': "game_tables t = game_tables s2"
    and "order_placed g u order x s1 s2 \<or> order_found g u order x s1 s2"
  moreover have "\<not> order_found g u order x s1 s2"
    using fresh game_tablesD(3) [OF tabs] by (auto simp: order_found_def dest: row_of_has_row)
  ultimately have "order_placed g u order x s1 s2" by blast
  with paid obtain q lic usr fs ps where t: "s2 = q\<lparr>faults := fs, game_orders := game_orders s1 @ [x], plays := ps\<rparr>"
    "has_row play_key (u, g_id g) ps"
    and lic: "first_row lic_id (license_free (g_id g)) (licenses s1) = Some lic"
    and usr: "row_of u_id u (users s1) = Some usr" "game_yuan g \<le> u_balance usr"
    and now: "paid_now g u order usr lic s1 q"
    and x: "x = new_order g u order (normalize_game_price_cents (g_price g)) (clock_now s1) (lic_code lic)"
    by (auto simp: order_placed_def is_paid_game_def is_free_game_def)
  from first_row_Some [OF lic] have mem: "lic \<in> set (licenses s1)" "license_free (g_id g) lic" by auto
  have "distinct (map lic_id (licenses s1))" using inv game_tablesD(2) [OF tabs] by (simp add: store_inv_def)
  then have sold: "count_rows (license_free (g_id g)) (licenses q) + 1 = count_rows (license_free (g_id g)) (licenses s1)"
    unfolding paid_now_frame(5) [OF now] using mem by (rule count_free_sold)
  have price: "normalize_game_price_cents (g_price g) = g_price g"
    using paid by (simp add: is_paid_game_def normalize_game_price_cents_def)
  show ?thesis
    unfolding charged_once_def
    using t usr sold x price paid_now_frame(4) [OF now] row_of_charged [OF usr] now
      game_tablesD [OF tabs] game_tablesD [OF tabs'] clock
    by (intro exI [of _ usr]) (simp add: new_order_def paid_now_def Let_def, auto)
qed

text \<open>C12: a purchase of a paid game that creates an order takes the price once from the buyer's account (and from no
  other), enters exactly that in the ledger, sells exactly one licence of the game, appends exactly that order, and
  puts the game in the buyer's library.\<close>

theorem purchase_charges_once:
  assumes "purchase_in_tx (Some g) u order s = (Inr x, t)" and "\<not> has_row go_id order (game_orders s)"
    and "is_paid_game (g_price g)" and "store_inv s"
  shows "charged_once g u order x s t"
  using assms by (rule purchase_placed)

text \<open>C13: the same request again, with the order id that its idempotency key gives, is answered with the order there
  is; but the account is charged a second time, with no second entry in the ledger, no second licence and no second
  order.\<close>

theorem repeated_purchase_charges_again:
  assumes first: "purchase_in_tx (Some g) u order s = (Inr x, t)" and fresh: "\<not> has_row go_id order (game_orders s)"
    and paid: "is_paid_game (g_price g)" and inv: "store_inv s"
    and again: "purchase_in_tx (Some g) u order t = (Inr y, v)"
  shows "y = x \<and> game_orders v = game_orders t \<and> account_txns v = account_txns t \<and> licenses v = licenses t \<and>
    map_option u_balance (row_of u_id u (users v)) = map_option (\<lambda>r. u_balance r - 2 * game_yuan g) (row_of u_id u (users s))"
proof -
  from purchase_placed [OF first fresh paid inv] obtain usr where usr: "row_of u_id u (users s) = Some usr"
      "row_of u_id u (users t) = Some (usr\<lparr>u_balance := u_balance usr - game_yuan g\<rparr>)"
    and txn: "has_row at_id (points_stable_txn_id u ''game_purchase'' order (g_id g)) (account_txns t)"
    and order: "game_orders t = game_orders s @ [x]" "go_id x = order"
    by (auto simp: charged_once_def purchase_txn_def)
  from order fresh have found: "row_of go_id order (game_orders t) = Some x"
    by (simp add: row_of_None [THEN iffD2])
  from again show ?thesis
  proof (rule purchase_in_tx_outcome)
    fix t1 t2 :: "'a game_st_scheme"
    assume tabs: "game_tables t1 = game_tables t" "game_tables v = game_tables t2"
      and "order_placed g u order y t1 t2 \<or> order_found g u order y t1 t2"
    moreover have "\<not> order_placed g u order y t1 t2"
      using found game_tablesD(3) [OF tabs(1)] by (auto simp: order_placed_def dest: row_of_has_row)
    ultimately obtain q fs where y: "y = x" and t2: "t2 = q\<lparr>faults := fs\<rparr>"
      and pay: "paid_before g u order y t1 q \<or> (\<exists>lic usr. paid_now g u order usr lic t1 q)"
      using found paid game_tablesD(3) [OF tabs(1)] by (auto simp: order_found_def is_paid_game_def is_free_game_def)
    moreover have "\<not> paid_now g u order usr lic t1 q" for usr lic
      using txn game_tablesD(4) [OF tabs(1)] by (auto simp: paid_now_def purchase_txn_def)
    ultimately have "paid_before g u order x t1 q" by blast
    then obtain gs acc where q: "q = t1\<lparr>faults := gs, users := charged u (game_yuan g) (users t1)\<rparr>"
        and acc: "row_of u_id u (users t1) = Some acc" "game_yuan g \<le> u_balance acc"
      by (auto simp: paid_before_def)
    from usr acc game_tablesD(1) [OF tabs(1)] have "u_balance acc = u_balance usr - game_yuan g" by auto
    with q t2 y usr(1) row_of_charged [OF acc, of u] game_tablesD [OF tabs(1)] game_tablesD [OF tabs(2)]
    show ?thesis by simp
  qed
qed

text \<open>Before the transaction nothing is written to a table, after it nothing fails.\<close>

lemma no_panic_drop: "no_panic (drop_purchase_caches u g)"
  unfolding drop_purchase_caches_def delete_cached_play_def delete_play_list_def del_user_game_orders_def del_account_balance_def
  by (intro no_panic_rules)

lemma drop_purchase_caches_ok: "drop_purchase_caches u g s \<noteq> (Inl e, t)"
proof
  assume run: "drop_purchase_caches u g s = (Inl e, t)"
  then have "e = GoPanic"
    unfolding drop_purchase_caches_def by (auto simp: ignore_eq_Inl elim!: bnd_InlE)
  with run no_panicD [OF no_panic_drop] show False by blast
qed

text \<open>A purchase that returns an error, whichever call failed or guard refused it, has left every table as it was:
  no charge, no ledger entry, no licence taken, no order.\<close>

theorem purchase_error_atomic:
  assumes "purchase_game u g key s = (Inl e, t)"
  shows "game_tables t = game_tables s"
proof -
  note same = keepsD [OF keeps_tables_get_game] keepsD [OF keeps_tables_order_id]
  have inner: "game_tables v = game_tables q" if "purchase_in_tx (Some gm) u order q = (Inl e, v)"
    for gm order q and v :: "'a game_st_scheme"
    using that by (auto simp: purchase_in_tx_def throw_eq game_db.tx_error_tables split: if_splits)
  from assms show ?thesis
    unfolding purchase_game_def
    by (elim bnd_InlE bnd_InrE) (auto simp: ret_eq drop_purchase_caches_ok dest!: inner same)
qed

section \<open>An example\<close>

text \<open>One game for 250 cents with two licences, and a buyer with 10 yuan.\<close>

definition demo_game :: game where
  "demo_game = \<lparr>g_id = 1, g_name = ''G'', g_description = [], g_release = 0, g_publisher = [], g_developer = [],
     g_cover = [], g_price = 250, g_tags = None, g_achievements = None, g_created = 0, g_updated = 0\<rparr>"

definition demo_license :: "u64 \<Rightarrow> string \<Rightarrow> license_code" where
  "demo_license i code = \<lparr>lic_id = i, lic_game = 1, lic_code = code, lic_status = game_code_available,
     lic_order = 0, lic_buyer = 0, lic_sold = None, lic_created = 0\<rparr>"

definition game_demo :: game_st where
  "game_demo = topics_st.extend topics_demo (game_st.fields [demo_game] [] [] []
     [demo_license 1 ''A'', demo_license 2 ''B''] [] [] True True [] [] [] [] [] [] [] [] [] [])
     \<lparr>users := [\<lparr>u_id = 7, u_name = ''n'', u_email = [], u_tel = [], u_password = [], u_avatar = [], u_github = [],
        u_following_count = 0, u_balance = 10, u_created = 0\<rparr>]\<rparr>"

lemmas game_demo_simps = game_demo_def topics_demo_def topics_st.defs game_st.defs demo_game_def demo_license_def

lemmas purchase_run = purchase_in_tx_def purchase_body_def is_free_game_def pay_for_game_def charge_yuan_def
  normalize_game_price_cents_def first_row_def license_free_def game_code_available_def game_code_sold_def get_user_for_update_def
  charge_account_def count_rows_def upd_rows_def insert_account_txn_def purchase_txn_def mark_license_sold_def sell_license_def
  place_game_order_def insert_game_order_def new_order_def upsert_play_row_def save_existing_def blank_play_def play_key_def
  existing_order_def get_game_order_by_id_def game_rollback_def content_rollback_def has_row_def or_now_def zero_time_def
  tx_def io_def bnd_def attempt_def ignore_def ret_def throw_def gets_def modify_def Let_def

lemma game_demo_inv: "store_inv game_demo"
  by (simp add: store_inv_def game_demo_simps)

lemma game_demo_buys: "\<exists>x t. purchase_in_tx (Some demo_game) 7 5 game_demo = (Inr x, t) \<and> go_code x = ''A'' \<and>
    (\<exists>y v. purchase_in_tx (Some demo_game) 7 5 t = (Inr y, v))"
  by (simp add: purchase_run game_demo_simps)

lemma game_demo_fresh: "\<not> has_row go_id 5 (game_orders game_demo)" "is_paid_game (g_price demo_game)"
  by (simp_all add: game_demo_simps is_paid_game_def)

lemma purchase_charges_once_witness:
  "\<exists>x t. purchase_in_tx (Some demo_game) 7 5 game_demo = (Inr x, t) \<and> charged_once demo_game 7 5 x game_demo t"
  using game_demo_buys purchase_charges_once [OF _ game_demo_fresh game_demo_inv] by blast

lemma repeated_purchase_charges_again_witness:
  "\<exists>(t :: game_st) (v :: game_st). map_option u_balance (row_of u_id 7 (users v)) = Some 6 \<and> game_orders v = game_orders t \<and> length (game_orders t) = 1"
proof -
  from game_demo_buys obtain x t y v where "purchase_in_tx (Some demo_game) 7 5 game_demo = (Inr x, t)"
    and again: "purchase_in_tx (Some demo_game) 7 5 t = (Inr y, v)" by blast
  note first = this(1)
  have "game_yuan demo_game = 2" by (simp add: demo_game_def charge_yuan_def normalize_game_price_cents_def)
  moreover from purchase_placed [OF first game_demo_fresh game_demo_inv] have "length (game_orders t) = 1"
    by (auto simp: charged_once_def game_demo_simps)
  ultimately show ?thesis
    using repeated_purchase_charges_again [OF first game_demo_fresh game_demo_inv again]
    by (intro exI [of _ t] exI [of _ v]) (auto simp: game_demo_simps)
qed

text \<open>An unknown game: the purchase fails.\<close>

lemma purchase_error_atomic_witness:
  "\<exists>t. purchase_game 7 2 [] game_demo = (Inl RecordNotFound, t) \<and> game_tables t = game_tables game_demo"
proof -
  have "\<exists>t. purchase_game 7 2 [] game_demo = (Inl RecordNotFound, t)"
    by (simp add: purchase_game_def get_game_by_id_def read_through_def get_cached_game_def cache_get_def get_game_row_def
        purchase_run game_demo_simps)
  with purchase_error_atomic show ?thesis by blast
qed

lemma game_demo_unsold: "free_unsold game_demo"
  by (simp add: free_unsold_def game_demo_simps)

lemma reachable_licenses_sold_once_witness:
  "\<exists>t x. store_step\<^sup>*\<^sup>* game_demo t \<and> game_orders t = [x] \<and> order_licensed (licenses t) x"
proof -
  let ?t = "snd (purchase_game 7 1 [] (game_demo\<lparr>faults := []\<rparr>))"
  have "\<exists>x. game_orders ?t = [x] \<and> go_code x = ''A''"
    by (simp add: purchase_game_def purchase_order_id_def generate_id_def get_game_by_id_def read_through_def get_cached_game_def
        set_cached_game_def cache_get_def cache_put_def cache_del_def get_game_row_def drop_purchase_caches_def
        delete_cached_play_def delete_play_list_def del_user_game_orders_def del_account_balance_def purchase_run game_demo_simps)
  then obtain x where x: "game_orders ?t = [x]" "go_code x \<noteq> ''FREE''" by auto
  have "store_step\<^sup>*\<^sup>* game_demo ?t" by (intro r_into_rtranclp store_step.purchase)
  from this reachable_licenses_sold_once [OF this game_demo_inv game_demo_unsold _ _ refl x(2)] x(1) show ?thesis by auto
qed

end
