(* ===== verification/GameCache.thy ===== *)
theory GameCache
  imports GameHandlers GameStore
begin

text \<open>
  The caches of the game pages agree with MySQL. When no call fails, every request leaves each cached
  game, review, page of reviews, page of comments and list of orders equal to what MySQL would answer, so
  the readers never see a stale row. (The cached list of games and the cached plays have no such
  guarantee: see the findings.)
\<close>

section \<open>Agreement up to stale keys\<close>

definition fits_but :: "('k \<Rightarrow> bool) \<Rightarrow> ('k \<Rightarrow> 'v option) \<Rightarrow> ('k \<times> 'v) list \<Rightarrow> bool" where
  "fits_but stale view l \<longleftrightarrow> (\<forall>(k, v) \<in> set l. stale k \<or> view k = Some v)"

lemma fits_delete: "fits_but S view l \<Longrightarrow> fits_but (\<lambda>k. S k \<and> k \<noteq> i) view (AList.delete i l)"
  by (auto simp: fits_but_def AList.delete_eq)

lemma fits_filter: "fits_but S view l \<Longrightarrow> fits_but (\<lambda>k. S k \<and> \<not> P k) view (filter (\<lambda>p. \<not> P (fst p)) l)"
  by (auto simp: fits_but_def)

lemma set_update_subset: "set (AList.update k v l) \<subseteq> insert (k, v) (set l)"
  by (induction l) auto

lemma fits_update: "fits_but S view l \<Longrightarrow> view k = Some v \<Longrightarrow> fits_but S view (AList.update k v l)"
  using set_update_subset [of k v l] by (fastforce simp: fits_but_def)

lemma fits_view:
  "fits_but S view l \<Longrightarrow> (\<And>k v. (k, v) \<in> set l \<Longrightarrow> view k = Some v \<Longrightarrow> S' k \<or> view' k = Some v) \<Longrightarrow> (\<And>k. S k \<Longrightarrow> S' k) \<Longrightarrow> fits_but S' view' l"
  by (fastforce simp: fits_but_def)

lemma fits_key:
  assumes "fits_but (\<lambda>_. False) view l" and "\<And>k v. k \<noteq> i \<Longrightarrow> view k = Some v \<Longrightarrow> view' k = Some v"
  shows "fits_but (\<lambda>k. k = i) view' l"
  using assms by (fastforce simp: fits_but_def)

lemma fits_group:
  assumes "fits_but (\<lambda>_. False) view l" and "\<And>k. fst k \<noteq> g \<Longrightarrow> view' k = view k"
  shows "fits_but (\<lambda>k. fst k = g) view' l"
  using assms by (fastforce simp: fits_but_def)

lemma fits_lookup: "fits_but (\<lambda>_. False) view l \<Longrightarrow> map_of l k = Some v \<Longrightarrow> view k = Some v"
  by (auto simp: fits_but_def dest: map_of_SomeD)

text \<open>What MySQL would answer for a key of each family.\<close>

definition reviews_view :: "game_review list \<Rightarrow> u64 \<times> int \<times> int \<Rightarrow> game_review list option" where
  "reviews_view rows = (\<lambda>(g, page, sz). Some (reviews_page g page sz rows))"

definition rcomments_view :: "review_comment list \<Rightarrow> u64 \<times> int \<times> int \<Rightarrow> review_comment list option" where
  "rcomments_view rows = (\<lambda>(r, page, sz). Some (rcomments_page r page sz rows))"

definition orders_view :: "game_order list \<Rightarrow> u64 \<Rightarrow> game_order list option" where
  "orders_view rows = (\<lambda>u. Some (take 50 (newest_first go_created (filter (\<lambda>r. go_user r = u) rows))))"

text \<open>
  The caches of a calm state with Redis agree with the tables, but for stale games \<open>A\<close>, reviews \<open>B\<close>, pages of
  the reviews of games \<open>C\<close> and of the comments of reviews \<open>D\<close>, and orders of users \<open>E\<close>.
\<close>

definition agree :: "(u64 \<Rightarrow> bool) \<Rightarrow> (u64 \<Rightarrow> bool) \<Rightarrow> (u64 \<Rightarrow> bool) \<Rightarrow> (u64 \<Rightarrow> bool) \<Rightarrow> (u64 \<Rightarrow> bool) \<Rightarrow> 'r game_st_scheme \<Rightarrow> bool" where
  "agree A B C D E s \<longleftrightarrow> calm s \<and> game_redis s \<and>
     distinct (map rev_id (reviews s)) \<and> distinct (map rc_id (review_comments s)) \<and>
     fits_but A (\<lambda>i. row_of g_id i (games s)) (game_cache s) \<and>
     fits_but B (\<lambda>i. row_of rev_id i (reviews s)) (review_cache s) \<and>
     fits_but (\<lambda>k. C (fst k)) (reviews_view (reviews s)) (review_lists s) \<and>
     fits_but (\<lambda>k. D (fst k)) (rcomments_view (review_comments s)) (rcomment_lists s) \<and>
     fits_but E (orders_view (game_orders s)) (order_lists s)"

abbreviation none :: "'k \<Rightarrow> bool" where "none \<equiv> \<lambda>_. False"

abbreviation coherent :: "'r game_st_scheme \<Rightarrow> bool" where
  "coherent \<equiv> agree none none none none none"

section \<open>Invalidation\<close>

text \<open>Each invalidation takes its keys off the stale ones.\<close>

lemma ignore_calm: "m s = (Inr x, t) \<Longrightarrow> ignore m s = (Inr (), t)"
  by (simp add: ignore_def bnd_def attempt_def ret_run)

lemma agree_drop_game:
  assumes "agree A B C D E s" and "ignore (delete_game_key i) s = (r, t)"
  shows "r = Inr () \<and> agree (\<lambda>k. A k \<and> k \<noteq> i) B C D E t"
proof -
  from assms(1) have "calm s" "game_redis s" by (simp_all add: agree_def)
  then have "ignore (delete_game_key i) s = (Inr (), game_cache_update (AList.delete i) s)"
    unfolding delete_game_key_def by (intro ignore_calm [where x = "()"]) (simp add: game_details.del_calm)
  with assms show ?thesis by (auto simp: agree_def calm_def fits_delete)
qed

lemma agree_drop_review:
  assumes "agree A B C D E s" and "ignore (delete_review_key i) s = (r, t)"
  shows "r = Inr () \<and> agree A (\<lambda>k. B k \<and> k \<noteq> i) C D E t"
proof -
  from assms(1) have "calm s" "game_redis s" by (simp_all add: agree_def)
  then have "ignore (delete_review_key i) s = (Inr (), review_cache_update (AList.delete i) s)"
    unfolding delete_review_key_def by (intro ignore_calm [where x = "()"]) (simp add: review_details.del_calm)
  with assms show ?thesis by (auto simp: agree_def calm_def fits_delete)
qed

lemma agree_drop_review_lists:
  assumes "agree A B C D E s" and "ignore (delete_review_lists g) s = (r, t)"
  shows "r = Inr () \<and> agree A B (\<lambda>k. C k \<and> k \<noteq> g) D E t"
proof -
  from assms(1) have "calm s" "game_redis s" by (simp_all add: agree_def)
  then have "ignore (delete_review_lists g) s = (Inr (), review_lists_update (filter (\<lambda>p. \<not> fst (fst p) = g)) s)"
    unfolding delete_review_lists_def
    by (intro ignore_calm [where x = "()"]) (simp add: bnd_def gets_run review_pages.by_pattern_calm)
  moreover have "fits_but (\<lambda>k. C (fst k) \<and> fst k \<noteq> g) view (filter (\<lambda>p. \<not> fst (fst p) = g) l)"
    if "fits_but (\<lambda>k. C (fst k)) view l" for view and l :: "((u64 \<times> int \<times> int) \<times> game_review list) list"
    using fits_filter [OF that, of "\<lambda>k. fst k = g"] by simp
  ultimately show ?thesis using assms by (auto simp: agree_def calm_def)
qed

lemma agree_drop_rcomment_lists:
  assumes "agree A B C D E s" and "ignore (delete_rcomment_lists i) s = (r, t)"
  shows "r = Inr () \<and> agree A B C (\<lambda>k. D k \<and> k \<noteq> i) E t"
proof -
  from assms(1) have "calm s" "game_redis s" by (simp_all add: agree_def)
  then have "ignore (delete_rcomment_lists i) s = (Inr (), rcomment_lists_update (filter (\<lambda>p. \<not> fst (fst p) = i)) s)"
    unfolding delete_rcomment_lists_def
    by (intro ignore_calm [where x = "()"]) (simp add: bnd_def gets_run rcomment_pages.by_pattern_calm)
  moreover have "fits_but (\<lambda>k. D (fst k) \<and> fst k \<noteq> i) view (filter (\<lambda>p. \<not> fst (fst p) = i) l)"
    if "fits_but (\<lambda>k. D (fst k)) view l" for view and l :: "((u64 \<times> int \<times> int) \<times> review_comment list) list"
    using fits_filter [OF that, of "\<lambda>k. fst k = i"] by simp
  ultimately show ?thesis using assms by (auto simp: agree_def calm_def)
qed

lemma agree_drop_orders:
  assumes "agree A B C D E s" and "ignore (del_user_game_orders u) s = (r, t)" and "u \<noteq> 0"
  shows "r = Inr () \<and> agree A B C D (\<lambda>k. E k \<and> k \<noteq> u) t"
proof -
  from assms(1) have "calm s" "game_redis s" by (simp_all add: agree_def)
  then have "ignore (del_user_game_orders u) s = (Inr (), order_lists_update (AList.delete u) s)"
    unfolding del_user_game_orders_def using assms(3)
    by (intro ignore_calm [where x = "()"]) (simp add: user_orders.del_calm)
  with assms show ?thesis by (auto simp: agree_def calm_def fits_delete)
qed

section \<open>What does not concern these families\<close>

text \<open>Operations that leave the five tables, the five families and the switch alone.\<close>

definition game_view :: "'r game_st_scheme \<Rightarrow> _" where
  "game_view s = ((games s, reviews s, review_comments s, game_orders s, game_redis s),
     game_cache s, review_cache s, review_lists s, rcomment_lists s, order_lists s)"

lemma agree_view: "game_view t = game_view s \<Longrightarrow> calm t = calm s \<Longrightarrow> agree A B C D E t = agree A B C D E s"
  unfolding game_view_def prod.inject agree_def by (elim conjE) (simp only:)

lemma keeps_agree_view:
  assumes "\<And>c. keeps (\<lambda>s. game_view s = c) m" and "keeps calm m"
  shows "keeps (agree A B C D E) m"
proof (rule keepsI)
  fix s r t
  assume run: "m s = (r, t)" and "agree A B C D E s"
  moreover from this have "calm s" by (simp add: agree_def)
  with assms(2) run have "calm t" by (rule keepsD)
  moreover from keepsD [OF assms(1) run] have "game_view t = game_view s" by simp
  ultimately show "agree A B C D E t" using \<open>calm s\<close> agree_view [of t s A B C D E] by blast
qed


lemma quietly_game_view: "quietly (\<lambda>s. game_view s = c)"
  by (simp add: quietly_def game_view_def)

lemma keeps_view_call: "(\<And>s. game_view (snd (f s)) = game_view s) \<Longrightarrow> keeps (\<lambda>s. game_view s = c) (io f)"
  by (rule keeps_call [OF quietly_game_view]) simp

text \<open>The topic of a game is kept elsewhere.\<close>

lemmas topic_defs = ensure_game_topic_after_create_def ensure_game_topic_def create_topic_def find_topic_by_name_def
  release_name_def delete_topic_cascade_def cascade_body_def cascade_articles_def create_fresh_topic_def insert_topic_def
  create_row_def upsert_game_topic_def delete_game_topic_map_def get_topic_id_by_game_id_def cache_del_def

lemma keeps_view_topic: "keeps (\<lambda>s. game_view s = c) (ensure_game_topic_after_create g name)"
  unfolding topic_defs Let_def
  by (intro keeps_if keeps_ret keeps_throw keeps_gets keeps_bnd keeps_ignore keeps_attempt keeps_case_option keeps_case_sum
      keeps_tx quietly_game_view keeps_view_call)
    (auto simp: gets_run modify_run game_view_def content_rollback_def bump_auto_def split: option.split)

lemma keeps_calm_topic: "keeps calm (ensure_game_topic_after_create g name)"
  unfolding topic_defs Let_def
  by (intro keeps_if keeps_ret keeps_throw keeps_gets keeps_bnd keeps_ignore keeps_attempt keeps_case_option keeps_case_sum
      keeps_calm_tx keeps_calm_call)
    (auto simp: gets_run modify_run calm_def content_rollback_def bump_auto_def split: option.split)

section \<open>Statements\<close>

lemma create_row_calm:
  assumes "calm s" and "create_row tbl key key_upd clash rows put x s = (r, t)"
  obtains (dup) "r = Inl DupKey" and "t = s"
  | (new) y where "r = Inr y" and "y = key_upd (\<lambda>k. pk_or_auto tbl k s) x" and "\<not> has_row key (key y) (rows s)"
      and "t = bump_auto tbl (key y) (put (rows s @ [y]) s)"
proof -
  let ?y = "key_upd (\<lambda>k. pk_or_auto tbl k s) x"
  from assms have run: "(r, t) = (if \<exists>q \<in> set (rows s). key q = key ?y \<or> clash ?y q then (Inl DupKey, s)
      else (Inr ?y, bump_auto tbl (key ?y) (put (rows s @ [?y]) s)))"
    by (simp add: create_row_def calm_def io_nil Let_def)
  show thesis
  proof (cases "\<exists>q \<in> set (rows s). key q = key ?y \<or> clash ?y q")
    case True
    with run show thesis by (intro dup) simp_all
  next
    case False
    with run show thesis by (intro new [of ?y]) (auto simp: has_row_def)
  qed
qed

lemma save_existing_calm:
  assumes "calm s" and "\<And>v q. calm (put v q) = calm q" and "\<And>v. rows (put v s) = v" and "\<And>v w. put v (put w s) = put v s"
    and "key inserted = key updated"
  shows "save_existing key rows put updated inserted s = (Inr (), put (if has_row key (key updated) (rows s)
    then upd_rows (\<lambda>q. key q = key updated) (\<lambda>_. updated) (rows s) else rows s @ [inserted]) s)"
proof -
  have "upd_rows (\<lambda>q. key q = key updated) (\<lambda>_. updated) (rows s) = rows s" if "\<not> has_row key (key updated) (rows s)"
    by (rule upd_rows_none) (use that in \<open>auto simp: has_row_def\<close>)
  then show ?thesis
    using assms by (auto simp: save_existing_def bnd_def io_nil calm_def modify_run ret_run)
qed

lemma reviews_page_cong:
  "filter (\<lambda>r. rev_game r = g) rows = filter (\<lambda>r. rev_game r = g) rows' \<Longrightarrow> reviews_page g p z rows = reviews_page g p z rows'"
  by (simp add: reviews_page_def)

lemma rcomments_page_cong:
  "filter (\<lambda>c. rc_review c = i) rows = filter (\<lambda>c. rc_review c = i) rows' \<Longrightarrow> rcomments_page i p z rows = rcomments_page i p z rows'"
  by (simp add: rcomments_page_def)

text \<open>Games.\<close>

lemma agree_create_game_row:
  assumes "coherent s" and "create_game_row g s = (r, t)"
  shows "coherent t"
proof -
  from assms(1) have calm: "calm s" by (simp add: agree_def)
  from assms(2) have "create_row ''games'' g_id g_id_update (\<lambda>_ _. False) games (\<lambda>v. games_update (\<lambda>_. v)) (game_defaults (clock_now s) g) s = (r, t)"
    by (simp add: create_game_row_def bnd_def gets_run)
  with calm show ?thesis
  proof (cases rule: create_row_calm)
    case dup
    with assms(1) show ?thesis by simp
  next
    case (new y)
    have "fits_but none (\<lambda>i. row_of g_id i (games s @ [y])) (game_cache s)"
      using assms(1) unfolding agree_def by (auto elim!: fits_view)
    with new assms(1) show ?thesis by (simp add: agree_def calm_def bump_auto_def)
  qed
qed

lemma agree_update_game_row:
  assumes "coherent s" and "g_id g \<noteq> 0" and "update_game_row g s = (r, t)"
  shows "r = Inr () \<and> agree (\<lambda>k. k = g_id g) none none none none t"
proof -
  let ?g = "g\<lparr>g_updated := clock_now s\<rparr>" and ?h = "game_defaults (clock_now s) (g\<lparr>g_updated := clock_now s\<rparr>)"
  let ?gs = "if has_row g_id (g_id g) (games s) then upd_rows (\<lambda>q. g_id q = g_id g) (\<lambda>_. ?g) (games s) else games s @ [?h]"
  from assms(1) have calm: "calm s" by (simp add: agree_def)
  then have "update_game_row g s = (Inr (), s\<lparr>games := ?gs\<rparr>)"
    using assms(2) by (simp add: update_game_row_def bnd_def gets_run save_existing_calm calm_def game_defaults_def)
  moreover have "fits_but (\<lambda>k. k = g_id g) (\<lambda>i. row_of g_id i ?gs) (game_cache s)"
    by (rule fits_key [where view = "\<lambda>i. row_of g_id i (games s)"])
      (use assms(1) in \<open>simp_all add: agree_def row_of_put\<close>)
  ultimately show ?thesis using assms by (auto simp: agree_def calm_def)
qed

lemma agree_delete_game_row:
  assumes "coherent s" and "delete_game_row i s = (r, t)"
  shows "r = Inr () \<and> agree (\<lambda>k. k = i) none none none none t"
proof -
  from assms have "r = Inr ()" and t: "t = s\<lparr>games := del_rows (\<lambda>g. g_id g = i) (games s)\<rparr>"
    by (simp_all add: delete_game_row_def agree_def calm_def io_nil modify_run)
  moreover have "fits_but (\<lambda>k. k = i) (\<lambda>k. row_of g_id k (del_rows (\<lambda>g. g_id g = i) (games s))) (game_cache s)"
    by (rule fits_key [where view = "\<lambda>i. row_of g_id i (games s)"])
      (use assms(1) in \<open>simp_all add: agree_def row_of_del\<close>)
  ultimately show ?thesis using assms(1) by (simp add: agree_def calm_def)
qed

text \<open>Reviews.\<close>

lemma agree_create_review_row:
  assumes "coherent s" and "create_review_row x s = (r, t)"
  shows "(\<exists>e. r = Inl e \<and> coherent t) \<or> (\<exists>y. r = Inr y \<and> rev_game y = rev_game x \<and> agree none none (\<lambda>k. k = rev_game x) none none t)"
proof -
  from assms(1) have calm: "calm s" by (simp add: agree_def)
  from assms(2) have "create_row ''game_reviews'' rev_id rev_id_update (\<lambda>_ _. False) reviews (\<lambda>v. reviews_update (\<lambda>_. v))
      (review_defaults (clock_now s) x) s = (r, t)"
    by (simp add: create_review_row_def bnd_def gets_run)
  with calm show ?thesis
  proof (cases rule: create_row_calm)
    case dup
    with assms(1) show ?thesis by simp
  next
    case (new y)
    then have g: "rev_game y = rev_game x" by (simp add: review_defaults_def)
    have "fits_but none (\<lambda>i. row_of rev_id i (reviews s @ [y])) (review_cache s)"
      using assms(1) unfolding agree_def by (auto elim!: fits_view)
    moreover have "fits_but (\<lambda>k. fst k = rev_game x) (reviews_view (reviews s @ [y])) (review_lists s)"
    by (rule fits_group [where view = "reviews_view (reviews s)"])
      (use assms(1) in \<open>auto simp: agree_def reviews_view_def g intro!: reviews_page_cong\<close>)
    ultimately have "agree none none (\<lambda>k. k = rev_game x) none none t"
      using new assms(1) by (auto simp: agree_def calm_def bump_auto_def has_row_def)
    with new g show ?thesis by simp
  qed
qed

lemma agree_update_review_row:
  assumes "coherent s" and "rev_id x \<noteq> 0" and "row_of rev_id (rev_id x) (reviews s) = Some y" and "rev_game y = rev_game x"
    and "update_review_row x s = (r, t)"
  shows "r = Inr () \<and> agree none (\<lambda>k. k = rev_id x) (\<lambda>k. k = rev_game x) none none t"
proof -
  let ?x = "x\<lparr>rev_updated := clock_now s\<rparr>"
  let ?rs = "upd_rows (\<lambda>q. rev_id q = rev_id x) (\<lambda>_. ?x) (reviews s)"
  from assms(1) have calm: "calm s" and dist: "distinct (map rev_id (reviews s))" by (simp_all add: agree_def)
  from row_of_has_row [OF assms(3)] calm have "update_review_row x s = (Inr (), s\<lparr>reviews := ?rs\<rparr>)"
    using assms(2) by (simp add: update_review_row_def bnd_def gets_run save_existing_calm calm_def review_defaults_def)
  moreover have "fits_but (\<lambda>k. k = rev_id x) (\<lambda>i. row_of rev_id i ?rs) (review_cache s)"
    by (rule fits_key [where view = "\<lambda>i. row_of rev_id i (reviews s)"])
      (use assms(1) in \<open>simp_all add: agree_def row_of_put\<close>)
  moreover have other: "filter (\<lambda>r. rev_game r = g) ?rs = filter (\<lambda>r. rev_game r = g) (reviews s)" if "g \<noteq> rev_game x" for g
    using row_of_unique [OF dist assms(3)] assms(4) that by (intro filter_upd_other) auto
  moreover have "fits_but (\<lambda>k. fst k = rev_game x) (reviews_view ?rs) (review_lists s)"
    by (rule fits_group [where view = "reviews_view (reviews s)"])
      (use assms(1) other in \<open>auto simp: agree_def reviews_view_def intro!: reviews_page_cong\<close>)
  moreover have "distinct (map rev_id ?rs)" using dist by (simp add: map_key_put)
  ultimately show ?thesis using assms(1,5) by (auto simp: agree_def calm_def)
qed

lemma agree_delete_review_row:
  assumes "coherent s" and "row_of rev_id i (reviews s) = Some y" and "delete_review_row i s = (r, t)"
  shows "r = Inr () \<and> agree none (\<lambda>k. k = i) (\<lambda>k. k = rev_game y) none none t"
proof -
  let ?rs = "del_rows (\<lambda>r. rev_id r = i) (reviews s)"
  from assms(1,3) have r: "r = Inr ()" and t: "t = s\<lparr>reviews := ?rs\<rparr>" and dist: "distinct (map rev_id (reviews s))"
    by (simp_all add: delete_review_row_def agree_def calm_def io_nil modify_run)
  have "fits_but (\<lambda>k. k = i) (\<lambda>k. row_of rev_id k ?rs) (review_cache s)"
    by (rule fits_key [where view = "\<lambda>i. row_of rev_id i (reviews s)"])
      (use assms(1) in \<open>simp_all add: agree_def row_of_del\<close>)
  moreover have other: "filter (\<lambda>r. rev_game r = g) ?rs = filter (\<lambda>r. rev_game r = g) (reviews s)" if "g \<noteq> rev_game y" for g
    using row_of_unique [OF dist assms(2)] that by (intro filter_del_other) auto
  moreover have "fits_but (\<lambda>k. fst k = rev_game y) (reviews_view ?rs) (review_lists s)"
    by (rule fits_group [where view = "reviews_view (reviews s)"])
      (use assms(1) other in \<open>auto simp: agree_def reviews_view_def intro!: reviews_page_cong\<close>)
  ultimately show ?thesis using assms(1) r t by (simp add: agree_def calm_def distinct_key_del)
qed

text \<open>Comments on reviews.\<close>

lemma agree_create_rcomment_row:
  assumes "coherent s" and "create_rcomment_row x s = (r, t)"
  shows "(\<exists>e. r = Inl e \<and> coherent t) \<or> (\<exists>y. r = Inr y \<and> rc_review y = rc_review x \<and> agree none none none (\<lambda>k. k = rc_review x) none t)"
proof -
  from assms(1) have calm: "calm s" by (simp add: agree_def)
  from assms(2) have "create_row ''game_review_comments'' rc_id rc_id_update (\<lambda>_ _. False) review_comments
      (\<lambda>v. review_comments_update (\<lambda>_. v)) (rcomment_defaults (clock_now s) x) s = (r, t)"
    by (simp add: create_rcomment_row_def bnd_def gets_run)
  with calm show ?thesis
  proof (cases rule: create_row_calm)
    case dup
    with assms(1) show ?thesis by simp
  next
    case (new y)
    then have g: "rc_review y = rc_review x" by (simp add: rcomment_defaults_def)
    have "fits_but (\<lambda>k. fst k = rc_review x) (rcomments_view (review_comments s @ [y])) (rcomment_lists s)"
      by (rule fits_group [where view = "rcomments_view (review_comments s)"])
        (use assms(1) in \<open>auto simp: agree_def rcomments_view_def g intro!: rcomments_page_cong\<close>)
    then have "agree none none none (\<lambda>k. k = rc_review x) none t"
      using new assms(1) by (auto simp: agree_def calm_def bump_auto_def has_row_def)
    with new g show ?thesis by simp
  qed
qed

lemma agree_update_rcomment_row:
  assumes "coherent s" and "rc_id x \<noteq> 0" and "row_of rc_id (rc_id x) (review_comments s) = Some y" and "rc_review y = rc_review x"
    and "update_rcomment_row x s = (r, t)"
  shows "r = Inr () \<and> agree none none none (\<lambda>k. k = rc_review x) none t"
proof -
  let ?x = "x\<lparr>rc_updated := clock_now s\<rparr>"
  let ?rs = "upd_rows (\<lambda>q. rc_id q = rc_id x) (\<lambda>_. ?x) (review_comments s)"
  from assms(1) have calm: "calm s" and dist: "distinct (map rc_id (review_comments s))" by (simp_all add: agree_def)
  from row_of_has_row [OF assms(3)] calm have "update_rcomment_row x s = (Inr (), s\<lparr>review_comments := ?rs\<rparr>)"
    using assms(2) by (simp add: update_rcomment_row_def bnd_def gets_run save_existing_calm calm_def rcomment_defaults_def)
  moreover have other: "filter (\<lambda>r. rc_review r = g) ?rs = filter (\<lambda>r. rc_review r = g) (review_comments s)" if "g \<noteq> rc_review x" for g
    using row_of_unique [OF dist assms(3)] assms(4) that by (intro filter_upd_other) auto
  moreover have "fits_but (\<lambda>k. fst k = rc_review x) (rcomments_view ?rs) (rcomment_lists s)"
    by (rule fits_group [where view = "rcomments_view (review_comments s)"])
      (use assms(1) other in \<open>auto simp: agree_def rcomments_view_def intro!: rcomments_page_cong\<close>)
  moreover have "distinct (map rc_id ?rs)" using dist by (simp add: map_key_put)
  ultimately show ?thesis using assms(1,5) by (auto simp: agree_def calm_def)
qed

lemma agree_delete_rcomment_row:
  assumes "coherent s" and "row_of rc_id i (review_comments s) = Some y" and "delete_rcomment_row i s = (r, t)"
  shows "r = Inr () \<and> agree none none none (\<lambda>k. k = rc_review y) none t"
proof -
  let ?rs = "del_rows (\<lambda>r. rc_id r = i) (review_comments s)"
  from assms(1,3) have r: "r = Inr ()" and t: "t = s\<lparr>review_comments := ?rs\<rparr>" and dist: "distinct (map rc_id (review_comments s))"
    by (simp_all add: delete_rcomment_row_def agree_def calm_def io_nil modify_run)
  have other: "filter (\<lambda>r. rc_review r = g) ?rs = filter (\<lambda>r. rc_review r = g) (review_comments s)" if "g \<noteq> rc_review y" for g
    using row_of_unique [OF dist assms(2)] that by (intro filter_del_other) auto
  have "fits_but (\<lambda>k. fst k = rc_review y) (rcomments_view ?rs) (rcomment_lists s)"
    by (rule fits_group [where view = "rcomments_view (review_comments s)"])
      (use assms(1) other in \<open>auto simp: agree_def rcomments_view_def intro!: rcomments_page_cong\<close>)
  then show ?thesis using assms(1) r t by (simp add: agree_def calm_def distinct_key_del)
qed

section \<open>Requests\<close>

text \<open>Reads fill the cache with what MySQL has.\<close>

lemma coherent_get_game: "keeps coherent (get_game_by_id i)"
proof (rule keepsI)
  fix s r t
  assume run: "get_game_by_id i s = (r, t)" and s: "coherent s"
  then have calm: "calm s" and on: "game_redis s" by (simp_all add: agree_def)
  show "coherent t"
  proof (cases "i = 0 \<or> map_of (game_cache s) i \<noteq> None \<or> row_of g_id i (games s) = None")
    case True
    with run calm on have "t = s"
      by (auto simp: get_game_by_id_def throw_eq read_through_def get_cached_game_def bnd_def attempt_def game_details.get_calm
          get_game_row_def io_nil calm_def ret_run split: if_splits option.splits)
    with s show ?thesis by simp
  next
    case False
    then obtain g where g: "row_of g_id i (games s) = Some g" and "g_id g = i" "i \<noteq> 0" "map_of (game_cache s) i = None"
      by (auto dest: row_of_Some_in)
    with run calm on have "t = game_cache_update (AList.update i g) s"
      by (simp add: get_game_by_id_def read_through_def get_cached_game_def bnd_def attempt_def game_details.get_calm
          get_game_row_def io_nil calm_def ret_run set_cached_game_def cache_put_def ignore_def gets_run modify_run)
    with s g show ?thesis by (simp add: agree_def calm_def fits_update)
  qed
qed

text \<open>A cached page or row was loaded before; the general case of a read through one family.\<close>

lemma coherent_get_review: "keeps coherent (get_review_by_id i)"
proof (rule keepsI)
  fix s r t
  assume run: "get_review_by_id i s = (r, t)" and s: "coherent s"
  then have calm: "calm s" and on: "game_redis s" by (simp_all add: agree_def)
  show "coherent t"
  proof (cases "i = 0 \<or> map_of (review_cache s) i \<noteq> None \<or> row_of rev_id i (reviews s) = None")
    case True
    with run calm on have "t = s"
      by (auto simp: get_review_by_id_def throw_eq read_through_def get_cached_review_def bnd_def attempt_def review_details.get_calm
          get_review_row_def io_nil calm_def ret_run split: if_splits option.splits)
    with s show ?thesis by simp
  next
    case False
    then obtain g where g: "row_of rev_id i (reviews s) = Some g" and "rev_id g = i" "i \<noteq> 0" "map_of (review_cache s) i = None"
      by (auto dest: row_of_Some_in)
    with run calm on have "t = review_cache_update (AList.update i g) s"
      by (simp add: get_review_by_id_def read_through_def get_cached_review_def bnd_def attempt_def review_details.get_calm
          get_review_row_def io_nil calm_def ret_run set_cached_review_def cache_put_def ignore_def gets_run modify_run)
    with s g show ?thesis by (simp add: agree_def calm_def fits_update)
  qed
qed

lemma page_of_Nil [simp]: "page_of p z [] = []"
  by (simp add: page_of_def)

lemma list_reviews_rows_calm: "calm s \<Longrightarrow>
    list_reviews_rows g p z s = (Inr (reviews_page g p z (reviews s), int (count_rows (\<lambda>r. rev_game r = g) (reviews s))), s)"
  by (auto simp: list_reviews_rows_def bnd_def io_nil calm_def gets_run ret_run count_rows_def reviews_page_def)

lemma list_rcomments_rows_calm: "calm s \<Longrightarrow>
    list_rcomments_rows g p z s = (Inr (rcomments_page g p z (review_comments s), int (count_rows (\<lambda>r. rc_review r = g) (review_comments s))), s)"
  by (auto simp: list_rcomments_rows_def bnd_def io_nil calm_def gets_run ret_run count_rows_def rcomments_page_def newest_first_def)

lemma coherent_list_reviews: "keeps coherent (list_reviews_by_game_id g p z)"
proof (rule keepsI)
  fix s r t
  assume run: "list_reviews_by_game_id g p z s = (r, t)" and s: "coherent s"
  then have calm: "calm s" and on: "game_redis s" by (simp_all add: agree_def)
  let ?p = "if p \<le> 0 then 1 else p" and ?z = "if z \<le> 0 then 10 else z"
  let ?k = "(g, ?p, ?z)"
  have "t = s \<or> t = review_lists_update (AList.update ?k (reviews_page g ?p ?z (reviews s))) s"
    using run calm on
    by (cases "map_of (review_lists s) ?k")
      (auto simp: list_reviews_by_game_id_def Let_def throw_eq cached_page_def get_review_list_def bnd_def attempt_def
        review_pages.get_calm list_reviews_rows_calm set_review_list_def review_pages.put_calm ignore_def ret_run split: if_splits)
  moreover have "reviews_view (reviews s) ?k = Some (reviews_page g ?p ?z (reviews s))" by (simp add: reviews_view_def)
  ultimately show "coherent t" using s by (auto simp: agree_def calm_def fits_update)
qed

lemma coherent_list_rcomments: "keeps coherent (list_review_comments g p z)"
proof (rule keepsI)
  fix s r t
  assume run: "list_review_comments g p z s = (r, t)" and s: "coherent s"
  then have calm: "calm s" and on: "game_redis s" by (simp_all add: agree_def)
  let ?p = "if p \<le> 0 then 1 else p" and ?z = "if z \<le> 0 then 20 else z"
  let ?k = "(g, ?p, ?z)"
  have "t = s \<or> t = rcomment_lists_update (AList.update ?k (rcomments_page g ?p ?z (review_comments s))) s"
    using run calm on
    by (cases "map_of (rcomment_lists s) ?k")
      (auto simp: list_review_comments_def Let_def throw_eq cached_page_def get_rcomment_list_def bnd_def attempt_def
        rcomment_pages.get_calm list_rcomments_rows_calm set_rcomment_list_def rcomment_pages.put_calm ignore_def ret_run split: if_splits)
  moreover have "rcomments_view (review_comments s) ?k = Some (rcomments_page g ?p ?z (review_comments s))" by (simp add: rcomments_view_def)
  ultimately show "coherent t" using s by (auto simp: agree_def calm_def fits_update)
qed

lemma coherent_list_orders: "keeps coherent (list_my_game_orders u)"
proof (rule keepsI)
  fix s r t
  assume run: "list_my_game_orders u s = (r, t)" and s: "coherent s"
  then have calm: "calm s" and on: "game_redis s" by (simp_all add: agree_def)
  let ?l = "take 50 (newest_first go_created (filter (\<lambda>r. go_user r = u) (game_orders s)))"
  have "t = s \<or> t = order_lists_update (AList.update u ?l) s"
    using run calm on
    by (cases "map_of (order_lists s) u")
      (auto simp: list_my_game_orders_def Let_def read_through_def get_user_game_orders_def bnd_def attempt_def
        user_orders.get_calm list_game_orders_by_user_def io_nil gets_run set_user_game_orders_def cache_put_def modify_run
        calm_def ignore_def ret_run split: if_splits)
  moreover have "orders_view (game_orders s) u = Some ?l" by (simp add: orders_view_def)
  ultimately show "coherent t" using s by (auto simp: agree_def calm_def fits_update)
qed

text \<open>The steps above as triples.\<close>

lemma ok_drops:
  "ok (agree A B C D E) (ignore (delete_game_key i)) (agree (\<lambda>k. A k \<and> k \<noteq> i) B C D E)"
  "ok (agree A B C D E) (ignore (delete_review_key i)) (agree A (\<lambda>k. B k \<and> k \<noteq> i) C D E)"
  "ok (agree A B C D E) (ignore (delete_review_lists i)) (agree A B (\<lambda>k. C k \<and> k \<noteq> i) D E)"
  "ok (agree A B C D E) (ignore (delete_rcomment_lists i)) (agree A B C (\<lambda>k. D k \<and> k \<noteq> i) E)"
  by (rule okI, erule (1) agree_drop_game agree_drop_review agree_drop_review_lists agree_drop_rcomment_lists)+

lemma ok_drop_orders:
  "u \<noteq> 0 \<Longrightarrow> ok (agree A B C D E) (ignore (del_user_game_orders u)) (agree A B C D (\<lambda>k. E k \<and> k \<noteq> u))"
  by (rule okI, erule (2) agree_drop_orders)

lemma ok_rows:
  "g_id g \<noteq> 0 \<Longrightarrow> ok coherent (update_game_row g) (agree (\<lambda>k. k = g_id g) none none none none)"
  "ok coherent (delete_game_row i) (agree (\<lambda>k. k = i) none none none none)"
  by (rule okI, erule (2) agree_update_game_row, rule okI, erule (1) agree_delete_game_row)

text \<open>Invalidations of other families.\<close>

lemma keeps_agree_other:
  "keeps (agree A B C D E) (ignore invalidate_games_list_cache)" "keeps (agree A B C D E) (ignore (delete_game_topic_map i))"
  "keeps (agree A B C D E) (ignore (delete_cached_play u i))" "keeps (agree A B C D E) (ignore (delete_play_list u))"
  "keeps (agree A B C D E) (ignore (del_account_balance u))"
proof -
  have v: "keeps (\<lambda>s. game_view s = c) invalidate_games_list_cache" "keeps (\<lambda>s. game_view s = c) (delete_game_topic_map i)"
      "keeps (\<lambda>s. game_view s = c) (delete_cached_play u i)" "keeps (\<lambda>s. game_view s = c) (delete_play_list u)"
      "keeps (\<lambda>s. game_view s = c) (del_account_balance u)" for c :: "_ \<times> _"
    unfolding invalidate_games_list_cache_def delete_game_topic_map_def delete_cached_play_def delete_play_list_def del_account_balance_def
    by (intro keeps_bnd keeps_gets keeps_if keeps_ret game_pages.keeps_by_pattern topic_of_game.keeps_del play_details.keeps_del
        user_plays.keeps_del account_balances.keeps_del quietly_game_view; simp add: game_view_def)+
  have c: "keeps calm invalidate_games_list_cache" "keeps calm (delete_game_topic_map i)"
      "keeps calm (delete_cached_play u i)" "keeps calm (delete_play_list u)" "keeps calm (del_account_balance u)"
    unfolding invalidate_games_list_cache_def delete_game_topic_map_def delete_cached_play_def delete_play_list_def del_account_balance_def
    by (intro keeps_bnd keeps_gets keeps_if keeps_ret game_pages.keeps_calm topic_of_game.keeps_calm play_details.keeps_calm
        user_plays.keeps_calm account_balances.keeps_calm)+
  show "keeps (agree A B C D E) (ignore invalidate_games_list_cache)" "keeps (agree A B C D E) (ignore (delete_game_topic_map i))"
    "keeps (agree A B C D E) (ignore (delete_cached_play u i))" "keeps (agree A B C D E) (ignore (delete_play_list u))"
    "keeps (agree A B C D E) (ignore (del_account_balance u))"
    by (intro keeps_ignore keeps_agree_view v c)+
qed

lemma keeps_agree_topic: "keeps (agree A B C D E) (ensure_game_topic_after_create g name)"
  by (intro keeps_agree_view keeps_view_topic keeps_calm_topic)

lemma keeps_agree_id: "keeps (agree A B C D E) generate_id"
  by (intro keeps_agree_view) (simp_all add: keeps_def generate_id_def game_view_def calm_def)

end
