(* ===== verification/GameCoherence.thy ===== *)
theory GameCoherence
  imports GameCache
begin

text \<open>
  The requests of the game pages keep the caches in agreement with MySQL (GameCache.thy), and so what a
  reader is answered is what the tables hold.
\<close>

section \<open>Games\<close>

lemma keeps_create_game_row: "keeps coherent (create_game_row g)"
  by (rule keepsI) (rule agree_create_game_row)

lemma coherent_create_game: "keeps coherent (create_game g)"
  unfolding create_game_def Let_def
  by (intro keeps_case_option keeps_if keeps_throw keeps_bnd keeps_ret keeps_agree_other keeps_agree_topic
      keeps_create_game_row)

lemma keeps_then: "ok I m P \<Longrightarrow> ends P (f ()) I \<Longrightarrow> keeps I (bnd m f)"
  unfolding ends_keeps [symmetric] by (rule ends_then)

lemma coherent_save_game:
  assumes "g_id x \<noteq> 0"
  shows "keeps coherent (bnd (update_game_row x) (\<lambda>_. bnd (ignore (delete_game_key (g_id x))) (\<lambda>_. ignore invalidate_games_list_cache)))"
  by (rule keeps_then [OF ok_rows(1) [OF assms]], rule ends_then [OF ok_drops(1)]) (simp add: ends_keeps keeps_agree_other)

lemma keeps_cond: "(b \<Longrightarrow> keeps I m) \<Longrightarrow> (\<not> b \<Longrightarrow> keeps I n) \<Longrightarrow> keeps I (if b then m else n)"
  by simp

lemma coherent_update_game: "keeps coherent (update_game g)"
  unfolding update_game_def Let_def
  by (intro keeps_case_option keeps_cond keeps_throw) (rule coherent_save_game, simp)

lemma coherent_delete_game: "keeps coherent (delete_game i)"
  unfolding delete_game_def
  by (intro keeps_if keeps_throw, rule keeps_then [OF ok_rows(2)], rule ends_then [OF ok_drops(1)], rule ends_then [OF ok_drops(3)])
    (simp add: ends_keeps keeps_bnd keeps_agree_other)

section \<open>Reviews and their comments\<close>

lemma keeps_agree_read: "(\<And>s. snd (f s) = s) \<Longrightarrow> keeps (agree A B C D E) (io f)"
  by (rule keeps_agree_view) (simp_all add: keeps_view_call keeps_calm_call)

lemma coherent_save_review:
  "keeps coherent (bnd (create_review_row x) (\<lambda>y. bnd (ignore (delete_review_lists (rev_game y))) (\<lambda>_. ret y)))"
proof (rule keepsI)
  fix s r t
  assume run: "bnd (create_review_row x) (\<lambda>y. bnd (ignore (delete_review_lists (rev_game y))) (\<lambda>_. ret y)) s = (r, t)" and s: "coherent s"
  obtain r1 u where row: "create_review_row x s = (r1, u)" by (metis prod.collapse)
  from agree_create_review_row [OF s row] show "coherent t"
  proof (elim disjE exE conjE)
    fix e assume "r1 = Inl e" and "coherent u"
    with row run show ?thesis by (simp add: bnd_def)
  next
    fix y assume y: "r1 = Inr y" "rev_game y = rev_game x" and u: "agree none none (\<lambda>k. k = rev_game x) none none u"
    obtain r2 v where "ignore (delete_review_lists (rev_game x)) u = (r2, v)" by (metis prod.collapse)
    with agree_drop_review_lists [OF u this] y row run show ?thesis by (simp add: bnd_def ret_run)
  qed
qed

lemma coherent_create_review: "keeps coherent (create_review x)"
proof -
  have "keeps coherent (get_review_by_game_and_user g u)" for g u
    unfolding get_review_by_game_and_user_def by (rule keeps_agree_read) (simp split: option.split)
  then show ?thesis
    unfolding create_review_def Let_def
    by (intro keeps_case_option keeps_if keeps_throw keeps_bnd keeps_gets keeps_attempt keeps_case_sum coherent_save_review)
qed

lemma ok_review_row:
  "\<lbrakk>rev_id x \<noteq> 0; rev_game y = rev_game x\<rbrakk> \<Longrightarrow> ok (\<lambda>s. coherent s \<and> row_of rev_id (rev_id x) (reviews s) = Some y)
    (update_review_row x) (agree none (\<lambda>k. k = rev_id x) (\<lambda>k. k = rev_game x) none none)"
  "ok (\<lambda>s. coherent s \<and> row_of rev_id i (reviews s) = Some y)
    (delete_review_row i) (agree none (\<lambda>k. k = i) (\<lambda>k. k = rev_game y) none none)"
  by (rule okI, use agree_update_review_row in blast, rule okI, use agree_delete_review_row in blast)

lemma ends_drop_review_caches: "ends (agree none (\<lambda>k. k = i) (\<lambda>k. k = g) none none) (drop_review_caches i g) coherent"
  unfolding drop_review_caches_def
  by (rule ends_then [OF ok_drops(2)], rule ends_then [OF ok_drops(3)], rule ends_ok, use ok_drops(4) [of none none none none none i] in simp)

lemma coherent_delete_review: "keeps coherent (delete_review i)"
proof (rule keepsI)
  fix s r t
  assume run: "delete_review i s = (r, t)" and s: "coherent s"
  then have calm: "calm s" by (simp add: agree_def)
  show "coherent t"
  proof (cases "i = 0 \<or> row_of rev_id i (reviews s) = None")
    case True
    with run calm have "t = s" by (auto simp: delete_review_def throw_eq get_review_row_def bnd_def io_nil calm_def split: if_splits)
    with s show ?thesis by simp
  next
    case False
    then obtain y where y: "row_of rev_id i (reviews s) = Some y" by auto
    with False run calm have "bnd (delete_review_row i) (\<lambda>_. drop_review_caches i (rev_game y)) s = (r, t)"
      by (simp add: delete_review_def get_review_row_def bnd_def io_nil calm_def)
    moreover have "ends (\<lambda>s. coherent s \<and> row_of rev_id i (reviews s) = Some y) (bnd (delete_review_row i) (\<lambda>_. drop_review_caches i (rev_game y))) coherent"
      by (rule ends_then [OF ok_review_row(2)]) (rule ends_drop_review_caches)
    ultimately show ?thesis using s y by (auto dest: endsD)
  qed
qed

text \<open>What a reader of a review holds is the row.\<close>

lemma or_not_found_Inr: "or_not_found m s = (Inr x, t) \<longleftrightarrow> m s = (Inr x, t)"
proof
  assume "or_not_found m s = (Inr x, t)"
  then obtain r u where "attempt m s = (Inr r, u)" and "(case r of
      Inl e \<Rightarrow> throw (if e = RecordNotFound then MsgError else e) | Inr x \<Rightarrow> ret x) u = (Inr x, t)"
    unfolding or_not_found_def by (elim bnd_InrE)
  then show "m s = (Inr x, t)" by (cases r) (simp_all add: attempt_eq_Inr throw_eq ret_eq)
qed (simp add: or_not_found_def bnd_def attempt_def ret_run)

lemma get_review_row_found:
  assumes "coherent s" and "get_review_by_id i s = (Inr x, t)"
  shows "coherent t \<and> i \<noteq> 0 \<and> rev_id x = i \<and> row_of rev_id i (reviews t) = Some x"
proof -
  from assms(1) have calm: "calm s" and on: "game_redis s"
    and fits: "fits_but none (\<lambda>i. row_of rev_id i (reviews s)) (review_cache s)" by (simp_all add: agree_def)
  from assms(2) have i: "i \<noteq> 0" by (auto simp: get_review_by_id_def throw_eq split: if_splits)
  from keepsD [OF coherent_get_review assms(2,1)] have t: "coherent t" .
  have "row_of rev_id i (reviews t) = Some x"
  proof (cases "map_of (review_cache s) i")
    case None
    with assms(2) i calm on have "row_of rev_id i (reviews s) \<noteq> None"
      by (cases "row_of rev_id i (reviews s)") (simp_all add: get_review_by_id_def read_through_def get_cached_review_def
          bnd_def attempt_def review_details.get_calm get_review_row_def io_nil calm_def)
    then obtain y where y: "row_of rev_id i (reviews s) = Some y" and "rev_id y = i" by (auto dest: row_of_Some_in)
    with assms(2) None i calm on have "x = y" "reviews t = reviews s"
      by (auto simp: get_review_by_id_def read_through_def get_cached_review_def bnd_def attempt_def review_details.get_calm
          get_review_row_def io_nil calm_def ret_run set_cached_review_def cache_put_def ignore_def gets_run modify_run)
    with y show ?thesis by simp
  next
    case (Some y)
    with assms(2) i calm on have "x = y" "t = s"
      by (auto simp: get_review_by_id_def read_through_def get_cached_review_def bnd_def attempt_def review_details.get_calm ret_run)
    with fits_lookup [OF fits Some] show ?thesis by simp
  qed
  with t i show ?thesis by (auto dest: row_of_Some_in)
qed

lemma ends_update_review:
  assumes "rev_id x = i" and "rev_game x = rev_game y"
  shows "ends (\<lambda>s :: 'r game_st_scheme. coherent s \<and> row_of rev_id i (reviews s) = Some y) (update_review (Some x)) coherent"
proof (cases "i = 0 \<or> \<not> review_ok (x\<lparr>rev_content := trim_space (rev_content x)\<rparr>)")
  case True
  with assms show ?thesis by (auto simp: update_review_def intro!: ends_throw)
next
  case False
  show ?thesis
  proof (rule endsI)
    fix s :: "'r game_st_scheme" and r t
    let ?x = "x\<lparr>rev_content := trim_space (rev_content x), rev_reviewed := or_now (clock_now s) (rev_reviewed x)\<rparr>"
    assume s: "coherent s \<and> row_of rev_id i (reviews s) = Some y" and run: "update_review (Some x) s = (r, t)"
    from run False assms have "bnd (update_review_row ?x) (\<lambda>_. drop_review_caches i (rev_game x)) s = (r, t)"
      by (simp add: update_review_def Let_def bnd_def gets_run cong: prod.case_cong sum.case_cong)
    moreover have "ends (\<lambda>s :: 'r game_st_scheme. coherent s \<and> row_of rev_id (rev_id ?x) (reviews s) = Some y)
        (bnd (update_review_row ?x) (\<lambda>_. drop_review_caches i (rev_game x))) coherent"
      by (rule ends_then [OF ok_review_row(1)]) (use False assms ends_drop_review_caches [of i "rev_game x"] in simp_all)
    ultimately show "coherent t" using s assms by (auto dest: endsD)
  qed
qed

text \<open>A request that reads a review, checks its owner and goes on.\<close>

lemma keeps_owner_review:
  assumes "\<And>x. rev_id x = i \<Longrightarrow> ends (\<lambda>s. coherent s \<and> row_of rev_id i (reviews s) = Some x) (f x) coherent"
  shows "keeps coherent (bnd (or_not_found (get_review_by_id i)) f)"
proof (rule keepsI)
  fix s r t
  assume run: "bnd (or_not_found (get_review_by_id i)) f s = (r, t)" and s: "coherent s"
  have keep: "keeps coherent (or_not_found (get_review_by_id i))"
    unfolding or_not_found_def by (intro keeps_bnd keeps_attempt coherent_get_review keeps_case_sum keeps_throw keeps_ret)
  obtain r1 u where first: "or_not_found (get_review_by_id i) s = (r1, u)" by (metis prod.collapse)
  show "coherent t"
  proof (cases r1)
    case (Inl e)
    with run first keepsD [OF keep first s] show ?thesis by (simp add: bnd_def)
  next
    case (Inr x)
    with first have "get_review_by_id i s = (Inr x, u)" by (simp add: or_not_found_Inr)
    from get_review_row_found [OF s this] have "coherent u \<and> row_of rev_id i (reviews u) = Some x" and "rev_id x = i" by simp_all
    with assms [of x] run first Inr show ?thesis by (auto simp: bnd_def dest: endsD)
  qed
qed

lemma ends_cond: "(b \<Longrightarrow> ends P m Q) \<Longrightarrow> (\<not> b \<Longrightarrow> ends P n Q) \<Longrightarrow> ends P (if b then m else n) Q"
  by simp

lemma ends_gets: "(\<And>x. ends P (f x) Q) \<Longrightarrow> ends P (bnd (gets g) f) Q"
  by (simp add: ends_def bnd_def gets_run)

lemma ends_map: "ends P m Q \<Longrightarrow> ends P (bnd m (\<lambda>x. ret (f x))) Q"
  unfolding ends_def bnd_def by (auto simp: ret_run split: prod.splits sum.splits)

lemma coherent_update_review_handler: "keeps coherent (update_review_handler i u body)"
  unfolding update_review_handler_def with_id_def with_body_def
  by (intro keeps_case_option keeps_throw keeps_case_prod keeps_owner_review ends_cond ends_throw ends_gets ends_map
      ends_update_review) simp_all

lemma coherent_delete_review_handler: "keeps coherent (delete_review_handler i u)"
  unfolding delete_review_handler_def with_id_def or_not_found_def
  by (intro keeps_case_option keeps_throw keeps_bnd keeps_attempt keeps_if keeps_case_sum keeps_ret
      coherent_get_review coherent_delete_review)

lemma coherent_save_rcomment:
  "keeps coherent (bnd (create_rcomment_row x) (\<lambda>y. bnd (ignore (delete_rcomment_lists (rc_review y))) (\<lambda>_. ret y)))"
proof (rule keepsI)
  fix s r t
  assume run: "bnd (create_rcomment_row x) (\<lambda>y. bnd (ignore (delete_rcomment_lists (rc_review y))) (\<lambda>_. ret y)) s = (r, t)" and s: "coherent s"
  obtain r1 u where row: "create_rcomment_row x s = (r1, u)" by (metis prod.collapse)
  from agree_create_rcomment_row [OF s row] show "coherent t"
  proof (elim disjE exE conjE)
    fix e assume "r1 = Inl e" and "coherent u"
    with row run show ?thesis by (simp add: bnd_def)
  next
    fix y assume y: "r1 = Inr y" "rc_review y = rc_review x" and u: "agree none none none (\<lambda>k. k = rc_review x) none u"
    obtain r2 v where "ignore (delete_rcomment_lists (rc_review x)) u = (r2, v)" by (metis prod.collapse)
    with agree_drop_rcomment_lists [OF u this] y row run show ?thesis by (simp add: bnd_def ret_run)
  qed
qed

lemma coherent_create_rcomment: "keeps coherent (create_review_comment x)"
  unfolding create_review_comment_def Let_def
  by (intro keeps_case_option keeps_if keeps_throw coherent_save_rcomment)

lemma ok_rcomment_row:
  "\<lbrakk>rc_id x \<noteq> 0; rc_review y = rc_review x\<rbrakk> \<Longrightarrow> ok (\<lambda>s. coherent s \<and> row_of rc_id (rc_id x) (review_comments s) = Some y)
    (update_rcomment_row x) (agree none none none (\<lambda>k. k = rc_review x) none)"
  "ok (\<lambda>s. coherent s \<and> row_of rc_id i (review_comments s) = Some y)
    (delete_rcomment_row i) (agree none none none (\<lambda>k. k = rc_review y) none)"
  by (rule okI, use agree_update_rcomment_row in blast, rule okI, use agree_delete_rcomment_row in blast)

lemma ends_drop_rcomments: "ends (agree none none none (\<lambda>k. k = i) none) (ignore (delete_rcomment_lists i)) coherent"
  by (rule ends_ok) (use ok_drops(4) [of none none none "\<lambda>k. k = i" none i] in simp)

text \<open>A request that reads a comment and goes on with it.\<close>

lemma keeps_owner_rcomment:
  assumes "\<And>x. rc_id x = i \<Longrightarrow> i \<noteq> 0 \<Longrightarrow> ends (\<lambda>s. coherent s \<and> row_of rc_id i (review_comments s) = Some x) (f x) coherent"
  shows "keeps coherent (bnd (get_review_comment_by_id i) f)"
proof (rule keepsI)
  fix s r t
  assume run: "bnd (get_review_comment_by_id i) f s = (r, t)" and s: "coherent s"
  then have calm: "calm s" by (simp add: agree_def)
  show "coherent t"
  proof (cases "i = 0 \<or> row_of rc_id i (review_comments s) = None")
    case True
    with run calm have "t = s"
      by (auto simp: get_review_comment_by_id_def throw_eq get_rcomment_row_def bnd_def io_nil calm_def throw_run split: if_splits)
    with s show ?thesis by simp
  next
    case False
    then obtain x where x: "row_of rc_id i (review_comments s) = Some x" and id: "rc_id x = i" by (auto dest: row_of_Some_in)
    with False run calm have "f x s = (r, t)"
      by (simp add: get_review_comment_by_id_def get_rcomment_row_def bnd_def io_nil calm_def)
    with assms [OF id] False x s show ?thesis by (auto dest: endsD)
  qed
qed

lemma get_rcomment_nonzero: "i \<noteq> 0 \<Longrightarrow> get_rcomment_row i = get_review_comment_by_id i"
  by (simp add: get_review_comment_by_id_def)

lemma coherent_delete_rcomment: "keeps coherent (delete_review_comment i)"
  unfolding delete_review_comment_def
proof (intro keeps_cond keeps_throw, unfold get_rcomment_nonzero, rule keeps_owner_rcomment)
  show "ends (\<lambda>s. coherent s \<and> row_of rc_id i (review_comments s) = Some x)
      (bnd (delete_rcomment_row i) (\<lambda>_. ignore (delete_rcomment_lists (rc_review x)))) coherent" for x
    by (rule ends_then [OF ok_rcomment_row(2)]) (rule ends_drop_rcomments)
qed

lemma ends_update_rcomment:
  assumes "rc_id x = i" and "rc_review x = rc_review y"
  shows "ends (\<lambda>s. coherent s \<and> row_of rc_id i (review_comments s) = Some y) (update_review_comment (Some x)) coherent"
proof (cases "i = 0 \<or> trim_space (rc_content x) = []")
  case True
  with assms show ?thesis by (auto simp: update_review_comment_def intro!: ends_throw)
next
  case False
  let ?x = "x\<lparr>rc_content := trim_space (rc_content x)\<rparr>"
  have "ends (\<lambda>s. coherent s \<and> row_of rc_id (rc_id ?x) (review_comments s) = Some y)
      (bnd (update_rcomment_row ?x) (\<lambda>_. ignore (delete_rcomment_lists (rc_review x)))) coherent"
    by (rule ends_then [OF ok_rcomment_row(1)]) (use False assms ends_drop_rcomments [of "rc_review x"] in simp_all)
  with False assms show ?thesis by (simp add: update_review_comment_def)
qed

lemma keeps_or_not_found:
  assumes "keeps I (bnd m f)"
  shows "keeps I (bnd (or_not_found m) f)"
proof (rule keepsI)
  fix s r t
  assume run: "bnd (or_not_found m) f s = (r, t)" and "I s"
  have "snd (bnd (or_not_found m) f s) = snd (bnd m f s)"
    by (cases "m s"; cases "fst (m s)"; cases "fst (m s) = Inl GoPanic")
      (simp_all add: or_not_found_def bnd_def attempt_def throw_run ret_run split: err.split)
  with run keepsD [OF assms _ \<open>I s\<close>, of "fst (bnd m f s)" t] show "I t" by (metis prod.collapse snd_conv)
qed

lemma coherent_update_rcomment_handler: "keeps coherent (update_review_comment_handler i u body)"
  unfolding update_review_comment_handler_def with_id_def with_body_def
  by (intro keeps_case_option keeps_throw keeps_or_not_found keeps_owner_rcomment ends_cond ends_throw ends_map
      ends_update_rcomment) simp_all

lemma coherent_delete_rcomment_handler: "keeps coherent (delete_review_comment_handler i u)"
proof -
  have "keeps coherent (get_review_comment_by_id i)" for i
    unfolding get_review_comment_by_id_def get_rcomment_row_def
    by (intro keeps_if keeps_throw keeps_agree_read) (simp split: option.split)
  then show ?thesis
    unfolding delete_review_comment_handler_def with_id_def
    by (intro keeps_case_option keeps_throw keeps_or_not_found keeps_bnd keeps_if coherent_delete_rcomment)
qed

section \<open>Purchases\<close>

text \<open>The transaction touches none of the families, and of the cached tables only the orders.\<close>

definition catalogue :: "'r game_st_scheme \<Rightarrow> _" where
  "catalogue s = ((games s, reviews s, review_comments s, game_redis s),
     game_cache s, review_cache s, review_lists s, rcomment_lists s, order_lists s)"

lemma keeps_catalogue_call: "(\<And>s. catalogue (snd (f s)) = catalogue s) \<Longrightarrow> keeps (\<lambda>s. catalogue s = c) (io f)"
  by (rule keeps_call) (simp_all add: quietly_def catalogue_def)

lemmas purchase_defs = purchase_body_def place_game_order_def pay_for_game_def existing_order_def insert_game_order_def
  insert_account_txn_def mark_license_sold_def charge_account_def get_user_for_update_def get_game_order_by_id_def
  upsert_play_row_def save_existing_def

lemma keeps_catalogue_purchase: "keeps (\<lambda>s. catalogue s = c) (purchase_body g u order)"
  unfolding purchase_defs Let_def
  by (intro keeps_if keeps_ret keeps_throw keeps_gets keeps_bnd keeps_attempt keeps_case_option keeps_case_sum keeps_catalogue_call)
    (auto simp: gets_run modify_run catalogue_def split: option.split)

lemma keeps_calm_purchase: "keeps calm (purchase_body g u order)"
  unfolding purchase_defs Let_def
  by (intro keeps_if keeps_ret keeps_throw keeps_gets keeps_bnd keeps_attempt keeps_case_option keeps_case_sum keeps_calm_call)
    (auto simp: gets_run modify_run split: option.split)

lemma purchase_body_orders:
  assumes "purchase_body g u order s = (Inr x, t)"
  shows "game_orders t = game_orders s \<or> (\<exists>y. go_user y = u \<and> game_orders t = game_orders s @ [y])"
  using purchase_body_outcome [OF assms]
proof
  assume "order_placed g u order x s t"
  then have "go_user x = u" and "game_orders t = game_orders s @ [x]"
    by (auto simp: order_placed_def new_order_def split: if_splits)
  then show ?thesis by blast
next
  assume "order_found g u order x s t"
  then obtain q fs where t: "t = q\<lparr>faults := fs\<rparr>"
    and "q = s \<or> paid_before g u order x s q \<or> (\<exists>lic usr. paid_now g u order usr lic s q)"
    unfolding order_found_def by (auto split: if_splits)
  then have "game_orders q = game_orders s"
    by (elim disjE exE) (auto simp: paid_before_def dest: paid_now_frame(1))
  with t show ?thesis by simp
qed

lemma orders_view_other: "go_user y \<noteq> k \<Longrightarrow> orders_view (os @ [y]) k = orders_view os k"
  by (simp add: orders_view_def)

lemma agree_purchase_in_tx:
  assumes s: "coherent s" and run: "purchase_in_tx (Some g) u order s = (r, t)"
  shows "(\<exists>e. r = Inl e \<and> coherent t) \<or> (\<exists>x. r = Inr x \<and> u \<noteq> 0 \<and> agree none none none none (\<lambda>k. k = u) t)"
proof (cases "g_id g = 0 \<or> u = 0")
  case True
  with run s show ?thesis by (auto simp: purchase_in_tx_def throw_eq)
next
  case False
  obtain r1 q where body: "purchase_body g u order s = (r1, q)" by (metis prod.collapse)
  from s have calm: "calm s" by (simp add: agree_def)
  have q: "calm q" using keepsD [OF keeps_calm_purchase body calm] .
  have cat: "catalogue q = catalogue s" using keepsD [OF keeps_catalogue_purchase body] by simp
  from run False have "tx game_rollback (purchase_body g u order) s = (r, t)" by (simp add: purchase_in_tx_def)
  then have rt: "(r, t) = (case r1 of Inl e \<Rightarrow> (Inl e, game_rollback s q) | Inr x \<Rightarrow> (Inr x, q))"
    by (simp add: tx_calm_result [OF calm keeps_calm_purchase] body split: sum.split)
  show ?thesis
  proof (cases r1)
    case (Inl e)
    with rt q cat have "game_view t = game_view s" and "calm t = calm s" and "r = Inl e"
      using calm by (simp_all add: game_view_def catalogue_def game_rollback_def content_rollback_def calm_def)
    with s show ?thesis using agree_view [of t s none none none none none] by blast
  next
    case (Inr x)
    with rt have "r = Inr x" and t: "t = q" by simp_all
    from body Inr have "game_orders q = game_orders s \<or> (\<exists>y. go_user y = u \<and> game_orders q = game_orders s @ [y])"
      by (intro purchase_body_orders) simp
    then have "orders_view (game_orders q) k = orders_view (game_orders s) k" if "k \<noteq> u" for k
      using that by (auto simp: orders_view_other)
    then have "fits_but (\<lambda>k. k = u) (orders_view (game_orders q)) (order_lists s)"
      using s unfolding agree_def by (intro fits_key [where view = "orders_view (game_orders s)"]) auto
    with cat q s False \<open>r = Inr x\<close> t show ?thesis by (simp add: agree_def catalogue_def)
  qed
qed

lemma ok_ignore:
  assumes "no_panic m" and "keeps P (ignore m)"
  shows "ok P (ignore m) P"
proof (rule okI)
  fix s r t
  assume "P s" and run: "ignore m s = (r, t)"
  with assms(2) have "P t" by (auto dest: keepsD)
  moreover have "r = Inr ()"
  proof (cases r)
    case (Inl e)
    with run have "fst (m s) = Inl GoPanic" by (simp add: ignore_eq_Inl)
    with assms(1) show ?thesis by (simp add: no_panic_def)
  qed simp
  ultimately show "r = Inr () \<and> P t" by simp
qed

lemma ends_drop_purchase:
  assumes "u \<noteq> 0"
  shows "ends (agree none none none none (\<lambda>k. k = u)) (drop_purchase_caches u g) coherent"
proof -
  have quiet: "no_panic (delete_cached_play u g)" "no_panic (delete_play_list u)"
    unfolding delete_cached_play_def delete_play_list_def by (rule no_panic_cache)+
  show ?thesis
    unfolding drop_purchase_caches_def
    by (rule ends_then [OF ok_ignore [OF quiet(1) keeps_agree_other(3)]], rule ends_then [OF ok_ignore [OF quiet(2) keeps_agree_other(4)]],
        rule ends_then [OF ok_drop_orders [OF assms]]) (simp add: ends_keeps keeps_agree_other)
qed

lemma coherent_purchase_game: "keeps coherent (purchase_game u i key)"
proof (rule keepsI)
  fix s r t
  assume run: "purchase_game u i key s = (r, t)" and s: "coherent s"
  obtain r1 s1 where one: "get_game_by_id i s = (r1, s1)" by (metis prod.collapse)
  have s1: "coherent s1" using keepsD [OF coherent_get_game one s] .
  show "coherent t"
  proof (cases r1)
    case (Inl e)
    with run one s1 show ?thesis by (simp add: purchase_game_def bnd_def)
  next
    case (Inr g)
    obtain r2 s2 where two: "purchase_order_id u i key s1 = (r2, s2)" by (metis prod.collapse)
    have "keeps coherent (purchase_order_id u i key)"
      unfolding purchase_order_id_def by (intro keeps_bnd keeps_ret keeps_agree_id)
    from keepsD [OF this two s1] have s2: "coherent s2" .
    from two obtain order where r2: "r2 = Inr order"
      by (auto simp: purchase_order_id_def bnd_def generate_id_def ret_run)
    obtain r3 s3 where three: "purchase_in_tx (Some g) u order s2 = (r3, s3)" by (metis prod.collapse)
    from agree_purchase_in_tx [OF s2 three] show ?thesis
    proof (elim disjE exE conjE)
      fix e assume "r3 = Inl e" and "coherent s3"
      with run one two three Inr r2 show ?thesis by (simp add: purchase_game_def bnd_def)
    next
      fix x assume "r3 = Inr x" and "u \<noteq> 0" and s3: "agree none none none none (\<lambda>k. k = u) s3"
      with run one two three Inr r2 have "bnd (drop_purchase_caches u i) (\<lambda>_. ret x) s3 = (r, t)"
        by (simp add: purchase_game_def bnd_def)
      from endsD [OF ends_map [OF ends_drop_purchase [OF \<open>u \<noteq> 0\<close>]] this s3] show ?thesis .
    qed
  qed
qed

section \<open>Every request\<close>

text \<open>The requests of the game pages that touch these families, the clock, and the expiry of any cache entries.\<close>

definition expire :: "(u64 \<Rightarrow> bool) \<Rightarrow> (u64 \<Rightarrow> bool) \<Rightarrow> (u64 \<times> int \<times> int \<Rightarrow> bool) \<Rightarrow> (u64 \<times> int \<times> int \<Rightarrow> bool) \<Rightarrow> (u64 \<Rightarrow> bool) \<Rightarrow>
    'r game_st_scheme \<Rightarrow> 'r game_st_scheme" where
  "expire A B C D E s = s\<lparr>game_cache := filter (\<lambda>p. \<not> A (fst p)) (game_cache s), review_cache := filter (\<lambda>p. \<not> B (fst p)) (review_cache s),
     review_lists := filter (\<lambda>p. \<not> C (fst p)) (review_lists s), rcomment_lists := filter (\<lambda>p. \<not> D (fst p)) (rcomment_lists s),
     order_lists := filter (\<lambda>p. \<not> E (fst p)) (order_lists s)\<rparr>"

inductive catalog_step :: "'r game_st_scheme \<Rightarrow> 'r game_st_scheme \<Rightarrow> bool" where
  "create_game_handler p s = (r1, t) \<Longrightarrow> catalog_step s t"
| "update_game_handler i p s = (r1, t) \<Longrightarrow> catalog_step s t"
| "delete_game_handler i s = (r2, t) \<Longrightarrow> catalog_step s t"
| "get_game_by_id k s = (r3, t) \<Longrightarrow> catalog_step s t"
| "create_review_handler i u b s = (r1, t) \<Longrightarrow> catalog_step s t"
| "update_review_handler i u b s = (r1, t) \<Longrightarrow> catalog_step s t"
| "delete_review_handler i u s = (r2, t) \<Longrightarrow> catalog_step s t"
| "get_review_handler i s = (r4, t) \<Longrightarrow> catalog_step s t"
| "list_reviews_by_game_id k page sz s = (r5, t) \<Longrightarrow> catalog_step s t"
| "create_review_comment_handler i u c s = (r1, t) \<Longrightarrow> catalog_step s t"
| "update_review_comment_handler i u d s = (r1, t) \<Longrightarrow> catalog_step s t"
| "delete_review_comment_handler i u s = (r2, t) \<Longrightarrow> catalog_step s t"
| "list_review_comments_handler i pg z s = (r6, t) \<Longrightarrow> catalog_step s t"
| "purchase_game_handler u i key header s = (r7, t) \<Longrightarrow> catalog_step s t"
| "list_my_game_orders_handler u s = (r8, t) \<Longrightarrow> catalog_step s t"
| "t = expire A B C D E s \<Longrightarrow> catalog_step s t"
| "t = s\<lparr>clock_now := n, clock_day := w\<rparr> \<Longrightarrow> catalog_step s t"

lemma coherent_expire: "coherent s \<Longrightarrow> coherent (expire A B C D E s)"
  unfolding expire_def agree_def fits_but_def by (auto simp: calm_def)

lemma coherent_clock: "coherent s \<Longrightarrow> coherent (s\<lparr>clock_now := n, clock_day := w\<rparr>)"
  by (simp add: agree_def calm_def)

lemma coherent_handlers:
  "keeps coherent (create_game_handler p)" "keeps coherent (update_game_handler i p)" "keeps coherent (delete_game_handler i)"
  "keeps coherent (create_review_handler i u b)" "keeps coherent (get_review_handler i)"
  "keeps coherent (create_review_comment_handler i u c)" "keeps coherent (list_review_comments_handler i pg z)"
  "keeps coherent (purchase_game_handler u i key header)" "keeps coherent (list_my_game_orders_handler u)"
  unfolding create_game_handler_def update_game_handler_def delete_game_handler_def create_review_handler_def get_review_handler_def
    create_review_comment_handler_def list_review_comments_handler_def purchase_game_handler_def list_my_game_orders_handler_def
    with_id_def with_body_def or_not_found_def Let_def
  by (intro keeps_case_option keeps_throw keeps_bnd keeps_attempt keeps_if keeps_case_sum keeps_ret keeps_case_prod keeps_gets
      keeps_agree_id coherent_create_game coherent_update_game coherent_delete_game coherent_get_game coherent_create_review
      coherent_get_review coherent_create_rcomment coherent_list_rcomments coherent_purchase_game coherent_list_orders)+

lemmas coherent_requests = coherent_handlers coherent_get_game coherent_update_review_handler coherent_delete_review_handler
  coherent_list_reviews coherent_update_rcomment_handler coherent_delete_rcomment_handler

lemma catalog_step_coherent: "catalog_step s t \<Longrightarrow> coherent s \<Longrightarrow> coherent t"
  by (induction rule: catalog_step.induct)
    (auto intro: keepsD [OF coherent_requests(1)] keepsD [OF coherent_requests(2)] keepsD [OF coherent_requests(3)]
      keepsD [OF coherent_requests(4)] keepsD [OF coherent_requests(5)] keepsD [OF coherent_requests(6)] keepsD [OF coherent_requests(7)]
      keepsD [OF coherent_requests(8)] keepsD [OF coherent_requests(9)] keepsD [OF coherent_requests(10)] keepsD [OF coherent_requests(11)]
      keepsD [OF coherent_requests(12)] keepsD [OF coherent_requests(13)] keepsD [OF coherent_requests(14)] keepsD [OF coherent_requests(15)]
      coherent_expire coherent_clock)

text \<open>Reading from a coherent state: the answer is the tables'.\<close>

lemma get_game_answer:
  assumes "coherent s"
  shows "fst (get_game_by_id i s) = (if i = 0 then Inl ErrGameInvalidParam else
    case row_of g_id i (games s) of None \<Rightarrow> Inl RecordNotFound | Some g \<Rightarrow> Inr g)"
proof -
  from assms have calm: "calm s" and on: "game_redis s" and fits: "fits_but none (\<lambda>i. row_of g_id i (games s)) (game_cache s)"
    by (simp_all add: agree_def)
  show ?thesis
  proof (cases "map_of (game_cache s) i")
    case None
    with calm on show ?thesis
      by (cases "row_of g_id i (games s)")
        (simp_all add: get_game_by_id_def throw_run read_through_def get_cached_game_def bnd_def attempt_def game_details.get_calm
          get_game_row_def io_nil calm_def ret_run set_cached_game_def cache_put_def ignore_def gets_run modify_run)
  next
    case (Some g)
    with fits_lookup [OF fits Some] calm on show ?thesis
      by (simp add: get_game_by_id_def throw_run read_through_def get_cached_game_def bnd_def attempt_def game_details.get_calm ret_run)
  qed
qed

lemma get_review_answer:
  assumes "coherent s"
  shows "fst (get_review_by_id i s) = (if i = 0 then Inl ErrGameInvalidParam else
    case row_of rev_id i (reviews s) of None \<Rightarrow> Inl RecordNotFound | Some x \<Rightarrow> Inr x)"
proof -
  from assms have calm: "calm s" and on: "game_redis s" and fits: "fits_but none (\<lambda>i. row_of rev_id i (reviews s)) (review_cache s)"
    by (simp_all add: agree_def)
  show ?thesis
  proof (cases "map_of (review_cache s) i")
    case None
    with calm on show ?thesis
      by (cases "row_of rev_id i (reviews s)")
        (simp_all add: get_review_by_id_def throw_run read_through_def get_cached_review_def bnd_def attempt_def review_details.get_calm
          get_review_row_def io_nil calm_def ret_run set_cached_review_def cache_put_def ignore_def gets_run modify_run)
  next
    case (Some g)
    with fits_lookup [OF fits Some] calm on show ?thesis
      by (simp add: get_review_by_id_def throw_run read_through_def get_cached_review_def bnd_def attempt_def review_details.get_calm ret_run)
  qed
qed

text \<open>The total beside a page of reviews: all reviews of the game, or, when the page was cached, the length of the page.\<close>

definition reviews_total :: "u64 \<Rightarrow> int \<Rightarrow> int \<Rightarrow> 'r game_st_scheme \<Rightarrow> int" where
  "reviews_total g p z s = (if map_of (review_lists s) (g, p, z) = None then int (count_rows (\<lambda>r. rev_game r = g) (reviews s))
     else int (length (reviews_page g p z (reviews s))))"

lemma list_reviews_answer:
  assumes "coherent s" and "g \<noteq> 0" and "p > 0" and "z > 0"
  shows "fst (list_reviews_by_game_id g p z s) = Inr (reviews_page g p z (reviews s), reviews_total g p z s)"
proof -
  from assms(1) have calm: "calm s" and on: "game_redis s"
    and fits: "fits_but none (reviews_view (reviews s)) (review_lists s)" by (simp_all add: agree_def)
  show ?thesis
  proof (cases "map_of (review_lists s) (g, p, z)")
    case None
    with calm on assms show ?thesis
      by (simp add: list_reviews_by_game_id_def Let_def cached_page_def get_review_list_def bnd_def attempt_def
        review_pages.get_calm list_reviews_rows_calm set_review_list_def review_pages.put_calm ignore_def ret_run
        reviews_total_def)
  next
    case (Some l)
    with fits_lookup [OF fits Some] calm on assms show ?thesis
      by (simp add: list_reviews_by_game_id_def Let_def cached_page_def get_review_list_def bnd_def attempt_def
        review_pages.get_calm ret_run reviews_view_def reviews_total_def)
  qed
qed

lemma list_orders_answer:
  assumes "coherent s" and "u \<noteq> 0"
  shows "fst (list_my_game_orders_handler u s) = Inr (take 50 (newest_first go_created (filter (\<lambda>r. go_user r = u) (game_orders s))))"
proof -
  from assms have calm: "calm s" and on: "game_redis s" and fits: "fits_but none (orders_view (game_orders s)) (order_lists s)"
    by (simp_all add: agree_def)
  show ?thesis
  proof (cases "map_of (order_lists s) u")
    case None
    with calm on assms show ?thesis
      by (simp add: list_my_game_orders_handler_def list_my_game_orders_def Let_def read_through_def get_user_game_orders_def bnd_def attempt_def
        user_orders.get_calm list_game_orders_by_user_def io_nil gets_run set_user_game_orders_def cache_put_def modify_run
        calm_def ignore_def ret_run)
  next
    case (Some l)
    with fits_lookup [OF fits Some] calm on assms show ?thesis
      by (simp add: list_my_game_orders_handler_def list_my_game_orders_def read_through_def get_user_game_orders_def bnd_def attempt_def
        user_orders.get_calm ret_run orders_view_def)
  qed
qed

text \<open>C15: As long as Redis is used and no call fails, from a state whose caches agree with MySQL (empty ones, for
  instance), whatever requests are served, whichever entries expire, a reader gets what MySQL holds: the game, the
  review, the page of reviews, the user's orders, cached or not. Only the total beside a page of reviews depends on the
  cache: it is the number of the game's reviews when the page was not cached and the length of the page when it was. (The
  code drops the error of a deletion in Redis, so that after a failing one a reader may be shown the old row.)\<close>

theorem readers_see_the_tables:
  assumes "coherent s" and "catalog_step\<^sup>*\<^sup>* s t"
  shows "fst (get_game_by_id i t) = (if i = 0 then Inl ErrGameInvalidParam else
      case row_of g_id i (games t) of None \<Rightarrow> Inl RecordNotFound | Some g \<Rightarrow> Inr g) \<and>
    fst (get_review_by_id i t) = (if i = 0 then Inl ErrGameInvalidParam else
      case row_of rev_id i (reviews t) of None \<Rightarrow> Inl RecordNotFound | Some x \<Rightarrow> Inr x) \<and>
    (i \<noteq> 0 \<and> p > 0 \<and> z > 0 \<longrightarrow> fst (list_reviews_by_game_id i p z t) = Inr (reviews_page i p z (reviews t),
      if map_of (review_lists t) (i, p, z) = None then int (count_rows (\<lambda>r. rev_game r = i) (reviews t))
      else int (length (reviews_page i p z (reviews t))))) \<and>
    (u \<noteq> 0 \<longrightarrow> fst (list_my_game_orders_handler u t) =
      Inr (take 50 (newest_first go_created (filter (\<lambda>r. go_user r = u) (game_orders t)))))"
proof -
  from assms(2,1) have "coherent t"
    by (induction rule: rtranclp_induct) (auto intro: catalog_step_coherent)
  then show ?thesis by (simp add: get_game_answer get_review_answer list_reviews_answer list_orders_answer reviews_total_def)
qed

lemma coherent_game_demo: "coherent game_demo"
  by (simp add: agree_def calm_def fits_but_def game_demo_simps)

theorem readers_see_the_tables_witness:
  "\<exists>t. catalog_step\<^sup>*\<^sup>* game_demo t \<and> game_cache t = [(1, demo_game)] \<and> fst (get_game_by_id 1 t) = Inr demo_game"
proof -
  obtain r t where run: "get_game_by_id 1 game_demo = (r, t)" by (metis prod.collapse)
  then have step: "catalog_step\<^sup>*\<^sup>* game_demo t" by (auto intro: catalog_step.intros)
  have "game_cache t = [(1, demo_game)]" and "games t = [demo_game]"
    using run by (auto simp: get_game_by_id_def read_through_def get_cached_game_def cache_get_def bnd_def attempt_def get_game_row_def
        gets_run io_def ret_run set_cached_game_def cache_put_def ignore_def modify_run game_demo_simps)
  with step readers_see_the_tables [OF coherent_game_demo step, of 1 1 1 1] show ?thesis
    by (intro exI [of _ t]) (simp add: demo_game_def)
qed

section \<open>A new game is found under the id that was answered\<close>

lemma printing_digit: "(d :: nat) < 10 \<Longrightarrow> printing (char_of (48 + d))"
  by (simp add: printing_def of_char_of take_bit_nat_eq_self)

lemma printing_show: "c \<in> set (show_nat n) \<Longrightarrow> printing c"
proof (induction n rule: show_nat.induct)
  case (1 n)
  show ?case
  proof (cases "n < 10")
    case True
    with 1(2) show ?thesis by (simp add: show_nat.simps [of n] printing_digit)
  next
    case False
    with 1(2) have "c \<in> set (show_nat (n div 10)) \<or> c = char_of (48 + n mod 10)" by (auto simp: show_nat.simps [of n])
    with 1(1) [OF False] show ?thesis using printing_digit [of "n mod 10"] by auto
  qed
qed

lemma parse_uint64_param_show [simp]: "k \<noteq> 0 \<Longrightarrow> parse_uint64_param (show_u64 k) = Some k"
proof -
  assume "k \<noteq> 0"
  have "trim_space (show_u64 k) = show_u64 k"
    unfolding show_u64_def
    by (rule trim_space_id; (rule show_nat_Nil)?; (rule printing_show [of _ "unat k"], simp)?)
  with \<open>k \<noteq> 0\<close> show ?thesis by (simp add: parse_uint64_param_def)
qed

text \<open>C16: As long as Redis is used and no call fails, from a state whose caches agree with MySQL, the id string that a
  request to create a game answers with leads back to the game as it was entered, field by field: the description, the
  publisher, the developer and the date as they were, the name and the cover trimmed, the price it was created with
  (zero and no price both become -1) and the tags encoded; the achievements are empty.\<close>

theorem created_game_is_found:
  assumes s: "coherent s" and id: "snowflake s (id_seq s) \<noteq> 0" and run: "create_game_handler (Some p) s = (Inr i, t)"
  shows "\<exists>k g. parse_uint64_param i = Some k \<and> fst (get_game_by_id k t) = Inr g \<and> g_name g = trim_space (pg_name p) \<and>
    g_price g = (case pg_price p of None \<Rightarrow> -1 | Some n \<Rightarrow> if n = 0 then -1 else n) \<and>
    g_cover g = trim_space (pg_cover p) \<and> g_tags g = Some (encode_game_tags (pg_tags p)) \<and> pg_release p = Some (g_release g) \<and>
    g_id g = k \<and> g_description g = pg_description p \<and> g_publisher g = pg_publisher p \<and> g_developer g = pg_developer p \<and>
    g_achievements g = None"
proof -
  let ?k = "snowflake s (id_seq s)" and ?s = "s\<lparr>id_seq := Suc (id_seq s)\<rparr>"
  from run obtain release where release: "pg_release p = Some release"
    by (auto simp: create_game_handler_def with_body_def throw_eq split: option.splits)
  let ?g = "\<lparr>g_id = ?k, g_name = pg_name p, g_description = pg_description p, g_release = release,
        g_publisher = pg_publisher p, g_developer = pg_developer p, g_cover = trim_space (pg_cover p),
        g_price = (case pg_price p of None \<Rightarrow> -1 | Some n \<Rightarrow> n), g_tags = Some (encode_game_tags (pg_tags p)),
        g_achievements = None, g_created = zero_time, g_updated = zero_time\<rparr>"
  let ?h = "?g\<lparr>g_name := trim_space (pg_name p)\<rparr>"
  have s': "coherent ?s" using s by (simp add: agree_def calm_def)
  from run release obtain y where make: "create_game (Some ?g) ?s = (Inr y, t)" and i: "i = show_u64 (g_id y)"
    by (auto simp: create_game_handler_def with_body_def generate_id_def bnd_eq_Inr ret_eq)
  from make have name: "trim_space (pg_name p) \<noteq> []" by (auto simp: create_game_def throw_eq Let_def split: if_splits)
  with make obtain u v r1 r2 w where row: "create_game_row ?h ?s = (Inr y, u)"
    and link: "ensure_game_topic_after_create (g_id y) (g_name y) u = (Inr r1, v)" and drop: "ignore invalidate_games_list_cache v = (r2, t)"
    by (auto simp: create_game_def Let_def bnd_eq_Inr ret_eq)
  from row have "create_row ''games'' g_id g_id_update (\<lambda>_ _. False) games (\<lambda>v. games_update (\<lambda>_. v))
      (game_defaults (clock_now ?s) ?h) ?s = (Inr y, u)"
    by (simp add: create_game_row_def bnd_def gets_run)
  moreover have "calm ?s" using s' by (simp add: agree_def)
  ultimately have y: "y = game_defaults (clock_now s) ?h" and u: "row_of g_id ?k (games u) = Some y"
    using id by (auto elim!: create_row_calm simp: game_defaults_def pk_or_auto_def bump_auto_def row_of_None [symmetric])
  from u have "row_of g_id ?k (games v) = Some y" using keepsD [OF keeps_view_topic link, of "game_view u"] by (simp add: game_view_def)
  moreover have "keeps (\<lambda>s. games s = games v) invalidate_games_list_cache"
    unfolding invalidate_games_list_cache_def
    by (intro keeps_bnd keeps_gets game_pages.keeps_by_pattern) (simp_all add: quietly_def)
  from keepsD [OF keeps_ignore [OF this] drop] have "games t = games v" by simp
  moreover have "coherent t" using keepsD [OF coherent_create_game make s'] .
  ultimately have "fst (get_game_by_id ?k t) = Inr y" using id by (simp add: get_game_answer)
  moreover have "g_id y = ?k" using y by (simp add: game_defaults_def)
  ultimately show ?thesis using i y id release
    by (intro exI [of _ ?k] exI [of _ y]) (auto simp: game_defaults_def split: option.split)
qed

definition demo_param :: game_param where
  "demo_param = \<lparr>pg_name = ''New'', pg_description = [], pg_release = Some 0, pg_publisher = [], pg_developer = [],
     pg_cover = [], pg_price = Some 0, pg_tags = None\<rparr>"

lemmas create_game_run = create_game_handler_def with_body_def generate_id_def create_game_def create_game_row_def create_row_def
  pk_or_auto_def bump_auto_def game_defaults_def or_now_def zero_time_def topic_defs invalidate_games_list_cache_def
  delete_keys_by_pattern_def scan_del.simps new_topic_def game_topic_name_def hours_48_def first_row_def
  io_def bnd_def attempt_def ignore_def ret_def throw_def gets_def modify_def Let_def encode_game_tags_def

lemma trim_New: "trim_space ''New'' = ''New''"
  by (rule trim_space_id) (simp_all add: printing_def)

text \<open>The demo, with a mapping that a deleted game with id 6 left behind.\<close>

definition later_demo :: game_st where
  "later_demo = game_demo\<lparr>id_seq := 5, topic_links := [\<lparr>gt_game = 6, gt_topic = 1, gt_created = 0, gt_updated = 0\<rparr>]\<rparr>"

lemma coherent_later: "coherent later_demo"
  using coherent_game_demo by (simp add: agree_def calm_def later_demo_def)

theorem created_game_is_found_witness:
  "\<exists>i t k g. create_game_handler (Some demo_param) later_demo = (Inr i, t) \<and>
    parse_uint64_param i = Some k \<and> fst (get_game_by_id k t) = Inr g \<and> g_name g = ''New'' \<and> g_price g = -1"
proof -
  let ?s = later_demo
  have "\<exists>i t. create_game_handler (Some demo_param) ?s = (Inr i, t)"
    by (simp add: create_game_run demo_param_def later_demo_def game_demo_simps trim_New)
  then obtain i t where run: "create_game_handler (Some demo_param) ?s = (Inr i, t)" by blast
  have id: "snowflake ?s (id_seq ?s) \<noteq> 0" by (simp add: later_demo_def game_demo_simps)
  from created_game_is_found [OF coherent_later id run] run show ?thesis
    by (auto simp: demo_param_def trim_New)
qed

section \<open>The total of a cached page\<close>

text \<open>The first request for a page of reviews answers the number of all rows as the total and fills the cache; the
  next one answers the length of the page. The two differ whenever there is more than one page.\<close>

theorem cached_total_is_page_length:
  assumes "coherent s" and "g \<noteq> 0" and "p > 0" and "z > 0" and "map_of (review_lists s) (g, p, z) = None"
    and "list_reviews_by_game_id g p z s = (Inr (l, n), t)"
  shows "n = int (count_rows (\<lambda>r. rev_game r = g) (reviews s)) \<and> l = reviews_page g p z (reviews s) \<and>
    list_reviews_by_game_id g p z t = (Inr (l, int (length l)), t)"
proof -
  from assms(1) have calm: "calm s" and on: "game_redis s" by (simp_all add: agree_def)
  let ?l = "reviews_page g p z (reviews s)"
  from assms calm on have l: "l = ?l" and n: "n = int (count_rows (\<lambda>r. rev_game r = g) (reviews s))"
    and t: "t = review_lists_update (AList.update (g, p, z) ?l) s"
    by (auto simp: list_reviews_by_game_id_def Let_def cached_page_def get_review_list_def bnd_def attempt_def
        review_pages.get_calm list_reviews_rows_calm set_review_list_def review_pages.put_calm ignore_def ret_run)
  have "calm t" and "game_redis t" and "map_of (review_lists t) (g, p, z) = Some ?l"
    using calm on by (simp_all add: t calm_def update_conv')
  with assms l have "list_reviews_by_game_id g p z t = (Inr (l, int (length l)), t)"
    by (simp add: list_reviews_by_game_id_def Let_def cached_page_def get_review_list_def bnd_def attempt_def
        review_pages.get_calm ret_run)
  with l n show ?thesis by simp
qed

definition demo_review :: "u64 \<Rightarrow> int \<Rightarrow> game_review" where
  "demo_review i at = \<lparr>rev_id = i, rev_game = 1, rev_user = i, rev_reviewed = at, rev_rating = 5, rev_content = ''ok'',
     rev_created = at, rev_updated = at\<rparr>"

definition reviewed_demo :: game_st where
  "reviewed_demo = game_demo\<lparr>reviews := [demo_review 1 10, demo_review 2 20]\<rparr>"

theorem cached_total_is_page_length_witness:
  "\<exists>l t. list_reviews_by_game_id 1 1 1 reviewed_demo = (Inr (l, 2), t) \<and> fst (list_reviews_by_game_id 1 1 1 t) = Inr (l, 1)"
proof -
  have demo: "coherent reviewed_demo" "map_of (review_lists reviewed_demo) (1, 1, 1) = None"
    and rows: "reviews reviewed_demo = [demo_review 1 10, demo_review 2 20]"
    by (simp_all add: agree_def calm_def fits_but_def reviewed_demo_def demo_review_def game_demo_simps)
  then have "calm reviewed_demo" and "game_redis reviewed_demo" by (simp_all add: agree_def)
  with demo(2) obtain l n t where run: "list_reviews_by_game_id 1 1 1 reviewed_demo = (Inr (l, n), t)"
    by (auto simp: list_reviews_by_game_id_def Let_def cached_page_def get_review_list_def bnd_def attempt_def
        review_pages.get_calm list_reviews_rows_calm set_review_list_def review_pages.put_calm ignore_def ret_run)
  have "n = 2 \<and> length l = 1 \<and> list_reviews_by_game_id 1 1 1 t = (Inr (l, int (length l)), t)"
    using cached_total_is_page_length [OF demo(1) _ _ _ demo(2) run]
    by (simp add: rows demo_review_def count_rows_def reviews_page_def page_of_def i64_def)
  with run show ?thesis by auto
qed

end
