(* ===== verification/Internal.thy ===== *)
theory Internal
  imports GameCoherence
begin

text \<open>
  The internal API of src/handler/internal_handler.go, for scripts that hold the key: new games, new topics, and texts for
  the assistant's library, which are passed on to the assistant. A body that does not decode is \<open>None\<close>. The assistant, the
  check of its address and the JSON syntax are functions that the definitions take.
\<close>

section \<open>Games and topics\<close>

definition build_game_from_create_param :: "game_param \<Rightarrow> ('r game_st_scheme, game) op" where
  "build_game_from_create_param p = (case pg_release p of None \<Rightarrow> throw ErrCodeInvalidParam | Some release \<Rightarrow>
     bnd generate_id (\<lambda>k. ret \<lparr>g_id = k, g_name = pg_name p, g_description = pg_description p, g_release = release,
        g_publisher = pg_publisher p, g_developer = pg_developer p, g_cover = trim_space (pg_cover p),
        g_price = (case pg_price p of None \<Rightarrow> -1 | Some n \<Rightarrow> n), g_tags = Some (encode_game_tags (pg_tags p)),
        g_achievements = None, g_created = zero_time, g_updated = zero_time\<rparr>))"

text \<open>The ids of the new game and of its topic. \<open>CreateGameWithTopic\<close> is written out, since the handler reads the id of the
  game that it changed in place.\<close>

definition create_game_internal :: "game_param option \<Rightarrow> ('r game_st_scheme, string \<times> u64) op" where
  "create_game_internal body = with_body body (\<lambda>p. bnd (build_game_from_create_param p) (\<lambda>g.
     bnd (create_game (Some g)) (\<lambda>g. bnd (get_topic_id_by_game_id (g_id g)) (\<lambda>topic. ret (show_u64 (g_id g), topic)))))"

definition create_topic_internal :: "string option \<Rightarrow> ('r topics_st_scheme, u64 \<times> string) op" where
  "create_topic_internal body = with_body body (\<lambda>name.
     bnd (service_create_topic (trim_space name) False) (\<lambda>t. ret (top_id t, top_name t)))"

text \<open>The public creation of a game is the internal one without the look at its topic.\<close>

lemma create_game_handler_builds:
  "create_game_handler body = with_body body (\<lambda>p. bnd (build_game_from_create_param p) (\<lambda>g.
     bnd (create_game (Some g)) (\<lambda>g. ret (show_u64 (g_id g)))))"
  by (rule ext) (simp add: create_game_handler_def build_game_from_create_param_def with_body_def bnd_def ret_def throw_def
      split: option.splits sum.splits prod.splits)

lemma coherent_topic_of_game: "keeps coherent (get_topic_id_by_game_id g)"
  unfolding get_topic_id_by_game_id_def
  by (intro keeps_agree_view keeps_if keeps_throw keeps_view_call keeps_calm_call) (auto split: option.split)

lemma coherent_internal: "keeps coherent (create_game_internal body)"
  unfolding create_game_internal_def with_body_def build_game_from_create_param_def
  by (intro keeps_case_option keeps_throw keeps_bnd keeps_ret keeps_agree_id coherent_create_game coherent_topic_of_game)

section \<open>Texts for the assistant\<close>

record kb_request =
  kb_article :: string
  kb_markdown :: string
  kb_source :: string
  kb_game :: string
  kb_revision :: int
  kb_chunk :: int
  kb_overlap :: int
  kb_order :: "string list option"

text \<open>A call of the assistant: the address, the key if there is one, and what is sent.\<close>

record kb_call =
  kc_url :: string
  kc_key :: "string option"
  kc_payload :: kb_request

datatype 'j kb_answer = KbRaw string | KbObject 'j

definition kb_prepared :: "kb_request \<Rightarrow> kb_request option" where
  "kb_prepared r = (let r = r\<lparr>kb_article := trim_space (kb_article r), kb_markdown := trim_space (kb_markdown r)\<rparr> in
     if kb_article r = [] \<or> kb_markdown r = [] then None else
     Some (r\<lparr>kb_source := (if trim_space (kb_source r) = [] then ''backstage'' else kb_source r), kb_game := trim_space (kb_game r),
       kb_revision := (if kb_revision r < 1 then 1 else kb_revision r)\<rparr>))"

definition trim_slashes :: "string \<Rightarrow> string" where
  "trim_slashes s = rev (dropWhile (\<lambda>c. c = CHR ''/'') (rev s))"

definition ingest_kb_markdown ::
  "(string \<Rightarrow> bool) \<Rightarrow> (kb_call \<Rightarrow> (int \<times> string) option) \<Rightarrow> (string \<Rightarrow> 'j option) \<Rightarrow> string \<Rightarrow> string \<Rightarrow> kb_request option \<Rightarrow>
     err + 'j kb_answer" where
  "ingest_kb_markdown usable agent parse agent_url ingest_key body =
     (if trim_slashes agent_url = [] then Inl MsgError else
      case body of None \<Rightarrow> Inl ErrCodeInvalidParam | Some r \<Rightarrow>
     (case kb_prepared r of None \<Rightarrow> Inl ErrCodeInvalidParam | Some r \<Rightarrow>
      let url = trim_slashes agent_url @ ''/memory/ingest-markdown''; key = trim_space ingest_key in
      if \<not> usable url then Inl CodeServerBusy else
      (case agent \<lparr>kc_url = url, kc_key = (if key = [] then None else Some key), kc_payload = r\<rparr> of
         None \<Rightarrow> Inl MsgError
       | Some (status, answer) \<Rightarrow> if status < 200 \<or> status \<ge> 300 then Inl MsgError else
           Inr (case parse answer of None \<Rightarrow> KbRaw answer | Some j \<Rightarrow> KbObject j))))"

text \<open>Only requests with an article and a text reach the assistant, and they go in the form it accepts unchanged.\<close>

lemma kb_prepared_stable: "kb_prepared r = Some q \<Longrightarrow> kb_prepared q = Some q"
  by (auto simp: kb_prepared_def Let_def split: if_splits)

end
