(* ===== verification/JsonDecode.thy ===== *)
theory JsonDecode
  imports GoStrings "HOL-Library.AList"
begin

text \<open>
  What the code uses of \<open>json.Unmarshal\<close>. A JSON text is taken as the value it parses to; what is written
  out is the decoding into Go types: \<open>null\<close> leaves a field as it is, a value of the wrong type is an error
  that is remembered while the other fields are still decoded, keys match the field's name up to case, and a
  later key overwrites an earlier one. A decoder maps a JSON value and the old Go value to the new value and
  whether all went well.
\<close>

section \<open>Values\<close>

text \<open>A number is its literal; an object is the list of its members, as they stand in the text.\<close>

datatype json = JNull | JBool bool | JNum string | JStr string | JArr "json list" | JObj "(string \<times> json) list"

type_synonym 'a decoder = "json \<Rightarrow> 'a \<Rightarrow> 'a \<times> bool"

section \<open>Basic types\<close>

definition d_string :: "string decoder" where
  "d_string j old = (case j of JNull \<Rightarrow> (old, True) | JStr s \<Rightarrow> (s, True) | _ \<Rightarrow> (old, False))"

definition d_bool :: "bool decoder" where
  "d_bool j old = (case j of JNull \<Rightarrow> (old, True) | JBool b \<Rightarrow> (b, True) | _ \<Rightarrow> (old, False))"

text \<open>\<open>int\<close> and \<open>int64\<close>: the literal has to be an integer of 64 bits.\<close>

definition d_int :: "int decoder" where
  "d_int j old = (case j of JNull \<Rightarrow> (old, True)
     | JNum lit \<Rightarrow> (case atoi lit of (n, fine) \<Rightarrow> if fine then (n, True) else (old, False))
     | _ \<Rightarrow> (old, False))"

text \<open>A \<open>float64\<close> is kept as its literal; one that rounds to infinity is an error.\<close>

definition digits_of :: "string \<Rightarrow> nat" where
  "digits_of s = (case digits_val 0 s of None \<Rightarrow> 0 | Some n \<Rightarrow> n)"

definition is_digit :: "char \<Rightarrow> bool" where
  "is_digit c \<longleftrightarrow> digit_val c \<noteq> None"

definition float_overflows :: "string \<Rightarrow> bool" where
  "float_overflows lit =
     (let s = dropWhile (\<lambda>c. c = CHR ''-'') lit; whole = takeWhile is_digit s; s = dropWhile is_digit s;
          frac = (if s \<noteq> [] \<and> hd s = CHR ''.'' then takeWhile is_digit (tl s) else []);
          s = (if s \<noteq> [] \<and> hd s = CHR ''.'' then dropWhile is_digit (tl s) else s);
          down = (length s \<ge> 2 \<and> s ! 1 = CHR ''-'');
          ex = digits_of (dropWhile (\<lambda>c. \<not> is_digit c) s);
          e = (if down then - int ex else int ex) - int (length frac);
          m = digits_of (whole @ frac); bound = 2 ^ 1024 - 2 ^ 970
      in if e \<ge> 0 then m * 10 ^ nat e \<ge> bound else m \<ge> bound * 10 ^ nat (- e))"

definition d_float :: "string decoder" where
  "d_float j old = (case j of JNull \<Rightarrow> (old, True)
     | JNum lit \<Rightarrow> if float_overflows lit then (old, False) else (lit, True) | _ \<Rightarrow> (old, False))"

text \<open>A pointer: \<open>null\<close> is nil, anything else is decoded into a (fresh) target.\<close>

definition d_ptr :: "'a \<Rightarrow> 'a decoder \<Rightarrow> 'a option decoder" where
  "d_ptr zero d j old = (case j of JNull \<Rightarrow> (None, True)
     | _ \<Rightarrow> (case d j (case old of None \<Rightarrow> zero | Some x \<Rightarrow> x) of (x, fine) \<Rightarrow> (Some x, fine)))"

text \<open>A slice: elements that are there already are decoded over.\<close>

primrec d_elems :: "'a \<Rightarrow> 'a decoder \<Rightarrow> json list \<Rightarrow> 'a list \<Rightarrow> 'a list \<times> bool" where
  "d_elems zero d [] old = ([], True)"
| "d_elems zero d (j # js) old = (case d j (case old of [] \<Rightarrow> zero | x # _ \<Rightarrow> x) of (x, fine) \<Rightarrow>
     (case d_elems zero d js (tl old) of (xs, fines) \<Rightarrow> (x # xs, fine \<and> fines)))"

definition d_list :: "'a \<Rightarrow> 'a decoder \<Rightarrow> 'a list decoder" where
  "d_list zero d j old = (case j of JNull \<Rightarrow> ([], True) | JArr js \<Rightarrow> d_elems zero d js old | _ \<Rightarrow> (old, False))"

text \<open>A map is nil (\<open>None\<close>) or an association list; every member is set, also one that did not decode.\<close>

primrec d_members :: "'a \<Rightarrow> 'a decoder \<Rightarrow> (string \<times> json) list \<Rightarrow> (string \<times> 'a) list \<Rightarrow> (string \<times> 'a) list \<times> bool" where
  "d_members zero d [] m = (m, True)"
| "d_members zero d (e # es) m = (case d (snd e) zero of (x, fine) \<Rightarrow>
     (case d_members zero d es (AList.update (fst e) x m) of (m', fines) \<Rightarrow> (m', fine \<and> fines)))"

definition d_map :: "'a \<Rightarrow> 'a decoder \<Rightarrow> (string \<times> 'a) list option decoder" where
  "d_map zero d j old = (case j of JNull \<Rightarrow> (None, True)
     | JObj es \<Rightarrow> (case d_members zero d es (case old of None \<Rightarrow> [] | Some m \<Rightarrow> m) of (m, fine) \<Rightarrow> (Some m, fine))
     | _ \<Rightarrow> (old, False))"

definition d_any :: "json decoder" where
  "d_any j old = (j, True)"

section \<open>Structs\<close>

text \<open>
  A key is matched exactly or else up to case folding; besides the letters of ASCII, the Kelvin sign folds
  to K and the long s to S.
\<close>

definition fold_rune :: "string \<Rightarrow> string" where
  "fold_rune r = (case map of_char r :: nat list of
       [b] \<Rightarrow> if 97 \<le> b \<and> b \<le> 122 then [char_of (b - 32)] else r
     | bs \<Rightarrow> if bs = [226, 132, 170] then ''K'' else if bs = [197, 191] then ''S'' else r)"

definition fold_name :: "string \<Rightarrow> string" where
  "fold_name s = concat (map fold_rune (runes s))"

definition field_for :: "(string \<times> 'f) list \<Rightarrow> string \<Rightarrow> 'f option" where
  "field_for tbl k = (case map_of tbl k of Some f \<Rightarrow> Some f
     | None \<Rightarrow> map_option snd (find (\<lambda>f. fold_name (fst f) = fold_name k) tbl))"

primrec d_fields :: "(string \<times> 'a decoder) list \<Rightarrow> (string \<times> json) list \<Rightarrow> 'a \<Rightarrow> 'a \<times> bool" where
  "d_fields tbl [] r = (r, True)"
| "d_fields tbl (e # es) r = (case field_for tbl (fst e) of
       None \<Rightarrow> d_fields tbl es r
     | Some d \<Rightarrow> (case d (snd e) r of (r', fine) \<Rightarrow> (case d_fields tbl es r' of (r'', fines) \<Rightarrow> (r'', fine \<and> fines))))"

definition d_struct :: "(string \<times> 'a decoder) list \<Rightarrow> 'a decoder" where
  "d_struct tbl j old = (case j of JNull \<Rightarrow> (old, True) | JObj es \<Rightarrow> d_fields tbl es old | _ \<Rightarrow> (old, False))"

text \<open>A field by its getter and its update.\<close>

definition at :: "('r \<Rightarrow> 'a) \<Rightarrow> (('a \<Rightarrow> 'a) \<Rightarrow> 'r \<Rightarrow> 'r) \<Rightarrow> 'a decoder \<Rightarrow> 'r decoder" where
  "at get upd d j r = (case d j (get r) of (x, fine) \<Rightarrow> (upd (\<lambda>_. x) r, fine))"

text \<open>\<open>json.Unmarshal(raw, &v)\<close>; an absent raw message (\<open>None\<close>) is no JSON text.\<close>

definition unmarshal :: "'a decoder \<Rightarrow> json option \<Rightarrow> 'a \<Rightarrow> 'a \<times> bool" where
  "unmarshal d raw zero = (case raw of None \<Rightarrow> (zero, False) | Some j \<Rightarrow> d j zero)"

section \<open>What decoding keeps\<close>

text \<open>A decoder that keeps a property of the Go value, whatever the JSON value is.\<close>

definition safe :: "('a \<Rightarrow> bool) \<Rightarrow> 'a decoder \<Rightarrow> bool" where
  "safe P d \<longleftrightarrow> (\<forall>j x. P x \<longrightarrow> P (fst (d j x)))"

named_theorems safe_rules \<open>properties that decoders keep\<close>

lemma safeI: "(\<And>j x. P x \<Longrightarrow> P (fst (d j x))) \<Longrightarrow> safe P d"
  by (simp add: safe_def)

lemma safeD: "safe P d \<Longrightarrow> P x \<Longrightarrow> P (fst (d j x))"
  by (simp add: safe_def)

lemma safe_int [safe_rules]: "safe i64_ok d_int"
  using atoi_in_range by (auto simp: safe_def d_int_def split: json.split prod.split) (metis fst_conv)

lemma safe_True [safe_rules]: "safe (\<lambda>_. True) d"
  by (simp add: safe_def)

lemma safe_ptr [safe_rules]:
  assumes "P zero" and "safe P d"
  shows "safe (\<lambda>x. \<forall>y \<in> set_option x. P y) (d_ptr zero d)"
proof (rule safeI)
  fix j :: json and x :: "'a option"
  assume "\<forall>y \<in> set_option x. P y"
  then have "P (case x of None \<Rightarrow> zero | Some y \<Rightarrow> y)" using assms(1) by (cases x) simp_all
  from safeD [OF assms(2) this, of j] show "\<forall>y \<in> set_option (fst (d_ptr zero d j x)). P y"
    by (cases j) (simp_all add: d_ptr_def case_prod_beta)
qed

lemma d_elems_all:
  assumes "P zero" and "safe P d"
  shows "\<forall>x \<in> set old. P x \<Longrightarrow> \<forall>x \<in> set (fst (d_elems zero d js old)). P x"
proof (induction js arbitrary: old)
  case (Cons j js)
  have "P (case old of [] \<Rightarrow> zero | x # _ \<Rightarrow> x)" using Cons.prems assms(1) by (cases old) auto
  then have "P (fst (d j (case old of [] \<Rightarrow> zero | x # _ \<Rightarrow> x)))" by (rule safeD [OF assms(2)])
  moreover
  have "\<forall>x \<in> set (tl old). P x" using Cons.prems by (cases old) auto
  from Cons.IH [OF this] have "\<forall>x \<in> set (fst (d_elems zero d js (tl old))). P x" .
  ultimately show ?case by (simp add: case_prod_beta)
qed simp

lemma safe_list [safe_rules]:
  assumes "P zero" and "safe P d"
  shows "safe (\<lambda>xs. \<forall>x \<in> set xs. P x) (d_list zero d)"
proof (rule safeI)
  fix j and xs :: "'a list"
  assume xs: "\<forall>x \<in> set xs. P x"
  show "\<forall>x \<in> set (fst (d_list zero d j xs)). P x"
  proof (cases j)
    case (JArr js)
    with d_elems_all [OF assms xs, of js] show ?thesis by (simp add: d_list_def)
  qed (use xs in \<open>simp_all add: d_list_def\<close>)
qed

lemma set_alist_update: "set (AList.update k x l) \<subseteq> insert (k, x) (set l)"
  by (induction l) auto

lemma d_members_all:
  assumes "P zero" and "safe P d"
  shows "\<forall>e \<in> set m. P (snd e) \<Longrightarrow> \<forall>e \<in> set (fst (d_members zero d es m)). P (snd e)"
proof (induction es arbitrary: m)
  case (Cons e es)
  have "P (fst (d (snd e) zero))" by (rule safeD [OF assms(2,1)])
  moreover have "y = (fst e, fst (d (snd e) zero)) \<or> y \<in> set m"
    if "y \<in> set (AList.update (fst e) (fst (d (snd e) zero)) m)" for y
    using subsetD [OF set_alist_update that] by simp
  ultimately have "\<forall>y \<in> set (AList.update (fst e) (fst (d (snd e) zero)) m). P (snd y)"
    using Cons.prems by (intro ballI) (metis snd_conv)
  from Cons.IH [OF this] show ?case by (simp only: d_members.simps case_prod_beta fst_conv)
qed simp

lemma safe_map [safe_rules]:
  assumes "P zero" and "safe P d"
  shows "safe (\<lambda>m. \<forall>l \<in> set_option m. \<forall>e \<in> set l. P (snd e)) (d_map zero d)"
proof (rule safeI)
  fix j and m :: "(string \<times> 'a) list option"
  assume m: "\<forall>l \<in> set_option m. \<forall>e \<in> set l. P (snd e)"
  show "\<forall>l \<in> set_option (fst (d_map zero d j m)). \<forall>e \<in> set l. P (snd e)"
  proof (cases j)
    case (JObj es)
    have "\<forall>e \<in> set (case m of None \<Rightarrow> [] | Some l \<Rightarrow> l). P (snd e)" using m by (cases m) simp_all
    from d_members_all [OF assms this, of es] JObj show ?thesis by (simp add: d_map_def case_prod_beta)
  qed (use m in \<open>simp_all add: d_map_def\<close>)
qed

lemma field_for_in: "field_for tbl k = Some d \<Longrightarrow> d \<in> snd ` set tbl"
proof -
  assume *: "field_for tbl k = Some d"
  show ?thesis
  proof (cases "map_of tbl k")
    case None
    with * obtain f where "find (\<lambda>f. fold_name (fst f) = fold_name k) tbl = Some f" and "d = snd f"
      by (auto simp: field_for_def)
    then have "f \<in> set tbl" by (auto simp: find_Some_iff)
    with \<open>d = snd f\<close> show ?thesis by simp
  next
    case (Some d')
    with * show ?thesis by (auto simp: field_for_def dest!: map_of_SomeD intro: image_eqI [of _ _ "(k, d)"])
  qed
qed

lemma d_fields_safe:
  assumes "\<And>d. d \<in> snd ` set tbl \<Longrightarrow> safe P d"
  shows "P r \<Longrightarrow> P (fst (d_fields tbl es r))"
proof (induction es arbitrary: r)
  case (Cons e es)
  show ?case
  proof (cases "field_for tbl (fst e)")
    case None
    with Cons show ?thesis by simp
  next
    case (Some d)
    have "P (fst (d (snd e) r))" by (rule safeD [OF assms [OF field_for_in [OF Some]] Cons.prems])
    with Cons.IH [OF this] Some show ?thesis by (simp add: case_prod_beta)
  qed
qed simp

lemma safe_struct [safe_rules]: "(\<And>d. d \<in> snd ` set tbl \<Longrightarrow> safe P d) \<Longrightarrow> safe P (d_struct tbl)"
  by (rule safeI) (simp add: d_struct_def d_fields_safe split: json.split)

lemma safe_at:
  assumes "safe Q d" and "\<And>r. P r \<Longrightarrow> Q (get r)" and "\<And>r x. P r \<Longrightarrow> Q x \<Longrightarrow> P (upd (\<lambda>_. x) r)"
  shows "safe P (at get upd d)"
  using assms by (intro safeI) (simp add: at_def case_prod_beta safeD)

lemma safe_unmarshal: "safe P d \<Longrightarrow> P zero \<Longrightarrow> P (fst (unmarshal d raw zero))"
  by (auto simp: unmarshal_def safe_def split: option.split)

end
