(* ===== verification/ZSet.thy ===== *)
theory ZSet
  imports GoStrings "HOL-Library.List_Lexorder" "HOL-Library.Char_ord"
begin

text \<open>
  Sorted sets of Redis, for the clients that keep an order in one: the sessions of a user, the daily boards and the
  latest articles. A set is a list of members in any order, each name once; scores are the whole numbers that the
  program writes.
\<close>

text \<open>A member of a sorted set: Redis orders by score, then by the bytes of the member.\<close>

datatype zmember = ZMember (zscore: int) (zname: string)

instantiation zmember :: linorder
begin

definition less_eq_zmember :: "zmember \<Rightarrow> zmember \<Rightarrow> bool" where
  "less_eq_zmember x y \<longleftrightarrow> zscore x < zscore y \<or> zscore x = zscore y \<and> zname x \<le> zname y"

definition less_zmember :: "zmember \<Rightarrow> zmember \<Rightarrow> bool" where
  "less_zmember x y \<longleftrightarrow> zscore x < zscore y \<or> zscore x = zscore y \<and> zname x < zname y"

instance
proof
  fix x y z :: zmember
  show "x < y \<longleftrightarrow> x \<le> y \<and> \<not> y \<le> x" by (auto simp: less_eq_zmember_def less_zmember_def)
  show "x \<le> x" by (simp add: less_eq_zmember_def)
  show "x \<le> y \<Longrightarrow> y \<le> z \<Longrightarrow> x \<le> z" by (auto simp: less_eq_zmember_def)
  show "x \<le> y \<Longrightarrow> y \<le> x \<Longrightarrow> x = y" by (cases x; cases y) (auto simp: less_eq_zmember_def)
  show "x \<le> y \<or> y \<le> x" by (auto simp: less_eq_zmember_def)
qed

end

definition zadd :: "string \<Rightarrow> int \<Rightarrow> zmember list \<Rightarrow> zmember list" where
  "zadd member score l = ZMember score member # filter (\<lambda>z. zname z \<noteq> member) l"

definition zrevrange :: "nat \<Rightarrow> zmember list \<Rightarrow> string list" where
  "zrevrange n l = map zname (take n (rev (sort l)))"

text \<open>\<open>ZINCRBY\<close>, and the score of a member.\<close>

definition zscore_of :: "string \<Rightarrow> zmember list \<Rightarrow> int" where
  "zscore_of member l = (case find (\<lambda>z. zname z = member) l of None \<Rightarrow> 0 | Some z \<Rightarrow> zscore z)"

definition zincrby :: "int \<Rightarrow> string \<Rightarrow> zmember list \<Rightarrow> zmember list" where
  "zincrby d member l = zadd member (zscore_of member l + d) l"

text \<open>
  The members between two ranks, both inclusive: a negative rank counts from the end, and a rank beyond an end is
  that end.
\<close>

definition rank_range :: "int \<Rightarrow> int \<Rightarrow> 'a list \<Rightarrow> 'a list" where
  "rank_range start stop l = (let n = int (length l);
     from_end = (\<lambda>i. if i < 0 then n + i else i); a = max 0 (from_end start); b = from_end stop
     in if a > b \<or> a \<ge> n then [] else take (nat (b - a + 1)) (drop (nat a) l))"

definition zrevrange_ranks :: "int \<Rightarrow> int \<Rightarrow> zmember list \<Rightarrow> zmember list" where
  "zrevrange_ranks start stop l = rank_range start stop (rev (sort l))"

definition zremrange_by_rank :: "int \<Rightarrow> int \<Rightarrow> zmember list \<Rightarrow> zmember list" where
  "zremrange_by_rank start stop l = (let gone = rank_range start stop (sort l) in filter (\<lambda>z. z \<notin> set gone) l)"

text \<open>\<open>ZUNIONSTORE \<dots> AGGREGATE SUM\<close>\<close>

definition zunion :: "zmember list list \<Rightarrow> zmember list" where
  "zunion ls = (let names = remdups (concat (map (map zname) ls)) in
     map (\<lambda>m. ZMember (sum_list (map (zscore_of m) ls)) m) names)"

lemma find_filter_other: "m \<noteq> n \<Longrightarrow> find (\<lambda>z. zname z = m) (filter (\<lambda>z. zname z \<noteq> n) l) = find (\<lambda>z. zname z = m) l"
  by (induction l) auto

lemma zscore_of_zadd [simp]: "zscore_of m (zadd n x l) = (if m = n then x else zscore_of m l)"
  by (auto simp: zscore_of_def zadd_def find_filter_other split: option.split)

lemma zscore_of_zincrby [simp]: "zscore_of m (zincrby d n l) = zscore_of m l + (if m = n then d else 0)"
  by (simp add: zincrby_def)

end
