(* ===== verification/TurnRecord.thy ===== *)
theory TurnRecord
  imports JsonDecode GoPrelude
begin

text \<open>
  One turn of the assistant, aggregated from the frames of its stream: src/handler/agentstream/envelope.go,
  turn_record.go and turn_aggregator.go. A frame's payload is a raw message, decoded where it is used; the
  tools that were started and not ended are kept in a map by their call id.
\<close>

section \<open>Frames\<close>

record fact_envelope =
  fe_v :: int
  fe_kind :: string
  fe_seq :: int
  fe_request :: string
  fe_ts :: int
  fe_phase :: string
  fe_status :: string
  fe_duration :: "int option"
  fe_payload :: "json option"

text \<open>The members of the text as a map of raw messages: the last one of a key counts.\<close>

definition raw_member :: "json \<Rightarrow> string \<Rightarrow> json option" where
  "raw_member j k = (case j of JObj es \<Rightarrow> map_of (rev es) k | _ \<Rightarrow> None)"

definition is_fact_frame :: "json \<Rightarrow> bool" where
  "is_fact_frame raw = (case raw_member raw ''v'' of None \<Rightarrow> False
     | Some v \<Rightarrow> d_int v 0 = (1, True) \<and> raw_member raw ''kind'' \<noteq> None)"

definition is_legacy_mirror :: "json \<Rightarrow> bool" where
  "is_legacy_mirror raw \<longleftrightarrow> \<not> is_fact_frame raw \<and> raw_member raw ''type'' \<noteq> None"

text \<open>A raw message takes the value as it is, \<open>null\<close> too.\<close>

definition d_raw :: "json option decoder" where
  "d_raw j old = (Some j, True)"

definition d_envelope :: "fact_envelope decoder" where
  "d_envelope = d_struct
     [(''v'', at fe_v fe_v_update d_int), (''kind'', at fe_kind fe_kind_update d_string),
      (''seq'', at fe_seq fe_seq_update d_int), (''request_id'', at fe_request fe_request_update d_string),
      (''ts'', at fe_ts fe_ts_update d_int), (''phase'', at fe_phase fe_phase_update d_string),
      (''status'', at fe_status fe_status_update d_string),
      (''duration_ms'', at fe_duration fe_duration_update (d_ptr 0 d_int)),
      (''payload'', at fe_payload fe_payload_update d_raw)]"

definition blank_envelope :: fact_envelope where
  "blank_envelope = \<lparr>fe_v = 0, fe_kind = [], fe_seq = 0, fe_request = [], fe_ts = 0, fe_phase = [], fe_status = [],
     fe_duration = None, fe_payload = None\<rparr>"

definition is_object :: "json \<Rightarrow> bool" where
  "is_object j = (case j of JObj _ \<Rightarrow> True | JNull \<Rightarrow> True | _ \<Rightarrow> False)"

text \<open>\<open>None\<close> as the argument is a text that is no JSON.\<close>

definition parse_fact_envelope :: "json option \<Rightarrow> fact_envelope option" where
  "parse_fact_envelope data = (case data of None \<Rightarrow> None
     | Some j \<Rightarrow> if \<not> is_object j \<or> \<not> is_fact_frame j then None
         else (case d_envelope j blank_envelope of (env, fine) \<Rightarrow> if fine then Some env else None))"

section \<open>The record of a turn\<close>

record phase_usage =
  pu_input :: int
  pu_output :: int
  pu_total :: int

record token_usage =
  tu_input :: int
  tu_output :: int
  tu_total :: int
  tu_by_phase :: "(string \<times> phase_usage) list option"

record turn_rewrite =
  rw_text :: string
  rw_dur :: int

record turn_route =
  rt_servers :: "string list"
  rt_tool_hints :: "string list"
  rt_memory_hints :: "string list"
  rt_has_token :: bool
  rt_dur :: int

record turn_tool_retrieve =
  trv_tools :: "string list"
  trv_mode :: string
  trv_count :: int
  trv_dur :: int

record turn_analyse =
  an_phase :: string
  an_cycle :: int
  an_disposition :: string
  an_intent :: string
  an_dur :: int

record memory_ref =
  mr_store :: string
  mr_id :: string
  mr_kind :: string
  mr_score :: "string option"

record turn_retrieve =
  re_hits :: int
  re_memories :: "memory_ref list"
  re_dur :: int

record turn_plan =
  pl_requires_tools :: bool
  pl_step_count :: int
  pl_dur :: int

record tool_call =
  tc_id :: string
  tc_tool :: string
  tc_args :: "(string \<times> json) list option"
  tc_ok :: bool
  tc_rows :: "int option"
  tc_error :: string
  tc_dur :: int

record turn_output =
  ou_text :: string
  ou_preview :: string
  ou_dur :: int
  ou_chars :: int

record turn_error =
  er_code :: string
  er_message :: string

record turn_record =
  tr_schema :: int
  tr_request :: string
  tr_user :: u64
  tr_session :: string
  tr_status :: string
  tr_started_ms :: int
  tr_finished_ms :: int
  tr_total_ms :: int
  tr_input :: string
  tr_rewrite :: "turn_rewrite option"
  tr_route :: "turn_route option"
  tr_tool_retrieve :: "turn_tool_retrieve option"
  tr_analyses :: "turn_analyse list"
  tr_retrieves :: "turn_retrieve list"
  tr_plans :: "turn_plan list"
  tr_tools :: "tool_call list"
  tr_output :: "turn_output option"
  tr_cycle_complete :: bool
  tr_early_exit :: string
  tr_timings :: "(string \<times> int) list"
  tr_usage :: "token_usage option"
  tr_error :: "turn_error option"

record turn_meta =
  tm_request :: string
  tm_user :: u64
  tm_session :: string
  tm_message :: string
  tm_started :: int

record turn_aggregator =
  ag_started :: int
  ag_pending :: "(string \<times> tool_call) list"
  ag_record :: turn_record
  ag_done :: bool
  ag_error :: bool

definition unix_milli :: "int \<Rightarrow> int" where
  "unix_milli t = t div 1000000"

definition new_turn_aggregator :: "turn_meta \<Rightarrow> turn_aggregator" where
  "new_turn_aggregator m = \<lparr>ag_started = tm_started m, ag_pending = [], ag_record =
     \<lparr>tr_schema = 1, tr_request = tm_request m, tr_user = tm_user m, tr_session = tm_session m, tr_status = ''ok'',
      tr_started_ms = unix_milli (tm_started m), tr_finished_ms = 0, tr_total_ms = 0, tr_input = tm_message m,
      tr_rewrite = None, tr_route = None, tr_tool_retrieve = None, tr_analyses = [], tr_retrieves = [], tr_plans = [],
      tr_tools = [], tr_output = None, tr_cycle_complete = False, tr_early_exit = [], tr_timings = [], tr_usage = None,
      tr_error = None\<rparr>, ag_done = False, ag_error = False\<rparr>"

section \<open>The stages\<close>

text \<open>The member \<open>output\<close> of a body; a body that does not decode changes nothing.\<close>

definition d_output :: "'a decoder \<Rightarrow> 'a decoder" where
  "d_output d = d_struct [(''output'', d)]"

definition with_payload :: "'a decoder \<Rightarrow> 'a \<Rightarrow> json option \<Rightarrow> ('a \<Rightarrow> 'b \<Rightarrow> 'b) \<Rightarrow> 'b \<Rightarrow> 'b" where
  "with_payload d zero raw f r = (case unmarshal d raw zero of (x, fine) \<Rightarrow> if fine then f x r else r)"

definition duration_ms :: "int option \<Rightarrow> int" where
  "duration_ms p = (case p of None \<Rightarrow> 0 | Some n \<Rightarrow> n)"

definition observe_rewrite :: "json option \<Rightarrow> int \<Rightarrow> turn_record \<Rightarrow> turn_record" where
  "observe_rewrite raw dur = with_payload (d_output (d_struct [(''rewritten'', d_string)])) [] raw
     (\<lambda>text r. r\<lparr>tr_rewrite := Some \<lparr>rw_text = text, rw_dur = dur\<rparr>\<rparr>)"

abbreviation d_strings :: "string list decoder" where
  "d_strings \<equiv> d_list [] d_string"

definition d_route :: "turn_route decoder" where
  "d_route = d_output (d_struct
     [(''servers'', at rt_servers rt_servers_update d_strings), (''tool_hints'', at rt_tool_hints rt_tool_hints_update d_strings),
      (''memory_hints'', at rt_memory_hints rt_memory_hints_update d_strings), (''has_token'', at rt_has_token rt_has_token_update d_bool)])"

definition observe_route :: "json option \<Rightarrow> int \<Rightarrow> turn_record \<Rightarrow> turn_record" where
  "observe_route raw dur = with_payload d_route
     \<lparr>rt_servers = [], rt_tool_hints = [], rt_memory_hints = [], rt_has_token = False, rt_dur = 0\<rparr> raw
     (\<lambda>x r. r\<lparr>tr_route := Some (x\<lparr>rt_dur := dur\<rparr>)\<rparr>)"

definition d_tool_retrieve :: "turn_tool_retrieve decoder" where
  "d_tool_retrieve = d_output (d_struct
     [(''tools'', at trv_tools trv_tools_update d_strings), (''mode'', at trv_mode trv_mode_update d_string),
      (''count'', at trv_count trv_count_update d_int)])"

definition observe_tool_retrieve :: "json option \<Rightarrow> int \<Rightarrow> turn_record \<Rightarrow> turn_record" where
  "observe_tool_retrieve raw dur = with_payload d_tool_retrieve \<lparr>trv_tools = [], trv_mode = [], trv_count = 0, trv_dur = 0\<rparr> raw
     (\<lambda>x r. r\<lparr>tr_tool_retrieve := Some (x\<lparr>trv_dur := dur\<rparr>)\<rparr>)"

definition d_analyse :: "turn_analyse decoder" where
  "d_analyse = d_output (d_struct
     [(''disposition'', at an_disposition an_disposition_update d_string), (''intent'', at an_intent an_intent_update d_string),
      (''phase'', at an_phase an_phase_update d_string), (''cycle'', at an_cycle an_cycle_update d_int)])"

definition observe_analyse :: "json option \<Rightarrow> int \<Rightarrow> turn_record \<Rightarrow> turn_record" where
  "observe_analyse raw dur = with_payload d_analyse
     \<lparr>an_phase = [], an_cycle = 0, an_disposition = [], an_intent = [], an_dur = 0\<rparr> raw
     (\<lambda>x r. r\<lparr>tr_analyses := tr_analyses r @ [x\<lparr>an_dur := dur\<rparr>]\<rparr>)"

definition d_memory :: "memory_ref decoder" where
  "d_memory = d_struct
     [(''store'', at mr_store mr_store_update d_string), (''id'', at mr_id mr_id_update d_string),
      (''kind'', at mr_kind mr_kind_update d_string), (''score'', at mr_score mr_score_update (d_ptr [] d_float))]"

definition d_retrieve :: "turn_retrieve decoder" where
  "d_retrieve = d_output (d_struct [(''hits'', at re_hits re_hits_update d_int),
      (''memories'', at re_memories re_memories_update (d_list \<lparr>mr_store = [], mr_id = [], mr_kind = [], mr_score = None\<rparr> d_memory))])"

text \<open>Memories without a store or an id are left out.\<close>

definition observe_retrieve :: "json option \<Rightarrow> int \<Rightarrow> turn_record \<Rightarrow> turn_record" where
  "observe_retrieve raw dur = with_payload d_retrieve \<lparr>re_hits = 0, re_memories = [], re_dur = 0\<rparr> raw
     (\<lambda>x r. r\<lparr>tr_retrieves := tr_retrieves r @
        [x\<lparr>re_dur := dur, re_memories := filter (\<lambda>m. mr_store m \<noteq> [] \<and> mr_id m \<noteq> []) (re_memories x)\<rparr>]\<rparr>)"

definition d_plan :: "turn_plan decoder" where
  "d_plan = d_output (d_struct
     [(''requires_tools'', at pl_requires_tools pl_requires_tools_update d_bool), (''step_count'', at pl_step_count pl_step_count_update d_int)])"

definition observe_plan :: "json option \<Rightarrow> int \<Rightarrow> turn_record \<Rightarrow> turn_record" where
  "observe_plan raw dur = with_payload d_plan \<lparr>pl_requires_tools = False, pl_step_count = 0, pl_dur = 0\<rparr> raw
     (\<lambda>x r. r\<lparr>tr_plans := tr_plans r @ [x\<lparr>pl_dur := dur\<rparr>]\<rparr>)"

definition blank_output :: turn_output where
  "blank_output = \<lparr>ou_text = [], ou_preview = [], ou_dur = 0, ou_chars = 0\<rparr>"

definition observe_output_stage :: "json option \<Rightarrow> int \<Rightarrow> turn_record \<Rightarrow> turn_record" where
  "observe_output_stage raw dur = with_payload (d_output (d_struct [(''reply_preview'', d_string)])) [] raw
     (\<lambda>preview r. let out = (case tr_output r of None \<Rightarrow> blank_output | Some out \<Rightarrow> out) in
        r\<lparr>tr_output := Some (out\<lparr>ou_preview := preview, ou_dur := dur\<rparr>)\<rparr>)"

section \<open>Tools\<close>

definition blank_tool :: "string \<Rightarrow> tool_call" where
  "blank_tool i = \<lparr>tc_id = i, tc_tool = [], tc_args = None, tc_ok = False, tc_rows = None, tc_error = [], tc_dur = 0\<rparr>"

definition d_tool_input :: "tool_call decoder" where
  "d_tool_input = d_struct [(''tool'', at tc_tool tc_tool_update d_string), (''args_summary'', at tc_args tc_args_update (d_map JNull d_any))]"

definition d_tool_start :: "tool_call decoder" where
  "d_tool_start = d_struct [(''tool_call_id'', at tc_id tc_id_update d_string), (''input'', d_tool_input)]"

definition d_tool_end :: "tool_call decoder" where
  "d_tool_end = d_struct [(''tool_call_id'', at tc_id tc_id_update d_string), (''input'', d_tool_input),
     (''output'', d_struct [(''ok'', at tc_ok tc_ok_update d_bool), (''error_code'', at tc_error tc_error_update d_string),
        (''row_count'', at tc_rows tc_rows_update (d_ptr 0 d_int))])]"

definition observe_tool_start :: "json option \<Rightarrow> turn_aggregator \<Rightarrow> turn_aggregator" where
  "observe_tool_start raw = with_payload d_tool_start (blank_tool []) raw
     (\<lambda>x a. if tc_id x = [] then a else a\<lparr>ag_pending := AList.update (tc_id x) x (ag_pending a)\<rparr>)"

text \<open>The call that is ended: the pending one, or a blank one, completed by what the end frame says.\<close>

definition ended_call :: "tool_call \<Rightarrow> int \<Rightarrow> (string \<times> tool_call) list \<Rightarrow> tool_call" where
  "ended_call x dur pending =
     (let c = (case map_of pending (tc_id x) of None \<Rightarrow> blank_tool (tc_id x) | Some c \<Rightarrow> c) in
      c\<lparr>tc_tool := (if tc_tool c = [] then tc_tool x else tc_tool c), tc_args := (if tc_args c = None then tc_args x else tc_args c),
        tc_ok := tc_ok x, tc_error := tc_error x, tc_rows := tc_rows x, tc_dur := dur\<rparr>)"

definition observe_tool_end :: "json option \<Rightarrow> int \<Rightarrow> turn_aggregator \<Rightarrow> turn_aggregator" where
  "observe_tool_end raw dur = with_payload d_tool_end (blank_tool []) raw
     (\<lambda>x a. a\<lparr>ag_pending := AList.delete (tc_id x) (ag_pending a),
        ag_record := (ag_record a)\<lparr>tr_tools := tr_tools (ag_record a) @ [ended_call x dur (ag_pending a)]\<rparr>\<rparr>)"

section \<open>The end of the stream\<close>

record done_body =
  do_timings :: "(string \<times> int) list option"
  do_cycle :: bool
  do_exit :: string
  do_usage :: "token_usage option"

definition blank_usage :: token_usage where
  "blank_usage = \<lparr>tu_input = 0, tu_output = 0, tu_total = 0, tu_by_phase = None\<rparr>"

definition d_phase_usage :: "phase_usage decoder" where
  "d_phase_usage = d_struct [(''input_tokens'', at pu_input pu_input_update d_int),
     (''output_tokens'', at pu_output pu_output_update d_int), (''total_tokens'', at pu_total pu_total_update d_int)]"

definition d_usage :: "token_usage decoder" where
  "d_usage = d_struct [(''input_tokens'', at tu_input tu_input_update d_int),
     (''output_tokens'', at tu_output tu_output_update d_int), (''total_tokens'', at tu_total tu_total_update d_int),
     (''by_phase'', at tu_by_phase tu_by_phase_update (d_map \<lparr>pu_input = 0, pu_output = 0, pu_total = 0\<rparr> d_phase_usage))]"

definition d_done :: "done_body decoder" where
  "d_done = d_struct [(''timings'', at do_timings do_timings_update (d_map 0 d_int)),
     (''planning_cycle_complete'', at do_cycle do_cycle_update d_bool), (''early_exit'', at do_exit do_exit_update d_string),
     (''usage'', at do_usage do_usage_update (d_ptr blank_usage d_usage))]"

text \<open>A missing total is the sum of the two parts.\<close>

definition settle_usage :: "token_usage option \<Rightarrow> token_usage option \<Rightarrow> token_usage option" where
  "settle_usage u old = (case u of None \<Rightarrow> old
     | Some u \<Rightarrow> if tu_total u > 0 then Some u
         else if tu_input u > 0 \<or> tu_output u > 0
         then Some (if tu_total u = 0 then u\<lparr>tu_total := i64 (tu_input u + tu_output u)\<rparr> else u)
         else old)"

definition observe_done :: "json option \<Rightarrow> turn_record \<Rightarrow> turn_record" where
  "observe_done raw = with_payload d_done \<lparr>do_timings = None, do_cycle = False, do_exit = [], do_usage = None\<rparr> raw
     (\<lambda>b r. r\<lparr>tr_timings := (case do_timings b of Some (m # ms) \<Rightarrow> m # ms | _ \<Rightarrow> tr_timings r),
        tr_cycle_complete := do_cycle b, tr_early_exit := do_exit b, tr_usage := settle_usage (do_usage b) (tr_usage r)\<rparr>)"

definition observe_error :: "json option \<Rightarrow> turn_record \<Rightarrow> turn_record" where
  "observe_error raw = with_payload
     (d_struct [(''code'', at er_code er_code_update d_string), (''message'', at er_message er_message_update d_string)])
     \<lparr>er_code = [], er_message = []\<rparr> raw (\<lambda>e r. r\<lparr>tr_error := Some e\<rparr>)"

abbreviation on_record :: "(turn_record \<Rightarrow> turn_record) \<Rightarrow> turn_aggregator \<Rightarrow> turn_aggregator" where
  "on_record f a \<equiv> a\<lparr>ag_record := f (ag_record a)\<rparr>"

definition observe_stage :: "fact_envelope \<Rightarrow> int \<Rightarrow> turn_aggregator \<Rightarrow> turn_aggregator" where
  "observe_stage env dur a =
     (let p = fe_payload env; phase = fe_phase env in
      if phase = ''rewrite'' then on_record (observe_rewrite p dur) a
      else if phase = ''route'' then on_record (observe_route p dur) a
      else if phase = ''tool_retrieve'' then on_record (observe_tool_retrieve p dur) a
      else if phase = ''analyse'' then on_record (observe_analyse p dur) a
      else if phase = ''retrieve'' then on_record (observe_retrieve p dur) a
      else if phase = ''plan'' then on_record (observe_plan p dur) a
      else if phase = ''output'' then on_record (observe_output_stage p dur) a
      else if phase = ''tool_invoke'' then
        (if fe_status env = ''start'' then observe_tool_start p a
         else if fe_status env = ''end'' then observe_tool_end p dur a else a)
      else a)"

definition observe :: "fact_envelope \<Rightarrow> turn_aggregator \<Rightarrow> turn_aggregator" where
  "observe env a =
     (if fe_kind env = ''control'' then
        (if fe_phase env = ''done'' then on_record (observe_done (fe_payload env)) (a\<lparr>ag_done := True\<rparr>)
         else if fe_phase env = ''error'' then
           on_record (\<lambda>r. observe_error (fe_payload env) (r\<lparr>tr_status := ''error''\<rparr>)) (a\<lparr>ag_error := True\<rparr>)
         else a)
      else if fe_kind env = ''stage'' then observe_stage env (duration_ms (fe_duration env)) a
      else a)"

section \<open>Finalising\<close>

text \<open>
  \<open>[]rune(text)\<close> has at least as much capacity as runes, \<open>cap n\<close> for \<open>n\<close> runes, chosen by the run time; slicing beyond the length and within the
  capacity yields zero runes, beyond the capacity it panics (\<open>None\<close>).
\<close>

definition slice_runes :: "(nat \<Rightarrow> nat) \<Rightarrow> nat \<Rightarrow> string \<Rightarrow> string option" where
  "slice_runes cap k text = (let rs = runes text in
     if k > cap (length rs) then None
     else Some (concat (map rune_text (take k rs)) @ replicate (k - length rs) (char_of (0 :: nat))))"

definition final_output :: "(nat \<Rightarrow> nat) \<Rightarrow> string \<Rightarrow> turn_output option \<Rightarrow> turn_output option option" where
  "final_output cap text old = (if text = [] then Some old else
     let out = blank_output\<lparr>ou_text := text, ou_chars := int (length (runes text))\<rparr> in
     if length text > 240 then map_option (\<lambda>p. Some (out\<lparr>ou_preview := p\<rparr>)) (slice_runes cap 240 text)
     else Some (Some out))"

definition final_status :: "bool \<Rightarrow> bool \<Rightarrow> bool \<Rightarrow> bool \<Rightarrow> string" where
  "final_status aborted stream_err saw_error saw_done =
     (if aborted then ''aborted'' else if stream_err \<or> saw_error then ''error''
      else if \<not> saw_done then ''aborted'' else ''ok'')"

text \<open>The elapsed time is saturated to 64 bits of nanoseconds and cut to milliseconds.\<close>

definition elapsed_ms :: "int \<Rightarrow> int \<Rightarrow> int" where
  "elapsed_ms started now = (let d = max (- (2 ^ 63)) (min (2 ^ 63 - 1) (now - started)) in
     if d < 0 then - ((- d) div 1000000) else d div 1000000)"

text \<open>The calls that are still pending are appended, in the order in which the map is walked, \<open>walk\<close>.\<close>

definition finalize ::
  "(nat \<Rightarrow> nat) \<Rightarrow> ((string \<times> tool_call) list \<Rightarrow> (string \<times> tool_call) list) \<Rightarrow> int \<Rightarrow> string \<Rightarrow> bool \<Rightarrow> bool \<Rightarrow>
   turn_aggregator \<Rightarrow> turn_record option" where
  "finalize cap walk now text stream_err aborted a =
     (let r = ag_record a in map_option (\<lambda>out. r
        \<lparr>tr_finished_ms := unix_milli now,
         tr_total_ms := (if ag_started a = zero_time then tr_total_ms r else elapsed_ms (ag_started a) now),
         tr_output := out,
         tr_status := final_status aborted stream_err (ag_error a) (ag_done a),
         tr_tools := tr_tools r @ map snd (walk (ag_pending a))\<rparr>)
       (final_output cap text (tr_output r)))"

text \<open>A whole stream of frames.\<close>

definition observe_all :: "fact_envelope list \<Rightarrow> turn_aggregator \<Rightarrow> turn_aggregator" where
  "observe_all = fold observe"

end
