(* ===== verification/TurnProps.thy ===== *)
theory TurnProps
  imports TurnRecord "HOL-Library.Multiset"
begin

text \<open>
  What the aggregation of a turn guarantees: its status is decided by the control frames, every call that was
  ended or left open is in the record once, the open ones as failed, and the texts on which finalising a turn panics.
\<close>

section \<open>The tools against an abstract account\<close>

text \<open>What a frame says about tools: a call is opened, or ended, well or not.\<close>

datatype tool_event = Opens string | Ends string bool

definition tool_events :: "fact_envelope \<Rightarrow> tool_event list" where
  "tool_events env =
     (if fe_kind env = ''stage'' \<and> fe_phase env = ''tool_invoke'' then
        (if fe_status env = ''start'' then
           (case unmarshal d_tool_start (fe_payload env) (blank_tool []) of (x, fine) \<Rightarrow> if fine \<and> tc_id x \<noteq> [] then [Opens (tc_id x)] else [])
         else if fe_status env = ''end'' then
           (case unmarshal d_tool_end (fe_payload env) (blank_tool []) of (x, fine) \<Rightarrow> if fine then [Ends (tc_id x) (tc_ok x)] else [])
         else [])
      else [])"

definition left_open :: "tool_event list \<Rightarrow> string \<Rightarrow> bool" where
  "left_open es i \<longleftrightarrow> (\<exists>before after. es = before @ Opens i # after \<and> (\<forall>fine. Ends i fine \<notin> set after))"

definition ended_calls :: "tool_event list \<Rightarrow> (string \<times> bool) list" where
  "ended_calls es = concat (map (\<lambda>e. case e of Ends i fine \<Rightarrow> [(i, fine)] | Opens _ \<Rightarrow> []) es)"

lemma left_open_Nil [simp]: "\<not> left_open [] i"
  by (simp add: left_open_def)

lemma left_open_snoc: "left_open (es @ [e]) i \<longleftrightarrow> e = Opens i \<or> left_open es i \<and> (\<forall>fine. e \<noteq> Ends i fine)"
proof
  assume "left_open (es @ [e]) i"
  then obtain b a where es: "es @ [e] = b @ Opens i # a" and "\<forall>fine. Ends i fine \<notin> set a" by (auto simp: left_open_def)
  then show "e = Opens i \<or> left_open es i \<and> (\<forall>fine. e \<noteq> Ends i fine)"
    by (cases a rule: rev_cases) (auto simp: left_open_def)
next
  assume "e = Opens i \<or> left_open es i \<and> (\<forall>fine. e \<noteq> Ends i fine)"
  then show "left_open (es @ [e]) i"
  proof
    assume "left_open es i \<and> (\<forall>fine. e \<noteq> Ends i fine)"
    then obtain b a where "es = b @ Opens i # a" and "\<forall>fine. Ends i fine \<notin> set (a @ [e])" by (auto simp: left_open_def)
    then show ?thesis unfolding left_open_def by (intro exI [of _ b] exI [of _ "a @ [e]"]) simp
  qed (use left_open_def in fastforce)
qed

lemma ended_calls_append [simp]: "ended_calls (xs @ ys) = ended_calls xs @ ended_calls ys"
  by (simp add: ended_calls_def)

definition call_result :: "tool_call \<Rightarrow> string \<times> bool" where
  "call_result c = (tc_id c, tc_ok c)"

text \<open>A call of which only the start was seen: not well, no rows, no error code, no duration.\<close>

definition unfinished :: "tool_call \<Rightarrow> bool" where
  "unfinished c \<longleftrightarrow> \<not> tc_ok c \<and> tc_rows c = None \<and> tc_error c = [] \<and> tc_dur c = 0"

text \<open>The aggregator stands for the events so far.\<close>

definition accounts :: "tool_event list \<Rightarrow> turn_aggregator \<Rightarrow> bool" where
  "accounts es a \<longleftrightarrow> map call_result (tr_tools (ag_record a)) = ended_calls es \<and> distinct (map fst (ag_pending a)) \<and>
     (\<forall>(i, c) \<in> set (ag_pending a). tc_id c = i \<and> unfinished c) \<and> (\<forall>i. i \<in> fst ` set (ag_pending a) \<longleftrightarrow> left_open es i)"

lemma with_payload_same:
  "(\<And>x r. g (f x r) = g r) \<Longrightarrow> g (with_payload d zero raw f r) = g r"
  by (simp add: with_payload_def case_prod_beta)

lemma tools_same [simp]:
  "tr_tools (observe_rewrite raw n r) = tr_tools r" "tr_tools (observe_route raw n r) = tr_tools r"
  "tr_tools (observe_tool_retrieve raw n r) = tr_tools r" "tr_tools (observe_analyse raw n r) = tr_tools r"
  "tr_tools (observe_retrieve raw n r) = tr_tools r" "tr_tools (observe_plan raw n r) = tr_tools r"
  "tr_tools (observe_output_stage raw n r) = tr_tools r" "tr_tools (observe_done raw r) = tr_tools r"
  "tr_tools (observe_error raw r) = tr_tools r"
  unfolding observe_rewrite_def observe_route_def observe_tool_retrieve_def observe_analyse_def observe_retrieve_def
    observe_plan_def observe_output_stage_def observe_done_def observe_error_def Let_def
  by (rule with_payload_same, simp)+

lemma safe_at_other: "(\<And>r x. P r \<Longrightarrow> P (upd (\<lambda>_. x) r)) \<Longrightarrow> safe P (at get upd d)"
  by (rule safeI) (simp add: at_def case_prod_beta)

lemma safe_struct_all: "list_all (\<lambda>f. safe P (snd f)) tbl \<Longrightarrow> safe P (d_struct tbl)"
  by (rule safe_struct) (auto simp: list_all_iff)

lemma safe_unfinished: "safe unfinished d_tool_start"
proof -
  have "safe unfinished d_tool_input"
    unfolding d_tool_input_def
    by (rule safe_struct_all, simp) (intro conjI safe_at_other; simp add: unfinished_def)
  then show ?thesis
    unfolding d_tool_start_def
    by (intro safe_struct_all, simp) (intro safe_at_other; simp add: unfinished_def)
qed

lemma started_unfinished: "unmarshal d_tool_start raw (blank_tool []) = (x, fine) \<Longrightarrow> unfinished x"
  using safe_unmarshal [OF safe_unfinished, of "blank_tool []" raw] by (simp add: unfinished_def blank_tool_def)

lemma pending_update:
  assumes "\<forall>(j, c) \<in> set l. tc_id c = j \<and> unfinished c" and "tc_id x = i" and "unfinished x"
  shows "\<forall>(j, c) \<in> set (AList.update i x l). tc_id c = j \<and> unfinished c"
  using assms set_alist_update [of i x l] by (auto dest!: subsetD)

lemma accounts_open:
  assumes "accounts es a" and "tc_id x = i" and "unfinished x"
  shows "accounts (es @ [Opens i]) (a\<lparr>ag_pending := AList.update i x (ag_pending a)\<rparr>)"
proof -
  from assms(1) have pend: "\<forall>(j, c) \<in> set (ag_pending a). tc_id c = j \<and> unfinished c" and dist: "distinct (map fst (ag_pending a))"
    and keys: "\<And>j. j \<in> fst ` set (ag_pending a) \<longleftrightarrow> left_open es j" and tools: "map call_result (tr_tools (ag_record a)) = ended_calls es"
    by (auto simp: accounts_def)
  have "j \<in> fst ` set (AList.update i x (ag_pending a)) \<longleftrightarrow> left_open (es @ [Opens i]) j" for j
    by (simp add: dom_update left_open_snoc keys) blast
  then show ?thesis
    unfolding accounts_def using pending_update [OF pend assms(2,3)] distinct_update [OF dist] tools by (simp add: ended_calls_def)
qed

lemma accounts_end:
  assumes "accounts es a" and "tc_id x = i"
  shows "accounts (es @ [Ends i (tc_ok x)]) (a\<lparr>ag_pending := AList.delete i (ag_pending a),
    ag_record := (ag_record a)\<lparr>tr_tools := tr_tools (ag_record a) @ [ended_call x n (ag_pending a)]\<rparr>\<rparr>)"
proof -
  from assms(1) have pend: "\<forall>(j, c) \<in> set (ag_pending a). tc_id c = j \<and> unfinished c" and dist: "distinct (map fst (ag_pending a))"
    and keys: "\<And>j. j \<in> fst ` set (ag_pending a) \<longleftrightarrow> left_open es j" and tools: "map call_result (tr_tools (ag_record a)) = ended_calls es"
    by (auto simp: accounts_def)
  have "call_result (ended_call x n (ag_pending a)) = (i, tc_ok x)"
    using pend assms(2) by (auto simp: call_result_def ended_call_def Let_def blank_tool_def split: option.split dest!: map_of_SomeD)
  moreover have "j \<in> fst ` set (AList.delete i (ag_pending a)) \<longleftrightarrow> left_open (es @ [Ends i (tc_ok x)]) j" for j
    using keys [of j] by (auto simp: AList.delete_eq left_open_snoc)
  moreover have "distinct (map fst (AList.delete i (ag_pending a)))" using dist by (rule distinct_delete)
  moreover have "\<forall>(j, c) \<in> set (AList.delete i (ag_pending a)). tc_id c = j \<and> unfinished c" using pend by (auto simp: AList.delete_eq)
  ultimately show ?thesis unfolding accounts_def using tools by (simp add: ended_calls_def)
qed

lemma accounts_same:
  assumes "accounts es a" and "tr_tools (ag_record b) = tr_tools (ag_record a)" and "ag_pending b = ag_pending a"
  shows "accounts es b"
  using assms by (simp add: accounts_def)

lemma observe_accounts: "accounts es a \<Longrightarrow> accounts (es @ tool_events env) (observe env a)"
proof -
  assume a: "accounts es a"
  let ?p = "fe_payload env" and ?n = "duration_ms (fe_duration env)"
  consider (opens) "fe_kind env = ''stage''" "fe_phase env = ''tool_invoke''" "fe_status env = ''start''"
    | (closes) "fe_kind env = ''stage''" "fe_phase env = ''tool_invoke''" "fe_status env = ''end''"
    | (other) "\<not> (fe_kind env = ''stage'' \<and> fe_phase env = ''tool_invoke'' \<and> (fe_status env = ''start'' \<or> fe_status env = ''end''))"
    by blast
  then show ?thesis
  proof cases
    case opens
    obtain x fine where x: "unmarshal d_tool_start ?p (blank_tool []) = (x, fine)" by force
    with opens a accounts_open [OF a refl started_unfinished [OF x]] show ?thesis
      by (auto simp: tool_events_def observe_def observe_stage_def observe_tool_start_def with_payload_def)
  next
    case closes
    obtain x fine where x: "unmarshal d_tool_end ?p (blank_tool []) = (x, fine)" by force
    with closes a accounts_end [OF a refl, of x ?n] show ?thesis
      by (auto simp: tool_events_def observe_def observe_stage_def observe_tool_end_def with_payload_def)
  next
    case other
    then have "tool_events env = []" by (auto simp: tool_events_def)
    moreover have "tr_tools (ag_record (observe env a)) = tr_tools (ag_record a) \<and> ag_pending (observe env a) = ag_pending a"
      using other by (auto simp: observe_def observe_stage_def Let_def)
    ultimately show ?thesis using accounts_same [OF a] by simp
  qed
qed

lemma observe_all_accounts: "accounts es a \<Longrightarrow> accounts (es @ concat (map tool_events fs)) (observe_all fs a)"
proof (induction fs arbitrary: es a)
  case (Cons f fs)
  from Cons.IH [OF observe_accounts [OF Cons.prems]] show ?case by (simp add: observe_all_def)
qed (simp add: observe_all_def)

lemma accounts_new: "accounts [] (new_turn_aggregator m)"
  by (simp add: accounts_def new_turn_aggregator_def ended_calls_def)

lemma finalize_tools:
  "finalize cap walk now text err ab a = Some r \<Longrightarrow> tr_tools r = tr_tools (ag_record a) @ map snd (walk (ag_pending a))"
  by (auto simp: finalize_def Let_def)

text \<open>C17: Every tool call of a turn is accounted for: the record lists the calls that were ended, in the order of their ends and
  as well or failed as the end said, and after them each call that was opened and never ended, once and as failed, in
  the order in which the map is walked. Nothing is dropped.\<close>

theorem turn_lists_every_tool_call:
  assumes "\<And>l. mset (walk l) = mset l" and "finalize cap walk now text err ab (observe_all fs (new_turn_aggregator m)) = Some r"
  shows "\<exists>ended opened. tr_tools r = ended @ opened \<and>
    map (\<lambda>c. (tc_id c, tc_ok c)) ended = ended_calls (concat (map tool_events fs)) \<and>
    distinct (map tc_id opened) \<and> tc_id ` set opened = {i. left_open (concat (map tool_events fs)) i} \<and>
    (\<forall>c \<in> set opened. \<not> tc_ok c \<and> tc_rows c = None \<and> tc_error c = [] \<and> tc_dur c = 0)"
proof -
  let ?a = "observe_all fs (new_turn_aggregator m)" and ?es = "concat (map tool_events fs)"
  let ?l = "map snd (walk (ag_pending ?a))"
  from observe_all_accounts [OF accounts_new, of fs m] have acc: "accounts ?es ?a" by simp
  then have dist: "distinct (map fst (ag_pending ?a))" and ids: "\<forall>(i, c) \<in> set (ag_pending ?a). tc_id c = i \<and> unfinished c"
    and keys: "fst ` set (ag_pending ?a) = {i. left_open ?es i}"
    and ended: "map call_result (tr_tools (ag_record ?a)) = ended_calls ?es" by (auto simp: accounts_def)
  have walked: "set (walk (ag_pending ?a)) = set (ag_pending ?a)" using mset_eq_setD [OF assms(1)] .
  have one: "map tc_id ?l = map fst (walk (ag_pending ?a))" using ids by (auto simp: walked)
  have two: "mset (map fst (walk (ag_pending ?a))) = mset (map fst (ag_pending ?a))" by (simp add: assms(1))
  have all: "mset (map tc_id ?l) = mset (map fst (ag_pending ?a))" unfolding one two ..
  have "distinct (map tc_id ?l)" using dist mset_eq_imp_distinct_iff [OF all] by blast
  moreover have "tc_id ` set ?l = {i. left_open ?es i}" using mset_eq_setD [OF all] keys by (simp add: image_image)
  moreover have "\<forall>c \<in> set ?l. unfinished c" using ids by (auto simp: walked)
  moreover have "map (\<lambda>c. (tc_id c, tc_ok c)) (tr_tools (ag_record ?a)) = ended_calls ?es" using ended by (simp add: call_result_def [abs_def])
  ultimately show ?thesis using finalize_tools [OF assms(2)] unfolding unfinished_def by blast
qed

definition demo_frame :: "string \<Rightarrow> string \<Rightarrow> fact_envelope" where
  "demo_frame status i = \<lparr>fe_v = 1, fe_kind = ''stage'', fe_seq = 0, fe_request = [], fe_ts = 0, fe_phase = ''tool_invoke'',
     fe_status = status, fe_duration = Some 7, fe_payload = Some (JObj [(''tool_call_id'', JStr i)])\<rparr>"

definition demo_meta :: turn_meta where
  "demo_meta = \<lparr>tm_request = ''r'', tm_user = 1, tm_session = ''s'', tm_message = ''hi'', tm_started = 0\<rparr>"

lemmas turn_run = observe_all_def observe_def observe_stage_def observe_tool_start_def observe_tool_end_def with_payload_def
  unmarshal_def d_tool_start_def d_tool_end_def d_struct_def field_for_def at_def d_string_def blank_tool_def
  new_turn_aggregator_def finalize_def final_output_def demo_frame_def demo_meta_def duration_ms_def Let_def

theorem turn_lists_every_tool_call_witness:
  "\<exists>r. finalize id id 5 [] False False (observe_all [demo_frame ''start'' ''a'', demo_frame ''start'' ''b'', demo_frame ''end'' ''a'']
      (new_turn_aggregator demo_meta)) = Some r \<and> (\<exists>c l. tr_tools r = c # l \<and> tc_id c = ''a'')"
proof -
  let ?fs = "[demo_frame ''start'' ''a'', demo_frame ''start'' ''b'', demo_frame ''end'' ''a'']"
  obtain r where r: "finalize id id 5 [] False False (observe_all ?fs (new_turn_aggregator demo_meta)) = Some r"
    by (simp add: finalize_def final_output_def Let_def)
  have "ended_calls (concat (map tool_events ?fs)) = [(''a'', False)]"
    by (simp add: tool_events_def ended_calls_def turn_run)
  with turn_lists_every_tool_call [OF _ r] r show ?thesis by (auto simp: Cons_eq_append_conv map_eq_Cons_conv)
qed

section \<open>The status\<close>

definition control_frame :: "string \<Rightarrow> fact_envelope \<Rightarrow> bool" where
  "control_frame phase env \<longleftrightarrow> fe_kind env = ''control'' \<and> fe_phase env = phase"

lemma flags_same [simp]:
  "ag_done (observe_tool_start raw a) = ag_done a" "ag_error (observe_tool_start raw a) = ag_error a"
  "ag_done (observe_tool_end raw n a) = ag_done a" "ag_error (observe_tool_end raw n a) = ag_error a"
  unfolding observe_tool_start_def observe_tool_end_def by (rule with_payload_same, simp)+

lemma observe_flags:
  "ag_done (observe env a) \<longleftrightarrow> ag_done a \<or> control_frame ''done'' env"
  "ag_error (observe env a) \<longleftrightarrow> ag_error a \<or> control_frame ''error'' env"
  by (auto simp: observe_def observe_stage_def Let_def control_frame_def)

lemma observe_all_flags:
  "ag_done (observe_all fs a) \<longleftrightarrow> ag_done a \<or> list_ex (control_frame ''done'') fs"
  "ag_error (observe_all fs a) \<longleftrightarrow> ag_error a \<or> list_ex (control_frame ''error'') fs"
  by (induction fs arbitrary: a) (auto simp: observe_all_def observe_flags)

text \<open>A turn ends ok exactly when the stream was not aborted and failed nowhere, no error frame came and a done frame did; a
  stream that just stops is aborted, and an abort outranks an error.\<close>

theorem turn_status_from_control_frames:
  assumes "finalize cap walk now text err ab (observe_all fs (new_turn_aggregator m)) = Some r"
  shows "(tr_status r = ''ok'' \<longleftrightarrow> \<not> ab \<and> \<not> err \<and> \<not> list_ex (control_frame ''error'') fs \<and> list_ex (control_frame ''done'') fs) \<and>
    (tr_status r = ''error'' \<longleftrightarrow> \<not> ab \<and> (err \<or> list_ex (control_frame ''error'') fs)) \<and>
    (tr_status r = ''aborted'' \<longleftrightarrow> ab \<or> \<not> err \<and> \<not> list_ex (control_frame ''error'') fs \<and> \<not> list_ex (control_frame ''done'') fs)"
proof -
  let ?a = "observe_all fs (new_turn_aggregator m)"
  from assms have "tr_status r = final_status ab err (ag_error ?a) (ag_done ?a)"
    by (auto simp: finalize_def Let_def)
  moreover have "\<not> ag_done (new_turn_aggregator m)" "\<not> ag_error (new_turn_aggregator m)"
    by (simp_all add: new_turn_aggregator_def)
  ultimately show ?thesis by (simp add: observe_all_flags final_status_def)
qed

theorem turn_status_from_control_frames_witness:
  "\<exists>r. finalize id id 5 [] False False (observe_all [demo_frame ''start'' ''a''] (new_turn_aggregator demo_meta)) = Some r \<and>
     tr_status r = ''aborted''"
proof -
  obtain r where r: "finalize id id 5 [] False False (observe_all [demo_frame ''start'' ''a''] (new_turn_aggregator demo_meta)) = Some r"
    by (simp add: finalize_def final_output_def Let_def)
  with turn_status_from_control_frames [OF r] show ?thesis by (simp add: control_frame_def demo_frame_def)
qed

section \<open>Texts that panic\<close>

lemma rune_len_three:
  "224 \<le> a \<Longrightarrow> a < 240 \<Longrightarrow> cont_byte b \<Longrightarrow> cont_byte c \<Longrightarrow> (a = 224 \<longrightarrow> 160 \<le> b) \<Longrightarrow> (a = 237 \<longrightarrow> b < 160) \<Longrightarrow>
    rune_len (a # b # c # rest) = 3"
  by (cases rest) auto

definition three_byte_rune :: "string \<Rightarrow> bool" where
  "three_byte_rune r \<longleftrightarrow> (\<exists>a b c. map of_char r = [a, b, c :: nat] \<and> 224 \<le> a \<and> a < 240 \<and> cont_byte b \<and> cont_byte c \<and>
     (a = 224 \<longrightarrow> 160 \<le> b) \<and> (a = 237 \<longrightarrow> b < 160))"

lemma runes_append: "r \<noteq> [] \<Longrightarrow> rune_len (map of_char (r @ s) :: nat list) = length r \<Longrightarrow> runes (r @ s) = r # runes s"
  by (simp add: runes.simps [of "r @ s"])

lemma runes_three:
  assumes "three_byte_rune r"
  shows "runes (concat (replicate n r)) = replicate n r"
proof (induction n)
  case (Suc n)
  from assms obtain a b c where r: "map of_char r = [a, b, c :: nat]"
    and len: "rune_len (a # b # c # rest) = 3" for rest
    using rune_len_three by (auto simp: three_byte_rune_def)
  from r have "length r = 3" by (metis length_map length_Cons list.size(3) One_nat_def numeral_3_eq_3)
  moreover have "rune_len (map of_char (r @ concat (replicate n r)) :: nat list) = 3" using r len by simp
  moreover have "r \<noteq> []" using \<open>length r = 3\<close> by auto
  ultimately show ?case using Suc runes_append [of r "concat (replicate n r)"] by simp
qed simp

text \<open>Finalising a turn slices the first 240 runes when the text has more than 240 bytes. A text of 81 to 239 three-byte
  runes (Chinese, say) is longer than 240 bytes and has fewer runes: unless the run time gave the rune slice more room, the
  handler panics. No text of 240 runes or more does.\<close>

theorem finalize_panics_on_medium_texts:
  assumes "\<And>n. n \<le> cap n" and "three_byte_rune r" and "81 \<le> n"
  shows "finalize cap walk now (concat (replicate n r)) err ab a = None \<longleftrightarrow> cap n < 240"
proof -
  have len: "length (concat (replicate n r)) = 3 * n"
  proof -
    from assms(2) have "length r = 3"
      unfolding three_byte_rune_def by (metis length_map length_Cons list.size(3) One_nat_def numeral_3_eq_3)
    then show ?thesis by (induction n) simp_all
  qed
  then have "concat (replicate n r) \<noteq> []" using assms(3) by (metis length_0_conv mult_eq_0_iff not_numeral_le_zero zero_neq_numeral)
  with len assms(3) show ?thesis
    by (simp add: finalize_def final_output_def slice_runes_def Let_def runes_three [OF assms(2)] del: concat_replicate_trivial)
qed

theorem finalize_panics_on_medium_texts_witness:
  "finalize id id 5 (concat (replicate 100 (utf8 [228, 189, 160]))) False False (new_turn_aggregator demo_meta) = None"
proof -
  have "three_byte_rune (utf8 [228, 189, 160])"
    by (simp add: three_byte_rune_def utf8_def cont_byte_def of_char_of take_bit_nat_eq_self)
  from finalize_panics_on_medium_texts [OF _ this, of id 100] show ?thesis by simp
qed

end
