(* ===== verification/Translator.thy ===== *)
theory Translator
  imports TurnRecord
begin

text \<open>
  From the assistant's frames to what the browser is shown: src/handler/agentstream/template.go,
  translator.go and sse.go. An output line is the event it carries (or the payload that is passed through);
  its JSON text is left out. The registry of tools (shared/registry.go, from an embedded file) is an argument.
\<close>

section \<open>Templates\<close>

definition placeholder :: "string \<Rightarrow> string" where
  "placeholder k = ''{{'' @ k @ ''}}''"

text \<open>The variables in the order in which the map is walked.\<close>

definition render_template :: "string \<Rightarrow> (string \<times> string) list \<Rightarrow> string" where
  "render_template tmpl vars = (if tmpl = [] then [] else
     fold (\<lambda>(k, v) out. replace_all (placeholder k) v out) vars tmpl)"

primrec contains :: "string \<Rightarrow> string \<Rightarrow> bool" where
  "contains sub [] = (sub = [])"
| "contains sub (c # cs) = (take (length sub) (c # cs) = sub \<or> contains sub cs)"

definition has_unreplaced_template :: "string \<Rightarrow> bool" where
  "has_unreplaced_template s = contains ''{{'' s"

definition render_template_or_fallback :: "string \<Rightarrow> string \<Rightarrow> (string \<times> string) list \<Rightarrow> string" where
  "render_template_or_fallback tmpl fallback vars = (if trim_space tmpl = [] then fallback else
     let content = render_template tmpl vars in
     if has_unreplaced_template content \<or> trim_space content = [] then fallback else content)"

text \<open>How numbers, lists and objects print (\<open>strconv\<close> and \<open>fmt.Sprint\<close>) is the argument \<open>show_other\<close>.\<close>

definition string_from_any :: "(json \<Rightarrow> string) \<Rightarrow> json \<Rightarrow> string" where
  "string_from_any show_other v = (case v of JNull \<Rightarrow> [] | JStr s \<Rightarrow> s
     | JBool b \<Rightarrow> if b then ''true'' else ''false'' | _ \<Rightarrow> show_other v)"

section \<open>Texts\<close>

definition txt_partial_hint :: string where
  "txt_partial_hint = utf8 [233, 131, 168, 229, 136, 134, 228, 191, 161, 230, 129, 175, 230, 154, 130, 230, 151, 182, 228, 184, 141, 229, 143, 175, 231, 148, 168, 239, 188, 140, 229, 176, 134, 231, 187, 167, 231, 187, 173, 228, 184, 186, 230, 130, 168, 230, 149, 180, 231, 144, 134, 229, 183, 178, 230, 156, 137, 231, 187, 147, 230, 158, 156]"

definition txt_thinking_hint :: string where
  "txt_thinking_hint = utf8 [230, 173, 163, 229, 156, 168, 231, 144, 134, 232, 167, 163, 230, 130, 168, 231, 154, 132, 233, 151, 174, 233, 162, 152, 226, 128, 166]"

definition txt_ellipsis :: string where
  "txt_ellipsis = utf8 [226, 128, 166]"

definition txt_unavailable :: string where
  "txt_unavailable = utf8 [230, 156, 141, 229, 138, 161, 230, 154, 130, 230, 151, 182, 228, 184, 141, 229, 143, 175, 231, 148, 168, 239, 188, 140, 232, 175, 183, 231, 168, 141, 229, 144, 142, 229, 134, 141, 232, 175, 149]"

definition txt_recalling :: string where
  "txt_recalling = utf8 [230, 173, 163, 229, 156, 168, 229, 155, 158, 229, 191, 134, 231, 155, 184, 229, 133, 179, 232, 131, 140, 230, 153, 175, 226, 128, 166]"

definition txt_planning_text :: string where
  "txt_planning_text = utf8 [230, 173, 163, 229, 156, 168, 230, 149, 180, 231, 144, 134, 229, 155, 158, 231, 173, 148, 230, 128, 157, 232, 183, 175, 226, 128, 166]"

definition txt_calling :: string where
  "txt_calling = utf8 [230, 173, 163, 229, 156, 168, 232, 176, 131, 231, 148, 168]"

definition txt_fetched :: string where
  "txt_fetched = utf8 [239, 188, 154, 229, 183, 178, 232, 142, 183, 229, 143, 150]"

definition txt_not_fetched :: string where
  "txt_not_fetched = utf8 [239, 188, 154, 230, 156, 170, 232, 131, 189, 232, 142, 183, 229, 143, 150, 229, 136, 176, 231, 155, 184, 229, 133, 179, 228, 191, 161, 230, 129, 175]"

definition txt_parse_failed :: string where
  "txt_parse_failed = utf8 [230, 181, 129, 229, 188, 143, 230, 149, 176, 230, 141, 174, 232, 167, 163, 230, 158, 144, 229, 164, 177, 232, 180, 165]"

section \<open>Events\<close>

record presentation_event =
  pe_type :: string
  pe_content :: string
  pe_skeleton :: string
  pe_meta :: "(string \<times> json) list"

record translate_result =
  rs_events :: "presentation_event list"
  rs_delta :: string
  rs_error :: bool

record tool_spec =
  ts_label :: string
  ts_start :: string
  ts_end_ok :: string
  ts_end_fail :: string

text \<open>The registry: the hint for partial results and the tools. \<open>walk\<close> is the order in which maps are walked.\<close>

record translator =
  tl_hint :: string
  tl_tools :: "string \<Rightarrow> tool_spec option"
  tl_show :: "json \<Rightarrow> string"
  tl_walk :: "(string \<times> string) list \<Rightarrow> (string \<times> string) list"

definition plain_event :: "string \<Rightarrow> string \<Rightarrow> presentation_event" where
  "plain_event ty content = \<lparr>pe_type = ty, pe_content = content, pe_skeleton = [], pe_meta = []\<rparr>"

definition no_result :: translate_result where
  "no_result = \<lparr>rs_events = [], rs_delta = [], rs_error = False\<rparr>"

definition partial_hint :: "translator \<Rightarrow> string" where
  "partial_hint t = (if tl_hint t \<noteq> [] then tl_hint t else txt_partial_hint)"

definition template_vars :: "translator \<Rightarrow> tool_spec \<Rightarrow> (string \<times> json) list \<Rightarrow> (string \<times> string) list \<Rightarrow> (string \<times> string) list" where
  "template_vars t spec args extra = fold (\<lambda>(k, v). AList.update k v) extra
     (fold (\<lambda>(k, v). AList.update k (string_from_any (tl_show t) v)) args [(''label'', ts_label spec)])"

definition render_tool_template ::
  "translator \<Rightarrow> string \<Rightarrow> string \<Rightarrow> tool_spec \<Rightarrow> (string \<times> json) list \<Rightarrow> (string \<times> string) list \<Rightarrow> string" where
  "render_tool_template t tmpl fallback spec args extra =
     render_template_or_fallback tmpl fallback (tl_walk t (template_vars t spec args extra))"

definition shorten_intent :: "string \<Rightarrow> nat \<Rightarrow> string" where
  "shorten_intent intent n = (let intent = trim_space intent; rs = runes intent in
     if intent = [] then txt_thinking_hint
     else if length rs \<le> n then intent
     else concat (map rune_text (take n rs)) @ txt_ellipsis)"

section \<open>Tools\<close>

record tool_outcome =
  to_ok :: bool
  to_rows :: "int option"
  to_preview :: string

record tool_body =
  tb_id :: string
  tb_tool :: string
  tb_args :: "(string \<times> json) list option"
  tb_outcome :: "tool_outcome option"

definition d_outcome :: "tool_outcome decoder" where
  "d_outcome = d_struct [(''ok'', at to_ok to_ok_update d_bool), (''row_count'', at to_rows to_rows_update (d_ptr 0 d_int)),
     (''preview'', at to_preview to_preview_update d_string)]"

definition d_tool_body :: "tool_body decoder" where
  "d_tool_body = d_struct [(''tool_call_id'', at tb_id tb_id_update d_string),
     (''input'', d_struct [(''tool'', at tb_tool tb_tool_update d_string), (''args_summary'', at tb_args tb_args_update (d_map JNull d_any))]),
     (''output'', at tb_outcome tb_outcome_update (d_ptr \<lparr>to_ok = False, to_rows = None, to_preview = []\<rparr> d_outcome))]"

definition show_int :: "int \<Rightarrow> string" where
  "show_int n = (if n < 0 then CHR ''-'' # show_nat (nat (- n)) else show_nat (nat n))"

definition spec_of :: "translator \<Rightarrow> string \<Rightarrow> tool_spec" where
  "spec_of t name = (case tl_tools t name of Some spec \<Rightarrow> spec
     | None \<Rightarrow> \<lparr>ts_label = name, ts_start = [], ts_end_ok = [], ts_end_fail = []\<rparr>)"

definition tool_meta :: "tool_body \<Rightarrow> (string \<times> json) list" where
  "tool_meta p = [(''tool_call_id'', JStr (tb_id p)), (''tool'', JStr (tb_tool p))]"

definition tool_started :: "translator \<Rightarrow> tool_body \<Rightarrow> translate_result" where
  "tool_started t p = (let spec = spec_of t (tb_tool p) in no_result\<lparr>rs_events :=
     [(plain_event ''tool_start'' (render_tool_template t (ts_start spec) (txt_calling @ ts_label spec @ txt_ellipsis) spec
        (case tb_args p of None \<Rightarrow> [] | Some m \<Rightarrow> m) []))\<lparr>pe_meta := tool_meta p\<rparr>]\<rparr>)"

definition tool_ended :: "translator \<Rightarrow> tool_body \<Rightarrow> tool_outcome \<Rightarrow> translate_result" where
  "tool_ended t p oc = (let spec = spec_of t (tb_tool p); args = (case tb_args p of None \<Rightarrow> [] | Some m \<Rightarrow> m);
        extra = (case to_rows oc of None \<Rightarrow> [] | Some n \<Rightarrow> [(''row_count'', show_int n)]);
        content = (if to_ok oc then render_tool_template t (ts_end_ok spec) (ts_label spec @ txt_fetched) spec args extra
          else render_tool_template t (ts_end_fail spec) (ts_label spec @ txt_not_fetched) spec args extra)
      in no_result\<lparr>rs_events := (if to_ok oc then [] else [plain_event ''thinking'' (partial_hint t)]) @
        [(plain_event ''tool_end'' content)\<lparr>pe_meta := tool_meta p @ [(''ok'', JBool (to_ok oc))] @
           (if to_ok oc then [] else [(''partial'', JBool True)])\<rparr>]\<rparr>)"

definition translate_tool_invoke :: "translator \<Rightarrow> fact_envelope \<Rightarrow> translate_result" where
  "translate_tool_invoke t env =
     (case unmarshal d_tool_body (fe_payload env) \<lparr>tb_id = [], tb_tool = [], tb_args = None, tb_outcome = None\<rparr> of (p, fine) \<Rightarrow>
       if \<not> fine then no_result
       else if fe_status env = ''start'' then tool_started t p
       else if fe_status env \<noteq> ''end'' then no_result
       else (case tb_outcome p of None \<Rightarrow> no_result | Some oc \<Rightarrow> tool_ended t p oc))"

section \<open>The other frames\<close>

definition translate_error :: "json option \<Rightarrow> translate_result" where
  "translate_error raw = (let msg = trim_space (fst (unmarshal (d_struct [(''message'', d_string)]) raw [])) in
     \<lparr>rs_events = [plain_event ''error'' (if msg = [] then txt_unavailable else msg)], rs_delta = [], rs_error = True\<rparr>)"

record done_meta =
  dm_timings :: "(string \<times> json) list option"
  dm_cycle :: bool
  dm_exit :: string
  dm_usage :: "(string \<times> json) list option"

definition d_done_meta :: "done_meta decoder" where
  "d_done_meta = d_struct [(''timings'', at dm_timings dm_timings_update (d_map JNull d_any)),
     (''planning_cycle_complete'', at dm_cycle dm_cycle_update d_bool), (''early_exit'', at dm_exit dm_exit_update d_string),
     (''usage'', at dm_usage dm_usage_update (d_map JNull d_any))]"

definition map_value :: "(string \<times> json) list option \<Rightarrow> json" where
  "map_value m = (case m of None \<Rightarrow> JNull | Some l \<Rightarrow> JObj l)"

definition translate_done :: "json option \<Rightarrow> translate_result" where
  "translate_done raw =
     (let p = fst (unmarshal d_done_meta raw \<lparr>dm_timings = None, dm_cycle = False, dm_exit = [], dm_usage = None\<rparr>) in
      no_result\<lparr>rs_events := [(plain_event ''done'' [])\<lparr>pe_meta :=
        [(''timings'', map_value (dm_timings p)), (''planning_cycle_complete'', JBool (dm_cycle p)), (''early_exit'', JStr (dm_exit p))] @
        (case dm_usage p of Some (u # us) \<Rightarrow> [(''usage'', JObj (u # us))] | _ \<Rightarrow> [])\<rparr>]\<rparr>)"

definition translate_chunk :: "json option \<Rightarrow> translate_result" where
  "translate_chunk raw = (let delta = fst (unmarshal (d_struct [(''delta'', d_string)]) raw []) in
     if delta = [] then no_result
     else \<lparr>rs_events = [plain_event ''text_chunk'' delta], rs_delta = delta, rs_error = False\<rparr>)"

record analysis_body =
  ab_intent :: string
  ab_resolution :: string
  ab_disposition :: string
  ab_analysis :: string

definition d_analysis :: "analysis_body decoder" where
  "d_analysis = d_output (d_struct [(''intent'', at ab_intent ab_intent_update d_string),
     (''resolution'', at ab_resolution ab_resolution_update d_string), (''disposition'', at ab_disposition ab_disposition_update d_string),
     (''analysis'', at ab_analysis ab_analysis_update d_string)])"

definition translate_analysis :: "json option \<Rightarrow> translate_result" where
  "translate_analysis raw =
     (let p = fst (unmarshal d_analysis raw \<lparr>ab_intent = [], ab_resolution = [], ab_disposition = [], ab_analysis = []\<rparr>);
          hint = (if ab_intent p = [] then ab_analysis p else ab_intent p)
      in no_result\<lparr>rs_events := [plain_event ''thinking'' (shorten_intent hint 48)]\<rparr>)"

definition phase_event :: "string \<Rightarrow> string \<Rightarrow> translate_result" where
  "phase_event skeleton content = no_result\<lparr>rs_events := [(plain_event ''phase'' content)\<lparr>pe_skeleton := skeleton\<rparr>]\<rparr>"

definition translate_stage :: "translator \<Rightarrow> fact_envelope \<Rightarrow> translate_result" where
  "translate_stage t env = (let phase = fe_phase env; ended = (fe_status env = ''end'') in
     if phase = ''analysis_pre'' \<or> phase = ''analyse'' then (if ended then translate_analysis (fe_payload env) else no_result)
     else if phase = ''retrieve'' then (if ended then phase_event ''retrieving'' txt_recalling else no_result)
     else if phase = ''plan'' \<or> phase = ''output'' then (if ended then phase_event ''planning'' txt_planning_text else no_result)
     else if phase = ''tool_invoke'' then translate_tool_invoke t env
     else no_result)"

definition translate :: "translator \<Rightarrow> fact_envelope \<Rightarrow> translate_result" where
  "translate t env =
     (if fe_kind env = ''control'' then
        (if fe_phase env = ''error'' then translate_error (fe_payload env)
         else if fe_phase env = ''done'' then translate_done (fe_payload env) else no_result)
      else if fe_kind env = ''chunk'' then
        (if fe_phase env \<noteq> ''llm_output'' \<or> fe_status env \<noteq> ''delta'' then no_result else translate_chunk (fe_payload env))
      else if fe_kind env = ''stage'' then translate_stage t env
      else no_result)"

section \<open>A line of the stream\<close>

datatype sse_line = Presented presentation_event | Passed json

record legacy_event =
  le_type :: string
  le_content :: string

definition d_legacy :: "legacy_event decoder" where
  "d_legacy = d_struct [(''type'', at le_type le_type_update d_string), (''content'', at le_content le_content_update d_string)]"

text \<open>The lines, the answer's growth, whether the stream failed, and whether a fact frame has been seen.\<close>

type_synonym line_result = "sse_line list \<times> string \<times> bool \<times> bool"

definition process_fact :: "translator option \<Rightarrow> json \<Rightarrow> bool \<Rightarrow> line_result" where
  "process_fact tr j saw = (case parse_fact_envelope (Some j) of
       None \<Rightarrow> ([], [], False, saw)
     | Some env \<Rightarrow> (case tr of
         None \<Rightarrow> ([Passed j], [], False, saw)
       | Some t \<Rightarrow> (let r = translate t env in (map Presented (rs_events r), rs_delta r, rs_error r, True))))"

definition process_legacy :: "json \<Rightarrow> bool \<Rightarrow> line_result" where
  "process_legacy j saw = (case d_legacy j \<lparr>le_type = [], le_content = []\<rparr> of (leg, fine) \<Rightarrow>
     ([Passed j], if fine \<and> le_type leg = ''token'' then le_content leg else [], fine \<and> le_type leg = ''error'', saw))"

definition process_agent_data_payload :: "translator option \<Rightarrow> json option \<Rightarrow> bool \<Rightarrow> line_result" where
  "process_agent_data_payload tr payload saw = (case payload of
       None \<Rightarrow> ([Presented (plain_event ''error'' txt_parse_failed)], [], True, saw)
     | Some j \<Rightarrow>
        if \<not> is_object j then ([Presented (plain_event ''error'' txt_parse_failed)], [], True, saw)
        else if is_fact_frame j then process_fact tr j saw
        else if saw \<and> is_legacy_mirror j then ([], [], False, saw)
        else process_legacy j saw)"

end
