(* ===== verification/AgentChat.thy ===== *)
theory AgentChat
  imports Translator PointsService ZSet
begin

text \<open>
  The assistant's conversations: the Redis store src/database/agent_chat_redis.go (sessions, their messages
  and the current one), the run of one turn src/handler/agent_chat_run.go and the handlers
  src/handler/agent_handler.go. A pipeline is its commands in turn, so that a lost connection leaves a prefix of
  them; keys do not expire by themselves.
\<close>

section \<open>State\<close>

record chat_message =
  cm_role :: string
  cm_content :: string

text \<open>The times are whole seconds, printed as RFC 3339; \<open>None\<close> is the empty text.\<close>

record session_meta =
  sm_id :: string
  sm_title :: string
  sm_created :: "int option"
  sm_updated :: "int option"

record chat_st = points_st +
  chat_on :: bool
  chat_lists :: "u64 \<times> string \<Rightarrow> json list"
  chat_metas :: "u64 \<times> string \<Rightarrow> session_meta option"
  chat_index :: "u64 \<Rightarrow> zmember list"
  chat_current :: "u64 \<Rightarrow> string option"
  legacy_list :: "u64 \<Rightarrow> json list"
  legacy_state :: "u64 \<Rightarrow> string option"
  chat_ids :: "nat \<Rightarrow> string"
  chat_seq :: nat
  agent_url :: bool
  agent_busy :: nat
  agent_slots :: nat
  agent_cleared :: "(u64 \<times> string) list"

definition session_default_title :: string where
  "session_default_title = utf8 [230, 150, 176, 229, 175, 185, 232, 175, 157]"

section \<open>Messages\<close>

definition encode_message :: "chat_message \<Rightarrow> json" where
  "encode_message m = JObj [(''role'', JStr (cm_role m)), (''content'', JStr (cm_content m))]"

definition d_message :: "chat_message decoder" where
  "d_message = d_struct [(''role'', at cm_role cm_role_update d_string), (''content'', at cm_content cm_content_update d_string)]"

definition decode_message :: "json \<Rightarrow> chat_message option" where
  "decode_message j = (case d_message j \<lparr>cm_role = [], cm_content = []\<rparr> of (m, fine) \<Rightarrow> if fine then Some m else None)"

definition truncate_title :: "string \<Rightarrow> nat \<Rightarrow> string" where
  "truncate_title s n = (let s = trim_space s; rs = runes s in
     if s = [] then session_default_title
     else if length rs \<le> n then concat (map rune_text rs)
     else concat (map rune_text (take n rs)) @ txt_ellipsis)"

primrec first_user_snippet :: "json list \<Rightarrow> string" where
  "first_user_snippet [] = session_default_title"
| "first_user_snippet (j # js) = (case decode_message j of
       None \<Rightarrow> first_user_snippet js
     | Some m \<Rightarrow> if cm_role m = ''user'' \<and> trim_space (cm_content m) \<noteq> [] then truncate_title (cm_content m) 28
         else first_user_snippet js)"

section \<open>Redis commands\<close>

definition last_n :: "nat \<Rightarrow> 'a list \<Rightarrow> 'a list" where
  "last_n n l = drop (length l - n) l"

definition set_list :: "u64 \<times> string \<Rightarrow> (json list \<Rightarrow> json list) \<Rightarrow> ('r chat_st_scheme, unit) op" where
  "set_list k f = io (modify (\<lambda>s. s\<lparr>chat_lists := (chat_lists s)(k := f (chat_lists s k))\<rparr>))"

definition set_meta :: "u64 \<times> string \<Rightarrow> session_meta option \<Rightarrow> ('r chat_st_scheme, unit) op" where
  "set_meta k m = io (modify (\<lambda>s. s\<lparr>chat_metas := (chat_metas s)(k := m)\<rparr>))"

definition set_index :: "u64 \<Rightarrow> (zmember list \<Rightarrow> zmember list) \<Rightarrow> ('r chat_st_scheme, unit) op" where
  "set_index u f = io (modify (\<lambda>s. s\<lparr>chat_index := (chat_index s)(u := f (chat_index s u))\<rparr>))"

definition set_current :: "u64 \<Rightarrow> string option \<Rightarrow> ('r chat_st_scheme, unit) op" where
  "set_current u sid = io (modify (\<lambda>s. s\<lparr>chat_current := (chat_current s)(u := sid)\<rparr>))"

definition drop_legacy :: "u64 \<Rightarrow> ('r chat_st_scheme, unit) op" where
  "drop_legacy u = bnd (io (modify (\<lambda>s. s\<lparr>legacy_list := (legacy_list s)(u := [])\<rparr>))) (\<lambda>_.
     io (modify (\<lambda>s. s\<lparr>legacy_state := (legacy_state s)(u := None)\<rparr>)))"

text \<open>\<open>EXPIRE\<close> and the like: a command that changes nothing in the model.\<close>

definition touch_key :: "('r chat_st_scheme, unit) op" where
  "touch_key = io (ret ())"

section \<open>The store\<close>

definition now_seconds :: "int \<Rightarrow> int" where
  "now_seconds now = now div 1000000000"

definition get_session_meta :: "u64 \<Rightarrow> string \<Rightarrow> ('r chat_st_scheme, session_meta) op" where
  "get_session_meta u sid = io (\<lambda>s. case chat_metas s (u, sid) of None \<Rightarrow> (Inl RecordNotFound, s) | Some m \<Rightarrow> (Inr m, s))"

definition migrate_body :: "u64 \<Rightarrow> ('r chat_st_scheme, unit) op" where
  "migrate_body u =
     bnd (io (gets (\<lambda>s. legacy_list s u))) (\<lambda>items.
     bnd (gets clock_now) (\<lambda>now.
     bnd (for_each items (\<lambda>it. set_list (u, ''legacy'') (\<lambda>l. l @ [it]))) (\<lambda>_.
     bnd touch_key (\<lambda>_.
     bnd (set_meta (u, ''legacy'') (Some \<lparr>sm_id = ''legacy'', sm_title = first_user_snippet items,
        sm_created = Some (now_seconds now), sm_updated = Some (now_seconds now)\<rparr>)) (\<lambda>_.
     bnd (set_index u (zadd ''legacy'' (unix_milli now))) (\<lambda>_.
     bnd (set_current u (Some ''legacy'')) (\<lambda>_. drop_legacy u)))))))"

definition migrate_legacy_if_needed :: "u64 \<Rightarrow> ('r chat_st_scheme, unit) op" where
  "migrate_legacy_if_needed u = (if u = 0 then ret () else
     bnd (io (gets (\<lambda>s. legacy_list s u \<noteq> []))) (\<lambda>exists. if \<not> exists then ret () else
     bnd (io (gets (\<lambda>s. chat_index s u \<noteq> []))) (\<lambda>indexed. if indexed then ret () else migrate_body u)))"

text \<open>The guard that every operation starts with: a nil store or no user (or session) gives the default.\<close>

definition with_store :: "bool \<Rightarrow> 'a \<Rightarrow> ('r chat_st_scheme, 'a) op \<Rightarrow> ('r chat_st_scheme, 'a) op" where
  "with_store valid d m = bnd (gets chat_on) (\<lambda>on. if \<not> on \<or> \<not> valid then ret d else m)"

definition list_sessions :: "u64 \<Rightarrow> int \<Rightarrow> ('r chat_st_scheme, session_meta list) op" where
  "list_sessions u limit = with_store (u \<noteq> 0) []
     (let limit = (if limit < 1 then 50 else limit); limit = (if limit > 100 then 100 else limit) in
      bnd (ignore (migrate_legacy_if_needed u)) (\<lambda>_.
      bnd (io (gets (\<lambda>s. zrevrange (nat limit) (chat_index s u)))) (\<lambda>sids.
      map_each sids (\<lambda>sid. bnd (attempt (get_session_meta u sid)) (\<lambda>r.
        ret (case r of
            Inr m \<Rightarrow> if sm_id m = [] then \<lparr>sm_id = sid, sm_title = session_default_title, sm_created = None, sm_updated = None\<rparr> else m
          | Inl _ \<Rightarrow> \<lparr>sm_id = sid, sm_title = session_default_title, sm_created = None, sm_updated = None\<rparr>))))))"

definition in_index :: "u64 \<Rightarrow> string \<Rightarrow> ('r chat_st_scheme, bool) op" where
  "in_index u sid = io (gets (\<lambda>s. \<exists>z \<in> set (chat_index s u). zname z = sid))"

definition session_exists :: "u64 \<Rightarrow> string \<Rightarrow> ('r chat_st_scheme, bool) op" where
  "session_exists u sid = with_store (u \<noteq> 0 \<and> sid \<noteq> []) False
     (bnd (ignore (migrate_legacy_if_needed u)) (\<lambda>_.
      bnd (attempt (in_index u sid)) (\<lambda>r. ret (case r of Inr b \<Rightarrow> b | Inl _ \<Rightarrow> False))))"

definition get_current_session_id :: "u64 \<Rightarrow> ('r chat_st_scheme, string) op" where
  "get_current_session_id u = with_store (u \<noteq> 0) []
     (bnd (ignore (migrate_legacy_if_needed u)) (\<lambda>_.
      io (gets (\<lambda>s. case chat_current s u of None \<Rightarrow> [] | Some sid \<Rightarrow> sid))))"

definition set_current_session :: "u64 \<Rightarrow> string \<Rightarrow> ('r chat_st_scheme, unit) op" where
  "set_current_session u sid = with_store (u \<noteq> 0 \<and> sid \<noteq> []) ()
     (bnd (ignore (migrate_legacy_if_needed u)) (\<lambda>_.
      bnd (attempt (in_index u sid)) (\<lambda>r. case r of
        Inr True \<Rightarrow> set_current u (Some sid)
      | _ \<Rightarrow> throw (PlainError ''session not found''))))"

definition new_session_id :: "('r chat_st_scheme, string) op" where
  "new_session_id = (\<lambda>s. (Inr (chat_ids s (chat_seq s)), s\<lparr>chat_seq := Suc (chat_seq s)\<rparr>))"

definition create_session :: "u64 \<Rightarrow> ('r chat_st_scheme, string) op" where
  "create_session u = bnd (gets chat_on) (\<lambda>on. if \<not> on \<or> u = 0 then throw (PlainError ''invalid store'') else
     bnd (ignore (migrate_legacy_if_needed u)) (\<lambda>_.
     bnd new_session_id (\<lambda>sid.
     bnd (gets clock_now) (\<lambda>now.
     bnd (set_meta (u, sid) (Some \<lparr>sm_id = sid, sm_title = session_default_title,
        sm_created = Some (now_seconds now), sm_updated = Some (now_seconds now)\<rparr>)) (\<lambda>_.
     bnd (set_index u (zadd sid (unix_milli now))) (\<lambda>_.
     bnd touch_key (\<lambda>_.
     bnd (set_current u (Some sid)) (\<lambda>_. ret sid))))))))"

definition kept_messages :: "json list \<Rightarrow> chat_message list" where
  "kept_messages items = filter (\<lambda>m. cm_role m \<noteq> []) (List.map_filter decode_message items)"

definition list_messages :: "u64 \<Rightarrow> string \<Rightarrow> int \<Rightarrow> ('r chat_st_scheme, chat_message list) op" where
  "list_messages u sid limit = with_store (u \<noteq> 0 \<and> sid \<noteq> [] \<and> limit > 0) []
     (bnd (ignore (migrate_legacy_if_needed u)) (\<lambda>_.
      bnd (io (gets (\<lambda>s. last_n (nat limit) (chat_lists s (u, sid))))) (\<lambda>items. ret (kept_messages items))))"

text \<open>The title is taken from the first user message, as long as it is the default.\<close>

definition touched_meta :: "string \<Rightarrow> int \<Rightarrow> chat_message list \<Rightarrow> session_meta option \<Rightarrow> session_meta" where
  "touched_meta sid now msgs old =
     (let m = (case old of Some m \<Rightarrow> m | None \<Rightarrow> \<lparr>sm_id = [], sm_title = [], sm_created = None, sm_updated = None\<rparr>);
          m = (if sm_id m = [] then m\<lparr>sm_id := sid, sm_title := session_default_title, sm_created := Some (now_seconds now)\<rparr> else m);
          m = m\<lparr>sm_updated := Some (now_seconds now)\<rparr>
      in if sm_title m = session_default_title \<or> sm_title m = [] then
           (case find (\<lambda>x. cm_role x = ''user'') msgs of None \<Rightarrow> m | Some x \<Rightarrow> m\<lparr>sm_title := truncate_title (cm_content x) 28\<rparr>)
         else m)"

definition append_messages :: "u64 \<Rightarrow> string \<Rightarrow> chat_message list \<Rightarrow> int \<Rightarrow> int \<Rightarrow> ('r chat_st_scheme, unit) op" where
  "append_messages u sid msgs ttl max_keep = with_store (u \<noteq> 0 \<and> sid \<noteq> [] \<and> msgs \<noteq> []) ()
     (let max_keep = (if max_keep < 4 then 12 else max_keep) in
      bnd (ignore (migrate_legacy_if_needed u)) (\<lambda>_.
      bnd (gets clock_now) (\<lambda>now.
      bnd (attempt (get_session_meta u sid)) (\<lambda>old.
      let m = touched_meta sid now msgs (case old of Inr m \<Rightarrow> Some m | Inl _ \<Rightarrow> None) in
      bnd (for_each msgs (\<lambda>x. set_list (u, sid) (\<lambda>l. l @ [encode_message x]))) (\<lambda>_.
      bnd (set_list (u, sid) (last_n (nat max_keep))) (\<lambda>_.
      bnd (guarded (ttl > 0) touch_key) (\<lambda>_.
      bnd (set_meta (u, sid) (Some m)) (\<lambda>_.
      bnd (set_index u (zadd sid (unix_milli now))) (\<lambda>_.
      bnd (guarded (ttl > 0) touch_key) (\<lambda>_.
      set_current u (Some sid)))))))))))"

definition delete_session :: "u64 \<Rightarrow> string \<Rightarrow> ('r chat_st_scheme, string) op" where
  "delete_session u sid = with_store (u \<noteq> 0 \<and> sid \<noteq> []) []
     (bnd (ignore (migrate_legacy_if_needed u)) (\<lambda>_.
      bnd (attempt (io (gets (\<lambda>s. case chat_current s u of None \<Rightarrow> [] | Some c \<Rightarrow> c)))) (\<lambda>r.
      let cur = (case r of Inr c \<Rightarrow> c | Inl _ \<Rightarrow> []) in
      bnd (set_list (u, sid) (\<lambda>_. [])) (\<lambda>_.
      bnd (set_meta (u, sid) None) (\<lambda>_.
      bnd (set_index u (filter (\<lambda>z. zname z \<noteq> sid))) (\<lambda>_.
      if cur \<noteq> sid then ret cur else
      bnd (attempt (io (gets (\<lambda>s. zrevrange 1 (chat_index s u))))) (\<lambda>top. case top of
        Inr (n # _) \<Rightarrow> bnd (ignore (set_current u (Some n))) (\<lambda>_. ret n)
      | _ \<Rightarrow> bnd (ignore (set_current u None)) (\<lambda>_. ret []))))))))"

text \<open>Without a current session: the newest one of the index, or a new one.\<close>

definition newest_or_new :: "u64 \<Rightarrow> ('r chat_st_scheme, string) op" where
  "newest_or_new u =
     bnd (io (gets (\<lambda>s. length (chat_index s u)))) (\<lambda>n. if n = 0 then create_session u else
     bnd (attempt (io (gets (\<lambda>s. zrevrange 1 (chat_index s u))))) (\<lambda>top. case top of
       Inr (sid # _) \<Rightarrow> bnd (ignore (set_current u (Some sid))) (\<lambda>_. ret sid)
     | _ \<Rightarrow> create_session u))"

definition ensure_current_or_create :: "u64 \<Rightarrow> ('r chat_st_scheme, string) op" where
  "ensure_current_or_create u = bnd (gets chat_on) (\<lambda>on. if \<not> on \<or> u = 0 then throw (PlainError ''invalid store'') else
     bnd (ignore (migrate_legacy_if_needed u)) (\<lambda>_.
     bnd (get_current_session_id u) (\<lambda>cur.
     bnd (if cur \<noteq> [] then session_exists u cur else ret False) (\<lambda>there. if there then ret cur else newest_or_new u))))"

definition clear_all_sessions :: "u64 \<Rightarrow> ('r chat_st_scheme, unit) op" where
  "clear_all_sessions u = with_store (u \<noteq> 0) ()
     (bnd (ignore (migrate_legacy_if_needed u)) (\<lambda>_.
      bnd (io (gets (\<lambda>s. map zname (sort (chat_index s u))))) (\<lambda>sids.
      bnd (for_each sids (\<lambda>sid. bnd (set_list (u, sid) (\<lambda>_. [])) (\<lambda>_. set_meta (u, sid) None))) (\<lambda>_.
      bnd (set_index u (\<lambda>_. [])) (\<lambda>_.
      bnd (set_current u None) (\<lambda>_. drop_legacy u))))))"

definition parse_session_id_query :: "string \<Rightarrow> string" where
  "parse_session_id_query v = (let v = trim_space v in
     if length v < 4 \<or> length v > 128 then []
     else if list_all (\<lambda>c. let n = of_char c :: nat in 97 \<le> n \<and> n \<le> 122 \<or> 48 \<le> n \<and> n \<le> 57) v then v else [])"

section \<open>One turn\<close>

record agent_request =
  ar_message :: string
  ar_user :: u64
  ar_token :: string
  ar_session :: string
  ar_request :: string
  ar_history :: "chat_message list"
  ar_gateway_history :: bool

text \<open>
  What the assistant answers: no connection, a status other than 200, or a stream: its lines, each with
  whether the request was cancelled when it was read, whether the scanner failed in the end, and whether the
  request was cancelled at the three checks after the loop.
\<close>

datatype agent_reply = NoConnection | BadStatus | Stream "(string \<times> bool) list" bool "bool \<times> bool \<times> bool"

text \<open>What a turn depends on: the assistant, the JSON parser, the translator, and for finalising (TurnRecord.thy).\<close>

record agent_env =
  en_agent :: "agent_request \<Rightarrow> agent_reply"
  en_parse :: "string \<Rightarrow> json option"
  en_translator :: "translator option"
  en_cap :: "nat \<Rightarrow> nat"
  en_walk :: "(string \<times> tool_call) list \<Rightarrow> (string \<times> tool_call) list"

datatype out_line = Translated sse_line | Copied string

text \<open>The loop's variables; \<open>rn_out\<close> is what the sink accepted, \<open>rn_open\<close> is False after a break.\<close>

record run_vars =
  rn_answer :: string
  rn_error :: bool
  rn_saw_fact :: bool
  rn_turn :: turn_aggregator
  rn_out :: "out_line list"
  rn_open :: bool

text \<open>The sink: none, or whether the \<open>n\<close>-th write is accepted; a refused write ends the loop.\<close>

type_synonym sink = "(nat \<Rightarrow> bool) option"

fun send :: "sink \<Rightarrow> out_line list \<Rightarrow> run_vars \<Rightarrow> run_vars" where
  "send None ls v = v"
| "send (Some acc) [] v = v"
| "send (Some acc) (l # ls) v = (if acc (length (rn_out v)) then send (Some acc) ls (v\<lparr>rn_out := rn_out v @ [l]\<rparr>)
     else v\<lparr>rn_open := False\<rparr>)"

definition run_data :: "agent_env \<Rightarrow> sink \<Rightarrow> json option \<Rightarrow> run_vars \<Rightarrow> run_vars" where
  "run_data en sink payload v =
     (let turn = (case parse_fact_envelope payload of Some f \<Rightarrow> observe f (rn_turn v) | None \<Rightarrow> rn_turn v) in
      case process_agent_data_payload (en_translator en) payload (rn_saw_fact v) of (ls, delta, failed, saw) \<Rightarrow>
        send sink (map Translated ls) (v\<lparr>rn_turn := turn, rn_answer := rn_answer v @ delta,
          rn_error := (failed \<or> rn_error v), rn_saw_fact := saw\<rparr>))"

definition run_line :: "agent_env \<Rightarrow> sink \<Rightarrow> string \<Rightarrow> run_vars \<Rightarrow> run_vars" where
  "run_line en sink line v =
     (if line = [] then send sink [Copied [CHR 10]] v else
      let trim = trim_space line in
      if take 6 trim = ''data: '' then run_data en sink (en_parse en (drop 6 trim)) v
      else send sink [Copied (line @ [CHR 10])] v)"

fun run_lines :: "agent_env \<Rightarrow> sink \<Rightarrow> (string \<times> bool) list \<Rightarrow> run_vars \<Rightarrow> run_vars" where
  "run_lines en sink [] v = v"
| "run_lines en sink ((line, cancelled) # ls) v =
     (if cancelled \<or> \<not> rn_open v then v else run_lines en sink ls (run_line en sink line v))"

record run_result =
  rr_assistant :: string
  rr_error :: bool
  rr_aborted :: bool
  rr_record :: turn_record
  rr_sent :: "out_line list"

definition agent_chat_max_short_messages :: int where
  "agent_chat_max_short_messages = 12"

definition run_history :: "u64 \<Rightarrow> string \<Rightarrow> ('r chat_st_scheme, chat_message list) op" where
  "run_history u sid = bnd (gets chat_on) (\<lambda>on. if \<not> on \<or> u = 0 \<or> sid = [] then ret [] else
     bnd (attempt (list_messages u sid agent_chat_max_short_messages)) (\<lambda>r. ret (case r of Inr l \<Rightarrow> l | Inl _ \<Rightarrow> [])))"

definition exchange :: "string \<Rightarrow> string \<Rightarrow> chat_message list" where
  "exchange msg answer = [\<lparr>cm_role = ''user'', cm_content = msg\<rparr>, \<lparr>cm_role = ''assistant'', cm_content = answer\<rparr>]"

definition ttl_60_minutes :: int where "ttl_60_minutes = 3600000000000"

definition turn_start :: "u64 \<Rightarrow> string \<Rightarrow> string \<Rightarrow> string \<Rightarrow> int \<Rightarrow> run_vars" where
  "turn_start u msg sid request now = \<lparr>rn_answer = [], rn_error = False, rn_saw_fact = False,
     rn_turn = new_turn_aggregator \<lparr>tm_request = request, tm_user = u, tm_session = sid, tm_message = msg, tm_started = now\<rparr>,
     rn_out = [], rn_open = True\<rparr>"

definition finish_turn ::
  "agent_env \<Rightarrow> u64 \<Rightarrow> string \<Rightarrow> string \<Rightarrow> run_vars \<Rightarrow> bool \<Rightarrow> bool \<times> bool \<times> bool \<Rightarrow> ('r chat_st_scheme, run_result) op" where
  "finish_turn en u sid msg v scan_failed cancelled = (case cancelled of (c1, c2, c3) \<Rightarrow>
     let failed = (rn_error v \<or> scan_failed); answer = trim_space (rn_answer v) in
     bnd (gets clock_now) (\<lambda>now.
     case finalize (en_cap en) (en_walk en) now answer failed c1 (rn_turn v) of
       None \<Rightarrow> throw GoPanic
     | Some turn \<Rightarrow>
     bnd (gets chat_on) (\<lambda>on.
     bnd (guarded (\<not> failed \<and> \<not> c2 \<and> on \<and> u > 0 \<and> sid \<noteq> [] \<and> answer \<noteq> [])
        (ignore (append_messages u sid (exchange msg answer) ttl_60_minutes agent_chat_max_short_messages))) (\<lambda>_.
     ret \<lparr>rr_assistant = answer, rr_error = failed, rr_aborted = c3, rr_record = turn, rr_sent = rn_out v\<rparr>))))"

definition run_agent_chat ::
  "agent_env \<Rightarrow> u64 \<Rightarrow> string \<Rightarrow> string \<Rightarrow> string \<Rightarrow> string \<Rightarrow> sink \<Rightarrow> ('r chat_st_scheme, run_result) op" where
  "run_agent_chat en u message token session request sink =
     bnd (gets agent_url) (\<lambda>url. if \<not> url then throw (PlainError ''agent not configured'') else
     let msg = trim_space message in
     if msg = [] then throw (PlainError ''empty message'') else
     bnd (gets clock_now) (\<lambda>start.
     let sid = trim_space session in
     bnd (gets chat_on) (\<lambda>on.
     bnd (run_history u sid) (\<lambda>history.
     case en_agent en \<lparr>ar_message = msg, ar_user = u, ar_token = token, ar_session = sid, ar_request = request,
        ar_history = history, ar_gateway_history = on\<rparr> of
       NoConnection \<Rightarrow> throw IOError
     | BadStatus \<Rightarrow> throw (PlainError ''agent http'')
     | Stream ls scan_failed cancelled \<Rightarrow>
         finish_turn en u sid msg (run_lines en sink ls (turn_start u msg sid request start)) scan_failed cancelled))))"

definition try_acquire_agent_slot :: "('r chat_st_scheme, bool) op" where
  "try_acquire_agent_slot = (\<lambda>s. if agent_busy s < agent_slots s then (Inr True, s\<lparr>agent_busy := Suc (agent_busy s)\<rparr>) else (Inr False, s))"

definition release_agent_slot :: "('r chat_st_scheme, unit) op" where
  "release_agent_slot = modify (\<lambda>s. s\<lparr>agent_busy := agent_busy s - 1\<rparr>)"

section \<open>Handlers\<close>

text \<open>The session of a turn: the one that is named, if it exists, or the current one, or a new one.\<close>

definition turn_session :: "u64 \<Rightarrow> string \<Rightarrow> ('r chat_st_scheme, string) op" where
  "turn_session u raw = bnd (gets chat_on) (\<lambda>on. if \<not> on then ret [] else
     let sid = trim_space raw in
     if sid = [] then
       bnd (attempt (ensure_current_or_create u)) (\<lambda>r. case r of
         Inr (c # cs) \<Rightarrow> ret (c # cs) | _ \<Rightarrow> throw MsgError)
     else bnd (session_exists u sid) (\<lambda>there. if \<not> there then throw MsgError else
       bnd (ignore (set_current_session u sid)) (\<lambda>_. ret sid)))"

definition chat_proxy ::
  "agent_env \<Rightarrow> u64 \<Rightarrow> string \<Rightarrow> (string \<times> string \<times> string) option \<Rightarrow> (nat \<Rightarrow> bool) \<Rightarrow> ('r chat_st_scheme, run_result) op" where
  "chat_proxy en u request body sink =
     bnd (gets agent_url) (\<lambda>url. if \<not> url then throw MsgError else
     if u = 0 then throw ErrInvalidToken else
     case body of None \<Rightarrow> throw MsgError | Some (message, token, session) \<Rightarrow>
     if trim_space message = [] then throw MsgError else
     bnd try_acquire_agent_slot (\<lambda>free. if \<not> free then throw MsgError else
     deferred (bnd (turn_session u session) (\<lambda>sid. run_agent_chat en u message token sid request (Some sink))) release_agent_slot))"

text \<open>A failed or missing notification of the assistant is not an error.\<close>

definition notify_clear_short :: "u64 \<Rightarrow> string \<Rightarrow> ('r chat_st_scheme, unit) op" where
  "notify_clear_short u sid = bnd (gets agent_url) (\<lambda>url. guarded url
     (ignore (io (modify (\<lambda>s. s\<lparr>agent_cleared := agent_cleared s @ [(u, trim_space sid)]\<rparr>)))))"

definition history_proxy :: "u64 \<Rightarrow> int \<Rightarrow> string \<Rightarrow> ('r chat_st_scheme, chat_message list \<times> string) op" where
  "history_proxy u limit session = (if u = 0 then throw ErrInvalidToken else
     let limit = (if limit < 1 then 48 else limit); limit = (if limit > 100 then 100 else limit) in
     bnd (gets chat_on) (\<lambda>on. if \<not> on then ret ([], []) else
     let sid = parse_session_id_query session in
     bnd (if sid = [] then
         bnd (attempt (ensure_current_or_create u)) (\<lambda>r. case r of
           Inr (c # cs) \<Rightarrow> ret (c # cs) | _ \<Rightarrow> throw CodeServerBusy)
       else bnd (session_exists u sid) (\<lambda>there. if \<not> there then throw ErrCodeInvalidParam else
         bnd (ignore (set_current_session u sid)) (\<lambda>_. ret sid))) (\<lambda>sid.
     bnd (attempt (list_messages u sid limit)) (\<lambda>r. case r of
       Inl _ \<Rightarrow> throw CodeServerBusy | Inr ms \<Rightarrow> ret (ms, sid)))))"

definition clear_chat_history :: "u64 \<Rightarrow> string \<Rightarrow> ('r chat_st_scheme, string) op" where
  "clear_chat_history u session = (if u = 0 then throw ErrInvalidToken else
     bnd (gets chat_on) (\<lambda>on.
     let sid = parse_session_id_query session in
     bnd (if sid = [] \<and> on then or_busy (get_current_session_id u) else ret sid) (\<lambda>sid.
     if sid = [] then ret [] else
     bnd (if on then or_busy (delete_session u sid) else ret []) (\<lambda>current.
     bnd (notify_clear_short u sid) (\<lambda>_. ret current)))))"

definition sessions_list :: "u64 \<Rightarrow> ('r chat_st_scheme, session_meta list \<times> string) op" where
  "sessions_list u = (if u = 0 then throw ErrInvalidToken else
     bnd (gets chat_on) (\<lambda>on. if \<not> on then ret ([], []) else
     bnd (or_busy (list_sessions u 50)) (\<lambda>l.
     bnd (if l = [] then bnd (or_busy (create_session u)) (\<lambda>_. or_busy (list_sessions u 50)) else ret l) (\<lambda>l.
     bnd (or_busy (get_current_session_id u)) (\<lambda>current. ret (l, current))))))"

definition create_agent_session :: "u64 \<Rightarrow> ('r chat_st_scheme, string) op" where
  "create_agent_session u = (if u = 0 then throw ErrInvalidToken else
     bnd (gets chat_on) (\<lambda>on. if \<not> on then ret [] else or_busy (create_session u)))"

definition delete_agent_session :: "u64 \<Rightarrow> string \<Rightarrow> ('r chat_st_scheme, string) op" where
  "delete_agent_session u session = (if u = 0 then throw ErrInvalidToken else
     let sid = parse_session_id_query session in
     if sid = [] then throw ErrCodeInvalidParam else
     bnd (gets chat_on) (\<lambda>on.
     if on then
       bnd (session_exists u sid) (\<lambda>there. if \<not> there then throw ErrCodeInvalidParam else
       bnd (or_busy (delete_session u sid)) (\<lambda>current.
       bnd (notify_clear_short u sid) (\<lambda>_. ret current)))
     else bnd (notify_clear_short u sid) (\<lambda>_. ret [])))"

end
