(* ===== verification/ChatProps.thy ===== *)
theory ChatProps
  imports AgentChat
begin

text \<open>
  What a turn of the assistant promises: the answer that is returned and stored is the text that the browser was
  shown, mirrors of frames are invisible, a stored exchange is found again, and a turn runs in a session of its user.
\<close>

section \<open>The answer\<close>

text \<open>What a line adds to the text on the screen: the content of a text chunk, or of a token that is passed through.\<close>

definition legacy_token :: "json \<Rightarrow> string" where
  "legacy_token j = (case d_legacy j \<lparr>le_type = [], le_content = []\<rparr> of (leg, fine) \<Rightarrow>
     if fine \<and> le_type leg = ''token'' then le_content leg else [])"

fun shown_text :: "out_line \<Rightarrow> string" where
  "shown_text (Translated (Presented ev)) = (if pe_type ev = ''text_chunk'' then pe_content ev else [])"
| "shown_text (Translated (Passed j)) = (if is_fact_frame j then [] else legacy_token j)"
| "shown_text (Copied _) = []"

abbreviation shown :: "out_line list \<Rightarrow> string" where
  "shown ls \<equiv> concat (map shown_text ls)"

lemmas translate_defs = translate_def translate_error_def translate_done_def translate_chunk_def translate_stage_def
  translate_analysis_def translate_tool_invoke_def tool_started_def tool_ended_def phase_event_def no_result_def plain_event_def

lemma translated_shown: "concat (map (\<lambda>ev. if pe_type ev = ''text_chunk'' then pe_content ev else []) (rs_events (translate t env))) = rs_delta (translate t env)"
  by (simp add: translate_defs Let_def split: prod.split option.split)

lemma processed_shown:
  "process_agent_data_payload tr payload saw = (ls, delta, failed, saw') \<Longrightarrow> shown (map Translated ls) = delta"
  by (auto simp: process_agent_data_payload_def process_fact_def process_legacy_def legacy_token_def plain_event_def Let_def
      translated_shown comp_def split: option.splits if_splits prod.splits)

lemma sent_shown:
  assumes "rn_answer v = shown (rn_out v) @ shown ls"
  shows "\<exists>rest. rn_answer (send (Some acc) ls v) = shown (rn_out (send (Some acc) ls v)) @ rest \<and>
    (rn_open (send (Some acc) ls v) \<longrightarrow> rest = [])"
  using assms by (induction "Some acc" ls v rule: send.induct) auto

definition answer_shown :: "run_vars \<Rightarrow> bool" where
  "answer_shown v \<longleftrightarrow> (\<exists>rest. rn_answer v = shown (rn_out v) @ rest \<and> (rn_open v \<longrightarrow> rest = []))"

lemma run_line_shown:
  assumes "answer_shown v" and "rn_open v"
  shows "answer_shown (run_line en (Some acc) line v)"
proof -
  from assms have v: "rn_answer v = shown (rn_out v)" by (auto simp: answer_shown_def)
  have "answer_shown (run_data en (Some acc) payload v)" for payload
  proof -
    obtain ls delta failed saw where p: "process_agent_data_payload (en_translator en) payload (rn_saw_fact v) = (ls, delta, failed, saw)"
      by (metis prod.collapse)
    from processed_shown [OF p] show ?thesis
      unfolding answer_shown_def run_data_def by (simp add: p v Let_def) (rule sent_shown; simp add: v)
  qed
  moreover have "answer_shown (send (Some acc) [Copied l] v)" for l
    unfolding answer_shown_def by (rule sent_shown) (simp add: v)
  ultimately show ?thesis by (simp add: run_line_def Let_def)
qed

lemma run_lines_shown: "answer_shown v \<Longrightarrow> answer_shown (run_lines en (Some acc) ls v)"
  by (induction en "Some acc" ls v rule: run_lines.induct) (auto intro: run_line_shown)

lemma send_open: "\<forall>n. acc n \<Longrightarrow> rn_open (send (Some acc) ls v) = rn_open v"
  by (induction "Some acc" ls v rule: send.induct) auto

lemma run_lines_open: "\<forall>n. acc n \<Longrightarrow> rn_open v \<Longrightarrow> rn_open (run_lines en (Some acc) ls v)"
  by (induction en "Some acc" ls v rule: run_lines.induct)
    (auto simp: run_line_def run_data_def send_open Let_def split: prod.split)

lemma finish_turn_result:
  assumes "finish_turn en u sid msg v scan_failed c s = (Inr r, t)"
  shows "rr_assistant r = trim_space (rn_answer v) \<and> rr_sent r = rn_out v \<and> rr_error r = (rn_error v \<or> scan_failed) \<and> rr_aborted r = snd (snd c)"
  using assms
  by (auto simp: finish_turn_def Let_def gets_run bnd_eq_Inr op_eqs split: prod.splits option.splits elim!: op_elims)

text \<open>A turn that returns: the request was answered by a stream, which was read to its end and settled.\<close>

lemma run_agent_chatE:
  assumes "run_agent_chat en u message token session request sink s = (Inr r, t)"
  obtains h s' ls f c where "run_history u (trim_space session) s = (Inr h, s')"
    and "en_agent en \<lparr>ar_message = trim_space message, ar_user = u, ar_token = token, ar_session = trim_space session,
      ar_request = request, ar_history = h, ar_gateway_history = chat_on s\<rparr> = Stream ls f c"
    and "finish_turn en u (trim_space session) (trim_space message)
      (run_lines en sink ls (turn_start u (trim_space message) (trim_space session) request (clock_now s))) f c s' = (Inr r, t)"
proof -
  let ?q = "\<lambda>h. \<lparr>ar_message = trim_space message, ar_user = u, ar_token = token, ar_session = trim_space session,
      ar_request = request, ar_history = h, ar_gateway_history = chat_on s\<rparr>"
  from assms obtain h s' where h: "run_history u (trim_space session) s = (Inr h, s')"
    and rest: "(case en_agent en (?q h) of NoConnection \<Rightarrow> throw IOError | BadStatus \<Rightarrow> throw (PlainError ''agent http'')
      | Stream ls f c \<Rightarrow> finish_turn en u (trim_space session) (trim_space message)
          (run_lines en sink ls (turn_start u (trim_space message) (trim_space session) request (clock_now s))) f c) s' = (Inr r, t)"
    by (simp add: run_agent_chat_def Let_def bnd_eq_Inr gets_eq throw_eq split: if_split_asm) (elim exE conjE, assumption)
  then show thesis using that [OF h] by (cases "en_agent en (?q h)") (auto simp: throw_eq)
qed

text \<open>The answer of a turn, which is what is returned and stored, is the text that was written to the browser chunk by chunk, up
  to the spaces at its ends. When the browser goes away early, what it was shown is the beginning of the answer.\<close>

theorem answer_is_what_was_shown:
  assumes "run_agent_chat en u message token session request (Some acc) s = (Inr r, t)"
  shows "\<exists>rest. rr_assistant r = trim_space (shown (rr_sent r) @ rest) \<and> ((\<forall>n. acc n) \<longrightarrow> rest = [])"
proof -
  obtain h s' ls f c where run: "finish_turn en u (trim_space session) (trim_space message)
      (run_lines en (Some acc) ls (turn_start u (trim_space message) (trim_space session) request (clock_now s))) f c s' = (Inr r, t)"
    using assms by (rule run_agent_chatE)
  let ?v = "run_lines en (Some acc) ls (turn_start u (trim_space message) (trim_space session) request (clock_now s))"
  have "answer_shown ?v" by (rule run_lines_shown) (simp add: answer_shown_def turn_start_def)
  then obtain rest where "rn_answer ?v = shown (rn_out ?v) @ rest" and "rn_open ?v \<longrightarrow> rest = []"
    by (auto simp: answer_shown_def)
  moreover have "(\<forall>n. acc n) \<longrightarrow> rn_open ?v" by (auto intro: run_lines_open simp: turn_start_def)
  ultimately show ?thesis using finish_turn_result [OF run] by - (elim conjE, intro exI [of _ rest] conjI, simp, blast)
qed

section \<open>Mirrors\<close>

definition mirror_line :: "agent_env \<Rightarrow> string \<Rightarrow> bool" where
  "mirror_line en line \<longleftrightarrow> line \<noteq> [] \<and> take 6 (trim_space line) = ''data: '' \<and>
     (\<exists>j. en_parse en (drop 6 (trim_space line)) = Some j \<and> is_object j \<and> is_legacy_mirror j)"

lemma run_line_mirror:
  assumes "rn_saw_fact v" and "mirror_line en line"
  shows "run_line en sink line v = v"
proof -
  from assms(2) obtain j where j: "en_parse en (drop 6 (trim_space line)) = Some j" "is_object j" "is_legacy_mirror j"
    and line: "line \<noteq> []" "take 6 (trim_space line) = ''data: ''" by (auto simp: mirror_line_def)
  from j(3) have "\<not> is_fact_frame j" by (simp add: is_legacy_mirror_def)
  with j line assms(1) show ?thesis
    by (cases sink) (simp_all add: run_line_def run_data_def parse_fact_envelope_def process_agent_data_payload_def Let_def)
qed

lemma send_saw_fact [simp]: "rn_saw_fact (send sink ls v) = rn_saw_fact v"
  by (induction sink ls v rule: send.induct) auto

lemma saw_fact_stays: "rn_saw_fact v \<Longrightarrow> rn_saw_fact (run_line en sink line v)"
  by (auto simp: run_line_def run_data_def process_agent_data_payload_def process_fact_def process_legacy_def Let_def
      split: option.splits prod.splits if_splits)

text \<open>C19: Once a frame of the new protocol was translated, the mirrors that the assistant sends for older clients change nothing: the
  turn ends as if they had been left out, for the browser, the answer and the record alike.\<close>

theorem mirrors_are_invisible:
  assumes "rn_saw_fact v" and "\<forall>l \<in> set ls. \<not> snd l"
  shows "run_lines en sink (filter (\<lambda>l. \<not> mirror_line en (fst l)) ls) v = run_lines en sink ls v"
  using assms
proof (induction ls arbitrary: v)
  case (Cons l ls)
  show ?case
  proof (cases "rn_open v")
    case True
    from Cons.prems have l: "\<not> snd l" by simp
    from Cons.IH [OF saw_fact_stays [OF Cons.prems(1)], of en sink "fst l"] Cons.IH [OF Cons.prems(1)] Cons.prems l True
    show ?thesis by (cases l) (auto simp: run_line_mirror)
  next
    case False
    then have "run_lines en sink xs v = v" for xs by (cases xs) auto
    then show ?thesis by simp
  qed
qed simp

section \<open>The stored exchange\<close>

text \<open>A store without failing calls, in which the user has no list of the old format left.\<close>

definition settled :: "u64 \<Rightarrow> 'r chat_st_scheme \<Rightarrow> bool" where
  "settled u s \<longleftrightarrow> calm s \<and> chat_on s \<and> legacy_list s u = []"

lemma settled_run: "settled u s \<Longrightarrow> ignore (migrate_legacy_if_needed u) s = (Inr (), s)"
  by (simp add: settled_def calm_def migrate_legacy_if_needed_def ignore_def attempt_def bnd_def io_def gets_def ret_def)

lemma settled_faults: "settled u s \<Longrightarrow> faults s = []" "settled u s \<Longrightarrow> chat_on s"
  by (simp_all add: settled_def calm_def)

lemma settled_upd [simp]:
  "settled u (s\<lparr>chat_lists := x1\<rparr>) = settled u s" "settled u (s\<lparr>chat_metas := x2\<rparr>) = settled u s"
  "settled u (s\<lparr>chat_index := x3\<rparr>) = settled u s" "settled u (s\<lparr>chat_current := x4\<rparr>) = settled u s"
  by (simp_all add: settled_def calm_def)

lemma chat_write_run:
  assumes "faults s = []"
  shows "set_list k f s = (Inr (), s\<lparr>chat_lists := (chat_lists s)(k := f (chat_lists s k))\<rparr>)"
    and "set_meta k m s = (Inr (), s\<lparr>chat_metas := (chat_metas s)(k := m)\<rparr>)"
    and "set_index u g s = (Inr (), s\<lparr>chat_index := (chat_index s)(u := g (chat_index s u))\<rparr>)"
    and "set_current u c s = (Inr (), s\<lparr>chat_current := (chat_current s)(u := c)\<rparr>)"
    and "touch_key s = (Inr (), s)"
  using assms by (simp_all add: set_list_def set_meta_def set_index_def set_current_def touch_key_def io_nil modify_run ret_run)

lemma pushed_run:
  "faults s = [] \<Longrightarrow> for_each msgs (\<lambda>x. set_list k (\<lambda>l. l @ [encode_message x])) s =
    (Inr (), s\<lparr>chat_lists := (chat_lists s)(k := chat_lists s k @ map encode_message msgs)\<rparr>)"
proof (induction msgs arbitrary: s)
  case (Cons m ms)
  let ?t = "s\<lparr>chat_lists := (chat_lists s)(k := chat_lists s k @ [encode_message m])\<rparr>"
  from Cons.prems have "faults ?t = []" by simp
  from Cons.IH [OF this] Cons.prems show ?case by (simp add: bnd_def chat_write_run cong: if_cong)
qed (simp add: ret_def)

lemma append_messages_run:
  assumes "settled u s" and "u \<noteq> 0" and "sid \<noteq> []" and "msgs \<noteq> []"
  shows "\<exists>t. append_messages u sid msgs ttl keep s = (Inr (), t) \<and> settled u t \<and>
    chat_lists t = (chat_lists s)((u, sid) := last_n (nat (if keep < 4 then 12 else keep)) (chat_lists s (u, sid) @ map encode_message msgs)) \<and>
    chat_current t u = Some sid \<and> sid \<in> zname ` set (chat_index t u)"
  using assms settled_run [OF assms(1)] settled_faults [OF assms(1)]
  by (simp add: append_messages_def with_store_def Let_def bnd_def gets_run get_session_meta_def attempt_def io_nil pushed_run
      chat_write_run modify_run ret_run guarded_run zadd_def
      split: option.split)

lemma decode_encode [simp]: "decode_message (encode_message m) = Some m"
  by (simp add: decode_message_def encode_message_def d_message_def d_struct_def field_for_def at_def d_string_def fold_name_def)

lemma kept_encoded: "\<forall>m \<in> set ms. cm_role m \<noteq> [] \<Longrightarrow> kept_messages (map encode_message ms) = ms"
  by (induction ms) (simp_all add: kept_messages_def map_filter_simps)

lemma last_n_map: "last_n n (map f xs) = map f (last_n n xs)"
  by (simp add: last_n_def drop_map)

lemma set_last_n: "x \<in> set (last_n n xs) \<Longrightarrow> x \<in> set xs"
  by (auto simp: last_n_def dest: in_set_dropD)

lemma list_messages_run:
  assumes "settled u s" and "u \<noteq> 0" and "sid \<noteq> []" and "limit > 0"
  shows "list_messages u sid limit s = (Inr (kept_messages (last_n (nat limit) (chat_lists s (u, sid)))), s)"
  using assms settled_run [OF assms(1)] settled_faults [OF assms(1)]
  by (simp add: list_messages_def with_store_def bnd_def gets_run io_nil ret_run)

text \<open>C21: What is appended to a session is listed again: the last \<open>limit\<close> messages are the last ones of the old and the new messages,
  of which at most \<open>keep\<close> (12, if fewer than 4 are asked for) are kept, with their roles and texts unchanged, and the
  session is the current one.\<close>

theorem appended_messages_are_listed:
  assumes "settled u s" and "u \<noteq> 0" and "sid \<noteq> []" and "msgs \<noteq> []" and "limit > 0"
    and "chat_lists s (u, sid) = map encode_message old" and "\<forall>m \<in> set (old @ msgs). cm_role m \<noteq> []"
    and "append_messages u sid msgs ttl keep s = (r, t)"
  shows "r = Inr () \<and> chat_current t u = Some sid \<and>
    fst (list_messages u sid limit t) = Inr (last_n (nat limit) (last_n (nat (if keep < 4 then 12 else keep)) (old @ msgs)))"
proof -
  let ?l = "last_n (nat (if keep < 4 then 12 else keep)) (old @ msgs)"
  from append_messages_run [OF assms(1-4), of ttl keep] assms(6,8)
  have t: "r = Inr ()" "settled u t" "chat_current t u = Some sid" "chat_lists t (u, sid) = map encode_message ?l"
    by (auto simp: last_n_map [symmetric])
  have "\<forall>m \<in> set (last_n (nat limit) ?l). cm_role m \<noteq> []"
    using assms(7) by (meson set_last_n)
  with t list_messages_run [OF t(2) assms(2,3,5)] show ?thesis
    by (simp add: last_n_map kept_encoded del: if_split_asm)
qed

lemma run_history_settled:
  assumes "settled u s" shows "snd (run_history u sid s) = s"
  using settled_faults [OF assms] list_messages_run [OF assms]
  by (simp add: run_history_def bnd_def gets_run ret_run attempt_def agent_chat_max_short_messages_def)

text \<open>C18: As long as the store is on, none of its calls fails and the user has no list of the old format left to migrate, a turn
  that ended well, by a user in a session, is remembered: the question and the answer, both trimmed, are appended to the
  session's messages, of which the last 12 are kept, and no other session changes. A turn that failed or has no answer
  is not remembered at all; one that was cancelled is, or is not, in full. (The code drops the error of storing, so that
  when a call of the store fails a turn may end well and not be remembered, or only in part.)\<close>

theorem turn_stores_the_exchange:
  assumes "run_agent_chat en u message token session request sink s = (Inr r, t)" and store: "calm s" "chat_on s" "legacy_list s u = []"
    and timely: "\<And>q ls f c1 c2 c3. en_agent en q = Stream ls f (c1, c2, c3) \<Longrightarrow> c2 \<Longrightarrow> c3"
  shows "let k = (u, trim_space session); remembered = (chat_lists s)(k := last_n 12 (chat_lists s k @
      map encode_message [\<lparr>cm_role = ''user'', cm_content = trim_space message\<rparr>, \<lparr>cm_role = ''assistant'', cm_content = rr_assistant r\<rparr>]))
    in if rr_error r \<or> u = 0 \<or> trim_space session = [] \<or> rr_assistant r = [] then chat_lists t = chat_lists s
       else if rr_aborted r then chat_lists t \<in> {chat_lists s, remembered} else chat_lists t = remembered"
proof -
  have settled: "settled u s" using store by (simp add: settled_def)
  obtain h s' ls f c where h: "run_history u (trim_space session) s = (Inr h, s')"
    and reply: "en_agent en \<lparr>ar_message = trim_space message, ar_user = u, ar_token = token, ar_session = trim_space session,
      ar_request = request, ar_history = h, ar_gateway_history = chat_on s\<rparr> = Stream ls f c"
    and run: "finish_turn en u (trim_space session) (trim_space message)
      (run_lines en sink ls (turn_start u (trim_space message) (trim_space session) request (clock_now s))) f c s' = (Inr r, t)"
    using assms(1) by (rule run_agent_chatE)
  let ?v = "run_lines en sink ls (turn_start u (trim_space message) (trim_space session) request (clock_now s))"
  obtain c1 c2 c3 where c: "c = (c1, c2, c3)" by (cases c)
  have late: "c2 \<longrightarrow> c3" using timely reply c by blast
  have s': "s' = s" using run_history_settled [OF settled, of "trim_space session"] h by simp
  let ?append = "append_messages u (trim_space session) (exchange (trim_space message) (rr_assistant r)) ttl_60_minutes agent_chat_max_short_messages"
  have r: "rr_assistant r = trim_space (rn_answer ?v)" "rr_error r = (rn_error ?v \<or> f)" "rr_aborted r = c3"
    using finish_turn_result [OF run] c by simp_all
  have t: "guarded (\<not> rr_error r \<and> \<not> c2 \<and> u > 0 \<and> trim_space session \<noteq> [] \<and> rr_assistant r \<noteq> []) (ignore ?append) s = (Inr (), t)"
    using run settled_faults(2) [OF settled] unfolding s' c finish_turn_def r
    by (auto simp: Let_def bnd_eq_Inr op_eqs split: option.splits if_splits)
  show ?thesis
  proof (cases "rr_error r \<or> c2 \<or> u = 0 \<or> trim_space session = [] \<or> rr_assistant r = []")
    case True
    then have "t = s" using t by (auto simp: guarded_run word_gt_0)
    with True late r show ?thesis by (auto simp: Let_def)
  next
    case False
    then obtain t' where "?append s = (Inr (), t')" and lists: "chat_lists t' = (chat_lists s)((u, trim_space session) :=
        last_n 12 (chat_lists s (u, trim_space session) @ map encode_message (exchange (trim_space message) (rr_assistant r))))"
      using append_messages_run [OF settled, of "trim_space session" "exchange (trim_space message) (rr_assistant r)" ttl_60_minutes agent_chat_max_short_messages]
      by (auto simp: exchange_def agent_chat_max_short_messages_def)
    with False t have "t = t'" by (simp add: guarded_run word_gt_0 ignore_eq_Inr)
    with False lists show ?thesis by (simp add: Let_def exchange_def)
  qed
qed

section \<open>The session of a turn\<close>

definition listed :: "u64 \<Rightarrow> string \<Rightarrow> 'r chat_st_scheme \<Rightarrow> bool" where
  "listed u sid s \<longleftrightarrow> sid \<in> zname ` set (chat_index s u)"

lemma quietly_listed [simp]: "quietly (listed u sid)"
  by (simp add: quietly_def listed_def)

lemma listed_zadd: "listed u sid s \<Longrightarrow> listed u sid (s\<lparr>chat_index := (chat_index s)(v := zadd n x (chat_index s v))\<rparr>)"
  by (auto simp: listed_def zadd_def)

lemma keeps_listed_write [keeps_rules]:
  "keeps (listed u sid) (set_list k f)" "keeps (listed u sid) (set_meta k m)" "keeps (listed u sid) (set_current v c)"
  "keeps (listed u sid) touch_key" "keeps (listed u sid) (drop_legacy v)" "keeps (listed u sid) (set_index v (zadd n x))"
  "keeps (listed u sid) (io (gets g))"
  unfolding set_list_def set_meta_def set_current_def touch_key_def drop_legacy_def set_index_def
  by (intro keeps_rules keeps_modify quietly_listed; auto simp: listed_def zadd_def)+

lemma keeps_listed_migrate [keeps_rules]: "keeps (listed u sid) (ignore (migrate_legacy_if_needed v))"
  unfolding migrate_legacy_if_needed_def migrate_body_def by (intro keeps_rules)

lemma in_index_listed: "in_index u sid s = (Inr True, t) \<Longrightarrow> listed u sid t"
  by (auto simp: in_index_def listed_def gets_eq elim!: io_InrE)

lemma case_sum_True [simp]: "(case r of Inl e \<Rightarrow> False | Inr b \<Rightarrow> b) \<longleftrightarrow> r = Inr True"
  by (simp split: sum.split)

lemma session_exists_listed: "session_exists u sid s = (Inr True, t) \<Longrightarrow> chat_on s \<Longrightarrow> listed u sid t"
  by (auto simp: session_exists_def with_store_def bnd_eq_Inr op_eqs split: if_splits dest: in_index_listed)

lemma wp_listed: "keeps (listed u sid) m \<Longrightarrow> listed u sid s \<Longrightarrow> (\<And>r t. listed u sid t \<Longrightarrow> Q r t) \<Longrightarrow> wp m Q s"
  by (auto intro!: wpI dest: keepsD)

text \<open>The newest session is one of the index.\<close>

lemma zrevrange_listed:
  assumes "zrevrange n (chat_index s u) = sid # l" shows "listed u sid s"
proof -
  have "sid \<in> set (zrevrange n (chat_index s u))" using assms by simp
  then show ?thesis by (auto simp: zrevrange_def listed_def dest: in_set_takeD)
qed

lemma create_session_listed:
  assumes "create_session u s = (Inr sid, t)" shows "listed u sid t"
proof -
  from assms obtain now u1 u2 u3 u4 where "set_index u (zadd sid (unix_milli now)) u1 = (Inr (), u2)"
    and "touch_key u2 = (Inr (), u3)" and "set_current u (Some sid) u3 = (Inr (), u4)" and "t = u4"
    by (auto simp: create_session_def bnd_eq_Inr op_eqs split: if_split_asm)
  moreover from this(1) have "listed u sid u2" by (auto simp: set_index_def modify_eq listed_def zadd_def elim!: io_InrE)
  ultimately show ?thesis by (metis keeps_listed_write(3,4) keepsD)
qed

definition chat_ready :: "'r chat_st_scheme \<Rightarrow> bool" where
  "chat_ready s \<longleftrightarrow> chat_on s"

lemma quietly_ready [simp]: "quietly chat_ready"
  by (simp add: quietly_def chat_ready_def)

lemma keeps_ready_write [keeps_rules]:
  "keeps chat_ready (set_list k f)" "keeps chat_ready (set_meta k m)" "keeps chat_ready (set_current v c)"
  "keeps chat_ready touch_key" "keeps chat_ready (drop_legacy v)" "keeps chat_ready (set_index v h)"
  "keeps chat_ready (io (gets g))"
  unfolding set_list_def set_meta_def set_current_def touch_key_def drop_legacy_def set_index_def
  by (intro keeps_rules keeps_modify quietly_ready; auto simp: chat_ready_def)+

lemma keeps_ready_migrate [keeps_rules]: "keeps chat_ready (ignore (migrate_legacy_if_needed v))"
  unfolding migrate_legacy_if_needed_def migrate_body_def by (intro keeps_rules)

lemma keeps_ready_current [keeps_rules]: "keeps chat_ready (get_current_session_id u)"
  unfolding get_current_session_id_def with_store_def by (intro keeps_rules)

definition answers_listed :: "u64 \<Rightarrow> err + string \<Rightarrow> 'r chat_st_scheme \<Rightarrow> bool" where
  "answers_listed u r t \<longleftrightarrow> (\<forall>sid. r = Inr sid \<longrightarrow> listed u sid t)"

lemma answers_listed_simps [simp]: "answers_listed u (Inl e) t" "answers_listed u (Inr sid) t = listed u sid t"
  by (simp_all add: answers_listed_def)

lemma wp_create_listed: "wp (create_session u) (answers_listed u) s"
  by (auto intro!: wpI simp: answers_listed_def dest: create_session_listed)

lemma wp_return_listed:
  "keeps (listed u sid) m \<Longrightarrow> listed u sid s \<Longrightarrow> wp (ignore m) (\<lambda>r t. r = Inr () \<longrightarrow> wp (ret sid) (answers_listed u) t) s"
  by (rule wp_listed [OF keeps_ignore]) (auto simp: wp_ret)

lemma listed_faults [simp]: "listed u sid (s\<lparr>faults := fs\<rparr>) = listed u sid s"
  by (simp add: listed_def)

lemma newest_or_new_listed: "wp (newest_or_new u) (answers_listed u) s"
  unfolding newest_or_new_def
  by (auto simp: wp_bnd wp_attempt wp_gets wp_create_listed intro!: wp_io wp_return_listed keeps_listed_write split: sum.split list.split
      dest!: sym [of "zrevrange _ _"] zrevrange_listed)

lemma wp_ready: "keeps chat_ready m \<Longrightarrow> chat_ready s \<Longrightarrow> (\<And>r t. chat_ready t \<Longrightarrow> Q r t) \<Longrightarrow> wp m Q s"
  by (auto intro!: wpI dest: keepsD)

lemma wp_exists_listed:
  assumes "chat_ready s" and "\<And>e t. Q (Inl e) t" and "\<And>t. Q (Inr False) t" and "\<And>t. listed u sid t \<Longrightarrow> Q (Inr True) t"
  shows "wp (session_exists u sid) Q s"
proof (rule wpI)
  fix r t
  assume "session_exists u sid s = (r, t)"
  with assms show "Q r t" by (cases r; cases "r = Inr True") (auto simp: chat_ready_def dest: session_exists_listed)
qed

lemma known_or_new_listed:
  "chat_ready s \<Longrightarrow> wp (bnd (session_exists u cur) (\<lambda>there. if there then ret cur else newest_or_new u)) (answers_listed u) s"
  "wp (bnd (ret False) (\<lambda>there. if there then ret cur else newest_or_new u)) (answers_listed u) s"
  by (auto simp: wp_bnd wp_ret newest_or_new_listed intro!: wp_exists_listed)

lemma ensure_current_listed: "wp (ensure_current_or_create u) (answers_listed u) s"
proof (cases "chat_on s \<and> u \<noteq> 0")
  case True
  then have "chat_ready s" by (simp add: chat_ready_def)
  then have "wp (bnd (ignore (migrate_legacy_if_needed u)) (\<lambda>_. bnd (get_current_session_id u) (\<lambda>cur.
     bnd (if cur \<noteq> [] then session_exists u cur else ret False) (\<lambda>there. if there then ret cur else newest_or_new u)))) (answers_listed u) s"
    by (subst wp_bnd, intro wp_ready [OF keeps_ready_migrate]) (auto simp: wp_bnd [of "get_current_session_id u"]
      intro!: wp_ready [OF keeps_ready_current] known_or_new_listed)
  with True show ?thesis by (simp add: ensure_current_or_create_def wp_bnd [of "gets _"] wp_gets)
qed (auto simp: ensure_current_or_create_def wp_bnd wp_gets wp_throw)

lemma keeps_listed_current: "keeps (listed u sid) (set_current_session v sid')"
  unfolding set_current_session_def with_store_def in_index_def
  by (intro keeps_rules) (simp split: bool.split add: keeps_rules)

text \<open>C20: Whatever Redis calls fail, a turn runs in a session that is in the index of its user when it starts: the one that the
  request names, if there is such a session, the current one, the newest one or a new one; otherwise the turn is refused.\<close>

theorem turn_runs_in_own_session:
  assumes "turn_session u raw s = (Inr sid, t)" and "chat_on s"
  shows "sid \<in> zname ` set (chat_index t u)"
proof -
  have "wp (turn_session u raw) (answers_listed u) s"
  proof (cases "trim_space raw = []")
    case True
    have "wp (bnd (attempt (ensure_current_or_create u)) (\<lambda>r. case r of Inr (c # cs) \<Rightarrow> ret (c # cs) | _ \<Rightarrow> throw MsgError)) (answers_listed u) s"
      unfolding wp_bnd wp_attempt
      by (rule wp_mono [OF ensure_current_listed]) (auto simp: wp_ret wp_throw answers_listed_def split: sum.split list.split)
    with True assms(2) show ?thesis by (simp add: turn_session_def wp_bnd [of "gets _"] wp_gets Let_def)
  next
    case False
    have "wp (bnd (session_exists u (trim_space raw)) (\<lambda>there. if \<not> there then throw MsgError else
       bnd (ignore (set_current_session u (trim_space raw))) (\<lambda>_. ret (trim_space raw)))) (answers_listed u) s"
      unfolding wp_bnd [of "session_exists _ _"]
      using assms(2) by (intro wp_exists_listed) (auto simp: chat_ready_def wp_bnd wp_throw intro!: wp_return_listed
        keeps_listed_current)
    with False assms(2) show ?thesis by (simp add: turn_session_def wp_bnd [of "gets _"] wp_gets Let_def)
  qed
  from wpD [OF this assms(1)] show ?thesis by (simp add: listed_def)
qed

section \<open>A run\<close>

definition chat_demo :: chat_st where
  "chat_demo = \<lparr>faults = [], wallets = [], ledger = [], clock_now = 0, clock_day = (2025, 3, 1), snowflake = of_nat, id_seq = 0,
     points_redis = False, daily = (\<lambda>_. None), checkins = (\<lambda>_ _. False), wallet_cache = (\<lambda>_. None), earn_kafka = False, earn_topic = [],
     chat_on = True, chat_lists = (\<lambda>_. []), chat_metas = (\<lambda>_. None), chat_index = (\<lambda>_. [ZMember 1 ''abcd'']), chat_current = (\<lambda>_. None),
     legacy_list = (\<lambda>_. []), legacy_state = (\<lambda>_. None), chat_ids = (\<lambda>_. ''ef01''), chat_seq = 0, agent_url = True,
     agent_busy = 0, agent_slots = 2, agent_cleared = []\<rparr>"

text \<open>An assistant that sends one token.\<close>

definition token_frame :: json where
  "token_frame = JObj [(''type'', JStr ''token''), (''content'', JStr ''Hi'')]"

definition demo_agent :: agent_env where
  "demo_agent = \<lparr>en_agent = (\<lambda>_. Stream [(''data: 1'', False)] False (False, False, False)),
     en_parse = (\<lambda>s. if s = ''1'' then Some token_frame else None), en_translator = None, en_cap = id, en_walk = id\<rparr>"

lemma trims: "trim_space ''data: 1'' = ''data: 1''" "trim_space ''Hi'' = ''Hi''" "trim_space ''abcd'' = ''abcd''"
  by (rule trim_space_id; simp add: printing_def)+

lemma settled_demo: "settled 7 chat_demo"
  by (simp add: settled_def calm_def chat_demo_def)

lemma token_frame_plain: "is_object token_frame" "\<not> is_fact_frame token_frame" "is_legacy_mirror token_frame"
  "d_legacy token_frame \<lparr>le_type = [], le_content = []\<rparr> = (\<lparr>le_type = ''token'', le_content = ''Hi''\<rparr>, True)"
  by (simp_all add: token_frame_def is_object_def is_fact_frame_def is_legacy_mirror_def raw_member_def d_legacy_def d_struct_def
      field_for_def at_def d_string_def fold_name_def)

lemma demo_lines: "run_lines demo_agent sink [(''data: 1'', False)] (turn_start u msg sid request now) =
    send sink [Translated (Passed token_frame)] (turn_start u msg sid request now\<lparr>rn_answer := ''Hi''\<rparr>)"
  by (simp add: run_line_def run_data_def Let_def trims demo_agent_def turn_start_def parse_fact_envelope_def token_frame_plain
      process_agent_data_payload_def process_legacy_def)

lemma finish_turn_run:
  assumes "settled u s" and "u \<noteq> 0" and "sid \<noteq> []" and "trim_space (rn_answer v) \<noteq> []" and "\<not> rn_error v"
    and "finalize (en_cap en) (en_walk en) (clock_now s) (trim_space (rn_answer v)) False False (rn_turn v) = Some turn"
  shows "\<exists>t. finish_turn en u sid msg v False (False, False, False) s = (Inr \<lparr>rr_assistant = trim_space (rn_answer v),
    rr_error = False, rr_aborted = False, rr_record = turn, rr_sent = rn_out v\<rparr>, t)"
proof -
  let ?append = "append_messages u sid (exchange msg (trim_space (rn_answer v))) ttl_60_minutes agent_chat_max_short_messages"
  obtain t where "?append s = (Inr (), t)"
    using append_messages_run [OF assms(1-3)] by (metis exchange_def list.distinct(1))
  then have "ignore ?append s = (Inr (), t)" by (simp add: ignore_eq_Inr)
  with assms settled_faults(2) [OF assms(1)] show ?thesis
    by (simp add: finish_turn_def Let_def bnd_def gets_run ret_run guarded_run word_gt_0)
qed

lemma agent_answers: "en_agent demo_agent q = Stream [(''data: 1'', False)] False (False, False, False)"
  by (simp add: demo_agent_def)

lemma demo_turn:
  "\<exists>r t. run_agent_chat demo_agent 7 ''Hi'' [] ''abcd'' [] (Some (\<lambda>_. True)) chat_demo = (Inr r, t) \<and>
     rr_assistant r = ''Hi'' \<and> \<not> rr_error r \<and> \<not> rr_aborted r"
proof -
  let ?v = "send (Some (\<lambda>_. True)) [Translated (Passed token_frame)] (turn_start 7 ''Hi'' ''abcd'' [] 0\<lparr>rn_answer := ''Hi''\<rparr>)"
  obtain r where "finalize id id 0 ''Hi'' False False (rn_turn ?v) = Some r"
    by (simp add: turn_start_def finalize_def final_output_def new_turn_aggregator_def Let_def)
  then obtain t where fin: "finish_turn demo_agent 7 ''abcd'' ''Hi'' ?v False (False, False, False) chat_demo = (Inr \<lparr>rr_assistant = ''Hi'',
      rr_error = False, rr_aborted = False, rr_record = r, rr_sent = rn_out ?v\<rparr>, t)"
    using finish_turn_run [OF settled_demo, of "''abcd''" ?v demo_agent r "''Hi''"]
    by (auto simp: trims demo_agent_def turn_start_def chat_demo_def)
  have hist: "run_history 7 ''abcd'' chat_demo = (Inr [], chat_demo)"
    using list_messages_run [OF settled_demo, of "''abcd''" 12]
    by (simp add: run_history_def bnd_def gets_run ret_run attempt_def agent_chat_max_short_messages_def)
      (simp add: chat_demo_def last_n_def kept_messages_def ret_run gets_run map_filter_simps)
  have "agent_url chat_demo" "chat_on chat_demo" "clock_now chat_demo = 0" by (simp_all add: chat_demo_def)
  then have "run_agent_chat demo_agent 7 ''Hi'' [] ''abcd'' [] (Some (\<lambda>_. True)) chat_demo =
      finish_turn demo_agent 7 ''abcd'' ''Hi'' ?v False (False, False, False) chat_demo"
    using hist demo_lines [of "Some (\<lambda>_. True)" 7 "''Hi''" "''abcd''" "[]" 0]
    by (simp add: run_agent_chat_def bnd_def gets_run trims Let_def agent_answers del: run_lines.simps)
  with fin show ?thesis by simp
qed

theorem answer_is_what_was_shown_witness:
  "\<exists>r t rest. run_agent_chat demo_agent 7 ''Hi'' [] ''abcd'' [] (Some (\<lambda>_. True)) chat_demo = (Inr r, t) \<and>
     rr_assistant r = trim_space (shown (rr_sent r) @ rest) \<and> rest = []"
proof -
  obtain r t where run: "run_agent_chat demo_agent 7 ''Hi'' [] ''abcd'' [] (Some (\<lambda>_. True)) chat_demo = (Inr r, t)"
    using demo_turn by blast
  from answer_is_what_was_shown [OF run] obtain rest where "rr_assistant r = trim_space (shown (rr_sent r) @ rest)" and "rest = []" by auto
  with run show ?thesis by blast
qed

theorem turn_stores_the_exchange_witness:
  "\<exists>r t. run_agent_chat demo_agent 7 ''Hi'' [] ''abcd'' [] (Some (\<lambda>_. True)) chat_demo = (Inr r, t) \<and>
     chat_lists t (7, ''abcd'') = map encode_message [\<lparr>cm_role = ''user'', cm_content = ''Hi''\<rparr>, \<lparr>cm_role = ''assistant'', cm_content = ''Hi''\<rparr>]"
proof -
  obtain r t where run: "run_agent_chat demo_agent 7 ''Hi'' [] ''abcd'' [] (Some (\<lambda>_. True)) chat_demo = (Inr r, t)"
    and r: "rr_assistant r = ''Hi''" "\<not> rr_error r" "\<not> rr_aborted r" using demo_turn by blast
  have "chat_lists chat_demo (7, ''abcd'') = []" by (simp add: chat_demo_def)
  with turn_stores_the_exchange [OF run settled_demo [unfolded settled_def, THEN conjunct1]
      settled_demo [unfolded settled_def, THEN conjunct2, THEN conjunct1] settled_demo [unfolded settled_def, THEN conjunct2, THEN conjunct2]] run r show ?thesis
    by (intro exI [of _ r] exI [of _ t]) (simp add: Let_def trims last_n_def demo_agent_def)
qed

theorem mirrors_are_invisible_witness:
  "run_lines demo_agent None [] (turn_start 7 ''hi'' ''s'' ''r'' 0\<lparr>rn_saw_fact := True\<rparr>) =
   run_lines demo_agent None [(''data: 1'', False)] (turn_start 7 ''hi'' ''s'' ''r'' 0\<lparr>rn_saw_fact := True\<rparr>)"
proof -
  have "mirror_line demo_agent ''data: 1''" by (simp add: mirror_line_def trims demo_agent_def token_frame_plain)
  then show ?thesis
    using mirrors_are_invisible [of "turn_start 7 ''hi'' ''s'' ''r'' 0\<lparr>rn_saw_fact := True\<rparr>" "[(''data: 1'', False)]" demo_agent None] by simp
qed

theorem appended_messages_are_listed_witness:
  "\<exists>r t. append_messages 7 ''abcd'' (exchange ''a'' ''b'') 0 4 chat_demo = (r, t) \<and> r = Inr () \<and>
     fst (list_messages 7 ''abcd'' 1 t) = Inr [\<lparr>cm_role = ''assistant'', cm_content = ''b''\<rparr>]"
proof -
  obtain r t where run: "append_messages 7 ''abcd'' (exchange ''a'' ''b'') 0 4 chat_demo = (r, t)" by (metis prod.collapse)
  have "chat_lists chat_demo (7, ''abcd'') = []" by (simp add: chat_demo_def)
  with appended_messages_are_listed [OF settled_demo _ _ _ _ _ _ run, of 1 "[]"] run show ?thesis
    by (simp add: exchange_def last_n_def)
qed

theorem turn_runs_in_own_session_witness:
  "\<exists>t. turn_session 7 ''abcd'' chat_demo = (Inr ''abcd'', t) \<and> ''abcd'' \<in> zname ` set (chat_index t 7)"
proof -
  have on: "chat_on chat_demo" by (simp add: chat_demo_def)
  have index: "in_index 7 ''abcd'' chat_demo = (Inr True, chat_demo)" by (simp add: in_index_def io_def gets_def chat_demo_def)
  then have there: "session_exists 7 ''abcd'' chat_demo = (Inr True, chat_demo)"
    using settled_run [OF settled_demo] on by (simp add: session_exists_def with_store_def bnd_def gets_run ret_run attempt_def)
  obtain t where "set_current_session 7 ''abcd'' chat_demo = (Inr (), t)"
    using settled_run [OF settled_demo] settled_faults [OF settled_demo] index on
    by (simp add: set_current_session_def with_store_def bnd_def gets_run attempt_def chat_write_run)
  then have "ignore (set_current_session 7 ''abcd'') chat_demo = (Inr (), t)" by (simp add: ignore_eq_Inr)
  with there on have "\<exists>t. turn_session 7 ''abcd'' chat_demo = (Inr ''abcd'', t)"
    by (simp add: turn_session_def bnd_def gets_run trims ret_run Let_def)
  then show ?thesis using turn_runs_in_own_session [OF _ on] by blast
qed

end
