(* ===== verification/TemplateProps.thy ===== *)
theory TemplateProps
  imports Translator
begin

text \<open>
  The display templates (src/handler/agentstream/template.go): a template is a sequence of literal pieces and slots, and rendering
  it puts the value of each slot in its place, in whatever order the map of the variables is walked.
\<close>

datatype piece = Lit string | Slot string

fun piece_text :: "piece \<Rightarrow> string" where
  "piece_text (Lit s) = s"
| "piece_text (Slot k) = placeholder k"

definition no_open :: "string \<Rightarrow> bool" where
  "no_open s \<longleftrightarrow> CHR ''{'' \<notin> set s"

definition plain_name :: "string \<Rightarrow> bool" where
  "plain_name k \<longleftrightarrow> CHR ''{'' \<notin> set k \<and> CHR ''}'' \<notin> set k"

fun well_formed :: "piece \<Rightarrow> bool" where
  "well_formed (Lit s) = no_open s"
| "well_formed (Slot k) = plain_name k"

fun fill :: "(string \<rightharpoonup> string) \<Rightarrow> piece \<Rightarrow> piece" where
  "fill m (Lit s) = Lit s"
| "fill m (Slot k) = (case m k of None \<Rightarrow> Slot k | Some v \<Rightarrow> Lit v)"

abbreviation template :: "piece list \<Rightarrow> string" where
  "template ps \<equiv> concat (map piece_text ps)"

lemma replace_all_skip:
  assumes "take (length old) (c # s) \<noteq> old" shows "replace_all old new (c # s) = c # replace_all old new s"
  using assms by (subst replace_all.simps) auto

lemma replace_all_Nil [simp]: "replace_all old new [] = []"
  by (simp add: replace_all.simps)

lemma placeholder_Cons: "placeholder k = CHR ''{'' # CHR ''{'' # k @ ''}}''"
  by (simp add: placeholder_def)

lemma replace_all_lit: "no_open s \<Longrightarrow> replace_all (placeholder k) v (s @ r) = s @ replace_all (placeholder k) v r"
proof (induction s)
  case (Cons c s)
  then have "take (length (placeholder k)) (c # s @ r) \<noteq> placeholder k" by (auto simp: placeholder_Cons no_open_def)
  with Cons show ?case by (simp add: replace_all_skip no_open_def)
qed simp

lemma replace_all_same: "replace_all (placeholder k) v (placeholder k @ r) = v @ replace_all (placeholder k) v r"
  by (subst replace_all.simps) (simp add: placeholder_def)

lemma name_cut: "CHR ''}'' \<notin> set k \<Longrightarrow> takeWhile (\<lambda>c. c \<noteq> CHR ''}'') (k @ CHR ''}'' # x) = k"
  by (subst takeWhile_append2) auto

lemma replace_all_other:
  assumes "plain_name k" and "plain_name k'" and "k \<noteq> k'"
  shows "replace_all (placeholder k) v (placeholder k' @ r) = placeholder k' @ replace_all (placeholder k) v r"
proof -
  have first: "take (length (placeholder k)) (placeholder k' @ r) \<noteq> placeholder k"
  proof
    assume eq: "take (length (placeholder k)) (placeholder k' @ r) = placeholder k"
    have "placeholder k' @ r = placeholder k @ drop (length (placeholder k)) (placeholder k' @ r)"
      using append_take_drop_id [of "length (placeholder k)" "placeholder k' @ r"] unfolding eq by simp
    then have "k' @ CHR ''}'' # (CHR ''}'' # r) = k @ CHR ''}'' # (CHR ''}'' # drop (length (placeholder k)) (placeholder k' @ r))"
      by (simp add: placeholder_def)
    from arg_cong [OF this, of "takeWhile (\<lambda>c. c \<noteq> CHR ''}'')"] have "k' = k"
      using name_cut assms(1,2) unfolding plain_name_def by simp
    with assms(3) show False by simp
  qed
  let ?s = "k' @ ''}}''"
  have lit: "no_open ?s" using assms(2) by (simp add: no_open_def plain_name_def)
  have "replace_all (placeholder k) v (placeholder k' @ r) = CHR ''{'' # replace_all (placeholder k) v (CHR ''{'' # ?s @ r)"
    using first by (simp add: placeholder_Cons replace_all_skip)
  also have "\<dots> = CHR ''{'' # CHR ''{'' # replace_all (placeholder k) v (?s @ r)"
  proof -
    have "take (length (placeholder k)) (CHR ''{'' # ?s @ r) \<noteq> placeholder k"
      using lit by (cases k') (auto simp: placeholder_Cons no_open_def)
    then show ?thesis by (simp add: replace_all_skip)
  qed
  also have "\<dots> = placeholder k' @ replace_all (placeholder k) v r"
    using replace_all_lit [OF lit, of k v r] by (simp add: placeholder_def)
  finally show ?thesis .
qed

lemma replace_template:
  assumes "\<forall>p \<in> set ps. well_formed p" and "plain_name k"
  shows "replace_all (placeholder k) v (template ps) = template (map (fill [k \<mapsto> v]) ps)"
  using assms(1)
proof (induction ps)
  case (Cons p ps)
  then show ?case by (cases p) (auto simp: replace_all_lit replace_all_same replace_all_other [OF assms(2)])
qed simp

lemma fill_fill: "no_open v \<Longrightarrow> fill m (fill [k \<mapsto> v] p) = fill (m(k \<mapsto> v)) p"
  by (cases p) auto

lemma well_formed_fill: "well_formed p \<Longrightarrow> no_open v \<Longrightarrow> well_formed (fill [k \<mapsto> v] p)"
  by (cases p) auto

lemma rendered:
  assumes "\<forall>p \<in> set ps. well_formed p" and "\<forall>(k, v) \<in> set vars. plain_name k \<and> no_open v" and "distinct (map fst vars)"
  shows "fold (\<lambda>(k, v) out. replace_all (placeholder k) v out) vars (template ps) = template (map (fill (map_of vars)) ps)"
  using assms
proof (induction vars arbitrary: ps)
  case Nil
  have "fill Map.empty p = p" for p by (cases p) auto
  then show ?case by simp
next
  case (Cons kv vars)
  obtain k v where kv: "kv = (k, v)" by (cases kv)
  with Cons.prems have k: "plain_name k" "no_open v" "map_of vars k = None" by (auto simp: map_of_eq_None_iff)
  have "fill (map_of vars) (fill [k \<mapsto> v] p) = fill (map_of (kv # vars)) p" for p
    using fill_fill [OF k(2), of "map_of vars" k p] k(3) kv by simp
  moreover have "\<forall>p \<in> set (map (fill [k \<mapsto> v]) ps). well_formed p" using Cons.prems(1) k(2) by (auto intro: well_formed_fill)
  ultimately have "fold (\<lambda>(k, v) out. replace_all (placeholder k) v out) vars (template (map (fill [k \<mapsto> v]) ps)) =
      template (map (fill (map_of (kv # vars))) ps)"
    using Cons.IH [of "map (fill [k \<mapsto> v]) ps"] Cons.prems(2,3) by (simp add: comp_def del: map_of.simps)
  then show ?case using kv replace_template [OF Cons.prems(1) k(1), of v] by (simp del: map_of.simps)
qed

lemma contains_mid: "contains sub (a @ sub @ b)"
proof (induction a)
  case Nil
  have "take (length sub) (sub @ b) = sub" by simp
  then show ?case by (cases "sub @ b") (simp_all del: take_append)
qed simp

lemma no_open_contains: "no_open s \<Longrightarrow> \<not> contains ''{{'' s"
  by (induction s) (auto simp: no_open_def)

text \<open>C22: A template of literal text and slots shows every slot's value in its place, whatever the order in which the variables are
  substituted; the fallback is shown when the template is blank, when a slot has no value, or when the result is blank. Neither the
  literal text nor the values may contain an opening brace.\<close>

theorem template_shows_its_values:
  assumes "\<forall>p \<in> set ps. well_formed p" and "\<forall>(k, v) \<in> set vars. plain_name k \<and> no_open v" and "distinct (map fst vars)"
  shows "render_template_or_fallback (template ps) fallback vars =
    (let shown = template (map (fill (map_of vars)) ps) in
     if trim_space (template ps) = [] \<or> (\<exists>k. Slot k \<in> set ps \<and> map_of vars k = None) \<or> trim_space shown = [] then fallback else shown)"
proof -
  let ?shown = "template (map (fill (map_of vars)) ps)"
  have render: "render_template (template ps) vars = ?shown" if "trim_space (template ps) \<noteq> []"
  proof -
    from that have "template ps \<noteq> []" using trim_space_Nil by metis
    then show ?thesis using rendered [OF assms] unfolding render_template_def by (simp only: if_False)
  qed
  have "contains ''{{'' ?shown \<longleftrightarrow> (\<exists>k. Slot k \<in> set ps \<and> map_of vars k = None)"
  proof
    assume "\<exists>k. Slot k \<in> set ps \<and> map_of vars k = None"
    then obtain k as bs where "ps = as @ Slot k # bs" and "map_of vars k = None" by (auto simp: in_set_conv_decomp)
    then show "contains ''{{'' ?shown"
      using contains_mid [of "''{{''" "template (map (fill (map_of vars)) as)" "k @ ''}}'' @ template (map (fill (map_of vars)) bs)"]
      by (simp add: placeholder_def)
  next
    assume c: "contains ''{{'' ?shown"
    show "\<exists>k. Slot k \<in> set ps \<and> map_of vars k = None"
    proof (rule ccontr)
      assume no: "\<not> ?thesis"
      have "no_open (piece_text (fill (map_of vars) p))" if "p \<in> set ps" for p
        using that no assms(1,2) by (cases p rule: piece.exhaust) (auto split: option.split dest: map_of_SomeD)
      then have "no_open ?shown" by (auto simp: no_open_def)
      with c no_open_contains show False by blast
    qed
  qed
  with render show ?thesis by (auto simp: render_template_or_fallback_def has_unreplaced_template_def Let_def)
qed

theorem template_shows_its_values_witness:
  "render_template_or_fallback ''find {{what}} in {{where}}'' ''f'' [(''where'', ''news''), (''what'', ''x'')] = ''find x in news''"
proof -
  let ?ps = "[Lit ''find '', Slot ''what'', Lit '' in '', Slot ''where'']"
  have "trim_space ''find {{what}} in {{where}}'' = ''find {{what}} in {{where}}''" and "trim_space ''find x in news'' = ''find x in news''"
    by (rule trim_space_id; simp add: printing_def)+
  with template_shows_its_values [of ?ps "[(''where'', ''news''), (''what'', ''x'')]" "''f''"] show ?thesis
    by (simp add: no_open_def plain_name_def placeholder_def Let_def)
qed

end
