(* ===== verification/Blog.thy ===== *)
theory Blog
  imports GameHandlers PointsService ZSet
begin

text \<open>
  The state that the comments and the articles add to the tables (models of src/models/comment_model.go and
  blog_model.go): their Redis keys, the NSQ topics of src/mq/nsq_init.go, notifications and goroutines that were
  started and have not run yet; and what both use of GORM and Redis.
\<close>

section \<open>Data\<close>

record comment_user =
  cu_id :: u64
  cu_name :: string
  cu_avatar :: string

record comment_vo =
  cv_id :: u64
  cv_root :: u64
  cv_user :: comment_user
  cv_reply :: "comment_user option"
  cv_content :: string
  cv_type :: string
  cv_likes :: int
  cv_created :: int

text \<open>A floor: the line of its root comment and the lines below it (only floors have children).\<close>

type_synonym floor = "comment_vo \<times> comment_vo list"

record comment_action =
  ca_type :: string
  ca_comment :: u64
  ca_user :: u64
  ca_time :: int

record article_action =
  aa_type :: string
  aa_article :: u64
  aa_user :: u64
  aa_time :: int
  aa_delta :: "int option"

record notice =
  no_to :: u64
  no_from :: u64
  no_sender :: string
  no_msg :: string
  no_type :: string

record collection =
  col_user :: u64
  col_article :: u64
  col_created :: int

section \<open>State\<close>

text \<open>
  \<open>comment_redis\<close> and \<open>article_redis\<close>: whether the repositories have a client. \<open>comment_stats\<close> is the field \<open>like\<close>
  of the hash of a comment, \<open>art_stats\<close> a field of the hash of an article, \<open>boards\<close> the board of
  an action and a day.
\<close>

record blog_st = game_st +
  comment_redis :: bool
  comment_stats :: "u64 \<Rightarrow> int option"
  cy_cache :: "(u64 \<times> comment list) list"
  floor_cache :: "((u64 \<times> int \<times> int \<times> int) \<times> (floor list \<times> int)) list"
  nsq_on :: bool
  comment_topic :: "comment_action list"
  article_topic :: "article_action list"
  notify_on :: bool
  notified :: "notice list"
  pending_notices :: "comment list"
  article_redis :: bool
  art_stats :: "u64 \<times> string \<Rightarrow> int option"
  like_marks :: "u64 \<times> u64 \<Rightarrow> bool"
  read_marks :: "u64 \<times> string \<Rightarrow> bool"
  boards :: "string \<times> date \<Rightarrow> zmember list"
  article_games :: "(u64 \<times> u64) list"
  article_topics :: "(u64 \<times> u64) list"
  collections :: "collection list"

interpretation cy_lists: key_family comment_redis cy_cache cy_cache_update
  by unfold_locales simp_all

interpretation floor_lists: key_family comment_redis floor_cache floor_cache_update
  by unfold_locales simp_all

section \<open>GORM and Redis\<close>

text \<open>
  \<open>Offset(o).Limit(n)\<close> with numbers as the request has them: a negative limit is not written, an offset only when
  it is positive; an offset without a limit is a syntax error for MySQL.
\<close>

definition offset_limit :: "int \<Rightarrow> int \<Rightarrow> 'a list \<Rightarrow> err + 'a list" where
  "offset_limit off limit rows =
     (if limit < 0 then (if off > 0 then Inl IOError else Inr rows) else Inr (take (nat limit) (drop (nat off) rows)))"

definition query_rows :: "('r io_st_scheme \<Rightarrow> err + 'a) \<Rightarrow> ('r io_st_scheme, 'a) op" where
  "query_rows f = io (\<lambda>s. (f s, s))"

text \<open>\<open>INSERT IGNORE\<close>: whether a row was inserted; \<open>DELETE\<close>: whether a row was hit. The table is a list of pairs.\<close>

definition insert_ignore ::
  "('r io_st_scheme \<Rightarrow> ('a \<times> 'b) list) \<Rightarrow> (('a \<times> 'b) list \<Rightarrow> 'r io_st_scheme \<Rightarrow> 'r io_st_scheme) \<Rightarrow> 'a \<times> 'b \<Rightarrow> ('r io_st_scheme, bool) op" where
  "insert_ignore rows put p = io (\<lambda>s. if p \<in> set (rows s) then (Inr False, s) else (Inr True, put (rows s @ [p]) s))"

definition delete_pair ::
  "('r io_st_scheme \<Rightarrow> ('a \<times> 'b) list) \<Rightarrow> (('a \<times> 'b) list \<Rightarrow> 'r io_st_scheme \<Rightarrow> 'r io_st_scheme) \<Rightarrow> 'a \<times> 'b \<Rightarrow> ('r io_st_scheme, bool) op" where
  "delete_pair rows put p = io (\<lambda>s. (Inr (p \<in> set (rows s)), put (del_rows (\<lambda>q. q = p) (rows s)) s))"

text \<open>
  \<open>UPDATE \<dots> SET n = n + ? WHERE id = ?\<close> on an unsigned column of \<open>w\<close> bits: a value out of its range is an error
  and the statement changes nothing.
\<close>

definition add_unsigned ::
  "nat \<Rightarrow> ('t \<Rightarrow> u64) \<Rightarrow> ('t \<Rightarrow> int) \<Rightarrow> ((int \<Rightarrow> int) \<Rightarrow> 't \<Rightarrow> 't) \<Rightarrow> ('r io_st_scheme \<Rightarrow> 't list) \<Rightarrow>
   ('t list \<Rightarrow> 'r io_st_scheme \<Rightarrow> 'r io_st_scheme) \<Rightarrow> u64 \<Rightarrow> int \<Rightarrow> ('r io_st_scheme, unit) op" where
  "add_unsigned w key col upd rows put i d = io (\<lambda>s.
     if \<exists>r \<in> set (rows s). key r = i \<and> \<not> (0 \<le> col r + d \<and> col r + d < 2 ^ w) then (Inl OutOfRange, s)
     else (Inr (), put (upd_rows (\<lambda>r. key r = i) (upd (\<lambda>n. n + d)) (rows s)) s))"

text \<open>\<open>HINCRBY\<close> by one up or down: the sum must fit 64 bits.\<close>

definition hincr :: "int option \<Rightarrow> int \<Rightarrow> int option" where
  "hincr cur d = (let n = (case cur of None \<Rightarrow> 0 | Some n \<Rightarrow> n) + d in if i64_ok n then Some n else None)"

section \<open>Articles\<close>

text \<open>\<open>Preload("Tags").First\<close>\<close>

definition get_article_by_id :: "u64 \<Rightarrow> ('r blog_st_scheme, article \<times> tag list) op" where
  "get_article_by_id i = bnd (io (\<lambda>s. case row_of art_id i (articles s) of
       None \<Rightarrow> (Inl RecordNotFound, s) | Some a \<Rightarrow> (Inr a, s))) (\<lambda>a.
     bnd (io (gets (\<lambda>s. tags_of s i))) (\<lambda>ts. ret (a, ts)))"

definition get_articles_by_ids :: "u64 list \<Rightarrow> ('r blog_st_scheme, article list) op" where
  "get_articles_by_ids ids = io (gets (\<lambda>s. filter (\<lambda>a. art_id a \<in> set ids) (articles s)))"

end
