(* ===== verification/Comments.thy ===== *)
theory Comments
  imports Blog
begin

text \<open>
  Comments: the repository src/database/comment_sql.go, the Redis keys of src/database/redis.go, CommentService
  (src/service/comment_service.go) and the handlers src/handler/comment_handler.go. The notification of a new
  comment runs in a goroutine of its own: it is queued in \<open>pending_notices\<close> and run by \<open>run_notice\<close>.
\<close>

section \<open>The repository\<close>

text \<open>The lookup selects four columns: the others read as zero.\<close>

definition get_comment_by_id :: "u64 \<Rightarrow> ('r blog_st_scheme, comment) op" where
  "get_comment_by_id i = io (\<lambda>s. case first_row com_id (\<lambda>c. com_id c = i) (comments s) of
       None \<Rightarrow> (Inl RecordNotFound, s)
     | Some c \<Rightarrow> (Inr \<lparr>com_article = 0, com_id = com_id c, com_user = com_user c, com_root = com_root c, com_parent = 0,
         com_reply_user = 0, com_content = [], com_type = com_type c, com_likes = 0, com_created = zero_time\<rparr>, s))"

definition delete_comment_by_id :: "u64 \<Rightarrow> u64 \<Rightarrow> ('r blog_st_scheme, unit) op" where
  "delete_comment_by_id i u = (if i = 0 \<or> u = 0 then throw InvalidData else
     io (modify (\<lambda>s. s\<lparr>comments := del_rows (\<lambda>c. com_id c = i \<and> com_user c = u) (comments s)\<rparr>)))"

text \<open>GORM fills in the default type and the time; the key is the article with the id.\<close>

definition create_comment_row :: "comment \<Rightarrow> ('r blog_st_scheme, comment) op" where
  "create_comment_row c = bnd (gets clock_now) (\<lambda>now.
     let c = c\<lparr>com_type := (if com_type c = [] then ''comment'' else com_type c),
               com_created := (if com_created c = zero_time then now else com_created c)\<rparr> in
     io (\<lambda>s. if \<exists>q \<in> set (comments s). com_article q = com_article c \<and> com_id q = com_id c then (Inl DupKey, s)
       else (Inr c, s\<lparr>comments := comments s @ [c]\<rparr>)))"

definition get_root_ids_by_article_id :: "u64 \<Rightarrow> int \<Rightarrow> int \<Rightarrow> ('r blog_st_scheme, u64 list) op" where
  "get_root_ids_by_article_id a page sz = query_rows (\<lambda>s. map_sum id (map com_id) (offset_limit (i64 (i64 (page - 1) * sz)) sz
     (newest_first com_created (filter (\<lambda>c. com_article c = a \<and> com_root c = 0) (comments s)))))"

text \<open>The associations \<open>User\<close> and \<open>ReplyUser\<close>: two more queries, when there are rows.\<close>

type_synonym comment_row = "comment \<times> user option \<times> user option"

definition preload_users :: "comment list \<Rightarrow> ('r blog_st_scheme, comment_row list) op" where
  "preload_users rows = (if rows = [] then ret [] else
     bnd (io (gets users)) (\<lambda>rs. bnd (io (gets users)) (\<lambda>us.
     ret (map (\<lambda>c. (c, row_of u_id (com_user c) us, row_of u_id (com_reply_user c) rs)) rows))))"

definition get_comment_by_root_id :: "u64 \<Rightarrow> int \<Rightarrow> int \<Rightarrow> ('r blog_st_scheme, comment_row list \<times> int) op" where
  "get_comment_by_root_id i off limit = (let hit = (\<lambda>c. com_id c = i \<or> com_root c = i) in
     bnd (io (gets (\<lambda>s. int (count_rows hit (comments s))))) (\<lambda>total.
     bnd (query_rows (\<lambda>s. offset_limit off limit (sort_key com_created (filter hit (comments s))))) (\<lambda>rows.
     bnd (preload_users rows) (\<lambda>l. ret (l, total)))))"

definition get_comments_by_root_ids :: "u64 list \<Rightarrow> ('r blog_st_scheme, comment_row list) op" where
  "get_comments_by_root_ids ids =
     bnd (io (gets (\<lambda>s. sort_key (\<lambda>c. (com_root c, com_created c))
        (filter (\<lambda>c. com_id c \<in> set ids \<or> com_root c \<in> set ids) (comments s))))) preload_users"

definition count_by_article_id :: "u64 \<Rightarrow> ('r blog_st_scheme, int) op" where
  "count_by_article_id a = io (gets (\<lambda>s. int (count_rows (\<lambda>c. com_article c = a) (comments s))))"

text \<open>The counts that are not zero, by article.\<close>

definition count_by_article_ids :: "u64 list \<Rightarrow> ('r blog_st_scheme, (u64 \<times> int) list) op" where
  "count_by_article_ids ids = (if ids = [] then ret [] else io (gets (\<lambda>s.
     map (\<lambda>a. (a, int (count_rows (\<lambda>c. com_article c = a) (comments s))))
       (remdups (filter (\<lambda>a. a \<in> set ids) (map com_article (comments s)))))))"

definition ensure_comment_like_state :: "u64 \<Rightarrow> u64 \<Rightarrow> bool \<Rightarrow> ('r blog_st_scheme, bool) op" where
  "ensure_comment_like_state u c cancel = (if u = 0 \<or> c = 0 then throw InvalidData
     else if \<not> cancel then insert_ignore comment_likes (\<lambda>v. comment_likes_update (\<lambda>_. v)) (u, c)
     else delete_pair comment_likes (\<lambda>v. comment_likes_update (\<lambda>_. v)) (u, c))"

text \<open>The deltas in the order in which the map is walked.\<close>

definition batch_increment_comment_stats :: "(u64 \<times> int) list \<Rightarrow> ('r blog_st_scheme, unit) op" where
  "batch_increment_comment_stats deltas = (if deltas = [] then ret () else
     tx content_rollback (for_each deltas (\<lambda>(i, d). if d = 0 then ret () else
       add_unsigned 32 com_id com_likes com_likes_update comments (\<lambda>v. comments_update (\<lambda>_. v)) i d)))"

definition list_cy_by_user_id :: "u64 \<Rightarrow> ('r blog_st_scheme, comment list) op" where
  "list_cy_by_user_id u =
     bnd (io (gets (\<lambda>s. newest_first com_created (filter (\<lambda>c. com_user c = u \<and> com_type c = ''cy'') (comments s))))) (\<lambda>l.
     if l = [] then ret l else bnd (io (gets users)) (\<lambda>_. ret l))"

definition get_cy_comment_ids_by_article :: "u64 \<Rightarrow> ('r blog_st_scheme, u64 list) op" where
  "get_cy_comment_ids_by_article a =
     io (gets (\<lambda>s. map com_id (filter (\<lambda>c. com_article c = a \<and> com_type c = ''cy'') (comments s))))"

section \<open>Redis\<close>

text \<open>A nil client is dereferenced by the counters, and checked by the lists.\<close>

definition comment_hincr :: "u64 \<Rightarrow> int \<Rightarrow> ('r blog_st_scheme, unit) op" where
  "comment_hincr c d = bnd (gets comment_redis) (\<lambda>on. if \<not> on then throw GoPanic else
     io (\<lambda>s. case hincr (comment_stats s c) d of
       None \<Rightarrow> (Inl IOError, s) | Some n \<Rightarrow> (Inr (), s\<lparr>comment_stats := (comment_stats s)(c \<mapsto> n)\<rparr>)))"

definition comment_incr_stats :: "u64 \<Rightarrow> ('r blog_st_scheme, unit) op" where
  "comment_incr_stats c = comment_hincr c 1"

definition comment_decr_stats :: "u64 \<Rightarrow> ('r blog_st_scheme, unit) op" where
  "comment_decr_stats c = comment_hincr c (-1)"

definition comment_init_stats :: "u64 \<Rightarrow> int \<Rightarrow> ('r blog_st_scheme, unit) op" where
  "comment_init_stats c n = bnd (gets comment_redis) (\<lambda>on. if \<not> on then throw GoPanic else
     ignore (io (modify (\<lambda>s. s\<lparr>comment_stats := (comment_stats s)(c := Some (case comment_stats s c of None \<Rightarrow> n | Some m \<Rightarrow> m))\<rparr>))))"

definition comment_get_stats :: "u64 \<Rightarrow> ('r blog_st_scheme, int) op" where
  "comment_get_stats c = bnd (gets comment_redis) (\<lambda>on. if \<not> on then throw GoPanic else
     io (gets (\<lambda>s. case comment_stats s c of None \<Rightarrow> 0 | Some n \<Rightarrow> n)))"

definition get_user_cy_list :: "u64 \<Rightarrow> ('r blog_st_scheme, comment list option) op" where
  "get_user_cy_list u = cache_get comment_redis cy_cache u"

definition set_user_cy_list :: "u64 \<Rightarrow> comment list \<Rightarrow> ('r blog_st_scheme, unit) op" where
  "set_user_cy_list u l = cache_put comment_redis cy_cache_update u l"

definition delete_user_cy_list :: "u64 \<Rightarrow> ('r blog_st_scheme, unit) op" where
  "delete_user_cy_list u = cache_del comment_redis cy_cache_update u"

definition get_article_comment_list :: "u64 \<Rightarrow> int \<Rightarrow> int \<Rightarrow> int \<Rightarrow> ('r blog_st_scheme, (floor list \<times> int) option) op" where
  "get_article_comment_list a page sz limit = cache_get comment_redis floor_cache (a, page, sz, limit)"

definition set_article_comment_list :: "u64 \<Rightarrow> int \<Rightarrow> int \<Rightarrow> int \<Rightarrow> floor list \<times> int \<Rightarrow> ('r blog_st_scheme, unit) op" where
  "set_article_comment_list a page sz limit v = cache_put comment_redis floor_cache_update (a, page, sz, limit) v"

definition invalidate_article_comment_list :: "u64 \<Rightarrow> ('r blog_st_scheme, unit) op" where
  "invalidate_article_comment_list a = (if a = 0 then ret () else bnd (gets scan_split) (\<lambda>split.
     delete_keys_by_pattern comment_redis split floor_cache floor_cache_update (\<lambda>k. fst k = a)))"

section \<open>A page of floors\<close>

definition user_view :: "user option \<Rightarrow> comment_user" where
  "user_view u = (case u of None \<Rightarrow> \<lparr>cu_id = 0, cu_name = [], cu_avatar = []\<rparr>
     | Some u \<Rightarrow> \<lparr>cu_id = u_id u, cu_name = u_name u, cu_avatar = u_avatar u\<rparr>)"

definition convert_to_vo :: "comment_row \<Rightarrow> comment_vo" where
  "convert_to_vo r = (case r of (c, u, ru) \<Rightarrow> \<lparr>cv_id = com_id c, cv_root = com_root c, cv_user = user_view u,
     cv_reply = (if com_reply_user c \<noteq> 0 \<and> cu_id (user_view ru) \<noteq> 0
       then Some ((user_view ru)\<lparr>cu_avatar := []\<rparr>) else None),
     cv_content = com_content c, cv_type = com_type c, cv_likes = com_likes c, cv_created = com_created c\<rparr>)"

definition blank_vo :: comment_vo where
  "blank_vo = \<lparr>cv_id = 0, cv_root = 0, cv_user = user_view None, cv_reply = None, cv_content = [], cv_type = [],
     cv_likes = 0, cv_created = zero_time\<rparr>"

text \<open>
  The loop over the comments of the page: the map of the floors and the set of the full ones. \<open>None\<close> is the nil
  dereference on a root that is not in the map.
\<close>

type_synonym floors = "(u64 \<Rightarrow> floor option) \<times> (u64 \<Rightarrow> bool)"

definition place_comment :: "int \<Rightarrow> comment_row \<Rightarrow> floors \<Rightarrow> floors option" where
  "place_comment limit r fl = (case fl of (m, full) \<Rightarrow> let c = fst r in
     if com_root c = 0 then
       (case m (com_id c) of None \<Rightarrow> None | Some f \<Rightarrow> Some (m(com_id c \<mapsto> (convert_to_vo r, snd f)), full))
     else if full (com_root c) then Some (m, full)
     else (case m (com_root c) of None \<Rightarrow> Some (m, full)
       | Some f \<Rightarrow>
          if int (length (snd f)) < limit then
            let children = snd f @ [convert_to_vo r] in
            Some (m(com_root c \<mapsto> (fst f, children)), if int (length children) \<ge> limit then full(com_root c := True) else full)
          else Some (m, full)))"

fun place_comments :: "int \<Rightarrow> comment_row list \<Rightarrow> floors \<Rightarrow> floors option" where
  "place_comments limit [] fl = Some fl"
| "place_comments limit (r # rs) fl = (case place_comment limit r fl of None \<Rightarrow> None | Some fl \<Rightarrow> place_comments limit rs fl)"

text \<open>\<open>make([]*T, 0, limit)\<close> panics on a negative capacity and on one of more than 2\<open>^\<close>48 bytes.\<close>

definition make_panics :: "int \<Rightarrow> bool" where
  "make_panics limit \<longleftrightarrow> limit < 0 \<or> limit > 2 ^ 45"

definition load_comment_by_article_id :: "u64 \<Rightarrow> int \<Rightarrow> int \<Rightarrow> int \<Rightarrow> ('r blog_st_scheme, floor list \<times> int) op" where
  "load_comment_by_article_id a page sz limit =
     bnd (get_root_ids_by_article_id a page sz) (\<lambda>ids. if ids = [] then ret ([], 0) else
     bnd (count_by_article_id a) (\<lambda>total. if make_panics limit then throw GoPanic else
     bnd (get_comments_by_root_ids ids) (\<lambda>rows.
     case place_comments limit rows (\<lambda>i. if i \<in> set ids then Some (blank_vo, []) else None, \<lambda>_. False) of
       None \<Rightarrow> throw GoPanic
     | Some (m, _) \<Rightarrow> ret (map (\<lambda>i. the (m i)) ids, total))))"

definition get_comment_by_article_id :: "u64 \<Rightarrow> int \<Rightarrow> int \<Rightarrow> int \<Rightarrow> ('r blog_st_scheme, floor list \<times> int) op" where
  "get_comment_by_article_id a page sz limit = read_through (get_article_comment_list a page sz limit)
     (load_comment_by_article_id a page sz limit) (set_article_comment_list a page sz limit)"

definition get_comment_floor_details :: "u64 \<Rightarrow> int \<Rightarrow> int \<Rightarrow> ('r blog_st_scheme, comment_row list \<times> int) op" where
  "get_comment_floor_details i off limit = get_comment_by_root_id i off limit"

section \<open>Notifications\<close>

definition txt_replied :: string where
  "txt_replied = utf8 [32, 229, 155, 158, 229, 164, 141, 228, 186, 134, 228, 189, 160, 239, 188, 154]"

definition txt_commented :: string where
  "txt_commented = utf8 [32, 232, 175, 132, 232, 174, 186, 228, 186, 134, 228, 189, 160, 231, 154, 132, 230, 150, 135, 231, 171, 160, 227, 128, 138]"

definition txt_title_end :: string where
  "txt_title_end = utf8 [227, 128, 139, 58]"

definition content_preview :: "string \<Rightarrow> string" where
  "content_preview s = (let rs = runes s in
     if length rs > 15 then concat (map rune_text (take 15 rs)) @ ''...'' else s)"

definition notify_push :: "notice \<Rightarrow> ('r blog_st_scheme, unit) op" where
  "notify_push n = bnd (gets notify_on) (\<lambda>on. guarded on (modify (\<lambda>s. s\<lparr>notified := notified s @ [n]\<rparr>)))"

definition send_comment_notification :: "comment \<Rightarrow> ('r blog_st_scheme, unit) op" where
  "send_comment_notification c =
     bnd (attempt (get_user_by_id (com_user c))) (\<lambda>u.
     let sender = (case u of Inr u \<Rightarrow> if u_name u \<noteq> [] then u_name u else ''UID:'' @ show_u64 (com_user c)
                     | Inl _ \<Rightarrow> ''UID:'' @ show_u64 (com_user c)); preview = content_preview (com_content c) in
     if com_parent c \<noteq> 0 then
       (if com_reply_user c = com_user c then ret ()
        else notify_push \<lparr>no_to = com_reply_user c, no_from = com_user c, no_sender = sender,
          no_msg = sender @ txt_replied @ preview, no_type = ''reply''\<rparr>)
     else bnd (attempt (get_article_by_id (com_article c))) (\<lambda>r. case r of
       Inl _ \<Rightarrow> ret ()
     | Inr (a, _) \<Rightarrow> if art_author a = com_user c then ret () else
         notify_push \<lparr>no_to = art_author a, no_from = com_user c, no_sender = sender,
           no_msg = sender @ txt_commented @ art_title a @ txt_title_end @ preview, no_type = ''comment''\<rparr>))"

text \<open>One of the goroutines that were started runs.\<close>

definition run_notice :: "nat \<Rightarrow> ('r blog_st_scheme, unit) op" where
  "run_notice n = (\<lambda>s. if n < length (pending_notices s)
     then send_comment_notification (pending_notices s ! n)
       (s\<lparr>pending_notices := take n (pending_notices s) @ drop (Suc n) (pending_notices s)\<rparr>)
     else (Inr (), s))"

section \<open>The service\<close>

definition service_create_comment :: "comment \<Rightarrow> ('r blog_st_scheme, comment) op" where
  "service_create_comment c =
     bnd (create_comment_row c) (\<lambda>c.
     bnd (modify (\<lambda>s. s\<lparr>pending_notices := pending_notices s @ [c]\<rparr>)) (\<lambda>_.
     bnd (ignore (enqueue_earn (com_user c) ''comment'' (com_id c) 0)) (\<lambda>_.
     bnd (ignore (invalidate_article_comment_list (com_article c))) (\<lambda>_. ret c))))"

definition service_delete_comment :: "u64 \<Rightarrow> u64 \<Rightarrow> ('r blog_st_scheme, unit) op" where
  "service_delete_comment u i = (if u = 0 \<or> i = 0 then throw ErrInternalServer else
     bnd (attempt (get_comment_by_id i)) (\<lambda>r. case r of
       Inl e \<Rightarrow> throw (if e = RecordNotFound then ErrCommentNotFound else e)
     | Inr c \<Rightarrow> if com_user c \<noteq> u then throw ErrCommentNoPermission else
         bnd (delete_comment_by_id i u) (\<lambda>_.
         bnd (guarded (com_type c = ''cy'') (ignore (delete_user_cy_list u))) (\<lambda>_.
         guarded (com_article c \<noteq> 0) (ignore (invalidate_article_comment_list (com_article c)))))))"

definition publish_comment_action :: "comment_action \<Rightarrow> ('r blog_st_scheme, unit) op" where
  "publish_comment_action a = bnd (gets nsq_on) (\<lambda>on. if \<not> on then throw (PlainError ''nsq producer is not initialized'') else
     io (modify (\<lambda>s. s\<lparr>comment_topic := comment_topic s @ [a]\<rparr>)))"

definition like_comment :: "u64 \<Rightarrow> u64 \<Rightarrow> bool \<Rightarrow> ('r blog_st_scheme, unit) op" where
  "like_comment i u cancel = (if u = 0 \<or> i = 0 then throw (PlainError ''invalid user_id/comment_id'') else
     bnd (ensure_comment_like_state u i cancel) (\<lambda>changed. if \<not> changed then ret () else
     bnd (if cancel then comment_decr_stats i else comment_incr_stats i) (\<lambda>_.
     bnd (gets clock_now) (\<lambda>now.
     bnd (attempt (publish_comment_action \<lparr>ca_type = (if cancel then ''unlike'' else ''like''), ca_comment = i, ca_user = u,
        ca_time = now div 1000000000\<rparr>)) (\<lambda>r. case r of
       Inl e \<Rightarrow> bnd (ignore (if cancel then comment_incr_stats i else comment_decr_stats i)) (\<lambda>_. throw e)
     | Inr _ \<Rightarrow> if cancel then ret () else
         bnd (attempt (get_comment_by_id i)) (\<lambda>c. case c of
           Inl _ \<Rightarrow> ret ()
         | Inr c \<Rightarrow> if com_user c = u then ret () else ignore (enqueue_earn (com_user c) ''comment_liked'' i u)))))))"

definition create_cy :: "comment \<Rightarrow> ('r blog_st_scheme, comment) op" where
  "create_cy c =
     bnd (create_comment_row (c\<lparr>com_type := ''cy''\<rparr>)) (\<lambda>saved.
     bnd (ignore (delete_user_cy_list (com_user saved))) (\<lambda>_.
     bnd (ignore (invalidate_article_comment_list (com_article saved))) (\<lambda>_. ret saved)))"

definition get_my_cy_list :: "u64 \<Rightarrow> ('r blog_st_scheme, comment list) op" where
  "get_my_cy_list u = (if u = 0 then throw ErrInternalServer else
     read_through (get_user_cy_list u) (list_cy_by_user_id u) (set_user_cy_list u))"

record cy_item =
  cy_comment :: u64
  cy_article :: u64
  cy_title :: string
  cy_content :: string
  cy_created :: int

definition txt_article_gone :: string where
  "txt_article_gone = utf8 [230, 150, 135, 231, 171, 160, 229, 183, 178, 229, 136, 160, 233, 153, 164, 230, 136, 150, 228, 184, 141, 229, 143, 175, 231, 148, 168]"

definition list_my_cy_for_display :: "u64 \<Rightarrow> ('r blog_st_scheme, cy_item list) op" where
  "list_my_cy_for_display u =
     bnd (get_my_cy_list u) (\<lambda>l. if l = [] then ret [] else
     let ids = remdups (filter (\<lambda>i. i \<noteq> 0) (map com_article l)) in
     bnd (if ids = [] then ret [] else bnd (attempt (get_articles_by_ids ids)) (\<lambda>r. ret (case r of Inl _ \<Rightarrow> [] | Inr l \<Rightarrow> l))) (\<lambda>arts.
     ret (map (\<lambda>c. \<lparr>cy_comment = com_id c, cy_article = com_article c,
       cy_title = (case row_of art_id (com_article c) arts of None \<Rightarrow> txt_article_gone
         | Some a \<Rightarrow> if art_title a = [] then txt_article_gone else art_title a),
       cy_content = com_content c, cy_created = com_created c\<rparr>) l)))"

section \<open>Handlers\<close>

text \<open>A bound body: the article and the content are not empty, the content has at most 500 (200) runes.\<close>

record comment_param =
  pc_article :: u64
  pc_parent :: u64
  pc_content :: string

definition blank_comment :: comment where
  "blank_comment = \<lparr>com_article = 0, com_id = 0, com_user = 0, com_root = 0, com_parent = 0, com_reply_user = 0,
     com_content = [], com_type = [], com_likes = 0, com_created = zero_time\<rparr>"

text \<open>The floor that an answer belongs to, and whom it answers; an unknown parent is ignored.\<close>

definition answer_to :: "u64 \<Rightarrow> ('r blog_st_scheme, u64 \<times> u64) op" where
  "answer_to parent = (if parent = 0 then ret (0, 0) else
     bnd (attempt (get_comment_by_id parent)) (\<lambda>r. ret (case r of
       Inl _ \<Rightarrow> (0, 0)
     | Inr p \<Rightarrow> (if com_root p \<noteq> 0 then com_root p else com_id p, com_user p))))"

definition create_comment_handler :: "u64 \<Rightarrow> comment_param option \<Rightarrow> ('r blog_st_scheme, string \<times> string) op" where
  "create_comment_handler u body = with_body body (\<lambda>p.
     bnd (answer_to (pc_parent p)) (\<lambda>(root, reply).
     bnd generate_id (\<lambda>i.
     bnd (or_busy (service_create_comment (blank_comment\<lparr>com_id := i, com_user := u, com_article := pc_article p,
        com_parent := pc_parent p, com_content := pc_content p, com_root := root, com_reply_user := reply\<rparr>))) (\<lambda>c.
     ret (show_u64 (com_id c), com_content c)))))"

definition get_article_comment ::
  "string \<Rightarrow> string option \<Rightarrow> string option \<Rightarrow> string option \<Rightarrow> ('r blog_st_scheme, floor list \<times> int) op" where
  "get_article_comment a page sz limit = (case parse_uint a of None \<Rightarrow> throw ErrCodeInvalidParam
     | Some a \<Rightarrow> or_busy (get_comment_by_article_id a (query_int page ''1'') (query_int sz ''10'') (query_int limit ''2'')))"

text \<open>\<open>id, _ := strconv.ParseUint(s, 10, 64)\<close>: the largest number when out of range.\<close>

definition parse_uint_or_zero :: "string \<Rightarrow> u64" where
  "parse_uint_or_zero s = (if s = [] then 0 else case digits_val 0 s of
     None \<Rightarrow> 0 | Some n \<Rightarrow> if n < 2 ^ 64 then of_nat n else - 1)"

definition get_comment_detail ::
  "string \<Rightarrow> string option \<Rightarrow> string option \<Rightarrow> ('r blog_st_scheme, comment_row list \<times> int) op" where
  "get_comment_detail root page sz =
     (let i = parse_uint_or_zero root; page = query_int page ''1''; sz = query_int sz ''20'' in
      or_busy (get_comment_floor_details i (i64 (i64 (page - 1) * sz)) sz))"

definition delete_comment_handler :: "u64 \<Rightarrow> string \<Rightarrow> ('r blog_st_scheme, string) op" where
  "delete_comment_handler u i = (case parse_uint i of None \<Rightarrow> throw ErrCodeInvalidParam
     | Some i \<Rightarrow> if i = 0 then throw ErrCodeInvalidParam else if u = 0 then throw ErrInvalidToken else
         bnd (service_delete_comment u i) (\<lambda>_. ret (show_u64 i)))"

text \<open>An id in a body: a string, or a number \<open>v\<close> as whether \<open>v > 0\<close> and the value of the conversion \<open>uint64(v)\<close>.\<close>

datatype body_id = IdText string | IdNumber bool u64 | IdOther

definition read_body_id :: "body_id \<Rightarrow> u64 option" where
  "read_body_id v = (case v of
       IdText s \<Rightarrow> (case parse_uint (trim_space s) of None \<Rightarrow> None | Some i \<Rightarrow> if i = 0 then None else Some i)
     | IdNumber positive n \<Rightarrow> if positive then Some n else None
     | IdOther \<Rightarrow> None)"

definition like_comment_handle :: "u64 option \<Rightarrow> (body_id \<times> bool) option \<Rightarrow> ('r blog_st_scheme, unit) op" where
  "like_comment_handle u body = with_body body (\<lambda>(v, cancel). case read_body_id v of
       None \<Rightarrow> throw ErrCodeInvalidParam
     | Some i \<Rightarrow> (case u of None \<Rightarrow> throw ErrInvalidToken | Some u \<Rightarrow> or_busy (like_comment i u cancel)))"

definition create_cy_handle :: "u64 \<Rightarrow> (u64 \<times> string) option \<Rightarrow> ('r blog_st_scheme, string) op" where
  "create_cy_handle u body = with_body body (\<lambda>(a, content).
     bnd generate_id (\<lambda>i.
     bnd (or_busy (create_cy (blank_comment\<lparr>com_id := i, com_user := u, com_article := a, com_content := content\<rparr>))) (\<lambda>c.
     ret (show_u64 (com_id c)))))"

definition get_my_cy_list_handle :: "u64 \<Rightarrow> ('r blog_st_scheme, cy_item list) op" where
  "get_my_cy_list_handle u = or_busy (list_my_cy_for_display u)"

end
