(* ===== verification/CommentProps.thy ===== *)
theory CommentProps
  imports Comments GameStore
begin

text \<open>
  What the comments of a page are, and what liking and deleting leave behind.
\<close>

section \<open>The page of floors\<close>

text \<open>The reference: the roots of the page, newest first, each with its first \<open>limit\<close> replies, oldest first.\<close>

definition with_users :: "'r blog_st_scheme \<Rightarrow> comment \<Rightarrow> comment_row" where
  "with_users s c = (c, row_of u_id (com_user c) (users s), row_of u_id (com_reply_user c) (users s))"

definition replies_of :: "'r blog_st_scheme \<Rightarrow> u64 \<Rightarrow> comment list" where
  "replies_of s i = sort_key com_created (filter (\<lambda>c. com_root c = i \<and> com_root c \<noteq> 0) (comments s))"

definition floor_of :: "'r blog_st_scheme \<Rightarrow> int \<Rightarrow> comment \<Rightarrow> floor" where
  "floor_of s limit r = (convert_to_vo (with_users s r),
     map (convert_to_vo \<circ> with_users s) (take (nat limit) (replies_of s (com_id r))))"

definition page_roots :: "'r blog_st_scheme \<Rightarrow> u64 \<Rightarrow> int \<Rightarrow> int \<Rightarrow> err + comment list" where
  "page_roots s a page sz = offset_limit (i64 (i64 (page - 1) * sz)) sz
     (newest_first com_created (filter (\<lambda>c. com_article c = a \<and> com_root c = 0) (comments s)))"

definition floor_page :: "'r blog_st_scheme \<Rightarrow> u64 \<Rightarrow> int \<Rightarrow> int \<Rightarrow> int \<Rightarrow> err + floor list \<times> int" where
  "floor_page s a page sz limit = map_sum id (\<lambda>roots. if roots = [] then ([], 0)
     else (map (floor_of s limit) roots, int (count_rows (\<lambda>c. com_article c = a) (comments s)))) (page_roots s a page sz)"

lemma page_roots_sub: "page_roots s a page sz = Inr roots \<Longrightarrow> r \<in> set roots \<Longrightarrow> r \<in> set (comments s) \<and> com_root r = 0"
  by (auto simp: page_roots_def offset_limit_def split: if_splits dest!: in_set_takeD in_set_dropD)

lemma same_option: "(\<And>x. v = Some x \<Longrightarrow> f x = x) \<Longrightarrow> v = map_option f v"
  by (cases v) auto

lemma filter_unique: "distinct (map f xs) \<Longrightarrow> x \<in> set xs \<Longrightarrow> filter (\<lambda>y. f y = f x) xs = [x]"
  by (induction xs) (auto simp: filter_empty_conv image_iff)

text \<open>The loop that distributes the rows over the floors.\<close>

definition root_rows :: "u64 \<Rightarrow> comment_row list \<Rightarrow> comment_row list" where
  "root_rows i rows = filter (\<lambda>r. com_root (fst r) = 0 \<and> com_id (fst r) = i) rows"

definition reply_rows :: "u64 \<Rightarrow> comment_row list \<Rightarrow> comment_row list" where
  "reply_rows i rows = filter (\<lambda>r. com_root (fst r) \<noteq> 0 \<and> com_root (fst r) = i) rows"

definition floors_ok :: "int \<Rightarrow> floors \<Rightarrow> bool" where
  "floors_ok limit fl \<longleftrightarrow> (\<forall>i f. fst fl i = Some f \<longrightarrow> length (snd f) \<le> nat limit \<and> (snd fl i \<longrightarrow> length (snd f) = nat limit))"

definition grow :: "int \<Rightarrow> comment_row list \<Rightarrow> u64 \<Rightarrow> floor \<Rightarrow> floor" where
  "grow limit rows i f = ((if root_rows i rows = [] then fst f else convert_to_vo (last (root_rows i rows))),
     take (nat limit) (snd f @ map convert_to_vo (reply_rows i rows)))"

lemma place_comment_step:
  assumes "0 \<le> limit" and "floors_ok limit fl" and "com_root (fst r) = 0 \<Longrightarrow> fst fl (com_id (fst r)) \<noteq> None"
  obtains m full where "place_comment limit r fl = Some (m, full)" and "floors_ok limit (m, full)"
    and "\<And>i. m i = map_option (grow limit [r] i) (fst fl i)"
proof (cases fl)
  case (Pair m0 full0)
  have short: "\<And>i f. m0 i = Some f \<Longrightarrow> length (snd f) \<le> nat limit"
    and full: "\<And>i f. m0 i = Some f \<Longrightarrow> full0 i \<Longrightarrow> length (snd f) = nat limit"
    using assms(2) by (auto simp: floors_ok_def Pair)
  have "\<exists>m full. place_comment limit r fl = Some (m, full) \<and> floors_ok limit (m, full) \<and>
      (\<forall>i. m i = map_option (grow limit [r] i) (fst fl i))"
  proof (cases "com_root (fst r) = 0")
    case True
    then obtain f where "m0 (com_id (fst r)) = Some f" using assms(3) by (auto simp: Pair)
    with True short full show ?thesis
      by (auto simp: place_comment_def Pair floors_ok_def grow_def root_rows_def reply_rows_def same_option intro!: prod_eqI)
  next
    case False
    show ?thesis
    proof (cases "m0 (com_root (fst r))")
      case None
      with False short full show ?thesis
        by (auto simp: place_comment_def Pair Let_def floors_ok_def grow_def root_rows_def reply_rows_def intro!: same_option)
    next
      case (Some f)
      have fits: "\<not> int n < limit \<Longrightarrow> nat limit \<le> n" for n by linarith
      from Some False short [OF Some] full short assms(1) show ?thesis
        by (auto simp: place_comment_def Pair Let_def floors_ok_def grow_def root_rows_def reply_rows_def
          fits intro!: prod_eqI same_option)
    qed
  qed
  then show ?thesis using that by blast
qed

lemma grow_Cons:
  "grow limit rows i (grow limit [r] i f) = grow limit (r # rows) i f"
  by (auto simp: grow_def root_rows_def reply_rows_def take_append min_def take_Cons' Suc_le_eq)

lemma place_comments_result:
  assumes "0 \<le> limit" and "floors_ok limit fl" and "\<And>r. r \<in> set rows \<Longrightarrow> com_root (fst r) = 0 \<Longrightarrow> fst fl (com_id (fst r)) \<noteq> None"
  shows "\<exists>full. place_comments limit rows fl = Some (\<lambda>i. map_option (grow limit rows i) (fst fl i), full)"
  using assms(2,3)
proof (induction rows arbitrary: fl)
  case Nil
  have "map_option (grow limit [] i) (fst fl i) = fst fl i" for i
    using Nil(1) by (cases "fst fl i") (auto simp: grow_def root_rows_def reply_rows_def floors_ok_def)
  then show ?case by (cases fl) auto
next
  case (Cons r rows)
  obtain m full where step: "place_comment limit r fl = Some (m, full)" "floors_ok limit (m, full)"
    "\<And>i. m i = map_option (grow limit [r] i) (fst fl i)"
    using place_comment_step [OF assms(1) Cons.prems(1), of r] Cons.prems(2) by (metis list.set_intros(1))
  have "\<And>q. q \<in> set rows \<Longrightarrow> com_root (fst q) = 0 \<Longrightarrow> m (com_id (fst q)) \<noteq> None"
    using Cons.prems(2) by (auto simp: step(3))
  from Cons.IH [OF step(2)] this obtain full' where
    "place_comments limit rows (m, full) = Some (\<lambda>i. map_option (grow limit rows i) (m i), full')" by auto
  then show ?case by (auto simp: step(1,3) option.map_comp comp_def grow_Cons)
qed

lemma sort_pair_constant:
  "(\<And>x. x \<in> set xs \<Longrightarrow> f x = i) \<Longrightarrow> sort_key (\<lambda>x. (f x, g x)) xs = sort_key g xs"
proof (induction xs)
  case (Cons x xs)
  have "\<forall>y \<in> set ys. f y = i \<Longrightarrow> insort_key (\<lambda>x. (f x, g x)) x ys = insort_key g x ys" for ys
    using Cons.prems [of x] by (induction ys) auto
  moreover have "\<forall>y \<in> set (sort_key g xs). f y = i" using Cons.prems by simp
  ultimately show ?case using Cons by simp
qed simp

definition floor_rows :: "'r blog_st_scheme \<Rightarrow> u64 list \<Rightarrow> comment_row list" where
  "floor_rows s ids = map (with_users s) (sort_key (\<lambda>c. (com_root c, com_created c))
     (filter (\<lambda>c. com_id c \<in> set ids \<or> com_root c \<in> set ids) (comments s)))"

lemma reply_rows_of: "i \<in> set ids \<Longrightarrow> reply_rows i (floor_rows s ids) = map (with_users s) (replies_of s i)"
proof -
  assume "i \<in> set ids"
  then have "filter (\<lambda>c. com_root c \<noteq> 0 \<and> com_root c = i) (filter (\<lambda>c. com_id c \<in> set ids \<or> com_root c \<in> set ids) (comments s)) =
      filter (\<lambda>c. com_root c = i \<and> com_root c \<noteq> 0) (comments s)"
    by (auto simp: filter_filter intro: filter_cong)
  then show ?thesis
    using sort_pair_constant [of "filter (\<lambda>c. com_root c = i \<and> com_root c \<noteq> 0) (comments s)" com_root i com_created]
    by (simp add: reply_rows_def floor_rows_def filter_map comp_def with_users_def replies_of_def filter_sort)
qed

lemma root_rows_of:
  assumes "distinct (map com_id (comments s))" and "r \<in> set (comments s)" and "com_root r = 0" and "com_id r \<in> set ids"
  shows "root_rows (com_id r) (floor_rows s ids) = [with_users s r]"
proof -
  have "filter (\<lambda>c. com_root c = 0 \<and> com_id c = com_id r)
      (filter (\<lambda>c. com_id c \<in> set ids \<or> com_root c \<in> set ids) (comments s)) = filter (\<lambda>c. com_id c = com_id r) (comments s)"
    unfolding filter_filter using assms by (intro filter_cong) (auto simp: distinct_map inj_on_def)
  also have "\<dots> = [r]"
    using assms(1,2) by (rule filter_unique)
  finally show ?thesis
    by (simp add: root_rows_def floor_rows_def filter_map comp_def with_users_def filter_sort)
qed

lemma place_page:
  assumes "0 \<le> limit" and "distinct (map com_id (comments s))" and "\<And>r. r \<in> set roots \<Longrightarrow> r \<in> set (comments s) \<and> com_root r = 0"
    and "\<And>r. r \<in> set roots \<Longrightarrow> com_id r \<noteq> 0"
  shows "\<exists>m full. place_comments limit (floor_rows s (map com_id roots))
      (\<lambda>i. if i \<in> set (map com_id roots) then Some (blank_vo, []) else None, \<lambda>_. False) = Some (m, full) \<and>
    map (\<lambda>i. the (m i)) (map com_id roots) = map (floor_of s limit) roots"
proof -
  let ?ids = "map com_id roots" and ?start = "(\<lambda>i. if i \<in> set (map com_id roots) then Some (blank_vo, []) else None, \<lambda>_. False) :: floors"
  have "com_id (fst r) \<in> set ?ids" if "r \<in> set (floor_rows s ?ids)" and "com_root (fst r) = 0" for r
    using that assms(4) by (auto simp: floor_rows_def with_users_def)
  then have "\<And>r. r \<in> set (floor_rows s ?ids) \<Longrightarrow> com_root (fst r) = 0 \<Longrightarrow> fst ?start (com_id (fst r)) \<noteq> None" by simp
  moreover have "floors_ok limit ?start" by (simp add: floors_ok_def)
  ultimately obtain full where run: "place_comments limit (floor_rows s ?ids) ?start =
      Some (\<lambda>i. map_option (grow limit (floor_rows s ?ids) i) (fst ?start i), full)"
    using place_comments_result [OF assms(1)] by blast
  have "the (map_option (grow limit (floor_rows s ?ids) (com_id r)) (fst ?start (com_id r))) = floor_of s limit r"
    if "r \<in> set roots" for r
    using that assms(3) [OF that] root_rows_of [OF assms(2), of r ?ids] reply_rows_of [of "com_id r" ?ids s]
    by (simp add: grow_def floor_of_def take_map)
  with run show ?thesis by simp
qed

text \<open>A query leaves the state as it is, but for the calls that fail.\<close>

lemma io_read:
  assumes "io (\<lambda>s. (f s, s)) s = (Inr x, t)" and "\<And>fs. f (s\<lparr>faults := fs\<rparr>) = f s"
  shows "f s = Inr x \<and> (\<exists>fs. t = s\<lparr>faults := fs\<rparr>)"
  using assms by (auto elim!: io_InrE)

lemma io_gets_read:
  assumes "io (gets f) s = (Inr x, t)" and "\<And>fs. f (s\<lparr>faults := fs\<rparr>) = f s"
  shows "x = f s \<and> (\<exists>fs. t = s\<lparr>faults := fs\<rparr>)"
  using io_read [of "\<lambda>s. Inr (f s)" s x t] assms by (simp add: gets_def)

lemma preload_users_read:
  assumes "preload_users rows s = (Inr l, t)"
  shows "l = map (with_users s) rows \<and> (\<exists>fs. t = s\<lparr>faults := fs\<rparr>)"
proof (cases "rows = []")
  case False
  with assms obtain a b u where "io (gets users) s = (Inr a, u)" "io (gets users) u = (Inr b, t)"
    "l = map (\<lambda>c. (c, row_of u_id (com_user c) b, row_of u_id (com_reply_user c) a)) rows"
    by (auto simp: preload_users_def bnd_eq_Inr ret_eq)
  then show ?thesis using io_gets_read [of users s a u] io_gets_read [of users u b t] by (auto simp: with_users_def)
qed (use assms in \<open>auto simp: preload_users_def ret_eq intro: exI [of _ "faults s"]\<close>)

lemma reference_faults [simp]:
  "with_users (s\<lparr>faults := fs\<rparr>) = with_users s" "floor_of (s\<lparr>faults := fs\<rparr>) = floor_of s"
  "page_roots (s\<lparr>faults := fs\<rparr>) = page_roots s" "floor_page (s\<lparr>faults := fs\<rparr>) = floor_page s"
  by (simp_all add: fun_eq_iff with_users_def [abs_def] floor_of_def [abs_def] replies_of_def comp_def page_roots_def floor_page_def
    cong: if_cong)

lemma map_sum_eq_Inr: "map_sum f g v = Inr y \<longleftrightarrow> (\<exists>x. v = Inr x \<and> y = g x)"
  by (cases v) auto

lemma root_ids_read:
  assumes "get_root_ids_by_article_id a page sz s = (Inr ids, t)"
  obtains roots fs where "page_roots s a page sz = Inr roots" and "ids = map com_id roots" and "t = s\<lparr>faults := fs\<rparr>"
  using io_read [OF assms [unfolded get_root_ids_by_article_id_def query_rows_def]]
  by (auto simp: page_roots_def map_sum_eq_Inr)

lemma load_page:
  assumes run: "load_comment_by_article_id a page sz limit s = (Inr v, t)"
    and ids: "distinct (map com_id (comments s))" "\<forall>c \<in> set (comments s). com_id c \<noteq> 0"
  shows "floor_page s a page sz limit = Inr v"
proof -
  obtain ids u where u: "get_root_ids_by_article_id a page sz s = (Inr ids, u)" and
    rest: "(if ids = [] then ret ([], 0) else
       bnd (count_by_article_id a) (\<lambda>total. if make_panics limit then throw GoPanic else
       bnd (get_comments_by_root_ids ids) (\<lambda>rows.
       case place_comments limit rows (\<lambda>i. if i \<in> set ids then Some (blank_vo, []) else None, \<lambda>_. False) of
         None \<Rightarrow> throw GoPanic
       | Some (m, _) \<Rightarrow> ret (map (\<lambda>i. the (m i)) ids, total)))) u = (Inr v, t)"
    using run unfolding load_comment_by_article_id_def by (rule bnd_InrE)
  from root_ids_read [OF u] obtain roots fs where roots: "page_roots s a page sz = Inr roots" "ids = map com_id roots"
    and us: "u = s\<lparr>faults := fs\<rparr>" .
  show ?thesis
  proof (cases "roots = []")
    case True
    with rest roots show ?thesis by (simp add: floor_page_def ret_eq)
  next
    case False
    with rest roots obtain total w rows x where total: "count_by_article_id a u = (Inr total, w)"
      and limit: "\<not> make_panics limit" and rows: "get_comments_by_root_ids ids w = (Inr rows, x)"
      and last: "(case place_comments limit rows (\<lambda>i. if i \<in> set ids then Some (blank_vo, []) else None, \<lambda>_. False) of
         None \<Rightarrow> throw GoPanic | Some (m, _) \<Rightarrow> ret (map (\<lambda>i. the (m i)) ids, total)) x = (Inr v, t)"
      by (auto simp: bnd_eq_Inr throw_eq split: if_splits)
    from io_gets_read [OF total [unfolded count_by_article_id_def]] us obtain fs where
      w: "total = int (count_rows (\<lambda>c. com_article c = a) (comments s))" "w = s\<lparr>faults := fs\<rparr>" by auto
    from rows obtain found y where found: "io (gets (\<lambda>s. sort_key (\<lambda>c. (com_root c, com_created c))
        (filter (\<lambda>c. com_id c \<in> set ids \<or> com_root c \<in> set ids) (comments s)))) w = (Inr found, y)"
      and users: "preload_users found y = (Inr rows, x)"
      unfolding get_comments_by_root_ids_def by (rule bnd_InrE)
    from io_gets_read [OF found] w obtain fs where y: "y = s\<lparr>faults := fs\<rparr>" and
      "found = sort_key (\<lambda>c. (com_root c, com_created c)) (filter (\<lambda>c. com_id c \<in> set ids \<or> com_root c \<in> set ids) (comments s))"
      by auto
    with preload_users_read [OF users] roots have "rows = floor_rows s (map com_id roots)" by (auto simp: floor_rows_def)
    moreover have "0 \<le> limit" using limit by (simp add: make_panics_def)
    moreover have "\<And>r. r \<in> set roots \<Longrightarrow> r \<in> set (comments s) \<and> com_root r = 0" using page_roots_sub roots(1) by blast
    ultimately show ?thesis
      using place_page [of limit s roots] last ids False roots w(1) by (auto simp: floor_page_def ret_eq)
  qed
qed

text \<open>C23: when its page is not cached, what the comment list answers is the reference: the roots of the page from the
  newest, each with the first replies of its floor from the oldest, and the number of comments of the article.
\<close>

theorem comment_page_is_the_reference:
  assumes run: "get_comment_by_article_id a page sz limit s = (Inr v, t)"
    and miss: "map_of (floor_cache s) (a, page, sz, limit) = None"
    and ids: "distinct (map com_id (comments s))" "\<forall>c \<in> set (comments s). com_id c \<noteq> 0"
  shows "floor_page s a page sz limit = Inr v"
proof -
  obtain r u where get: "get_article_comment_list a page sz limit s = (r, u)" by (metis prod.collapse)
  then have "r \<in> {Inl IOError, Inr None} \<and> (\<exists>fs. u = s\<lparr>faults := fs\<rparr>)"
    using miss by (auto simp: get_article_comment_list_def cache_get_def bnd_def gets_def ret_def elim: io_cases
      split: if_splits intro: exI [of _ "faults s"])
  then obtain fs where r: "r = Inl IOError \<or> r = Inr None" and u: "u = s\<lparr>faults := fs\<rparr>" by auto
  with run get obtain w where "load_comment_by_article_id a page sz limit (s\<lparr>faults := fs\<rparr>) = (Inr v, w)"
    by (auto simp: get_comment_by_article_id_def read_through_def bnd_eq_Inr attempt_eq_Inr ret_eq split: option.splits)
  from load_page [OF this] ids show ?thesis by simp
qed

section \<open>Deleting and liking\<close>

lemma deleted_comment:
  assumes "calm s" and "service_delete_comment u i s = (Inr (), t)"
  shows "calm t \<and> comment_redis t = comment_redis s \<and> floor_cache t = floor_cache s \<and>
    comments t = del_rows (\<lambda>c. com_id c = i \<and> com_user c = u) (comments s)"
  using assms
  by (auto simp: service_delete_comment_def bnd_eq_Inr attempt_eq_Inr get_comment_by_id_def io_nil calm_def throw_eq
    delete_comment_by_id_def modify_eq guarded_run ignore_eq_Inr delete_user_cy_list_def cy_lists.del_calm
    split: if_splits option.splits sum.splits)

text \<open>Deleting a comment leaves the cached pages of its article: the row is gone, and readers are shown the page with
  the deleted comment until the key expires.
\<close>

theorem deleting_leaves_the_cached_page:
  assumes "calm s" and "comment_redis s" and "map_of (floor_cache s) (a, page, sz, limit) = Some v"
    and "service_delete_comment u i s = (Inr (), t)"
  shows "fst (get_comment_by_article_id a page sz limit t) = Inr v \<and>
    (\<forall>c \<in> set (comments t). \<not> (com_id c = i \<and> com_user c = u))"
  using deleted_comment [OF assms(1,4)] assms(2,3)
  by (auto simp: get_comment_by_article_id_def read_through_def get_article_comment_list_def floor_lists.get_calm bnd_def
    attempt_def ret_run del_rows_def)

definition unlike_message :: "u64 \<Rightarrow> u64 \<Rightarrow> int \<Rightarrow> comment_action" where
  "unlike_message i u now = \<lparr>ca_type = ''unlike'', ca_comment = i, ca_user = u, ca_time = now div 1000000000\<rparr>"

text \<open>A like whose message cannot be published leaves its row in MySQL behind: the retry answers success and publishes
  nothing, and taking the like back publishes an unlike that no like came before.
\<close>

theorem unpublished_like_stays:
  assumes "calm s" and "comment_redis s" and "\<not> nsq_on s" and "u \<noteq> 0" and "i \<noteq> 0" and "(u, i) \<notin> set (comment_likes s)"
    and "comment_stats s i = Some n" and "i64_ok (n - 1)" and "i64_ok (n + 1)"
  shows "\<exists>e t w. like_comment i u False s = (Inl e, t) \<and>
    (let later = t\<lparr>nsq_on := True\<rparr> in like_comment i u False later = (Inr (), later) \<and>
      like_comment i u True later = (Inr (), w) \<and> comment_topic w = comment_topic s @ [unlike_message i u (clock_now s)])"
proof -
  have "i64_ok n" using assms(8,9) by (simp add: i64_ok_def)
  with assms show ?thesis
  by (simp add: like_comment_def ensure_comment_like_state_def insert_ignore_def delete_pair_def bnd_def attempt_def io_nil calm_def
      comment_incr_stats_def comment_decr_stats_def comment_hincr_def hincr_def publish_comment_action_def gets_run ret_run throw_run
      modify_run ignore_def Let_def unlike_message_def)
qed

text \<open>Witnesses\<close>

definition demo_comment :: "u64 \<Rightarrow> u64 \<Rightarrow> int \<Rightarrow> comment" where
  "demo_comment i root at_time = blank_comment\<lparr>com_article := 3, com_id := i, com_user := 7, com_root := root,
     com_content := ''c'', com_type := ''comment'', com_created := at_time\<rparr>"

definition blog_demo :: blog_st where
  "blog_demo = game_st.extend game_demo (blog_st.fields True ((\<lambda>_. None)(9 := Some 0)) [] [] False [] [] False [] [] True (\<lambda>_. None)
     (\<lambda>_. False) (\<lambda>_. False) (\<lambda>_. []) [] [] [])\<lparr>comments := [demo_comment 9 0 10, demo_comment 12 9 30, demo_comment 11 9 20]\<rparr>"

lemmas blog_demo_simps = blog_demo_def blog_st.defs game_demo_simps demo_comment_def blank_comment_def

theorem unpublished_like_stays_witness:
  "\<exists>e t w. like_comment 9 7 False blog_demo = (Inl e, t) \<and> comment_topic w = [unlike_message 9 7 (clock_now blog_demo)] \<and>
     like_comment 9 7 True (t\<lparr>nsq_on := True\<rparr>) = (Inr (), w)"
  using unpublished_like_stays [of blog_demo 7 9 0] by (auto simp: calm_def i64_ok_def Let_def blog_demo_simps)

theorem comment_page_is_the_reference_witness:
  "\<exists>v t. get_comment_by_article_id 3 1 10 1 blog_demo = (Inr v, t) \<and> floor_page blog_demo 3 1 10 1 = Inr v \<and>
     map (map cv_created \<circ> snd) (fst v) = [[20]] \<and> snd v = 3"
proof -
  have "\<exists>v t. get_comment_by_article_id 3 1 10 1 blog_demo = (Inr v, t)"
    by (simp add: get_comment_by_article_id_def read_through_def get_article_comment_list_def cache_get_def attempt_def bnd_def
      load_comment_by_article_id_def get_root_ids_by_article_id_def query_rows_def offset_limit_def newest_first_def
      count_by_article_id_def make_panics_def get_comments_by_root_ids_def preload_users_def place_comment_def io_def gets_run ret_run
      ignore_def set_article_comment_list_def cache_put_def modify_run Let_def i64_def blog_demo_simps)
  then obtain v t where run: "get_comment_by_article_id 3 1 10 1 blog_demo = (Inr v, t)" by blast
  have "floor_page blog_demo 3 1 10 1 = Inr v"
    using comment_page_is_the_reference [OF run] by (simp add: blog_demo_simps)
  then show ?thesis using run
    by (auto simp: floor_page_def page_roots_def offset_limit_def newest_first_def floor_of_def replies_of_def convert_to_vo_def
      with_users_def i64_def count_rows_def blog_demo_simps)
qed

theorem deleting_leaves_the_cached_page_witness:
  "\<exists>t. service_delete_comment 7 9 (blog_demo\<lparr>floor_cache := [((3, 1, 10, 1), ([], 3))]\<rparr>) = (Inr (), t) \<and>
     fst (get_comment_by_article_id 3 1 10 1 t) = Inr ([], 3) \<and> 9 \<notin> com_id ` set (comments t)"
proof -
  let ?s = "blog_demo\<lparr>floor_cache := [((3, 1, 10, 1), ([], 3))]\<rparr>"
  have "\<exists>t. service_delete_comment 7 9 ?s = (Inr (), t)"
    by (simp add: service_delete_comment_def bnd_def attempt_def get_comment_by_id_def first_row_def io_def delete_comment_by_id_def
      guarded_run ret_run modify_run blog_demo_simps)
  then obtain t where run: "service_delete_comment 7 9 ?s = (Inr (), t)" by blast
  have "calm ?s" "comment_redis ?s" by (simp_all add: calm_def blog_demo_simps)
  with deleting_leaves_the_cached_page [OF _ _ _ run, of 3 1 10 1 "([], 3)"] deleted_comment [OF _ run] run show ?thesis
    by (auto simp: del_rows_def blog_demo_simps)
qed

end
