(* ===== verification/Stats.thy ===== *)
theory Stats
  imports Comments
begin

text \<open>
  The counters of the articles: Redis (src/database/article_redis.go: counts, marks, daily boards), liking and reading
  (src/service/article_service.go), the NSQ messages they publish (src/mq/nsq_init.go), the two consumers that
  collect them in memory and flush them to MySQL (src/mq/article_consumer.go), and the transaction of a flush
  (src/database/article_sql.go).
\<close>

section \<open>Counts, marks and boards in Redis\<close>

definition with_redis :: "('r blog_st_scheme, 'a) op \<Rightarrow> ('r blog_st_scheme, 'a) op" where
  "with_redis m = bnd (gets article_redis) (\<lambda>on. if on then io m else throw GoPanic)"

definition article_get_stats :: "u64 \<Rightarrow> ('r blog_st_scheme, int \<times> int) op" where
  "article_get_stats a = with_redis (gets (\<lambda>s. let n = (\<lambda>f. case art_stats s (a, f) of None \<Rightarrow> 0 | Some n \<Rightarrow> n)
     in (n ''view'', n ''like'')))"

definition set_if_absent :: "u64 \<times> string \<Rightarrow> int \<Rightarrow> ('r blog_st_scheme, unit) op" where
  "set_if_absent k n = with_redis (modify (\<lambda>s. case art_stats s k of
     None \<Rightarrow> s\<lparr>art_stats := (art_stats s)(k \<mapsto> n)\<rparr> | Some _ \<Rightarrow> s))"

definition article_init_stats :: "u64 \<Rightarrow> int \<Rightarrow> int \<Rightarrow> ('r blog_st_scheme, unit) op" where
  "article_init_stats a views likes =
     bnd (ignore (set_if_absent (a, ''view'') views)) (\<lambda>_. ignore (set_if_absent (a, ''like'') likes))"

definition article_hincr :: "u64 \<Rightarrow> string \<Rightarrow> int \<Rightarrow> ('r blog_st_scheme, unit) op" where
  "article_hincr a f d = with_redis (\<lambda>s. case hincr (art_stats s (a, f)) d of
     None \<Rightarrow> (Inl IOError, s) | Some n \<Rightarrow> (Inr (), s\<lparr>art_stats := (art_stats s)((a, f) \<mapsto> n)\<rparr>))"

definition article_incr_stats :: "u64 \<Rightarrow> string \<Rightarrow> ('r blog_st_scheme, unit) op" where
  "article_incr_stats a f = article_hincr a f 1"

definition article_decr_stats :: "u64 \<Rightarrow> string \<Rightarrow> ('r blog_st_scheme, unit) op" where
  "article_decr_stats a f = article_hincr a f (-1)"

definition set_user_article_liked_mark :: "u64 \<Rightarrow> u64 \<Rightarrow> ('r blog_st_scheme, unit) op" where
  "set_user_article_liked_mark u a = bnd (gets article_redis) (\<lambda>on. if \<not> on \<or> u = 0 \<or> a = 0 then ret ()
     else io (modify (\<lambda>s. s\<lparr>like_marks := (like_marks s)((u, a) := True)\<rparr>)))"

definition delete_like_mark :: "u64 \<Rightarrow> u64 \<Rightarrow> ('r blog_st_scheme, unit) op" where
  "delete_like_mark u a = with_redis (modify (\<lambda>s. s\<lparr>like_marks := (like_marks s)((u, a) := False)\<rparr>))"

definition try_acquire_article_like_mark :: "u64 \<Rightarrow> u64 \<Rightarrow> ('r blog_st_scheme, bool) op" where
  "try_acquire_article_like_mark u a = bnd (gets article_redis) (\<lambda>on.
     if \<not> on then throw (PlainError ''redis article repo nil'')
     else if u = 0 \<or> a = 0 then throw (PlainError ''invalid user_id/article_id'')
     else io (\<lambda>s. (Inr (\<not> like_marks s (u, a)), s\<lparr>like_marks := (like_marks s)((u, a) := True)\<rparr>)))"

text \<open>The script: the mark is deleted, the count goes down by one when it is positive.\<close>

definition unlike_script :: "u64 \<Rightarrow> u64 \<Rightarrow> ('r blog_st_scheme, bool) op" where
  "unlike_script u a = (\<lambda>s. let s' = s\<lparr>like_marks := (like_marks s)((u, a) := False)\<rparr> in
     case art_stats s (a, ''like'') of
       None \<Rightarrow> (Inr False, s')
     | Some n \<Rightarrow> if n > 0 then (Inr True, s'\<lparr>art_stats := (art_stats s)((a, ''like'') \<mapsto> n - 1)\<rparr>) else (Inr False, s'))"

definition apply_article_unlike_immediate :: "u64 \<Rightarrow> u64 \<Rightarrow> ('r blog_st_scheme, bool) op" where
  "apply_article_unlike_immediate u a = bnd (gets article_redis) (\<lambda>on.
     if \<not> on then throw (PlainError ''redis article repo nil'')
     else if u = 0 \<or> a = 0 then throw (PlainError ''invalid user_id/article_id'') else io (unlike_script u a))"

fun day_before :: "date \<Rightarrow> date" where
  "day_before (y, m, d) = (if d > 1 then (y, m, d - 1)
     else if m > 1 then (y, m - 1, month_days y (m - 1)) else (y - 1, 12, 31))"

definition weekly_leaderboard_buckets :: nat where "weekly_leaderboard_buckets = 7"

definition weekly_leaderboard_days :: "date \<Rightarrow> nat \<Rightarrow> date list" where
  "weekly_leaderboard_days today n = map (\<lambda>i. (day_before ^^ i) today) [0..<n]"

definition weekly_leaderboard_keys :: "string \<Rightarrow> date \<Rightarrow> (string \<times> date) list" where
  "weekly_leaderboard_keys action today = map (\<lambda>d. (action, d)) (weekly_leaderboard_days today weekly_leaderboard_buckets)"

definition change_leaderboard :: "int \<Rightarrow> u64 \<Rightarrow> string \<Rightarrow> ('r blog_st_scheme, unit) op" where
  "change_leaderboard d a action = with_redis (modify (\<lambda>s. let k = (action, clock_day s) in
     s\<lparr>boards := (boards s)(k := zincrby d (show_u64 a) (boards s k))\<rparr>))"

definition update_leaderboard :: "u64 \<Rightarrow> string \<Rightarrow> ('r blog_st_scheme, unit) op" where
  "update_leaderboard a action = change_leaderboard 1 a action"

definition update_leaderboard_decr :: "u64 \<Rightarrow> string \<Rightarrow> ('r blog_st_scheme, unit) op" where
  "update_leaderboard_decr a action = change_leaderboard (-1) a action"

text \<open>The merged board is stored under a key of its own, read, and deleted again.\<close>

definition merge_weekly_leaderboard :: "string \<Rightarrow> ('r blog_st_scheme, zmember list) op" where
  "merge_weekly_leaderboard action = with_redis (gets (\<lambda>s. zunion (map (boards s) (weekly_leaderboard_keys action (clock_day s)))))"

definition get_top_articles :: "string \<Rightarrow> int \<Rightarrow> ('r blog_st_scheme, string list) op" where
  "get_top_articles action n = bnd (merge_weekly_leaderboard action) (\<lambda>l.
     deferred (io (ret (map zname (zrevrange_ranks 0 (n - 1) l)))) (ignore (io (ret ()))))"

definition get_top_article_ids :: "string \<Rightarrow> int \<Rightarrow> ('r blog_st_scheme, u64 list) op" where
  "get_top_article_ids action n = bnd (get_top_articles action n) (\<lambda>l. ret (map parse_uint_or_zero l))"

definition trim_leaderboard :: "string \<Rightarrow> int \<Rightarrow> ('r blog_st_scheme, unit) op" where
  "trim_leaderboard action keep = with_redis (modify (\<lambda>s. let k = (action, clock_day s) in
     s\<lparr>boards := (boards s)(k := zremrange_by_rank 0 (- (keep + 1)) (boards s k))\<rparr>))"

text \<open>\<open>SETNX\<close> and \<open>DEL\<close> of the key that limits the reads of an actor.\<close>

definition mark_once_by_key :: "u64 \<times> string \<Rightarrow> ('r blog_st_scheme, bool) op" where
  "mark_once_by_key k = with_redis (\<lambda>s. (Inr (\<not> read_marks s k), s\<lparr>read_marks := (read_marks s)(k := True)\<rparr>))"

definition delete_key :: "u64 \<times> string \<Rightarrow> ('r blog_st_scheme, unit) op" where
  "delete_key k = with_redis (modify (\<lambda>s. s\<lparr>read_marks := (read_marks s)(k := False)\<rparr>))"

section \<open>Messages\<close>

definition publish_action :: "article_action \<Rightarrow> ('r blog_st_scheme, unit) op" where
  "publish_action m = bnd (gets clock_now) (\<lambda>now. bnd (gets nsq_on) (\<lambda>on.
     if \<not> on then throw (PlainError ''nsq producer is not initialized'') else
     let m = (if aa_time m = 0 then m\<lparr>aa_time := now div 1000000000\<rparr> else m) in
     io (modify (\<lambda>s. s\<lparr>article_topic := article_topic s @ [m]\<rparr>))))"

definition action_now :: "string \<Rightarrow> u64 \<Rightarrow> u64 \<Rightarrow> int option \<Rightarrow> ('r blog_st_scheme, unit) op" where
  "action_now kind a u delta = bnd (gets clock_now) (\<lambda>now. publish_action
     \<lparr>aa_type = kind, aa_article = a, aa_user = u, aa_time = now div 1000000000, aa_delta = delta\<rparr>)"

section \<open>Reading and liking\<close>

text \<open>The part of \<open>ReadArticle\<close> after the article was found: whether the read is answered, and counting it.\<close>

definition count_read :: "u64 \<Rightarrow> string \<Rightarrow> ('r blog_st_scheme, unit) op" where
  "count_read a actor = (let k = (a, if actor = [] then ''anonymous'' else actor) in
     bnd (attempt (mark_once_by_key k)) (\<lambda>r. case r of
       Inl _ \<Rightarrow> ret ()
     | Inr first \<Rightarrow> if \<not> first then ret () else
       bnd (attempt (article_incr_stats a ''view'')) (\<lambda>r. case r of
         Inl e \<Rightarrow> bnd (ignore (delete_key k)) (\<lambda>_. throw e)
       | Inr _ \<Rightarrow>
         bnd (attempt (update_leaderboard a ''view'')) (\<lambda>r. case r of
           Inl e \<Rightarrow> bnd (ignore (article_decr_stats a ''view'')) (\<lambda>_. bnd (ignore (delete_key k)) (\<lambda>_. throw e))
         | Inr _ \<Rightarrow>
           bnd (attempt (action_now ''view'' a 0 None)) (\<lambda>r. case r of
             Inl e \<Rightarrow> bnd (ignore (article_decr_stats a ''view'')) (\<lambda>_.
                 bnd (ignore (update_leaderboard_decr a ''view'')) (\<lambda>_. bnd (ignore (delete_key k)) (\<lambda>_. throw e)))
           | Inr _ \<Rightarrow> ret ())))))"

definition article_unlike :: "u64 \<Rightarrow> u64 \<Rightarrow> ('r blog_st_scheme, unit) op" where
  "article_unlike a u =
     bnd (apply_article_unlike_immediate u a) (\<lambda>decr.
     bnd (attempt (guarded decr (update_leaderboard_decr a ''like''))) (\<lambda>r. case r of
       Inl e \<Rightarrow> bnd (ignore (article_incr_stats a ''like'')) (\<lambda>_. bnd (ignore (set_user_article_liked_mark u a)) (\<lambda>_. throw e))
     | Inr _ \<Rightarrow>
       bnd (attempt (action_now ''unlike'' a u (Some (if decr then -1 else 0)))) (\<lambda>r. case r of
         Inl e \<Rightarrow> bnd (guarded decr (bnd (ignore (article_incr_stats a ''like'')) (\<lambda>_. ignore (update_leaderboard a ''like'')))) (\<lambda>_.
             bnd (ignore (set_user_article_liked_mark u a)) (\<lambda>_. throw e))
       | Inr _ \<Rightarrow> ret ())))"

definition count_like :: "u64 \<Rightarrow> u64 \<Rightarrow> ('r blog_st_scheme, unit) op" where
  "count_like a u =
     bnd (attempt (article_incr_stats a ''like'')) (\<lambda>r. case r of
       Inl e \<Rightarrow> bnd (ignore (delete_like_mark u a)) (\<lambda>_. throw e)
     | Inr _ \<Rightarrow>
       bnd (attempt (update_leaderboard a ''like'')) (\<lambda>r. case r of
         Inl e \<Rightarrow> bnd (ignore (article_decr_stats a ''like'')) (\<lambda>_. bnd (ignore (delete_like_mark u a)) (\<lambda>_. throw e))
       | Inr _ \<Rightarrow>
         bnd (attempt (action_now ''like'' a u None)) (\<lambda>r. case r of
           Inl e \<Rightarrow> bnd (ignore (article_decr_stats a ''like'')) (\<lambda>_.
               bnd (ignore (update_leaderboard_decr a ''like'')) (\<lambda>_. bnd (ignore (delete_like_mark u a)) (\<lambda>_. throw e)))
         | Inr _ \<Rightarrow>
           bnd (attempt (get_article_by_id a)) (\<lambda>r. case r of
             Inl _ \<Rightarrow> ret ()
           | Inr (art, _) \<Rightarrow> if art_author art = u then ret () else ignore (enqueue_earn (art_author art) ''article_liked'' a u)))))"

definition like_article :: "u64 \<Rightarrow> u64 \<Rightarrow> bool \<Rightarrow> ('r blog_st_scheme, unit) op" where
  "like_article a u cancel = (if u = 0 \<or> a = 0 then throw (PlainError ''invalid user_id/article_id'')
     else if cancel then article_unlike a u
     else bnd (try_acquire_article_like_mark u a) (\<lambda>acquired. if acquired then count_like a u else ret ()))"

section \<open>Statements on the counters\<close>

abbreviation "put_articles v \<equiv> articles_update (\<lambda>_. v)"

definition increment_view_count :: "u64 \<Rightarrow> int \<Rightarrow> ('r blog_st_scheme, unit) op" where
  "increment_view_count a n = add_unsigned 64 art_id art_views art_views_update articles put_articles a n"

definition increment_like_count :: "u64 \<Rightarrow> int \<Rightarrow> ('r blog_st_scheme, unit) op" where
  "increment_like_count a n = add_unsigned 64 art_id art_likes art_likes_update articles put_articles a n"

definition add_counts :: "(u64 \<Rightarrow> int \<Rightarrow> ('r blog_st_scheme, unit) op) \<Rightarrow> (u64 \<times> int) list \<Rightarrow> ('r blog_st_scheme, unit) op" where
  "add_counts incr deltas = for_each deltas (\<lambda>(i, d). if d = 0 then ret () else incr i d)"

definition batch_increment_stats :: "(u64 \<times> int) list \<Rightarrow> (u64 \<times> int) list \<Rightarrow> ('r blog_st_scheme, unit) op" where
  "batch_increment_stats views likes = tx content_rollback
     (bnd (add_counts increment_view_count views) (\<lambda>_. add_counts increment_like_count likes))"

definition ensure_like_state :: "u64 \<Rightarrow> u64 \<Rightarrow> bool \<Rightarrow> ('r blog_st_scheme, bool) op" where
  "ensure_like_state u a cancel = (if u = 0 \<or> a = 0 then throw InvalidData
     else if \<not> cancel then insert_ignore article_likes (\<lambda>v. article_likes_update (\<lambda>_. v)) (u, a)
     else delete_pair article_likes (\<lambda>v. article_likes_update (\<lambda>_. v)) (u, a))"

text \<open>\<open>m[id] += d\<close> on a map of counts; its entries in the order in which it is walked.\<close>

fun add_delta :: "u64 \<Rightarrow> int \<Rightarrow> (u64 \<times> int) list \<Rightarrow> (u64 \<times> int) list" where
  "add_delta i d [] = [(i, d)]"
| "add_delta i d ((j, n) # m) = (if i = j then (j, n + d) # m else (j, n) # add_delta i d m)"

type_synonym like_pair = "u64 \<times> u64"

fun insert_likes :: "(u64 \<times> int) list \<Rightarrow> like_pair list \<Rightarrow> ('r blog_st_scheme, (u64 \<times> int) list) op" where
  "insert_likes merged [] = ret merged"
| "insert_likes merged ((u, a) # ps) = (if u = 0 \<or> a = 0 then insert_likes merged ps else
     bnd (insert_ignore article_likes (\<lambda>v. article_likes_update (\<lambda>_. v)) (u, a)) (\<lambda>new.
       insert_likes (if new then add_delta a 1 merged else merged) ps))"

definition delete_likes :: "like_pair list \<Rightarrow> ('r blog_st_scheme, unit) op" where
  "delete_likes ps = for_each ps (\<lambda>(u, a). if u = 0 \<or> a = 0 then ret () else
     bnd (delete_pair article_likes (\<lambda>v. article_likes_update (\<lambda>_. v)) (u, a)) (\<lambda>_. ret ()))"

definition batch_flush_article_actions ::
  "(u64 \<times> int) list \<Rightarrow> (u64 \<times> int) list \<Rightarrow> like_pair list \<Rightarrow> like_pair list \<Rightarrow> ('r blog_st_scheme, unit) op" where
  "batch_flush_article_actions views likes new_likes unlikes =
     (if views = [] \<and> likes = [] \<and> new_likes = [] \<and> unlikes = [] then ret () else tx content_rollback
       (bnd (insert_likes (fold (\<lambda>(i, c). add_delta i c) likes []) new_likes) (\<lambda>merged.
        bnd (delete_likes unlikes) (\<lambda>_.
        bnd (add_counts increment_view_count views) (\<lambda>_. add_counts increment_like_count merged)))))"

end
