(* ===== verification/StatsWorker.thy ===== *)
theory StatsWorker
  imports Stats
begin

text \<open>
  The consumers of src/mq/article_consumer.go: what each keeps in memory, how a message is applied, and the flush in
  the pieces between which other goroutines run. A message is \<open>None\<close> when its JSON does not decode.
\<close>

section \<open>The buffer of a shard\<close>

text \<open>The keys of the two maps of pairs are the printed ids.\<close>

record stats_buffer =
  sb_views :: "(u64 \<times> int) list"
  sb_likes :: "(u64 \<times> int) list"
  sb_insert :: "(string \<times> like_pair) list"
  sb_delete :: "(string \<times> like_pair) list"

definition new_stats_buffer :: stats_buffer where
  "new_stats_buffer = \<lparr>sb_views = [], sb_likes = [], sb_insert = [], sb_delete = []\<rparr>"

definition approx_keys :: "stats_buffer \<Rightarrow> int" where
  "approx_keys b = int (length (sb_views b) + length (sb_likes b) + length (sb_insert b) + length (sb_delete b))"

definition buffer_empty :: "stats_buffer \<Rightarrow> bool" where
  "buffer_empty b \<longleftrightarrow> approx_keys b = 0"

definition pair_key :: "u64 \<Rightarrow> u64 \<Rightarrow> string" where
  "pair_key u a = show_u64 u @ '':'' @ show_u64 a"

definition apply_action :: "article_action \<Rightarrow> stats_buffer \<Rightarrow> stats_buffer" where
  "apply_action m b = (let a = aa_article m; u = aa_user m; pair = AList.update (pair_key u a) (u, a) in
     if aa_type m = ''view'' then b\<lparr>sb_views := add_delta a 1 (sb_views b)\<rparr>
     else if aa_type m = ''like'' then
       (if u \<noteq> 0 then b\<lparr>sb_insert := pair (sb_insert b)\<rparr> else b\<lparr>sb_likes := add_delta a 1 (sb_likes b)\<rparr>)
     else if aa_type m = ''unlike'' then
       (let delta = (case aa_delta m of None \<Rightarrow> -1 | Some d \<Rightarrow> d);
            b = (if delta \<noteq> 0 then b\<lparr>sb_likes := add_delta a delta (sb_likes b)\<rparr> else b)
        in if u \<noteq> 0 then b\<lparr>sb_delete := pair (sb_delete b)\<rparr> else b)
     else b)"

definition merge_from :: "stats_buffer \<Rightarrow> stats_buffer \<Rightarrow> stats_buffer" where
  "merge_from other b = \<lparr>sb_views = fold (\<lambda>(i, n). add_delta i n) (sb_views other) (sb_views b),
     sb_likes = fold (\<lambda>(i, n). add_delta i n) (sb_likes other) (sb_likes b),
     sb_insert = fold (\<lambda>(k, v). AList.update k v) (sb_insert other) (sb_insert b),
     sb_delete = fold (\<lambda>(k, v). AList.update k v) (sb_delete other) (sb_delete b)\<rparr>"

definition to_flush_payload :: "stats_buffer \<Rightarrow> ((u64 \<times> int) list \<times> (u64 \<times> int) list) \<times> like_pair list \<times> like_pair list" where
  "to_flush_payload b = ((sb_views b, sb_likes b), map snd (sb_insert b), map snd (sb_delete b))"

section \<open>State\<close>

text \<open>
  \<open>drained\<close>: the shards whose goroutine is flushing, with the buffer it took. \<open>flush_sigs\<close>: the shards with a signal
  in their channel. \<open>cm_buffer\<close> is the buffer of the comments, \<open>cm_copy\<close> the copy that is being flushed and whether it
  was committed.
\<close>

record worker_st = blog_st +
  shards :: "stats_buffer list"
  flush_max :: int
  flush_sigs :: "nat \<Rightarrow> bool"
  drained :: "(nat \<times> stats_buffer) list"
  cm_buffer :: "(u64 \<times> int) list"
  cm_max :: int
  cm_sig :: bool
  cm_copy :: "((u64 \<times> int) list \<times> bool) option"

definition set_shard :: "nat \<Rightarrow> (stats_buffer \<Rightarrow> stats_buffer) \<Rightarrow> ('r worker_st_scheme, unit) op" where
  "set_shard k f = modify (\<lambda>s. s\<lparr>shards := (shards s)[k := f (shards s ! k)]\<rparr>)"

definition stats_shard_index :: "u64 \<Rightarrow> nat \<Rightarrow> nat" where
  "stats_shard_index a n = (if n \<le> 1 then 0 else unat a mod n)"

definition new_stats_shards :: "int \<Rightarrow> stats_buffer list" where
  "new_stats_shards n = replicate (nat (if n \<le> 0 then 16 else n)) new_stats_buffer"

section \<open>The consumer of the articles\<close>

definition known_action :: "string \<Rightarrow> bool" where
  "known_action t \<longleftrightarrow> t = ''view'' \<or> t = ''like'' \<or> t = ''unlike''"

definition handle_message :: "article_action option \<Rightarrow> ('r worker_st_scheme, unit) op" where
  "handle_message body = (case body of None \<Rightarrow> ret () | Some m \<Rightarrow>
     if aa_article m = 0 \<or> \<not> known_action (aa_type m) then ret () else
     bnd (gets (\<lambda>s. stats_shard_index (aa_article m) (length (shards s)))) (\<lambda>k.
     bnd (set_shard k (apply_action m)) (\<lambda>_.
     modify (\<lambda>s. if flush_max s > 0 \<and> approx_keys (shards s ! k) \<ge> flush_max s
       then s\<lparr>flush_sigs := (flush_sigs s)(k := True)\<rparr> else s))))"

definition swap_buffers :: "nat \<Rightarrow> ('r worker_st_scheme, stats_buffer) op" where
  "swap_buffers k = bnd (gets (\<lambda>s. shards s ! k)) (\<lambda>old. bnd (set_shard k (\<lambda>_. new_stats_buffer)) (\<lambda>_. ret old))"

definition merge_back :: "nat \<Rightarrow> stats_buffer \<Rightarrow> ('r worker_st_scheme, unit) op" where
  "merge_back k b = (if buffer_empty b then ret () else set_shard k (merge_from b))"

definition flush_drained :: "nat \<Rightarrow> stats_buffer \<Rightarrow> ('r worker_st_scheme, unit) op" where
  "flush_drained k b = (if buffer_empty b then ret () else
     case to_flush_payload b of ((views, likes), ins, del) \<Rightarrow>
     bnd (attempt (batch_flush_article_actions views likes ins del)) (\<lambda>r. case r of
       Inl _ \<Rightarrow> merge_back k b | Inr _ \<Rightarrow> ret ()))"

definition flush_shard :: "nat \<Rightarrow> ('r worker_st_scheme, unit) op" where
  "flush_shard k = bnd (swap_buffers k) (flush_drained k)"

section \<open>The consumer of the comments\<close>

definition handle_comment_message :: "comment_action option \<Rightarrow> ('r worker_st_scheme, unit) op" where
  "handle_comment_message body = (case body of None \<Rightarrow> ret () | Some m \<Rightarrow>
     if ca_comment m = 0 \<or> \<not> (ca_type m = ''like'' \<or> ca_type m = ''unlike'') then ret () else
     bnd (modify (\<lambda>s. s\<lparr>cm_buffer := add_delta (ca_comment m) (if ca_type m = ''like'' then 1 else -1) (cm_buffer s)\<rparr>)) (\<lambda>_.
     modify (\<lambda>s. if cm_max s > 0 \<and> int (length (cm_buffer s)) \<ge> cm_max s then s\<lparr>cm_sig := True\<rparr> else s)))"

text \<open>\<open>m[id] -= d\<close>, and the entry is deleted when it is zero.\<close>

fun settle_delta :: "u64 \<Rightarrow> int \<Rightarrow> (u64 \<times> int) list \<Rightarrow> (u64 \<times> int) list" where
  "settle_delta i d [] = (if d = 0 then [] else [(i, - d)])"
| "settle_delta i d ((j, n) # m) = (if i = j then (if n - d = 0 then m else (j, n - d) # m) else (j, n) # settle_delta i d m)"

definition settle_copy :: "(u64 \<times> int) list \<Rightarrow> ('r worker_st_scheme, unit) op" where
  "settle_copy buf = modify (\<lambda>s. s\<lparr>cm_buffer := fold (\<lambda>(i, d). settle_delta i d) buf (cm_buffer s)\<rparr>)"

definition flush_comments :: "('r worker_st_scheme, unit) op" where
  "flush_comments = bnd (gets cm_buffer) (\<lambda>buf. if buf = [] then ret () else
     bnd (attempt (batch_increment_comment_stats buf)) (\<lambda>r. case r of Inl _ \<Rightarrow> ret () | Inr _ \<Rightarrow> settle_copy buf))"

section \<open>Interleavings\<close>

text \<open>
  What happens between publishing and MySQL: a message is published, taken from the topic in any order, a shard is
  swapped by its goroutine, the buffer that was taken is written or merged back; the flush of the comments copies,
  commits and settles. Each call to MySQL may fail as the script of faults has it, a new one at each step.
\<close>

datatype worker_event =
    PublishArticle article_action | DeliverArticle nat | Swap nat | FlushDrained nat
  | PublishComment comment_action | DeliverComment nat | CopyComments | CommitComments | SettleComments

definition drop_nth :: "nat \<Rightarrow> 'a list \<Rightarrow> 'a list" where
  "drop_nth n l = take n l @ drop (Suc n) l"

inductive worker_step :: "worker_event \<Rightarrow> 'r worker_st_scheme \<Rightarrow> 'r worker_st_scheme \<Rightarrow> bool" where
  publish_article: "publish_action m (s\<lparr>faults := fs\<rparr>) = (Inr (), t) \<Longrightarrow> worker_step (PublishArticle m) s t"
| deliver_article: "n < length (article_topic s) \<Longrightarrow>
    handle_message (Some (article_topic s ! n)) (s\<lparr>article_topic := drop_nth n (article_topic s)\<rparr>) = (r, t) \<Longrightarrow>
    worker_step (DeliverArticle n) s t"
| swap: "k < length (shards s) \<Longrightarrow> k \<notin> fst ` set (drained s) \<Longrightarrow> swap_buffers k s = (Inr b, t) \<Longrightarrow>
    worker_step (Swap k) s (t\<lparr>drained := (k, b) # drained t\<rparr>)"
| flush_drained: "n < length (drained s) \<Longrightarrow> drained s ! n = (k, b) \<Longrightarrow>
    flush_drained k b (s\<lparr>faults := fs, drained := drop_nth n (drained s)\<rparr>) = (r, t) \<Longrightarrow> worker_step (FlushDrained n) s t"
| publish_comment: "publish_comment_action c (s\<lparr>faults := fs\<rparr>) = (Inr (), t) \<Longrightarrow> worker_step (PublishComment c) s t"
| deliver_comment: "n < length (comment_topic s) \<Longrightarrow>
    handle_comment_message (Some (comment_topic s ! n)) (s\<lparr>comment_topic := drop_nth n (comment_topic s)\<rparr>) = (r, t) \<Longrightarrow>
    worker_step (DeliverComment n) s t"
| copy_comments: "cm_copy s = None \<Longrightarrow> cm_buffer s \<noteq> [] \<Longrightarrow>
    worker_step CopyComments s (s\<lparr>cm_copy := Some (cm_buffer s, False)\<rparr>)"
| commit_comments: "cm_copy s = Some (buf, False) \<Longrightarrow> batch_increment_comment_stats buf (s\<lparr>faults := fs\<rparr>) = (r, t) \<Longrightarrow>
    worker_step CommitComments s (t\<lparr>cm_copy := (case r of Inl _ \<Rightarrow> None | Inr _ \<Rightarrow> Some (buf, True))\<rparr>)"
| settle_comments: "cm_copy s = Some (buf, True) \<Longrightarrow> settle_copy buf (s\<lparr>cm_copy := None\<rparr>) = (r, t) \<Longrightarrow>
    worker_step SettleComments s t"

inductive worker_run :: "worker_event list \<Rightarrow> 'r worker_st_scheme \<Rightarrow> 'r worker_st_scheme \<Rightarrow> bool" where
  start: "worker_run [] s s"
| more: "worker_run es s t \<Longrightarrow> worker_step e t u \<Longrightarrow> worker_run (es @ [e]) s u"

inductive_cases worker_stepE: "worker_step e s t"

end
