(* ===== verification/WorkerProps.thy ===== *)
theory WorkerProps
  imports StatsWorker CommentProps
begin

text \<open>
  The consumers count everything once: what is published is in the topic, in a buffer, in the hands of a flushing
  goroutine or in MySQL, whatever the interleaving and whichever flush fails. And what they do get wrong.
\<close>

section \<open>Maps of counts\<close>

definition total_for :: "u64 \<Rightarrow> (u64 \<times> int) list \<Rightarrow> int" where
  "total_for i m = sum_list (map snd (filter (\<lambda>p. fst p = i) m))"

lemma total_for_simps [simp]: "total_for i [] = 0" "total_for i ((j, n) # m) = (if j = i then n else 0) + total_for i m"
  by (simp_all add: total_for_def)

lemma total_for_add [simp]: "total_for i (add_delta j d m) = total_for i m + (if i = j then d else 0)"
  by (induction j d m rule: add_delta.induct) auto

lemma total_for_settle [simp]: "total_for i (settle_delta j d m) = total_for i m - (if i = j then d else 0)"
  by (induction j d m rule: settle_delta.induct) auto

lemma total_for_merge [simp]: "total_for i (fold (\<lambda>(j, n). add_delta j n) xs m) = total_for i xs + total_for i m"
  by (induction xs arbitrary: m) auto

lemma total_for_settle_all [simp]: "total_for i (fold (\<lambda>(j, n). settle_delta j n) xs m) = total_for i m - total_for i xs"
  by (induction xs arbitrary: m) auto

section \<open>Lists of buffers and messages\<close>

lemma sum_list_upd: "k < length xs \<Longrightarrow> sum_list (map f (xs[k := y])) = sum_list (map f xs) - f (xs ! k) + (f y :: int)"
  by (induction xs arbitrary: k) (auto split: nat.split)

lemma sum_list_drop_nth: "n < length xs \<Longrightarrow> sum_list (map f (drop_nth n xs)) = sum_list (map f xs) - (f (xs ! n) :: int)"
proof -
  assume "n < length xs"
  then have "xs = take n xs @ xs ! n # drop (Suc n) xs" by (rule id_take_nth_drop)
  then have "sum_list (map f xs) = sum_list (map f (take n xs)) + f (xs ! n) + sum_list (map f (drop (Suc n) xs))"
    by (metis add.assoc list.simps(9) map_append sum_list.Cons sum_list_append)
  then show ?thesis by (simp add: drop_nth_def)
qed

definition is_view :: "u64 \<Rightarrow> article_action \<Rightarrow> int" where
  "is_view a m = (if aa_type m = ''view'' \<and> aa_article m = a then 1 else 0)"

lemma views_of_apply: "total_for a (sb_views (apply_action m b)) = total_for a (sb_views b) + is_view a m"
  by (auto simp: apply_action_def is_view_def Let_def)

lemma views_of_merge: "total_for a (sb_views (merge_from other b)) = total_for a (sb_views other) + total_for a (sb_views b)"
  by (simp add: merge_from_def)

lemma views_of_empty [simp]: "total_for a (sb_views new_stats_buffer) = 0" "buffer_empty b \<Longrightarrow> total_for a (sb_views b) = 0"
  by (simp_all add: new_stats_buffer_def buffer_empty_def approx_keys_def flip: of_nat_add)

section \<open>The transaction of a flush\<close>

definition row_views :: "u64 \<Rightarrow> 'r blog_st_scheme \<Rightarrow> int option" where
  "row_views a s = map_option art_views (row_of art_id a (articles s))"

definition row_likes :: "u64 \<Rightarrow> 'r blog_st_scheme \<Rightarrow> int option" where
  "row_likes c s = map_option com_likes (row_of com_id c (comments s))"

lemma row_views_faults [simp]: "row_views a (s\<lparr>faults := fs\<rparr>) = row_views a s" "row_likes a (s\<lparr>faults := fs\<rparr>) = row_likes a s"
  by (simp_all add: row_views_def row_likes_def)

lemma column_of_upd:
  assumes "\<And>r. key (f r) = key r" and "\<And>r. col (f r) = col r + (d::int)"
  shows "map_option col (row_of key a (upd_rows (\<lambda>r. key r = i) f rows)) =
    map_option (\<lambda>n. n + (if a = i then d else 0)) (map_option col (row_of key a rows))"
  using assms by (cases "row_of key a rows") (auto dest: row_of_Some_in)

lemma increment_view_row:
  assumes "increment_view_count i d s = (Inr (), t)"
  shows "row_views a t = map_option (\<lambda>n. n + (if a = i then d else 0)) (row_views a s)"
  using assms column_of_upd [of art_id "art_views_update (\<lambda>n. n + d)" art_views d a i "articles s"]
  by (auto simp: increment_view_count_def add_unsigned_def row_views_def elim!: io_InrE split: if_splits)

lemma increment_like_keeps: "keeps (\<lambda>s. row_views a s = v) (increment_like_count i d)"
proof -
  have "row_views a (put_articles (upd_rows (\<lambda>r. art_id r = i) (art_likes_update (\<lambda>n. n + d)) (articles s)) s) = row_views a s"
    for s :: "'r blog_st_scheme"
    using column_of_upd [of art_id "art_likes_update (\<lambda>n. n + d)" art_views 0 a i "articles s"]
    by (simp add: row_views_def option.map_ident)
  then show ?thesis
    unfolding increment_like_count_def add_unsigned_def
    by (intro keeps_io) (auto simp: quietly_def keeps_def)
qed

lemma add_views_row:
  assumes "add_counts increment_view_count vs s = (Inr (), t)"
  shows "row_views a t = map_option (\<lambda>n. n + total_for a vs) (row_views a s)"
  using assms
proof (induction vs arbitrary: s)
  case (Cons v vs)
  obtain i d where v: "v = (i, d)" by force
  from Cons.prems obtain u where u: "(if d = 0 then ret () else increment_view_count i d) s = (Inr (), u)"
    and rest: "add_counts increment_view_count vs u = (Inr (), t)"
    by (auto simp: add_counts_def v bnd_eq_Inr)
  have "row_views a u = map_option (\<lambda>n. n + (if a = i then d else 0)) (row_views a s)"
    using u increment_view_row [of i d s u a] by (cases "d = 0") (auto simp: ret_eq option.map_ident)
  with Cons.IH [OF rest] show ?case by (auto simp: v option.map_comp comp_def intro: option.map_cong)
qed (simp add: add_counts_def ret_eq option.map_ident)

lemma keeps_likes_tables:
  "keeps (\<lambda>s. row_views a s = v) (insert_likes m ps)" "keeps (\<lambda>s. row_views a s = v) (delete_likes ps)"
  "keeps (\<lambda>s. row_views a s = v) (add_counts increment_like_count ds)"
proof -
  have pair: "keeps (\<lambda>s. row_views a s = v) (insert_ignore article_likes (\<lambda>v. article_likes_update (\<lambda>_. v)) p)"
    "keeps (\<lambda>s. row_views a s = v) (delete_pair article_likes (\<lambda>v. article_likes_update (\<lambda>_. v)) p)" for p
    unfolding insert_ignore_def delete_pair_def by (intro keeps_io; auto simp: quietly_def keeps_def row_views_def)+
  show "keeps (\<lambda>s. row_views a s = v) (insert_likes m ps)"
    by (induction m ps rule: insert_likes.induct) (auto intro!: keeps_rules pair)
  show "keeps (\<lambda>s. row_views a s = v) (delete_likes ps)"
    unfolding delete_likes_def by (intro keeps_rules pair)
  show "keeps (\<lambda>s. row_views a s = v) (add_counts increment_like_count ds)"
    unfolding add_counts_def by (intro keeps_rules increment_like_keeps)
qed

lemma beside_counters:
  "keeps (\<lambda>s. beside_content s = c) (insert_likes m ps)" "keeps (\<lambda>s. beside_content s = c) (delete_likes ps)"
  "keeps (\<lambda>s. beside_content s = c) (add_counts increment_like_count ds)"
  "keeps (\<lambda>s. beside_content s = c) (add_counts increment_view_count ds)"
proof -
  have pair: "keeps (\<lambda>s. beside_content s = c) (insert_ignore article_likes (\<lambda>v. article_likes_update (\<lambda>_. v)) p)"
    "keeps (\<lambda>s. beside_content s = c) (delete_pair article_likes (\<lambda>v. article_likes_update (\<lambda>_. v)) p)" for p
    unfolding insert_ignore_def delete_pair_def by (intro content_db.keeps_rest_io; auto simp: beside_content_def)+
  have count: "keeps (\<lambda>s. beside_content s = c) (increment_like_count i d)" "keeps (\<lambda>s. beside_content s = c) (increment_view_count i d)" for i d
    unfolding increment_like_count_def increment_view_count_def add_unsigned_def
    by (intro content_db.keeps_rest_io; auto simp: beside_content_def)+
  show "keeps (\<lambda>s. beside_content s = c) (insert_likes m ps)"
    by (induction m ps rule: insert_likes.induct) (auto intro!: keeps_rules pair)
  show "keeps (\<lambda>s. beside_content s = c) (delete_likes ps)"
    unfolding delete_likes_def by (intro keeps_rules pair)
  show "keeps (\<lambda>s. beside_content s = c) (add_counts increment_like_count ds)"
    "keeps (\<lambda>s. beside_content s = c) (add_counts increment_view_count ds)"
    unfolding add_counts_def by (intro keeps_rules count)+
qed

text \<open>Nothing beside the tables moves; the views are added when the transaction returns without an error.\<close>

lemma row_views_tables: "content_tables s = content_tables t \<Longrightarrow> row_views a s = row_views a t"
  by (simp add: content_tables_def row_views_def)

lemma row_likes_tables: "content_tables s = content_tables t \<Longrightarrow> row_likes a s = row_likes a t"
  by (simp add: content_tables_def row_likes_def)

lemma batch_flush_beside: "keeps (\<lambda>s. beside_content s = c) (batch_flush_article_actions views likes ins del)"
  unfolding batch_flush_article_actions_def
  by (intro keeps_if keeps_ret content_db.keeps_rest_tx keeps_bnd beside_counters)

lemma no_panic_for_each: "(\<And>x. no_panic (f x)) \<Longrightarrow> no_panic (for_each xs f)"
  by (induction xs) (auto intro: no_panic_rules)

lemma batch_flush_no_panic: "no_panic (batch_flush_article_actions views likes ins del)"
proof -
  have pair: "no_panic (insert_ignore article_likes (\<lambda>v. article_likes_update (\<lambda>_. v)) p)"
    "no_panic (delete_pair article_likes (\<lambda>v. article_likes_update (\<lambda>_. v)) p)" for p
    unfolding insert_ignore_def delete_pair_def by (intro no_panic_call; simp)+
  have count: "no_panic (increment_like_count i d)" "no_panic (increment_view_count i d)" for i d
    unfolding increment_like_count_def increment_view_count_def add_unsigned_def by (intro no_panic_call; simp)+
  have "no_panic (insert_likes m ps)" for m ps
    by (induction m ps rule: insert_likes.induct) (auto intro!: no_panic_rules pair)
  moreover have "no_panic (delete_likes del)"
    unfolding delete_likes_def by (intro no_panic_for_each) (auto intro!: no_panic_rules pair)
  moreover have "no_panic (add_counts increment_like_count ds)" "no_panic (add_counts increment_view_count ds)" for ds
    unfolding add_counts_def by (intro no_panic_for_each; auto intro!: no_panic_rules count)+
  ultimately show ?thesis unfolding batch_flush_article_actions_def by (intro no_panic_rules)
qed

lemma batch_flush_views:
  fixes s :: "'r blog_st_scheme"
  assumes run: "batch_flush_article_actions views likes ins del s = (r, t)"
  shows "row_views a t = (case r of Inl _ \<Rightarrow> row_views a s | Inr _ \<Rightarrow> map_option (\<lambda>n. n + total_for a views) (row_views a s))"
proof (cases "views = [] \<and> likes = [] \<and> ins = [] \<and> del = []")
  case True
  with run show ?thesis by (auto simp: batch_flush_article_actions_def ret_eq option.map_ident)
next
  case False
  let ?body = "bnd (insert_likes (fold (\<lambda>(i, c). add_delta i c) likes []) ins) (\<lambda>merged. bnd (delete_likes del) (\<lambda>_.
    bnd (add_counts increment_view_count views) (\<lambda>_. add_counts increment_like_count merged)))"
  from run False have run: "tx content_rollback ?body s = (r, t)" by (auto simp: batch_flush_article_actions_def)
  show ?thesis
  proof (cases r)
    case (Inl e)
    with run have "content_tables t = content_tables s" by (simp add: content_db.tx_error_tables)
    with Inl row_views_tables show ?thesis by simp
  next
    case (Inr x)
    with run have "tx content_rollback ?body s = (Inr x, t)" by simp
    then obtain s1 s2 :: "'r blog_st_scheme" where same: "content_tables s1 = content_tables s" "content_tables t = content_tables s2"
      and body: "?body s1 = (Inr x, s2)" by (rule content_db.tx_success)
    then obtain m u1 u2 u3 where "insert_likes (fold (\<lambda>(i, c). add_delta i c) likes []) ins s1 = (Inr m, u1)"
      and "delete_likes del u1 = (Inr (), u2)" and views: "add_counts increment_view_count views u2 = (Inr (), u3)"
      and "add_counts increment_like_count m u3 = (Inr (), s2)" by (auto simp: bnd_eq_Inr)
    with keeps_likes_tables [THEN keepsD] have "row_views a u2 = row_views a s1" "row_views a s2 = row_views a u3" by metis+
    with add_views_row [OF views] row_views_tables [OF same(1)] row_views_tables [OF same(2)] Inr show ?thesis by simp
  qed
qed

text \<open>The same for the flush of the comments.\<close>

definition increment_comment :: "u64 \<Rightarrow> int \<Rightarrow> ('r blog_st_scheme, unit) op" where
  "increment_comment = add_unsigned 32 com_id com_likes com_likes_update comments (\<lambda>v. comments_update (\<lambda>_. v))"

lemma batch_comments_def: "batch_increment_comment_stats ds =
    (if ds = [] then ret () else tx content_rollback (add_counts increment_comment ds))"
  by (simp add: batch_increment_comment_stats_def add_counts_def increment_comment_def)

lemma increment_comment_row:
  assumes "increment_comment i d s = (Inr (), t)"
  shows "row_likes c t = map_option (\<lambda>n. n + (if c = i then d else 0)) (row_likes c s)"
  using assms column_of_upd [of com_id "com_likes_update (\<lambda>n. n + d)" com_likes d c i "comments s"]
  by (auto simp: increment_comment_def add_unsigned_def row_likes_def elim!: io_InrE split: if_splits)

lemma add_comments_row:
  assumes "add_counts increment_comment ds s = (Inr (), t)"
  shows "row_likes c t = map_option (\<lambda>n. n + total_for c ds) (row_likes c s)"
  using assms
proof (induction ds arbitrary: s)
  case (Cons v ds)
  obtain i d where v: "v = (i, d)" by force
  from Cons.prems obtain u where u: "(if d = 0 then ret () else increment_comment i d) s = (Inr (), u)"
    and rest: "add_counts increment_comment ds u = (Inr (), t)"
    by (auto simp: add_counts_def v bnd_eq_Inr)
  have "row_likes c u = map_option (\<lambda>n. n + (if c = i then d else 0)) (row_likes c s)"
    using u increment_comment_row [of i d s u c] by (cases "d = 0") (auto simp: ret_eq option.map_ident)
  with Cons.IH [OF rest] show ?case by (auto simp: v option.map_comp comp_def intro: option.map_cong)
qed (simp add: add_counts_def ret_eq option.map_ident)

lemma beside_comments: "keeps (\<lambda>s. beside_content s = c) (batch_increment_comment_stats ds)"
proof -
  have "keeps (\<lambda>s. beside_content s = c) (increment_comment i d)" for i d
    unfolding increment_comment_def add_unsigned_def by (intro content_db.keeps_rest_io; auto simp: beside_content_def)
  then show ?thesis
    unfolding batch_comments_def add_counts_def by (intro keeps_if keeps_ret content_db.keeps_rest_tx keeps_rules)
qed

lemma comments_keep_views: "keeps (\<lambda>s. row_views a s = v) (batch_increment_comment_stats ds)"
proof -
  have "keeps (\<lambda>s. row_views a s = v) (increment_comment i d)" for i d
    unfolding increment_comment_def add_unsigned_def by (intro keeps_io) (auto simp: quietly_def keeps_def row_views_def)
  then show ?thesis
    unfolding batch_comments_def add_counts_def
    by (intro keeps_if keeps_ret keeps_tx keeps_rules) (auto simp: quietly_def row_views_def content_rollback_def)
qed

lemma batch_comments_likes:
  fixes s :: "'r blog_st_scheme"
  assumes run: "batch_increment_comment_stats ds s = (r, t)"
  shows "row_likes c t = (case r of Inl _ \<Rightarrow> row_likes c s | Inr _ \<Rightarrow> map_option (\<lambda>n. n + total_for c ds) (row_likes c s))"
proof (cases "ds = []")
  case False
  with run have run: "tx content_rollback (add_counts increment_comment ds) s = (r, t)" by (simp add: batch_comments_def)
  show ?thesis
  proof (cases r)
    case (Inl e)
    with run have "content_tables t = content_tables s" by (simp add: content_db.tx_error_tables)
    with Inl row_likes_tables show ?thesis by simp
  next
    case (Inr x)
    with run have "tx content_rollback (add_counts increment_comment ds) s = (Inr x, t)" by simp
    then obtain s1 s2 :: "'r blog_st_scheme" where same: "content_tables s1 = content_tables s" "content_tables t = content_tables s2"
      and body: "add_counts increment_comment ds s1 = (Inr x, s2)" by (rule content_db.tx_success)
    then have "add_counts increment_comment ds s1 = (Inr (), s2)" by simp
    from add_comments_row [OF this] row_likes_tables [OF same(1)] row_likes_tables [OF same(2)] Inr show ?thesis by simp
  qed
qed (use run in \<open>auto simp: batch_comments_def ret_eq option.map_ident\<close>)

section \<open>Views are counted once\<close>

definition views_total :: "u64 \<Rightarrow> 'r worker_st_scheme \<Rightarrow> int" where
  "views_total a s = the (row_views a s) + sum_list (map (\<lambda>b. total_for a (sb_views b)) (shards s)) +
     sum_list (map (\<lambda>(k, b). total_for a (sb_views b)) (drained s)) + sum_list (map (is_view a) (article_topic s))"

definition published_views :: "u64 \<Rightarrow> worker_event list \<Rightarrow> int" where
  "published_views a es = sum_list (map (\<lambda>e. case e of PublishArticle m \<Rightarrow> is_view a m | _ \<Rightarrow> 0) es)"

definition worker_ok :: "u64 \<Rightarrow> 'r worker_st_scheme \<Rightarrow> bool" where
  "worker_ok a s \<longleftrightarrow> shards s \<noteq> [] \<and> row_views a s \<noteq> None \<and> (\<forall>d \<in> set (drained s). fst d < length (shards s))"

lemma stats_shard_index_less: "0 < n \<Longrightarrow> stats_shard_index a n < n"
  by (auto simp: stats_shard_index_def)

lemma set_shard_views:
  assumes "k < length (shards s)" and "set_shard k f s = (r, t)"
  shows "r = Inr () \<and> t = s\<lparr>shards := (shards s)[k := f (shards s ! k)]\<rparr> \<and>
    views_total a t = views_total a s - total_for a (sb_views (shards s ! k)) + total_for a (sb_views (f (shards s ! k)))"
  using assms by (auto simp: set_shard_def modify_def views_total_def sum_list_upd row_views_def)

lemma views_total_faults [simp]: "views_total a (s\<lparr>faults := fs\<rparr>) = views_total a s"
  by (simp add: views_total_def)

lemma handle_message_views:
  assumes "shards s \<noteq> []" and "a \<noteq> 0" and "handle_message (Some m) s = (r, t)"
  shows "views_total a t = views_total a s + is_view a m \<and> length (shards t) = length (shards s) \<and>
    row_views a t = row_views a s \<and> drained t = drained s"
proof (cases "aa_article m = 0 \<or> \<not> known_action (aa_type m)")
  case True
  with assms show ?thesis by (auto simp: handle_message_def ret_eq is_view_def known_action_def)
next
  case False
  let ?k = "stats_shard_index (aa_article m) (length (shards s))"
  have k: "?k < length (shards s)" using assms(1) by (simp add: stats_shard_index_less)
  obtain r' u where set: "set_shard ?k (apply_action m) s = (r', u)" by (metis prod.collapse)
  note set_shard_views [OF k set, of a]
  then have u: "r' = Inr ()" "length (shards u) = length (shards s)" "row_views a u = row_views a s" "drained u = drained s"
    and total: "views_total a u = views_total a s + is_view a m" by (auto simp: views_of_apply row_views_def)
  have "t = u \<or> t = u\<lparr>flush_sigs := (flush_sigs u)(?k := True)\<rparr>"
    using assms(3) False set u(1) by (auto simp: handle_message_def bnd_def gets_def modify_def split: if_splits)
  with u total show ?thesis by (auto simp: views_total_def row_views_def)
qed

lemma swap_buffers_views:
  assumes "k < length (shards s)" and "swap_buffers k s = (Inr b, t)"
  shows "views_total a (t\<lparr>drained := (k, b) # drained t\<rparr>) = views_total a s \<and> row_views a t = row_views a s \<and>
    length (shards t) = length (shards s) \<and> drained t = drained s"
proof -
  from assms(2) have b: "b = shards s ! k" and set: "set_shard k (\<lambda>_. new_stats_buffer) s = (Inr (), t)"
    by (auto simp: swap_buffers_def bnd_eq_Inr gets_eq ret_eq)
  note set_shard_views [OF assms(1) set, of a]
  moreover have "views_total a (t\<lparr>drained := (k, b) # drained t\<rparr>) = views_total a t + total_for a (sb_views b)"
    by (simp add: views_total_def row_views_def)
  ultimately show ?thesis using b by (auto simp: row_views_def)
qed

lemma flush_drained_views:
  fixes s :: "'r worker_st_scheme"
  assumes k: "k < length (shards s)" and row: "row_views a s \<noteq> None" and run: "flush_drained k b s = (r, t)"
  shows "views_total a t = views_total a s + total_for a (sb_views b) \<and> row_views a t \<noteq> None \<and>
    length (shards t) = length (shards s) \<and> drained t = drained s"
proof (cases "buffer_empty b")
  case True
  with run row show ?thesis by (simp add: flush_drained_def ret_eq)
next
  case False
  let ?ins = "map snd (sb_insert b)" and ?del = "map snd (sb_delete b)"
  obtain q u where flush: "batch_flush_article_actions (sb_views b) (sb_likes b) ?ins ?del s = (q, u)" by (metis prod.collapse)
  have "beside_content u = beside_content s" using keepsD [OF batch_flush_beside flush] by simp
  then have frame: "shards u = shards s" "drained u = drained s" "article_topic u = article_topic s"
    by (auto simp: beside_content_def dest: arg_cong [of _ _ shards] arg_cong [of _ _ drained] arg_cong [of _ _ article_topic])
  have no_panic: "q \<noteq> Inl GoPanic" using no_panicD [OF batch_flush_no_panic] flush by blast
  note views = batch_flush_views [OF flush, of a]
  show ?thesis
  proof (cases q)
    case (Inl e)
    with flush no_panic have "attempt (batch_flush_article_actions (sb_views b) (sb_likes b) ?ins ?del) s = (Inr (Inl e), u)"
      by (simp add: attempt_Inl_run)
    with run False have merge: "set_shard k (merge_from b) u = (r, t)"
      by (simp add: flush_drained_def to_flush_payload_def bnd_Inr_run merge_back_def)
    have "views_total a u = views_total a s" using views Inl frame by (simp add: views_total_def)
    with set_shard_views [of k u "merge_from b" r t a] merge k frame views Inl row show ?thesis
      by (auto simp: views_of_merge row_views_def)
  next
    case (Inr x)
    with run flush False have "t = u"
      by (auto simp: flush_drained_def to_flush_payload_def bnd_def attempt_def ret_def)
    with views Inr frame row show ?thesis by (auto simp: views_total_def)
  qed
qed

lemma publish_action_run:
  assumes "publish_action m s = (Inr (), t)"
  obtains fs n where "t = s\<lparr>faults := fs, article_topic := article_topic s @ [m\<lparr>aa_time := n\<rparr>]\<rparr>"
  using assms
proof (cases "nsq_on s")
  case True
  with assms obtain m' where m': "m' = m \<or> m' = m\<lparr>aa_time := clock_now s div 1000000000\<rparr>"
    and run: "io (modify (\<lambda>s. s\<lparr>article_topic := article_topic s @ [m']\<rparr>)) s = (Inr (), t)"
    by (auto simp: publish_action_def bnd_def gets_def Let_def split: if_splits)
  obtain n where n: "m' = m\<lparr>aa_time := n\<rparr>" using m' by (cases m) auto
  from run show ?thesis unfolding n by (rule io_InrE) (auto simp: modify_def intro: that)
qed (simp add: publish_action_def bnd_def gets_def throw_def)

lemma worker_step_views:
  fixes s t :: "'r worker_st_scheme"
  assumes "worker_step e s t" and ok: "worker_ok a s" and "a \<noteq> 0"
  shows "worker_ok a t \<and> views_total a t = views_total a s + published_views a [e]"
  using assms(1)
proof cases
  case (publish_article m fs)
  then obtain gs n where "t = s\<lparr>faults := gs, article_topic := article_topic s @ [m\<lparr>aa_time := n\<rparr>]\<rparr>"
    by (auto elim: publish_action_run)
  with ok publish_article(1) show ?thesis
    by (simp add: worker_ok_def views_total_def published_views_def row_views_def is_view_def)
next
  case (deliver_article n r)
  let ?s = "s\<lparr>article_topic := drop_nth n (article_topic s)\<rparr>"
  have "views_total a ?s = views_total a s - is_view a (article_topic s ! n)"
    using deliver_article(2) by (simp add: views_total_def sum_list_drop_nth row_views_def)
  with handle_message_views [of ?s a "article_topic s ! n" r t] deliver_article ok assms(3) show ?thesis
    by (auto simp: worker_ok_def published_views_def row_views_def)
next
  case (swap k b u)
  with swap_buffers_views [of k s b u a] ok show ?thesis
    by (auto simp: worker_ok_def published_views_def row_views_def)
next
  case (flush_drained n k b fs r)
  let ?s = "s\<lparr>faults := fs, drained := drop_nth n (drained s)\<rparr>"
  have k: "k < length (shards ?s)" and row: "row_views a ?s \<noteq> None"
    using ok flush_drained nth_mem [of n "drained s"] by (auto simp: worker_ok_def row_views_def)
  have "views_total a ?s = views_total a s - total_for a (sb_views b)"
    using flush_drained(2,3) by (simp add: views_total_def sum_list_drop_nth row_views_def)
  moreover have "set (drop_nth n (drained s)) \<subseteq> set (drained s)"
    by (auto simp: drop_nth_def dest: in_set_takeD in_set_dropD)
  ultimately show ?thesis
    using flush_drained_views [OF k row flush_drained(4)] ok flush_drained(1)
    by (auto simp: worker_ok_def published_views_def)
next
  case (publish_comment c fs)
  then have "views_total a t = views_total a s \<and> shards t = shards s \<and> row_views a t = row_views a s \<and> drained t = drained s"
    by (auto simp: publish_comment_action_def bnd_def gets_def throw_def modify_def views_total_def row_views_def
      elim!: io_InrE split: if_splits)
  with ok publish_comment(1) show ?thesis by (simp add: worker_ok_def published_views_def)
next
  case (deliver_comment n r)
  then have "views_total a t = views_total a s \<and> shards t = shards s \<and> row_views a t = row_views a s \<and> drained t = drained s"
    by (auto simp: handle_comment_message_def bnd_def ret_def modify_def views_total_def row_views_def split: if_splits)
  with ok deliver_comment(1) show ?thesis by (simp add: worker_ok_def published_views_def)
next
  case copy_comments
  with ok show ?thesis by (simp add: worker_ok_def published_views_def views_total_def row_views_def)
next
  case (commit_comments buf fs r u)
  let ?s = "s\<lparr>faults := fs\<rparr>"
  have views: "row_views a u = row_views a s" using keepsD [OF comments_keep_views commit_comments(4)] by simp
  have "beside_content u = beside_content ?s" using keepsD [OF beside_comments commit_comments(4)] by simp
  then have "shards u = shards s" "drained u = drained s" "article_topic u = article_topic s"
    by (auto simp: beside_content_def dest: arg_cong [of _ _ shards] arg_cong [of _ _ drained] arg_cong [of _ _ article_topic])
  with views ok commit_comments(1,2) show ?thesis
    by (simp add: worker_ok_def published_views_def views_total_def row_views_def)
next
  case (settle_comments buf r)
  then have t: "t = s\<lparr>cm_copy := None, cm_buffer := fold (\<lambda>(i, d). settle_delta i d) buf (cm_buffer s)\<rparr>"
    by (simp add: settle_copy_def modify_def)
  from ok settle_comments(1) show ?thesis unfolding t by (simp add: worker_ok_def published_views_def views_total_def row_views_def)
qed

text \<open>C24: however messages are delivered, shards are swapped and flushes fail, the views of an article in MySQL, in the hands
  of a flushing goroutine, in the buffers of the shards and in the topic add up to what they were and what was published
  since: no failure loses a view and no retry counts one twice.
\<close>

theorem views_are_counted_once:
  assumes "worker_run es s t" and "worker_ok a s" and "a \<noteq> 0"
  shows "worker_ok a t \<and> views_total a t = views_total a s + published_views a es"
  using assms
proof (induction rule: worker_run.induct)
  case (more es s t e u)
  then have "worker_ok a t" "views_total a t = views_total a s + published_views a es" by simp_all
  moreover from worker_step_views [OF more(2) this(1) more(5)]
  have "worker_ok a u \<and> views_total a u = views_total a t + published_views a [e]" .
  ultimately show ?case by (simp add: published_views_def)
qed (simp add: published_views_def)

section \<open>The order of likes and unlikes\<close>

definition unlikes :: "u64 \<Rightarrow> u64 \<Rightarrow> article_action \<Rightarrow> bool" where
  "unlikes u a m \<longleftrightarrow> aa_type m = ''unlike'' \<and> aa_user m = u \<and> aa_article m = a"

lemma colon_no_digit: "CHR '':'' \<notin> set (show_nat n)"
proof (induction n rule: show_nat.induct)
  case (1 n)
  have "CHR '':'' \<noteq> char_of (48 + k)" if "k < 10" for k :: nat
  proof
    assume "CHR '':'' = char_of (48 + k)"
    from sym [OF this]
    have "(of_char (char_of (48 + k) :: char) :: nat) = of_char (CHR '':'')" by simp
    with that show False by simp
  qed
  with 1 show ?case by (auto simp: show_nat.simps [of n])
qed

lemma pair_key_inj: "pair_key u a = pair_key v b \<longleftrightarrow> (u, a) = (v, b)"
proof
  assume eq: "pair_key u a = pair_key v b"
  have "takeWhile (\<lambda>c. c \<noteq> CHR '':'') (pair_key x y) = show_u64 x" "dropWhile (\<lambda>c. c \<noteq> CHR '':'') (pair_key x y) = '':'' @ show_u64 y"
    for x y using colon_no_digit [of "unat x"]
    by (auto simp: pair_key_def show_u64_def takeWhile_append dropWhile_append)
  from arg_cong [OF eq, of "takeWhile (\<lambda>c. c \<noteq> CHR '':'')"] arg_cong [OF eq, of "dropWhile (\<lambda>c. c \<noteq> CHR '':'')"] this
  show "(u, a) = (v, b)" by simp
qed simp

lemma apply_action_delete:
  "u \<noteq> 0 \<Longrightarrow> map_of (sb_delete (apply_action m b)) (pair_key u a) =
    (if unlikes u a m then Some (u, a) else map_of (sb_delete b) (pair_key u a))"
  by (auto simp: apply_action_def Let_def unlikes_def update_conv' pair_key_inj)

lemma unlike_collected:
  assumes "u \<noteq> 0" and "m \<in> set ms" and "unlikes u a m"
  shows "(u, a) \<in> snd ` set (sb_delete (fold apply_action ms b))"
proof -
  have "map_of (sb_delete (fold apply_action ms b)) (pair_key u a) =
      (if \<exists>m \<in> set ms. unlikes u a m then Some (u, a) else map_of (sb_delete b) (pair_key u a))"
    by (induction ms arbitrary: b) (auto simp: apply_action_delete assms(1))
  with assms(2,3) have "map_of (sb_delete (fold apply_action ms b)) (pair_key u a) = Some (u, a)" by auto
  from map_of_SomeD [OF this] show ?thesis by force
qed

lemma deleted_likes:
  assumes "delete_likes ps s = (Inr (), t)"
  shows "set (article_likes t) = set (article_likes s) - {(u, a) \<in> set ps. u \<noteq> 0 \<and> a \<noteq> 0}"
  using assms
proof (induction ps arbitrary: s)
  case (Cons p ps)
  obtain u a where p: "p = (u, a)" by force
  from Cons.prems obtain w where w: "(if u = 0 \<or> a = 0 then ret () else
      bnd (delete_pair article_likes (\<lambda>v. article_likes_update (\<lambda>_. v)) (u, a)) (\<lambda>_. ret ())) s = (Inr (), w)"
    and rest: "delete_likes ps w = (Inr (), t)" by (auto simp: delete_likes_def p bnd_eq_Inr)
  from w have "set (article_likes w) = set (article_likes s) - (if u \<noteq> 0 \<and> a \<noteq> 0 then {(u, a)} else {})"
    by (auto simp: delete_pair_def bnd_eq_Inr ret_eq del_rows_def elim!: io_InrE split: if_splits)
  with Cons.IH [OF rest] show ?case by (auto simp: p split: if_splits)
qed (simp add: delete_likes_def ret_eq)

lemma add_counts_likes:
  "keeps (\<lambda>s. article_likes s = l) (add_counts increment_view_count ds)"
  "keeps (\<lambda>s. article_likes s = l) (add_counts increment_like_count ds)"
  unfolding add_counts_def increment_view_count_def increment_like_count_def add_unsigned_def
  by (intro keeps_rules; auto simp: quietly_def keeps_def intro!: keeps_call)+

text \<open>The consumer collects likes and unlikes in two sets that keep no order, and a flush writes the likes first: whoever
  took a like back and gave it again within the window of one flush is without it in MySQL.
\<close>

theorem unlike_wins:
  fixes s :: "'r worker_st_scheme"
  assumes "u \<noteq> 0" and "a \<noteq> 0" and "m \<in> set ms" and "unlikes u a m"
    and payload: "to_flush_payload (fold apply_action ms new_stats_buffer) = ((views, likes), ins, del)"
    and run: "batch_flush_article_actions views likes ins del s = (Inr (), t)"
  shows "(u, a) \<notin> set (article_likes t)"
proof -
  have del: "(u, a) \<in> set del" using unlike_collected [OF assms(1,3,4), of new_stats_buffer] payload unfolding to_flush_payload_def by (metis list.set_map prod.inject)
  then have "del \<noteq> []" by auto
  with run have "tx content_rollback (bnd (insert_likes (fold (\<lambda>(i, c). add_delta i c) likes []) ins) (\<lambda>merged.
      bnd (delete_likes del) (\<lambda>_. bnd (add_counts increment_view_count views) (\<lambda>_. add_counts increment_like_count merged)))) s =
      (Inr (), t)" by (simp add: batch_flush_article_actions_def)
  then obtain s1 s2 :: "'r worker_st_scheme" where same: "content_tables t = content_tables s2"
    and body: "bnd (insert_likes (fold (\<lambda>(i, c). add_delta i c) likes []) ins) (\<lambda>merged. bnd (delete_likes del) (\<lambda>_.
      bnd (add_counts increment_view_count views) (\<lambda>_. add_counts increment_like_count merged))) s1 = (Inr (), s2)"
    by (rule content_db.tx_success)
  then obtain x u1 u2 u3 where "delete_likes del u1 = (Inr (), u2)" and views: "add_counts increment_view_count views u2 = (Inr (), u3)"
    and likes: "add_counts increment_like_count x u3 = (Inr (), s2)" by (auto simp: bnd_eq_Inr)
  then have "(u, a) \<notin> set (article_likes u2)" using deleted_likes [of del u1 u2] del assms(1,2) by auto
  moreover have "article_likes s2 = article_likes u2"
    using keepsD [OF add_counts_likes(1) views] keepsD [OF add_counts_likes(2) likes] by simp
  ultimately show ?thesis using same by (simp add: content_tables_def)
qed

section \<open>A count below zero\<close>

lemma add_counts_in_range:
  assumes "add_counts increment_comment ds s = (Inr (), t)" and "row_likes c s = Some n" and "distinct (map fst ds)"
    and "(c, d) \<in> set ds" and "d \<noteq> 0"
  shows "0 \<le> n + d"
  using assms
proof (induction ds arbitrary: s)
  case (Cons v ds)
  obtain i e where v: "v = (i, e)" by force
  from Cons.prems obtain u where u: "(if e = 0 then ret () else increment_comment i e) s = (Inr (), u)"
    and rest: "add_counts increment_comment ds u = (Inr (), t)" by (auto simp: add_counts_def v bnd_eq_Inr)
  show ?case
  proof (cases "i = c")
    case True
    with Cons.prems(3,4) v have "e = d" by force
    from Cons.prems(2) obtain r where r: "r \<in> set (comments s)" "com_id r = c" "com_likes r = n"
      by (auto simp: row_likes_def dest: row_of_Some_in)
    from u True \<open>e = d\<close> Cons.prems(5) have "increment_comment c d s = (Inr (), u)" by simp
    then have "\<not> (\<exists>r \<in> set (comments s). com_id r = c \<and> \<not> (0 \<le> com_likes r + d \<and> com_likes r + d < 2 ^ 32))"
      by (auto simp: increment_comment_def add_unsigned_def elim!: io_InrE split: if_splits)
    with r show ?thesis by auto
  next
    case False
    have "row_likes c u = row_likes c s"
      using u increment_comment_row [of i e s u c] False by (cases "e = 0") (auto simp: ret_eq option.map_ident)
    with Cons.IH [OF rest] Cons.prems v False show ?thesis by auto
  qed
qed simp

text \<open>C25: one count that would fall below zero fails the whole flush of the comments: nothing of the buffer is written, and
  all of it is kept, so that the next flush fails the same way.
\<close>

theorem negative_count_blocks_the_flush:
  fixes s :: "'r worker_st_scheme"
  assumes "row_likes c s = Some n" and "(c, d) \<in> set (cm_buffer s)" and "n + d < 0" and "d \<noteq> 0" and "distinct (map fst (cm_buffer s))"
    and run: "flush_comments s = (r, t)"
  shows "content_tables t = content_tables s \<and> cm_buffer t = cm_buffer s \<and> row_likes c t = Some n"
proof -
  from assms(2) have ne: "cm_buffer s \<noteq> []" by auto
  obtain q u where batch: "batch_increment_comment_stats (cm_buffer s) s = (q, u)" by (metis prod.collapse)
  with ne have tx: "tx content_rollback (add_counts increment_comment (cm_buffer s)) s = (q, u)" by (simp add: batch_comments_def)
  have "beside_content u = beside_content s" using keepsD [OF beside_comments batch] by simp
  then have buffer: "cm_buffer u = cm_buffer s" by (auto simp: beside_content_def dest: arg_cong [of _ _ cm_buffer])
  show ?thesis
  proof (cases q)
    case (Inl e)
    with run batch ne have "t = u"
      by (cases "e = GoPanic") (auto simp: flush_comments_def bnd_def gets_def attempt_Inl_run attempt_def ret_def split: err.splits)
    with content_db.tx_error_tables [of "add_counts increment_comment (cm_buffer s)" s e u] tx Inl buffer assms(1) show ?thesis
      using row_likes_tables [of u s c] by simp
  next
    case (Inr x)
    with tx have "tx content_rollback (add_counts increment_comment (cm_buffer s)) s = (Inr x, u)" by simp
    then obtain s1 s2 :: "'r worker_st_scheme" where same: "content_tables s1 = content_tables s"
      and body: "add_counts increment_comment (cm_buffer s) s1 = (Inr x, s2)" by (rule content_db.tx_success)
    from row_likes_tables [OF same] assms(1) have "row_likes c s1 = Some n" by simp
    with add_counts_in_range [of "cm_buffer s" s1 s2 c n d] body assms show ?thesis by auto
  qed
qed

section \<open>Witnesses\<close>

definition demo_article :: article where
  "demo_article = \<lparr>art_id = 3, art_author = 8, art_title = ''t'', art_summary = [], art_cover = [], art_content = [], art_views = 5,
     art_likes = 1, art_category = 0, art_created = 0, art_updated = 0\<rparr>"

definition worker_demo :: worker_st where
  "worker_demo = blog_st.extend blog_demo (worker_st.fields [new_stats_buffer] 0 (\<lambda>_. False) [] [(9, -1)] 0 False None)
     \<lparr>articles := [demo_article], nsq_on := True\<rparr>"

lemmas worker_demo_simps = worker_demo_def worker_st.defs demo_article_def blog_demo_simps

definition demo_action :: "string \<Rightarrow> u64 \<Rightarrow> article_action" where
  "demo_action kind u = \<lparr>aa_type = kind, aa_article = 3, aa_user = u, aa_time = 1, aa_delta = None\<rparr>"

theorem views_are_counted_once_witness:
  "\<exists>t. worker_run [PublishArticle (demo_action ''view'' 0), DeliverArticle 0, Swap 0] worker_demo t \<and> views_total 3 t = 6"
proof -
  let ?m = "demo_action ''view'' 0" and ?b = "apply_action (demo_action ''view'' 0) new_stats_buffer"
  let ?s1 = "worker_demo\<lparr>article_topic := [?m]\<rparr>" and ?s2 = "worker_demo\<lparr>shards := [?b]\<rparr>" and ?s3 = worker_demo
  have "publish_action ?m (worker_demo\<lparr>faults := []\<rparr>) = (Inr (), ?s1)"
    by (simp add: publish_action_def bnd_def io_def gets_run modify_run Let_def demo_action_def worker_demo_simps)
  moreover have "handle_message (Some (article_topic ?s1 ! 0)) (?s1\<lparr>article_topic := drop_nth 0 (article_topic ?s1)\<rparr>) = (Inr (), ?s2)"
    by (simp add: handle_message_def set_shard_def bnd_def gets_run modify_run drop_nth_def demo_action_def known_action_def
      stats_shard_index_def worker_demo_simps)
  moreover have "swap_buffers 0 ?s2 = (Inr ?b, ?s3)"
    by (simp add: swap_buffers_def set_shard_def bnd_def gets_run modify_run ret_run worker_demo_simps)
  moreover have "0 < length (article_topic ?s1)" "0 < length (shards ?s2)" "0 \<notin> fst ` set (drained ?s2)"
    by (simp_all add: worker_demo_simps)
  ultimately have run: "worker_step (PublishArticle ?m) worker_demo ?s1" "worker_step (DeliverArticle 0) ?s1 ?s2"
    "worker_step (Swap 0) ?s2 (?s3\<lparr>drained := (0, ?b) # drained ?s3\<rparr>)"
    by (blast intro: publish_article deliver_article swap)+
  then have "worker_run ([] @ [PublishArticle ?m] @ [DeliverArticle 0] @ [Swap 0]) worker_demo (?s3\<lparr>drained := (0, ?b) # drained ?s3\<rparr>)"
    unfolding append_assoc [symmetric] by (blast intro: start more)
  moreover have "worker_ok 3 worker_demo" "views_total 3 worker_demo = 5"
    by (simp_all add: worker_ok_def row_views_def views_total_def new_stats_buffer_def worker_demo_simps)
  ultimately show ?thesis
    using views_are_counted_once [of "[PublishArticle (demo_action ''view'' 0), DeliverArticle 0, Swap 0]" worker_demo _ 3]
    by (fastforce simp: published_views_def is_view_def demo_action_def)
qed

theorem unlike_wins_witness:
  "\<exists>t. batch_flush_article_actions [] [(3, -1)] [(7, 3)] [(7, 3)] worker_demo = (Inr (), t) \<and> (7, 3) \<notin> set (article_likes t) \<and>
     to_flush_payload (fold apply_action [demo_action ''like'' 7, demo_action ''unlike'' 7, demo_action ''like'' 7] new_stats_buffer) =
       (([], [(3, -1)]), [(7, 3)], [(7, 3)])"
proof -
  have payload: "to_flush_payload (fold apply_action [demo_action ''like'' 7, demo_action ''unlike'' 7, demo_action ''like'' 7]
      new_stats_buffer) = (([], [(3, -1)]), [(7, 3)], [(7, 3)])"
    by (simp add: to_flush_payload_def apply_action_def demo_action_def new_stats_buffer_def)
  have "\<exists>t. batch_flush_article_actions [] [(3, -1)] [(7, 3)] [(7, 3)] worker_demo = (Inr (), t)"
    by (simp add: batch_flush_article_actions_def tx_def io_def bnd_def insert_ignore_def delete_likes_def delete_pair_def
      add_counts_def ret_run worker_demo_simps)
  then obtain t where run: "batch_flush_article_actions [] [(3, -1)] [(7, 3)] [(7, 3)] worker_demo = (Inr (), t)" by blast
  from unlike_wins [OF _ _ _ _ payload run, of 7 3 "demo_action ''unlike'' 7"] payload run show ?thesis
    by (auto simp: unlikes_def demo_action_def)
qed

theorem negative_count_blocks_the_flush_witness:
  "\<exists>r t. flush_comments worker_demo = (r, t) \<and> cm_buffer t = [(9, -1)] \<and> row_likes 9 t = Some 0"
  using negative_count_blocks_the_flush [of 9 worker_demo 0 "-1"]
  by (cases "flush_comments worker_demo") (simp add: row_likes_def worker_demo_simps)

end
