(* ===== verification/ArticleStore.thy ===== *)
theory ArticleStore
  imports Stats
begin

text \<open>
  The tables and the Redis keys of the articles: src/database/article_sql.go (articles, tags, links, collections,
  feeds) and src/database/article_redis.go (latest articles, the cached article with its logical expiry, the lock of a
  rebuild, hot articles, the cached collections). The counters are in Stats.thy.
\<close>

section \<open>State\<close>

text \<open>An article as it is read, answered and cached: the row with what belongs to it.\<close>

record post =
  po_article :: article
  po_tags :: "tag list"
  po_games :: "u64 list"
  po_comments :: int

text \<open>The value of the key of an article: the mark of a missing one, the article, or the article with the second it expires.\<close>

datatype cached_post = NullMark | Plain post | Logical post int

record follow =
  fo_id :: u64
  fo_follower :: u64
  fo_following :: u64
  fo_created :: int

record search_payload =
  sp_id :: u64
  sp_title :: string
  sp_author :: string
  sp_tags :: "string list"
  sp_summary :: string
  sp_cover :: string

text \<open>
  \<open>text_like\<close>: whether MySQL's LIKE matches a text with a pattern. \<open>lock_tokens\<close>: the random tokens.
  \<open>pending_inits\<close> and \<open>pending_rebuilds\<close>: goroutines that were started and have not run yet.
\<close>

record art_st = blog_st +
  follows :: "follow list"
  latest :: "zmember list"
  post_cache :: "(u64 \<times> cached_post) list"
  rebuild_locks :: "u64 \<Rightarrow> string option"
  lock_tokens :: "nat \<Rightarrow> string"
  lock_seq :: nat
  hot_articles :: "string list"
  collection_cache :: "(u64 \<times> collection list) list"
  social_cache :: "(u64 \<times> (int \<times> int)) list"
  search_on :: bool
  search_topic :: "search_payload list"
  text_like :: "string \<Rightarrow> string \<Rightarrow> bool"
  pending_inits :: "(u64 \<times> int \<times> int) list"
  pending_rebuilds :: "u64 list"

interpretation posts: key_family article_redis post_cache post_cache_update
  by unfold_locales simp_all

interpretation collection_lists: key_family article_redis collection_cache collection_cache_update
  by unfold_locales simp_all

interpretation social_stats: key_family user_redis social_cache social_cache_update
  by unfold_locales simp_all

definition blog_rollback :: "'r blog_st_scheme \<Rightarrow> 'r blog_st_scheme \<Rightarrow> 'r blog_st_scheme" where
  "blog_rollback old new = (content_rollback old new)\<lparr>article_games := article_games old,
     article_topics := article_topics old, collections := collections old\<rparr>"

section \<open>Articles and tags\<close>

text \<open>\<open>Create\<close> with its tags, in a transaction: the row, and a link to each tag. Texts have a length in runes.\<close>

definition create_article_row :: "article \<Rightarrow> tag list \<Rightarrow> ('r blog_st_scheme, article) op" where
  "create_article_row a ts = bnd (gets clock_now) (\<lambda>now.
     let a = a\<lparr>art_created := (if art_created a = zero_time then now else art_created a),
               art_updated := (if art_updated a = zero_time then now else art_updated a)\<rparr>;
         too_long = (length (runes (art_title a)) > 200 \<or> length (runes (art_summary a)) > 500 \<or> length (runes (art_cover a)) > 512) in
     bnd (attempt (tx blog_rollback (if too_long then throw IOError else
       bnd (create_row ''articles'' art_id art_id_update (\<lambda>_ _. False) articles put_articles a) (\<lambda>a.
       bnd (guarded (ts \<noteq> []) (io (modify (\<lambda>s. s\<lparr>article_tags := article_tags s @
         filter (\<lambda>p. p \<notin> set (article_tags s)) (map (\<lambda>t. (art_id a, tag_id t)) ts)\<rparr>)))) (\<lambda>_. ret a))))) (\<lambda>r. case r of
       Inl _ \<Rightarrow> throw (BizErr 404 40001) | Inr a \<Rightarrow> ret a))"

fun clean_names :: "string list \<Rightarrow> string list \<Rightarrow> string list" where
  "clean_names out [] = out"
| "clean_names out (raw # rest) = (let n = trim_space raw in
     if n = [] \<or> n \<in> set out then clean_names out rest else clean_names (out @ [n]) rest)"

definition named :: "(string \<Rightarrow> string \<Rightarrow> bool) \<Rightarrow> string list \<Rightarrow> tag list \<Rightarrow> tag list" where
  "named same names ts = filter (\<lambda>t. \<exists>n \<in> set names. same n (tag_name t)) ts"

text \<open>\<open>INSERT \<dots> ON DUPLICATE KEY\<close> does nothing for a name that is there under the collation.\<close>

definition insert_tag :: "string \<Rightarrow> 'r content_st_scheme \<Rightarrow> 'r content_st_scheme" where
  "insert_tag n s = (if \<exists>t \<in> set (tags s). same_text s n (tag_name t) then s else
     bump_auto ''tags'' (auto_id s ''tags'') (s\<lparr>tags := tags s @ [\<lparr>tag_id = auto_id s ''tags'', tag_name = n\<rparr>]\<rparr>))"

definition insert_tags :: "string list \<Rightarrow> ('r content_st_scheme, unit) op" where
  "insert_tags names = io (if \<exists>n \<in> set names. length (runes n) > 50 then throw IOError else modify (fold insert_tag names))"

definition pick_tags :: "string list \<Rightarrow> tag list \<Rightarrow> tag list" where
  "pick_tags names ts = List.map_filter (\<lambda>n. find (\<lambda>t. tag_name t = n) ts) names"

definition ensure_tags :: "string list \<Rightarrow> ('r content_st_scheme, tag list) op" where
  "ensure_tags raw = (let names = clean_names [] raw in if names = [] then ret [] else
     bnd (io (gets (\<lambda>s. named (same_text s) names (tags s)))) (\<lambda>existing.
     let missing = filter (\<lambda>n. n \<notin> tag_name ` set existing) names in
     bnd (guarded (missing \<noteq> []) (insert_tags missing)) (\<lambda>_.
     bnd (io (gets (\<lambda>s. named (same_text s) names (tags s)))) (\<lambda>all. ret (pick_tags names all)))))"

text \<open>Rows with their tags: a second query, when there are rows.\<close>

definition with_tags :: "article list \<Rightarrow> ('r blog_st_scheme, post list) op" where
  "with_tags rows = (if rows = [] then ret [] else io (gets (\<lambda>s.
     map (\<lambda>a. \<lparr>po_article = a, po_tags = tags_of s (art_id a), po_games = [], po_comments = 0\<rparr>) rows)))"

definition plain_posts :: "article list \<Rightarrow> post list" where
  "plain_posts rows = map (\<lambda>a. \<lparr>po_article = a, po_tags = [], po_games = [], po_comments = 0\<rparr>) rows"

definition get_article_list :: "u64 \<Rightarrow> int \<Rightarrow> int \<Rightarrow> ('r blog_st_scheme, post list \<times> int) op" where
  "get_article_list author page sz = (let hit = (\<lambda>a. author = 0 \<or> art_author a = author) in
     bnd (io (gets (\<lambda>s. int (count_rows hit (articles s))))) (\<lambda>total.
     bnd (query_rows (\<lambda>s. offset_limit (i64 (i64 (page - 1) * sz)) sz (newest_first art_created (filter hit (articles s))))) (\<lambda>rows.
     bnd (with_tags rows) (\<lambda>l. ret (l, total)))))"

definition delete_article_row :: "u64 \<Rightarrow> u64 \<Rightarrow> ('r blog_st_scheme, unit) op" where
  "delete_article_row a u = (let mine = (\<lambda>r. art_id r = a \<and> art_author r = u) in
     bnd (io (\<lambda>s. (Inr (\<exists>r \<in> set (articles s). mine r), put_articles (del_rows mine (articles s)) s))) (\<lambda>hit.
     if hit then ret () else throw (BizErr 404 40001)))"

definition edit_article :: "article \<Rightarrow> article \<Rightarrow> article" where
  "edit_article a r = r\<lparr>art_title := art_title a, art_summary := art_summary a, art_cover := art_cover a,
     art_content := art_content a, art_category := art_category a, art_updated := art_updated a\<rparr>"

definition update_article_row :: "article \<Rightarrow> ('r blog_st_scheme, bool) op" where
  "update_article_row a = (let mine = (\<lambda>r. art_id r = art_id a \<and> art_author r = art_author a) in
     io (if length (runes (art_title a)) > 200 \<or> length (runes (art_summary a)) > 500 \<or> length (runes (art_cover a)) > 512
       then throw IOError
       else (\<lambda>s. (Inr (\<exists>r \<in> set (articles s). mine r \<and> edit_article a r \<noteq> r), put_articles (upd_rows mine (edit_article a) (articles s)) s))))"

definition update_article :: "article \<Rightarrow> ('r blog_st_scheme, unit) op" where
  "update_article a = bnd (update_article_row a) (\<lambda>_. ret ())"

text \<open>The association is replaced: the links to other tags go, the missing ones come.\<close>

definition replace_tags :: "u64 \<Rightarrow> tag list \<Rightarrow> ('r blog_st_scheme, unit) op" where
  "replace_tags a ts = (let links = map (\<lambda>t. (a, tag_id t)) ts in
     bnd (guarded (ts \<noteq> []) (io (modify (\<lambda>s. s\<lparr>article_tags := article_tags s @ filter (\<lambda>p. p \<notin> set (article_tags s)) links\<rparr>)))) (\<lambda>_.
     io (modify (\<lambda>s. s\<lparr>article_tags := filter (\<lambda>p. fst p \<noteq> a \<or> p \<in> set links) (article_tags s)\<rparr>))))"

definition update_article_with_tags :: "article \<Rightarrow> tag list \<Rightarrow> ('r blog_st_scheme, unit) op" where
  "update_article_with_tags a ts = (if art_id a = 0 \<or> art_author a = 0 then throw InvalidData else
     tx blog_rollback (bnd (update_article_row a) (\<lambda>hit. if hit then replace_tags (art_id a) ts else throw RecordNotFound)))"

definition list_article_ids :: "int \<Rightarrow> ('r blog_st_scheme, u64 list) op" where
  "list_article_ids limit = (let limit = (if limit \<le> 0 then 10000 else limit) in
     io (gets (\<lambda>s. take (nat limit) (sort (map art_id (articles s))))))"

text \<open>The links to games and topics are replaced; zeros and repetitions are left out.\<close>

definition link_rows :: "u64 \<Rightarrow> u64 list \<Rightarrow> (u64 \<times> u64) list" where
  "link_rows a ids = map (Pair a) (rev (remdups (rev (filter (\<lambda>i. i \<noteq> 0) ids))))"

definition replace_links ::
  "('r blog_st_scheme \<Rightarrow> (u64 \<times> u64) list) \<Rightarrow> ((u64 \<times> u64) list \<Rightarrow> 'r blog_st_scheme \<Rightarrow> 'r blog_st_scheme) \<Rightarrow>
   u64 \<Rightarrow> u64 list \<Rightarrow> ('r blog_st_scheme, unit) op" where
  "replace_links rows put a ids = tx blog_rollback
     (bnd (io (modify (\<lambda>s. put (filter (\<lambda>p. fst p \<noteq> a) (rows s)) s))) (\<lambda>_.
      let new = link_rows a ids in if new = [] then ret () else io (modify (\<lambda>s. put (rows s @ new) s))))"

definition replace_article_games :: "u64 \<Rightarrow> u64 list \<Rightarrow> ('r blog_st_scheme, unit) op" where
  "replace_article_games a ids = replace_links article_games (\<lambda>v. article_games_update (\<lambda>_. v)) a ids"

definition replace_article_topics :: "u64 \<Rightarrow> u64 list \<Rightarrow> ('r blog_st_scheme, unit) op" where
  "replace_article_topics a ids = replace_links article_topics (\<lambda>v. article_topics_update (\<lambda>_. v)) a ids"

text \<open>Five columns are selected; the others read as zero.\<close>

definition search_articles_fallback_paged :: "string \<Rightarrow> int \<Rightarrow> int \<Rightarrow> ('r art_st_scheme, article list) op" where
  "search_articles_fallback_paged keyword page sz = (let page = (if page \<le> 0 then 1 else page); sz = (if sz \<le> 0 then 20 else sz) in
     io (gets (\<lambda>s. let hit = (\<lambda>t. text_like s t (''%'' @ keyword @ ''%'')) in
       map (\<lambda>a. a\<lparr>art_cover := [], art_content := [], art_views := 0, art_likes := 0, art_category := 0, art_updated := zero_time\<rparr>)
         (page_of page sz (newest_first art_created
           (filter (\<lambda>a. hit (art_title a) \<or> hit (art_summary a) \<or> hit (art_content a)) (articles s)))))))"

definition search_articles_fallback :: "string \<Rightarrow> int \<Rightarrow> ('r art_st_scheme, article list) op" where
  "search_articles_fallback keyword limit = search_articles_fallback_paged keyword 1 limit"

definition get_articles_by_authors_since :: "u64 list \<Rightarrow> int \<Rightarrow> int \<Rightarrow> int \<Rightarrow> ('r blog_st_scheme, post list \<times> int) op" where
  "get_articles_by_authors_since authors since page sz = (if authors = [] then ret ([], 0) else
     let page = (if page \<le> 0 then 1 else page); sz = (if sz \<le> 0 then 10 else sz);
         hit = (\<lambda>a. art_author a \<in> set authors \<and> art_created a \<ge> since) in
     bnd (io (gets (\<lambda>s. int (count_rows hit (articles s))))) (\<lambda>total.
     bnd (io (gets (\<lambda>s. page_of page sz (sort_key (\<lambda>a. (- art_views a, - art_created a)) (filter hit (articles s)))))) (\<lambda>rows.
     bnd (with_tags rows) (\<lambda>l. ret (l, total)))))"

definition get_following_ids :: "u64 \<Rightarrow> int \<Rightarrow> ('r art_st_scheme, u64 list) op" where
  "get_following_ids u limit = (if u = 0 then ret [] else let limit = (if limit \<le> 0 then 5000 else limit) in
     io (gets (\<lambda>s. map fo_following (take (nat limit) (newest_first fo_created (filter (\<lambda>f. fo_follower f = u) (follows s)))))))"

section \<open>Collections\<close>

definition add_collection :: "u64 \<Rightarrow> u64 \<Rightarrow> ('r blog_st_scheme, unit) op" where
  "add_collection u a = bnd (gets clock_now) (\<lambda>now. io (modify (\<lambda>s.
     if \<exists>c \<in> set (collections s). col_user c = u \<and> col_article c = a then s
     else s\<lparr>collections := collections s @ [\<lparr>col_user = u, col_article = a, col_created = now\<rparr>]\<rparr>)))"

definition remove_collection :: "u64 \<Rightarrow> u64 \<Rightarrow> ('r blog_st_scheme, unit) op" where
  "remove_collection u a = io (modify (\<lambda>s. s\<lparr>collections := del_rows (\<lambda>c. col_user c = u \<and> col_article c = a) (collections s)\<rparr>))"

definition list_collection_by_user :: "u64 \<Rightarrow> ('r blog_st_scheme, collection list) op" where
  "list_collection_by_user u = io (gets (\<lambda>s. newest_first col_created (filter (\<lambda>c. col_user c = u) (collections s))))"

record collection_item =
  ci_article :: u64
  ci_title :: string
  ci_summary :: string
  ci_cover :: string
  ci_tags :: "tag list"
  ci_collected :: int

definition default_article_cover :: string where
  "default_article_cover = ''https://pic4.zhimg.com/v2-cad31f1efa6d4940651ebec9063fd5cb_r.jpg''"

definition lower_ascii :: "string \<Rightarrow> string" where
  "lower_ascii s = map (\<lambda>c. if c \<in> set ''ABCDEFGHIJKLMNOPQRSTUVWXYZ'' then char_of ((of_char c :: nat) + 32) else c) s"

text \<open>Letters outside of ASCII are never lowered to a letter of the two schemes that are looked for.\<close>

definition normalize_article_cover_url :: "string \<Rightarrow> string" where
  "normalize_article_cover_url raw = (let u = trim_space raw; low = lower_ascii u in
     if u = [] then default_article_cover
     else if take 7 low \<noteq> ''http://'' \<and> take 8 low \<noteq> ''https://'' then default_article_cover else u)"

text \<open>The join with the articles: a collected article that is gone is left out.\<close>

definition list_user_collection_items :: "u64 \<Rightarrow> ('r blog_st_scheme, collection_item list) op" where
  "list_user_collection_items u = (if u = 0 then ret [] else
     bnd (io (gets (\<lambda>s. List.map_filter (\<lambda>c. map_option (Pair c) (row_of art_id (col_article c) (articles s)))
        (newest_first col_created (filter (\<lambda>c. col_user c = u) (collections s)))))) (\<lambda>rows. if rows = [] then ret [] else
     io (gets (\<lambda>s. map (\<lambda>(c, a). \<lparr>ci_article = col_article c, ci_title = art_title a, ci_summary = art_summary a,
       ci_cover = normalize_article_cover_url (art_cover a), ci_tags = tags_of s (art_id a), ci_collected = col_created c\<rparr>) rows))))"

definition is_collected :: "u64 \<Rightarrow> u64 \<Rightarrow> ('r blog_st_scheme, bool) op" where
  "is_collected u a = io (gets (\<lambda>s. count_rows (\<lambda>c. col_user c = u \<and> col_article c = a) (collections s) > 0))"

section \<open>The latest articles\<close>

definition latest_article_keep_count :: int where "latest_article_keep_count = 18"

definition keep_latest :: "zmember list \<Rightarrow> zmember list" where
  "keep_latest l = zremrange_by_rank 0 (- (latest_article_keep_count + 1)) l"

definition unix :: "int \<Rightarrow> int" where
  "unix ns = ns div 1000000000"

definition add_latest_article :: "u64 \<Rightarrow> int \<Rightarrow> ('r art_st_scheme, unit) op" where
  "add_latest_article a created = bnd (gets article_redis) (\<lambda>on. if \<not> on \<or> a = 0 then ret () else
     bnd (gets clock_now) (\<lambda>now. let at = (if created = zero_time then now else created) in
     io (modify (\<lambda>s. s\<lparr>latest := keep_latest (zadd (show_u64 a) (unix at) (latest s))\<rparr>))))"

definition get_latest_article_ids :: "int \<Rightarrow> int \<Rightarrow> ('r art_st_scheme, u64 list \<times> int) op" where
  "get_latest_article_ids page sz = bnd (gets article_redis) (\<lambda>on. if \<not> on then ret ([], 0) else
     let page = (if page \<le> 0 then 1 else page); sz = (if sz \<le> 0 then 6 else sz); start = i64 (i64 (page - 1) * sz) in
     bnd (io (gets (\<lambda>s. int (length (latest s))))) (\<lambda>total. if total = 0 then ret ([], 0) else
     bnd (io (gets (\<lambda>s. zrevrange_ranks start (i64 (i64 (start + sz) - 1)) (latest s)))) (\<lambda>l.
     ret (filter (\<lambda>i. i \<noteq> 0) (map (parse_uint_or_zero \<circ> zname) l), min total latest_article_keep_count))))"

definition seed_latest_articles :: "post list \<Rightarrow> ('r art_st_scheme, unit) op" where
  "seed_latest_articles l = bnd (gets article_redis) (\<lambda>on.
     let rows = filter (\<lambda>p. art_id (po_article p) \<noteq> 0) l in if \<not> on \<or> rows = [] then ret () else
     bnd (gets clock_now) (\<lambda>now. io (modify (\<lambda>s. s\<lparr>latest := keep_latest (fold (\<lambda>p. let a = po_article p in
       zadd (show_u64 (art_id a)) (unix (if art_created a = zero_time then now else art_created a))) rows (latest s))\<rparr>))))"

section \<open>The cached article\<close>

text \<open>These keys are used without a check of the client. The answer has the article, whether it expired, hit and null.\<close>

definition get_cached_article :: "u64 \<Rightarrow> ('r art_st_scheme, post option \<times> bool \<times> bool) op" where
  "get_cached_article a = bnd (gets article_redis) (\<lambda>on. if \<not> on then throw GoPanic else
     bnd (cache_get article_redis post_cache a) (\<lambda>v. ret (case v of
       None \<Rightarrow> (None, False, False) | Some NullMark \<Rightarrow> (None, True, True)
     | Some (Plain p) \<Rightarrow> (Some p, True, False) | Some (Logical p _) \<Rightarrow> (Some p, True, False))))"

definition get_cached_article_with_logical_expire :: "u64 \<Rightarrow> ('r art_st_scheme, post option \<times> bool \<times> bool \<times> bool) op" where
  "get_cached_article_with_logical_expire a = bnd (gets article_redis) (\<lambda>on. if \<not> on then throw GoPanic else
     bnd (cache_get article_redis post_cache a) (\<lambda>v. bnd (gets clock_now) (\<lambda>now. ret (case v of
       None \<Rightarrow> (None, False, False, False) | Some NullMark \<Rightarrow> (None, False, True, True)
     | Some (Plain p) \<Rightarrow> (Some p, False, True, False) | Some (Logical p t) \<Rightarrow> (Some p, unix now > t, True, False)))))"

definition put_post :: "u64 \<Rightarrow> cached_post \<Rightarrow> ('r art_st_scheme, unit) op" where
  "put_post a v = bnd (gets article_redis) (\<lambda>on. if \<not> on then throw GoPanic else cache_put article_redis post_cache_update a v)"

definition set_article_cache :: "u64 \<Rightarrow> post \<Rightarrow> ('r art_st_scheme, unit) op" where
  "set_article_cache a p = put_post a (Plain p)"

text \<open>The logical expiry is in two minutes.\<close>

definition set_hot_article_cache :: "u64 \<Rightarrow> post \<Rightarrow> ('r art_st_scheme, unit) op" where
  "set_hot_article_cache a p = bnd (gets clock_now) (\<lambda>now. put_post a (Logical p (unix (now + 120000000000))))"

definition set_article_null_cache :: "u64 \<Rightarrow> ('r art_st_scheme, unit) op" where
  "set_article_null_cache a = put_post a NullMark"

definition acquire_article_rebuild_lock :: "u64 \<Rightarrow> ('r art_st_scheme, bool \<times> string) op" where
  "acquire_article_rebuild_lock a =
     bnd (gets (\<lambda>s. lock_tokens s (lock_seq s))) (\<lambda>token.
     bnd (modify (\<lambda>s. s\<lparr>lock_seq := Suc (lock_seq s)\<rparr>)) (\<lambda>_.
     bnd (gets article_redis) (\<lambda>on. if \<not> on then throw GoPanic else
     io (\<lambda>s. case rebuild_locks s a of Some _ \<Rightarrow> (Inr (False, []), s)
       | None \<Rightarrow> (Inr (True, token), s\<lparr>rebuild_locks := (rebuild_locks s)(a \<mapsto> token)\<rparr>)))))"

definition release_article_rebuild_lock :: "u64 \<Rightarrow> string \<Rightarrow> ('r art_st_scheme, unit) op" where
  "release_article_rebuild_lock a token = (if token = [] then ret () else
     bnd (gets article_redis) (\<lambda>on. if \<not> on then throw GoPanic else
     ignore (io (modify (\<lambda>s. if rebuild_locks s a = Some token then s\<lparr>rebuild_locks := (rebuild_locks s)(a := None)\<rparr> else s)))))"

definition is_hot_article :: "u64 \<Rightarrow> ('r art_st_scheme, bool) op" where
  "is_hot_article a = bnd (gets article_redis) (\<lambda>on. if \<not> on then throw GoPanic else
     io (gets (\<lambda>s. show_u64 a \<in> set (hot_articles s))))"

text \<open>The set is deleted and filled again in one pipeline, which may break off.\<close>

definition refresh_hot_articles :: "string \<Rightarrow> int \<Rightarrow> int \<Rightarrow> ('r art_st_scheme, unit) op" where
  "refresh_hot_articles action most min_score = bnd (merge_weekly_leaderboard action) (\<lambda>l.
     deferred (bnd (io (ret (zrevrange_ranks 0 (most - 1) l))) (\<lambda>items.
       bnd (io (modify (\<lambda>s. s\<lparr>hot_articles := []\<rparr>))) (\<lambda>_.
       for_each (filter (\<lambda>z. zscore z \<ge> min_score \<and> zname z \<noteq> []) items) (\<lambda>z.
         io (modify (\<lambda>s. s\<lparr>hot_articles := List.insert (zname z) (hot_articles s)\<rparr>))))))
     (ignore (io (ret ()))))"

section \<open>Cached collections and counts of a user\<close>

definition get_user_collection_list :: "u64 \<Rightarrow> ('r art_st_scheme, collection list option) op" where
  "get_user_collection_list u = cache_get article_redis collection_cache u"

definition set_user_collection_list :: "u64 \<Rightarrow> collection list \<Rightarrow> ('r art_st_scheme, unit) op" where
  "set_user_collection_list u l = cache_put article_redis collection_cache_update u l"

definition delete_user_collection_list :: "u64 \<Rightarrow> ('r art_st_scheme, unit) op" where
  "delete_user_collection_list u = cache_del article_redis collection_cache_update u"

definition get_user_social_stats :: "u64 \<Rightarrow> ('r art_st_scheme, (int \<times> int) option) op" where
  "get_user_social_stats u = (if u = 0 then ret None else cache_get user_redis social_cache u)"

definition set_user_social_stats :: "u64 \<Rightarrow> int \<Rightarrow> int \<Rightarrow> ('r art_st_scheme, unit) op" where
  "set_user_social_stats u following followers = (if u = 0 then ret () else cache_put user_redis social_cache_update u (following, followers))"

definition del_user_social_stats :: "u64 \<Rightarrow> ('r art_st_scheme, unit) op" where
  "del_user_social_stats u = (if u = 0 then ret () else cache_del user_redis social_cache_update u)"

end
