(* ===== verification/Articles.thy ===== *)
theory Articles
  imports ArticleStore
begin

text \<open>
  ArticleService (src/service/article_service.go) and the handlers of the articles (src/handler/article_handler.go).
  The goroutines that fill the counters and rebuild a cached article are queued in the state and run by steps of their
  own. The Bloom filter of src/cache/article_guard.go is only written to and never asked, and its singleflight group is
  a run of the loader, so neither is in the state; the Markdown that is rendered for the page is left out.
\<close>

section \<open>Collections\<close>

definition collect_article :: "u64 \<Rightarrow> u64 \<Rightarrow> ('r art_st_scheme, unit) op" where
  "collect_article u a = bnd (add_collection u a) (\<lambda>_.
     bnd (ignore (delete_user_collection_list u)) (\<lambda>_. ignore (enqueue_earn u ''collect'' a 0)))"

definition uncollect_article :: "u64 \<Rightarrow> u64 \<Rightarrow> ('r art_st_scheme, unit) op" where
  "uncollect_article u a = bnd (remove_collection u a) (\<lambda>_. ignore (delete_user_collection_list u))"

definition is_article_collected :: "u64 \<Rightarrow> u64 \<Rightarrow> ('r art_st_scheme, bool) op" where
  "is_article_collected u a = (if u = 0 \<or> a = 0 then ret False else is_collected u a)"

definition list_my_collections :: "u64 \<Rightarrow> ('r art_st_scheme, collection_item list) op" where
  "list_my_collections u = list_user_collection_items u"

section \<open>Reading\<close>

text \<open>The counts of the articles that have comments; an error leaves the posts as they are.\<close>

definition fill_comment_counts :: "post list \<Rightarrow> ('r art_st_scheme, post list) op" where
  "fill_comment_counts posts = (let ids = filter (\<lambda>i. i \<noteq> 0) (map (\<lambda>p. art_id (po_article p)) posts) in
     if ids = [] then ret posts else bnd (attempt (count_by_article_ids ids)) (\<lambda>r. ret (case r of
       Inl _ \<Rightarrow> posts
     | Inr counts \<Rightarrow> map (\<lambda>p. case map_of counts (art_id (po_article p)) of
         None \<Rightarrow> p | Some n \<Rightarrow> p\<lparr>po_comments := n\<rparr>) posts)))"

definition post_of :: "article \<times> tag list \<Rightarrow> post" where
  "post_of r = \<lparr>po_article = fst r, po_tags = snd r, po_games = [], po_comments = 0\<rparr>"

definition load_guarded :: "u64 \<Rightarrow> bool \<Rightarrow> ('r art_st_scheme, post) op" where
  "load_guarded a hot = bnd (attempt (get_article_by_id a)) (\<lambda>r. case r of
       Inl e \<Rightarrow> bnd (guarded (e = RecordNotFound) (ignore (set_article_null_cache a))) (\<lambda>_. throw e)
     | Inr row \<Rightarrow> bnd (ignore (if hot then set_hot_article_cache a (post_of row) else set_article_cache a (post_of row)))
         (\<lambda>_. ret (post_of row)))"

definition get_article_with_guard :: "u64 \<Rightarrow> bool \<Rightarrow> ('r art_st_scheme, post) op" where
  "get_article_with_guard a hot = bnd (attempt (acquire_article_rebuild_lock a)) (\<lambda>lock. case lock of
       Inr (True, token) \<Rightarrow> deferred (load_guarded a hot) (release_article_rebuild_lock a token)
     | _ \<Rightarrow> load_guarded a hot)"

text \<open>The goroutine that rebuilds an expired hot article.\<close>

definition rebuild_article_cache :: "u64 \<Rightarrow> ('r art_st_scheme, unit) op" where
  "rebuild_article_cache a = bnd (attempt (acquire_article_rebuild_lock a)) (\<lambda>lock. case lock of
       Inr (True, token) \<Rightarrow> deferred
         (bnd (attempt (get_article_by_id a)) (\<lambda>r. case r of
            Inl e \<Rightarrow> guarded (e = RecordNotFound) (ignore (set_article_null_cache a))
          | Inr row \<Rightarrow> ignore (set_hot_article_cache a (post_of row))))
         (release_article_rebuild_lock a token)
     | _ \<Rightarrow> ret ())"

definition run_rebuild :: "nat \<Rightarrow> ('r art_st_scheme, unit) op" where
  "run_rebuild n = (\<lambda>s. if n < length (pending_rebuilds s)
     then rebuild_article_cache (pending_rebuilds s ! n)
       (s\<lparr>pending_rebuilds := take n (pending_rebuilds s) @ drop (Suc n) (pending_rebuilds s)\<rparr>)
     else (Inr (), s))"

definition run_init :: "nat \<Rightarrow> ('r art_st_scheme, unit) op" where
  "run_init n = (\<lambda>s. if n < length (pending_inits s)
     then (case pending_inits s ! n of (a, v, l) \<Rightarrow> article_init_stats a v l)
       (s\<lparr>pending_inits := take n (pending_inits s) @ drop (Suc n) (pending_inits s)\<rparr>)
     else (Inr (), s))"

text \<open>The cached article of a hot or another key: with whether it expired, was hit and is the mark of a missing one.\<close>

definition look_up_cache :: "u64 \<Rightarrow> bool \<Rightarrow> ('r art_st_scheme, post option \<times> bool \<times> bool \<times> bool) op" where
  "look_up_cache a hot = (if hot then get_cached_article_with_logical_expire a
     else bnd (get_cached_article a) (\<lambda>(p, hit, null). ret (p, False, hit, null)))"

text \<open>The counts of Redis when there are any; otherwise those of the row, and a goroutine stores them.\<close>

definition with_live_counts :: "u64 \<Rightarrow> post \<Rightarrow> ('r art_st_scheme, post) op" where
  "with_live_counts a p = bnd (attempt (article_get_stats a)) (\<lambda>r.
     let row = (i64 (art_views (po_article p)), i64 (art_likes (po_article p)));
         stored = (case r of Inl _ \<Rightarrow> (0, 0) | Inr n \<Rightarrow> n);
         (views, likes) = (if stored = (0, 0) then row else stored) in
     bnd (guarded (stored = (0, 0)) (modify (\<lambda>s. s\<lparr>pending_inits := pending_inits s @ [(a, views, likes)]\<rparr>))) (\<lambda>_.
     ret (p\<lparr>po_article := (po_article p)\<lparr>art_views := views mod 2 ^ 64, art_likes := likes mod 2 ^ 64\<rparr>\<rparr>)))"

definition load_article :: "u64 \<Rightarrow> bool \<Rightarrow> ('r art_st_scheme, post) op" where
  "load_article a hot = bnd (get_article_with_guard a hot) (\<lambda>p.
     bnd (with_live_counts a p) (\<lambda>p.
     bnd (ignore (if hot then set_hot_article_cache a p else set_article_cache a p)) (\<lambda>_. ret p)))"

definition get_article :: "u64 \<Rightarrow> ('r art_st_scheme, post) op" where
  "get_article a =
     bnd (attempt (is_hot_article a)) (\<lambda>h. let hot = (case h of Inl _ \<Rightarrow> False | Inr b \<Rightarrow> b) in
     bnd (attempt (look_up_cache a hot)) (\<lambda>c. case c of
       Inl _ \<Rightarrow> load_article a hot
     | Inr (found, expired, hit, null) \<Rightarrow>
         if hit \<and> null then throw RecordNotFound else
         (case found of None \<Rightarrow> load_article a hot
          | Some p \<Rightarrow> if \<not> hit then load_article a hot else
              bnd (guarded (hot \<and> expired) (modify (\<lambda>s. s\<lparr>pending_rebuilds := pending_rebuilds s @ [a]\<rparr>))) (\<lambda>_. ret p))))"

definition read_article :: "u64 \<Rightarrow> string \<Rightarrow> ('r art_st_scheme, post) op" where
  "read_article a actor = bnd (get_article a) (\<lambda>p. bnd (count_read a actor) (\<lambda>_. ret p))"

section \<open>Writing\<close>

definition normalize_summary_text :: "string \<Rightarrow> string" where
  "normalize_summary_text s = replace_all [CHR 0x0D, CHR 0x0A] [CHR 0x0A] (trim_space s)"

text \<open>The topics of the games, then the links of the article. The order of the set of topics is that of its first uses.\<close>

fun game_topics :: "u64 list \<Rightarrow> ('r art_st_scheme, u64 list) op" where
  "game_topics [] = ret []"
| "game_topics (g # gs) = (if g = 0 then game_topics gs else
     bnd (attempt (get_game_row g)) (\<lambda>r. case r of
       Inl _ \<Rightarrow> throw (BizErr 400 40001)
     | Inr game \<Rightarrow> bnd (ensure_game_topic g (g_name game)) (\<lambda>i. bnd (game_topics gs) (\<lambda>is. ret (i # is)))))"

definition sync_article_links :: "u64 \<Rightarrow> u64 list \<Rightarrow> u64 \<Rightarrow> ('r art_st_scheme, unit) op" where
  "sync_article_links a gs category = (if a = 0 then throw InvalidData else
     bnd (replace_article_games a gs) (\<lambda>_.
     bnd (game_topics gs) (\<lambda>ts. replace_article_topics a (remdups (filter (\<lambda>i. i \<noteq> 0) (category # ts))))))"

definition publish_search_sync :: "search_payload \<Rightarrow> ('r art_st_scheme, unit) op" where
  "publish_search_sync p = bnd (gets search_on) (\<lambda>on. if \<not> on then throw (PlainError ''kafka search writer is not initialized'')
     else io (modify (\<lambda>s. s\<lparr>search_topic := search_topic s @ [p]\<rparr>)))"

definition sync_article_to_search :: "post \<Rightarrow> ('r art_st_scheme, unit) op" where
  "sync_article_to_search p = (let a = po_article p in
     bnd (attempt (get_user_by_id (art_author a))) (\<lambda>r.
     let author = (case r of Inr u \<Rightarrow> if u_name u \<noteq> [] then u_name u else ''UID:'' @ show_u64 (art_author a)
                     | Inl _ \<Rightarrow> ''UID:'' @ show_u64 (art_author a)) in
     ignore (publish_search_sync \<lparr>sp_id = art_id a, sp_title = art_title a, sp_author = author, sp_tags = map tag_name (po_tags p),
       sp_summary = art_summary a, sp_cover = normalize_article_cover_url (art_cover a)\<rparr>)))"

text \<open>The default topic stands in for none; another must be open.\<close>

definition topic_for_article :: "u64 \<Rightarrow> ('r art_st_scheme, u64) op" where
  "topic_for_article c = (if c = 0 then ensure_default_topic else
     bnd (gets clock_now) (\<lambda>now. bnd (attempt (get_active_topic_by_id c now)) (\<lambda>r. case r of
       Inl _ \<Rightarrow> throw (BizErr 400 40001) | Inr _ \<Rightarrow> ret c)))"

definition invalidate_user_social_stats :: "u64 \<Rightarrow> ('r art_st_scheme, unit) op" where
  "invalidate_user_social_stats u = (if u = 0 then ret () else ignore (del_user_social_stats u))"

text \<open>The tags come as names, of which the handler has left no blank ones.\<close>

definition create_article :: "article \<Rightarrow> string list \<Rightarrow> u64 list \<Rightarrow> ('r art_st_scheme, article) op" where
  "create_article a names gs = (let a = a\<lparr>art_cover := normalize_article_cover_url (art_cover a),
       art_summary := normalize_summary_text (art_summary a)\<rparr> in
     bnd (topic_for_article (art_category a)) (\<lambda>c.
     bnd (ensure_tags (map trim_space (filter (\<lambda>n. trim_space n \<noteq> []) names))) (\<lambda>ts.
     bnd (create_article_row (a\<lparr>art_category := c\<rparr>) ts) (\<lambda>a.
     bnd (sync_article_links (art_id a) gs c) (\<lambda>_.
     let p = \<lparr>po_article = a, po_tags = ts, po_games = gs, po_comments = 0\<rparr> in
     bnd (ignore (set_article_cache (art_id a) p)) (\<lambda>_.
     bnd (ignore (add_latest_article (art_id a) (art_created a))) (\<lambda>_.
     bnd (sync_article_to_search p) (\<lambda>_.
     bnd (ignore (enqueue_earn (art_author a) ''article'' (art_id a) 0)) (\<lambda>_.
     bnd (guarded (art_author a \<noteq> 0) (invalidate_user_social_stats (art_author a))) (\<lambda>_. ret a))))))))))"

definition delete_article :: "u64 \<Rightarrow> u64 \<Rightarrow> ('r art_st_scheme, unit) op" where
  "delete_article u a = delete_article_row a u"

record article_edit =
  ae_title :: string
  ae_summary :: string
  ae_content :: string
  ae_cover :: string
  ae_tags :: "string list"
  ae_category :: u64
  ae_games :: "u64 list"

definition edited_article :: "article_edit \<Rightarrow> int \<Rightarrow> article \<Rightarrow> article" where
  "edited_article e now a = a\<lparr>art_category := (if ae_category e \<noteq> 0 then ae_category e else art_category a),
     art_title := ae_title e, art_summary := normalize_summary_text (ae_summary e), art_content := ae_content e,
     art_cover := normalize_article_cover_url (ae_cover e), art_updated := now\<rparr>"

definition update_cached_article :: "u64 \<Rightarrow> post \<Rightarrow> ('r art_st_scheme, unit) op" where
  "update_cached_article a p = bnd (attempt (is_hot_article a)) (\<lambda>h.
     ignore (if h = Inr True then set_hot_article_cache a p else set_article_cache a p))"

definition update_article_service :: "u64 \<Rightarrow> u64 \<Rightarrow> article_edit \<Rightarrow> ('r art_st_scheme, unit) op" where
  "update_article_service u i e =
     bnd (get_article_by_id i) (\<lambda>(a, _).
     if art_author a \<noteq> u then throw (PlainError ''no permission to edit this article'') else
     bnd (if ae_category e = 0 then ret 0 else topic_for_article (ae_category e)) (\<lambda>_.
     bnd (gets clock_now) (\<lambda>now. let a = edited_article e now a in
     bnd (ensure_tags (ae_tags e)) (\<lambda>ts.
     bnd (update_article_with_tags a ts) (\<lambda>_.
     bnd (sync_article_links (art_id a) (ae_games e) (art_category a)) (\<lambda>_.
     let p = post_of (a, ts) in
     bnd (update_cached_article i p) (\<lambda>_. sync_article_to_search p)))))))"

section \<open>Lists\<close>

definition get_article_list_service :: "u64 \<Rightarrow> int \<Rightarrow> int \<Rightarrow> ('r art_st_scheme, post list \<times> int) op" where
  "get_article_list_service author page sz =
     bnd (get_article_list author page sz) (\<lambda>(l, total). bnd (fill_comment_counts l) (\<lambda>l. ret (l, total)))"

text \<open>\<open>all[start:end]\<close> on \<open>int\<close>s: a start below zero panics.\<close>

definition latest_slice :: "int \<Rightarrow> int \<Rightarrow> 'a list \<Rightarrow> 'a list option" where
  "latest_slice page sz l = (let start = i64 (i64 (page - 1) * sz); stop = i64 (start + sz); stop = min stop (int (length l)) in
     if start \<ge> int (length l) then Some [] else if start < 0 \<or> stop < start then None
     else Some (take (nat (stop - start)) (drop (nat start) l)))"

definition latest_from_tables :: "int \<Rightarrow> int \<Rightarrow> ('r art_st_scheme, post list \<times> int) op" where
  "latest_from_tables page sz =
     bnd (get_article_list 0 1 18) (\<lambda>(l, _).
     bnd (ignore (seed_latest_articles l)) (\<lambda>_. case latest_slice page sz l of
       None \<Rightarrow> throw GoPanic
     | Some out \<Rightarrow> bnd (fill_comment_counts out) (\<lambda>out. ret (out, int (length l)))))"

definition in_order :: "u64 list \<Rightarrow> article list \<Rightarrow> article list" where
  "in_order ids rows = List.map_filter (\<lambda>i. row_of art_id i rows) ids"

definition get_latest_articles_all :: "int \<Rightarrow> int \<Rightarrow> ('r art_st_scheme, post list \<times> int) op" where
  "get_latest_articles_all page sz = (let page = (if page \<le> 0 then 1 else page); sz = (if sz \<le> 0 then 6 else sz) in
     bnd (attempt (get_latest_article_ids page sz)) (\<lambda>r. let (ids, total) = (case r of Inl _ \<Rightarrow> ([], 0) | Inr v \<Rightarrow> v) in
     if total = 0 then latest_from_tables page sz
     else if ids = [] then ret ([], total)
     else bnd (get_articles_by_ids ids) (\<lambda>rows. bnd (fill_comment_counts (plain_posts (in_order ids rows))) (\<lambda>l. ret (l, total)))))"

text \<open>Thirty days of 24 hours: the zones with other days are left out.\<close>

definition get_following_latest_articles_by_view :: "u64 \<Rightarrow> int \<Rightarrow> int \<Rightarrow> ('r art_st_scheme, post list \<times> int) op" where
  "get_following_latest_articles_by_view u page sz = (if u = 0 then ret ([], 0) else
     bnd (get_following_ids u 5000) (\<lambda>ids. if ids = [] then ret ([], 0) else
     bnd (gets clock_now) (\<lambda>now.
     bnd (get_articles_by_authors_since ids (now - 30 * 86400000000000) page sz) (\<lambda>(l, total).
     bnd (fill_comment_counts l) (\<lambda>l. ret (l, total))))))"

definition get_leaderboard :: "string \<Rightarrow> ('r art_st_scheme, post list) op" where
  "get_leaderboard action = bnd (get_top_article_ids action 10) (\<lambda>ids. if ids = [] then ret [] else
     bnd (get_articles_by_ids ids) (\<lambda>rows. fill_comment_counts (plain_posts (in_order ids rows))))"

text \<open>What is done at the start and every thirty seconds.\<close>

definition hot_key_refresh :: "('r art_st_scheme, unit) op" where
  "hot_key_refresh = ignore (refresh_hot_articles ''view'' 200 20)"

section \<open>Handlers\<close>

fun normalize_tag_names :: "string list \<Rightarrow> string list \<Rightarrow> string list option" where
  "normalize_tag_names out [] = Some out"
| "normalize_tag_names out (raw # rest) = (let t = trim_space raw in
     if t = [] then normalize_tag_names out rest
     else if length (runes t) > 50 then None
     else if t \<in> set out then normalize_tag_names out rest
     else if length out + 1 > 5 then None else normalize_tag_names (out @ [t]) rest)"

text \<open>\<open>SplitN(auth, " ", 2)\<close> and the scheme in any case; \<open>parse\<close> is what the token says.\<close>

definition bearer_user :: "(string \<Rightarrow> u64 option) \<Rightarrow> string \<Rightarrow> u64" where
  "bearer_user parse auth = (let scheme = takeWhile (\<lambda>c. c \<noteq> CHR '' '') auth; rest = drop (length scheme) auth in
     if rest = [] \<or> lower_ascii scheme \<noteq> ''bearer'' then 0
     else case parse (tl rest) of None \<Rightarrow> 0 | Some u \<Rightarrow> u)"

definition ensure_anon_session_id :: "string option \<Rightarrow> string option \<Rightarrow> string option" where
  "ensure_anon_session_id cookie fresh = (case cookie of
     Some sid \<Rightarrow> if sid \<noteq> [] then Some sid else fresh | None \<Rightarrow> fresh)"

definition resolve_actor_key :: "u64 option \<Rightarrow> (string \<Rightarrow> u64 option) \<Rightarrow> string \<Rightarrow> string option \<Rightarrow> string option \<Rightarrow> string" where
  "resolve_actor_key logged_in parse auth cookie fresh =
     (let u = (case logged_in of Some u \<Rightarrow> if u \<noteq> 0 then u else bearer_user parse auth | None \<Rightarrow> bearer_user parse auth) in
      if u \<noteq> 0 then ''u:'' @ show_u64 u
      else case ensure_anon_session_id cookie fresh of Some sid \<Rightarrow> if sid \<noteq> [] then ''s:'' @ sid else ''anonymous'' | None \<Rightarrow> ''anonymous'')"

definition article_summary_max_runes :: nat where "article_summary_max_runes = 500"

definition create_article_handle :: "u64 option \<Rightarrow> article_edit option \<Rightarrow> ('r art_st_scheme, string) op" where
  "create_article_handle u body = with_body body (\<lambda>p. let summary = trim_space (ae_summary p) in
     if summary = [] \<or> length (runes summary) > article_summary_max_runes then throw ErrCodeInvalidParam else
     case normalize_tag_names [] (ae_tags p) of None \<Rightarrow> throw ErrCodeInvalidParam | Some names \<Rightarrow>
     case u of None \<Rightarrow> throw ErrInvalidToken | Some u \<Rightarrow>
     bnd generate_id (\<lambda>i.
     bnd (or_busy (create_article \<lparr>art_id = i, art_author = u, art_title = ae_title p, art_summary = summary, art_cover = ae_cover p,
       art_content = ae_content p, art_views = 0, art_likes = 0, art_category = ae_category p, art_created = zero_time,
       art_updated = zero_time\<rparr> names (ae_games p))) (\<lambda>a. ret (show_u64 (art_id a)))))"

definition update_article_handle :: "string \<Rightarrow> u64 option \<Rightarrow> article_edit option \<Rightarrow> ('r art_st_scheme, string) op" where
  "update_article_handle i u body = (case parse_uint i of None \<Rightarrow> throw ErrCodeInvalidParam | Some k \<Rightarrow>
     if k = 0 then throw ErrCodeInvalidParam else
     case u of None \<Rightarrow> throw ErrInvalidToken | Some u \<Rightarrow> with_body body (\<lambda>p. let summary = trim_space (ae_summary p) in
     if trim_space (ae_title p) = [] \<or> summary = [] \<or> trim_space (ae_content p) = [] \<or>
       length (runes summary) > article_summary_max_runes then throw ErrCodeInvalidParam else
     case normalize_tag_names [] (ae_tags p) of None \<Rightarrow> throw ErrCodeInvalidParam | Some names \<Rightarrow>
     bnd (update_article_service u k (p\<lparr>ae_summary := summary, ae_tags := names\<rparr>)) (\<lambda>_. ret i)))"

definition or_message :: "('s, 'a) op \<Rightarrow> ('s, 'a) op" where
  "or_message m = bnd (attempt m) (\<lambda>r. case r of Inl _ \<Rightarrow> throw MsgError | Inr x \<Rightarrow> ret x)"

text \<open>The page of an article: the post, its cover, and whether the reader (0 for none) has collected it.\<close>

definition read_article_handle :: "string \<Rightarrow> string \<Rightarrow> u64 \<Rightarrow> ('r art_st_scheme, post \<times> string \<times> bool) op" where
  "read_article_handle i actor u = (case parse_uint i of None \<Rightarrow> throw ErrCodeInvalidParam | Some a \<Rightarrow>
     bnd (or_message (read_article a actor)) (\<lambda>p.
     bnd (if u = 0 then ret (Inr False) else attempt (is_article_collected u a)) (\<lambda>c.
     ret (p, normalize_article_cover_url (art_cover (po_article p)), c = Inr True))))"

definition get_article_list_handler ::
  "string option \<Rightarrow> string option \<Rightarrow> string option \<Rightarrow> ('r art_st_scheme, post list \<times> int) op" where
  "get_article_list_handler author page sz = or_message (get_article_list_service
     (parse_uint_or_zero (case author of None \<Rightarrow> [] | Some s \<Rightarrow> s)) (query_int page ''1'') (query_int sz ''10''))"

definition positive_or :: "int \<Rightarrow> int \<Rightarrow> int" where
  "positive_or d n = (if n \<le> 0 then d else n)"

definition get_latest_articles_public ::
  "string option \<Rightarrow> string option \<Rightarrow> string option \<Rightarrow> ('r art_st_scheme, post list \<times> int) op" where
  "get_latest_articles_public author page sz =
     (let u = parse_uint_or_zero (case author of None \<Rightarrow> [] | Some s \<Rightarrow> s);
          page = positive_or 1 (query_int page ''1''); sz = positive_or 6 (query_int sz ''6'') in
      or_message (if u = 0 then get_latest_articles_all page sz else get_article_list_service u page sz))"

definition get_following_latest_articles :: "u64 \<Rightarrow> string option \<Rightarrow> string option \<Rightarrow> ('r art_st_scheme, post list \<times> int) op" where
  "get_following_latest_articles u page sz = or_message (get_following_latest_articles_by_view u
     (positive_or 1 (query_int page ''1'')) (positive_or 6 (query_int sz ''6'')))"

definition get_article_list_public ::
  "string option \<Rightarrow> string option \<Rightarrow> string option \<Rightarrow> ('r art_st_scheme, post list \<times> int) op" where
  "get_article_list_public author page sz = or_message (get_article_list_service
     (parse_uint_or_zero (case author of None \<Rightarrow> [] | Some s \<Rightarrow> s))
     (positive_or 1 (query_int page ''1'')) (positive_or 10 (query_int sz ''10'')))"

definition get_article_leaderboard_public :: "string option \<Rightarrow> ('r art_st_scheme, string \<times> post list) op" where
  "get_article_leaderboard_public kind = (let kind = (case kind of None \<Rightarrow> ''view'' | Some k \<Rightarrow> k) in
     if kind \<noteq> ''view'' \<and> kind \<noteq> ''like'' then throw ErrCodeInvalidParam
     else bnd (or_message (get_leaderboard kind)) (\<lambda>l. ret (kind, l)))"

definition delete_article_handle :: "string \<Rightarrow> u64 option \<Rightarrow> ('r art_st_scheme, unit) op" where
  "delete_article_handle i u = (case u of None \<Rightarrow> throw ErrInvalidToken
     | Some u \<Rightarrow> or_message (delete_article u (parse_uint_or_zero i)))"

definition like_article_handle :: "u64 option \<Rightarrow> (body_id \<times> bool) option \<Rightarrow> ('r art_st_scheme, unit) op" where
  "like_article_handle u body = with_body body (\<lambda>(v, cancel). case read_body_id v of
       None \<Rightarrow> throw ErrCodeInvalidParam
     | Some a \<Rightarrow> (case u of None \<Rightarrow> throw ErrInvalidToken | Some u \<Rightarrow> or_busy (like_article a u cancel)))"

definition collect_article_handle :: "u64 \<Rightarrow> u64 option \<Rightarrow> ('r art_st_scheme, unit) op" where
  "collect_article_handle u body = with_body body (\<lambda>a. if a = 0 then throw ErrCodeInvalidParam else or_busy (collect_article u a))"

definition uncollect_article_handle :: "u64 \<Rightarrow> u64 option \<Rightarrow> ('r art_st_scheme, unit) op" where
  "uncollect_article_handle u body = with_body body (\<lambda>a. if a = 0 then throw ErrCodeInvalidParam else or_busy (uncollect_article u a))"

definition list_my_collections_handle :: "u64 \<Rightarrow> ('r art_st_scheme, collection_item list) op" where
  "list_my_collections_handle u = or_busy (list_my_collections u)"

end
