(* ===== verification/Kafka.thy ===== *)
theory Kafka
  imports Articles Translator
begin

text \<open>
  Kafka (src/mq/kafka_init.go): the writers, and the consumers as functions of what the reader of kafka-go returns,
  one outcome per \<open>FetchMessage\<close>. The reader and the brokers are the library's and are not modelled: the outcomes are
  an argument, and so is what processes a message. Sleeping is recorded.
\<close>

section \<open>State\<close>

record 'b kmessage =
  km_partition :: int
  km_offset :: int
  km_key :: string
  km_body :: 'b

definition km_position :: "'b kmessage \<Rightarrow> int \<times> int" where
  "km_position m = (km_partition m, km_offset m)"

text \<open>The value of a message of the points: bytes that are no JSON, another JSON value (or none), or an earning.\<close>

datatype earn_value = NotJson | OtherJson | Earning earn_payload

definition earning :: "earn_value \<Rightarrow> earn_payload option" where
  "earning v = (case v of Earning p \<Rightarrow> Some p | _ \<Rightarrow> None)"

datatype 'b fetched = Fetched "'b kmessage" | FetchFailed | FetchCancelled

record dlq_envelope =
  dq_topic :: string
  dq_attempts :: int
  dq_error :: err
  dq_failed_at :: int
  dq_payload :: earn_value

record notification_payload =
  np_event :: u64
  np_user :: u64
  np_sender :: u64
  np_sender_name :: string
  np_content :: string
  np_type :: string
  np_created :: int
  np_read :: bool

text \<open>\<open>kafka_up\<close>: the context of the consumers is there; \<open>writers_on\<close>: the writers are (points, their dead letters, and the rest).\<close>

record kafka_st = art_st +
  kafka_up :: bool
  max_retries :: int
  dlq_on :: bool
  dead_letters :: "(string \<times> dlq_envelope) list"
  push_on :: bool
  push_topic :: "notification_payload list"
  store_on :: bool
  store_topic :: "(string \<times> notification_payload) list"
  turns_on :: bool
  turn_topic :: "(string \<times> turn_record) list"
  commits :: "(int \<times> int) list"
  slept :: "int list"

section \<open>Writers\<close>

definition topic_points_earn :: string where "topic_points_earn = ''points.earn''"

definition init_kafka :: "string list \<Rightarrow> string \<Rightarrow> int \<Rightarrow> ('r kafka_st_scheme, unit) op" where
  "init_kafka brokers grp retries =
     (if brokers = [] then throw (PlainError ''kafka brokers is empty'')
      else if grp = [] then throw (PlainError ''kafka groupID is empty'')
      else modify (\<lambda>s. s\<lparr>max_retries := (if retries \<le> 0 then 3 else retries), kafka_up := True, push_on := True, store_on := True,
        search_on := True, earn_kafka := True, dlq_on := True, turns_on := True\<rparr>))"

definition close_kafka :: "('r kafka_st_scheme, unit) op" where
  "close_kafka = modify (\<lambda>s. s\<lparr>kafka_up := False, push_on := False, store_on := False, search_on := False,
     earn_kafka := False, dlq_on := False, turns_on := False\<rparr>)"

definition unix_seconds :: "int \<Rightarrow> int" where
  "unix_seconds ns = ns div 1000000000"

definition publish_notification :: "u64 \<Rightarrow> u64 \<Rightarrow> string \<Rightarrow> string \<Rightarrow> string \<Rightarrow> ('r kafka_st_scheme, unit) op" where
  "publish_notification u sender name content kind = bnd (gets push_on) (\<lambda>on.
     if \<not> on then throw (PlainError ''kafka notification writer is not initialized'') else
     bnd generate_id (\<lambda>i. bnd (gets clock_now) (\<lambda>now.
     io (modify (\<lambda>s. s\<lparr>push_topic := push_topic s @ [\<lparr>np_event = i, np_user = u, np_sender = sender, np_sender_name = name,
       np_content = content, np_type = kind, np_created = unix_seconds now, np_read = False\<rparr>]\<rparr>)))))"

definition publish_notification_store :: "notification_payload \<Rightarrow> ('r kafka_st_scheme, unit) op" where
  "publish_notification_store p = bnd (gets store_on) (\<lambda>on.
     if \<not> on then throw (PlainError ''kafka notification store writer is not initialized'') else
     bnd (if np_event p = 0 then generate_id else ret (np_event p)) (\<lambda>i. bnd (gets clock_now) (\<lambda>now.
     io (modify (\<lambda>s. s\<lparr>store_topic := store_topic s @
       [(show_u64 (np_user p), p\<lparr>np_event := i, np_created := (if np_created p = 0 then unix_seconds now else np_created p)\<rparr>)]\<rparr>)))))"

definition agent_turn_kafka_available :: "('r kafka_st_scheme, bool) op" where
  "agent_turn_kafka_available = gets turns_on"

definition turn_key :: "turn_record \<Rightarrow> string" where
  "turn_key r = (if tr_request r \<noteq> [] then tr_request r else if tr_user r \<noteq> 0 then show_u64 (tr_user r) else [])"

definition publish_agent_turn :: "turn_record \<Rightarrow> ('r kafka_st_scheme, unit) op" where
  "publish_agent_turn r = bnd (gets turns_on) (\<lambda>on.
     if \<not> on then throw (PlainError ''kafka agent turn writer is not initialized'') else
     io (modify (\<lambda>s. s\<lparr>turn_topic := turn_topic s @ [(turn_key r, r)]\<rparr>)))"

text \<open>The value is put into the envelope as it is, so it has to be JSON; an error without a text and a message without a key
  get one.\<close>

definition publish_points_earn_dlq :: "earn_value kmessage \<Rightarrow> string \<Rightarrow> err \<Rightarrow> int \<Rightarrow> ('r kafka_st_scheme, unit) op" where
  "publish_points_earn_dlq m source e attempts = bnd (gets dlq_on) (\<lambda>on.
     if \<not> on then throw (PlainError ''kafka points dlq writer is not initialized'') else
     bnd (gets clock_now) (\<lambda>now. if km_body m = NotJson then throw (PlainError ''json: error calling MarshalJSON'') else
     let e = (if e = PlainError [] then PlainError ''unknown error'' else e);
         key = (if km_key m = [] then show_int (km_partition m) @ '':'' @ show_int (km_offset m) else km_key m) in
     io (modify (\<lambda>s. s\<lparr>dead_letters := dead_letters s @ [(key, \<lparr>dq_topic = source, dq_attempts = attempts, dq_error = e,
       dq_failed_at = unix_seconds now, dq_payload = km_body m\<rparr>)]\<rparr>))))"

section \<open>Consumers\<close>

definition millisecond :: int where "millisecond = 1000000"

definition go_sleep :: "int \<Rightarrow> ('r kafka_st_scheme, unit) op" where
  "go_sleep d = modify (\<lambda>s. s\<lparr>slept := slept s @ [d]\<rparr>)"

text \<open>500 ms, doubled with each failure up to six times, at most 30 s.\<close>

definition backoff :: "int \<Rightarrow> int" where
  "backoff failures = (let shift = min 6 (max 1 failures - 1) in
     if shift > 0 then min (30000 * millisecond) (500 * millisecond * 2 ^ nat shift) else 500 * millisecond)"

definition points_processor_retry_sleep :: "int \<Rightarrow> ('r kafka_st_scheme, unit) op" where
  "points_processor_retry_sleep failed = go_sleep (backoff failed)"

definition commit_message :: "'b kmessage \<Rightarrow> ('r kafka_st_scheme, unit) op" where
  "commit_message m = io (modify (\<lambda>s. s\<lparr>commits := commits s @ [km_position m]\<rparr>))"

text \<open>What the loop of the points remembers between two fetches.\<close>

record earn_cursor =
  ec_position :: "(int \<times> int) option"
  ec_exhausted :: bool
  ec_failed :: int
  ec_error :: "err option"

definition fresh_cursor :: "(int \<times> int) option \<Rightarrow> earn_cursor" where
  "fresh_cursor pos = \<lparr>ec_position = pos, ec_exhausted = False, ec_failed = 0, ec_error = None\<rparr>"

definition move_cursor :: "'b kmessage \<Rightarrow> earn_cursor \<Rightarrow> earn_cursor" where
  "move_cursor m c = (if ec_position c \<noteq> Some (km_position m) then fresh_cursor (Some (km_position m)) else c)"

text \<open>The attempt: \<open>Inl\<close> when the loop goes on with the next fetch, \<open>Inr\<close> when the message goes to the dead letters.\<close>

definition earn_attempt ::
  "int \<Rightarrow> (earn_value \<Rightarrow> ('r kafka_st_scheme, unit) op) \<Rightarrow> earn_value kmessage \<Rightarrow> earn_cursor \<Rightarrow>
   ('r kafka_st_scheme, earn_cursor + earn_cursor) op" where
  "earn_attempt max_tries proc m c = (if ec_exhausted c then ret (Inr c) else
     bnd (attempt (proc (km_body m))) (\<lambda>r. case r of
       Inr _ \<Rightarrow> bnd (ignore (commit_message m)) (\<lambda>_. ret (Inl (c\<lparr>ec_position := None\<rparr>)))
     | Inl e \<Rightarrow> let c = c\<lparr>ec_error := Some e, ec_failed := ec_failed c + 1\<rparr> in
         if ec_failed c < max_tries then bnd (points_processor_retry_sleep (ec_failed c)) (\<lambda>_. ret (Inl c))
         else ret (Inr (c\<lparr>ec_exhausted := True\<rparr>))))"

definition earn_bury :: "earn_value kmessage \<Rightarrow> earn_cursor \<Rightarrow> ('r kafka_st_scheme, earn_cursor) op" where
  "earn_bury m c = (let e = (case ec_error c of None \<Rightarrow> PlainError ''max retries exceeded'' | Some e \<Rightarrow> e) in
     bnd (attempt (publish_points_earn_dlq m topic_points_earn e (ec_failed c))) (\<lambda>r. case r of
       Inl _ \<Rightarrow> bnd (go_sleep (2000 * millisecond)) (\<lambda>_. ret (c\<lparr>ec_error := Some e\<rparr>))
     | Inr _ \<Rightarrow> bnd (ignore (commit_message m)) (\<lambda>_. ret (fresh_cursor None))))"

definition earn_message ::
  "int \<Rightarrow> (earn_value \<Rightarrow> ('r kafka_st_scheme, unit) op) \<Rightarrow> earn_value kmessage \<Rightarrow> earn_cursor \<Rightarrow> ('r kafka_st_scheme, earn_cursor) op" where
  "earn_message max_tries proc m c = bnd (earn_attempt max_tries proc m (move_cursor m c)) (\<lambda>r. case r of
     Inl c \<Rightarrow> ret c | Inr c \<Rightarrow> earn_bury m c)"

text \<open>The loop over the outcomes of the fetches, with the number of fetches that failed in a row; it ends when cancelled.\<close>

fun earn_loop ::
  "int \<Rightarrow> (earn_value \<Rightarrow> ('r kafka_st_scheme, unit) op) \<Rightarrow> earn_value fetched list \<Rightarrow> int \<Rightarrow> earn_cursor \<Rightarrow> ('r kafka_st_scheme, earn_cursor) op" where
  "earn_loop max_tries proc [] n c = ret c"
| "earn_loop max_tries proc (FetchCancelled # os) n c = ret c"
| "earn_loop max_tries proc (FetchFailed # os) n c = bnd (go_sleep (backoff (n + 1))) (\<lambda>_. earn_loop max_tries proc os (n + 1) c)"
| "earn_loop max_tries proc (Fetched m # os) n c = bnd (earn_message max_tries proc m c) (earn_loop max_tries proc os 0)"

definition consume_loop_points_earn ::
  "int \<Rightarrow> (earn_value \<Rightarrow> ('r kafka_st_scheme, unit) op) \<Rightarrow> earn_value fetched list \<Rightarrow> ('r kafka_st_scheme, unit) op" where
  "consume_loop_points_earn max_tries proc os = bnd (earn_loop (max 1 max_tries) proc os 0 (fresh_cursor None)) (\<lambda>_. ret ())"

definition points_consumer :: "earn_value fetched list \<Rightarrow> ('r kafka_st_scheme, unit) op" where
  "points_consumer os = bnd (gets max_retries) (\<lambda>n.
     consume_loop_points_earn n (\<lambda>v. process_points_earn_message (earning v)) os)"

text \<open>The other consumers: a message that fails is not committed.\<close>

definition plain_message :: "('b \<Rightarrow> ('r kafka_st_scheme, unit) op) \<Rightarrow> 'b kmessage \<Rightarrow> ('r kafka_st_scheme, unit) op" where
  "plain_message proc m = bnd (attempt (proc (km_body m))) (\<lambda>r. case r of
     Inl _ \<Rightarrow> go_sleep (1000 * millisecond) | Inr _ \<Rightarrow> ignore (commit_message m))"

fun consume_loop :: "('b \<Rightarrow> ('r kafka_st_scheme, unit) op) \<Rightarrow> 'b fetched list \<Rightarrow> int \<Rightarrow> ('r kafka_st_scheme, unit) op" where
  "consume_loop proc [] n = ret ()"
| "consume_loop proc (FetchCancelled # os) n = ret ()"
| "consume_loop proc (FetchFailed # os) n = bnd (go_sleep (backoff (n + 1))) (\<lambda>_. consume_loop proc os (n + 1))"
| "consume_loop proc (Fetched m # os) n = bnd (plain_message proc m) (\<lambda>_. consume_loop proc os 0)"

end
