(* ===== verification/KafkaProps.thy ===== *)
theory KafkaProps
  imports Kafka CommentProps
begin

text \<open>
  What the consumer of the points does with a message that fails: when the reader hands the same message out again, the
  attempts are bounded and end in a commit; when the reader moves on to the next message, as \<open>FetchMessage\<close> of kafka-go
  does, there is one attempt and the dead letters are never used.
\<close>

section \<open>One attempt per message\<close>

text \<open>The reference: one attempt, a commit when it went well.\<close>

definition one_attempt :: "('b \<Rightarrow> ('r kafka_st_scheme, unit) op) \<Rightarrow> 'b kmessage \<Rightarrow> ('r kafka_st_scheme, unit) op" where
  "one_attempt proc m = bnd (attempt (proc (km_body m))) (\<lambda>r. case r of
     Inr _ \<Rightarrow> ignore (commit_message m) | Inl _ \<Rightarrow> points_processor_retry_sleep 1)"

lemma bnd_assoc: "bnd (bnd m f) g = bnd m (\<lambda>x. bnd (f x) g)"
  by (auto simp: bnd_def fun_eq_iff split: prod.split sum.split)

lemma bnd_ret [simp]: "bnd (ret x) f = f x"
  by (simp add: bnd_def ret_def)

text \<open>After a message that was not waiting for another attempt, the cursor is not one that would stop the next message.\<close>

definition passes :: "int \<times> int \<Rightarrow> earn_cursor \<Rightarrow> bool" where
  "passes pos c \<longleftrightarrow> ec_position c \<in> {None, Some pos}"

lemma first_attempt:
  assumes "2 \<le> max_tries" and "ec_position c \<noteq> Some (km_position m)"
    and cont: "\<And>c. passes (km_position m) c \<Longrightarrow> k c = k'"
  shows "bnd (earn_message max_tries proc m c) k = bnd (one_attempt proc m) (\<lambda>_. k')"
proof -
  have c: "move_cursor m c = fresh_cursor (Some (km_position m))" using assms(2) by (simp add: move_cursor_def)
  have "bnd (earn_message max_tries proc m c) k s = bnd (one_attempt proc m) (\<lambda>_. k') s" for s
  proof (cases "proc (km_body m) s")
    case (Pair r t)
    show ?thesis
    proof (cases r)
      case (Inl e)
      note after = cont [of "fresh_cursor (Some (km_position m))\<lparr>ec_error := Some e, ec_failed := 1\<rparr>"]
      show ?thesis
      proof (cases "e = GoPanic")
        case True
        with Pair Inl have "attempt (proc (km_body m)) s = (Inl GoPanic, t)" by (simp add: attempt_def)
        then show ?thesis
          by (simp add: earn_message_def earn_attempt_def one_attempt_def c fresh_cursor_def bnd_Inl_run)
      next
        case False
        with Pair Inl have "attempt (proc (km_body m)) s = (Inr (Inl e), t)" by (simp add: attempt_Inl_run)
        with assms(1) after show ?thesis
          by (simp add: earn_message_def earn_attempt_def one_attempt_def c fresh_cursor_def bnd_def
            points_processor_retry_sleep_def go_sleep_def modify_def ret_def passes_def)
      qed
    next
      case (Inr x)
      obtain q u where com: "ignore (commit_message m) t = (q, u)" by (metis prod.collapse)
      show ?thesis
        using Pair Inr com cont [of "fresh_cursor (Some (km_position m))\<lparr>ec_position := None\<rparr>"]
        by (cases q) (simp_all add: earn_message_def earn_attempt_def one_attempt_def c fresh_cursor_def bnd_def attempt_Inr_run
            ret_def passes_def)
    qed
  qed
  then show ?thesis by blast
qed

lemma earn_loop_moving:
  assumes "2 \<le> max_tries" and "distinct (map km_position ms)" and "ec_position c \<notin> Some ` km_position ` set ms"
  shows "bnd (earn_loop max_tries proc (map Fetched ms) n c) (\<lambda>_. ret ()) = for_each ms (one_attempt proc)"
  using assms(2,3)
proof (induction ms arbitrary: n c)
  case (Cons m ms)
  have "bnd (earn_loop max_tries proc (map Fetched (m # ms)) n c) (\<lambda>_. ret ()) =
      bnd (earn_message max_tries proc m c) (\<lambda>c. bnd (earn_loop max_tries proc (map Fetched ms) 0 c) (\<lambda>_. ret ()))"
    by (simp add: bnd_assoc)
  also have "\<dots> = bnd (one_attempt proc m) (\<lambda>_. for_each ms (one_attempt proc))"
  proof (rule first_attempt)
    show "ec_position c \<noteq> Some (km_position m)" using Cons.prems(2) by auto
  next
    fix c assume "passes (km_position m) c"
    then have "ec_position c \<notin> Some ` km_position ` set ms" using Cons.prems(1) by (auto simp: passes_def image_iff)
    then show "bnd (earn_loop max_tries proc (map Fetched ms) 0 c) (\<lambda>_. ret ()) = for_each ms (one_attempt proc)"
      using Cons.IH Cons.prems(1) by simp
  qed (rule assms(1))
  finally show ?case by simp
qed (simp add: fun_eq_iff)

text \<open>C26: when every fetch returns another message, the loop with its retries and its dead letters is the plain loop of one
  attempt per message: with two tries or more no message is tried again and none is ever written to the dead letters,
  while the commit of the next message passes over the one that failed.
\<close>

theorem failed_awards_are_not_retried:
  assumes "2 \<le> max_tries" and "distinct (map km_position ms)"
  shows "consume_loop_points_earn max_tries proc (map Fetched ms) = for_each ms (one_attempt proc)"
  using earn_loop_moving [OF assms, of "fresh_cursor None" proc 0] assms(1)
  by (simp add: consume_loop_points_earn_def max_def fresh_cursor_def)

definition art_demo :: art_st where
  "art_demo = blog_st.extend blog_demo (art_st.fields [] [] [] (\<lambda>_. None) (\<lambda>_. ''t'') 0 [] [] [] True [] (\<lambda>a b. a = b) [] [])"

lemmas art_demo_simps = art_demo_def art_st.defs blog_demo_simps

definition kafka_demo :: kafka_st where
  "kafka_demo = art_st.extend art_demo (kafka_st.fields True 3 True [] True [] True [] True [] [] [])"

lemmas kafka_demo_simps = kafka_demo_def kafka_st.defs art_demo_simps

text \<open>What processes a message here fails for what is no earning.\<close>

definition earn_demo :: "earn_value \<Rightarrow> (kafka_st, unit) op" where
  "earn_demo v = (case v of Earning _ \<Rightarrow> ret () | _ \<Rightarrow> throw (PlainError ''db''))"

definition earn_message_demo :: "int \<Rightarrow> earn_value \<Rightarrow> earn_value kmessage" where
  "earn_message_demo i v = \<lparr>km_partition = 0, km_offset = i, km_key = ''k'', km_body = v\<rparr>"

lemma failed_awards_are_not_retried_witness:
  "(\<exists>t. consume_loop_points_earn 3 earn_demo (map Fetched [earn_message_demo 0 OtherJson,
      earn_message_demo 1 (Earning \<lparr>e_user = 7, e_ref_type = ''article'', e_ref_id = 1, e_txn_id = 9\<rparr>)]) kafka_demo = (Inr (), t) \<and>
     commits t = [(0, 1)] \<and> dead_letters t = [] \<and> length (slept t) = 1)"
  by (subst failed_awards_are_not_retried)
    (simp_all add: one_attempt_def earn_demo_def earn_message_demo_def km_position_def attempt_def throw_def ret_def bnd_def
      points_processor_retry_sleep_def go_sleep_def commit_message_def ignore_def io_nil modify_def kafka_demo_simps)

section \<open>The same message again\<close>

text \<open>What processes a message stays within its own tables and does not panic.\<close>

definition tame :: "('r kafka_st_scheme, unit) op \<Rightarrow> bool" where
  "tame f \<longleftrightarrow> (\<forall>s r t. calm s \<longrightarrow> f s = (r, t) \<longrightarrow> calm t \<and> r \<noteq> Inl GoPanic \<and> dlq_on t = dlq_on s \<and>
     dead_letters t = dead_letters s \<and> commits t = commits s)"

lemma tameD:
  assumes "tame f" and "calm s" and "f s = (r, t)"
  shows "calm t" and "r \<noteq> Inl GoPanic" and "dlq_on t = dlq_on s" and "dead_letters t = dead_letters s" and "commits t = commits s"
  using assms unfolding tame_def by blast+

text \<open>The failures the cursor counts for a message.\<close>

definition tries :: "earn_cursor \<Rightarrow> (int \<times> int) \<Rightarrow> int" where
  "tries c pos = (if ec_position c = Some pos then ec_failed c else 0)"

definition awake :: "earn_cursor \<Rightarrow> (int \<times> int) \<Rightarrow> bool" where
  "awake c pos \<longleftrightarrow> (ec_position c = Some pos \<longrightarrow> \<not> ec_exhausted c)"

text \<open>One more delivery: committed, or one more failure, or the last failure, a dead letter and a commit.\<close>

lemma one_delivery [consumes 5, case_names committed failed buried]:
  fixes s :: "'r kafka_st_scheme"
  assumes "calm s" and "dlq_on s" and "tame (proc (km_body m))" and "awake c (km_position m)"
    and json: "km_body m \<noteq> NotJson"
  obtains (committed) c' t where "earn_message max_tries proc m c s = (Inr c', t)" "calm t" "dlq_on t"
      "awake c' (km_position m)" "tries c' (km_position m) = 0"
      "commits t = commits s @ [km_position m]" "dead_letters t = dead_letters s"
    | (failed) c' t where "earn_message max_tries proc m c s = (Inr c', t)" "calm t" "dlq_on t"
      "awake c' (km_position m)" "tries c' (km_position m) = tries c (km_position m) + 1"
      "tries c (km_position m) + 1 < max_tries" "commits t = commits s" "dead_letters t = dead_letters s"
    | (buried) c' t k env where "earn_message max_tries proc m c s = (Inr c', t)" "calm t" "dlq_on t"
      "awake c' (km_position m)" "tries c' (km_position m) = 0"
      "tries c (km_position m) + 1 \<ge> max_tries" "commits t = commits s @ [km_position m]"
      "dead_letters t = dead_letters s @ [(k, env)]" "dq_attempts env = tries c (km_position m) + 1"
proof -
  define c1 where "c1 = move_cursor m c"
  have c1: "\<not> ec_exhausted c1" "ec_position c1 = Some (km_position m)" "ec_failed c1 = tries c (km_position m)"
    using assms(4) by (auto simp: c1_def move_cursor_def fresh_cursor_def tries_def awake_def)
  obtain r t where run: "proc (km_body m) s = (r, t)" by fastforce
  note t = tameD [OF assms(3,1) run]
  show thesis
  proof (cases r)
    case (Inr u)
    with run t c1 assms(2) show thesis
      by (intro committed [of "c1\<lparr>ec_position := None\<rparr>" "t\<lparr>commits := commits t @ [km_position m]\<rparr>"])
        (auto simp: earn_message_def earn_attempt_def c1_def [symmetric] bnd_def attempt_Inr_run commit_message_def ignore_def
          attempt_def io_nil calm_def modify_def ret_def awake_def tries_def)
  next
    case (Inl e)
    with run t(2) have at: "attempt (proc (km_body m)) s = (Inr (Inl e), t)" by (simp add: attempt_Inl_run)
    define c2 where "c2 = c1\<lparr>ec_error := Some e, ec_failed := ec_failed c1 + 1\<rparr>"
    show thesis
    proof (cases "ec_failed c2 < max_tries")
      case True
      with at t c1 assms(2) show thesis
        by (intro failed [of c2 "snd (points_processor_retry_sleep (ec_failed c2) t)"])
          (auto simp: earn_message_def earn_attempt_def c1_def [symmetric] c2_def bnd_def points_processor_retry_sleep_def
            go_sleep_def calm_def modify_def ret_def awake_def tries_def Let_def)
    next
      case False
      let ?e = "if e = PlainError [] then PlainError ''unknown error'' else e"
      let ?k = "if km_key m = [] then show_int (km_partition m) @ '':'' @ show_int (km_offset m) else km_key m"
      let ?env = "\<lparr>dq_topic = topic_points_earn, dq_attempts = ec_failed c2, dq_error = ?e, dq_failed_at = unix_seconds (clock_now t),
        dq_payload = km_body m\<rparr>"
      from False at t c1 json assms(2) show thesis
        by (intro buried [of "fresh_cursor None" "t\<lparr>dead_letters := dead_letters t @ [(?k, ?env)], commits := commits t @ [km_position m]\<rparr>"
              ?k ?env])
          (auto simp: earn_message_def earn_attempt_def earn_bury_def c1_def [symmetric] c2_def bnd_def publish_points_earn_dlq_def
            attempt_def gets_def io_nil calm_def modify_def commit_message_def ignore_def ret_def awake_def tries_def
            fresh_cursor_def Let_def)
    qed
  qed
qed

lemma deliveries:
  fixes s :: "'r kafka_st_scheme"
  assumes "tame (proc (km_body m))" and "km_body m \<noteq> NotJson" and "calm s" and "dlq_on s" and "awake c (km_position m)"
    and "tries c (km_position m) + int n \<le> max_tries" and "1 \<le> max_tries"
    and "0 \<le> tries c (km_position m)"
  shows "\<exists>c' t. earn_loop max_tries proc (replicate n (Fetched m)) i c s = (Inr c', t) \<and> set (commits s) \<subseteq> set (commits t) \<and>
     (0 < n \<longrightarrow> tries c (km_position m) + int n = max_tries \<longrightarrow> km_position m \<in> set (commits t)) \<and>
     (dead_letters t = dead_letters s \<or>
      (\<exists>k env. dead_letters t = dead_letters s @ [(k, env)] \<and> dq_attempts env = max_tries))"
  using assms(3-6,8)
proof (induction n arbitrary: s c i)
  case 0
  then show ?case by (simp add: ret_def)
next
  case (Suc n)
  have step: "earn_loop max_tries proc (replicate (Suc n) (Fetched m)) i c s =
      bnd (earn_message max_tries proc m c) (earn_loop max_tries proc (replicate n (Fetched m)) 0) s" by simp
  from Suc.prems(1,2) assms(1) Suc.prems(3) assms(2) show ?case
  proof (cases rule: one_delivery [where max_tries = max_tries and proc = proc and m = m])
    case (committed c' t)
    with Suc.prems(4,5) Suc.IH [of t c' 0] step show ?thesis by (auto simp: bnd_def)
  next
    case (failed c' t)
    with Suc.prems(4,5) Suc.IH [of t c' 0] step show ?thesis by (auto simp: bnd_def)
  next
    case (buried c' t k env)
    with Suc.prems(4) have "n = 0" "dq_attempts env = max_tries" by simp_all
    with buried step show ?thesis by (auto simp: bnd_def ret_def)
  qed
qed

text \<open>C27: as long as there is a writer for dead letters and no call of Kafka fails, a message that is JSON is committed when it was
  delivered as often as there are tries, however often its award failed: the loop comes through, and there is at most one
  dead letter, which tells that many attempts. (Processing the message keeps to its own tables and does not panic.
  Without the writer, or when writing the dead letter fails, the message would not be committed.)
\<close>

theorem redeliveries_end:
  fixes s :: "'r kafka_st_scheme"
  assumes "calm s" and "dlq_on s" and "tame (proc (km_body m))" and "km_body m \<noteq> NotJson" and "1 \<le> max_tries"
  shows "\<exists>t. consume_loop_points_earn max_tries proc (replicate (nat max_tries) (Fetched m)) s = (Inr (), t) \<and>
     km_position m \<in> set (commits t) \<and>
     (dead_letters t = dead_letters s \<or>
      (\<exists>k env. dead_letters t = dead_letters s @ [(k, env)] \<and> dq_attempts env = max_tries))"
proof -
  have "awake (fresh_cursor None) (km_position m)" "tries (fresh_cursor None) (km_position m) = 0"
    by (simp_all add: awake_def tries_def fresh_cursor_def)
  from deliveries [where proc = proc and m = m, OF assms(3,4,1,2) this(1), of "nat max_tries" max_tries 0] this(2) assms(5)
  show ?thesis by (auto simp: consume_loop_points_earn_def bnd_def ret_def max_def)
qed

lemma tame_earn_demo: "tame (earn_demo v)"
  by (simp add: tame_def earn_demo_def throw_def ret_def split: earn_value.split)

lemma redeliveries_end_witness:
  "\<exists>t. consume_loop_points_earn 3 earn_demo (replicate (nat 3) (Fetched (earn_message_demo 0 OtherJson))) kafka_demo = (Inr (), t) \<and>
     (0, 0) \<in> set (commits t)"
  using redeliveries_end [of kafka_demo earn_demo "earn_message_demo 0 OtherJson" 3] tame_earn_demo
  by (auto simp: kafka_demo_simps calm_def earn_message_demo_def km_position_def)

end
