(* ===== verification/Notify.thy ===== *)
theory Notify
  imports Kafka StatsWorker
begin

text \<open>
  Notifications: src/handler/notification_handler.go (the sockets of the users, delivery, unread notifications, idle
  timers), src/handler/notification_store_handler.go (the consumer that writes them in batches),
  src/database/notification_sql.go and notification_redis.go. Sockets and timers are numbered as they are made; a
  goroutine that was started is queued in the state and run by a step of its own.
\<close>

section \<open>State\<close>

record notification =
  nt_event :: u64
  nt_user :: u64
  nt_sender :: u64
  nt_sender_name :: string
  nt_content :: string
  nt_type :: string
  nt_read :: bool
  nt_read_at :: "int option"
  nt_created :: int
  nt_updated :: int

datatype ws_message = Pushed notification_payload | Unread notification | Direct u64 u64 int string

record ws_session =
  ws_user :: u64
  ws_sync :: bool
  ws_open :: bool
  ws_idle :: bool
  ws_sent :: "ws_message list"

datatype persist_job = Archive notification_payload | Offline notification_payload

record notify_st = kafka_st +
  notifications :: "notification list"
  has_unread_keys :: "u64 \<Rightarrow> bool"
  sockets :: "ws_session list"
  conns :: "u64 \<Rightarrow> nat option"
  idle_timeout :: int
  idle_timers :: "u64 \<Rightarrow> nat option"
  timers_made :: nat
  armed :: "(nat \<times> u64) list"
  agent_memory_on :: bool
  session_ends :: "(u64 \<times> string) list"
  pending_persists :: "persist_job list"
  pending_syncs :: "(u64 \<times> nat) list"
  pending_marks :: "u64 list"
  pending_ends :: "(u64 \<times> string) list"
  store_buffer :: "notification list"
  store_batches :: "notification list list"

definition notify_rollback :: "'r notify_st_scheme \<Rightarrow> 'r notify_st_scheme \<Rightarrow> 'r notify_st_scheme" where
  "notify_rollback s t = t\<lparr>notifications := notifications s\<rparr>"

section \<open>MySQL and Redis\<close>

text \<open>A row whose event is in the table is skipped.\<close>

fun insert_new :: "notification list \<Rightarrow> notification list \<Rightarrow> notification list" where
  "insert_new [] rows = rows"
| "insert_new (n # ns) rows = insert_new ns (if has_row nt_event (nt_event n) rows then rows else rows @ [n])"

function in_chunks :: "nat \<Rightarrow> 'a list \<Rightarrow> 'a list list" where
  "in_chunks k l = (if l = [] then [] else take (Suc k) l # in_chunks k (drop (Suc k) l))"
  by auto
termination
  by (relation "measure (\<lambda>(k, l). length l)") auto

declare in_chunks.simps [simp del]

definition insert_chunk :: "notification list \<Rightarrow> ('r notify_st_scheme, unit) op" where
  "insert_chunk c = io (modify (\<lambda>s. s\<lparr>notifications := insert_new c (notifications s)\<rparr>))"

definition batch_create_notifications :: "notification list \<Rightarrow> ('r notify_st_scheme, unit) op" where
  "batch_create_notifications ns = (if ns = [] then ret () else
     tx notify_rollback (for_each (in_chunks 499 ns) insert_chunk))"

definition get_unread_by_user_id :: "u64 \<Rightarrow> ('r notify_st_scheme, notification list) op" where
  "get_unread_by_user_id u = io (gets (\<lambda>s. sort_key nt_created
     (filter (\<lambda>n. nt_user n = u \<and> \<not> nt_read n) (notifications s))))"

definition mark_read_by_user_id :: "u64 \<Rightarrow> ('r notify_st_scheme, unit) op" where
  "mark_read_by_user_id u = bnd (gets clock_now) (\<lambda>now.
     io (modify (\<lambda>s. s\<lparr>notifications := upd_rows (\<lambda>n. nt_user n = u \<and> \<not> nt_read n)
       (\<lambda>n. n\<lparr>nt_read := True, nt_read_at := Some now, nt_updated := now\<rparr>) (notifications s)\<rparr>)))"

definition set_has_unread :: "u64 \<Rightarrow> ('r notify_st_scheme, unit) op" where
  "set_has_unread u = io (modify (\<lambda>s. s\<lparr>has_unread_keys := (has_unread_keys s)(u := True)\<rparr>))"

definition has_unread :: "u64 \<Rightarrow> ('r notify_st_scheme, bool) op" where
  "has_unread u = io (gets (\<lambda>s. has_unread_keys s u))"

definition clear_has_unread :: "u64 \<Rightarrow> ('r notify_st_scheme, unit) op" where
  "clear_has_unread u = io (modify (\<lambda>s. s\<lparr>has_unread_keys := (has_unread_keys s)(u := False)\<rparr>))"

text \<open>The row of a payload, with a second that is missing read from the clock.\<close>

definition notification_row :: "int \<Rightarrow> notification_payload \<Rightarrow> notification" where
  "notification_row now p = \<lparr>nt_event = np_event p, nt_user = np_user p, nt_sender = np_sender p,
     nt_sender_name = np_sender_name p, nt_content = np_content p, nt_type = np_type p, nt_read = np_read p,
     nt_read_at = (if np_read p then Some now else None),
     nt_created = (if np_created p = 0 then now else np_created p * 1000000000), nt_updated = now\<rparr>"

section \<open>Sockets\<close>

definition set_socket :: "nat \<Rightarrow> (ws_session \<Rightarrow> ws_session) \<Rightarrow> ('r notify_st_scheme, unit) op" where
  "set_socket i f = modify (\<lambda>s. s\<lparr>sockets := (sockets s)[i := f (sockets s ! i)]\<rparr>)"

definition ws_write :: "nat \<Rightarrow> ws_message \<Rightarrow> ('r notify_st_scheme, unit) op" where
  "ws_write i m = bnd (gets (\<lambda>s. ws_open (sockets s ! i))) (\<lambda>is_open.
     if \<not> is_open then throw (PlainError ''session is closed'')
     else io (set_socket i (\<lambda>x. x\<lparr>ws_sent := ws_sent x @ [m]\<rparr>)))"

definition set_conn :: "u64 \<Rightarrow> nat option \<Rightarrow> ('r notify_st_scheme, unit) op" where
  "set_conn u i = modify (\<lambda>s. s\<lparr>conns := (conns s)(u := i)\<rparr>)"

text \<open>The old timer is stopped, a new one stands for the user.\<close>

definition touch_ws_idle_timer :: "u64 \<Rightarrow> ('r notify_st_scheme, unit) op" where
  "touch_ws_idle_timer u = bnd (gets idle_timeout) (\<lambda>d. if u = 0 \<or> d \<le> 0 then ret () else
     modify (\<lambda>s. let n = timers_made s in
       s\<lparr>timers_made := Suc n, idle_timers := (idle_timers s)(u := Some n),
         armed := filter (\<lambda>t. idle_timers s u \<noteq> Some (fst t)) (armed s) @ [(n, u)]\<rparr>))"

definition clear_memory_idle_timer :: "u64 \<Rightarrow> ('r notify_st_scheme, unit) op" where
  "clear_memory_idle_timer u = (if u = 0 then ret () else
     modify (\<lambda>s. s\<lparr>idle_timers := (idle_timers s)(u := None),
       armed := filter (\<lambda>t. idle_timers s u \<noteq> Some (fst t)) (armed s)\<rparr>))"

definition force_idle_disconnect :: "u64 \<Rightarrow> ('r notify_st_scheme, unit) op" where
  "force_idle_disconnect u = (if u = 0 then ret () else
     bnd (gets (\<lambda>s. conns s u)) (\<lambda>c. case c of None \<Rightarrow> ret () | Some i \<Rightarrow>
     bnd (gets (\<lambda>s. ws_open (sockets s ! i))) (\<lambda>is_open. if \<not> is_open then set_conn u None else
     bnd (set_socket i (\<lambda>x. x\<lparr>ws_idle := True\<rparr>)) (\<lambda>_. ignore (io (set_socket i (\<lambda>x. x\<lparr>ws_open := False\<rparr>)))))))"

text \<open>What a timer does when it fires; one that was replaced meanwhile does nothing.\<close>

definition timer_fires :: "nat \<Rightarrow> u64 \<Rightarrow> ('r notify_st_scheme, unit) op" where
  "timer_fires n u = bnd (gets (\<lambda>s. idle_timers s u)) (\<lambda>t. case t of
       None \<Rightarrow> force_idle_disconnect u
     | Some m \<Rightarrow> if m \<noteq> n then ret () else
         bnd (modify (\<lambda>s. s\<lparr>idle_timers := (idle_timers s)(u := None)\<rparr>)) (\<lambda>_. force_idle_disconnect u))"

definition run_timer :: "nat \<Rightarrow> ('r notify_st_scheme, unit) op" where
  "run_timer k = (\<lambda>s. if k < length (armed s)
     then timer_fires (fst (armed s ! k)) (snd (armed s ! k)) (s\<lparr>armed := drop_nth k (armed s)\<rparr>) else (Inr (), s))"

definition handle_connect :: "nat \<Rightarrow> ('r notify_st_scheme, unit) op" where
  "handle_connect i = bnd (gets (\<lambda>s. sockets s ! i)) (\<lambda>x.
     bnd (touch_ws_idle_timer (ws_user x)) (\<lambda>_.
     bnd (set_conn (ws_user x) (Some i)) (\<lambda>_.
     guarded (ws_sync x) (modify (\<lambda>s. s\<lparr>pending_syncs := pending_syncs s @ [(ws_user x, i)]\<rparr>)))))"

definition handle_disconnect :: "nat \<Rightarrow> ('r notify_st_scheme, unit) op" where
  "handle_disconnect i = bnd (gets (\<lambda>s. sockets s ! i)) (\<lambda>x.
     bnd (clear_memory_idle_timer (ws_user x)) (\<lambda>_.
     bnd (set_conn (ws_user x) None) (\<lambda>_.
     modify (\<lambda>s. s\<lparr>pending_ends := pending_ends s @ [(ws_user x, if ws_idle x then ''timeout'' else ''ws_close'')]\<rparr>))))"

text \<open>The upgrade: a new socket, and its handler. \<open>parse\<close> is what the token says.\<close>

definition handle_ws :: "(string \<Rightarrow> u64 option) \<Rightarrow> string \<Rightarrow> string option \<Rightarrow> ('r notify_st_scheme, unit) op" where
  "handle_ws parse token sync = (if token = [] then throw ErrInvalidToken else
     case parse token of None \<Rightarrow> throw ErrInvalidToken | Some u \<Rightarrow>
     bnd (gets (\<lambda>s. length (sockets s))) (\<lambda>i.
     bnd (attempt (io (modify (\<lambda>s. s\<lparr>sockets := sockets s @
       [\<lparr>ws_user = u, ws_sync = (sync = Some ''1''), ws_open = True, ws_idle = False, ws_sent = []\<rparr>]\<rparr>)))) (\<lambda>r. case r of
         Inl _ \<Rightarrow> ret () | Inr _ \<Rightarrow> handle_connect i)))"

text \<open>The peer goes away.\<close>

definition socket_closes :: "nat \<Rightarrow> ('r notify_st_scheme, unit) op" where
  "socket_closes i = bnd (set_socket i (\<lambda>x. x\<lparr>ws_open := False\<rparr>)) (\<lambda>_. handle_disconnect i)"

definition get_user_online_status :: "string \<Rightarrow> ('r notify_st_scheme, bool) op" where
  "get_user_online_status i = (case parse_uint i of None \<Rightarrow> throw ErrCodeInvalidParam
     | Some u \<Rightarrow> if u = 0 then throw ErrCodeInvalidParam else gets (\<lambda>s. conns s u \<noteq> None))"

section \<open>Delivery\<close>

definition push_notification :: "u64 \<Rightarrow> notification_payload \<Rightarrow> ('r notify_st_scheme, bool) op" where
  "push_notification u p = (if u = 0 then ret False else
     bnd (gets (\<lambda>s. conns s u)) (\<lambda>c. case c of None \<Rightarrow> ret False | Some i \<Rightarrow>
     bnd (attempt (ws_write i (Pushed p))) (\<lambda>r. case r of
       Inl _ \<Rightarrow> bnd (set_conn u None) (\<lambda>_. ret False)
     | Inr _ \<Rightarrow> bnd (touch_ws_idle_timer u) (\<lambda>_. ret True))))"

definition deliver_notification_payload :: "notification_payload \<Rightarrow> ('r notify_st_scheme, unit) op" where
  "deliver_notification_payload p = (if np_user p = 0 then ret () else
     bnd (push_notification (np_user p) p) (\<lambda>shown.
     modify (\<lambda>s. s\<lparr>pending_persists := pending_persists s @ [if shown then Archive p else Offline p]\<rparr>)))"

definition notify_push_or_store :: "u64 \<Rightarrow> u64 \<Rightarrow> string \<Rightarrow> string \<Rightarrow> string \<Rightarrow> ('r notify_st_scheme, unit) op" where
  "notify_push_or_store u sender name content kind = (if u = 0 then ret () else
     bnd generate_id (\<lambda>i. bnd (gets clock_now) (\<lambda>now.
     deliver_notification_payload \<lparr>np_event = i, np_user = u, np_sender = sender, np_sender_name = name, np_content = content,
       np_type = kind, np_created = unix_seconds now, np_read = False\<rparr>)))"

definition process_notification_message :: "notification_payload option \<Rightarrow> ('r notify_st_scheme, unit) op" where
  "process_notification_message body = (case body of None \<Rightarrow> ret () | Some p \<Rightarrow> deliver_notification_payload p)"

definition persist_notification_sync_fallback :: "notification_payload \<Rightarrow> ('r notify_st_scheme, unit) op" where
  "persist_notification_sync_fallback p = bnd (gets clock_now) (\<lambda>now.
     ignore (batch_create_notifications [notification_row now p]))"

definition publish_or_fall_back :: "notification_payload \<Rightarrow> ('r notify_st_scheme, unit) op" where
  "publish_or_fall_back p = bnd (attempt (publish_notification_store p)) (\<lambda>r. case r of
       Inl _ \<Rightarrow> persist_notification_sync_fallback p | Inr _ \<Rightarrow> ret ())"

definition persist_online_delivered_archive :: "notification_payload \<Rightarrow> ('r notify_st_scheme, unit) op" where
  "persist_online_delivered_archive p = publish_or_fall_back (p\<lparr>np_read := True\<rparr>)"

definition persist_offline_notification :: "notification_payload \<Rightarrow> ('r notify_st_scheme, unit) op" where
  "persist_offline_notification p = bnd (ignore (set_has_unread (np_user p))) (\<lambda>_. publish_or_fall_back (p\<lparr>np_read := False\<rparr>))"

definition run_persist :: "nat \<Rightarrow> ('r notify_st_scheme, unit) op" where
  "run_persist k = (\<lambda>s. if k < length (pending_persists s) then
     (case pending_persists s ! k of Archive p \<Rightarrow> persist_online_delivered_archive p | Offline p \<Rightarrow> persist_offline_notification p)
       (s\<lparr>pending_persists := drop_nth k (pending_persists s)\<rparr>) else (Inr (), s))"

section \<open>Unread notifications\<close>

fun send_unread :: "u64 \<Rightarrow> nat \<Rightarrow> notification list \<Rightarrow> ('r notify_st_scheme, bool) op" where
  "send_unread u i [] = ret True"
| "send_unread u i (n # ns) = bnd (attempt (ws_write i (Unread n))) (\<lambda>r. case r of
       Inl _ \<Rightarrow> ret False | Inr _ \<Rightarrow> bnd (touch_ws_idle_timer u) (\<lambda>_. send_unread u i ns))"

definition sync_unread_notifications :: "u64 \<Rightarrow> nat \<Rightarrow> ('r notify_st_scheme, unit) op" where
  "sync_unread_notifications u i =
     bnd (attempt (has_unread u)) (\<lambda>h. if h \<noteq> Inr True then ret () else
     bnd (attempt (get_unread_by_user_id u)) (\<lambda>r. case r of Inl _ \<Rightarrow> ret () | Inr ns \<Rightarrow> if ns = [] then ret () else
     bnd (send_unread u i ns) (\<lambda>sent. if \<not> sent then ret () else
     bnd (ignore (clear_has_unread u)) (\<lambda>_. modify (\<lambda>s. s\<lparr>pending_marks := pending_marks s @ [u]\<rparr>)))))"

definition run_sync :: "nat \<Rightarrow> ('r notify_st_scheme, unit) op" where
  "run_sync k = (\<lambda>s. if k < length (pending_syncs s) then
     sync_unread_notifications (fst (pending_syncs s ! k)) (snd (pending_syncs s ! k))
       (s\<lparr>pending_syncs := drop_nth k (pending_syncs s)\<rparr>) else (Inr (), s))"

definition run_mark :: "nat \<Rightarrow> ('r notify_st_scheme, unit) op" where
  "run_mark k = (\<lambda>s. if k < length (pending_marks s) then
     ignore (mark_read_by_user_id (pending_marks s ! k)) (s\<lparr>pending_marks := drop_nth k (pending_marks s)\<rparr>) else (Inr (), s))"

definition notify_memory_session_end :: "u64 \<Rightarrow> string \<Rightarrow> ('r notify_st_scheme, unit) op" where
  "notify_memory_session_end u reason = bnd (gets agent_memory_on) (\<lambda>on. if \<not> on \<or> u = 0 then ret () else
     ignore (io (modify (\<lambda>s. s\<lparr>session_ends := session_ends s @ [(u, reason)]\<rparr>))))"

section \<open>The consumer that stores\<close>

definition take_batch :: "('r notify_st_scheme, notification list) op" where
  "take_batch = bnd (gets store_buffer) (\<lambda>b. bnd (modify (\<lambda>s. s\<lparr>store_buffer := []\<rparr>)) (\<lambda>_. ret b))"

definition settle_batch :: "notification list \<Rightarrow> ('r notify_st_scheme, unit) op" where
  "settle_batch b = (if b = [] then ret () else
     bnd (attempt (batch_create_notifications b)) (\<lambda>r. case r of
       Inl e \<Rightarrow> bnd (modify (\<lambda>s. s\<lparr>store_buffer := b @ store_buffer s\<rparr>)) (\<lambda>_. throw e)
     | Inr _ \<Rightarrow> ret ()))"

definition flush_notifications :: "('r notify_st_scheme, unit) op" where
  "flush_notifications = bnd take_batch settle_batch"

definition buffer_notification :: "notification_payload \<Rightarrow> ('r notify_st_scheme, bool) op" where
  "buffer_notification p = bnd (gets clock_now) (\<lambda>now.
     bnd (modify (\<lambda>s. s\<lparr>store_buffer := store_buffer s @ [notification_row now p]\<rparr>)) (\<lambda>_.
     gets (\<lambda>s. 500 \<le> length (store_buffer s))))"

definition process_notification_store_message :: "notification_payload option \<Rightarrow> ('r notify_st_scheme, unit) op" where
  "process_notification_store_message body = (case body of None \<Rightarrow> ret () | Some p \<Rightarrow>
     bnd (buffer_notification p) (\<lambda>full. if full then flush_notifications else ret ()))"

definition mark_all_read :: "u64 \<Rightarrow> ('r notify_st_scheme, unit) op" where
  "mark_all_read u = mark_read_by_user_id u"

definition load_unread :: "u64 \<Rightarrow> ('r notify_st_scheme, notification list) op" where
  "load_unread u = get_unread_by_user_id u"

section \<open>Interleavings\<close>

text \<open>The consumer appends a message; the consumer or the ticker takes the buffer; a batch that was taken is written or put back.\<close>

datatype batch_event = Buffered notification_payload | Taken | Settled nat

inductive batch_step :: "batch_event \<Rightarrow> 'r notify_st_scheme \<Rightarrow> 'r notify_st_scheme \<Rightarrow> bool" where
  buffered: "buffer_notification p s = (Inr b, t) \<Longrightarrow> batch_step (Buffered p) s t"
| taken: "take_batch s = (Inr b, t) \<Longrightarrow> batch_step Taken s (t\<lparr>store_batches := b # store_batches t\<rparr>)"
| settled: "n < length (store_batches s) \<Longrightarrow>
    settle_batch (store_batches s ! n) (s\<lparr>faults := fs, store_batches := drop_nth n (store_batches s)\<rparr>) = (r, t) \<Longrightarrow>
    batch_step (Settled n) s t"

inductive batch_run :: "batch_event list \<Rightarrow> 'r notify_st_scheme \<Rightarrow> 'r notify_st_scheme \<Rightarrow> bool" where
  start: "batch_run [] s s"
| more: "batch_run es s t \<Longrightarrow> batch_step e t u \<Longrightarrow> batch_run (es @ [e]) s u"

inductive_cases batch_stepE: "batch_step e s t"

end
