(* ===== verification/NotifyProps.thy ===== *)
theory NotifyProps
  imports Notify KafkaProps WorkerProps
begin

text \<open>
  What the notifications promise: no event that the consumer buffered is lost or stored twice, whatever inserts fail and
  however flushes overlap; and what the sockets do when a user has two of them.
\<close>

section \<open>Writing batches\<close>

lemma concat_in_chunks: "concat (in_chunks k l) = l"
  by (induction k l rule: in_chunks.induct) (subst in_chunks.simps, simp)

lemma insert_new_append: "insert_new (xs @ ys) rows = insert_new ys (insert_new xs rows)"
  by (induction xs arbitrary: rows) auto

lemma insert_new_concat: "fold insert_new cs rows = insert_new (concat cs) rows"
  by (induction cs arbitrary: rows) (simp_all add: insert_new_append)

lemma events_insert_new: "nt_event ` set (insert_new ns rows) = nt_event ` set rows \<union> nt_event ` set ns"
proof (induction ns arbitrary: rows)
  case (Cons n ns)
  have "has_row nt_event (nt_event n) rows \<Longrightarrow> nt_event n \<in> nt_event ` set rows"
    unfolding has_row_def by (metis image_eqI)
  with Cons show ?case by auto
qed simp

lemma distinct_insert_new: "distinct (map nt_event rows) \<Longrightarrow> distinct (map nt_event (insert_new ns rows))"
proof (induction ns arbitrary: rows)
  case (Cons n ns)
  then have "\<not> has_row nt_event (nt_event n) rows \<Longrightarrow> distinct (map nt_event (rows @ [n]))" by (auto simp: has_row_def)
  with Cons show ?case by simp
qed simp

text \<open>Everything but the table and the script of faults.\<close>

definition beside_rows :: "'r notify_st_scheme \<Rightarrow> 'r notify_st_scheme" where
  "beside_rows s = s\<lparr>notifications := [], faults := []\<rparr>"

interpretation notify_db: store_tx_rest notify_rollback notifications beside_rows
  by unfold_locales (simp_all add: notify_rollback_def beside_rows_def)

lemma insert_chunks_rows:
  "for_each cs insert_chunk s = (Inr u, t) \<Longrightarrow> notifications t = fold insert_new cs (notifications s)"
proof (induction cs arbitrary: s)
  case (Cons c cs)
  then show ?case
    by (auto simp: insert_chunk_def modify_def elim!: bnd_InrE io_InrE)
qed (simp add: ret_def)

lemma keeps_insert_chunks: "keeps (\<lambda>q. beside_rows q = c) (for_each cs insert_chunk)"
  by (intro keeps_for_each) (simp add: insert_chunk_def, intro notify_db.keeps_rest_io, simp add: modify_def beside_rows_def)

lemma batch_create_cases:
  fixes s t :: "'r notify_st_scheme"
  assumes "batch_create_notifications ns s = (r, t)"
  shows "beside_rows t = beside_rows s \<and> notifications t = (if r = Inr () then insert_new ns (notifications s) else notifications s)"
proof (cases "ns = []")
  case False
  then have run: "tx notify_rollback (for_each (in_chunks 499 ns) insert_chunk) s = (r, t)"
    using assms by (simp add: batch_create_notifications_def)
  have "wp (tx notify_rollback (for_each (in_chunks 499 ns) insert_chunk)) (\<lambda>r t. beside_rows t = beside_rows s \<and>
      notifications t = (if r = Inr () then insert_new ns (notifications s) else notifications s)) s"
    by (rule notify_db.wp_tx [OF keeps_insert_chunks])
      (auto simp: insert_new_concat concat_in_chunks dest: insert_chunks_rows)
  then show ?thesis using run by (simp add: wp_def)
qed (use assms in \<open>simp add: batch_create_notifications_def ret_def\<close>)

section \<open>No event is lost\<close>

text \<open>The events that are in the table, in the buffer or in a batch that is being written.\<close>

definition kept_events :: "'r notify_st_scheme \<Rightarrow> u64 set" where
  "kept_events s = nt_event ` (set (notifications s) \<union> set (store_buffer s) \<union> (\<Union>b \<in> set (store_batches s). set b))"

lemma no_panic_batch_create: "no_panic (batch_create_notifications ns)"
  unfolding batch_create_notifications_def
  by (intro no_panic_rules no_panic_for_each) (simp add: insert_chunk_def, intro no_panic_rules)

lemma settle_batch_kept:
  assumes "settle_batch b s = (r, t)"
  shows "store_batches t = store_batches s"
    and "nt_event ` (set (notifications s) \<union> set (store_buffer s) \<union> set b) \<subseteq> nt_event ` (set (notifications t) \<union> set (store_buffer t))"
    and "distinct (map nt_event (notifications s)) \<Longrightarrow> distinct (map nt_event (notifications t))"
proof -
  have "store_batches t = store_batches s \<and>
      nt_event ` (set (notifications s) \<union> set (store_buffer s) \<union> set b) \<subseteq> nt_event ` (set (notifications t) \<union> set (store_buffer t)) \<and>
      (distinct (map nt_event (notifications s)) \<longrightarrow> distinct (map nt_event (notifications t)))"
  proof (cases "b = []")
    case False
    obtain q s1 where run: "batch_create_notifications b s = (q, s1)" by fastforce
    note made = batch_create_cases [OF run]
    then have same: "store_batches s1 = store_batches s" "store_buffer s1 = store_buffer s"
      by (auto simp: beside_rows_def dest: arg_cong [of _ _ store_batches] arg_cong [of _ _ store_buffer])
    show ?thesis
    proof (cases q)
      case (Inl e)
      then show ?thesis
        using assms False run made same no_panic_batch_create [of b, unfolded no_panic_iff]
        by (cases "e = GoPanic") (auto simp: settle_batch_def bnd_def attempt_def throw_def modify_def split: err.splits)
    next
      case (Inr u)
      then show ?thesis
        using assms False run made same
        by (auto simp: settle_batch_def bnd_def attempt_Inr_run ret_def events_insert_new distinct_insert_new image_Un)
    qed
  qed (use assms in \<open>simp add: settle_batch_def ret_def\<close>)
  then show "store_batches t = store_batches s"
    and "nt_event ` (set (notifications s) \<union> set (store_buffer s) \<union> set b) \<subseteq> nt_event ` (set (notifications t) \<union> set (store_buffer t))"
    and "distinct (map nt_event (notifications s)) \<Longrightarrow> distinct (map nt_event (notifications t))"
    by blast+
qed

lemma set_drop_nth: "n < length l \<Longrightarrow> set l = insert (l ! n) (set (drop_nth n l))"
  using id_take_nth_drop [of n l] by (metis drop_nth_def list.simps(15) set_append Un_insert_right)

lemma kept_step:
  assumes "batch_step e s t"
  shows "kept_events s \<subseteq> kept_events t"
    and "e = Buffered p \<Longrightarrow> np_event p \<in> kept_events t"
    and "distinct (map nt_event (notifications s)) \<Longrightarrow> distinct (map nt_event (notifications t))"
proof -
  have "kept_events s \<subseteq> kept_events t \<and> (e = Buffered p \<longrightarrow> np_event p \<in> kept_events t) \<and>
    (distinct (map nt_event (notifications s)) \<longrightarrow> distinct (map nt_event (notifications t)))"
    using assms
  proof cases
    case (settled n fs r)
    let ?s = "s\<lparr>faults := fs, store_batches := drop_nth n (store_batches s)\<rparr>"
    note run = settle_batch_kept [OF settled(3)]
    have "kept_events s = nt_event ` (set (notifications ?s) \<union> set (store_buffer ?s) \<union> set (store_batches s ! n)) \<union>
        nt_event ` (\<Union>b \<in> set (store_batches ?s). set b)"
      by (simp add: kept_events_def set_drop_nth [OF settled(2)] image_Un Un_assoc)
    also have "\<dots> \<subseteq> nt_event ` (set (notifications t) \<union> set (store_buffer t)) \<union> nt_event ` (\<Union>b \<in> set (store_batches t). set b)"
      using run(1,2) by (intro Un_mono) simp_all
    finally show ?thesis using run(3) settled(1) by (auto simp: kept_events_def image_Un)
  qed (auto simp: buffer_notification_def take_batch_def bnd_def gets_def modify_def ret_def kept_events_def notification_row_def)
  then show "kept_events s \<subseteq> kept_events t"
    and "e = Buffered p \<Longrightarrow> np_event p \<in> kept_events t"
    and "distinct (map nt_event (notifications s)) \<Longrightarrow> distinct (map nt_event (notifications t))"
    by blast+
qed

text \<open>C28: whatever inserts fail and however the flushes of the consumer and of the ticker overlap, an event that was
  buffered is in the table, in the buffer or in a batch on its way, and the table has each event once.
\<close>

theorem buffered_events_are_kept:
  assumes "batch_run es s t" and "distinct (map nt_event (notifications s))"
  shows "np_event ` {p. Buffered p \<in> set es} \<subseteq> kept_events t \<and> distinct (map nt_event (notifications t))"
  using assms
proof (induction rule: batch_run.induct)
  case (more es s t e u)
  note step = kept_step [OF more.hyps(2)]
  from more.IH more.prems have "np_event ` {p. Buffered p \<in> set es} \<subseteq> kept_events u" "distinct (map nt_event (notifications u))"
    using step(1,3) by blast+
  then show ?case using step(2) by auto
qed simp

definition notify_demo :: notify_st where
  "notify_demo = kafka_st.extend kafka_demo (notify_st.fields [] (\<lambda>_. False)
     [\<lparr>ws_user = 7, ws_sync = False, ws_open = True, ws_idle = False, ws_sent = []\<rparr>] ((\<lambda>_. None)(7 := Some 0))
     1800 (\<lambda>_. None) 0 [] False [] [] [] [] [] [] [])"

lemmas notify_demo_simps = notify_demo_def notify_st.defs kafka_demo_simps

definition payload_demo :: notification_payload where
  "payload_demo = \<lparr>np_event = 5, np_user = 7, np_sender = 8, np_sender_name = ''ann'', np_content = ''hi'', np_type = ''follow'',
     np_created = 1, np_read = False\<rparr>"

lemma buffered_events_are_kept_witness:
  "\<exists>t. batch_run [Buffered payload_demo, Taken] notify_demo t \<and> 5 \<in> kept_events t \<and> distinct (map nt_event (notifications t))"
proof -
  let ?u = "notify_demo\<lparr>store_buffer := [notification_row 10 payload_demo]\<rparr>"
  let ?t = "notify_demo\<lparr>store_batches := [[notification_row 10 payload_demo]]\<rparr>"
  have "batch_step (Buffered payload_demo) notify_demo ?u"
    by (rule buffered [of _ _ False]) (simp add: buffer_notification_def bnd_def gets_def modify_def notify_demo_simps)
  moreover have "batch_step Taken ?u ?t"
    using taken [of ?u "[notification_row 10 payload_demo]" "?u\<lparr>store_buffer := []\<rparr>"]
    by (simp add: take_batch_def bnd_def gets_def modify_def ret_def notify_demo_simps)
  ultimately have run: "batch_run [Buffered payload_demo, Taken] notify_demo ?t"
    using batch_run.start [of notify_demo] batch_run.more [of "[]"] batch_run.more [of "[Buffered payload_demo]"] by fastforce
  have "np_event ` {p. Buffered p \<in> set [Buffered payload_demo, Taken]} \<subseteq> kept_events ?t \<and> distinct (map nt_event (notifications ?t))"
    by (rule buffered_events_are_kept [OF run]) (simp add: notify_demo_simps)
  moreover have "np_event payload_demo = 5" by (simp add: payload_demo_def)
  ultimately show ?thesis using run by (intro exI [of _ ?t]) auto
qed

section \<open>Two sockets\<close>

lemma touch_run: "\<exists>t. touch_ws_idle_timer u s = (Inr (), t) \<and> sockets t = sockets s"
  by (simp add: touch_ws_idle_timer_def bnd_def gets_def modify_def ret_def Let_def)

lemma connect_run: "\<exists>t. handle_connect i s = (Inr (), t) \<and> sockets t = sockets s"
proof -
  obtain t where t: "touch_ws_idle_timer (ws_user (sockets s ! i)) s = (Inr (), t)" "sockets t = sockets s"
    using touch_run by blast
  then show ?thesis
    by (simp add: handle_connect_def bnd_def gets_def set_conn_def modify_def guarded_def ret_def)
qed

text \<open>C29: a user who opens a second socket and closes the first is taken for offline: the second is open, but the online
  status says no, and a notification is written to no socket and stored as unread.
\<close>

theorem closing_a_socket_hides_the_newer:
  fixes s :: "'r notify_st_scheme"
  assumes "calm s" and "parse token = Some u" and "token \<noteq> []" and "u \<noteq> 0"
    and "i < length (sockets s)" and "ws_user (sockets s ! i) = u" and "np_user p = u"
    and t: "t = snd (socket_closes i (snd (handle_ws parse token sync s)))" and v: "v = snd (deliver_notification_payload p t)"
  shows "ws_user (sockets t ! length (sockets s)) = u \<and> ws_open (sockets t ! length (sockets s)) \<and> conns t u = None \<and>
     sockets v = sockets t \<and> pending_persists v = pending_persists t @ [Offline p]"
proof -
  let ?s = "s\<lparr>sockets := sockets s @
    [\<lparr>ws_user = u, ws_sync = (sync = Some ''1''), ws_open = True, ws_idle = False, ws_sent = []\<rparr>]\<rparr>"
  obtain s1 where s1: "handle_connect (length (sockets s)) ?s = (Inr (), s1)" "sockets s1 = sockets ?s" using connect_run by blast
  with assms(1-3) have open1: "handle_ws parse token sync s = (Inr (), s1)"
    by (simp add: handle_ws_def bnd_def gets_def attempt_def io_nil calm_def modify_def)
  with t assms(4-6) have closed: "sockets t ! length (sockets s) = sockets s1 ! length (sockets s)" "conns t u = None"
    using open1 s1(2)
    by (auto simp: socket_closes_def set_socket_def handle_disconnect_def clear_memory_idle_timer_def set_conn_def bnd_def gets_def
        modify_def ret_def nth_append nth_list_update)
  with v assms(4,7) s1(2) show ?thesis
    by (simp add: deliver_notification_payload_def push_notification_def bnd_def gets_def ret_def modify_def)
qed

lemma closing_a_socket_hides_the_newer_witness:
  "let t = snd (socket_closes 0 (snd (handle_ws (\<lambda>_. Some 7) ''t'' None notify_demo))) in
     ws_open (sockets t ! 1) \<and> conns t 7 = None"
  using closing_a_socket_hides_the_newer [of notify_demo "\<lambda>_. Some 7" "''t''" 7 0 payload_demo, OF _ _ _ _ _ _ _ refl refl, of None]
  by (simp add: Let_def calm_def payload_demo_def notify_demo_simps)

end
