(* ===== verification/Users.thy ===== *)
theory Users
  imports Notify
begin

text \<open>
  Users and whom they follow: src/service/user_service.go, src/service/follow_service.go, what is left of
  src/database/user_sql.go and user_redis.go, src/database/follow_sql.go and follow_redis.go, and their handlers
  (src/handler/user_handler.go, follow_handler.go). Hashing a password and signing a token are functions the
  definitions take: bcrypt and the JWT library are not this code.
\<close>

section \<open>State\<close>

record topic_follow =
  tf_user :: u64
  tf_topic :: u64
  tf_created :: int

record cached_base =
  cb_name :: string
  cb_email :: string
  cb_avatar :: string
  cb_github :: string

text \<open>\<open>pending_follows\<close>: the goroutines that tell a user of a new follower, with the followed, the follower and the name.
  \<open>text_rank\<close>: where the collation of MySQL orders a text.\<close>

record social_st = notify_st +
  topic_follows :: "topic_follow list"
  follow_redis :: bool
  topic_follow_cache :: "(u64 \<times> topic_follow list) list"
  user_base_cache :: "(u64 \<times> cached_base) list"
  pending_follows :: "(u64 \<times> u64 \<times> string) list"
  text_rank :: "string \<Rightarrow> nat"

interpretation topic_follow_lists: key_family follow_redis topic_follow_cache topic_follow_cache_update
  by unfold_locales simp_all

interpretation user_bases: key_family user_redis user_base_cache user_base_cache_update
  by unfold_locales simp_all

section \<open>Repositories\<close>

definition user_exists_error :: err where "user_exists_error = BizErr 404 40001"

definition create_user :: "user \<Rightarrow> ('r social_st_scheme, user) op" where
  "create_user r = bnd (gets clock_now) (\<lambda>now.
     let r = (if u_created r = zero_time then r\<lparr>u_created := now\<rparr> else r) in
     bnd (attempt (create_row ''users'' u_id u_id_update (\<lambda>x q. u_tel x = u_tel q) users (\<lambda>l s. s\<lparr>users := l\<rparr>) r)) (\<lambda>x. case x of
       Inl e \<Rightarrow> throw (if e = DupKey then user_exists_error else PlainError ''ErrCreatUser'') | Inr r \<Rightarrow> ret r))"

text \<open>The columns that are given; the number of rows that changed does not matter, only that there is one.\<close>

record user_edit =
  ue_name :: "string option"
  ue_tel :: "string option"
  ue_password :: "string option"
  ue_email :: "string option"
  ue_avatar :: "string option"
  ue_github :: "string option"

definition or_old :: "'a option \<Rightarrow> 'a \<Rightarrow> 'a" where
  "or_old new old = (case new of None \<Rightarrow> old | Some v \<Rightarrow> v)"

definition edit_user :: "user_edit \<Rightarrow> user \<Rightarrow> user" where
  "edit_user e r = r\<lparr>u_name := or_old (ue_name e) (u_name r), u_tel := or_old (ue_tel e) (u_tel r),
     u_password := or_old (ue_password e) (u_password r), u_email := or_old (ue_email e) (u_email r),
     u_avatar := or_old (ue_avatar e) (u_avatar r), u_github := or_old (ue_github e) (u_github r)\<rparr>"

definition update_user_row :: "u64 \<Rightarrow> user_edit \<Rightarrow> ('r social_st_scheme, unit) op" where
  "update_user_row u e =
     bnd (io (\<lambda>s. if \<exists>q \<in> set (users s). u_id q \<noteq> u \<and> ue_tel e = Some (u_tel q) \<and> has_row u_id u (users s) then (Inl DupKey, s)
       else (Inr (), s\<lparr>users := upd_rows (\<lambda>r. u_id r = u) (edit_user e) (users s)\<rparr>))) (\<lambda>_.
     bnd (io (gets (\<lambda>s. count_rows (\<lambda>r. u_id r = u) (users s)))) (\<lambda>n.
     if n = 0 then throw (BizErr 404 40001) else ret ()))"

definition search_users_by_name_or_tel :: "string \<Rightarrow> int \<Rightarrow> ('r social_st_scheme, user list) op" where
  "search_users_by_name_or_tel keyword limit = (let limit = (if limit \<le> 0 then 20 else limit); like = ''%'' @ keyword @ ''%'' in
     io (gets (\<lambda>s. take (nat limit) (sort_key (\<lambda>r. text_rank s (u_name r))
       (filter (\<lambda>r. text_like s (u_name r) like \<or> text_like s (u_tel r) like) (users s))))))"

definition get_user_base :: "u64 \<Rightarrow> ('r social_st_scheme, cached_base option) op" where
  "get_user_base u = (if u = 0 then ret None else user_bases.get u)"

definition base_of :: "user \<Rightarrow> cached_base" where
  "base_of r = \<lparr>cb_name = u_name r, cb_email = u_email r, cb_avatar = u_avatar r, cb_github = u_github r\<rparr>"

definition set_user_base :: "user \<Rightarrow> ('r social_st_scheme, unit) op" where
  "set_user_base r = (if u_id r = 0 then ret () else user_bases.put (u_id r) (base_of r))"

definition del_user_base :: "u64 \<Rightarrow> ('r social_st_scheme, unit) op" where
  "del_user_base u = (if u = 0 then ret () else user_bases.del u)"

definition create_follow_row :: "u64 \<Rightarrow> u64 \<Rightarrow> ('r social_st_scheme, unit) op" where
  "create_follow_row follower following = bnd (gets clock_now) (\<lambda>now.
     bnd (attempt (create_row ''follows'' fo_id fo_id_update (\<lambda>x q. fo_follower x = fo_follower q \<and> fo_following x = fo_following q)
       follows (\<lambda>l s. s\<lparr>follows := l\<rparr>) \<lparr>fo_id = 0, fo_follower = follower, fo_following = following, fo_created = now\<rparr>)) (\<lambda>x. case x of
       Inl e \<Rightarrow> throw (if e = DupKey then BizErr 404 40003 else PlainError ''ErrSQLFollow'') | Inr _ \<Rightarrow> ret ()))"

definition count_following_users :: "u64 \<Rightarrow> ('r social_st_scheme, int) op" where
  "count_following_users u = (if u = 0 then ret 0 else io (gets (\<lambda>s. int (count_rows (\<lambda>f. fo_follower f = u) (follows s)))))"

definition create_topic_follow :: "u64 \<Rightarrow> u64 \<Rightarrow> ('r social_st_scheme, unit) op" where
  "create_topic_follow u c = bnd (gets clock_now) (\<lambda>now. io (modify (\<lambda>s.
     if \<exists>f \<in> set (topic_follows s). tf_user f = u \<and> tf_topic f = c then s
     else s\<lparr>topic_follows := topic_follows s @ [\<lparr>tf_user = u, tf_topic = c, tf_created = now\<rparr>]\<rparr>)))"

definition delete_topic_follow :: "u64 \<Rightarrow> u64 \<Rightarrow> ('r social_st_scheme, unit) op" where
  "delete_topic_follow u c = io (modify (\<lambda>s. s\<lparr>topic_follows := del_rows (\<lambda>f. tf_user f = u \<and> tf_topic f = c) (topic_follows s)\<rparr>))"

definition list_topic_follow_by_user :: "u64 \<Rightarrow> ('r social_st_scheme, topic_follow list) op" where
  "list_topic_follow_by_user u = io (gets (\<lambda>s. newest_first tf_created (filter (\<lambda>f. tf_user f = u) (topic_follows s))))"

definition list_user_ids_by_topic_id :: "u64 \<Rightarrow> ('r social_st_scheme, u64 list) op" where
  "list_user_ids_by_topic_id c = io (gets (\<lambda>s. map tf_user (filter (\<lambda>f. tf_topic f = c) (topic_follows s))))"

definition is_topic_followed_row :: "u64 \<Rightarrow> u64 \<Rightarrow> ('r social_st_scheme, bool) op" where
  "is_topic_followed_row u c = io (gets (\<lambda>s. 0 < count_rows (\<lambda>f. tf_user f = u \<and> tf_topic f = c) (topic_follows s)))"

definition get_topic_follow_list :: "u64 \<Rightarrow> ('r social_st_scheme, topic_follow list option) op" where
  "get_topic_follow_list u = topic_follow_lists.get u"

definition set_topic_follow_list :: "u64 \<Rightarrow> topic_follow list \<Rightarrow> ('r social_st_scheme, unit) op" where
  "set_topic_follow_list u l = topic_follow_lists.put u l"

definition delete_topic_follow_list :: "u64 \<Rightarrow> ('r social_st_scheme, unit) op" where
  "delete_topic_follow_list u = topic_follow_lists.del u"

section \<open>UserService\<close>

definition login ::
  "(string \<Rightarrow> string \<Rightarrow> bool) \<Rightarrow> (u64 \<Rightarrow> string \<Rightarrow> string option) \<Rightarrow> string \<Rightarrow> string \<Rightarrow> ('r social_st_scheme, user \<times> string) op" where
  "login check_password gen_token tel password =
     bnd (attempt (get_user_by_tel tel)) (\<lambda>r. case r of
       Inl e \<Rightarrow> throw (if e = RecordNotFound then BizErr 404 40001 else BizErr 500 50003)
     | Inr u \<Rightarrow> if \<not> check_password (u_password u) password then throw (BizErr 400 40003) else
         (case gen_token (u_id u) (u_name u) of None \<Rightarrow> throw (BizErr 500 50002) | Some token \<Rightarrow>
          bnd (ignore (set_user_base u)) (\<lambda>_. ret (u, token))))"

definition sign_up :: "(string \<Rightarrow> string option) \<Rightarrow> string \<Rightarrow> string \<Rightarrow> string \<Rightarrow> ('r social_st_scheme, u64) op" where
  "sign_up hash name tel password = bnd generate_id (\<lambda>i.
     case hash password of None \<Rightarrow> throw (BizErr 500 50005) | Some h \<Rightarrow>
     bnd (attempt (create_user \<lparr>u_id = i, u_name = name, u_email = [], u_tel = tel, u_password = h, u_avatar = [], u_github = [],
       u_following_count = 0, u_balance = 500, u_created = zero_time\<rparr>)) (\<lambda>r. case r of
         Inl e \<Rightarrow> throw (if e = user_exists_error then BizErr 400 40002 else BizErr 500 50004)
       | Inr _ \<Rightarrow> ret i))"

definition update_user :: "u64 \<Rightarrow> user_edit \<Rightarrow> ('r social_st_scheme, unit) op" where
  "update_user u e = bnd (ignore (del_user_base u)) (\<lambda>_. update_user_row u e)"

definition service_account_balance :: "u64 \<Rightarrow> ('r social_st_scheme, int) op" where
  "service_account_balance u = (if u = 0 then throw (BizErr 404 40001) else
     read_through (get_account_balance u) (bnd (get_user_by_id u) (\<lambda>r. ret (u_balance r))) (set_account_balance u))"

definition invalidate_account_balance :: "u64 \<Rightarrow> ('r social_st_scheme, unit) op" where
  "invalidate_account_balance u = (if u = 0 then ret () else ignore (del_account_balance u))"

definition load_social_stats_from_db :: "u64 \<Rightarrow> ('r social_st_scheme, int \<times> int) op" where
  "load_social_stats_from_db u = (if u = 0 then ret (0, 0) else
     bnd (count_following_users u) (\<lambda>n. bnd (get_user_by_id u) (\<lambda>r. ret (n, i64 (u_following_count r)))))"

definition get_social_stats_cached :: "u64 \<Rightarrow> ('r social_st_scheme, int \<times> int) op" where
  "get_social_stats_cached u = (if u = 0 then ret (0, 0) else
     read_through (get_user_social_stats u) (load_social_stats_from_db u) (\<lambda>(n, k). set_user_social_stats u n k))"

definition get_following_users_count_cached :: "u64 \<Rightarrow> ('r social_st_scheme, int) op" where
  "get_following_users_count_cached u = bnd (get_social_stats_cached u) (\<lambda>(n, _). ret n)"

text \<open>A hit knows no more of the user than what is cached.\<close>

definition get_user_base_cached :: "u64 \<Rightarrow> ('r social_st_scheme, cached_base) op" where
  "get_user_base_cached u = (if u = 0 then throw (BizErr 404 40001) else
     bnd (attempt (get_user_base u)) (\<lambda>c. case c of
       Inr (Some b) \<Rightarrow> ret b
     | _ \<Rightarrow> bnd (get_user_by_id u) (\<lambda>r. bnd (ignore (set_user_base r)) (\<lambda>_. ret (base_of r)))))"

section \<open>FollowService\<close>

definition txt_new_follower :: string where
  "txt_new_follower = utf8 [228, 189, 160, 230, 156, 137, 228, 184, 128, 228, 184, 170, 230, 150, 176, 231, 178, 137, 228, 184, 157, 239, 188, 129]"

definition display_name :: "u64 \<Rightarrow> ('r social_st_scheme, string) op" where
  "display_name u = bnd (attempt (get_user_by_id u)) (\<lambda>r. ret (case r of
     Inr x \<Rightarrow> if u_name x \<noteq> [] then u_name x else ''UID:'' @ show_u64 u | Inl _ \<Rightarrow> ''UID:'' @ show_u64 u))"

definition create_follow :: "u64 \<Rightarrow> u64 \<Rightarrow> ('r social_st_scheme, unit) op" where
  "create_follow follower following =
     (if follower = 0 \<or> following = 0 then throw (BizErr 404 40003)
      else if follower = following then throw (BizErr 404 40003)
      else bnd (create_follow_row follower following) (\<lambda>_.
        bnd (attempt (increment_following_count following)) (\<lambda>r. case r of Inl _ \<Rightarrow> throw (BizErr 404 40006) | Inr _ \<Rightarrow>
        bnd (display_name follower) (\<lambda>name.
        bnd (modify (\<lambda>s. s\<lparr>pending_follows := pending_follows s @ [(following, follower, name)]\<rparr>)) (\<lambda>_.
        bnd (invalidate_user_social_stats follower) (\<lambda>_. invalidate_user_social_stats following))))))"

definition run_follow_notice :: "nat \<Rightarrow> ('r social_st_scheme, unit) op" where
  "run_follow_notice k = (\<lambda>s. if k < length (pending_follows s) then (case pending_follows s ! k of
       (following, follower, name) \<Rightarrow> notify_push_or_store following follower name txt_new_follower ''follow'')
         (s\<lparr>pending_follows := drop_nth k (pending_follows s)\<rparr>) else (Inr (), s))"

definition follow_topic_by_topic_id :: "u64 \<Rightarrow> u64 \<Rightarrow> ('r social_st_scheme, unit) op" where
  "follow_topic_by_topic_id u c = (if u = 0 \<or> c = 0 then throw (BizErr 404 40003) else
     bnd (gets clock_now) (\<lambda>now. bnd (attempt (get_active_topic_by_id c now)) (\<lambda>r. case r of
       Inl e \<Rightarrow> throw (if e = RecordNotFound then BizErr 404 40001 else e)
     | Inr _ \<Rightarrow> bnd (create_topic_follow u c) (\<lambda>_. ignore (delete_topic_follow_list u)))))"

definition unfollow_topic_by_topic_id :: "u64 \<Rightarrow> u64 \<Rightarrow> ('r social_st_scheme, unit) op" where
  "unfollow_topic_by_topic_id u c = (if u = 0 \<or> c = 0 then throw (BizErr 404 40003) else
     bnd (delete_topic_follow u c) (\<lambda>_. ignore (delete_topic_follow_list u)))"

definition list_followed_topics :: "u64 \<Rightarrow> ('r social_st_scheme, topic_follow list) op" where
  "list_followed_topics u = (if u = 0 then throw (BizErr 404 40003) else
     read_through (get_topic_follow_list u) (list_topic_follow_by_user u) (set_topic_follow_list u))"

definition is_topic_followed :: "u64 \<Rightarrow> u64 \<Rightarrow> ('r social_st_scheme, bool) op" where
  "is_topic_followed u c = (if u = 0 \<or> c = 0 then ret False else is_topic_followed_row u c)"

definition txt_topic_number :: string where
  "txt_topic_number = utf8 [232, 175, 157, 233, 162, 152, 32, 35]"

definition list_followed_topics_with_names :: "u64 \<Rightarrow> ('r social_st_scheme, (topic_follow \<times> string) list) op" where
  "list_followed_topics_with_names u = bnd (list_followed_topics u) (\<lambda>l. if l = [] then ret [] else
     let ids = remdups (filter (\<lambda>i. i \<noteq> 0) (map tf_topic l)) in
     bnd (attempt (get_topics_by_ids ids)) (\<lambda>r.
     let found = (case r of Inl _ \<Rightarrow> [] | Inr ts \<Rightarrow> ts);
         name = (\<lambda>i. case row_of top_id i found of Some t \<Rightarrow> if top_name t \<noteq> [] then top_name t else txt_topic_number @ show_u64 i
                     | None \<Rightarrow> txt_topic_number @ show_u64 i) in
     ret (map (\<lambda>f. (f, name (tf_topic f))) l)))"

section \<open>Handlers\<close>

definition get_me :: "u64 \<Rightarrow> ('r social_st_scheme, cached_base \<times> int) op" where
  "get_me u = (if u = 0 then throw ErrCodeInvalidParam else
     bnd (or_message (get_user_base_cached u)) (\<lambda>b.
     bnd (attempt (service_account_balance u)) (\<lambda>r. ret (b, case r of Inl _ \<Rightarrow> 0 | Inr n \<Rightarrow> n))))"

definition login_handle ::
  "(string \<Rightarrow> string \<Rightarrow> bool) \<Rightarrow> (u64 \<Rightarrow> string \<Rightarrow> string option) \<Rightarrow> (string \<times> string) option \<Rightarrow> ('r social_st_scheme, string \<times> string \<times> string) op" where
  "login_handle check gen body = with_body body (\<lambda>(tel, password).
     bnd (login check gen tel password) (\<lambda>(u, token). ret (show_u64 (u_id u), u_name u, token)))"

definition sign_up_handle :: "(string \<Rightarrow> string option) \<Rightarrow> (string \<times> string \<times> string) option \<Rightarrow> ('r social_st_scheme, string) op" where
  "sign_up_handle hash body = with_body body (\<lambda>(name, tel, password). bnd (sign_up hash name tel password) (\<lambda>i. ret (show_u64 i)))"

text \<open>The body: its columns with the plain password, and the two other spellings of the link.\<close>

definition update_user_handle ::
  "(string \<Rightarrow> string option) \<Rightarrow> u64 \<Rightarrow> (user_edit \<times> string option \<times> string option) option \<Rightarrow> ('r social_st_scheme, unit) op" where
  "update_user_handle hash u body = (if u = 0 then throw ErrCodeInvalidParam else with_body body (\<lambda>(p, url1, url2).
     let link = (if ue_github p \<noteq> None then ue_github p else if url1 \<noteq> None then url1 else url2);
         save = (\<lambda>pw. let e = p\<lparr>ue_password := pw, ue_github := map_option trim_space link\<rparr> in
           if e = \<lparr>ue_name = None, ue_tel = None, ue_password = None, ue_email = None, ue_avatar = None, ue_github = None\<rparr>
           then ret () else or_busy (update_user u e)) in
     case ue_password p of None \<Rightarrow> save None
     | Some w \<Rightarrow> (case hash w of None \<Rightarrow> throw MsgError | Some h \<Rightarrow> save (Some h))))"

definition get_user_public :: "string \<Rightarrow> ('r social_st_scheme, user \<times> int) op" where
  "get_user_public i = (case parse_uint i of None \<Rightarrow> throw ErrCodeInvalidParam | Some u \<Rightarrow>
     if u = 0 then throw ErrCodeInvalidParam else
     bnd (or_message (get_user_by_id u)) (\<lambda>r.
     bnd (attempt (get_social_stats_cached u)) (\<lambda>c. ret (r, (case c of Inl _ \<Rightarrow> i64 (u_following_count r) | Inr (_, k) \<Rightarrow> k) mod 2 ^ 64))))"

definition create_follow_auth :: "u64 \<Rightarrow> u64 option \<Rightarrow> ('r social_st_scheme, string) op" where
  "create_follow_auth u body = (case body of None \<Rightarrow> throw (BizErr 400 40003) | Some v \<Rightarrow>
     if v = 0 then throw (BizErr 400 40003) else bnd (create_follow u v) (\<lambda>_. ret (show_u64 v)))"

definition create_follow_handler :: "(u64 \<times> u64) option \<Rightarrow> ('r social_st_scheme, u64 \<times> u64) op" where
  "create_follow_handler body = (case body of None \<Rightarrow> throw (BizErr 400 40003)
     | Some (u, v) \<Rightarrow> bnd (create_follow u v) (\<lambda>_. ret (u, v)))"

definition follow_topic_handle :: "u64 \<Rightarrow> u64 option \<Rightarrow> ('r social_st_scheme, unit) op" where
  "follow_topic_handle u body = with_body body (\<lambda>c. if c = 0 then throw ErrCodeInvalidParam else follow_topic_by_topic_id u c)"

definition unfollow_topic_handle :: "u64 \<Rightarrow> u64 option \<Rightarrow> ('r social_st_scheme, unit) op" where
  "unfollow_topic_handle u body = with_body body (\<lambda>c. if c = 0 then throw ErrCodeInvalidParam else unfollow_topic_by_topic_id u c)"

definition get_my_following_user_count :: "u64 \<Rightarrow> ('r social_st_scheme, int) op" where
  "get_my_following_user_count u = (if u = 0 then throw ErrInvalidToken else or_busy (get_following_users_count_cached u))"

definition list_my_followed_topics_handle :: "u64 \<Rightarrow> ('r social_st_scheme, (topic_follow \<times> string) list) op" where
  "list_my_followed_topics_handle u = or_busy (list_followed_topics_with_names u)"

end
