(* ===== verification/UsersProps.thy ===== *)
theory UsersProps
  imports Users NotifyProps
begin

text \<open>
  The counter of followers and the rows it counts; the cached profile when a reader comes between the steps of an update.
\<close>

section \<open>Followers\<close>

definition followers :: "u64 \<Rightarrow> 'r social_st_scheme \<Rightarrow> nat" where
  "followers u s = count_rows (\<lambda>f. fo_following f = u) (follows s)"

text \<open>Nobody is counted more followers than there are rows.\<close>

definition followers_inv :: "'r social_st_scheme \<Rightarrow> bool" where
  "followers_inv s \<longleftrightarrow> (\<forall>r \<in> set (users s). u_following_count r \<le> int (followers (u_id r) s))"

definition follow_view :: "'r social_st_scheme \<Rightarrow> user list \<times> follow list" where
  "follow_view s = (users s, follows s)"

lemma quietly_follow_view: "quietly (\<lambda>s. follow_view s = c)"
  by (simp add: quietly_def follow_view_def)

lemma create_follow_row_cases:
  assumes "create_follow_row a b s = (r, t)"
  shows "(r = Inr () \<and> users t = users s \<and> (\<exists>f. follows t = follows s @ [f] \<and> fo_follower f = a \<and> fo_following f = b)) \<or>
    ((\<exists>e. r = Inl e) \<and> follow_view t = follow_view s)"
proof -
  let ?new = "\<lparr>fo_id = 0, fo_follower = a, fo_following = b, fo_created = clock_now s\<rparr>"
  let ?clash = "\<lambda>x q. fo_follower x = fo_follower q \<and> fo_following x = fo_following q"
  obtain q v where run: "create_row ''follows'' fo_id fo_id_update ?clash follows (\<lambda>l s. s\<lparr>follows := l\<rparr>) ?new s = (q, v)" by fastforce
  have made: "(\<exists>f. q = Inr f \<and> users v = users s \<and> follows v = follows s @ [f] \<and> fo_follower f = a \<and> fo_following f = b) \<or>
      (q \<noteq> Inl GoPanic \<and> (\<exists>e. q = Inl e) \<and> follow_view v = follow_view s)"
    using run unfolding create_row_def
    by (cases rule: io_cases) (auto simp: Let_def bump_auto_def follow_view_def split: if_splits)
  show ?thesis
  proof (cases q)
    case (Inl e)
    with made have "attempt (\<lambda>_. (q, v)) s = (Inr q, v)" by (simp add: attempt_def split: err.split)
    with run Inl have "create_follow_row a b s = (Inl (if e = DupKey then BizErr 404 40003 else PlainError ''ErrSQLFollow''), v)"
      by (simp add: create_follow_row_def bnd_def gets_def attempt_def throw_def)
    with assms made Inl show ?thesis by auto
  next
    case (Inr f)
    with run have "create_follow_row a b s = (Inr (), v)"
      by (simp add: create_follow_row_def bnd_def gets_def attempt_def ret_def)
    with assms made Inr show ?thesis by auto
  qed
qed

lemma keeps_follow_view_call:
  "(\<And>s. follow_view (snd (f s)) = follow_view s) \<Longrightarrow> keeps (\<lambda>s. follow_view s = c) (io f)"
  by (rule keeps_call [OF quietly_follow_view]) simp

lemma keeps_follow_view_modify: "(\<And>s. follow_view (f s) = follow_view s) \<Longrightarrow> keeps (\<lambda>s. follow_view s = c) (modify f)"
  by (simp add: keeps_modify)

lemma keeps_follow_view_name: "keeps (\<lambda>s. follow_view s = c) (display_name u)"
  unfolding display_name_def get_user_by_id_def
  by (intro keeps_rules keeps_follow_view_call) (simp split: option.split)

lemma keeps_follow_view_caches:
  "keeps (\<lambda>s. follow_view s = c) (invalidate_user_social_stats u)" "keeps (\<lambda>s. follow_view s = c) (del_user_base u)"
  unfolding invalidate_user_social_stats_def del_user_social_stats_def del_user_base_def
  by (intro keeps_rules social_stats.keeps_del user_bases.keeps_del quietly_follow_view; simp add: follow_view_def)+

lemma inv_view: "follow_view t = follow_view s \<Longrightarrow> followers_inv t = followers_inv s"
  by (simp add: followers_inv_def followers_def follow_view_def)

lemma keeps_view_inv: "(\<And>c. keeps (\<lambda>s. follow_view s = c) m) \<Longrightarrow> keeps followers_inv m"
proof (rule keepsI)
  fix s r t
  assume keeps: "\<And>c. keeps (\<lambda>s. follow_view s = c) m" and run: "m s = (r, t)" and inv: "followers_inv s"
  from keepsD [OF keeps run refl] have "follow_view t = follow_view s" .
  from inv_view [OF this] inv show "followers_inv t" by simp
qed

text \<open>The increment comes after the row, so it finds room.\<close>

lemma followers_append:
  "follows t = follows s @ [f] \<Longrightarrow> followers u t = followers u s + (if fo_following f = u then 1 else 0)"
  by (simp add: followers_def count_rows_def)

lemma inv_users:
  assumes "followers_inv s" and "follows t = follows s" and "\<And>r. r \<in> set (users t) \<Longrightarrow>
      u_following_count r = 0 \<or> (\<exists>x \<in> set (users s). u_id x = u_id r \<and> u_following_count x = u_following_count r)"
  shows "followers_inv t"
  using assms(1,3) unfolding followers_inv_def followers_def assms(2) by (metis of_nat_0_le_iff)

lemma inv_follow:
  assumes inv: "followers_inv s" and new: "follows t = follows s @ [f]" "fo_following f = v"
    and rows: "users t = users s \<or> users t = upd_rows (\<lambda>r. u_id r = v) (\<lambda>r. r\<lparr>u_following_count := u_following_count r + 1\<rparr>) (users s)"
  shows "followers_inv t"
  unfolding followers_inv_def
proof
  fix r assume r: "r \<in> set (users t)"
  from rows r obtain x where x: "x \<in> set (users s)" "u_id r = u_id x"
      "u_following_count r \<le> u_following_count x + (if u_id x = v then 1 else 0)"
    by (auto simp: upd_rows_def split: if_splits)
  with inv have "u_following_count x \<le> int (followers (u_id x) s)" by (simp add: followers_inv_def)
  with x followers_append [OF new(1), of "u_id r"] new(2) show "u_following_count r \<le> int (followers (u_id r) t)"
    by (auto split: if_splits)
qed

lemma increment_view:
  assumes "increment_following_count v s = (r, t)"
  shows "follow_view t = follow_view s \<or>
    follow_view t = (upd_rows (\<lambda>r. u_id r = v) (\<lambda>r. r\<lparr>u_following_count := u_following_count r + 1\<rparr>) (users s), follows s)"
  using assms unfolding increment_following_count_def
  by (cases rule: io_cases) (auto simp: follow_view_def modify_def)

lemma create_follow_keeps: "keeps followers_inv (create_follow a b)"
proof (rule keepsI)
  fix s r t
  assume run: "create_follow a b s = (r, t)" and inv: "followers_inv s"
  show "followers_inv t"
  proof (cases "a = 0 \<or> b = 0 \<or> a = b")
    case False
    obtain q s1 where row: "create_follow_row a b s = (q, s1)" by fastforce
    show ?thesis
    proof (cases q)
      case (Inl e)
      with run row False create_follow_row_cases [OF row] inv show ?thesis
        by (auto simp: create_follow_def bnd_def dest: inv_view)
    next
      case (Inr x)
      with create_follow_row_cases [OF row] obtain f where f: "users s1 = users s" "follows s1 = follows s @ [f]" "fo_following f = b" by auto
      let ?rest = "\<lambda>r. case r of Inl _ \<Rightarrow> throw (BizErr 404 40006) | Inr _ \<Rightarrow> bnd (display_name a) (\<lambda>name.
        bnd (modify (\<lambda>s. s\<lparr>pending_follows := pending_follows s @ [(b, a, name)]\<rparr>)) (\<lambda>_.
        bnd (invalidate_user_social_stats a) (\<lambda>_. invalidate_user_social_stats b)))"
      obtain w s2 where inc: "increment_following_count b s1 = (w, s2)" by fastforce
      have "w \<noteq> Inl GoPanic"
        using inc unfolding increment_following_count_def by (cases rule: io_cases) (auto simp: modify_def)
      then have "attempt (increment_following_count b) s1 = (Inr w, s2)"
        using inc by (simp add: attempt_def split: sum.split err.split)
      with run row Inr False have "?rest w s2 = (r, t)"
        by (simp add: create_follow_def bnd_Inr_run)
      moreover have "keeps (\<lambda>s. follow_view s = c) (?rest w)" for c
        by (intro keeps_rules keeps_follow_view_name keeps_follow_view_caches keeps_follow_view_modify) (simp add: follow_view_def)
      ultimately have "follow_view t = follow_view s2" by (blast dest: keepsD)
      moreover have "followers_inv s2"
        using increment_view [OF inc] f by (intro inv_follow [OF inv, of _ f b]) (auto simp: follow_view_def)
      ultimately show ?thesis using inv_view by blast
    qed
  qed (use run inv in \<open>auto simp: create_follow_def throw_def split: if_splits\<close>)
qed

lemma quietly_followers_inv: "quietly followers_inv"
  by (simp add: quietly_def followers_inv_def followers_def)

lemma edit_user_inv: "followers_inv s \<Longrightarrow> followers_inv (s\<lparr>users := upd_rows (\<lambda>r. u_id r = u) (edit_user e) (users s)\<rparr>)"
  by (erule inv_users) (auto simp: upd_rows_def edit_user_def)

lemma update_user_keeps: "keeps followers_inv (update_user u e)"
proof -
  have "keeps followers_inv (update_user_row u e)"
    unfolding update_user_row_def
    by (intro keeps_rules keeps_call quietly_followers_inv) (simp add: edit_user_inv)
  moreover have "keeps followers_inv (ignore (del_user_base u))"
    by (intro keeps_ignore keeps_view_inv keeps_follow_view_caches)
  ultimately show ?thesis unfolding update_user_def by (intro keeps_bnd) simp_all
qed

lemma new_user_inv:
  "followers_inv s \<Longrightarrow> u_following_count x = 0 \<Longrightarrow> followers_inv (bump_auto tbl k (s\<lparr>users := users s @ [x]\<rparr>))"
  by (erule inv_users) (auto simp: bump_auto_def)

lemma create_user_keeps: "u_following_count x = 0 \<Longrightarrow> keeps followers_inv (create_user x)"
  unfolding create_user_def create_row_def Let_def
  by (intro keeps_rules keeps_call quietly_followers_inv) (auto intro: new_user_inv)

lemma sign_up_keeps: "keeps followers_inv (sign_up hash name tel password)"
proof -
  have "keeps followers_inv generate_id" by (simp add: keeps_def generate_id_def followers_inv_def followers_def)
  then show ?thesis unfolding sign_up_def by (intro keeps_rules create_user_keeps) simp_all
qed

text \<open>The requests that touch users and follows, each with failing calls of its own.\<close>

inductive social_run :: "'r social_st_scheme \<Rightarrow> 'r social_st_scheme \<Rightarrow> bool" where
  start: "social_run s s"
| follow: "social_run s t \<Longrightarrow> create_follow a b (t\<lparr>faults := fs\<rparr>) = (r, u) \<Longrightarrow> social_run s u"
| edit: "social_run s t \<Longrightarrow> update_user i e (t\<lparr>faults := fs\<rparr>) = (r, u) \<Longrightarrow> social_run s u"
| sign: "social_run s t \<Longrightarrow> sign_up hash name tel password (t\<lparr>faults := fs\<rparr>) = (r, u) \<Longrightarrow> social_run s u"

text \<open>C30: whatever users sign up, follow each other and edit their profiles, and whatever calls fail, nobody is counted
  more followers than there are rows that follow them.
\<close>

theorem counted_followers_have_rows:
  assumes "social_run s t" and "followers_inv s" and "r \<in> set (users t)"
  shows "u_following_count r \<le> int (followers (u_id r) t)"
proof -
  have q: "followers_inv (s\<lparr>faults := fs\<rparr>) = followers_inv s" for s :: "'r social_st_scheme" and fs
    by (simp add: followers_inv_def followers_def)
  from assms(1,2) have "followers_inv t"
    by (induction rule: social_run.induct)
      (auto simp: q dest: keepsD [OF create_follow_keeps] keepsD [OF update_user_keeps] keepsD [OF sign_up_keeps])
  with assms(3) show ?thesis by (simp add: followers_inv_def)
qed

definition user_demo :: "u64 \<Rightarrow> string \<Rightarrow> user" where
  "user_demo i name = \<lparr>u_id = i, u_name = name, u_email = [], u_tel = name, u_password = [], u_avatar = [], u_github = [],
     u_following_count = 0, u_balance = 500, u_created = 1\<rparr>"

definition social_demo :: social_st where
  "social_demo = (notify_st.extend notify_demo (social_st.fields [] True [] [] [] length))
     \<lparr>users := [user_demo 7 ''ann'', user_demo 8 ''bob''], follows := [], user_redis := True\<rparr>"

lemmas social_demo_simps = social_demo_def social_st.defs user_demo_def notify_demo_simps

lemma counted_followers_have_rows_witness:
  "\<exists>t. create_follow 7 8 social_demo = (Inr (), t) \<and> (\<forall>r \<in> set (users t). u_following_count r \<le> int (followers (u_id r) t)) \<and>
     map u_following_count (users t) = [0, 1]"
proof -
  obtain r t where run: "create_follow 7 8 (social_demo\<lparr>faults := []\<rparr>) = (r, t)" by fastforce
  then have "social_run social_demo t" by (rule social_run.follow [OF social_run.start])
  moreover have "followers_inv social_demo" by (simp add: followers_inv_def followers_def count_rows_def social_demo_simps)
  ultimately have "\<forall>r \<in> set (users t). u_following_count r \<le> int (followers (u_id r) t)"
    using counted_followers_have_rows by blast
  moreover have "social_demo\<lparr>faults := []\<rparr> = social_demo" by (simp add: social_demo_simps)
  moreover have "fst (create_follow 7 8 social_demo) = Inr () \<and>
      map u_following_count (users (snd (create_follow 7 8 social_demo))) = [0, 1]"
    by (simp add: create_follow_def create_follow_row_def create_row_def pk_or_auto_def bump_auto_def bnd_def gets_def attempt_def
      ret_def io_nil increment_following_count_def modify_def upd_rows_def display_name_def get_user_by_id_def row_of_def
      invalidate_user_social_stats_def ignore_def del_user_social_stats_def cache_del_def Let_def social_demo_simps)
  ultimately show ?thesis using run by auto
qed

end
