(* ===== verification/Direct.thy ===== *)
theory Direct
  imports Users
begin

text \<open>
  Direct messages: src/database/dm_sql.go, dm_redis.go, src/service/dm_service.go and src/handler/dm_handler.go. Times are
  nanoseconds; MySQL keeps milliseconds, rounded. A message is answered with the second it was sent in: its text in
  the local zone is a function of that second.
\<close>

section \<open>State\<close>

record direct_message =
  dm_from :: u64
  dm_to :: u64
  dm_sent :: int
  dm_content :: string
  dm_expires :: int

record dm_line =
  dl_from :: u64
  dl_to :: u64
  dl_second :: int
  dl_content :: string

record dm_st = social_st +
  direct_messages :: "direct_message list"
  dm_redis :: bool
  peers_cache :: "(u64 \<times> (u64 \<times> string) list) list"
  conv_cache :: "((u64 \<times> u64) \<times> dm_line list) list"
  dm_unread :: "u64 \<Rightarrow> int option"

interpretation peer_lists: key_family dm_redis peers_cache peers_cache_update
  by unfold_locales simp_all

interpretation conversations: key_family dm_redis conv_cache conv_cache_update
  by unfold_locales simp_all

section \<open>Repository\<close>

definition to_millis :: "int \<Rightarrow> int" where
  "to_millis t = (t + 500000) div 1000000 * 1000000"

definition create_message :: "direct_message \<Rightarrow> ('r dm_st_scheme, unit) op" where
  "create_message m = io (\<lambda>s. let row = m\<lparr>dm_sent := to_millis (dm_sent m), dm_expires := to_millis (dm_expires m)\<rparr> in
     if \<exists>q \<in> set (direct_messages s). dm_from q = dm_from row \<and> dm_to q = dm_to row \<and> dm_sent q = dm_sent row
     then (Inl DupKey, s) else (Inr (), s\<lparr>direct_messages := direct_messages s @ [row]\<rparr>))"

definition between :: "u64 \<Rightarrow> u64 \<Rightarrow> direct_message \<Rightarrow> bool" where
  "between u v m \<longleftrightarrow> (dm_from m = u \<and> dm_to m = v) \<or> (dm_from m = v \<and> dm_to m = u)"

definition list_messages_between :: "u64 \<Rightarrow> u64 \<Rightarrow> int \<Rightarrow> ('r dm_st_scheme, direct_message list) op" where
  "list_messages_between u v limit = (let limit = (if limit \<le> 0 then 50 else limit) in
     bnd (gets clock_now) (\<lambda>now. io (gets (\<lambda>s. take (nat limit)
       (newest_first dm_sent (filter (\<lambda>m. dm_expires m > now \<and> between u v m) (direct_messages s)))))))"

text \<open>The peers by their latest message: the first occurrence of each in the messages, newest first.\<close>

definition peer_of :: "u64 \<Rightarrow> direct_message \<Rightarrow> u64" where
  "peer_of u m = (if dm_from m = u then dm_to m else dm_from m)"

fun first_uses :: "'a list \<Rightarrow> 'a list" where
  "first_uses [] = []"
| "first_uses (x # xs) = x # filter (\<lambda>y. y \<noteq> x) (first_uses xs)"

definition list_peer_ids :: "u64 \<Rightarrow> int \<Rightarrow> ('r dm_st_scheme, u64 list) op" where
  "list_peer_ids u limit = (let limit = (if limit \<le> 0 then 50 else limit) in
     bnd (gets clock_now) (\<lambda>now. io (gets (\<lambda>s. filter (\<lambda>i. i \<noteq> 0) (take (nat limit) (first_uses (map (peer_of u)
       (newest_first dm_sent (filter (\<lambda>m. dm_expires m > now \<and> (dm_from m = u \<or> dm_to m = u)) (direct_messages s))))))))))"

definition delete_expired :: "int \<Rightarrow> ('r dm_st_scheme, unit) op" where
  "delete_expired before = io (modify (\<lambda>s. s\<lparr>direct_messages := del_rows (\<lambda>m. dm_expires m \<le> before) (direct_messages s)\<rparr>))"

definition delete_conversation_rows :: "u64 \<Rightarrow> u64 \<Rightarrow> ('r dm_st_scheme, unit) op" where
  "delete_conversation_rows u v = (if u = 0 \<or> v = 0 then throw InvalidData else
     io (modify (\<lambda>s. s\<lparr>direct_messages := del_rows (between u v) (direct_messages s)\<rparr>)))"

section \<open>Redis\<close>

definition get_peers :: "u64 \<Rightarrow> ('r dm_st_scheme, (u64 \<times> string) list option) op" where
  "get_peers u = peer_lists.get u"

definition set_peers :: "u64 \<Rightarrow> (u64 \<times> string) list \<Rightarrow> ('r dm_st_scheme, unit) op" where
  "set_peers u l = peer_lists.put u l"

definition invalidate_peers :: "u64 \<Rightarrow> ('r dm_st_scheme, unit) op" where
  "invalidate_peers u = peer_lists.del u"

definition get_conversation :: "u64 \<Rightarrow> u64 \<Rightarrow> ('r dm_st_scheme, dm_line list option) op" where
  "get_conversation u v = conversations.get (u, v)"

definition set_conversation :: "u64 \<Rightarrow> u64 \<Rightarrow> dm_line list \<Rightarrow> ('r dm_st_scheme, unit) op" where
  "set_conversation u v l = conversations.put (u, v) l"

definition invalidate_conversation :: "u64 \<Rightarrow> u64 \<Rightarrow> ('r dm_st_scheme, unit) op" where
  "invalidate_conversation u v = conversations.del (u, v)"

text \<open>INCRBY fails when the sum is no 64-bit integer.\<close>

definition incr_unread_key :: "u64 \<Rightarrow> int \<Rightarrow> ('r dm_st_scheme, int) op" where
  "incr_unread_key u delta = (if u = 0 then ret 0 else let delta = (if delta = 0 then 1 else delta) in io (\<lambda>s.
     let n = (case dm_unread s u of None \<Rightarrow> 0 | Some k \<Rightarrow> k) + delta in
     if i64_ok n then (Inr n, s\<lparr>dm_unread := (dm_unread s)(u := Some n)\<rparr>) else (Inl OutOfRange, s)))"

definition get_unread :: "u64 \<Rightarrow> ('r dm_st_scheme, int) op" where
  "get_unread u = (if u = 0 then ret 0 else io (gets (\<lambda>s. case dm_unread s u of None \<Rightarrow> 0 | Some k \<Rightarrow> k)))"

definition clear_unread_key :: "u64 \<Rightarrow> ('r dm_st_scheme, unit) op" where
  "clear_unread_key u = (if u = 0 then ret () else io (modify (\<lambda>s. s\<lparr>dm_unread := (dm_unread s)(u := None)\<rparr>)))"

section \<open>The service\<close>

definition resolve_user_name :: "u64 \<Rightarrow> ('r dm_st_scheme, string) op" where
  "resolve_user_name u = (if u = 0 then ret [] else display_name u)"

text \<open>What the ticker does at the start and every hour.\<close>

definition dm_cleanup :: "('r dm_st_scheme, unit) op" where
  "dm_cleanup = bnd (gets clock_now) (\<lambda>now. ignore (delete_expired now))"

fun peer_names :: "u64 list \<Rightarrow> ('r dm_st_scheme, (u64 \<times> string) list) op" where
  "peer_names [] = ret []"
| "peer_names (i # is) = bnd (attempt (get_user_by_id i)) (\<lambda>r. bnd (peer_names is) (\<lambda>l.
     ret (case r of Inl _ \<Rightarrow> l | Inr u \<Rightarrow> (u_id u, u_name u) # l)))"

definition list_peers :: "u64 \<Rightarrow> ('r dm_st_scheme, (u64 \<times> string) list) op" where
  "list_peers u = (if u = 0 then throw (PlainError ''invalid user_id'') else
     read_through (get_peers u) (bnd (list_peer_ids u 50) peer_names) (set_peers u))"

definition dm_line_of :: "direct_message \<Rightarrow> dm_line" where
  "dm_line_of m = \<lparr>dl_from = dm_from m, dl_to = dm_to m, dl_second = dm_sent m div 1000000000, dl_content = dm_content m\<rparr>"

definition list_direct_messages :: "u64 \<Rightarrow> u64 \<Rightarrow> ('r dm_st_scheme, dm_line list) op" where
  "list_direct_messages u v = (if u = 0 \<or> v = 0 then throw (PlainError ''invalid user_id/peer_id'') else
     read_through (get_conversation u v) (bnd (list_messages_between u v 50) (\<lambda>l. ret (map dm_line_of (rev l)))) (set_conversation u v))"

definition dm_ttl :: int where "dm_ttl = 7 * 24 * 3600 * 1000000000"

definition send_message :: "u64 \<Rightarrow> u64 \<Rightarrow> string \<Rightarrow> ('r dm_st_scheme, direct_message) op" where
  "send_message from to content =
     (if from = 0 \<or> to = 0 then throw (PlainError ''invalid from/to'')
      else if from = to then throw (PlainError ''cannot dm self'')
      else let c = trim_space content in
        if c = [] then throw (PlainError ''empty content'')
        else if length (runes c) > 500 then throw (PlainError ''content too long'')
        else bnd (gets clock_now) (\<lambda>now.
          let m = \<lparr>dm_from = from, dm_to = to, dm_sent = now, dm_content = c, dm_expires = now + dm_ttl\<rparr> in
          bnd (create_message m) (\<lambda>_.
          bnd (ignore (invalidate_peers from)) (\<lambda>_.
          bnd (ignore (invalidate_peers to)) (\<lambda>_.
          bnd (ignore (invalidate_conversation from to)) (\<lambda>_.
          bnd (ignore (invalidate_conversation to from)) (\<lambda>_. ret m)))))))"

definition incr_unread :: "u64 \<Rightarrow> ('r dm_st_scheme, unit) op" where
  "incr_unread u = (if u = 0 then ret () else bnd (gets dm_redis) (\<lambda>on. guarded on (ignore (incr_unread_key u 1))))"

definition get_unread_count :: "u64 \<Rightarrow> ('r dm_st_scheme, int) op" where
  "get_unread_count u = bnd (gets dm_redis) (\<lambda>on. if \<not> on \<or> u = 0 then ret 0 else get_unread u)"

definition clear_unread :: "u64 \<Rightarrow> ('r dm_st_scheme, unit) op" where
  "clear_unread u = bnd (gets dm_redis) (\<lambda>on. if \<not> on \<or> u = 0 then ret () else ignore (clear_unread_key u))"

definition delete_conversation :: "u64 \<Rightarrow> u64 \<Rightarrow> ('r dm_st_scheme, unit) op" where
  "delete_conversation u v = (if u = 0 \<or> v = 0 then throw (PlainError ''invalid user_id/peer_id'') else
     bnd (delete_conversation_rows u v) (\<lambda>_.
     bnd (gets dm_redis) (\<lambda>on. if \<not> on then ret () else
       bnd (ignore (invalidate_peers u)) (\<lambda>_.
       bnd (ignore (invalidate_peers v)) (\<lambda>_.
       bnd (ignore (invalidate_conversation u v)) (\<lambda>_.
       bnd (ignore (invalidate_conversation v u)) (\<lambda>_.
       bnd (ignore (clear_unread_key u)) (\<lambda>_. ignore (clear_unread_key v)))))))))"

section \<open>Handlers\<close>

definition is_user_online :: "u64 \<Rightarrow> ('r dm_st_scheme, bool) op" where
  "is_user_online u = (if u = 0 then ret False else
     gets (\<lambda>s. case conns s u of None \<Rightarrow> False | Some i \<Rightarrow> ws_open (sockets s ! i)))"

definition push_dm_to_user :: "u64 \<Rightarrow> u64 \<Rightarrow> direct_message \<Rightarrow> ('r dm_st_scheme, unit) op" where
  "push_dm_to_user to from m = (if to = 0 \<or> from = 0 then ret () else
     bnd (gets (\<lambda>s. conns s to)) (\<lambda>c. case c of None \<Rightarrow> ret () | Some i \<Rightarrow>
     bnd (attempt (ws_write i (Direct from to (dm_sent m div 1000000000) (dm_content m)))) (\<lambda>r. case r of
       Inl _ \<Rightarrow> set_conn to None | Inr _ \<Rightarrow> touch_ws_idle_timer to)))"

definition txt_sent_you :: string where
  "txt_sent_you = utf8 [32, 231, 187, 153, 228, 189, 160, 229, 143, 145, 228, 186, 134, 231, 167, 129, 228, 191, 161, 239, 188, 154]"

definition list_peers_handler :: "u64 \<Rightarrow> ('r dm_st_scheme, (u64 \<times> string) list) op" where
  "list_peers_handler u = or_busy (list_peers u)"

definition list_messages_handler :: "u64 \<Rightarrow> string option \<Rightarrow> ('r dm_st_scheme, dm_line list) op" where
  "list_messages_handler u peer = (let v = parse_uint_or_zero (case peer of None \<Rightarrow> [] | Some p \<Rightarrow> p) in
     if v = 0 then throw ErrCodeInvalidParam else or_busy (list_direct_messages u v))"

definition send_message_handler :: "u64 \<Rightarrow> (u64 \<times> string) option \<Rightarrow> ('r dm_st_scheme, int) op" where
  "send_message_handler u body = with_body body (\<lambda>(to, content). if to = 0 then throw ErrCodeInvalidParam else
     bnd (attempt (send_message u to content)) (\<lambda>r. case r of Inl _ \<Rightarrow> throw ErrCodeInvalidParam | Inr m \<Rightarrow>
     bnd (is_user_online to) (\<lambda>online.
     bnd (if online then push_dm_to_user to u m else incr_unread to) (\<lambda>_.
     bnd (resolve_user_name u) (\<lambda>n. let name = (if n \<noteq> [] then n else ''UID:'' @ show_u64 u) in
     bnd (notify_push_or_store to u name (name @ txt_sent_you @ content_preview (trim_space (dm_content m))) ''dm'') (\<lambda>_.
     ret (dm_sent m div 1000000000)))))))"

definition get_unread_count_handler :: "u64 \<Rightarrow> ('r dm_st_scheme, int) op" where
  "get_unread_count_handler u = or_busy (get_unread_count u)"

definition clear_unread_handler :: "u64 \<Rightarrow> ('r dm_st_scheme, unit) op" where
  "clear_unread_handler u = clear_unread u"

text \<open>A body that does not decode counts as one without a peer.\<close>

definition delete_conversation_handler :: "u64 \<Rightarrow> u64 option \<Rightarrow> string option \<Rightarrow> ('r dm_st_scheme, unit) op" where
  "delete_conversation_handler u body peer = (let b = (case body of None \<Rightarrow> 0 | Some v \<Rightarrow> v);
       v = (if b = 0 then parse_uint_or_zero (case peer of None \<Rightarrow> [] | Some p \<Rightarrow> p) else b) in
     if v = 0 then throw ErrCodeInvalidParam else or_busy (delete_conversation u v))"

end
