(* ===== verification/DirectProps.thy ===== *)
theory DirectProps
  imports Direct UsersProps
begin

text \<open>A message that was sent is the last of the conversation, for both sides, whatever was cached before.\<close>

lemma newest_first_snoc:
  assumes "\<And>y. y \<in> set ys \<Longrightarrow> f y < f x"
  shows "newest_first f (ys @ [x]) = x # newest_first f ys"
  using assms
proof (induction ys)
  case (Cons y ys)
  from Cons.prems [of y] have "\<not> f x \<le> f y" by simp
  with Cons show ?case by (simp add: newest_first_def)
qed (simp add: newest_first_def)

lemma between_sym: "between u v = between v u"
  by (auto simp: between_def fun_eq_iff)

definition sent_row :: "direct_message \<Rightarrow> direct_message" where
  "sent_row m = m\<lparr>dm_sent := to_millis (dm_sent m), dm_expires := to_millis (dm_expires m)\<rparr>"

lemma ignore_calm_del:
  assumes "calm s"
  shows "ignore (peer_lists.del u) s = (Inr (), if dm_redis s then peers_cache_update (AList.delete u) s else s)"
    and "ignore (conversations.del k) s = (Inr (), if dm_redis s then conv_cache_update (AList.delete k) s else s)"
  using peer_lists.del_calm [OF assms] conversations.del_calm [OF assms] by (simp_all add: ignore_def go_exec)

lemma send_message_effect:
  fixes s :: "'r dm_st_scheme"
  assumes "calm s" and "send_message a b c s = (Inr m, t)"
  shows "m = \<lparr>dm_from = a, dm_to = b, dm_sent = clock_now s, dm_content = trim_space c, dm_expires = clock_now s + dm_ttl\<rparr>"
    and "direct_messages t = direct_messages s @ [sent_row m]" and "calm t" and "clock_now t = clock_now s"
    and "a \<noteq> 0" and "b \<noteq> 0"
    and "dm_redis t \<Longrightarrow> map_of (conv_cache t) (a, b) = None \<and> map_of (conv_cache t) (b, a) = None"
proof -
  let ?m = "\<lparr>dm_from = a, dm_to = b, dm_sent = clock_now s, dm_content = trim_space c, dm_expires = clock_now s + dm_ttl\<rparr>"
  let ?s = "s\<lparr>direct_messages := direct_messages s @ [sent_row ?m]\<rparr>"
  let ?drop = "\<lambda>s. bnd (ignore (invalidate_peers a)) (\<lambda>_. bnd (ignore (invalidate_peers b)) (\<lambda>_.
    bnd (ignore (invalidate_conversation a b)) (\<lambda>_. bnd (ignore (invalidate_conversation b a)) (\<lambda>_. ret ?m)))) s"
  have "create_message ?m s = (Inr (), ?s) \<or> create_message ?m s = (Inl DupKey, s)"
    using assms(1) by (simp add: create_message_def io_nil calm_def Let_def sent_row_def)
  with assms(2) have run: "create_message ?m s = (Inr (), ?s)" and ids: "a \<noteq> 0 \<and> b \<noteq> 0"
    by (auto simp: send_message_def Let_def throw_def bnd_def gets_def split: if_splits)
  with assms(2) have "?drop ?s = (Inr m, t)"
    by (simp add: send_message_def Let_def throw_def bnd_Inr_run gets_def split: if_splits)
  moreover have "calm ?s" using assms(1) by (simp add: calm_def)
  ultimately have eff: "m = ?m \<and> direct_messages t = direct_messages ?s \<and> calm t \<and> clock_now t = clock_now s \<and>
      (dm_redis t \<longrightarrow> map_of (conv_cache t) (a, b) = None \<and> map_of (conv_cache t) (b, a) = None)"
    by (cases "dm_redis s")
      (auto simp: invalidate_peers_def invalidate_conversation_def bnd_Inr_run ignore_calm_del calm_def ret_def delete_conv')
  show "m = ?m" and "direct_messages t = direct_messages s @ [sent_row m]" and "calm t" and "clock_now t = clock_now s"
    and "a \<noteq> 0" and "b \<noteq> 0"
    and "dm_redis t \<Longrightarrow> map_of (conv_cache t) (a, b) = None \<and> map_of (conv_cache t) (b, a) = None"
    using eff ids by auto
qed

lemma expires_later: "to_millis (now + dm_ttl) > now"
  by (simp add: to_millis_def dm_ttl_def)

text \<open>What an uncached conversation reads when its newest message is the last row.\<close>

lemma list_messages_last:
  fixes t :: "'r dm_st_scheme"
  assumes "calm t" and "u \<noteq> 0" and "v \<noteq> 0" and "dm_redis t \<Longrightarrow> map_of (conv_cache t) (u, v) = None"
    and "direct_messages t = ms @ [x]" and "between u v x" and "dm_expires x > clock_now t"
    and "\<And>y. y \<in> set ms \<Longrightarrow> between u v y \<Longrightarrow> dm_sent y < dm_sent x"
  shows "\<exists>l w. list_direct_messages u v t = (Inr l, w) \<and> l \<noteq> [] \<and> last l = dm_line_of x \<and> length l \<le> 50"
proof -
  let ?hit = "\<lambda>m. dm_expires m > clock_now t \<and> between u v m"
  let ?l = "take 50 (newest_first dm_sent (filter ?hit (direct_messages t)))"
  have "newest_first dm_sent (filter ?hit (direct_messages t)) = x # newest_first dm_sent (filter ?hit ms)"
    using assms(5-7) by (simp, subst newest_first_snoc) (auto intro: assms(8))
  then have l: "?l = x # take 49 (newest_first dm_sent (filter ?hit ms))" by simp
  have "list_messages_between u v 50 t = (Inr ?l, t)"
    using assms(1) by (simp add: list_messages_between_def bnd_def gets_def io_nil calm_def)
  then have "list_direct_messages u v t = (Inr (map dm_line_of (rev ?l)), if dm_redis t then conv_cache_update
      (AList.update (u, v) (map dm_line_of (rev ?l))) t else t)"
    using assms(1-4) conversations.get_calm [OF assms(1)] conversations.put_calm [OF assms(1)]
    by (simp add: list_direct_messages_def read_through_def get_conversation_def set_conversation_def attempt_Inr_run bnd_Inr_run ret_run
        ignore_def)
  then show ?thesis unfolding l by simp
qed

text \<open>C31: with no failing call, a message that was sent is the last line of the conversation for the sender and for the
  receiver, whatever was cached before, when the other messages of the two are older.
\<close>

theorem sent_message_is_listed:
  fixes s :: "'r dm_st_scheme"
  assumes "calm s" and "send_message a b c s = (Inr m, t)"
    and "\<And>y. y \<in> set (direct_messages s) \<Longrightarrow> between a b y \<Longrightarrow> dm_sent y < to_millis (clock_now s)"
  shows "\<exists>l w l' w'. list_direct_messages a b t = (Inr l, w) \<and> list_direct_messages b a t = (Inr l', w') \<and>
     l \<noteq> [] \<and> last l = dm_line_of (sent_row m) \<and> l' \<noteq> [] \<and> last l' = dm_line_of (sent_row m)"
proof -
  note eff = send_message_effect [OF assms(1,2)]
  have row: "between a b (sent_row m)" "between b a (sent_row m)" "dm_expires (sent_row m) > clock_now t"
      "dm_sent (sent_row m) = to_millis (clock_now s)"
    using expires_later by (simp_all add: eff(1,4) sent_row_def between_def)
  have older: "y \<in> set (direct_messages s) \<Longrightarrow> between b a y \<Longrightarrow> dm_sent y < to_millis (clock_now s)" for y
    using assms(3) between_sym by metis
  obtain l w where "list_direct_messages a b t = (Inr l, w)" "l \<noteq> []" "last l = dm_line_of (sent_row m)"
    using list_messages_last [OF eff(3,5,6) _ eff(2) row(1,3)] eff(7) assms(3) row(4) by auto
  moreover obtain l' w' where "list_direct_messages b a t = (Inr l', w')" "l' \<noteq> []" "last l' = dm_line_of (sent_row m)"
    using list_messages_last [OF eff(3,6,5) _ eff(2) row(2,3)] eff(7) older row(4) by auto
  ultimately show ?thesis by blast
qed

definition dm_demo :: dm_st where
  "dm_demo = social_st.extend social_demo (dm_st.fields [] True [] [((7, 8), [])] (\<lambda>_. None))"

lemma sent_message_is_listed_witness:
  "\<exists>m t l w. send_message 7 8 '' hi '' dm_demo = (Inr m, t) \<and> list_direct_messages 8 7 t = (Inr l, w) \<and>
     l \<noteq> [] \<and> dl_content (last l) = ''hi''"
proof -
  have "trim_space '' hi '' = ''hi''" "length (runes ''hi'') = 2" by code_simp+
  then obtain m t where run: "send_message 7 8 '' hi '' dm_demo = (Inr m, t)"
    by (simp add: send_message_def Let_def create_message_def io_nil bnd_def gets_def ignore_calm_del calm_def ret_def
      invalidate_peers_def invalidate_conversation_def dm_demo_def dm_st.defs social_demo_simps)
  have "calm dm_demo" by (simp add: calm_def dm_demo_def dm_st.defs social_demo_simps)
  moreover have "direct_messages dm_demo = []" by (simp add: dm_demo_def dm_st.defs social_st.defs)
  ultimately obtain l w where "list_direct_messages 8 7 t = (Inr l, w)" "l \<noteq> []" "last l = dm_line_of (sent_row m)"
    using sent_message_is_listed [OF _ run] by (metis empty_iff list.set(1))
  have "dl_content (dm_line_of (sent_row m)) = ''hi''"
    using send_message_effect(1) [OF \<open>calm dm_demo\<close> run] \<open>trim_space '' hi '' = ''hi''\<close> by (simp add: dm_line_of_def sent_row_def)
  with \<open>last l = _\<close> have "dl_content (last l) = ''hi''" by simp
  with run \<open>list_direct_messages 8 7 t = _\<close> \<open>l \<noteq> []\<close> show ?thesis by blast
qed

end
