(* ===== verification/Search.thy ===== *)
theory Search
  imports Users "HOL-Library.Log_Nat"
begin

text \<open>
  Search: src/service/search_service.go, src/handler/search_handler.go, src/database/search_redis.go and what
  src/search/search_init.go sends to Elasticsearch. What the engine finds for a query in its documents is a function of
  the state: its scoring is not this code. Lower case and the digest of a query are functions of the state too.
\<close>

section \<open>State\<close>

record search_article =
  sr_id :: u64
  sr_author :: u64
  sr_author_name :: string
  sr_title :: string
  sr_summary :: string
  sr_views :: int
  sr_likes :: int
  sr_comments :: int

record search_result =
  gr_articles :: "search_article list"
  gr_users :: "(u64 \<times> string) list"

text \<open>A query: where to start, how many, the words, and the pattern that the title or the summary may match instead.\<close>

record es_query =
  eq_from :: int
  eq_size :: int
  eq_words :: string
  eq_pattern :: "string option"

record search_st = social_st +
  es_on :: bool
  es_docs :: "(u64 \<times> search_payload) list"
  es_find :: "es_query \<Rightarrow> (u64 \<times> search_payload) list \<Rightarrow> search_payload list"
  search_redis :: bool
  search_cache :: "((string \<times> int \<times> int) \<times> search_result) list"
  lowered :: "string \<Rightarrow> string"
  query_digest :: "string \<Rightarrow> string"

interpretation search_results: key_family search_redis search_cache search_cache_update
  by unfold_locales simp_all

section \<open>The engine\<close>

definition upsert_article :: "search_payload \<Rightarrow> ('r search_st_scheme, unit) op" where
  "upsert_article p = bnd (gets es_on) (\<lambda>on. if \<not> on then ret () else
     io (modify (\<lambda>s. s\<lparr>es_docs := AList.update (sp_id p) p (es_docs s)\<rparr>)))"

definition escape_wildcard_query :: "string \<Rightarrow> string" where
  "escape_wildcard_query s = replace_all ''?'' (CHR 92 # ''?'') (replace_all ''*'' (CHR 92 # ''*'')
     (replace_all [CHR 92] [CHR 92, CHR 92] s))"

text \<open>
  A hit as it is decoded: \<open>encoding/json\<close> puts a number without a type into a \<open>float64\<close>, which has 53 bits, ties to even.
\<close>

datatype hit_id = NoId | HitText string | HitFloat nat

record es_hit =
  hit_id :: hit_id
  hit_title :: string
  hit_summary :: string

definition float64_nat :: "nat \<Rightarrow> nat" where
  "float64_nat n = (let k = floorlog 2 n - 53; q = n div 2 ^ k; r = n mod 2 ^ k in
     (if 2 * r > 2 ^ k \<or> (2 * r = 2 ^ k \<and> odd q) then q + 1 else q) * 2 ^ k)"

definition decode_hit :: "search_payload \<Rightarrow> es_hit" where
  "decode_hit p = \<lparr>hit_id = HitFloat (float64_nat (unat (sp_id p))), hit_title = sp_title p, hit_summary = sp_summary p\<rparr>"

definition paged_query :: "string \<Rightarrow> int \<Rightarrow> int \<Rightarrow> es_query" where
  "paged_query query page sz = (let page = (if page \<le> 0 then 1 else page); sz = (if sz \<le> 0 then 20 else sz); trimmed = trim_space query in
     \<lparr>eq_from = i64 (i64 (page - 1) * sz), eq_size = sz, eq_words = query,
      eq_pattern = (if trimmed = [] then None else Some (''*'' @ escape_wildcard_query trimmed @ ''*''))\<rparr>)"

definition search_articles_paged :: "string \<Rightarrow> int \<Rightarrow> int \<Rightarrow> ('r search_st_scheme, es_hit list) op" where
  "search_articles_paged query page sz = bnd (gets es_on) (\<lambda>on.
     if \<not> on then throw (PlainError ''search is not enabled'')
     else io (gets (\<lambda>s. map decode_hit (es_find s (paged_query query page sz) (es_docs s)))))"

section \<open>Redis\<close>

definition normalize_search_query :: "(string \<Rightarrow> string) \<Rightarrow> string \<Rightarrow> string" where
  "normalize_search_query lower q = lower (trim_space q)"

definition search_cache_key :: "(string \<Rightarrow> string) \<Rightarrow> string \<Rightarrow> int \<Rightarrow> int \<Rightarrow> string \<times> int \<times> int" where
  "search_cache_key digest nq page sz = (digest nq, page, sz)"

definition get_global_search :: "string \<Rightarrow> int \<Rightarrow> int \<Rightarrow> ('r search_st_scheme, search_result option) op" where
  "get_global_search nq page sz = bnd (gets query_digest) (\<lambda>d. search_results.get (search_cache_key d nq page sz))"

definition set_global_search :: "string \<Rightarrow> int \<Rightarrow> int \<Rightarrow> search_result \<Rightarrow> ('r search_st_scheme, unit) op" where
  "set_global_search nq page sz r = bnd (gets query_digest) (\<lambda>d. search_results.put (search_cache_key d nq page sz) r)"

section \<open>The service\<close>

datatype article_results = NoResults | Rows "article list" | Hits "es_hit list"

definition id_of_hit :: "hit_id \<Rightarrow> u64" where
  "id_of_hit h = (case h of NoId \<Rightarrow> 0 | HitText t \<Rightarrow> parse_uint_or_zero t | HitFloat n \<Rightarrow> of_nat n)"

definition row_result :: "article \<Rightarrow> search_article" where
  "row_result a = \<lparr>sr_id = art_id a, sr_author = art_author a, sr_author_name = [], sr_title = art_title a,
     sr_summary = art_summary a, sr_views = art_views a, sr_likes = art_likes a, sr_comments = 0\<rparr>"

definition hit_result :: "es_hit \<Rightarrow> search_article" where
  "hit_result h = \<lparr>sr_id = id_of_hit (hit_id h), sr_author = 0, sr_author_name = [], sr_title = hit_title h,
     sr_summary = hit_summary h, sr_views = 0, sr_likes = 0, sr_comments = 0\<rparr>"

text \<open>A row completes the entry of its id, or makes one.\<close>

definition complete_result :: "article \<Rightarrow> search_article \<Rightarrow> search_article" where
  "complete_result a r = r\<lparr>sr_title := (if sr_title r = [] then art_title a else sr_title r),
     sr_summary := (if sr_summary r = [] then art_summary a else sr_summary r),
     sr_author := (if sr_author r = 0 then art_author a else sr_author r), sr_views := art_views a, sr_likes := art_likes a\<rparr>"

definition build_article_results :: "article_results \<Rightarrow> ('r search_st_scheme, search_article list) op" where
  "build_article_results found = (case found of
       NoResults \<Rightarrow> ret []
     | Rows rows \<Rightarrow> ret (map row_result (filter (\<lambda>a. art_id a \<noteq> 0) rows))
     | Hits hits \<Rightarrow> let hits = filter (\<lambda>h. id_of_hit (hit_id h) \<noteq> 0) hits; ids = map (\<lambda>h. id_of_hit (hit_id h)) hits;
         base = map_of (rev (map (\<lambda>h. (id_of_hit (hit_id h), hit_result h)) hits)) in
         if ids = [] then ret [] else
         bnd (attempt (get_articles_by_ids ids)) (\<lambda>r. let rows = (case r of Inl _ \<Rightarrow> [] | Inr l \<Rightarrow> l) in
         ret (map (\<lambda>i. case row_of art_id i rows of None \<Rightarrow> the (base i) | Some a \<Rightarrow> complete_result a (the (base i))) ids)))"

fun author_names :: "u64 list \<Rightarrow> (u64 \<times> string) list \<Rightarrow> ('r search_st_scheme, (u64 \<times> string) list) op" where
  "author_names [] m = ret m"
| "author_names (u # us) m = (if u = 0 \<or> map_of m u \<noteq> None then author_names us m else
     bnd (attempt (get_user_by_id u)) (\<lambda>r. author_names us (case r of
       Inl _ \<Rightarrow> m | Inr x \<Rightarrow> (u, if u_name x \<noteq> [] then u_name x else ''UID:'' @ show_u64 u) # m)))"

definition enrich_author_names :: "search_article list \<Rightarrow> ('r search_st_scheme, search_article list) op" where
  "enrich_author_names l = bnd (author_names (map sr_author l) []) (\<lambda>m.
     ret (map (\<lambda>r. case map_of m (sr_author r) of None \<Rightarrow> r | Some n \<Rightarrow> r\<lparr>sr_author_name := n\<rparr>) l))"

definition enrich_comment_counts :: "search_article list \<Rightarrow> ('r search_st_scheme, search_article list) op" where
  "enrich_comment_counts l = (if l = [] then ret l else
     bnd (attempt (count_by_article_ids (map sr_id l))) (\<lambda>r. ret (case r of
       Inl _ \<Rightarrow> l
     | Inr m \<Rightarrow> map (\<lambda>x. case map_of m (sr_id x) of None \<Rightarrow> x | Some n \<Rightarrow> x\<lparr>sr_comments := n\<rparr>) l)))"

definition find_articles :: "string \<Rightarrow> int \<Rightarrow> int \<Rightarrow> ('r search_st_scheme, article_results) op" where
  "find_articles query page sz =
     bnd (attempt (search_articles_paged query page sz)) (\<lambda>r. case r of
       Inr (h # hs) \<Rightarrow> ret (Hits (h # hs))
     | _ \<Rightarrow> bnd (attempt (search_articles_fallback_paged query page sz)) (\<lambda>f. ret (case f of
         Inr rows \<Rightarrow> Rows rows | Inl _ \<Rightarrow> NoResults)))"

definition search_uncached :: "string \<Rightarrow> int \<Rightarrow> int \<Rightarrow> ('r search_st_scheme, search_result) op" where
  "search_uncached query page sz =
     bnd (attempt (search_users_by_name_or_tel query 10)) (\<lambda>u.
     let users = (case u of Inl _ \<Rightarrow> [] | Inr l \<Rightarrow> map (\<lambda>x. (u_id x, u_name x)) (filter (\<lambda>x. u_id x \<noteq> 0) l)) in
     bnd (gets es_on) (\<lambda>on.
     bnd (if on then find_articles query page sz else
       bnd (attempt (search_articles_fallback_paged query page sz)) (\<lambda>f. ret (case f of Inr rows \<Rightarrow> Rows rows | Inl _ \<Rightarrow> NoResults))) (\<lambda>found.
     bnd (build_article_results found) (\<lambda>l.
     bnd (enrich_author_names l) (\<lambda>l.
     bnd (enrich_comment_counts l) (\<lambda>l. ret \<lparr>gr_articles = l, gr_users = users\<rparr>))))))"

definition global_search :: "string \<Rightarrow> int \<Rightarrow> int \<Rightarrow> ('r search_st_scheme, search_result) op" where
  "global_search query page sz = (let page = (if page \<le> 0 then 1 else page); sz = min 50 (if sz \<le> 0 then 20 else sz) in
     bnd (gets (\<lambda>s. normalize_search_query (lowered s) query)) (\<lambda>nq.
     if nq = [] then ret \<lparr>gr_articles = [], gr_users = []\<rparr> else
     read_through (get_global_search nq page sz) (search_uncached query page sz) (set_global_search nq page sz)))"

section \<open>Handlers\<close>

definition process_search_sync_message :: "search_payload option \<Rightarrow> ('r search_st_scheme, unit) op" where
  "process_search_sync_message body = bnd (gets es_on) (\<lambda>on. if \<not> on then ret () else
     case body of None \<Rightarrow> throw (PlainError ''json'') | Some p \<Rightarrow> upsert_article p)"

definition global_search_handler :: "string option \<Rightarrow> string option \<Rightarrow> string option \<Rightarrow> ('r search_st_scheme, search_result) op" where
  "global_search_handler query page sz = (case query of None \<Rightarrow> throw ErrCodeInvalidParam | Some q \<Rightarrow>
     if q = [] then throw ErrCodeInvalidParam else
     or_busy (global_search q (query_int page ''1'') (query_int sz ''20'')))"

end
