(* ===== verification/SearchProps.thy ===== *)
theory SearchProps
  imports Search UsersProps
begin

text \<open>
  A search is always answered; and which ids it answers with when the engine found the articles.
\<close>

section \<open>Computations that always return a value\<close>

definition total :: "('s, 'a) op \<Rightarrow> bool" where
  "total m \<longleftrightarrow> (\<forall>s. \<exists>x t. m s = (Inr x, t))"

named_theorems total_rules \<open>computations that always return a value\<close>

lemma total_basic [total_rules]: "total (ret x)" "total (gets f)" "total (modify g)"
  by (simp_all add: total_def ret_def gets_def modify_def)

lemma total_bnd [total_rules]:
  assumes "total m" and "\<And>x. total (f x)"
  shows "total (bnd m f)"
  unfolding total_def
proof
  fix s
  from assms(1) obtain x t where "m s = (Inr x, t)" unfolding total_def by blast
  moreover from assms(2) obtain y u where "f x t = (Inr y, u)" unfolding total_def by blast
  ultimately show "\<exists>y u. bnd m f s = (Inr y, u)" by (auto simp: bnd_Inr_run)
qed

lemma total_attempt [total_rules]:
  assumes "no_panic m"
  shows "total (attempt m)"
  unfolding total_def
proof
  fix s
  obtain r t where run: "m s = (r, t)" by fastforce
  with assms have "r \<noteq> Inl GoPanic" by (auto simp: no_panic_iff)
  with run have "attempt m s = (Inr r, t)" by (simp add: attempt_eq_Inr)
  then show "\<exists>x t. attempt m s = (Inr x, t)" by blast
qed

lemma total_ignore [total_rules]: "no_panic m \<Longrightarrow> total (ignore m)"
  unfolding ignore_def by (intro total_rules)

lemma total_if [total_rules]: "(b \<Longrightarrow> total m) \<Longrightarrow> (\<not> b \<Longrightarrow> total n) \<Longrightarrow> total (if b then m else n)"
  by simp

lemma total_case_option [total_rules]:
  "total m \<Longrightarrow> (\<And>x. total (f x)) \<Longrightarrow> total (case v of None \<Rightarrow> m | Some x \<Rightarrow> f x)"
  by (simp split: option.split)

lemma total_case_sum [total_rules]:
  "(\<And>e. total (f e)) \<Longrightarrow> (\<And>x. total (g x)) \<Longrightarrow> total (case r of Inl e \<Rightarrow> f e | Inr x \<Rightarrow> g x)"
  by (simp split: sum.split)

lemma total_case_list: "total m \<Longrightarrow> (\<And>x xs. total (f x xs)) \<Longrightarrow> total (case l of [] \<Rightarrow> m | x # xs \<Rightarrow> f x xs)"
  by (simp split: list.split)

lemma total_read_through [total_rules]:
  assumes "no_panic get" and "total load" and "\<And>v. no_panic (put v)"
  shows "total (read_through get load put)"
  unfolding read_through_def by (intro total_rules assms)

section \<open>A search is always answered\<close>

lemma no_panic_user: "no_panic (get_user_by_id u)"
  unfolding get_user_by_id_def by (rule no_panic_call) (simp split: option.split)

lemma no_panic_engine: "no_panic (search_articles_paged q page sz)"
  unfolding search_articles_paged_def Let_def by (intro no_panic_rules) simp

lemma no_panic_rows:
  "no_panic (search_articles_fallback_paged q page sz)" "no_panic (search_users_by_name_or_tel q n)"
  "no_panic (get_articles_by_ids ids)" "no_panic (count_by_article_ids ids)"
  unfolding search_articles_fallback_paged_def search_users_by_name_or_tel_def get_articles_by_ids_def count_by_article_ids_def Let_def
  by (intro no_panic_rules)+

lemma total_find: "total (find_articles q page sz)"
  unfolding find_articles_def
  by (intro total_rules total_case_list no_panic_engine no_panic_rows)

lemma total_build: "total (build_article_results found)"
  unfolding build_article_results_def Let_def
  by (cases found) (simp_all only: article_results.case, (intro total_rules no_panic_rows)+)

lemma total_author_names: "total (author_names us m)"
  by (induction us m rule: author_names.induct) (auto intro!: total_rules no_panic_user)

lemma total_search_uncached: "total (search_uncached q page sz)"
  unfolding search_uncached_def enrich_author_names_def enrich_comment_counts_def Let_def
  by (intro total_rules total_find total_build total_author_names no_panic_rows)

text \<open>C32: a search is answered whatever fails: the cache, the engine, MySQL, the names and the counts.
\<close>

theorem search_always_answers: "\<exists>r t. global_search query page sz s = (Inr r, t)"
proof -
  have "total (global_search query page sz)"
    unfolding global_search_def get_global_search_def set_global_search_def Let_def
    by (intro total_rules total_search_uncached no_panic_rules)
  then show ?thesis unfolding total_def by blast
qed

section \<open>The ids of hits\<close>

lemma ids_author_names: "enrich_author_names l s = (Inr l', t) \<Longrightarrow> map sr_id l' = map sr_id l"
  by (auto simp: enrich_author_names_def ret_def elim!: bnd_InrE split: option.split)

lemma ids_comment_counts: "enrich_comment_counts l s = (Inr l', t) \<Longrightarrow> map sr_id l' = map sr_id l"
  by (auto simp: enrich_comment_counts_def ret_def elim!: bnd_InrE split: option.split sum.splits if_splits)

lemma ids_build_hits:
  assumes "build_article_results (Hits hits) s = (Inr l, t)"
  shows "map sr_id l = filter (\<lambda>i. i \<noteq> 0) (map (\<lambda>h. id_of_hit (hit_id h)) hits)"
proof -
  define hs where "hs = filter (\<lambda>h. id_of_hit (hit_id h) \<noteq> 0) hits"
  define base where "base = map_of (rev (map (\<lambda>h. (id_of_hit (hit_id h), hit_result h)) hs))"
  have base_id: "sr_id (the (base i)) = i" if "i \<in> (\<lambda>h. id_of_hit (hit_id h)) ` set hs" for i
  proof -
    from that have "i \<in> fst ` set (rev (map (\<lambda>h. (id_of_hit (hit_id h), hit_result h)) hs))" by force
    then have "base i \<noteq> None" unfolding base_def by (simp only: map_of_eq_None_iff not_not simp_thms)
    then obtain r where r: "base i = Some r" by blast
    from map_of_SomeD [OF r [unfolded base_def]] have "sr_id r = i" by (auto simp: hit_result_def)
    with r show ?thesis by simp
  qed
  have "map sr_id l = map (\<lambda>h. id_of_hit (hit_id h)) hs"
  proof (cases "hs = []")
    case True
    with assms show ?thesis by (simp add: build_article_results_def hs_def ret_def)
  next
    case False
    let ?entry = "\<lambda>rows i. case row_of art_id i rows of None \<Rightarrow> the (base i) | Some a \<Rightarrow> complete_result a (the (base i))"
    from assms False have "bnd (attempt (get_articles_by_ids (map (\<lambda>h. id_of_hit (hit_id h)) hs)))
        (\<lambda>r. ret (map (?entry (case r of Inl _ \<Rightarrow> [] | Inr l \<Rightarrow> l)) (map (\<lambda>h. id_of_hit (hit_id h)) hs))) s = (Inr l, t)"
      unfolding build_article_results_def by (simp only: article_results.case Let_def hs_def base_def map_is_Nil_conv if_False)
    then obtain rows where l: "l = map (?entry rows) (map (\<lambda>h. id_of_hit (hit_id h)) hs)"
      by (elim bnd_InrE) (simp only: ret_eq, blast)
    have "sr_id (?entry rows i) = i" if "i \<in> (\<lambda>h. id_of_hit (hit_id h)) ` set hs" for i
      using base_id [OF that] by (simp add: complete_result_def split: option.split)
    then show ?thesis unfolding l map_map by (intro map_cong) simp_all
  qed
  also have "\<dots> = filter (\<lambda>i. i \<noteq> 0) (map (\<lambda>h. id_of_hit (hit_id h)) hits)"
    by (simp add: hs_def filter_map o_def)
  finally show ?thesis .
qed

lemma find_articles_calm:
  assumes "calm s" and "es_on s" and "ds = es_find s (paged_query query page sz) (es_docs s)" and "ds \<noteq> []"
  shows "find_articles query page sz s = (Inr (Hits (map decode_hit ds)), s)"
proof -
  have "attempt (search_articles_paged query page sz) s = (Inr (Inr (map decode_hit ds)), s)"
    using assms(1-3) by (simp add: search_articles_paged_def bnd_def gets_def attempt_def io_nil calm_def)
  then show ?thesis
    using assms(4) by (cases ds) (simp_all add: find_articles_def bnd_Inr_run ret_def)
qed

text \<open>C33: what is found by the engine is answered with the ids rounded to the 53 bits of a \<open>float64\<close>, because they are numbers
  in the index and are decoded without a type.
\<close>

theorem found_ids_are_rounded:
  assumes "calm s" and "es_on s" and "ds = es_find s (paged_query query page sz) (es_docs s)" and "ds \<noteq> []"
  shows "\<exists>r t. search_uncached query page sz s = (Inr r, t) \<and>
     map sr_id (gr_articles r) = filter (\<lambda>i. i \<noteq> 0) (map (\<lambda>p. of_nat (float64_nat (unat (sp_id p)))) ds)"
proof -
  obtain r t where run: "search_uncached query page sz s = (Inr r, t)"
    using total_search_uncached unfolding total_def by blast
  have users: "attempt (search_users_by_name_or_tel query 10) s = (Inr (fst (search_users_by_name_or_tel query 10 s)), s)"
    using assms(1) by (simp add: search_users_by_name_or_tel_def attempt_def io_nil calm_def gets_def Let_def)
  obtain l l1 l2 s1 s2 s3 where steps: "build_article_results (Hits (map decode_hit ds)) s = (Inr l, s1)"
      "enrich_author_names l s1 = (Inr l1, s2)" "enrich_comment_counts l1 s2 = (Inr l2, s3)" "gr_articles r = l2"
    using run users find_articles_calm [OF assms] assms(2)
    unfolding search_uncached_def Let_def
    by (auto simp: bnd_Inr_run gets_run ret_eq elim!: bnd_InrE)
  have "map sr_id (gr_articles r) = map sr_id l"
    using ids_author_names [OF steps(2)] ids_comment_counts [OF steps(3)] steps(4) by simp
  also have "\<dots> = filter (\<lambda>i. i \<noteq> 0) (map (\<lambda>p. of_nat (float64_nat (unat (sp_id p)))) ds)"
    using ids_build_hits [OF steps(1)] by (simp add: o_def decode_hit_def id_of_hit_def)
  finally show ?thesis using run by blast
qed

definition search_demo :: search_st where
  "search_demo = social_st.extend social_demo (search_st.fields True
     [(1900000000000000001, \<lparr>sp_id = 1900000000000000001, sp_title = ''Elden Ring'', sp_author = ''ann'', sp_tags = [],
        sp_summary = ''a guide'', sp_cover = []\<rparr>)] (\<lambda>_ docs. map snd docs) True [] (\<lambda>q. q) (\<lambda>q. q))"

lemma found_ids_are_rounded_witness:
  "\<exists>r t. search_uncached ''ring'' 1 20 search_demo = (Inr r, t) \<and> map sr_id (gr_articles r) = [1900000000000000000]"
proof -
  let ?p = "\<lparr>sp_id = 1900000000000000001, sp_title = ''Elden Ring'', sp_author = ''ann'', sp_tags = [], sp_summary = ''a guide'', sp_cover = []\<rparr>"
  have log: "floorlog 2 (1900000000000000001 :: nat) = 61" by (simp add: compute_floorlog)
  have "float64_nat 1900000000000000001 = 1900000000000000000" unfolding float64_nat_def log by (simp add: Let_def)
  moreover have "unat (1900000000000000001 :: u64) = 1900000000000000001" by simp
  ultimately show ?thesis
    using found_ids_are_rounded [of search_demo "[?p]" "''ring''" 1 20]
    by (simp add: search_demo_def search_st.defs calm_def social_demo_simps)
qed

end
