(* ===== verification/Channel.thy ===== *)
theory Channel
  imports AgentChat
begin

text \<open>
  The assistant in the messengers, src/handler/channel: normalised messages (types.go), what is answered
  (policy.go), the splitting of long texts (textutil.go), the store of identities, sessions and processed events
  src/database/channel_redis.go, and the hub (hub.go), which takes a webhook, drops repeated events, and starts the
  turn of the assistant beside the answer. The started goroutines are jobs of the state, run in any order.
\<close>

section \<open>Messages\<close>

record inbound =
  ib_channel :: string
  ib_tenant :: string
  ib_event :: string
  ib_user :: string
  ib_chat :: string
  ib_text :: string
  ib_kind :: string
  ib_group :: bool
  ib_mention :: bool
  ib_meta :: "(string \<times> string) list"

record outbound =
  ob_channel :: string
  ob_tenant :: string
  ob_text :: string
  ob_meta :: "(string \<times> string) list"

text \<open>A missing header is the empty text, a missing query parameter the empty list.\<close>

record webhook_input =
  wi_body :: string
  wi_header :: "string \<Rightarrow> string"
  wi_method :: string
  wi_query :: "string \<Rightarrow> string list"

text \<open>The only body that an adapter answers with is a challenge.\<close>

record webhook_result =
  wr_status :: int
  wr_body :: "string option"
  wr_plain :: string
  wr_async :: "inbound option"

abbreviation webhook_status :: "int \<Rightarrow> webhook_result" where
  "webhook_status n \<equiv> \<lparr>wr_status = n, wr_body = None, wr_plain = [], wr_async = None\<rparr>"

section \<open>What is answered\<close>

definition txt_agent_busy :: string where
  "txt_agent_busy = utf8 [230, 156, 141, 229, 138, 161, 231, 185, 129, 229, 191, 153, 239, 188, 140, 232, 175, 183, 231,
     168, 141, 229, 144, 142, 229, 134, 141, 232, 175, 149, 227, 128, 130]"

definition txt_session_failed :: string where
  "txt_session_failed = utf8 [228, 188, 154, 232, 175, 157, 229, 136, 157, 229, 167, 139, 229, 140, 150, 229, 164, 177, 232,
     180, 165, 239, 188, 140, 232, 175, 183, 231, 168, 141, 229, 144, 142, 229, 134, 141, 232, 175, 149,
     227, 128, 130]"

definition txt_agent_down :: string where
  "txt_agent_down = utf8 [229, 138, 169, 230, 137, 139, 230, 154, 130, 230, 151, 182, 228, 184, 141, 229, 143, 175, 231,
     148, 168, 239, 188, 140, 232, 175, 183, 231, 168, 141, 229, 144, 142, 229, 134, 141, 232, 175, 149,
     227, 128, 130]"

definition txt_no_reply :: string where
  "txt_no_reply = utf8 [230, 138, 177, 230, 173, 137, 239, 188, 140, 232, 191, 153, 230, 172, 161, 230, 178, 161, 230,
     156, 137, 231, 148, 159, 230, 136, 144, 230, 156, 137, 230, 149, 136, 229, 155, 158, 229, 164, 141,
     239, 188, 140, 232, 175, 183, 230, 141, 162, 228, 184, 170, 232, 175, 180, 230, 179, 149, 229, 134,
     141, 232, 175, 149, 228, 184, 128, 230, 172, 161, 227, 128, 130]"

definition txt_text_only :: string where
  "txt_text_only = utf8 [230, 154, 130, 228, 187, 133, 230, 148, 175, 230, 140, 129, 230, 150, 135, 229, 173, 151, 230,
     182, 136, 230, 129, 175, 239, 188, 140, 232, 175, 183, 231, 155, 180, 230, 142, 165, 229, 143, 145,
     233, 128, 129, 230, 150, 135, 230, 156, 172, 227, 128, 130]"

definition txt_empty_reply :: string where
  "txt_empty_reply = utf8 [239, 188, 136, 230, 154, 130, 230, 151, 160, 229, 155, 158, 229, 164, 141, 229, 134, 133, 229,
     174, 185, 239, 188, 137]"

definition should_process :: "inbound \<Rightarrow> bool" where
  "should_process m \<longleftrightarrow> \<not> (ib_group m \<and> \<not> ib_mention m) \<and> ib_kind m = ''text'' \<and> trim_space (ib_text m) \<noteq> []"

definition unsupported_hint :: "inbound \<Rightarrow> string" where
  "unsupported_hint m = (if ib_kind m \<noteq> ''text'' then txt_text_only else [])"

definition outbound_from_inbound :: "inbound \<Rightarrow> string \<Rightarrow> outbound" where
  "outbound_from_inbound m text = \<lparr>ob_channel = ib_channel m, ob_tenant = ib_tenant m, ob_text = text, ob_meta = ib_meta m\<rparr>"

text \<open>The pieces of at most \<open>n\<close> runes; the bytes of a text that is not split are left alone.\<close>

function rune_chunks :: "nat \<Rightarrow> string list \<Rightarrow> string list" where
  "rune_chunks n rs = (if rs = [] \<or> n = 0 then [] else concat (map rune_text (take n rs)) # rune_chunks n (drop n rs))"
  by auto
termination
  by (relation "measure (\<lambda>(_, rs). length rs)") auto

declare rune_chunks.simps [simp del]

definition split_text_runes :: "string \<Rightarrow> int \<Rightarrow> string list" where
  "split_text_runes s n = (if n \<le> 0 then [s] else let rs = runes s in
     if int (length rs) \<le> n then [s] else rune_chunks (nat n) rs)"

section \<open>State\<close>

text \<open>A goroutine that was started: the adapter's name with the message to send or to process.\<close>

datatype channel_job = SendJob string outbound | ProcessJob string inbound

record channel_st = chat_st +
  ch_on :: bool
  ch_keys :: "(string \<times> string) list"
  ch_uid_seq :: int
  ch_jobs :: "channel_job list"

text \<open>An adapter: a panic of its webhook is \<open>Inl GoPanic\<close>; a result can come with an error.\<close>

record 's adapter =
  ad_name :: string
  ad_enabled :: bool
  ad_webhook :: "int \<Rightarrow> webhook_input \<Rightarrow> err + (webhook_result \<times> err option)"
  ad_send :: "outbound \<Rightarrow> ('s, unit) op"

section \<open>The store\<close>

definition channel_key_prefix :: string where "channel_key_prefix = ''goblog:channel:''"

definition channel_synthetic_uid_base :: u64 where "channel_synthetic_uid_base = 9000000000000000000"

definition channel_identity_key :: "string \<Rightarrow> string \<Rightarrow> string \<Rightarrow> string" where
  "channel_identity_key c t u = channel_key_prefix @ ''id:'' @ c @ '':'' @ t @ '':'' @ u"

definition channel_session_key :: "string \<Rightarrow> string \<Rightarrow> string \<Rightarrow> string" where
  "channel_session_key c t k = channel_key_prefix @ ''sess:'' @ c @ '':'' @ t @ '':'' @ k"

definition channel_dedup_key :: "string \<Rightarrow> string \<Rightarrow> string" where
  "channel_dedup_key c e = channel_key_prefix @ ''dedup:'' @ c @ '':'' @ e"

definition channel_get :: "string \<Rightarrow> ('r channel_st_scheme, string option) op" where
  "channel_get k = io (gets (\<lambda>s. map_of (ch_keys s) k))"

definition channel_set :: "string \<Rightarrow> string \<Rightarrow> ('r channel_st_scheme, unit) op" where
  "channel_set k v = io (modify (\<lambda>s. s\<lparr>ch_keys := AList.update k v (ch_keys s)\<rparr>))"

definition channel_setnx :: "string \<Rightarrow> string \<Rightarrow> ('r channel_st_scheme, bool) op" where
  "channel_setnx k v = io (\<lambda>s. case map_of (ch_keys s) k of
       None \<Rightarrow> (Inr True, s\<lparr>ch_keys := AList.update k v (ch_keys s)\<rparr>) | Some _ \<Rightarrow> (Inr False, s))"

text \<open>\<open>INCR\<close> refuses to overflow.\<close>

definition channel_incr_uid :: "('r channel_st_scheme, int) op" where
  "channel_incr_uid = io (\<lambda>s. if i64_ok (ch_uid_seq s + 1) then (Inr (ch_uid_seq s + 1), s\<lparr>ch_uid_seq := ch_uid_seq s + 1\<rparr>)
     else (Inl IOError, s))"

text \<open>An identity key expires after a year, a session after ninety days, an event after two.\<close>

definition channel_expire :: "string \<Rightarrow> 'r channel_st_scheme \<Rightarrow> 'r channel_st_scheme" where
  "channel_expire k s = s\<lparr>ch_keys := AList.delete k (ch_keys s)\<rparr>"

definition known_uid :: "string \<Rightarrow> ('r channel_st_scheme, u64 option) op" where
  "known_uid key = bnd (attempt (channel_get key)) (\<lambda>r. ret (case r of
       Inr (Some v) \<Rightarrow> (case parse_uint v of Some n \<Rightarrow> if n > 0 then Some n else None | None \<Rightarrow> None)
     | _ \<Rightarrow> None))"

definition allocate_uid :: "string \<Rightarrow> ('r channel_st_scheme, u64) op" where
  "allocate_uid key = bnd channel_incr_uid (\<lambda>seq.
     let uid = channel_synthetic_uid_base + of_int seq in
     bnd (channel_set key (show_u64 uid)) (\<lambda>_. ret uid))"

definition get_or_create_synthetic_user_id :: "string \<Rightarrow> string \<Rightarrow> string \<Rightarrow> ('r channel_st_scheme, u64) op" where
  "get_or_create_synthetic_user_id c t u = bnd (gets ch_on) (\<lambda>on.
     if \<not> on then throw (PlainError ''channel store unavailable'') else
     let c = trim_space c; t = trim_space t; u = trim_space u in
     if c = [] \<or> t = [] \<or> u = [] then throw (PlainError ''invalid channel identity'') else
     let key = channel_identity_key c t u in
     bnd (known_uid key) (\<lambda>r. case r of Some n \<Rightarrow> ret n | None \<Rightarrow> allocate_uid key))"

definition known_session :: "u64 \<Rightarrow> string \<Rightarrow> ('r channel_st_scheme, string option) op" where
  "known_session uid key = bnd (attempt (channel_get key)) (\<lambda>r. case r of
       Inr (Some sid) \<Rightarrow> (let sid = trim_space sid in
         if sid = [] then ret None else
         bnd (session_exists uid sid) (\<lambda>there. ret (if there then Some sid else None)))
     | _ \<Rightarrow> ret None)"

text \<open>A created session without an id comes back with no error; \<open>CreateSession\<close> never returns one.\<close>

definition get_or_create_chat_session_id ::
  "string \<Rightarrow> string \<Rightarrow> u64 \<Rightarrow> string \<Rightarrow> ('r channel_st_scheme, string) op" where
  "get_or_create_chat_session_id c t uid k = bnd (gets (\<lambda>s. ch_on s \<and> chat_on s)) (\<lambda>on.
     if \<not> on \<or> uid = 0 then throw (PlainError ''invalid channel session args'') else
     let c = trim_space c; t = trim_space t; k = trim_space k in
     if c = [] \<or> t = [] \<or> k = [] then throw (PlainError ''invalid channel chat key'') else
     let key = channel_session_key c t k in
     bnd (known_session uid key) (\<lambda>r. case r of Some sid \<Rightarrow> ret sid | None \<Rightarrow>
     bnd (create_session uid) (\<lambda>sid. if sid = [] then ret [] else
     bnd (ignore (channel_set key sid)) (\<lambda>_. ret sid))))"

definition mark_event_processed :: "string \<Rightarrow> string \<Rightarrow> ('r channel_st_scheme, bool) op" where
  "mark_event_processed c e = bnd (gets ch_on) (\<lambda>on.
     let c = trim_space c; e = trim_space e in
     if \<not> on \<or> c = [] \<or> e = [] then ret True else channel_setnx (channel_dedup_key c e) ''1'')"

section \<open>The hub\<close>

type_synonym 's hub = "(string \<times> 's adapter) list"

definition register_adapter :: "'s adapter \<Rightarrow> 's hub \<Rightarrow> 's hub" where
  "register_adapter a h = (let name = trim_space (ad_name a) in
     if \<not> ad_enabled a \<or> name = [] then h else AList.update name a h)"

definition hub_adapter :: "'s hub \<Rightarrow> string \<Rightarrow> 's adapter option" where
  "hub_adapter h name = map_of h (trim_space name)"

text \<open>The answers: an error, a JSON body (\<open>None\<close> is \<open>null\<close>), a plain text, a bare status.\<close>

datatype webhook_answer = AnswerError int | AnswerJson int "string option" | AnswerText int string | AnswerStatus int

definition spawn :: "channel_job \<Rightarrow> ('r channel_st_scheme, unit) op" where
  "spawn j = modify (\<lambda>s. s\<lparr>ch_jobs := ch_jobs s @ [j]\<rparr>)"

definition first_delivery :: "inbound \<Rightarrow> ('r channel_st_scheme, bool) op" where
  "first_delivery m = bnd (gets ch_on) (\<lambda>on. if \<not> on \<or> ib_event m = [] then ret True else
     bnd (attempt (mark_event_processed (ib_channel m) (ib_event m))) (\<lambda>r. ret (case r of Inl _ \<Rightarrow> True | Inr b \<Rightarrow> b)))"

definition plain_answer :: "webhook_result \<Rightarrow> webhook_answer" where
  "plain_answer res = (if wr_plain res \<noteq> [] then AnswerText (wr_status res) (wr_plain res)
     else if wr_body res \<noteq> None then AnswerJson (wr_status res) (wr_body res)
     else AnswerStatus (wr_status res))"

definition answer_webhook :: "string \<Rightarrow> webhook_result \<Rightarrow> ('r channel_st_scheme, webhook_answer) op" where
  "answer_webhook name res =
     (let res = (if wr_status res \<le> 0 then res\<lparr>wr_status := 200\<rparr> else res) in
      case wr_async res of None \<Rightarrow> ret (plain_answer res)
      | Some m \<Rightarrow>
        let m = (if ib_channel m = [] then m\<lparr>ib_channel := name\<rparr> else m) in
        bnd (first_delivery m) (\<lambda>first.
        if \<not> first then ret (AnswerJson (wr_status res) (wr_body res)) else
        if \<not> should_process m then
          bnd (guarded (unsupported_hint m \<noteq> []) (spawn (SendJob name (outbound_from_inbound m (unsupported_hint m))))) (\<lambda>_.
          ret (if wr_body res \<noteq> None then AnswerJson (wr_status res) (wr_body res) else AnswerStatus (wr_status res)))
        else bnd (spawn (ProcessJob name m)) (\<lambda>_. ret (plain_answer res))))"

text \<open>\<open>None\<close> for a body that could not be read; a panic of the adapter is the framework's answer 500.\<close>

definition handle_webhook ::
  "('r channel_st_scheme) hub \<Rightarrow> string \<Rightarrow> webhook_input option \<Rightarrow> ('r channel_st_scheme, webhook_answer) op" where
  "handle_webhook h raw_name input =
     (let name = trim_space raw_name in
      case hub_adapter h name of None \<Rightarrow> ret (AnswerError 404)
      | Some a \<Rightarrow>
        bnd (gets agent_url) (\<lambda>url. if \<not> url then ret (AnswerError 503) else
        case input of None \<Rightarrow> ret (AnswerError 400)
        | Some i \<Rightarrow>
          if wi_body i = [] \<and> wi_method i \<noteq> ''GET'' then ret (AnswerError 400) else
          bnd (gets clock_now) (\<lambda>now.
          case ad_webhook a now i of
            Inl e \<Rightarrow> throw e
          | Inr (res, Some e) \<Rightarrow> ret (AnswerError (if wr_status res > 0 then wr_status res else 400))
          | Inr (res, None) \<Rightarrow> answer_webhook name res)))"

definition send_async :: "string \<Rightarrow> outbound \<Rightarrow> ('r channel_st_scheme, unit) op" where
  "send_async name out = spawn (SendJob name out)"

definition process_turn :: "agent_env \<Rightarrow> string \<Rightarrow> string \<Rightarrow> inbound \<Rightarrow> ('r channel_st_scheme, unit) op" where
  "process_turn en uuid name m =
     bnd (attempt (get_or_create_synthetic_user_id (ib_channel m) (ib_tenant m) (ib_user m))) (\<lambda>u. case u of
       Inl _ \<Rightarrow> send_async name (outbound_from_inbound m txt_session_failed)
     | Inr uid \<Rightarrow>
     bnd (attempt (get_or_create_chat_session_id (ib_channel m) (ib_tenant m) uid (ib_chat m))) (\<lambda>t. case t of
       Inl _ \<Rightarrow> send_async name (outbound_from_inbound m txt_session_failed)
     | Inr sid \<Rightarrow>
     bnd (attempt (run_agent_chat en uid (ib_text m) [] sid (ib_channel m @ ''-'' @ uuid) None)) (\<lambda>r. case r of
       Inl _ \<Rightarrow> send_async name (outbound_from_inbound m txt_agent_down)
     | Inr res \<Rightarrow>
       let reply = trim_space (rr_assistant res) in
       send_async name (outbound_from_inbound m (if reply = [] \<or> rr_error res then txt_no_reply else reply)))))"

definition process_inbound :: "agent_env \<Rightarrow> string \<Rightarrow> string \<Rightarrow> inbound \<Rightarrow> ('r channel_st_scheme, unit) op" where
  "process_inbound en uuid name m = bnd (gets (\<lambda>s. ch_on s \<and> chat_on s)) (\<lambda>on. if \<not> on then ret () else
     bnd try_acquire_agent_slot (\<lambda>free.
     if \<not> free then send_async name (outbound_from_inbound m txt_agent_busy)
     else deferred (process_turn en uuid name m) release_agent_slot))"

text \<open>A job that is run; a failed sending is logged. Nothing recovers a panic here: it ends the process.\<close>

definition run_job :: "agent_env \<Rightarrow> ('r channel_st_scheme) hub \<Rightarrow> string \<Rightarrow> channel_job \<Rightarrow> ('r channel_st_scheme, unit) op" where
  "run_job en h uuid j = (case j of
       SendJob name out \<Rightarrow> (case map_of h name of None \<Rightarrow> ret () | Some a \<Rightarrow> ignore (ad_send a out))
     | ProcessJob name m \<Rightarrow> process_inbound en uuid name m)"

end
