(* ===== verification/ChannelCrypt.thy ===== *)
theory ChannelCrypt
  imports Channel JsonDecode
begin

text \<open>
  Signatures and encryption of the messengers' callbacks: what the code uses of \<open>encoding/base64\<close>,
  \<open>encoding/hex\<close> and \<open>encoding/binary\<close>, src/handler/channel/wecom/crypt.go, feishu/crypt.go, slack/verify.go and
  dingtalk/verify.go. The hash functions and the block cipher are parameters; a Go byte slice is a string.
\<close>

section \<open>Bytes\<close>

abbreviation byte_of :: "nat \<Rightarrow> char" where "byte_of n \<equiv> char_of n"

abbreviation code_of :: "char \<Rightarrow> nat" where "code_of c \<equiv> of_char c"

text \<open>\<open>binary.BigEndian.Uint32\<close> of the first four bytes.\<close>

definition be_uint32 :: "string \<Rightarrow> nat" where
  "be_uint32 bs = foldl (\<lambda>n c. 256 * n + code_of c) 0 (take 4 bs)"

definition hex_char :: "nat \<Rightarrow> char" where
  "hex_char d = (if d < 10 then byte_of (48 + d) else byte_of (87 + d))"

text \<open>\<open>hex.EncodeToString\<close> and \<open>%x\<close>.\<close>

definition hex_encode :: "string \<Rightarrow> string" where
  "hex_encode bs = concat (map (\<lambda>c. [hex_char (code_of c div 16), hex_char (code_of c mod 16)]) bs)"

text \<open>\<open>strings.EqualFold\<close> where one side has no rune that folds beyond ASCII except K and S.\<close>

definition equal_fold :: "string \<Rightarrow> string \<Rightarrow> bool" where
  "equal_fold a b \<longleftrightarrow> fold_name a = fold_name b"

section \<open>Base64\<close>

definition b64_char :: "nat \<Rightarrow> char" where
  "b64_char n = (if n < 26 then byte_of (65 + n) else if n < 52 then byte_of (71 + n) else if n < 62 then byte_of (n - 4)
     else if n = 62 then CHR ''+'' else CHR ''/'')"

definition b64_val :: "char \<Rightarrow> nat option" where
  "b64_val c = (let n = code_of c in
     if 65 \<le> n \<and> n \<le> 90 then Some (n - 65) else if 97 \<le> n \<and> n \<le> 122 then Some (n - 71)
     else if 48 \<le> n \<and> n \<le> 57 then Some (n + 4) else if n = 43 then Some 62 else if n = 47 then Some 63 else None)"

fun b64_encode :: "string \<Rightarrow> string" where
  "b64_encode [] = []"
| "b64_encode [a] = [b64_char (code_of a div 4), b64_char (code_of a mod 4 * 16), CHR ''='', CHR ''='']"
| "b64_encode [a, b] = [b64_char (code_of a div 4), b64_char (code_of a mod 4 * 16 + code_of b div 16),
     b64_char (code_of b mod 16 * 4), CHR ''='']"
| "b64_encode (a # b # c # s) = b64_char (code_of a div 4) # b64_char (code_of a mod 4 * 16 + code_of b div 16) #
     b64_char (code_of b mod 16 * 4 + code_of c div 64) # b64_char (code_of c mod 64) # b64_encode s"

text \<open>The bytes of a group, from the numbers of its characters.\<close>

definition b64_one :: "nat \<Rightarrow> nat \<Rightarrow> char" where "b64_one a b = byte_of ((a * 4 + b div 16) mod 256)"
definition b64_two :: "nat \<Rightarrow> nat \<Rightarrow> char" where "b64_two b c = byte_of ((b * 16 + c div 4) mod 256)"
definition b64_three :: "nat \<Rightarrow> nat \<Rightarrow> char" where "b64_three c d = byte_of ((c * 64 + d) mod 256)"

fun b64_groups :: "string \<Rightarrow> string option" where
  "b64_groups [] = Some []"
| "b64_groups (a # b # c # d # s) = (case (b64_val a, b64_val b) of
       (Some a, Some b) \<Rightarrow>
         if c = CHR ''='' \<and> d = CHR ''='' then (if s = [] then Some [b64_one a b] else None)
         else (case b64_val c of None \<Rightarrow> None
           | Some c \<Rightarrow> if d = CHR ''='' then (if s = [] then Some [b64_one a b, b64_two b c] else None)
             else (case b64_val d of None \<Rightarrow> None
               | Some d \<Rightarrow> map_option (\<lambda>r. b64_one a b # b64_two b c # b64_three c d # r) (b64_groups s)))
     | _ \<Rightarrow> None)"
| "b64_groups _ = None"

text \<open>\<open>base64.StdEncoding.DecodeString\<close>: line breaks are skipped, the padding is required.\<close>

definition b64_decode :: "string \<Rightarrow> string option" where
  "b64_decode s = b64_groups (filter (\<lambda>c. c \<noteq> CHR 10 \<and> c \<noteq> CHR 13) s)"

section \<open>Padding\<close>

definition aes_block_size :: nat where "aes_block_size = 16"

definition last_byte :: "string \<Rightarrow> nat" where
  "last_byte data = code_of (last data)"

text \<open>\<open>pkcs7Unpad\<close> of WeCom, which wants at most a block of the cipher.\<close>

definition wecom_unpad :: "string \<Rightarrow> err + string" where
  "wecom_unpad data = (if data = [] then Inl (PlainError ''empty data'') else let pad = last_byte data in
     if pad = 0 \<or> pad > aes_block_size \<or> pad > length data then Inl (PlainError ''invalid pkcs7 padding'')
     else if \<not> list_all (\<lambda>c. code_of c = pad) (drop (length data - pad) data) then Inl (PlainError ''invalid pkcs7 padding'')
     else Inr (take (length data - pad) data))"

text \<open>\<open>pkcs7Unpad\<close> of Feishu.\<close>

definition feishu_unpad :: "string \<Rightarrow> err + string" where
  "feishu_unpad b = (if b = [] then Inl (PlainError ''empty plaintext'') else let n = last_byte b in
     if n = 0 \<or> n > length b then Inl (PlainError ''invalid padding'')
     else if \<not> list_all (\<lambda>i. code_of (b ! (length b - 1 - i)) = n) [0..<n] then Inl (PlainError ''invalid padding'')
     else Inr (take (length b - n) b))"

section \<open>The cryptographic functions\<close>

text \<open>\<open>cx_cbc key iv data\<close> decrypts whole blocks; \<open>cx_hmac key data\<close>.\<close>

record crypto =
  cx_cbc :: "string \<Rightarrow> string \<Rightarrow> string \<Rightarrow> string"
  cx_sha1 :: "string \<Rightarrow> string"
  cx_sha256 :: "string \<Rightarrow> string"
  cx_hmac :: "string \<Rightarrow> string \<Rightarrow> string"

section \<open>WeCom\<close>

record msg_crypt =
  mc_token :: string
  mc_key :: string
  mc_corp :: string

definition new_msg_crypt :: "string \<Rightarrow> string \<Rightarrow> string \<Rightarrow> msg_crypt option" where
  "new_msg_crypt token aes_key corp = (let token = trim_space token; corp = trim_space corp in
     case b64_decode (trim_space aes_key @ ''='') of None \<Rightarrow> None
     | Some key \<Rightarrow> if length key \<noteq> 32 then None else if token = [] \<or> corp = [] then None
       else Some \<lparr>mc_token = token, mc_key = key, mc_corp = corp\<rparr>)"

text \<open>Strings are compared by their bytes.\<close>

fun text_le :: "string \<Rightarrow> string \<Rightarrow> bool" where
  "text_le [] _ = True"
| "text_le (a # as) [] = False"
| "text_le (a # as) (b # bs) = (code_of a < code_of b \<or> code_of a = code_of b \<and> text_le as bs)"

fun text_insert :: "string \<Rightarrow> string list \<Rightarrow> string list" where
  "text_insert x [] = [x]"
| "text_insert x (y # ys) = (if text_le x y then x # y # ys else y # text_insert x ys)"

definition sort_texts :: "string list \<Rightarrow> string list" where
  "sort_texts xs = foldr text_insert xs []"

definition sha1_sign :: "crypto \<Rightarrow> string list \<Rightarrow> string" where
  "sha1_sign cx parts = hex_encode (cx_sha1 cx (concat (sort_texts parts)))"

definition wecom_plain :: "msg_crypt \<Rightarrow> string \<Rightarrow> err + string" where
  "wecom_plain c plain = (if length plain < 20 then Inl (PlainError ''plain too short'') else
     let stop = 20 + be_uint32 (drop 16 plain) in
     if stop > length plain then Inl (PlainError ''invalid msg length'')
     else if drop stop plain \<noteq> mc_corp c then Inl (PlainError ''wecom receiver id mismatch'')
     else Inr (drop 20 (take stop plain)))"

definition wecom_decrypt :: "crypto \<Rightarrow> msg_crypt \<Rightarrow> string \<Rightarrow> err + string" where
  "wecom_decrypt cx c cipher = (case b64_decode cipher of None \<Rightarrow> Inl (PlainError ''illegal base64 data'')
     | Some data \<Rightarrow> if length data mod aes_block_size \<noteq> 0 then Inl (PlainError ''invalid cipher block size'')
       else (case wecom_unpad (cx_cbc cx (mc_key c) (take aes_block_size (mc_key c)) data) of
           Inl e \<Rightarrow> Inl e | Inr plain \<Rightarrow> wecom_plain c plain))"

definition wecom_verify_url :: "crypto \<Rightarrow> msg_crypt \<Rightarrow> string \<Rightarrow> string \<Rightarrow> string \<Rightarrow> string \<Rightarrow> err + string" where
  "wecom_verify_url cx c sig ts nonce echo =
     (if sha1_sign cx [mc_token c, ts, nonce, echo] \<noteq> sig then Inl (PlainError ''invalid wecom signature'')
      else wecom_decrypt cx c echo)"

definition wecom_decrypt_post :: "crypto \<Rightarrow> msg_crypt \<Rightarrow> string \<Rightarrow> string \<Rightarrow> string \<Rightarrow> string \<Rightarrow> err + string" where
  "wecom_decrypt_post cx c sig ts nonce cipher =
     (if sha1_sign cx [mc_token c, ts, nonce, cipher] \<noteq> sig then Inl (PlainError ''invalid wecom signature'')
      else wecom_decrypt cx c cipher)"

section \<open>Feishu\<close>

text \<open>The cipher's mode panics on data that is not whole blocks; the code does not look.\<close>

definition feishu_decrypt_event_body :: "crypto \<Rightarrow> string \<Rightarrow> string \<Rightarrow> err + string" where
  "feishu_decrypt_event_body cx encrypt_key cipher =
     (let encrypt_key = trim_space encrypt_key; cipher = trim_space cipher in
      if encrypt_key = [] \<or> cipher = [] then Inl (PlainError ''empty encrypt payload'') else
      case b64_decode cipher of None \<Rightarrow> Inl (PlainError ''illegal base64 data'')
      | Some raw \<Rightarrow> if length raw < aes_block_size + 1 then Inl (PlainError ''cipher too short'') else
        let data = drop aes_block_size raw in
        if length data mod aes_block_size \<noteq> 0 then Inl GoPanic
        else feishu_unpad (cx_cbc cx (cx_sha256 cx encrypt_key) (take aes_block_size raw) data))"

definition feishu_verify_signature :: "crypto \<Rightarrow> string \<Rightarrow> string \<Rightarrow> string \<Rightarrow> string \<Rightarrow> string \<Rightarrow> bool" where
  "feishu_verify_signature cx ts nonce encrypt_key body signature =
     (let signature = trim_space signature in
      signature \<noteq> [] \<and> equal_fold (hex_encode (cx_sha256 cx (ts @ nonce @ encrypt_key @ body))) signature)"

section \<open>Slack and DingTalk\<close>

definition five_minutes :: int where "five_minutes = 300000000000"

text \<open>
  Times are nanoseconds since 1970. \<open>time.Unix\<close> keeps the seconds since the year 1 in 64 bits, which wrap; \<open>time.Since\<close> and
  \<open>time.Until\<close> saturate, far beyond the five minutes.
\<close>

definition time_unix :: "int \<Rightarrow> int" where
  "time_unix sec = (i64 (sec + 62135596800) - 62135596800) * 1000000000"

definition out_of_window :: "int \<Rightarrow> int \<Rightarrow> bool" where
  "out_of_window now t \<longleftrightarrow> now - t > five_minutes \<or> t - now > five_minutes"

definition slack_verify_request :: "crypto \<Rightarrow> int \<Rightarrow> (string \<Rightarrow> string) \<Rightarrow> string \<Rightarrow> string \<Rightarrow> err option" where
  "slack_verify_request cx now header secret body =
     (let secret = trim_space secret in
      if secret = [] then Some (PlainError ''slack signing secret not configured'') else
      let ts = trim_space (header ''X-Slack-Request-Timestamp''); sig = trim_space (header ''X-Slack-Signature'') in
      if ts = [] \<or> sig = [] then Some (PlainError ''missing slack signature headers'') else
      case atoi ts of (sec, fine) \<Rightarrow>
        if \<not> fine then Some (PlainError ''invalid slack timestamp'')
        else if out_of_window now (time_unix sec) then Some (PlainError ''slack timestamp out of range'')
        else if ''v0='' @ hex_encode (cx_hmac cx secret (''v0:'' @ ts @ '':'' @ body)) \<noteq> sig
          then Some (PlainError ''invalid slack signature'')
        else None)"

definition dingtalk_verify_request :: "crypto \<Rightarrow> int \<Rightarrow> (string \<Rightarrow> string) \<Rightarrow> string \<Rightarrow> string \<Rightarrow> err option" where
  "dingtalk_verify_request cx now header secret body =
     (let secret = trim_space secret in
      if secret = [] then None else
      let ts = trim_space (header ''timestamp''); sign = trim_space (header ''sign'') in
      if ts = [] \<or> sign = [] then Some (PlainError ''missing dingtalk timestamp/sign headers'') else
      case atoi ts of (ms, fine) \<Rightarrow>
        if \<not> fine then Some (PlainError ''invalid dingtalk timestamp'')
        else if out_of_window now (ms * 1000000) then Some (PlainError ''dingtalk timestamp out of range'')
        else if b64_encode (cx_hmac cx secret (ts @ [CHR 10] @ secret)) \<noteq> sign
          then Some (PlainError ''invalid dingtalk signature'')
        else None)"

end
