(* ===== verification/ChannelAdapters.thy ===== *)
theory ChannelAdapters
  imports ChannelCrypt
begin

text \<open>
  The four messengers under src/handler/channel: for each the parsing of its callbacks (parse.go), the webhook and
  the reply of its adapter (adapter.go), and its client of the platform's API (client.go). An HTTP exchange is a call
  that may fail; what the platform answers, its status and its body as JSON (\<open>None\<close> if it is not JSON), depends on
  all the requests so far. The XML and JSON parsers are parameters.
\<close>

section \<open>The platforms\<close>

datatype im_request =
    FeishuTokenRequest string string
  | FeishuSend string string string string
  | WecomTokenRequest string string
  | WecomSend string string int string
  | SlackPost string string string
  | DingtalkReply string string

record im_st = channel_st +
  im_log :: "im_request list"
  feishu_token :: "string \<times> int"
  wecom_token :: "string \<times> int"

type_synonym platform = "im_request list \<Rightarrow> int \<times> json option"

definition http_exchange :: "platform \<Rightarrow> im_request \<Rightarrow> ('r im_st_scheme, int \<times> json option) op" where
  "http_exchange serve rq = io (\<lambda>s. (Inr (serve (im_log s @ [rq])), s\<lparr>im_log := im_log s @ [rq]\<rparr>))"

text \<open>What the replies are decoded into.\<close>

record api_reply =
  ap_code :: int
  ap_msg :: string
  ap_token :: string
  ap_expire :: int
  ap_ok :: bool

abbreviation blank_reply :: api_reply where
  "blank_reply \<equiv> \<lparr>ap_code = 0, ap_msg = [], ap_token = [], ap_expire = 0, ap_ok = False\<rparr>"

definition d_feishu_token :: "api_reply decoder" where
  "d_feishu_token = d_struct [(''code'', at ap_code ap_code_update d_int), (''msg'', at ap_msg ap_msg_update d_string),
     (''tenant_access_token'', at ap_token ap_token_update d_string), (''expire'', at ap_expire ap_expire_update d_int)]"

definition d_feishu_send :: "api_reply decoder" where
  "d_feishu_send = d_struct [(''code'', at ap_code ap_code_update d_int), (''msg'', at ap_msg ap_msg_update d_string)]"

definition d_wecom_token :: "api_reply decoder" where
  "d_wecom_token = d_struct [(''errcode'', at ap_code ap_code_update d_int), (''errmsg'', at ap_msg ap_msg_update d_string),
     (''access_token'', at ap_token ap_token_update d_string), (''expires_in'', at ap_expire ap_expire_update d_int)]"

definition d_errcode :: "api_reply decoder" where
  "d_errcode = d_struct [(''errcode'', at ap_code ap_code_update d_int), (''errmsg'', at ap_msg ap_msg_update d_string)]"

definition d_slack_reply :: "api_reply decoder" where
  "d_slack_reply = d_struct [(''ok'', at ap_ok ap_ok_update d_bool), (''error'', at ap_msg ap_msg_update d_string)]"

text \<open>A token is used until a minute before it expires.\<close>

definition token_fresh :: "string \<times> int \<Rightarrow> int \<Rightarrow> bool" where
  "token_fresh t now \<longleftrightarrow> fst t \<noteq> [] \<and> now < snd t - 60000000000"

definition token_expiry :: "int \<Rightarrow> int \<Rightarrow> int" where
  "token_expiry now seconds = now + i64 ((if seconds \<le> 0 then 7200 else seconds) * 1000000000)"

definition reply_text :: "string \<Rightarrow> string" where
  "reply_text text = (let text = trim_space text in if text = [] then txt_empty_reply else text)"

section \<open>Feishu\<close>

record feishu_config =
  fc_app :: string
  fc_secret :: string
  fc_verification :: string
  fc_encrypt :: string

definition feishu_enabled :: "feishu_config \<Rightarrow> bool" where
  "feishu_enabled c \<longleftrightarrow> fc_app c \<noteq> [] \<and> fc_secret c \<noteq> []"

definition feishu_access_token :: "platform \<Rightarrow> feishu_config \<Rightarrow> ('r im_st_scheme, string) op" where
  "feishu_access_token serve c = bnd (gets feishu_token) (\<lambda>t. bnd (gets clock_now) (\<lambda>now.
     if token_fresh t now then ret (fst t) else
     bnd (http_exchange serve (FeishuTokenRequest (fc_app c) (fc_secret c))) (\<lambda>r.
     case unmarshal d_feishu_token (snd r) blank_reply of (out, fine) \<Rightarrow>
       if \<not> fine then throw InvalidData
       else if ap_code out \<noteq> 0 \<or> ap_token out = [] then throw (PlainError ''feishu token'')
       else bnd (modify (\<lambda>s. s\<lparr>feishu_token := (ap_token out, token_expiry now (ap_expire out))\<rparr>)) (\<lambda>_. ret (ap_token out)))))"

text \<open>The reply is decoded as far as it goes; its status is not looked at.\<close>

definition feishu_send_text_once ::
  "platform \<Rightarrow> feishu_config \<Rightarrow> string \<Rightarrow> string \<Rightarrow> string \<Rightarrow> ('r im_st_scheme, unit) op" where
  "feishu_send_text_once serve c receive_id id_type text = bnd (feishu_access_token serve c) (\<lambda>token.
     bnd (http_exchange serve (FeishuSend token receive_id id_type text)) (\<lambda>r.
     if ap_code (fst (unmarshal d_feishu_send (snd r) blank_reply)) \<noteq> 0 then throw (PlainError ''feishu send'') else ret ()))"

definition feishu_reply_text ::
  "platform \<Rightarrow> feishu_config \<Rightarrow> string \<Rightarrow> string \<Rightarrow> string \<Rightarrow> ('r im_st_scheme, unit) op" where
  "feishu_reply_text serve c receive_id id_type text =
     for_each (split_text_runes (reply_text text) 3800) (feishu_send_text_once serve c receive_id id_type)"

record feishu_message =
  fm_event :: string
  fm_id :: string
  fm_chat :: string
  fm_chat_type :: string
  fm_open :: string
  fm_type :: string
  fm_text :: string
  fm_mention :: bool

record feishu_envelope =
  fe_event :: string
  fe_event_type :: string
  fe_header_token :: string
  fe_message :: string
  fe_chat :: string
  fe_chat_type :: string
  fe_message_type :: string
  fe_content :: string
  fe_mentions :: "unit list"
  fe_open :: string
  fe_type :: string

text \<open>
  The nested structs are decoded field by field into one record. A mention is only counted, but its fields must be
  of their types; the fields that are decoded and not used have to be texts.
\<close>

definition d_unused :: "string decoder \<Rightarrow> 'a decoder" where
  "d_unused d j x = (x, snd (d j []))"

definition d_mention :: "unit decoder" where
  "d_mention = d_struct [(''name'', d_unused d_string), (''id'', d_struct [(''open_id'', d_unused d_string)]), (''key'', d_unused d_string)]"

definition d_feishu_envelope :: "feishu_envelope decoder" where
  "d_feishu_envelope = d_struct [(''schema'', d_unused d_string),
     (''header'', d_struct [(''event_id'', at fe_event fe_event_update d_string),
        (''event_type'', at fe_event_type fe_event_type_update d_string), (''token'', at fe_header_token fe_header_token_update d_string)]),
     (''event'', d_struct [
        (''message'', d_struct [(''message_id'', at fe_message fe_message_update d_string), (''chat_id'', at fe_chat fe_chat_update d_string),
           (''chat_type'', at fe_chat_type fe_chat_type_update d_string), (''message_type'', at fe_message_type fe_message_type_update d_string),
           (''content'', at fe_content fe_content_update d_string), (''mentions'', at fe_mentions fe_mentions_update (d_list () d_mention))]),
        (''sender'', d_struct [(''sender_id'', d_struct [(''open_id'', at fe_open fe_open_update d_string)])])]),
     (''challenge'', d_unused d_string), (''type'', at fe_type fe_type_update d_string), (''token'', d_unused d_string)]"

definition blank_feishu_envelope :: feishu_envelope where
  "blank_feishu_envelope = \<lparr>fe_event = [], fe_event_type = [], fe_header_token = [], fe_message = [], fe_chat = [],
     fe_chat_type = [], fe_message_type = [], fe_content = [], fe_mentions = [], fe_open = [], fe_type = []\<rparr>"

type_synonym json_parser = "string \<Rightarrow> json option"

text \<open>A struct of one text field.\<close>

definition text_field :: "string \<Rightarrow> string decoder" where
  "text_field name = d_struct [(name, d_string)]"

definition extract_text_content :: "json_parser \<Rightarrow> string \<Rightarrow> string" where
  "extract_text_content parse content = (let content = trim_space content in
     if content = [] then [] else case unmarshal (text_field ''text'') (parse content) [] of (t, fine) \<Rightarrow>
       if fine then trim_space t else content)"

text \<open>\<open>Inl\<close> is an error, \<open>None\<close> a body with no message in it.\<close>

definition feishu_parse_inbound :: "json_parser \<Rightarrow> string \<Rightarrow> string \<Rightarrow> err + feishu_message option" where
  "feishu_parse_inbound parse raw verification =
     (case unmarshal d_feishu_envelope (parse raw) blank_feishu_envelope of (env, fine) \<Rightarrow>
        if \<not> fine then Inl InvalidData
        else if fe_type env = ''url_verification'' then Inr None
        else if verification \<noteq> [] \<and> fe_header_token env \<noteq> [] \<and> fe_header_token env \<noteq> verification then Inr None
        else if fe_event_type env \<noteq> ''im.message.receive_v1'' then Inr None
        else if trim_space (fe_message env) = [] then Inr None
        else let open_id = trim_space (fe_open env) in
        if open_id = [] then Inr None
        else let m = \<lparr>fm_event = fe_event env, fm_id = fe_message env, fm_chat = fe_chat env, fm_chat_type = fe_chat_type env,
            fm_open = open_id, fm_type = fe_message_type env, fm_text = [], fm_mention = (fe_mentions env \<noteq> [])\<rparr> in
        if fe_message_type env \<noteq> ''text'' then Inr (Some m)
        else Inr (Some (m\<lparr>fm_text := extract_text_content parse (fe_content env)\<rparr>)))"

text \<open>\<open>json.Unmarshal\<close> of a member that may be missing (an empty raw message is no JSON).\<close>

definition member_text :: "(string \<times> json) list \<Rightarrow> string \<Rightarrow> string \<times> bool" where
  "member_text es k = unmarshal d_string (map_of (rev es) k) []"

definition feishu_parse_challenge :: "json_parser \<Rightarrow> string \<Rightarrow> feishu_config \<Rightarrow> string option" where
  "feishu_parse_challenge parse raw c = (case parse raw of
       Some (JObj es) \<Rightarrow> (case member_text es ''type'' of (typ, fine) \<Rightarrow>
         if \<not> fine \<or> typ \<noteq> ''url_verification'' then None
         else if fc_verification c \<noteq> [] \<and> fst (member_text es ''token'') \<noteq> fc_verification c then None
         else (case member_text es ''challenge'' of (ch, fine) \<Rightarrow> if \<not> fine \<or> ch = [] then None else Some ch))
     | _ \<Rightarrow> None)"

definition feishu_to_inbound :: "string \<Rightarrow> feishu_message \<Rightarrow> inbound" where
  "feishu_to_inbound app m = (let in_group = equal_fold (trim_space (fm_chat_type m)) ''group'' in
     \<lparr>ib_channel = ''feishu'', ib_tenant = app, ib_event = fm_event m, ib_user = fm_open m, ib_chat = fm_chat m,
      ib_text = fm_text m, ib_kind = fm_type m, ib_group = in_group, ib_mention = fm_mention m,
      ib_meta = [(''receive_id'', if in_group then fm_chat m else fm_open m),
        (''receive_id_type'', if in_group then ''chat_id'' else ''open_id'')]\<rparr>)"

text \<open>A body is checked against its signature when there is one, and decrypted when it is encrypted.\<close>

definition feishu_plain_body :: "crypto \<Rightarrow> json_parser \<Rightarrow> feishu_config \<Rightarrow> webhook_input \<Rightarrow> (webhook_result \<times> err) + (err + string)" where
  "feishu_plain_body cx parse c i = (if fc_encrypt c = [] then Inr (Inr (wi_body i)) else
     let sig = wi_header i ''X-Lark-Signature'' in
     if sig \<noteq> [] \<and> \<not> feishu_verify_signature cx (wi_header i ''X-Lark-Request-Timestamp'')
          (wi_header i ''X-Lark-Request-Nonce'') (fc_encrypt c) (wi_body i) sig
     then Inl (webhook_status 401, PlainError ''invalid signature'')
     else (case unmarshal (text_field ''encrypt'') (parse (wi_body i)) [] of (e, fine) \<Rightarrow>
       if fine \<and> trim_space e \<noteq> [] then Inr (feishu_decrypt_event_body cx (fc_encrypt c) e) else Inr (Inr (wi_body i))))"

definition feishu_handle_webhook ::
  "crypto \<Rightarrow> json_parser \<Rightarrow> feishu_config \<Rightarrow> webhook_input \<Rightarrow> err + (webhook_result \<times> err option)" where
  "feishu_handle_webhook cx parse c i = (case feishu_plain_body cx parse c i of
       Inl (res, e) \<Rightarrow> Inr (res, Some e)
     | Inr (Inl e) \<Rightarrow> if e = GoPanic then Inl GoPanic else Inr (webhook_status 0, Some e)
     | Inr (Inr raw) \<Rightarrow> (case feishu_parse_challenge parse raw c of
         Some ch \<Rightarrow> Inr ((webhook_status 200)\<lparr>wr_body := Some ch\<rparr>, None)
       | None \<Rightarrow> (case feishu_parse_inbound parse raw (fc_verification c) of
           Inr (Some m) \<Rightarrow> Inr ((webhook_status 200)\<lparr>wr_async := Some (feishu_to_inbound (fc_app c) m)\<rparr>, None)
         | _ \<Rightarrow> Inr (webhook_status 200, None))))"

definition meta_text :: "(string \<times> string) list \<Rightarrow> string \<Rightarrow> string" where
  "meta_text m k = (case map_of m k of None \<Rightarrow> [] | Some v \<Rightarrow> v)"

definition feishu_send :: "platform \<Rightarrow> feishu_config \<Rightarrow> outbound \<Rightarrow> ('r im_st_scheme, unit) op" where
  "feishu_send serve c out = (if \<not> feishu_enabled c then throw (PlainError ''feishu not configured'') else
     let id = meta_text (ob_meta out) ''receive_id''; typ = meta_text (ob_meta out) ''receive_id_type'' in
     if id = [] \<or> typ = [] then throw (PlainError ''missing receive_id in outbound meta'')
     else feishu_reply_text serve c id typ (ob_text out))"

section \<open>WeCom\<close>

record wecom_config =
  wc_corp :: string
  wc_agent :: string
  wc_secret :: string
  wc_token :: string
  wc_aes :: string

definition wecom_configured :: "wecom_config \<Rightarrow> bool" where
  "wecom_configured c \<longleftrightarrow> wc_corp c \<noteq> [] \<and> wc_secret c \<noteq> [] \<and> wc_token c \<noteq> [] \<and> wc_aes c \<noteq> [] \<and> wc_agent c \<noteq> []"

text \<open>The adapter's cipher, there is none when the configuration is not usable.\<close>

definition wecom_crypt :: "wecom_config \<Rightarrow> msg_crypt option" where
  "wecom_crypt c = (if \<not> wecom_configured c then None else new_msg_crypt (wc_token c) (wc_aes c) (wc_corp c))"

definition wecom_access_token :: "platform \<Rightarrow> wecom_config \<Rightarrow> ('r im_st_scheme, string) op" where
  "wecom_access_token serve c = bnd (gets wecom_token) (\<lambda>t. bnd (gets clock_now) (\<lambda>now.
     if token_fresh t now then ret (fst t) else
     bnd (http_exchange serve (WecomTokenRequest (wc_corp c) (wc_secret c))) (\<lambda>r.
     case unmarshal d_wecom_token (snd r) blank_reply of (out, fine) \<Rightarrow>
       if \<not> fine then throw InvalidData
       else if ap_code out \<noteq> 0 \<or> ap_token out = [] then throw (PlainError ''wecom token'')
       else bnd (modify (\<lambda>s. s\<lparr>wecom_token := (ap_token out, token_expiry now (ap_expire out))\<rparr>)) (\<lambda>_. ret (ap_token out)))))"

definition wecom_send_once :: "platform \<Rightarrow> wecom_config \<Rightarrow> string \<Rightarrow> int \<Rightarrow> string \<Rightarrow> ('r im_st_scheme, unit) op" where
  "wecom_send_once serve c user agent text = bnd (wecom_access_token serve c) (\<lambda>token.
     bnd (http_exchange serve (WecomSend token user agent text)) (\<lambda>r.
     if ap_code (fst (unmarshal d_errcode (snd r) blank_reply)) \<noteq> 0 then throw (PlainError ''wecom send'') else ret ()))"

definition wecom_send_text :: "platform \<Rightarrow> wecom_config \<Rightarrow> string \<Rightarrow> string \<Rightarrow> ('r im_st_scheme, unit) op" where
  "wecom_send_text serve c user text = (case atoi (trim_space (wc_agent c)) of (agent, fine) \<Rightarrow>
     if \<not> fine \<or> agent \<le> 0 then throw (PlainError ''invalid WECOM_AGENT_ID'')
     else for_each (split_text_runes (reply_text text) 1800) (wecom_send_once serve c user agent))"

text \<open>The fields of the decrypted XML, and the parsers of the envelope and of the message.\<close>

record wecom_text =
  wt_from :: string
  wt_type :: string
  wt_content :: string
  wt_msg_id :: int
  wt_agent :: int

record wecom_message =
  wm_event :: string
  wm_from :: string
  wm_text :: string
  wm_type :: string

record xml_parsers =
  px_encrypt :: "string \<Rightarrow> string option"
  px_text :: "string \<Rightarrow> wecom_text option"

definition wecom_parse_envelope :: "xml_parsers \<Rightarrow> string \<Rightarrow> string option" where
  "wecom_parse_envelope px raw = map_option trim_space (px_encrypt px raw)"

definition wecom_parse_text_message :: "xml_parsers \<Rightarrow> string \<Rightarrow> err + wecom_message option" where
  "wecom_parse_text_message px raw = (case px_text px raw of None \<Rightarrow> Inl InvalidData | Some msg \<Rightarrow>
     let typ = trim_space (wt_type msg); from_user = trim_space (wt_from msg); event = show_int (wt_msg_id msg) in
     if from_user = [] then Inr None
     else if typ \<noteq> ''text'' then
       (if wt_msg_id msg \<noteq> 0 then Inr (Some \<lparr>wm_event = event, wm_from = from_user, wm_text = [], wm_type = typ\<rparr>) else Inr None)
     else let text = trim_space (wt_content msg) in
       if text = [] then Inr None
       else Inr (Some \<lparr>wm_event = event, wm_from = from_user, wm_text = text, wm_type = ''text''\<rparr>))"

definition wecom_to_inbound :: "string \<Rightarrow> wecom_message \<Rightarrow> inbound" where
  "wecom_to_inbound corp m = \<lparr>ib_channel = ''wecom'', ib_tenant = corp, ib_event = wm_event m, ib_user = wm_from m,
     ib_chat = wm_from m, ib_text = wm_text m, ib_kind = wm_type m, ib_group = False, ib_mention = True,
     ib_meta = [(''touser'', wm_from m)]\<rparr>"

definition first_query :: "(string \<Rightarrow> string list) \<Rightarrow> string \<Rightarrow> string" where
  "first_query q k = (case q k of [] \<Rightarrow> [] | v # _ \<Rightarrow> trim_space v)"

definition wecom_handle_webhook ::
  "crypto \<Rightarrow> xml_parsers \<Rightarrow> wecom_config \<Rightarrow> webhook_input \<Rightarrow> webhook_result \<times> err option" where
  "wecom_handle_webhook cx px c i = (case wecom_crypt c of
       None \<Rightarrow> (webhook_status 503, Some (PlainError ''wecom not configured''))
     | Some mc \<Rightarrow>
       let sig = first_query (wi_query i) ''msg_signature''; ts = first_query (wi_query i) ''timestamp'';
           nonce = first_query (wi_query i) ''nonce'' in
       if equal_fold (wi_method i) ''GET'' then
         (let echo = first_query (wi_query i) ''echostr'' in
          if echo = [] then (webhook_status 400, Some (PlainError ''missing echostr'')) else
          case wecom_verify_url cx mc sig ts nonce echo of
            Inl e \<Rightarrow> (webhook_status 401, Some e)
          | Inr plain \<Rightarrow> ((webhook_status 200)\<lparr>wr_plain := plain\<rparr>, None))
       else (case wecom_parse_envelope px (wi_body i) of
           Some (e # enc) \<Rightarrow> (case wecom_decrypt_post cx mc sig ts nonce (e # enc) of
               Inl e \<Rightarrow> (webhook_status 401, Some e)
             | Inr plain \<Rightarrow> (case wecom_parse_text_message px plain of
                 Inl e \<Rightarrow> (webhook_status 400, Some e)
               | Inr None \<Rightarrow> ((webhook_status 200)\<lparr>wr_plain := ''success''\<rparr>, None)
               | Inr (Some m) \<Rightarrow> ((webhook_status 200)\<lparr>wr_plain := ''success'', wr_async := Some (wecom_to_inbound (wc_corp c) m)\<rparr>, None)))
         | _ \<Rightarrow> (webhook_status 400, Some (PlainError ''invalid wecom encrypted body''))))"

definition wecom_send :: "platform \<Rightarrow> wecom_config \<Rightarrow> outbound \<Rightarrow> ('r im_st_scheme, unit) op" where
  "wecom_send serve c out = (if wecom_crypt c = None then throw (PlainError ''wecom not configured'') else
     let user = trim_space (meta_text (ob_meta out) ''touser'') in
     if user = [] then throw (PlainError ''missing wecom touser in outbound meta'')
     else wecom_send_text serve c user (ob_text out))"

section \<open>Slack\<close>

record slack_config =
  sc_bot_token :: string
  sc_signing :: string
  sc_bot_user :: string

definition slack_enabled :: "slack_config \<Rightarrow> bool" where
  "slack_enabled c \<longleftrightarrow> sc_bot_token c \<noteq> [] \<and> sc_signing c \<noteq> []"

definition slack_post_once :: "platform \<Rightarrow> string \<Rightarrow> string \<Rightarrow> string \<Rightarrow> ('r im_st_scheme, unit) op" where
  "slack_post_once serve token channel text = bnd (http_exchange serve (SlackPost token channel text)) (\<lambda>r.
     if \<not> ap_ok (fst (unmarshal d_slack_reply (snd r) blank_reply)) then throw (PlainError ''slack chat.postMessage'') else ret ())"

definition slack_post_text :: "platform \<Rightarrow> string \<Rightarrow> string \<Rightarrow> string \<Rightarrow> ('r im_st_scheme, unit) op" where
  "slack_post_text serve token channel text =
     for_each (split_text_runes (reply_text text) 3800) (slack_post_once serve token channel)"

record slack_message =
  sl_event :: string
  sl_channel :: string
  sl_user :: string
  sl_text :: string
  sl_kind :: string
  sl_mention :: bool
  sl_group :: bool

record slack_envelope =
  se_type :: string
  se_challenge :: string
  se_event :: string
  se_ev_type :: string
  se_user :: string
  se_text :: string
  se_channel :: string
  se_channel_type :: string
  se_bot :: string
  se_subtype :: string

definition d_slack_envelope :: "slack_envelope decoder" where
  "d_slack_envelope = d_struct [(''type'', at se_type se_type_update d_string), (''challenge'', at se_challenge se_challenge_update d_string),
     (''event_id'', at se_event se_event_update d_string),
     (''event'', d_struct [(''type'', at se_ev_type se_ev_type_update d_string), (''user'', at se_user se_user_update d_string),
        (''text'', at se_text se_text_update d_string), (''channel'', at se_channel se_channel_update d_string),
        (''channel_type'', at se_channel_type se_channel_type_update d_string), (''bot_id'', at se_bot se_bot_update d_string),
        (''subtype'', at se_subtype se_subtype_update d_string)])]"

definition blank_slack_envelope :: slack_envelope where
  "blank_slack_envelope = \<lparr>se_type = [], se_challenge = [], se_event = [], se_ev_type = [], se_user = [], se_text = [],
     se_channel = [], se_channel_type = [], se_bot = [], se_subtype = []\<rparr>"

text \<open>A message is taken without its mentions of the bot; without a bot user nothing is a mention.\<close>

definition slack_message_of :: "slack_envelope \<Rightarrow> string \<Rightarrow> string \<Rightarrow> string \<Rightarrow> slack_message option" where
  "slack_message_of env bot_id user channel =
     (let kind = trim_space (se_channel_type env); in_group = (kind \<in> {''channel'', ''group'', ''mpim''});
          text = trim_space (se_text env); tag = ''<@'' @ bot_id @ ''>'';
          mention = (bot_id \<noteq> [] \<and> sublist tag text);
          text = (if bot_id = [] then text else trim_space (replace_all tag [] text)) in
      if text = [] \<and> \<not> in_group then None
      else Some \<lparr>sl_event = trim_space (se_event env), sl_channel = channel, sl_user = user, sl_text = text,
        sl_kind = ''text'', sl_mention = mention, sl_group = in_group\<rparr>)"

definition slack_parse_inbound :: "json_parser \<Rightarrow> string \<Rightarrow> string \<Rightarrow> err + (slack_message option \<times> string)" where
  "slack_parse_inbound parse raw bot_id = (case unmarshal d_slack_envelope (parse raw) blank_slack_envelope of (env, fine) \<Rightarrow>
     if \<not> fine then Inl InvalidData
     else if se_type env = ''url_verification'' then Inr (None, trim_space (se_challenge env))
     else if se_type env \<noteq> ''event_callback'' then Inr (None, [])
     else if se_ev_type env \<noteq> ''message'' then Inr (None, [])
     else if trim_space (se_bot env) \<noteq> [] \<or> se_subtype env = ''bot_message'' then Inr (None, [])
     else let user = trim_space (se_user env); channel = trim_space (se_channel env) in
     if user = [] \<or> channel = [] then Inr (None, [])
     else Inr (slack_message_of env bot_id user channel, []))"

definition slack_to_inbound :: "slack_message \<Rightarrow> inbound" where
  "slack_to_inbound m = \<lparr>ib_channel = ''slack'', ib_tenant = ''slack'', ib_event = sl_event m, ib_user = sl_user m,
     ib_chat = sl_channel m, ib_text = sl_text m, ib_kind = sl_kind m, ib_group = sl_group m, ib_mention = sl_mention m,
     ib_meta = [(''channel_id'', sl_channel m)]\<rparr>"

definition slack_handle_webhook ::
  "crypto \<Rightarrow> json_parser \<Rightarrow> slack_config \<Rightarrow> int \<Rightarrow> webhook_input \<Rightarrow> webhook_result \<times> err option" where
  "slack_handle_webhook cx parse c now i =
     (if \<not> slack_enabled c then (webhook_status 503, Some (PlainError ''slack not configured'')) else
      case slack_verify_request cx now (wi_header i) (sc_signing c) (wi_body i) of
        Some e \<Rightarrow> (webhook_status 401, Some e)
      | None \<Rightarrow> (case slack_parse_inbound parse (wi_body i) (sc_bot_user c) of
          Inl e \<Rightarrow> (webhook_status 400, Some e)
        | Inr (msg, challenge) \<Rightarrow>
          if challenge \<noteq> [] then ((webhook_status 200)\<lparr>wr_body := Some challenge\<rparr>, None)
          else (case msg of None \<Rightarrow> (webhook_status 200, None)
            | Some m \<Rightarrow> ((webhook_status 200)\<lparr>wr_async := Some (slack_to_inbound m)\<rparr>, None))))"

definition slack_send :: "platform \<Rightarrow> slack_config \<Rightarrow> outbound \<Rightarrow> ('r im_st_scheme, unit) op" where
  "slack_send serve c out = (if \<not> slack_enabled c then throw (PlainError ''slack not configured'') else
     let channel = trim_space (meta_text (ob_meta out) ''channel_id'') in
     if channel = [] then throw (PlainError ''missing slack channel_id in outbound meta'')
     else slack_post_text serve (trim_space (sc_bot_token c)) channel (ob_text out))"

section \<open>DingTalk\<close>

text \<open>A configuration is the secret of the robot.\<close>

definition dingtalk_enabled :: "string \<Rightarrow> bool" where
  "dingtalk_enabled secret \<longleftrightarrow> secret \<noteq> []"

definition dingtalk_send_once :: "platform \<Rightarrow> string \<Rightarrow> string \<Rightarrow> ('r im_st_scheme, unit) op" where
  "dingtalk_send_once serve hook text = bnd (http_exchange serve (DingtalkReply hook text)) (\<lambda>r.
     if fst r div 100 \<noteq> 2 then throw (PlainError ''dingtalk webhook'')
     else (case unmarshal d_errcode (snd r) blank_reply of (out, fine) \<Rightarrow>
       if fine \<and> ap_code out \<noteq> 0 then throw (PlainError ''dingtalk webhook'') else ret ()))"

definition dingtalk_reply_text :: "platform \<Rightarrow> string \<Rightarrow> string \<Rightarrow> ('r im_st_scheme, unit) op" where
  "dingtalk_reply_text serve hook text = (let hook = trim_space hook in
     if hook = [] then throw (PlainError ''empty session webhook'')
     else for_each (split_text_runes (reply_text text) 3800) (dingtalk_send_once serve hook))"

record dingtalk_message =
  dt_event :: string
  dt_sender :: string
  dt_conversation :: string
  dt_hook :: string
  dt_text :: string
  dt_kind :: string
  dt_group :: bool
  dt_mention :: bool

record dingtalk_body =
  db_msgtype :: string
  db_msg :: string
  db_conversation :: string
  db_conversation_type :: string
  db_sender :: string
  db_hook :: string
  db_at :: bool
  db_content :: string

definition d_dingtalk_body :: "dingtalk_body decoder" where
  "d_dingtalk_body = d_struct [(''msgtype'', at db_msgtype db_msgtype_update d_string), (''msgId'', at db_msg db_msg_update d_string),
     (''conversationId'', at db_conversation db_conversation_update d_string),
     (''conversationType'', at db_conversation_type db_conversation_type_update d_string),
     (''senderId'', at db_sender db_sender_update d_string), (''sessionWebhook'', at db_hook db_hook_update d_string),
     (''isInAtList'', at db_at db_at_update d_bool), (''text'', d_struct [(''content'', at db_content db_content_update d_string)])]"

definition blank_dingtalk_body :: dingtalk_body where
  "blank_dingtalk_body = \<lparr>db_msgtype = [], db_msg = [], db_conversation = [], db_conversation_type = [], db_sender = [],
     db_hook = [], db_at = False, db_content = []\<rparr>"

definition dingtalk_parse_inbound :: "json_parser \<Rightarrow> string \<Rightarrow> err + dingtalk_message option" where
  "dingtalk_parse_inbound parse raw = (case unmarshal d_dingtalk_body (parse raw) blank_dingtalk_body of (b, fine) \<Rightarrow>
     let in_group = (db_conversation_type b = ''2'') in
     if \<not> fine then Inl InvalidData
     else if db_msgtype b \<noteq> ''text'' then
       (if db_msg b \<noteq> [] then Inr (Some \<lparr>dt_event = db_msg b, dt_sender = db_sender b, dt_conversation = db_conversation b,
          dt_hook = db_hook b, dt_text = [], dt_kind = db_msgtype b, dt_group = in_group, dt_mention = db_at b\<rparr>) else Inr None)
     else let text = trim_space (db_content b) in
     if text = [] then Inr None
     else Inr (Some \<lparr>dt_event = trim_space (db_msg b), dt_sender = trim_space (db_sender b),
       dt_conversation = trim_space (db_conversation b), dt_hook = trim_space (db_hook b), dt_text = text, dt_kind = ''text'',
       dt_group = in_group, dt_mention = (db_at b \<or> \<not> in_group)\<rparr>))"

definition dingtalk_to_inbound :: "dingtalk_message \<Rightarrow> inbound" where
  "dingtalk_to_inbound m = \<lparr>ib_channel = ''dingtalk'', ib_tenant = ''dingtalk'', ib_event = dt_event m, ib_user = dt_sender m,
     ib_chat = (if dt_conversation m = [] then dt_sender m else dt_conversation m), ib_text = dt_text m, ib_kind = dt_kind m,
     ib_group = dt_group m, ib_mention = dt_mention m, ib_meta = [(''session_webhook'', dt_hook m)]\<rparr>"

definition dingtalk_handle_webhook ::
  "crypto \<Rightarrow> json_parser \<Rightarrow> string \<Rightarrow> int \<Rightarrow> webhook_input \<Rightarrow> webhook_result \<times> err option" where
  "dingtalk_handle_webhook cx parse secret now i =
     (if \<not> dingtalk_enabled secret then (webhook_status 503, Some (PlainError ''dingtalk not configured'')) else
      case dingtalk_verify_request cx now (wi_header i) secret (wi_body i) of
        Some e \<Rightarrow> (webhook_status 401, Some e)
      | None \<Rightarrow> (case dingtalk_parse_inbound parse (wi_body i) of
          Inl e \<Rightarrow> (webhook_status 400, Some e)
        | Inr None \<Rightarrow> (webhook_status 200, None)
        | Inr (Some m) \<Rightarrow> ((webhook_status 200)\<lparr>wr_async := Some (dingtalk_to_inbound m)\<rparr>, None)))"

definition dingtalk_send :: "platform \<Rightarrow> string \<Rightarrow> outbound \<Rightarrow> ('r im_st_scheme, unit) op" where
  "dingtalk_send serve secret out = (if \<not> dingtalk_enabled secret then throw (PlainError ''dingtalk not configured'') else
     let hook = trim_space (meta_text (ob_meta out) ''session_webhook'') in
     if hook = [] then throw (PlainError ''missing session_webhook in outbound meta'')
     else dingtalk_reply_text serve hook (ob_text out))"

section \<open>The adapters\<close>

definition feishu_adapter :: "crypto \<Rightarrow> json_parser \<Rightarrow> platform \<Rightarrow> feishu_config \<Rightarrow> ('r im_st_scheme) adapter" where
  "feishu_adapter cx parse serve c = \<lparr>ad_name = ''feishu'', ad_enabled = feishu_enabled c,
     ad_webhook = (\<lambda>now i. feishu_handle_webhook cx parse c i), ad_send = feishu_send serve c\<rparr>"

definition wecom_adapter :: "crypto \<Rightarrow> xml_parsers \<Rightarrow> platform \<Rightarrow> wecom_config \<Rightarrow> ('r im_st_scheme) adapter" where
  "wecom_adapter cx px serve c = \<lparr>ad_name = ''wecom'', ad_enabled = (wecom_crypt c \<noteq> None),
     ad_webhook = (\<lambda>now i. Inr (wecom_handle_webhook cx px c i)), ad_send = wecom_send serve c\<rparr>"

definition slack_adapter :: "crypto \<Rightarrow> json_parser \<Rightarrow> platform \<Rightarrow> slack_config \<Rightarrow> ('r im_st_scheme) adapter" where
  "slack_adapter cx parse serve c = \<lparr>ad_name = ''slack'', ad_enabled = slack_enabled c,
     ad_webhook = (\<lambda>now i. Inr (slack_handle_webhook cx parse c now i)), ad_send = slack_send serve c\<rparr>"

definition dingtalk_adapter :: "crypto \<Rightarrow> json_parser \<Rightarrow> platform \<Rightarrow> string \<Rightarrow> ('r im_st_scheme) adapter" where
  "dingtalk_adapter cx parse serve secret = \<lparr>ad_name = ''dingtalk'', ad_enabled = dingtalk_enabled secret,
     ad_webhook = (\<lambda>now i. Inr (dingtalk_handle_webhook cx parse secret now i)), ad_send = dingtalk_send serve secret\<rparr>"

end
