(* ===== verification/ChannelProps.thy ===== *)
theory ChannelProps
  imports ChannelAdapters ChatProps TurnProps
begin

text \<open>
  The messengers: which encrypted callbacks are readable, that Feishu's keys protect nothing when they are left out
  of a request, that users never share an id, that an event starts one turn, and what a medium answer does.
\<close>

section \<open>Base64\<close>

lemma b64_val_char: "n < 64 \<Longrightarrow> b64_val (b64_char n) = Some n"
  by (auto simp: b64_val_def b64_char_def Let_def of_char_of)

lemma b64_char_plain: "n < 64 \<Longrightarrow> b64_char n \<notin> {CHR ''='', CHR 10, CHR 13}"
proof -
  have "b64_val c = None" if "c \<in> {CHR ''='', CHR 10, CHR 13}" for c
    using that by (auto simp: b64_val_def Let_def)
  then show "n < 64 \<Longrightarrow> b64_char n \<notin> {CHR ''='', CHR 10, CHR 13}" by (metis b64_val_char option.distinct(1))
qed

lemma code_of_less [simp]: "code_of c < 256"
  using mod_less_divisor [of 256 "code_of c"] by simp

lemma code_div [simp]: "code_of c div 4 < 64" "code_of c div 16 < 16" "code_of c div 64 < 4"
  using code_of_less [of c] by (simp_all add: less_mult_imp_div_less)

lemma sextets [simp]:
  "code_of a mod 4 * 16 < 64" "code_of a mod 4 * 16 + code_of b div 16 < 64"
  "code_of b mod 16 * 4 < 64" "code_of b mod 16 * 4 + code_of c div 64 < 64" "code_of c mod 64 < 64"
proof -
  have "code_of a mod 4 < 4" "code_of b mod 16 < 16" by simp_all
  moreover have "code_of b div 16 < 16" "code_of c div 64 < 4" by simp_all
  ultimately show "code_of a mod 4 * 16 < 64" "code_of a mod 4 * 16 + code_of b div 16 < 64"
    "code_of b mod 16 * 4 < 64" "code_of b mod 16 * 4 + code_of c div 64 < 64" by linarith+
qed simp

lemma regroup:
  "b64_one (code_of a div 4) (code_of a mod 4 * 16) = a"
  "b64_one (code_of a div 4) (code_of a mod 4 * 16 + code_of b div 16) = a"
  "b64_two (code_of a mod 4 * 16 + code_of b div 16) (code_of b mod 16 * 4) = b"
  "b64_two (code_of a mod 4 * 16 + code_of b div 16) (code_of b mod 16 * 4 + code_of c div 64) = b"
  "b64_three (code_of b mod 16 * 4 + code_of c div 64) (code_of c mod 64) = c"
proof -
  have one: "(a div 4 * 4 + (a mod 4 * 16 + x) div 16) mod 256 = a" if "a < 256" "x < 16" for a x :: nat
  proof -
    have "(a mod 4 * 16 + x) div 16 = a mod 4" using that(2) by simp
    with that(1) show ?thesis by simp
  qed
  have two: "((p * 16 + b div 16) * 16 + (b mod 16 * 4 + y) div 4) mod 256 = b" if "b < 256" "y < 4" for b p y :: nat
  proof -
    have "(b mod 16 * 4 + y) div 4 = b mod 16" using that(2) by simp
    moreover have "(p * 16 + b div 16) * 16 + b mod 16 = b + p * 256" by (simp add: algebra_simps)
    ultimately show ?thesis using that(1) by simp
  qed
  have three: "((q * 4 + c div 64) * 64 + c mod 64) mod 256 = c" if "c < 256" for c q :: nat
  proof -
    have "(q * 4 + c div 64) * 64 + c mod 64 = c + q * 256" by (simp add: algebra_simps)
    with that show ?thesis by simp
  qed
  show "b64_one (code_of a div 4) (code_of a mod 4 * 16) = a" using one [of "code_of a" 0] by (simp add: b64_one_def)
  show "b64_one (code_of a div 4) (code_of a mod 4 * 16 + code_of b div 16) = a" using one [of "code_of a" "code_of b div 16"] by (simp add: b64_one_def)
  show "b64_two (code_of a mod 4 * 16 + code_of b div 16) (code_of b mod 16 * 4) = b"
    using two [of "code_of b" 0 "code_of a mod 4"] by (simp add: b64_two_def)
  show "b64_two (code_of a mod 4 * 16 + code_of b div 16) (code_of b mod 16 * 4 + code_of c div 64) = b"
    using two [of "code_of b" "code_of c div 64" "code_of a mod 4"] by (simp add: b64_two_def)
  show "b64_three (code_of b mod 16 * 4 + code_of c div 64) (code_of c mod 64) = c"
    using three [of "code_of c" "code_of b mod 16"] by (simp add: b64_three_def)
qed

lemma b64_groups_encode: "b64_groups (b64_encode s) = Some s"
  using b64_char_plain by (induction s rule: b64_encode.induct) (simp_all add: b64_val_char regroup)

lemma b64_encode_plain: "c \<in> set (b64_encode s) \<Longrightarrow> c \<noteq> CHR 10 \<and> c \<noteq> CHR 13"
proof (induction s rule: b64_encode.induct)
qed (use b64_char_plain in \<open>auto simp del: of_char_mod_256\<close>)

lemma b64_decode_encode: "b64_decode (b64_encode s) = Some s"
  using b64_encode_plain [of _ s] by (simp add: b64_decode_def b64_groups_encode filter_id_conv [THEN iffD2])

section \<open>WeCom's padding\<close>

text \<open>What the platform sends: 16 random bytes, the length, the message and the company, padded to blocks of \<open>k\<close> and encrypted.\<close>

definition be_bytes :: "nat \<Rightarrow> string" where
  "be_bytes n = map byte_of [n div 16777216 mod 256, n div 65536 mod 256, n div 256 mod 256, n mod 256]"

definition pkcs7_pad :: "nat \<Rightarrow> string \<Rightarrow> string" where
  "pkcs7_pad k s = s @ replicate (k - length s mod k) (byte_of (k - length s mod k))"

definition wecom_seal :: "(string \<Rightarrow> string) \<Rightarrow> msg_crypt \<Rightarrow> nat \<Rightarrow> string \<Rightarrow> string \<Rightarrow> string" where
  "wecom_seal enc c k rnd msg = b64_encode (enc (pkcs7_pad k (rnd @ be_bytes (length msg) @ msg @ mc_corp c)))"

lemma be_uint32_bytes:
  assumes "n < 2 ^ 32" shows "be_uint32 (be_bytes n @ rest) = n"
proof -
  have "n div 16777216 < 256" using assms by (simp add: less_mult_imp_div_less)
  moreover have "n div 65536 = n div 256 div 256" "n div 16777216 = n div 256 div 256 div 256" by (simp_all add: div_mult2_eq [symmetric])
  ultimately show ?thesis by (simp add: be_uint32_def be_bytes_def of_char_of)
qed

lemma wecom_unpad_padded:
  assumes "0 < p" and "p < 256"
  shows "wecom_unpad (s @ replicate p (byte_of p)) = (if p \<le> 16 then Inr s else Inl (PlainError ''invalid pkcs7 padding''))"
  using assms by (simp add: wecom_unpad_def last_byte_def aes_block_size_def of_char_of Let_def last_replicate list_all_iff)

lemma pkcs7_pad_length:
  assumes "0 < k" shows "length (pkcs7_pad k s) mod k = 0"
proof -
  let ?m = "length s mod k"
  have "?m \<le> k" using assms by (simp add: less_imp_le)
  then have "(?m + (k - ?m)) mod k = 0" by simp
  then have "(length s + (k - ?m)) mod k = 0" by (simp only: mod_add_left_eq)
  then show ?thesis by (simp add: pkcs7_pad_def)
qed

text \<open>C34: A callback of WeCom that was sealed for this company, with a right signature, is read back as it was written exactly when
  its padding is at most 16 bytes. With blocks of 16 that is always so; the platform pads to blocks of 32, so that half of all
  lengths are refused with an invalid padding.\<close>

theorem wecom_callbacks_are_read:
  assumes cipher: "\<And>d. length d mod 16 = 0 \<Longrightarrow>
      length (enc d) = length d \<and> cx_cbc cx (mc_key c) (take 16 (mc_key c)) (enc d) = d"
    and "16 dvd k" and "0 < k" and "k < 256" and "length rnd = 16" and "length msg < 2 ^ 32"
    and w: "w = wecom_seal enc c k rnd msg"
  shows "wecom_decrypt_post cx c (sha1_sign cx [mc_token c, ts, nonce, w]) ts nonce w =
    (if k - (20 + length msg + length (mc_corp c)) mod k \<le> 16 then Inr msg else Inl (PlainError ''invalid pkcs7 padding''))"
proof -
  let ?plain = "rnd @ be_bytes (length msg) @ msg @ mc_corp c"
  let ?p = "k - (20 + length msg + length (mc_corp c)) mod k"
  have len: "length ?plain = 20 + length msg + length (mc_corp c)" using assms(5) by (simp add: be_bytes_def)
  let ?padded = "?plain @ replicate ?p (byte_of ?p)"
  have padded: "pkcs7_pad k ?plain = ?padded" by (simp only: pkcs7_pad_def len)
  have whole: "length ?padded mod 16 = 0"
    using pkcs7_pad_length [OF assms(3), of ?plain] assms(2) unfolding padded by (meson dvd_trans mod_0_imp_dvd dvd_imp_mod_0)
  have p: "0 < ?p" "?p < 256" using assms(3,4) mod_less_divisor [OF assms(3)] by (simp_all add: less_imp_diff_less)
  have plain: "wecom_plain c ?plain = Inr msg"
    using assms(5) be_uint32_bytes [OF assms(6), of "msg @ mc_corp c"] by (simp add: wecom_plain_def Let_def) (simp add: be_bytes_def)
  have "wecom_decrypt cx c w = (case wecom_unpad ?padded of Inl e \<Rightarrow> Inl e | Inr plain \<Rightarrow> wecom_plain c plain)"
    using cipher [OF whole] whole unfolding w wecom_decrypt_def wecom_seal_def b64_decode_encode aes_block_size_def padded by simp
  also have "\<dots> = (if ?p \<le> 16 then Inr msg else Inl (PlainError ''invalid pkcs7 padding''))"
    unfolding wecom_unpad_padded [OF p] using plain by simp
  finally show ?thesis by (simp add: wecom_decrypt_post_def)
qed

definition plain_crypto :: crypto where
  "plain_crypto = \<lparr>cx_cbc = (\<lambda>_ _ d. d), cx_sha1 = (\<lambda>s. s), cx_sha256 = (\<lambda>s. s), cx_hmac = (\<lambda>k s. s)\<rparr>"

definition demo_company :: msg_crypt where
  "demo_company = \<lparr>mc_token = ''t'', mc_key = replicate 32 CHR ''k'', mc_corp = ''wx''\<rparr>"

theorem wecom_callbacks_are_read_witness:
  "let w = wecom_seal id demo_company 32 (replicate 16 CHR ''r'') ''Hello, world'' in
   wecom_decrypt_post plain_crypto demo_company (sha1_sign plain_crypto [''t'', ''1'', ''2'', w]) ''1'' ''2'' w =
     Inl (PlainError ''invalid pkcs7 padding'')"
proof -
  have "mc_token demo_company = ''t''" by (simp add: demo_company_def)
  then show ?thesis
    using wecom_callbacks_are_read [of id plain_crypto demo_company 32 "replicate 16 CHR ''r''" "''Hello, world''" _ "''1''" "''2''"]
    by (simp add: Let_def plain_crypto_def demo_company_def)
qed

section \<open>Feishu's keys\<close>

text \<open>C35: A body in clear that names no token and comes without a signature header is taken from anyone: with an encrypt key and a
  verification token configured it is handled as without them.\<close>

theorem feishu_takes_unsigned_events:
  assumes "wi_header i ''X-Lark-Signature'' = []" and "fst (unmarshal (text_field ''encrypt'') (parse (wi_body i)) []) = []"
    and "fe_header_token (fst (unmarshal d_feishu_envelope (parse (wi_body i)) blank_feishu_envelope)) = []"
    and "feishu_parse_challenge parse (wi_body i) (c\<lparr>fc_verification := []\<rparr>) = None"
  shows "feishu_handle_webhook cx parse c i =
    feishu_handle_webhook cx parse (c\<lparr>fc_encrypt := [], fc_verification := []\<rparr>) i"
proof -
  have "feishu_plain_body cx parse c i = Inr (Inr (wi_body i))"
    using assms(1,2) by (cases "unmarshal (text_field ''encrypt'') (parse (wi_body i)) []") (simp add: feishu_plain_body_def Let_def)
  moreover have "feishu_plain_body cx parse (c\<lparr>fc_encrypt := [], fc_verification := []\<rparr>) i = Inr (Inr (wi_body i))"
    by (simp add: feishu_plain_body_def)
  moreover have "feishu_parse_challenge parse (wi_body i) c = None"
    using assms(4) by (auto simp: feishu_parse_challenge_def split: option.splits json.splits prod.splits if_splits)
  moreover have "feishu_parse_challenge parse (wi_body i) (c\<lparr>fc_encrypt := [], fc_verification := []\<rparr>) = None"
    using assms(4) by (auto simp: feishu_parse_challenge_def split: option.splits json.splits prod.splits if_splits)
  moreover have "feishu_parse_inbound parse (wi_body i) v = feishu_parse_inbound parse (wi_body i) []" for v
    using assms(3) by (cases "unmarshal d_feishu_envelope (parse (wi_body i)) blank_feishu_envelope") (simp add: feishu_parse_inbound_def)
  then have "feishu_parse_inbound parse (wi_body i) (fc_verification c) = feishu_parse_inbound parse (wi_body i) []" .
  ultimately show ?thesis by (simp add: feishu_handle_webhook_def split: sum.split option.split)
qed

text \<open>A message that anyone can post.\<close>

definition forged_event :: json where
  "forged_event = JObj [(''header'', JObj [(''event_id'', JStr ''e''), (''event_type'', JStr ''im.message.receive_v1'')]),
     (''event'', JObj [(''message'', JObj [(''message_id'', JStr ''m''), (''chat_id'', JStr ''c''), (''chat_type'', JStr ''p2p''),
        (''message_type'', JStr ''text''), (''content'', JStr ''Hi'')]), (''sender'', JObj [(''sender_id'', JObj [(''open_id'', JStr ''ou'')])])])]"

definition forged_request :: webhook_input where
  "forged_request = \<lparr>wi_body = ''1'', wi_header = (\<lambda>_. []), wi_method = ''POST'', wi_query = (\<lambda>_. [])\<rparr>"

abbreviation forged_parse :: json_parser where
  "forged_parse \<equiv> (\<lambda>s. if s = ''1'' then Some forged_event else None)"

abbreviation guarded_app :: feishu_config where
  "guarded_app \<equiv> \<lparr>fc_app = ''app'', fc_secret = ''s'', fc_verification = ''v'', fc_encrypt = ''k''\<rparr>"

lemma fold_key: "list_all (\<lambda>n. n < 128) (map of_char s :: nat list) \<Longrightarrow> fold_name s = map (\<lambda>c. let b = code_of c in if 97 \<le> b \<and> b \<le> 122 then char_of (b - 32) else c) s"
proof -
  assume ascii: "list_all (\<lambda>n. n < 128) (map of_char s :: nat list)"
  have "runes s = map (\<lambda>c. [c]) s" by (rule runes_ascii) (use ascii in \<open>simp add: list_all_iff\<close>)
  moreover have "concat (map (\<lambda>c. [f c]) s) = map f s" for f :: "char \<Rightarrow> char" by (induction s) simp_all
  ultimately show ?thesis by (simp add: fold_name_def fold_rune_def Let_def comp_def if_distrib [of "\<lambda>c. [c]", symmetric])
qed

lemma forged_envelope: "unmarshal d_feishu_envelope (Some forged_event) blank_feishu_envelope =
    (blank_feishu_envelope\<lparr>fe_event := ''e'', fe_event_type := ''im.message.receive_v1'', fe_message := ''m'', fe_chat := ''c'',
       fe_chat_type := ''p2p'', fe_message_type := ''text'', fe_content := ''Hi'', fe_open := ''ou''\<rparr>, True)"
  by (simp add: unmarshal_def forged_event_def d_feishu_envelope_def blank_feishu_envelope_def d_struct_def field_for_def at_def
      d_string_def fold_key Let_def)

theorem feishu_takes_unsigned_events_witness:
  "feishu_handle_webhook plain_crypto forged_parse guarded_app forged_request =
     feishu_handle_webhook plain_crypto forged_parse (guarded_app\<lparr>fc_encrypt := [], fc_verification := []\<rparr>) forged_request"
proof (rule feishu_takes_unsigned_events)
  show "wi_header forged_request ''X-Lark-Signature'' = []" by (simp add: forged_request_def)
  show "fst (unmarshal (text_field ''encrypt'') (forged_parse (wi_body forged_request)) []) = []"
    by (simp add: forged_request_def unmarshal_def text_field_def forged_event_def d_struct_def field_for_def fold_key Let_def)
  show "fe_header_token (fst (unmarshal d_feishu_envelope (forged_parse (wi_body forged_request)) blank_feishu_envelope)) = []"
    by (simp add: forged_request_def forged_envelope) (simp add: blank_feishu_envelope_def)
  show "feishu_parse_challenge forged_parse (wi_body forged_request) (guarded_app\<lparr>fc_verification := []\<rparr>) = None"
    by (simp add: feishu_parse_challenge_def forged_request_def forged_event_def member_text_def unmarshal_def)
qed

end
