(* ===== verification/HubProps.thy ===== *)
theory HubProps
  imports ChannelProps
begin

text \<open>
  The hub with its four messengers in operation: users keep an id of their own, an event that is delivered again
  starts nothing, and a medium answer of the assistant ends the process.
\<close>

section \<open>What a turn leaves alone\<close>

text \<open>A property that does not look at the conversations, the slots and the script of faults.\<close>

definition chat_blind :: "('r chat_st_scheme \<Rightarrow> bool) \<Rightarrow> bool" where
  "chat_blind I \<longleftrightarrow> quietly I \<and> (\<forall>s x. I (s\<lparr>chat_lists := x\<rparr>) = I s) \<and> (\<forall>s x. I (s\<lparr>chat_metas := x\<rparr>) = I s) \<and>
     (\<forall>s x. I (s\<lparr>chat_index := x\<rparr>) = I s) \<and> (\<forall>s x. I (s\<lparr>chat_current := x\<rparr>) = I s) \<and>
     (\<forall>s x. I (s\<lparr>legacy_list := x\<rparr>) = I s) \<and> (\<forall>s x. I (s\<lparr>legacy_state := x\<rparr>) = I s) \<and>
     (\<forall>s x. I (s\<lparr>chat_seq := x\<rparr>) = I s) \<and> (\<forall>s x. I (s\<lparr>agent_busy := x\<rparr>) = I s)"

lemma blind_quiet: "chat_blind I \<Longrightarrow> quietly I"
  by (simp add: chat_blind_def)

lemma keeps_write: "quietly I \<Longrightarrow> (\<And>s. I s \<Longrightarrow> I (f s)) \<Longrightarrow> keeps I (io (modify f))"
  by (intro keeps_rules keeps_modify)

lemma keeps_read: "quietly I \<Longrightarrow> (\<And>s. snd (m s) = s) \<Longrightarrow> keeps I (io m)"
  by (intro keeps_rules) (simp_all add: keeps_def)

lemma keeps_blind_write:
  assumes "chat_blind I"
  shows "keeps I (set_list k f)" "keeps I (set_meta k m)" "keeps I (set_index u g)" "keeps I (set_current u c)"
    "keeps I (drop_legacy u)" "keeps I touch_key"
  using assms unfolding set_list_def set_meta_def set_index_def set_current_def drop_legacy_def touch_key_def
  by (intro keeps_write keeps_bnd keeps_read; simp add: chat_blind_def ret_def)+

lemma keeps_blind_own:
  assumes "chat_blind I"
  shows "keeps I new_session_id" "keeps I try_acquire_agent_slot" "keeps I release_agent_slot"
  using assms by (simp_all add: chat_blind_def keeps_def new_session_id_def try_acquire_agent_slot_def release_agent_slot_def modify_def)

lemma keeps_blind_meta: "chat_blind I \<Longrightarrow> keeps I (get_session_meta u sid)"
  unfolding get_session_meta_def by (intro keeps_read blind_quiet) (simp_all split: option.split)

lemma keeps_migrate: "chat_blind I \<Longrightarrow> keeps I (migrate_legacy_if_needed u)"
  unfolding migrate_legacy_if_needed_def migrate_body_def
  by (intro keeps_rules keeps_blind_write blind_quiet)

lemma keeps_session:
  assumes "chat_blind I"
  shows "keeps I (session_exists u sid)" "keeps I (create_session u)" "keeps I (list_messages u sid n)"
    "keeps I (append_messages u sid msgs ttl k)"
  unfolding session_exists_def create_session_def list_messages_def append_messages_def with_store_def in_index_def Let_def
  by (intro keeps_rules keeps_migrate keeps_blind_write keeps_blind_own keeps_blind_meta blind_quiet assms)+

lemma keeps_turn:
  assumes "chat_blind I" shows "keeps I (run_agent_chat en u msg token sid rid sink)"
proof -
  have "keeps I (finish_turn en u sid msg v f c)" for sid msg v f c
    unfolding finish_turn_def Let_def by (intro keeps_rules keeps_session assms)
  moreover have "keeps I (run_history u sid)" for sid
    unfolding run_history_def by (intro keeps_rules keeps_session assms)
  ultimately show ?thesis
    unfolding run_agent_chat_def Let_def by (intro keeps_rules) (auto intro: keeps_rules split: agent_reply.split)
qed

section \<open>What a messenger leaves alone\<close>

text \<open>A property that does not look at the requests to the platforms and the tokens.\<close>

definition im_blind :: "('r im_st_scheme \<Rightarrow> bool) \<Rightarrow> bool" where
  "im_blind I \<longleftrightarrow> chat_blind I \<and> (\<forall>s x. I (s\<lparr>im_log := x\<rparr>) = I s) \<and> (\<forall>s x. I (s\<lparr>feishu_token := x\<rparr>) = I s) \<and>
     (\<forall>s x. I (s\<lparr>wecom_token := x\<rparr>) = I s) \<and> (\<forall>s x. I (s\<lparr>ch_jobs := x\<rparr>) = I s)"

lemma im_blind_chat: "im_blind I \<Longrightarrow> chat_blind I"
  by (simp add: im_blind_def)

text \<open>What the hub relies on: a name, messages of its own channel, and a reply that only talks to the platform.\<close>

locale messenger =
  fixes a :: "('r im_st_scheme) adapter"
  assumes name: "trim_space (ad_name a) = ad_name a" "ad_name a \<noteq> []"
    and own_channel: "ad_webhook a now i = Inr (res, e) \<Longrightarrow> wr_async res = Some m \<Longrightarrow> ib_channel m = ad_name a"
    and send_keeps: "im_blind I \<Longrightarrow> keeps I (ad_send a out)"
begin

lemma registered: "ad_enabled a \<Longrightarrow> map_of (register_adapter a h) n = (if n = ad_name a then Some a else map_of h n)"
  by (simp add: register_adapter_def name update_conv')

lemma keeps_sending: "im_blind I \<Longrightarrow> keeps I (ignore (ad_send a out))"
  by (intro keeps_rules send_keeps)

end

lemma keeps_exchange: "im_blind I \<Longrightarrow> keeps I (http_exchange serve rq)"
  unfolding http_exchange_def
  by (intro keeps_io) (simp_all add: im_blind_def chat_blind_def keeps_def)

lemma keeps_tokens:
  assumes "im_blind I"
  shows "keeps I (feishu_access_token serve fc)" "keeps I (wecom_access_token serve wc)"
  using assms unfolding feishu_access_token_def wecom_access_token_def
  by (intro keeps_rules keeps_exchange keeps_modify; simp add: im_blind_def)+

lemma keeps_sends:
  assumes "im_blind I"
  shows "keeps I (feishu_send serve fc out)" "keeps I (wecom_send serve wc out)" "keeps I (slack_send serve sc out)"
    "keeps I (dingtalk_send serve secret out)"
  unfolding feishu_send_def feishu_reply_text_def feishu_send_text_once_def wecom_send_def wecom_send_text_def wecom_send_once_def
    slack_send_def slack_post_text_def slack_post_once_def dingtalk_send_def dingtalk_reply_text_def dingtalk_send_once_def Let_def
  by (intro keeps_rules keeps_exchange keeps_tokens assms)+

interpretation feishu: messenger "feishu_adapter cx parse serve fc" for cx parse serve fc
proof
  show "trim_space (ad_name (feishu_adapter cx parse serve fc)) = ad_name (feishu_adapter cx parse serve fc)"
    by (simp add: feishu_adapter_def) (rule trim_space_id; simp add: printing_def)
qed (auto simp: feishu_adapter_def feishu_handle_webhook_def feishu_plain_body_def feishu_to_inbound_def keeps_sends Let_def
    split: sum.splits prod.splits option.splits if_splits)

interpretation wecom: messenger "wecom_adapter cx px serve wc" for cx px serve wc
proof
  show "trim_space (ad_name (wecom_adapter cx px serve wc)) = ad_name (wecom_adapter cx px serve wc)"
    by (simp add: wecom_adapter_def) (rule trim_space_id; simp add: printing_def)
qed (auto simp: wecom_adapter_def wecom_handle_webhook_def wecom_to_inbound_def keeps_sends Let_def
    split: sum.splits prod.splits option.splits if_splits list.splits)

interpretation slack: messenger "slack_adapter cx parse serve sc" for cx parse serve sc
proof
  show "trim_space (ad_name (slack_adapter cx parse serve sc)) = ad_name (slack_adapter cx parse serve sc)"
    by (simp add: slack_adapter_def) (rule trim_space_id; simp add: printing_def)
qed (auto simp: slack_adapter_def slack_handle_webhook_def slack_to_inbound_def keeps_sends Let_def
    split: sum.splits prod.splits option.splits if_splits)

interpretation dingtalk: messenger "dingtalk_adapter cx parse serve secret" for cx parse serve secret
proof
  show "trim_space (ad_name (dingtalk_adapter cx parse serve secret)) = ad_name (dingtalk_adapter cx parse serve secret)"
    by (simp add: dingtalk_adapter_def) (rule trim_space_id; simp add: printing_def)
qed (auto simp: dingtalk_adapter_def dingtalk_handle_webhook_def dingtalk_to_inbound_def keeps_sends Let_def
    split: sum.splits prod.splits option.splits if_splits)

section \<open>The hub in operation\<close>

text \<open>What the hub is set up with: the assistant, the parsers, the platforms and the four configurations.\<close>

record im_setup =
  is_agent :: agent_env
  is_crypto :: crypto
  is_json :: json_parser
  is_xml :: xml_parsers
  is_platform :: platform
  is_feishu :: feishu_config
  is_wecom :: wecom_config
  is_slack :: slack_config
  is_dingtalk :: string

definition messenger_hub :: "im_setup \<Rightarrow> ('r im_st_scheme) hub" where
  "messenger_hub e =
     register_adapter (dingtalk_adapter (is_crypto e) (is_json e) (is_platform e) (is_dingtalk e))
     (register_adapter (slack_adapter (is_crypto e) (is_json e) (is_platform e) (is_slack e))
     (register_adapter (wecom_adapter (is_crypto e) (is_xml e) (is_platform e) (is_wecom e))
     (register_adapter (feishu_adapter (is_crypto e) (is_json e) (is_platform e) (is_feishu e)) [])))"

lemma registeredD: "map_of (register_adapter a h) n = Some b \<Longrightarrow> b = a \<or> map_of h n = Some b"
  by (auto simp: register_adapter_def Let_def update_conv' split: if_splits)

lemma hub_adapterE:
  assumes "map_of (messenger_hub e) n = Some a"
  obtains (d) cx parse serve secret where "a = dingtalk_adapter cx parse serve secret"
  | (s) cx parse serve c where "a = slack_adapter cx parse serve c"
  | (w) cx px serve c where "a = wecom_adapter cx px serve c"
  | (f) cx parse serve c where "a = feishu_adapter cx parse serve c"
  using assms unfolding messenger_hub_def by (auto dest!: registeredD)

text \<open>
  Webhooks arrive, goroutines run in any order, keys expire but for those in \<open>K\<close>, calls fail, time passes.
\<close>

inductive hub_run :: "im_setup \<Rightarrow> string set \<Rightarrow> 'r im_st_scheme \<Rightarrow> 'r im_st_scheme \<Rightarrow> bool" for e K where
  start: "hub_run e K s s"
| webhook: "hub_run e K s t \<Longrightarrow> handle_webhook (messenger_hub e) name input t = (r, u) \<Longrightarrow> hub_run e K s u"
| job: "hub_run e K s t \<Longrightarrow> j \<in> set (ch_jobs t) \<Longrightarrow>
    run_job (is_agent e) (messenger_hub e) uuid j (t\<lparr>ch_jobs := remove1 j (ch_jobs t)\<rparr>) = (r, u) \<Longrightarrow> hub_run e K s u"
| expire: "hub_run e K s t \<Longrightarrow> k \<notin> K \<Longrightarrow> hub_run e K s (channel_expire k t)"
| world: "hub_run e K s t \<Longrightarrow> hub_run e K s (t\<lparr>faults := fs, clock_now := now\<rparr>)"

inductive_cases hub_run_cases: "hub_run e K s t"

text \<open>What the hub's own steps keep, every run keeps.\<close>

locale hub_invariant =
  fixes I :: "'r im_st_scheme \<Rightarrow> bool" and K :: "string set"
  assumes blind: "im_blind I"
    and clock: "I (s\<lparr>clock_now := now\<rparr>) = I s"
    and identity: "keeps I (get_or_create_synthetic_user_id c t u)"
    and session: "keeps I (channel_set (channel_session_key c t k) v)"
    and event: "keeps I (channel_setnx (channel_dedup_key c ev) v)"
    and expiry: "k \<notin> K \<Longrightarrow> I s \<Longrightarrow> I (channel_expire k s)"
begin

lemma blind_chat: "chat_blind I" and quiet: "quietly I"
  using blind im_blind_chat blind_quiet by blast+

lemma keeps_spawn: "keeps I (spawn j)"
  unfolding spawn_def using blind by (intro keeps_modify) (simp add: im_blind_def)

lemma keeps_job: "keeps I (run_job en (messenger_hub e) uuid j)"
proof -
  have send: "keeps I (ignore (ad_send a out))" if "map_of (messenger_hub e) n = Some a" for n a out
    using that by (cases rule: hub_adapterE)
      (simp_all only: feishu.keeps_sending wecom.keeps_sending slack.keeps_sending dingtalk.keeps_sending blind)
  have known: "keeps I (known_session uid key)" for uid key
    unfolding known_session_def channel_get_def Let_def
    by (intro keeps_rules keeps_session blind_chat quiet)
  have chat: "keeps I (get_or_create_chat_session_id c t uid k)" for c t uid k
    unfolding get_or_create_chat_session_id_def Let_def
    by (intro keeps_rules known keeps_session session blind_chat)
  have turn: "keeps I (process_turn en uuid name m)" for name m
    unfolding process_turn_def send_async_def Let_def
    by (intro keeps_rules identity chat keeps_turn keeps_spawn blind_chat)
  have "keeps I (process_inbound en uuid name m)" for name m
    unfolding process_inbound_def send_async_def
    by (intro keeps_rules turn keeps_blind_own keeps_spawn blind_chat)
  with send show ?thesis by (auto simp: run_job_def intro: keeps_ret split: channel_job.split option.split)
qed

lemma keeps_webhook: "keeps I (handle_webhook h name input)"
proof -
  have first: "keeps I (first_delivery m)" for m
    unfolding first_delivery_def mark_event_processed_def Let_def by (intro keeps_rules event)
  have "keeps I (answer_webhook name res)" for name res
    unfolding answer_webhook_def Let_def by (intro keeps_rules first keeps_spawn)
  then show ?thesis
    unfolding handle_webhook_def Let_def by (intro keeps_rules) (auto intro!: keeps_rules split: sum.split prod.split option.split)
qed

lemma run_keeps: "hub_run e K s t \<Longrightarrow> I s \<Longrightarrow> I t"
proof (induction rule: hub_run.induct)
  case (job s t j uuid r u)
  then have "I (t\<lparr>ch_jobs := remove1 j (ch_jobs t)\<rparr>)" using blind by (simp add: im_blind_def)
  with job show ?case using keeps_job by (blast dest: keepsD)
next
  case (world s t now fs)
  then have "I (t\<lparr>faults := fs\<rparr>)" using quiet by (simp add: quietly_def)
  then have "I ((t\<lparr>faults := fs\<rparr>)\<lparr>clock_now := now\<rparr>)" by (simp only: clock)
  then show ?case by simp
qed (auto intro: expiry dest: keepsD [OF keeps_webhook])

end

section \<open>Ids\<close>

definition identity_key :: "string \<Rightarrow> bool" where
  "identity_key k \<longleftrightarrow> prefix (channel_key_prefix @ ''id:'') k"

lemma key_kinds [simp]: "identity_key (channel_identity_key c t u)" "\<not> identity_key (channel_session_key c t k)"
  "\<not> identity_key (channel_dedup_key c ev)"
  by (simp_all add: identity_key_def channel_identity_key_def channel_session_key_def channel_dedup_key_def channel_key_prefix_def)

definition channel_uid :: "int \<Rightarrow> u64" where
  "channel_uid n = channel_synthetic_uid_base + of_int n"

lemma channel_uid_inj:
  assumes "0 \<le> m" "i64_ok m" "0 \<le> n" "i64_ok n" shows "channel_uid m = channel_uid n \<longleftrightarrow> m = n"
proof -
  have "uint (of_int x :: u64) = x" if "0 \<le> x" "i64_ok x" for x
    using that by (simp add: i64_ok_def unsigned_of_int take_bit_int_eq_self)
  with assms show ?thesis unfolding channel_uid_def by (metis add_left_imp_eq)
qed

text \<open>The ids that are stored were handed out, each to one identity.\<close>

definition uids_distinct :: "'r im_st_scheme \<Rightarrow> bool" where
  "uids_distinct s \<longleftrightarrow> 0 \<le> ch_uid_seq s \<and> i64_ok (ch_uid_seq s) \<and>
     (\<forall>k v. identity_key k \<longrightarrow> map_of (ch_keys s) k = Some v \<longrightarrow> (\<exists>n. 1 \<le> n \<and> n \<le> ch_uid_seq s \<and> v = show_u64 (channel_uid n))) \<and>
     (\<forall>k k' v. identity_key k \<longrightarrow> identity_key k' \<longrightarrow> map_of (ch_keys s) k = Some v \<longrightarrow> map_of (ch_keys s) k' = Some v \<longrightarrow> k = k')"

text \<open>\<open>a\<close> was handed out, and no identity but \<open>key\<close> holds it; \<open>key\<close> itself may have expired.\<close>

definition only_owner :: "string \<Rightarrow> u64 \<Rightarrow> 'r im_st_scheme \<Rightarrow> bool" where
  "only_owner key a s \<longleftrightarrow> uids_distinct s \<and> (\<exists>n. 1 \<le> n \<and> n \<le> ch_uid_seq s \<and> a = channel_uid n) \<and>
     (\<forall>k v. identity_key k \<longrightarrow> k \<noteq> key \<longrightarrow> map_of (ch_keys s) k = Some v \<longrightarrow> v \<noteq> show_u64 a)"

lemmas blind_defs = im_blind_def chat_blind_def quietly_def

lemma uids_blind: "im_blind uids_distinct" "im_blind (only_owner key a)"
  by (simp_all add: blind_defs uids_distinct_def only_owner_def)

lemma allocate_uid_steps:
  "allocate_uid key = bnd channel_incr_uid (\<lambda>n. bnd (channel_set key (show_u64 (channel_uid n))) (\<lambda>_. ret (channel_uid n)))"
  by (simp add: allocate_uid_def channel_uid_def Let_def)

lemma allocate_cases:
  assumes "allocate_uid key s = (r, t)"
  obtains (failed) e where "r = Inl e" and "ch_keys t = ch_keys s"
      and "ch_uid_seq t = ch_uid_seq s \<or> ch_uid_seq t = ch_uid_seq s + 1 \<and> i64_ok (ch_uid_seq t)"
  | (fresh) "r = Inr (channel_uid (ch_uid_seq t))" and "ch_uid_seq t = ch_uid_seq s + 1" and "i64_ok (ch_uid_seq t)"
      and "ch_keys t = AList.update key (show_u64 (channel_uid (ch_uid_seq t))) (ch_keys s)"
  using assms unfolding allocate_uid_steps
  by (cases r) (auto simp: channel_incr_uid_def channel_set_def bnd_eq_Inl bnd_eq_Inr op_eqs elim!: io_InrE io_InlE split: if_splits)

lemma get_or_create_cases:
  assumes "get_or_create_synthetic_user_id c t u s = (r, s')"
  defines "key \<equiv> channel_identity_key (trim_space c) (trim_space t) (trim_space u)"
  obtains (refused) e where "r = Inl e" and "ch_keys s' = ch_keys s" and "ch_uid_seq s' = ch_uid_seq s"
  | (known) v n where "r = Inr n" and "ch_keys s' = ch_keys s" and "ch_uid_seq s' = ch_uid_seq s"
      and "map_of (ch_keys s) key = Some v" and "parse_uint v = Some n"
  | (unknown) s1 where "ch_keys s1 = ch_keys s" and "ch_uid_seq s1 = ch_uid_seq s" and "allocate_uid key s1 = (r, s')"
proof -
  let ?valid = "ch_on s \<and> trim_space c \<noteq> [] \<and> trim_space t \<noteq> [] \<and> trim_space u \<noteq> []"
  show thesis
  proof (cases ?valid)
    case False
    then have "s' = s \<and> (\<exists>e. r = Inl e)"
      using assms(1) by (auto simp: get_or_create_synthetic_user_id_def bnd_def gets_run throw_def Let_def split: if_splits)
    then show ?thesis using refused by blast
  next
    case True
    obtain r1 s1 where look: "known_uid key s = (r1, s1)" by (metis prod.collapse)
    have same: "ch_keys s1 = ch_keys s" "ch_uid_seq s1 = ch_uid_seq s" and
      found: "\<And>e. r1 \<noteq> Inl e" "\<And>n. r1 = Inr (Some n) \<Longrightarrow> \<exists>v. map_of (ch_keys s) key = Some v \<and> parse_uint v = Some n"
      using look by (auto simp: known_uid_def channel_get_def bnd_eq_Inl bnd_eq_Inr bnd_def attempt_def io_def gets_def ret_def
          split: list.splits if_splits option.splits)
    from True look have "bnd (known_uid key) (\<lambda>r. case r of Some n \<Rightarrow> ret n | None \<Rightarrow> allocate_uid key) s = (r, s')"
      using assms(1) unfolding key_def by (simp add: get_or_create_synthetic_user_id_def bnd_def [of "gets _"] gets_run Let_def)
    with look found same show ?thesis
      by (cases r1; cases "projr r1") (auto simp: bnd_def ret_def intro: known unknown)
  qed
qed

lemma distinct_kept:
  assumes "uids_distinct s" and "ch_keys t = ch_keys s" and "ch_uid_seq s \<le> ch_uid_seq t" and "i64_ok (ch_uid_seq t)"
  shows "uids_distinct t"
proof -
  have "0 \<le> ch_uid_seq t" using assms(1,3) by (simp add: uids_distinct_def)
  moreover have "n \<le> ch_uid_seq t" if "n \<le> ch_uid_seq s" for n using that assms(3) by simp
  ultimately show ?thesis using assms(1,4) unfolding uids_distinct_def assms(2) by blast
qed

lemma owner_kept:
  assumes "only_owner key a s" and "ch_keys t = ch_keys s" and "ch_uid_seq s \<le> ch_uid_seq t" and "i64_ok (ch_uid_seq t)"
  shows "only_owner key a t"
proof -
  have "n \<le> ch_uid_seq t" if "n \<le> ch_uid_seq s" for n using that assms(3) by simp
  then show ?thesis using assms(1) distinct_kept [OF _ assms(2-4)] unfolding only_owner_def assms(2) by blast
qed

text \<open>A fresh id is nobody's.\<close>

lemma fresh_uid:
  assumes "uids_distinct s" and "ch_uid_seq t = ch_uid_seq s + 1" and "i64_ok (ch_uid_seq t)" and "identity_key key"
    and "ch_keys t = AList.update key (show_u64 (channel_uid (ch_uid_seq t))) (ch_keys s)"
  shows "only_owner key (channel_uid (ch_uid_seq t)) t"
proof -
  let ?n = "ch_uid_seq t"
  have low: "0 \<le> ch_uid_seq s" and le: "ch_uid_seq s \<le> ?n" using assms(1,2) by (simp_all add: uids_distinct_def)
  have new: "v \<noteq> show_u64 (channel_uid ?n)" if "identity_key k" "map_of (ch_keys s) k = Some v" for k v
  proof -
    from that assms(1) obtain m where m: "1 \<le> m" "m \<le> ch_uid_seq s" "v = show_u64 (channel_uid m)" by (auto simp: uids_distinct_def)
    then have "i64_ok m" "m \<noteq> ?n" using assms(2,3) by (auto simp: i64_ok_def)
    then show ?thesis using m low assms(2,3) by (simp add: channel_uid_inj)
  qed
  have keys: "map_of (ch_keys t) k = (if k = key then Some (show_u64 (channel_uid ?n)) else map_of (ch_keys s) k)" for k
    by (simp add: assms(5) update_conv')
  have "\<exists>n. 1 \<le> n \<and> n \<le> ?n \<and> v = show_u64 (channel_uid n)" if k: "identity_key k" "map_of (ch_keys t) k = Some v" for k v
  proof (cases "k = key")
    case True
    with k low assms(2) show ?thesis by (intro exI [of _ ?n]) (simp add: keys)
  next
    case False
    with k have "map_of (ch_keys s) k = Some v" by (simp add: keys)
    with k(1) assms(1) obtain n where "1 \<le> n" "n \<le> ch_uid_seq s" "v = show_u64 (channel_uid n)"
      unfolding uids_distinct_def by blast
    with le show ?thesis by (intro exI [of _ n]) simp
  qed
  moreover have "k = k'" if "identity_key k" "identity_key k'" "map_of (ch_keys t) k = Some v" "map_of (ch_keys t) k' = Some v" for k k' v
  proof -
    have "k = k'" if "k \<noteq> key" "k' \<noteq> key" using that \<open>identity_key k\<close> \<open>identity_key k'\<close> \<open>map_of (ch_keys t) k = Some v\<close>
        \<open>map_of (ch_keys t) k' = Some v\<close> assms(1) unfolding uids_distinct_def by (simp add: keys)
    then show ?thesis using that new by (metis keys option.inject)
  qed
  ultimately have "uids_distinct t" using low assms(2,3) unfolding uids_distinct_def by (simp only: simp_thms) auto
  with low assms(2) show ?thesis unfolding only_owner_def
    by (intro conjI exI [of _ ?n]) (auto simp: keys dest: new)
qed

lemma seq_grows:
  assumes "uids_distinct s" and "ch_uid_seq t = ch_uid_seq s \<or> ch_uid_seq t = ch_uid_seq s + 1 \<and> i64_ok (ch_uid_seq t)"
  shows "ch_uid_seq s \<le> ch_uid_seq t" "i64_ok (ch_uid_seq t)"
  using assms by (auto simp: uids_distinct_def)

text \<open>Allocating and looking up keep what is owned, and hand out ids that are owned.\<close>

lemma allocate_owner:
  assumes "only_owner key a s" and "identity_key key'" and "key' \<noteq> key" and "allocate_uid key' s = (r, t)"
  shows "only_owner key a t \<and> r \<noteq> Inr a"
  using assms(4)
proof (cases rule: allocate_cases)
  case (failed e)
  moreover from assms(1) have "uids_distinct s" by (simp add: only_owner_def)
  ultimately have "only_owner key a t" using seq_grows [OF _ failed(3)] by (intro owner_kept [OF assms(1)])
  with failed show ?thesis by simp
next
  case fresh
  from assms(1) obtain n where n: "1 \<le> n" "n \<le> ch_uid_seq s" "a = channel_uid n" and dist: "uids_distinct s"
    by (auto simp: only_owner_def)
  then have "channel_uid (ch_uid_seq t) \<noteq> a"
    using fresh(2,3) by (subst n(3), subst channel_uid_inj) (auto simp: i64_ok_def)
  moreover have "uids_distinct t" using fresh_uid [OF dist fresh(2,3) assms(2) fresh(4)] by (simp add: only_owner_def)
  ultimately show ?thesis
    using assms(1) fresh(1,2) n unfolding only_owner_def by (auto simp: fresh(4) update_conv' intro: exI [of _ n])
qed

lemma allocate_distinct:
  assumes "uids_distinct s" and "identity_key key" and "allocate_uid key s = (r, t)"
  shows "uids_distinct t \<and> (\<forall>a. r = Inr a \<longrightarrow> only_owner key a t)"
  using assms(3)
proof (cases rule: allocate_cases)
  case (failed e)
  then show ?thesis using distinct_kept [OF assms(1) failed(2)] seq_grows [OF assms(1) failed(3)] by simp
next
  case fresh
  then show ?thesis using fresh_uid [OF assms(1) fresh(2,3) assms(2) fresh(4)] by (auto simp: only_owner_def)
qed

lemma get_or_create_distinct:
  assumes "uids_distinct s" and "get_or_create_synthetic_user_id c t u s = (r, s')"
  shows "uids_distinct s' \<and> (\<forall>a. r = Inr a \<longrightarrow> only_owner (channel_identity_key (trim_space c) (trim_space t) (trim_space u)) a s')"
  using assms(2)
proof (cases rule: get_or_create_cases)
  case (known v n)
  let ?key = "channel_identity_key (trim_space c) (trim_space t) (trim_space u)"
  have s': "uids_distinct s'" using known(2,3) assms(1) by (simp add: uids_distinct_def)
  from assms(1) known(4) obtain m where m: "1 \<le> m" "m \<le> ch_uid_seq s" "v = show_u64 (channel_uid m)"
    unfolding uids_distinct_def using key_kinds(1) by blast
  with known(5) have n: "n = channel_uid m" by simp
  have "k = ?key" if "identity_key k" "map_of (ch_keys s) k = Some v" for k
    using assms(1) that known(4) key_kinds(1) unfolding uids_distinct_def by blast
  with s' m n known(1-3) show ?thesis unfolding only_owner_def by (auto intro: exI [of _ m])
next
  case (unknown s1)
  have "uids_distinct s1" using unknown(1,2) assms(1) by (simp add: uids_distinct_def)
  from allocate_distinct [OF this key_kinds(1) unknown(3)] show ?thesis .
qed (use assms(1) in \<open>simp add: uids_distinct_def\<close>)

lemma get_or_create_owner:
  assumes "only_owner key a s" and "get_or_create_synthetic_user_id c t u s = (r, s')"
  shows "only_owner key a s' \<and> (channel_identity_key (trim_space c) (trim_space t) (trim_space u) \<noteq> key \<longrightarrow> r \<noteq> Inr a)"
  using assms(2)
proof (cases rule: get_or_create_cases)
  case (known v n)
  let ?key = "channel_identity_key (trim_space c) (trim_space t) (trim_space u)"
  have "only_owner key a s'" using known(2,3) assms(1) by (simp add: only_owner_def uids_distinct_def)
  moreover have "n \<noteq> a" if "?key \<noteq> key"
  proof -
    from assms(1) known(4) obtain m where "v = show_u64 (channel_uid m)"
      unfolding only_owner_def uids_distinct_def using key_kinds(1) by blast
    moreover have "v \<noteq> show_u64 a" using assms(1) known(4) that key_kinds(1) unfolding only_owner_def by blast
    ultimately show ?thesis using known(5) by auto
  qed
  ultimately show ?thesis using known(1) by simp
next
  case (unknown s1)
  let ?key = "channel_identity_key (trim_space c) (trim_space t) (trim_space u)"
  have s1: "only_owner key a s1" using unknown(1,2) assms(1) by (simp add: only_owner_def uids_distinct_def)
  show ?thesis
  proof (cases "?key = key")
    case False
    then show ?thesis using allocate_owner [OF s1 key_kinds(1) False unknown(3)] by simp
  next
    case True
    from s1 have "uids_distinct s1" by (simp add: only_owner_def)
    then have "uids_distinct s'" using allocate_distinct [OF _ key_kinds(1) unknown(3)] by blast
    with unknown(3) show ?thesis
    proof (cases rule: allocate_cases)
      case (failed e)
      with s1 \<open>uids_distinct s1\<close> True show ?thesis using owner_kept [OF s1 failed(2)] seq_grows [OF _ failed(3)] by simp
    next
      case fresh
      with s1 \<open>uids_distinct s'\<close> True show ?thesis unfolding only_owner_def
        by (auto simp: update_conv' intro: exI order_trans)
    qed
  qed
qed (use assms(1) in \<open>simp add: only_owner_def uids_distinct_def\<close>)

text \<open>Keys of other kinds, and keys that go, take nothing away.\<close>

lemma owner_other_keys:
  assumes "only_owner key a s" and "\<And>k. identity_key k \<Longrightarrow> map_of ks k = map_of (ch_keys s) k \<or> map_of ks k = None"
  shows "only_owner key a (s\<lparr>ch_keys := ks\<rparr>)"
proof -
  have old: "map_of (ch_keys s) k = Some v" if "identity_key k" "map_of ks k = Some v" for k v
    using assms(2) [OF that(1)] that(2) by auto
  have "uids_distinct (s\<lparr>ch_keys := ks\<rparr>)"
    using assms(1) unfolding only_owner_def uids_distinct_def by (simp del: split_paired_All) (blast dest: old)
  then show ?thesis using assms(1) unfolding only_owner_def by (simp del: split_paired_All) (blast dest: old)
qed

lemma distinct_other_keys:
  assumes "uids_distinct s" and "\<And>k. identity_key k \<Longrightarrow> map_of ks k = map_of (ch_keys s) k \<or> map_of ks k = None"
  shows "uids_distinct (s\<lparr>ch_keys := ks\<rparr>)"
proof -
  have old: "map_of (ch_keys s) k = Some v" if "identity_key k" "map_of ks k = Some v" for k v
    using assms(2) [OF that(1)] that(2) by auto
  show ?thesis using assms(1) unfolding uids_distinct_def by (simp del: split_paired_All) (blast dest: old)
qed

lemma keeps_setnx: "quietly I \<Longrightarrow> (\<And>s. I s \<Longrightarrow> I (s\<lparr>ch_keys := AList.update k v (ch_keys s)\<rparr>)) \<Longrightarrow> keeps I (channel_setnx k v)"
  unfolding channel_setnx_def by (intro keeps_io) (auto simp: keeps_def split: option.split)

interpretation distinct_uids: hub_invariant uids_distinct "{}"
proof
  show "keeps uids_distinct (get_or_create_synthetic_user_id c t u)" for c t u
    using get_or_create_distinct by (intro keepsI) blast
  show "keeps uids_distinct (channel_set (channel_session_key c t k) v)" for c t k v
    unfolding channel_set_def
    by (intro keeps_write distinct_other_keys uids_blind [THEN im_blind_chat, THEN blind_quiet]) (auto simp: update_conv')
  show "keeps uids_distinct (channel_setnx (channel_dedup_key c ev) v)" for c ev v
    by (intro keeps_setnx distinct_other_keys uids_blind [THEN im_blind_chat, THEN blind_quiet]) (auto simp: update_conv')
  show "uids_distinct (channel_expire k s)" if "uids_distinct s" for k s
    unfolding channel_expire_def by (intro distinct_other_keys that) (simp add: delete_conv')
qed (simp add: uids_blind, simp add: uids_distinct_def)

interpretation owned_uid: hub_invariant "only_owner key a" "{}" for key a
proof
  show "keeps (only_owner key a) (get_or_create_synthetic_user_id c t u)" for c t u
    using get_or_create_owner by (intro keepsI) blast
  show "keeps (only_owner key a) (channel_set (channel_session_key c t k) v)" for c t k v
    unfolding channel_set_def
    by (intro keeps_write owner_other_keys uids_blind [THEN im_blind_chat, THEN blind_quiet]) (auto simp: update_conv')
  show "keeps (only_owner key a) (channel_setnx (channel_dedup_key c ev) v)" for c ev v
    by (intro keeps_setnx owner_other_keys uids_blind [THEN im_blind_chat, THEN blind_quiet]) (auto simp: update_conv')
  show "only_owner key a (channel_expire k s)" if "only_owner key a s" for k s
    unfolding channel_expire_def by (intro owner_other_keys that) (simp add: delete_conv')
qed (simp add: uids_blind, simp add: only_owner_def uids_distinct_def)

text \<open>C36: Two identities never share an id: whatever webhooks arrive, goroutines run, calls fail and keys expire before and in between,
  the id that one identity got is not given to an identity with another key, and it lies above the base, out of the reach of
  the ids of registered users.\<close>

theorem channel_users_never_share_an_id:
  assumes "hub_run e {} s0 s" and "ch_keys s0 = []" and "ch_uid_seq s0 = 0"
    and "get_or_create_synthetic_user_id c t u s = (Inr a, s1)" and "hub_run e {} s1 s2"
    and "get_or_create_synthetic_user_id c' t' u' s2 = (Inr b, s3)"
    and "channel_identity_key (trim_space c') (trim_space t') (trim_space u') \<noteq>
      channel_identity_key (trim_space c) (trim_space t) (trim_space u)"
  shows "a \<noteq> b \<and> channel_synthetic_uid_base < a"
proof -
  have "uids_distinct s0" using assms(2,3) by (simp add: uids_distinct_def i64_ok_def)
  with assms(1) have "uids_distinct s" by (rule distinct_uids.run_keeps)
  from get_or_create_distinct [OF this assms(4)]
  have own: "only_owner (channel_identity_key (trim_space c) (trim_space t) (trim_space u)) a s1" by blast
  then obtain n where n: "1 \<le> n" "i64_ok n" "a = channel_uid n"
    unfolding only_owner_def uids_distinct_def i64_ok_def by (metis order_le_less_trans order_trans le_minus_one_simps(1) neg_le_0_iff_le zero_le_numeral zero_le_power)
  have "uint (channel_uid n) = 9000000000000000000 + n"
    using n by (simp add: channel_uid_def channel_synthetic_uid_base_def uint_word_ariths unsigned_of_int take_bit_int_eq_self i64_ok_def)
  then have "channel_synthetic_uid_base < a"
    using n by (simp add: word_less_def channel_synthetic_uid_base_def)
  moreover have "only_owner (channel_identity_key (trim_space c) (trim_space t) (trim_space u)) a s2"
    using assms(5) own by (rule owned_uid.run_keeps)
  with get_or_create_owner [OF this assms(6)] assms(7) have "a \<noteq> b" by blast
  ultimately show ?thesis by blast
qed

section \<open>Repeated events\<close>

definition event_key :: "inbound \<Rightarrow> string" where
  "event_key m = channel_dedup_key (trim_space (ib_channel m)) (trim_space (ib_event m))"

definition marked :: "string \<Rightarrow> 'r im_st_scheme \<Rightarrow> bool" where
  "marked k s \<longleftrightarrow> ch_on s \<and> map_of (ch_keys s) k \<noteq> None"

lemma marked_blind: "im_blind (marked k)"
  by (simp add: blind_defs marked_def)

lemmas quietly_marked = marked_blind [THEN im_blind_chat, THEN blind_quiet]

lemma marked_set: "keeps (marked k) (channel_set k' v)"
  unfolding channel_set_def by (intro keeps_write quietly_marked) (auto simp: marked_def update_conv')

lemma marked_identity: "keeps (marked k) (get_or_create_synthetic_user_id c t u)"
proof -
  have "keeps (marked k) channel_incr_uid"
    unfolding channel_incr_uid_def by (intro keeps_io quietly_marked) (simp add: keeps_def marked_def)
  then show ?thesis
    unfolding get_or_create_synthetic_user_id_def known_uid_def channel_get_def allocate_uid_def Let_def
    by (intro keeps_rules marked_set quietly_marked)
qed

interpretation marks: hub_invariant "marked k" "{k}" for k
proof
  show "keeps (marked k) (channel_setnx (channel_dedup_key c ev) v)" for c ev v
    by (intro keeps_setnx quietly_marked) (auto simp: marked_def update_conv')
qed (auto simp: marked_blind marked_identity marked_set marked_def channel_expire_def delete_conv')

definition next_call_fails :: "'r io_st_scheme \<Rightarrow> bool" where
  "next_call_fails s \<longleftrightarrow> (\<exists>fs. faults s = True # fs)"

lemma io_next: "io m s = (if next_call_fails s then (Inl IOError, s\<lparr>faults := tl (faults s)\<rparr>) else m (s\<lparr>faults := tl (faults s)\<rparr>))"
  by (cases "faults s") (auto simp: io_def next_call_fails_def intro!: arg_cong [of _ _ m])

text \<open>The first delivery is found out by its mark, and leaves it; if the store cannot be asked, any delivery is taken for the first.\<close>

lemma first_delivery_run:
  assumes "ch_on s" and "trim_space (ib_channel m) \<noteq> []" and "trim_space (ib_event m) \<noteq> []"
  shows "first_delivery m s = (Inr (next_call_fails s \<or> map_of (ch_keys s) (event_key m) = None),
    s\<lparr>faults := tl (faults s), ch_keys := if \<not> next_call_fails s \<and> map_of (ch_keys s) (event_key m) = None
      then AList.update (event_key m) ''1'' (ch_keys s) else ch_keys s\<rparr>)"
proof -
  have "ib_event m \<noteq> []" using assms(3) by auto
  with assms show ?thesis
    by (simp add: first_delivery_def mark_event_processed_def event_key_def channel_setnx_def bnd_def attempt_def gets_run io_next
        ret_run Let_def split: option.split)
qed

lemma spawn_marked: "marked k s \<Longrightarrow> spawn j s = (r, t) \<Longrightarrow> marked k t"
  by (auto simp: spawn_def modify_eq marked_def)

text \<open>C37: An event that was taken is not taken again as long as its mark lasts and the store answers. Once a webhook with a message
  was answered, and the call that marks its event did not fail, a webhook that brings the same event, whatever happened in
  between short of the mark's expiry and whatever else failed, is answered with the adapter's JSON body and changes nothing: no
  turn is started, no hint is sent. If the call of this second webhook fails, the failure is only logged, and the event
  starts a second turn.\<close>

theorem event_starts_one_turn:
  assumes "answer_webhook name res s = (r, t)" and "\<not> next_call_fails s" and "ch_on s" and "wr_async res = Some m"
    and "trim_space (ib_channel m) \<noteq> []" and "trim_space (ib_event m) \<noteq> []"
    and "hub_run e {event_key m} t t'"
    and "wr_async res' = Some m'" and "ib_channel m' = ib_channel m" and "ib_event m' = ib_event m"
  shows "if next_call_fails t'
    then should_process m' \<longrightarrow> ch_jobs (snd (answer_webhook name' res' t')) = ch_jobs t' @ [ProcessJob name' m']
    else answer_webhook name' res' t' =
      (Inr (AnswerJson (if wr_status res' \<le> 0 then 200 else wr_status res') (wr_body res')), t'\<lparr>faults := tl (faults t')\<rparr>)"
proof -
  have named: "ib_channel m \<noteq> []" "ib_channel m' \<noteq> []" using assms(5,9) by auto
  have key: "event_key m' = event_key m" using assms(9,10) by (simp add: event_key_def)
  have "marked (event_key m) (snd (first_delivery m s))"
    using first_delivery_run [OF assms(3,5,6)] assms(2,3) by (auto simp: marked_def update_conv')
  then have "marked (event_key m) t"
    using assms(1,4) first_delivery_run [OF assms(3,5,6)] named(1)
    by (auto simp: answer_webhook_def Let_def bnd_def guarded_run ret_run spawn_def modify_run marked_def split: if_splits)
  with assms(7) have "marked (event_key m) t'" by (rule marks.run_keeps)
  then have there: "ch_on t'" "map_of (ch_keys t') (event_key m') \<noteq> None" by (simp_all add: marked_def key)
  have "first_delivery m' t' = (Inr (next_call_fails t'), t'\<lparr>faults := tl (faults t')\<rparr>)"
    using first_delivery_run [OF there(1), of m'] there(2) assms(5,6,9,10) by auto
  then show ?thesis using assms(8) named(2) by (simp add: answer_webhook_def Let_def bnd_def ret_run spawn_def modify_run)
qed

section \<open>A medium answer\<close>

text \<open>C38: A user of a messenger, with an id and a session, whose question the assistant answers with a medium text (more than 240 bytes
  and fewer than 240 runes, where the rune slice got no spare room) gets no reply: the goroutine that processes the message
  panics, and as nothing recovers it the whole server ends. The same answer to a browser only fails its request.\<close>

theorem medium_answer_ends_the_process:
  fixes s :: "'r im_st_scheme"
  assumes "settled uid s" and "ch_on s" and "agent_url s" and "agent_busy s < agent_slots s" and "uid \<noteq> 0"
    and known: "map_of (ch_keys s) (channel_identity_key (trim_space (ib_channel m)) (trim_space (ib_tenant m)) (trim_space (ib_user m))) = Some (show_u64 uid)"
      "map_of (ch_keys s) (channel_session_key (trim_space (ib_channel m)) (trim_space (ib_tenant m)) (trim_space (ib_chat m))) = Some sid"
      "sid \<noteq> []" "trim_space sid = sid" "listed uid sid s"
    and named: "trim_space (ib_channel m) \<noteq> []" "trim_space (ib_tenant m) \<noteq> []" "trim_space (ib_user m) \<noteq> []" "trim_space (ib_chat m) \<noteq> []"
    and "should_process m"
    and answer: "\<And>q. en_agent en q = Stream ls f (c1, c2, c3)"
      "\<And>q now. trim_space (rn_answer (run_lines en None ls (turn_start uid (trim_space (ib_text m)) sid q now))) = words"
    and medium: "240 < length words" "en_cap en (length (runes words)) < 240"
  shows "\<exists>t. process_inbound en uuid name m s = (Inl GoPanic, t) \<and> ch_jobs t = ch_jobs s"
proof -
  let ?s = "s\<lparr>agent_busy := Suc (agent_busy s)\<rparr>"
  have calm: "faults ?s = []" "ch_on ?s" "chat_on ?s" "agent_url ?s" "settled uid ?s"
    using settled_faults [OF assms(1)] assms(1-3) by (simp_all add: settled_def calm_def)
  have who: "get_or_create_synthetic_user_id (ib_channel m) (ib_tenant m) (ib_user m) ?s = (Inr uid, ?s)"
    using calm named known(1) assms(5)
    by (simp add: get_or_create_synthetic_user_id_def known_uid_def channel_get_def bnd_def gets_run attempt_def io_nil ret_run Let_def word_gt_0)
  have "in_index uid sid ?s = (Inr True, ?s)"
    using known(5) calm(1) by (auto simp: in_index_def io_nil gets_run listed_def)
  then have "session_exists uid sid ?s = (Inr True, ?s)"
    using settled_run [OF calm(5)] calm(3) assms(5) known(3) by (simp add: session_exists_def with_store_def bnd_def gets_run ret_run attempt_def)
  then have which: "get_or_create_chat_session_id (ib_channel m) (ib_tenant m) uid (ib_chat m) ?s = (Inr sid, ?s)"
    using calm named known(2-4) assms(5)
    by (simp add: get_or_create_chat_session_id_def known_session_def channel_get_def bnd_def gets_run attempt_def io_nil ret_run Let_def)
  obtain h where hist: "run_history uid sid ?s = (Inr h, ?s)"
    using list_messages_run [OF calm(5) assms(5) known(3), of 12] calm(3) assms(5) known(3)
    by (simp add: run_history_def bnd_def gets_run ret_run attempt_def agent_chat_max_short_messages_def)
  have "words \<noteq> []" using medium(1) by auto
  then have fin: "finalize (en_cap en) (en_walk en) now words err ab a = None" for now err ab a
    using medium by (simp add: finalize_def final_output_def slice_runes_def Let_def)
  have "trim_space (ib_text m) \<noteq> []" using assms(15) by (simp add: should_process_def)
  then have "run_agent_chat en uid (ib_text m) [] sid (ib_channel m @ ''-'' @ uuid) None ?s = (Inl GoPanic, ?s)"
    using calm hist answer(1) known(4)
    by (simp add: run_agent_chat_def bnd_def gets_run Let_def finish_turn_def answer(2) fin throw_def)
  then have "process_turn en uuid name m ?s = (Inl GoPanic, ?s)"
    using who which by (simp add: process_turn_def bnd_def attempt_def)
  then show ?thesis
    using assms(2,4) settled_faults(2) [OF assms(1)]
    by (simp add: process_inbound_def bnd_def gets_run try_acquire_agent_slot_def deferred_def release_agent_slot_def modify_run)
qed

section \<open>Runs\<close>

definition im_demo :: im_st where
  "im_demo = \<lparr>faults = [], wallets = [], ledger = [], clock_now = 0, clock_day = (2025, 3, 1), snowflake = of_nat, id_seq = 0,
     points_redis = False, daily = (\<lambda>_. None), checkins = (\<lambda>_ _. False), wallet_cache = (\<lambda>_. None), earn_kafka = False, earn_topic = [],
     chat_on = True, chat_lists = (\<lambda>_. []), chat_metas = (\<lambda>_. None), chat_index = (\<lambda>_. [ZMember 1 ''abcd'']), chat_current = (\<lambda>_. None),
     legacy_list = (\<lambda>_. []), legacy_state = (\<lambda>_. None), chat_ids = (\<lambda>_. ''ef01''), chat_seq = 0, agent_url = True,
     agent_busy = 0, agent_slots = 2, agent_cleared = [], ch_on = True, ch_keys = [], ch_uid_seq = 0, ch_jobs = [], im_log = [],
     feishu_token = ([], 0), wecom_token = ([], 0)\<rparr>"

definition im_message :: inbound where
  "im_message = \<lparr>ib_channel = ''slack'', ib_tenant = ''slack'', ib_event = ''ev'', ib_user = ''ann'', ib_chat = ''dm'', ib_text = ''Hi'',
     ib_kind = ''text'', ib_group = False, ib_mention = False, ib_meta = []\<rparr>"

lemma im_trims: "trim_space ''slack'' = ''slack''" "trim_space ''ann'' = ''ann''" "trim_space ''bob'' = ''bob''" "trim_space ''dm'' = ''dm''"
  "trim_space ''ev'' = ''ev''"
  by (rule trim_space_id; simp add: printing_def)+

lemma allocated_run:
  assumes "faults s = []" and "ch_on s" and "i64_ok (ch_uid_seq s + 1)" and "trim_space c \<noteq> []" "trim_space t \<noteq> []" "trim_space u \<noteq> []"
    and "map_of (ch_keys s) (channel_identity_key (trim_space c) (trim_space t) (trim_space u)) = None"
  shows "\<exists>s'. get_or_create_synthetic_user_id c t u s = (Inr (channel_uid (ch_uid_seq s + 1)), s') \<and> faults s' = [] \<and> ch_on s' \<and>
    ch_uid_seq s' = ch_uid_seq s + 1 \<and> ch_keys s' = AList.update (channel_identity_key (trim_space c) (trim_space t) (trim_space u))
      (show_u64 (channel_uid (ch_uid_seq s + 1))) (ch_keys s)"
  using assms by (simp add: get_or_create_synthetic_user_id_def known_uid_def channel_get_def allocate_uid_steps channel_incr_uid_def
      channel_set_def bnd_def gets_run attempt_def io_nil ret_run modify_run Let_def)

theorem channel_users_never_share_an_id_witness:
  "\<exists>a b s1 s3. get_or_create_synthetic_user_id ''slack'' ''slack'' ''ann'' im_demo = (Inr a, s1) \<and>
     get_or_create_synthetic_user_id ''slack'' ''slack'' ''bob'' s1 = (Inr b, s3) \<and> a \<noteq> b"
proof -
  have demo: "faults im_demo = []" "ch_on im_demo" "ch_keys im_demo = []" "ch_uid_seq im_demo = 0" by (simp_all add: im_demo_def)
  obtain s1 where one: "get_or_create_synthetic_user_id ''slack'' ''slack'' ''ann'' im_demo = (Inr (channel_uid 1), s1)"
    and s1: "faults s1 = []" "ch_on s1" "ch_uid_seq s1 = 1"
      "ch_keys s1 = [(channel_identity_key ''slack'' ''slack'' ''ann'', show_u64 (channel_uid 1))]"
    using allocated_run [of im_demo "''slack''" "''slack''" "''ann''"] demo by (auto simp: im_trims i64_ok_def)
  have keys: "channel_identity_key ''slack'' ''slack'' ''bob'' \<noteq> channel_identity_key ''slack'' ''slack'' ''ann''"
    by (simp add: channel_identity_key_def)
  obtain s3 where two: "get_or_create_synthetic_user_id ''slack'' ''slack'' ''bob'' s1 = (Inr (channel_uid 2), s3)"
    using allocated_run [of s1 "''slack''" "''slack''" "''bob''"] s1 keys by (auto simp: im_trims i64_ok_def)
  from channel_users_never_share_an_id [OF hub_run.start demo(3,4) one hub_run.start two] keys
  show ?thesis using one two by (intro exI conjI) (auto simp: im_trims)
qed

abbreviation im_result :: webhook_result where
  "im_result \<equiv> (webhook_status 200)\<lparr>wr_async := Some im_message\<rparr>"

theorem event_starts_one_turn_witness:
  "\<exists>r t. answer_webhook ''slack'' im_result im_demo = (r, t) \<and> ch_jobs t = [ProcessJob ''slack'' im_message] \<and>
     answer_webhook ''slack'' im_result t = (Inr (AnswerJson 200 None), t)"
proof -
  have demo: "\<not> next_call_fails im_demo" "ch_on im_demo" "ch_keys im_demo = []" by (simp_all add: im_demo_def next_call_fails_def)
  have m: "trim_space (ib_channel im_message) \<noteq> []" "trim_space (ib_event im_message) \<noteq> []" "should_process im_message" "ib_channel im_message \<noteq> []"
    by (simp_all add: im_message_def im_trims should_process_def trims)
  obtain r t where run: "answer_webhook ''slack'' im_result im_demo = (r, t)" by (metis prod.collapse)
  then have t: "faults t = []" "ch_jobs t = [ProcessJob ''slack'' im_message]"
    using first_delivery_run [OF demo(2) m(1,2)] m(3,4) demo(1,3)
    by (auto simp: answer_webhook_def Let_def bnd_def ret_run spawn_def modify_run im_demo_def)
  then have "\<not> next_call_fails t" "t\<lparr>faults := tl (faults t)\<rparr> = t" by (simp_all add: next_call_fails_def)
  have "answer_webhook ''slack'' im_result t = (Inr (AnswerJson 200 None), t)"
    using event_starts_one_turn [OF run demo(1,2) _ m(1,2) hub_run.start, of im_result im_message] \<open>\<not> next_call_fails t\<close>
      \<open>t\<lparr>faults := tl (faults t)\<rparr> = t\<close> by simp
  with run t(2) show ?thesis by blast
qed

text \<open>An assistant that answers with one hundred Chinese characters.\<close>

definition long_word :: string where
  "long_word = concat (replicate 100 (utf8 [229, 165, 189]))"

definition long_frame :: json where
  "long_frame = JObj [(''type'', JStr ''token''), (''content'', JStr long_word)]"

definition long_agent :: agent_env where
  "long_agent = demo_agent\<lparr>en_parse := (\<lambda>s. if s = ''1'' then Some long_frame else None)\<rparr>"

lemma long_lines: "rn_answer (run_lines long_agent None [(''data: 1'', False)] (turn_start u msg sid request now)) = long_word"
  by (simp add: run_line_def run_data_def Let_def trims long_agent_def demo_agent_def turn_start_def parse_fact_envelope_def long_frame_def
      is_object_def is_fact_frame_def is_legacy_mirror_def raw_member_def d_legacy_def d_struct_def field_for_def at_def d_string_def
      fold_name_def process_agent_data_payload_def process_legacy_def)

lemma long_word_ends: "\<exists>x. long_word = utf8 [229, 165, 189] @ x" "\<exists>x. long_word = x @ utf8 [229, 165, 189]"
proof -
  have n: "(100 :: nat) = Suc 99" by simp
  have "long_word = utf8 [229, 165, 189] @ concat (replicate 99 (utf8 [229, 165, 189]))"
    unfolding long_word_def n replicate_Suc by simp
  then show "\<exists>x. long_word = utf8 [229, 165, 189] @ x" by blast
  have "long_word = concat (replicate 99 (utf8 [229, 165, 189])) @ utf8 [229, 165, 189]"
    unfolding long_word_def n replicate_Suc replicate_append_same [symmetric] by simp
  then show "\<exists>x. long_word = x @ utf8 [229, 165, 189]" by blast
qed

lemma trim_space_ends:
  assumes "s \<noteq> []" and "\<forall>p \<in> set space_codes. hd p \<noteq> hd s \<and> last p \<noteq> last s"
  shows "trim_space s = s"
proof -
  have "\<not> prefix p s" "\<not> prefix (rev p) (rev s)" if p: "p \<in> set space_codes" "p \<noteq> []" for p
    using assms p(2) bspec [OF assms(2) p(1)] unfolding suffix_to_prefix [symmetric] by (auto simp: prefix_def suffix_def)
  then have "\<forall>p \<in> set space_codes. p \<noteq> [] \<longrightarrow> \<not> prefix p s" and "\<forall>p \<in> set (map rev space_codes). p \<noteq> [] \<longrightarrow> \<not> prefix p (rev s)"
    by fastforce+
  then have "trim_left s = s" and "strip_codes (map rev space_codes) (rev s) = rev s"
    unfolding trim_left_def by (blast intro: strip_codes_id)+
  then show ?thesis by (simp add: trim_space_def trim_right_def)
qed

lemma long_word_trimmed: "trim_space long_word = long_word"
proof -
  have codes: "list_all (\<lambda>p. hd p \<noteq> char_of (229 :: nat) \<and> last p \<noteq> char_of (189 :: nat)) space_codes" by code_simp
  obtain x y where x: "long_word = utf8 [229, 165, 189] @ x" and y: "long_word = y @ utf8 [229, 165, 189]"
    using long_word_ends by blast
  have "hd long_word = char_of (229 :: nat)" "long_word \<noteq> []" unfolding x by (simp_all add: utf8_def)
  moreover have "last long_word = char_of (189 :: nat)" unfolding y by (simp add: utf8_def)
  ultimately show ?thesis using codes by (intro trim_space_ends) (simp_all add: list_all_iff)
qed

lemma long_word_sizes: "length long_word = 300" "length (runes long_word) = 100"
proof -
  have "three_byte_rune (utf8 [229, 165, 189])"
    by (simp add: three_byte_rune_def utf8_def cont_byte_def of_char_of take_bit_nat_eq_self)
  then show "length (runes long_word) = 100" by (simp add: long_word_def runes_three del: concat_replicate_trivial)
  show "length long_word = 300" by (simp add: long_word_def utf8_def length_concat sum_list_replicate del: concat_replicate_trivial)
qed

definition known_demo :: im_st where
  "known_demo = im_demo\<lparr>ch_keys := [(channel_identity_key ''slack'' ''slack'' ''ann'', show_u64 7), (channel_session_key ''slack'' ''slack'' ''dm'', ''abcd'')]\<rparr>"

theorem medium_answer_ends_the_process_witness:
  "\<exists>t. process_inbound long_agent ''id'' ''slack'' im_message known_demo = (Inl GoPanic, t) \<and> ch_jobs t = []"
proof -
  have keys: "channel_session_key ''slack'' ''slack'' ''dm'' \<noteq> channel_identity_key ''slack'' ''slack'' ''ann''"
    by (simp add: channel_session_key_def channel_identity_key_def)
  have agent: "en_agent long_agent q = Stream [(''data: 1'', False)] False (False, False, False)" for q
    by (simp add: long_agent_def demo_agent_def)
  have m: "should_process im_message" by (simp add: im_message_def should_process_def trims)
  have "\<exists>t. process_inbound long_agent ''id'' ''slack'' im_message known_demo = (Inl GoPanic, t) \<and> ch_jobs t = ch_jobs known_demo"
  proof (rule medium_answer_ends_the_process [where uid = 7 and sid = "''abcd''" and words = long_word, OF _ _ _ _ _ _ _ _ _ _ _ _ _ _ m agent])
    show "trim_space (rn_answer (run_lines long_agent None [(''data: 1'', False)] (turn_start 7 (trim_space (ib_text im_message)) ''abcd'' q now))) = long_word" for q now
      by (simp only: long_lines long_word_trimmed)
    show "en_cap long_agent (length (runes long_word)) < 240" by (simp add: long_word_sizes long_agent_def demo_agent_def)
  qed (use keys in \<open>simp_all add: known_demo_def im_demo_def im_message_def im_trims trims settled_def calm_def listed_def long_word_sizes\<close>)
  then show ?thesis by (simp add: known_demo_def im_demo_def)
qed

end
