(* ===== verification/Float64.thy ===== *)
theory Float64
  imports Complex_Main "HOL-Library.Log_Nat"
begin

text \<open>
  The arithmetic of \<open>float64\<close> as far as the sources use it: a number is a rational, and each operation is the exact one
  followed by \<open>float64\<close>, rounding to 53 significant bits, a tie to the even neighbour. There are no infinities and no
  subnormal numbers, which the programs' values are far from.
\<close>

section \<open>Rounding\<close>

definition round_even :: "rat \<Rightarrow> int" where
  "round_even y = (let n = \<lfloor>y\<rfloor>; r = y - of_int n in
     if r < 1 / 2 then n else if r > 1 / 2 then n + 1 else if even n then n else n + 1)"

text \<open>The \<open>b\<close> with \<open>2 ^ b \<le> |x| < 2 ^ (b + 1)\<close>: the difference of the lengths of numerator and denominator, or one less.\<close>

definition binade :: "rat \<Rightarrow> int" where
  "binade x = (case quotient_of \<bar>x\<bar> of (n, d) \<Rightarrow>
     let b = int (floorlog 2 (nat n)) - int (floorlog 2 (nat d)) in if 2 powi b \<le> \<bar>x\<bar> then b else b - 1)"

definition float64 :: "rat \<Rightarrow> rat" where
  "float64 x = (if x = 0 then 0 else let ulp = 2 powi (binade x - 52) in of_int (round_even (x / ulp)) * ulp)"

lemma round_even_error: "\<bar>of_int (round_even y) - y\<bar> \<le> 1 / 2"
proof -
  have "0 \<le> y - of_int \<lfloor>y\<rfloor>" "y - of_int \<lfloor>y\<rfloor> < 1" by linarith+
  then show ?thesis unfolding round_even_def Let_def by (simp add: abs_if) linarith
qed

lemma round_even_of_int [simp]: "round_even (of_int n) = n"
  by (simp add: round_even_def)

lemma round_even_nonneg: "0 \<le> y \<Longrightarrow> 0 \<le> round_even y"
  by (simp add: round_even_def Let_def)

lemma floorlog_nat_bounds:
  assumes "0 < n"
  shows "2 powi (int (floorlog 2 (nat n)) - 1) \<le> (of_int n :: rat)" and "(of_int n :: rat) < 2 powi int (floorlog 2 (nat n))"
proof -
  let ?l = "floorlog 2 (nat n)"
  have l: "0 < ?l" using assms by (simp add: floorlog_def)
  have "2 ^ (?l - 1) \<le> nat n" "nat n < 2 ^ ?l" using floorlog_bounds [of "nat n" 2] assms by simp_all
  then have "2 ^ (?l - 1) \<le> n" "n < 2 ^ ?l" using assms by (simp_all add: le_nat_iff nat_less_iff)
  then have "(of_int (2 ^ (?l - 1)) :: rat) \<le> of_int n" "(of_int n :: rat) < of_int (2 ^ ?l)" by (simp_all only: of_int_le_iff of_int_less_iff)
  moreover have "int ?l - 1 = int (?l - 1)" using l by simp
  ultimately show "2 powi (int ?l - 1) \<le> (of_int n :: rat)" "(of_int n :: rat) < 2 powi int ?l"
    by (simp_all only: of_int_power of_int_numeral power_int_of_nat)
qed

lemma binade_bounds:
  assumes "x \<noteq> 0"
  shows "2 powi binade x \<le> \<bar>x\<bar>" and "\<bar>x\<bar> < 2 powi (binade x + 1)"
proof -
  obtain n d where q: "quotient_of \<bar>x\<bar> = (n, d)" by force
  have d: "0 < d" using quotient_of_denom_pos [OF q] .
  have x: "\<bar>x\<bar> = of_int n / of_int d" using quotient_of_div [OF q] .
  have "0 < of_int n / (of_int d :: rat)" unfolding x [symmetric] using assms by simp
  with d have n: "0 < n" by (simp add: zero_less_divide_iff)
  let ?a = "int (floorlog 2 (nat n))" and ?c = "int (floorlog 2 (nat d))"
  note bn = floorlog_nat_bounds [OF n] and bd = floorlog_nat_bounds [OF d]
  have "\<bar>x\<bar> < 2 powi ?a / 2 powi (?c - 1)" unfolding x using bn bd d n by (intro frac_less) simp_all
  also have "\<dots> = 2 powi (?a - ?c + 1)" by (simp add: power_int_diff power_int_add)
  finally have up: "\<bar>x\<bar> < 2 powi (?a - ?c + 1)" .
  have "2 powi (?a - 1) / 2 powi ?c \<le> \<bar>x\<bar>" unfolding x using bn bd d n by (intro frac_le) simp_all
  moreover have "2 powi (?a - 1) / 2 powi ?c = (2 powi (?a - ?c - 1) :: rat)" by (simp add: power_int_diff)
  ultimately have low: "2 powi (?a - ?c - 1) \<le> \<bar>x\<bar>" by simp
  show "2 powi binade x \<le> \<bar>x\<bar>" "\<bar>x\<bar> < 2 powi (binade x + 1)"
    using up low by (simp_all add: binade_def q Let_def not_le)
qed

lemma scaled_error: "0 < u \<Longrightarrow> \<bar>r * u - x\<bar> = \<bar>r - x / u\<bar> * (u :: rat)"
proof -
  assume u: "0 < u"
  then have "r * u - x = (r - x / u) * u" by (simp add: field_simps)
  with u show ?thesis by (simp add: abs_mult)
qed

lemma float64_error: "\<bar>float64 x - x\<bar> \<le> \<bar>x\<bar> / 2 ^ 53"
proof (cases "x = 0")
  case False
  let ?ulp = "2 powi (binade x - 52) :: rat"
  have "\<bar>of_int (round_even (x / ?ulp)) * ?ulp - x\<bar> = \<bar>of_int (round_even (x / ?ulp)) - x / ?ulp\<bar> * ?ulp"
    by (rule scaled_error) simp
  also have "\<dots> \<le> 1 / 2 * ?ulp" by (intro mult_right_mono round_even_error) simp
  also have "\<dots> = 2 powi binade x / 2 ^ 53" by (simp add: power_int_diff)
  also have "\<dots> \<le> \<bar>x\<bar> / 2 ^ 53" by (intro divide_right_mono binade_bounds False) simp
  finally show ?thesis using False by (simp add: float64_def Let_def)
qed (simp add: float64_def)

lemma float64_0 [simp]: "float64 0 = 0"
  by (simp add: float64_def)

lemma float64_nonneg: "0 \<le> x \<Longrightarrow> 0 \<le> float64 x"
  by (simp add: float64_def Let_def round_even_nonneg)

lemma float64_le: "0 \<le> x \<Longrightarrow> float64 x \<le> x + x / 2 ^ 53"
  using float64_error [of x] by linarith

text \<open>What is rounded has at most 53 bits, and whole numbers of 53 bits are not changed.\<close>

lemma float64_bits: "\<exists>n e. float64 x = of_int n * 2 powi e \<and> \<bar>n\<bar> \<le> 2 ^ 53"
proof (cases "x = 0")
  case False
  let ?ulp = "2 powi (binade x - 52) :: rat" and ?n = "round_even (x / (2 powi (binade x - 52)))"
  have "\<bar>x\<bar> / ?ulp < 2 powi (binade x + 1) / ?ulp" by (intro divide_strict_right_mono binade_bounds False) simp
  also have "\<dots> = 2 ^ 53" by (simp add: power_int_diff power_int_add)
  finally have "\<bar>x / ?ulp\<bar> < 2 ^ 53" by simp
  with round_even_error [of "x / ?ulp"] have "\<bar>of_int ?n :: rat\<bar> < 2 ^ 53 + 1" by linarith
  then have "(of_int \<bar>?n\<bar> :: rat) < of_int (2 ^ 53 + 1)" by simp
  then have "\<bar>?n\<bar> < 2 ^ 53 + 1" by (simp only: of_int_less_iff)
  with False show ?thesis by (intro exI [of _ ?n] exI [of _ "binade x - 52"]) (simp add: float64_def Let_def)
qed (auto intro: exI [of _ 0])

lemma float64_of_int [simp]:
  assumes "\<bar>n\<bar> < 2 ^ 53"
  shows "float64 (of_int n) = of_int n"
proof (cases "n = 0")
  case False
  let ?b = "binade (of_int n)"
  have "2 powi ?b \<le> \<bar>of_int n :: rat\<bar>" using binade_bounds(1) False by simp
  also have "\<dots> < 2 powi 53" using assms by (simp add: of_int_abs [symmetric] del: of_int_abs)
  finally have "?b < 53" using power_int_increasing [of 53 ?b "2 :: rat"] by fastforce
  then have k: "2 powi (52 - ?b) = (2 ^ nat (52 - ?b) :: rat)" by (simp add: power_int_def)
  have "of_int n / 2 powi (?b - 52) = (of_int n * 2 powi (52 - ?b) :: rat)" by (simp add: power_int_diff field_simps)
  also have "\<dots> = of_int (n * 2 ^ nat (52 - ?b))" by (simp add: k)
  finally have "round_even (of_int n / 2 powi (?b - 52)) = n * 2 ^ nat (52 - ?b)" by (simp only: round_even_of_int)
  moreover have "of_int (n * 2 ^ nat (52 - ?b)) * 2 powi (?b - 52) = (of_int n :: rat)"
  proof -
    have "of_int (n * 2 ^ nat (52 - ?b)) = (of_int n * 2 powi (52 - ?b) :: rat)" by (simp add: k)
    then show ?thesis by (simp add: power_int_diff field_simps)
  qed
  ultimately show ?thesis using False by (simp add: float64_def Let_def)
qed simp

end
