(* ===== verification/Gateway.thy ===== *)
theory Gateway
  imports ChannelCrypt Float64
begin

text \<open>
  What a request passes before its handler: the middleware src/middleware (request ids, rate limit, metrics, JWT and
  the key of the internal API), the tokens of src/jwt_module, the user of a request (src/handler/auth_user.go,
  jwt_optional.go), and the routes of src/router/router.go. The tokens'
  library and the framework's route matching are outside the sources: signing and checking a token are functions the
  definitions take, and so is the choice of a route. The static files, which are
  mounted before the middleware, and the framework's redirects of a trailing slash are left out.
\<close>

section \<open>Requests\<close>

record request =
  rq_method :: string
  rq_path :: "string list"
  rq_header :: "string \<Rightarrow> string"
  rq_ip :: string

section \<open>Tokens\<close>

text \<open>Dates are whole seconds. What the library makes of a token: an error, of expiry or not, or claims and whether they are valid.\<close>

record claims =
  cl_user :: u64
  cl_name :: string
  cl_expires :: int
  cl_issued :: int
  cl_not_before :: int
  cl_issuer :: string

datatype jwt_outcome = JwtFailed bool | JwtParsed bool claims

record jwt_lib =
  jw_sign :: "string \<Rightarrow> claims \<Rightarrow> string option"
  jw_parse :: "string \<Rightarrow> int \<Rightarrow> string \<Rightarrow> jwt_outcome"

text \<open>The configured secret and lifetime, \<open>None\<close> without a configuration.\<close>

type_synonym auth_settings = "(string \<times> int) option"

definition default_secret :: string where "default_secret = ''change-me-in-production''"

definition jwt_secret :: "auth_settings \<Rightarrow> string" where
  "jwt_secret a = (case a of Some (s, _) \<Rightarrow> if s = [] then default_secret else s | None \<Rightarrow> default_secret)"

definition expire_hours :: "auth_settings \<Rightarrow> int" where
  "expire_hours a = (case a of Some (_, h) \<Rightarrow> if h > 0 then i64 (h * 3600000000000) else 86400000000000 | None \<Rightarrow> 86400000000000)"

definition gen_token :: "jwt_lib \<Rightarrow> auth_settings \<Rightarrow> int \<Rightarrow> u64 \<Rightarrow> string \<Rightarrow> string option" where
  "gen_token lib a now uid name = jw_sign lib (jwt_secret a)
     \<lparr>cl_user = uid, cl_name = name, cl_expires = (now + expire_hours a) div 1000000000, cl_issued = now div 1000000000,
      cl_not_before = now div 1000000000, cl_issuer = ''my-blog''\<rparr>"

abbreviation jwt_invalid_token :: err where "jwt_invalid_token \<equiv> BizErr 401 40002"
abbreviation jwt_expired_token :: err where "jwt_expired_token \<equiv> BizErr 401 40004"

definition parse_token :: "jwt_lib \<Rightarrow> auth_settings \<Rightarrow> int \<Rightarrow> string \<Rightarrow> err + claims" where
  "parse_token lib a now s = (case jw_parse lib (jwt_secret a) now s of
       JwtFailed expired \<Rightarrow> Inl (if expired then jwt_expired_token else jwt_invalid_token)
     | JwtParsed valid c \<Rightarrow> if valid then Inr c else Inl jwt_invalid_token)"

text \<open>\<open>strings.SplitN(s, " ", 2)\<close>: the parts around the first blank, if there is one.\<close>

definition split_blank :: "string \<Rightarrow> (string \<times> string) option" where
  "split_blank s = (if CHR '' '' \<in> set s then Some (takeWhile (\<lambda>c. c \<noteq> CHR '' '') s, tl (dropWhile (\<lambda>c. c \<noteq> CHR '' '') s)) else None)"

definition jwt_auth :: "jwt_lib \<Rightarrow> auth_settings \<Rightarrow> int \<Rightarrow> (string \<Rightarrow> string) \<Rightarrow> err + claims" where
  "jwt_auth lib a now header = (let auth = header ''Authorization'' in
     if auth = [] then Inl jwt_invalid_token else
     case split_blank auth of None \<Rightarrow> Inl jwt_invalid_token
     | Some (scheme, tok) \<Rightarrow> if scheme \<noteq> ''Bearer'' then Inl jwt_invalid_token else
       (case parse_token lib a now tok of
          Inl e \<Rightarrow> Inl (if e = jwt_expired_token then jwt_expired_token else jwt_invalid_token)
        | Inr c \<Rightarrow> Inr c))"

text \<open>The user id that the middleware left in the request's context, if any; it only ever leaves a \<open>uint64\<close>.\<close>

datatype ctx_user = NoUser | UserU64 u64 | UserInt int

definition optional_jwt_user_id :: "jwt_lib \<Rightarrow> auth_settings \<Rightarrow> int \<Rightarrow> (string \<Rightarrow> string) \<Rightarrow> u64" where
  "optional_jwt_user_id lib a now header = (let auth = header ''Authorization'' in
     if auth = [] then 0 else
     case split_blank auth of None \<Rightarrow> 0
     | Some (scheme, tok) \<Rightarrow> if \<not> equal_fold scheme ''Bearer'' then 0 else
       (case parse_token lib a now tok of Inl _ \<Rightarrow> 0 | Inr c \<Rightarrow> cl_user c))"

definition auth_user_id :: "jwt_lib \<Rightarrow> auth_settings \<Rightarrow> int \<Rightarrow> (string \<Rightarrow> string) \<Rightarrow> ctx_user \<Rightarrow> u64" where
  "auth_user_id lib a now header ctx = (case ctx of
       UserU64 u \<Rightarrow> u
     | UserInt n \<Rightarrow> if n > 0 then of_int n else optional_jwt_user_id lib a now header
     | NoUser \<Rightarrow> optional_jwt_user_id lib a now header)"

text \<open>The key of the internal API; \<open>None\<close> without a security configuration.\<close>

definition admin_api_key :: "string option \<Rightarrow> (string \<Rightarrow> string) \<Rightarrow> err option" where
  "admin_api_key secret header = (let expected = (case secret of None \<Rightarrow> [] | Some s \<Rightarrow> trim_space s) in
     if expected = [] then Some (BizErr 503 50303) else
     let got = trim_space (header ''X-Admin-Key'') in
     if got = [] \<or> got \<noteq> expected then Some (BizErr 401 40103) else None)"

section \<open>The rate limit\<close>

text \<open>
  Tokens, the rate and the elapsed seconds are \<open>float64\<close>, and every operation rounds. A compiler may fuse a multiplication
  with the addition that follows it, and then rounds once: \<open>fused\<close>. The time, in nanoseconds, is read before the lock
  is taken, so that the times of the requests of one client need not ascend; a difference of times saturates.
\<close>

record bucket =
  bk_tokens :: rat
  bk_last :: int

definition time_sub :: "int \<Rightarrow> int \<Rightarrow> int" where
  "time_sub t u = max (- (2 ^ 63)) (min (2 ^ 63 - 1) (t - u))"

text \<open>\<open>Duration.Seconds\<close>: the whole seconds and the rest are taken apart towards zero and added as floats.\<close>

definition duration_seconds :: "int \<Rightarrow> rat" where
  "duration_seconds d = (let sec = sgn d * (\<bar>d\<bar> div 1000000000); nsec = d - sec * 1000000000 in
     float64 (float64 (of_int sec) + float64 (float64 (of_int nsec) / 1000000000)))"

definition rate_per_minute :: "int \<Rightarrow> int" where "rate_per_minute n = (if n \<le> 0 then 120 else n)"
definition rate_burst :: "int \<Rightarrow> int" where "rate_burst n = (if n \<le> 0 then 20 else n)"

definition tokens_per_second :: "int \<Rightarrow> rat" where
  "tokens_per_second per_minute = float64 (float64 (of_int (rate_per_minute per_minute)) / 60)"

definition full_bucket :: "int \<Rightarrow> rat" where
  "full_bucket burst = float64 (of_int (rate_burst burst))"

definition refilled :: "bool \<Rightarrow> int \<Rightarrow> int \<Rightarrow> int \<Rightarrow> bucket \<Rightarrow> rat" where
  "refilled fused per_minute burst now b =
     (let gain = duration_seconds (time_sub now (bk_last b)) * tokens_per_second per_minute;
          tokens = float64 (bk_tokens b + (if fused then gain else float64 gain))
      in if tokens > full_bucket burst then full_bucket burst else tokens)"

definition rate_limit ::
  "bool \<Rightarrow> int \<Rightarrow> int \<Rightarrow> string \<Rightarrow> int \<Rightarrow> (string \<times> bucket) list \<Rightarrow> (string \<times> bucket) list \<times> bool" where
  "rate_limit fused per_minute burst ip now clients =
     (let b = (case map_of clients ip of Some b \<Rightarrow> b | None \<Rightarrow> \<lparr>bk_tokens = full_bucket burst, bk_last = now\<rparr>);
          tokens = refilled fused per_minute burst now b
      in if tokens < 1 then (AList.update ip \<lparr>bk_tokens = tokens, bk_last = now\<rparr> clients, False)
         else (AList.update ip \<lparr>bk_tokens = float64 (tokens - 1), bk_last = now\<rparr> clients, True))"

section \<open>Metrics\<close>

record metric_counter =
  mt_count :: int
  mt_micros :: int
  mt_2xx :: int
  mt_4xx :: int
  mt_5xx :: int

text \<open>A finished request: its method, its route (empty when none was found), its status and its duration.\<close>

definition count_metric :: "string \<Rightarrow> string \<Rightarrow> int \<Rightarrow> int \<Rightarrow> (string \<times> metric_counter) list \<Rightarrow> (string \<times> metric_counter) list" where
  "count_metric verb full_path status micros ms =
     (let key = verb @ (if full_path = [] then '' /unknown'' else '' '' @ full_path);
          m = (case map_of ms key of Some m \<Rightarrow> m | None \<Rightarrow> \<lparr>mt_count = 0, mt_micros = 0, mt_2xx = 0, mt_4xx = 0, mt_5xx = 0\<rparr>);
          m = m\<lparr>mt_count := i64 (mt_count m + 1), mt_micros := i64 (mt_micros m + micros)\<rparr>
      in AList.update key
        (if 200 \<le> status \<and> status < 300 then m\<lparr>mt_2xx := i64 (mt_2xx m + 1)\<rparr>
         else if 400 \<le> status \<and> status < 500 then m\<lparr>mt_4xx := i64 (mt_4xx m + 1)\<rparr>
         else if 500 \<le> status then m\<lparr>mt_5xx := i64 (mt_5xx m + 1)\<rparr> else m) ms)"

definition quoted :: "string \<Rightarrow> string" where "quoted s = CHR 34 # s @ [CHR 34]"

definition newline :: string where "newline = [CHR 10]"

definition class_line :: "string \<Rightarrow> string \<Rightarrow> int \<Rightarrow> string" where
  "class_line route cls n = ''goblog_http_responses_total{route='' @ quoted route @ '',class='' @ quoted cls @ ''} '' @ show_int n @ newline"

definition metric_lines :: "string \<Rightarrow> metric_counter \<Rightarrow> string" where
  "metric_lines route m = (let route = replace_all [CHR 34] [] route in
     ''goblog_http_requests_total{route='' @ quoted route @ ''} '' @ show_int (mt_count m) @ newline @
     ''goblog_http_request_duration_microseconds_total{route='' @ quoted route @ ''} '' @ show_int (mt_micros m) @ newline @
     class_line route ''2xx'' (mt_2xx m) @ class_line route ''4xx'' (mt_4xx m) @ class_line route ''5xx'' (mt_5xx m))"

definition metrics_head :: string where
  "metrics_head =
     ''# HELP goblog_http_requests_total Total HTTP requests by route'' @ newline @
     ''# TYPE goblog_http_requests_total counter'' @ newline @
     ''# HELP goblog_http_request_duration_microseconds_total Sum of request duration in microseconds'' @ newline @
     ''# TYPE goblog_http_request_duration_microseconds_total counter'' @ newline @
     ''# HELP goblog_http_responses_total Response status class counters'' @ newline @
     ''# TYPE goblog_http_responses_total counter'' @ newline"

definition metrics_handler :: "(string \<times> metric_counter) list \<Rightarrow> string" where
  "metrics_handler ms = metrics_head @ concat (map (\<lambda>k. case map_of ms k of Some m \<Rightarrow> metric_lines k m | None \<Rightarrow> [])
     (sort_texts (map fst ms)))"

text \<open>The id of a request, the client's or a new one.\<close>

definition request_id :: "string \<Rightarrow> (string \<Rightarrow> string) \<Rightarrow> string" where
  "request_id fresh header = (if header ''X-Request-Id'' = [] then fresh else header ''X-Request-Id'')"

section \<open>Routes\<close>

datatype guard = Open | Token | AdminKey

record route =
  rt_method :: string
  rt_path :: "string list"
  rt_guard :: guard
  rt_handler :: string

definition under :: "string list \<Rightarrow> guard \<Rightarrow> (string \<times> string list \<times> string) list \<Rightarrow> route list" where
  "under pre g rs = map (\<lambda>(m, p, h). \<lparr>rt_method = m, rt_path = pre @ p, rt_guard = g, rt_handler = h\<rparr>) rs"

definition page_routes :: "(string \<times> string list \<times> string) list" where
  "page_routes = [
     (''GET'', [''favicon.ico''], ''favicon''),
     (''GET'', [''metrics''], ''MetricsHandler''),
     (''GET'', [], ''HomePage''),
     (''GET'', [''login''], ''LoginPage''),
     (''GET'', [''me''], ''MePage''),
     (''GET'', [''u'', '':id''], ''UserPage''),
     (''GET'', [''dm''], ''DMPage''),
     (''GET'', [''article'', '':id''], ''ArticlePage''),
     (''GET'', [''editor''], ''EditorPage''),
     (''GET'', [''topics''], ''TopicsPage''),
     (''GET'', [''topic'', '':id'', ''discuss''], ''TopicDiscussPage''),
     (''GET'', [''topic'', '':id''], ''TopicPage''),
     (''GET'', [''agent''], ''AgentPage''),
     (''GET'', [''game-library''], ''GamesLibraryPage''),
     (''GET'', [''game'', '':id''], ''GameDetailPage''),
     (''GET'', [''points-mall''], ''PointsMallPage''),
     (''GET'', [''healthz''], ''Healthz''),
     (''GET'', [''readyz''], ''Readyz''),
     (''GET'', [''ping''], ''ping'')]"

definition public_routes :: "(string \<times> string list \<times> string) list" where
  "public_routes = [
     (''POST'', [''signup''], ''UserHandler.SignUpHandle''),
     (''POST'', [''login''], ''UserHandler.LoginHandle''),
     (''GET'', [''users'', '':id''], ''UserHandler.GetUserPublic''),
     (''GET'', [''users'', '':id'', ''online''], ''NotificationHandler.GetUserOnlineStatus''),
     (''GET'', [''articles'', ''latest''], ''ArticleHandler.GetLatestArticlesPublic''),
     (''GET'', [''articles'', ''leaderboard''], ''ArticleHandler.GetArticleLeaderboardPublic''),
     (''GET'', [''articles'', ''list''], ''ArticleHandler.GetArticleListPublic''),
     (''GET'', [''articles'', '':id''], ''ArticleHandler.ReadArticleHandle''),
     (''GET'', [''articles'', ''comments''], ''CommentHandler.GetArticleComment''),
     (''GET'', [''articles'', ''comments'', ''floor'', '':root_id''], ''CommentHandler.GetCommentDetail''),
     (''GET'', [''search''], ''SearchHandler.GlobalSearch''),
     (''GET'', [''ws''], ''NotificationHandler.HandleWS''),
     (''GET'', [''topics''], ''TopicHandler.GetTopicsPublic''),
     (''GET'', [''topics'', '':id''], ''TopicHandler.GetTopicPublic''),
     (''GET'', [''topics'', '':id'', ''articles''], ''TopicHandler.GetTopicArticlesPublic''),
     (''GET'', [''topics'', '':id'', ''discussions''], ''TopicHandler.GetTopicDiscussionsPublic''),
     (''GET'', [''games'', ''search''], ''GameHandler.SearchGames''),
     (''GET'', [''games'', '':id''], ''GameHandler.GetGame''),
     (''GET'', [''games''], ''GameHandler.ListGames''),
     (''GET'', [''games'', '':id'', ''reviews''], ''GameHandler.ListReviews''),
     (''GET'', [''game-reviews'', '':id''], ''GameHandler.GetReview''),
     (''GET'', [''game-reviews'', '':id'', ''comments''], ''GameHandler.ListReviewComments''),
     (''GET'', [''users'', '':id'', ''points''], ''PointsHandler.GetUserWallet''),
     (''GET'', [''users'', '':id'', ''games''], ''GameHandler.GetUserGamePlays''),
     (''GET'', [''points'', ''mall'', ''products'', ''search''], ''PointsMallHandler.SearchProducts''),
     (''GET'', [''points'', ''mall'', ''products''], ''PointsMallHandler.ListProducts''),
     (''GET'', [''points'', ''mall'', ''products'', '':id''], ''PointsMallHandler.GetProduct'')]"

text \<open>The hub's routes; the old path of Feishu is there when its adapter is.\<close>

definition hub_routes :: "bool \<Rightarrow> (string \<times> string list \<times> string) list" where
  "hub_routes feishu = [(''POST'', [''channel'', '':name'', ''webhook''], ''ChannelHub.HandleWebhook''),
     (''GET'', [''channel'', '':name'', ''webhook''], ''ChannelHub.HandleWebhook'')] @
     (if feishu then [(''POST'', [''channel'', ''feishu'', ''event''], ''ChannelHub.HandleWebhook'')] else [])"

definition internal_routes :: "(string \<times> string list \<times> string) list" where
  "internal_routes = [
     (''POST'', [''internal'', ''games''], ''InternalHandler.CreateGameInternal''),
     (''POST'', [''internal'', ''topics''], ''InternalHandler.CreateTopicInternal''),
     (''POST'', [''internal'', ''kb'', ''markdown''], ''InternalHandler.IngestKBMarkdown'')]"

definition protected_routes :: "(string \<times> string list \<times> string) list" where
  "protected_routes = [
     (''GET'', [''users'', ''me''], ''UserHandler.GetMe''),
     (''POST'', [''users'', ''update''], ''UserHandler.UpdateUserHandle''),
     (''POST'', [''follow''], ''FollowHandler.CreateFollowAuth''),
     (''POST'', [''follow'', ''topic''], ''FollowHandler.FollowTopicHandle''),
     (''DELETE'', [''follow'', ''topic''], ''FollowHandler.UnfollowTopicHandle''),
     (''GET'', [''follow'', ''topics''], ''FollowHandler.ListMyFollowedTopicsHandle''),
     (''GET'', [''follow'', ''users'', ''count''], ''FollowHandler.GetMyFollowingUserCount''),
     (''GET'', [''dm'', ''peers''], ''DMHandler.ListPeers''),
     (''GET'', [''dm'', ''messages''], ''DMHandler.ListMessages''),
     (''POST'', [''dm'', ''messages''], ''DMHandler.SendMessage''),
     (''GET'', [''dm'', ''unread_count''], ''DMHandler.GetUnreadCount''),
     (''POST'', [''dm'', ''unread_clear''], ''DMHandler.ClearUnread''),
     (''POST'', [''dm'', ''conversation'', ''delete''], ''DMHandler.DeleteConversation''),
     (''POST'', [''articles''], ''ArticleHandler.CreateArticleHandle''),
     (''PUT'', [''articles'', '':id''], ''ArticleHandler.UpdateArticleHandle''),
     (''GET'', [''articles''], ''ArticleHandler.GetArticleListHandler''),
     (''GET'', [''articles'', ''following_latest''], ''ArticleHandler.GetFollowingLatestArticles''),
     (''POST'', [''articles'', ''like''], ''ArticleHandler.LikeArticleHandle''),
     (''POST'', [''articles'', ''comments'', ''like''], ''CommentHandler.LikeCommentHandle''),
     (''POST'', [''articles'', ''comments'', ''cy''], ''CommentHandler.CreateCYHandle''),
     (''GET'', [''comments'', ''cy''], ''CommentHandler.GetMyCYListHandle''),
     (''POST'', [''articles'', ''collect''], ''ArticleHandler.CollectArticleHandle''),
     (''DELETE'', [''articles'', ''collect''], ''ArticleHandler.UncollectArticleHandle''),
     (''GET'', [''articles'', ''collect''], ''ArticleHandler.ListMyCollectionsHandle''),
     (''GET'', [''agent'', ''sessions''], ''AgentHandler.SessionsList''),
     (''POST'', [''agent'', ''sessions''], ''AgentHandler.CreateAgentSession''),
     (''DELETE'', [''agent'', ''sessions'', '':id''], ''AgentHandler.DeleteAgentSession''),
     (''GET'', [''agent'', ''history''], ''AgentHandler.HistoryProxy''),
     (''DELETE'', [''agent'', ''history''], ''AgentHandler.ClearChatHistory''),
     (''POST'', [''agent'', ''chat''], ''AgentHandler.ChatProxy''),
     (''DELETE'', [''articles'', '':id''], ''ArticleHandler.DeleteArticleHandle''),
     (''POST'', [''articles'', ''comments''], ''CommentHandler.CreateComment''),
     (''DELETE'', [''articles'', ''comments'', '':id''], ''CommentHandler.DeleteComment''),
     (''POST'', [''topics''], ''TopicHandler.CreateTopicAuth''),
     (''POST'', [''topics'', '':id'', ''discussions''], ''TopicHandler.CreateTopicDiscussionAuth''),
     (''DELETE'', [''topics'', '':id''], ''TopicHandler.DeleteTemporaryTopic''),
     (''POST'', [''games''], ''GameHandler.CreateGame''),
     (''PUT'', [''games'', '':id''], ''GameHandler.UpdateGame''),
     (''DELETE'', [''games'', '':id''], ''GameHandler.DeleteGame''),
     (''POST'', [''games'', '':id'', ''reviews''], ''GameHandler.CreateReview''),
     (''PUT'', [''game-reviews'', '':id''], ''GameHandler.UpdateReview''),
     (''DELETE'', [''game-reviews'', '':id''], ''GameHandler.DeleteReview''),
     (''POST'', [''game-reviews'', '':id'', ''comments''], ''GameHandler.CreateReviewComment''),
     (''PUT'', [''game-review-comments'', '':id''], ''GameHandler.UpdateReviewComment''),
     (''DELETE'', [''game-review-comments'', '':id''], ''GameHandler.DeleteReviewComment''),
     (''POST'', [''games'', '':id'', ''purchase''], ''GameHandler.PurchaseGame''),
     (''GET'', [''games'', ''orders''], ''GameHandler.ListMyGameOrders''),
     (''POST'', [''games'', ''play''], ''GameHandler.UpsertMyGamePlay''),
     (''GET'', [''games'', ''play''], ''GameHandler.GetMyGamePlays''),
     (''DELETE'', [''games'', ''play'', '':gameId''], ''GameHandler.DeleteMyGamePlay''),
     (''GET'', [''points'', ''wallet''], ''PointsHandler.GetMyWallet''),
     (''GET'', [''points'', ''transactions''], ''PointsHandler.ListMyTransactions''),
     (''POST'', [''points'', ''checkin''], ''PointsHandler.Checkin''),
     (''GET'', [''points'', ''mall'', ''orders''], ''PointsMallHandler.ListMyOrders''),
     (''POST'', [''points'', ''mall'', ''redeem''], ''PointsMallHandler.Redeem'')]"

definition all_routes :: "bool \<Rightarrow> bool \<Rightarrow> route list" where
  "all_routes metrics feishu =
     under [] Open (filter (\<lambda>(_, _, h). metrics \<or> h \<noteq> ''MetricsHandler'') page_routes) @
     under [''api'', ''v1''] Open (public_routes @ hub_routes feishu) @
     under [''api'', ''v1''] Token protected_routes @
     under [''api'', ''v1''] AdminKey internal_routes @
     under [''v1''] Token protected_routes"

section \<open>The way to the handler\<close>

record gate_settings =
  gs_router :: "route list \<Rightarrow> string \<Rightarrow> string list \<Rightarrow> route option"
  gs_jwt :: jwt_lib
  gs_auth :: auth_settings
  gs_admin :: "string option"
  gs_per_minute :: int
  gs_burst :: int
  gs_fused :: bool
  gs_metrics :: bool
  gs_feishu :: bool

datatype gate_answer = RateLimited | NoRoute | Denied err | Handled string ctx_user

definition pass_guard :: "gate_settings \<Rightarrow> int \<Rightarrow> request \<Rightarrow> route \<Rightarrow> gate_answer" where
  "pass_guard g now rq r = (case rt_guard r of
       Open \<Rightarrow> Handled (rt_handler r) NoUser
     | Token \<Rightarrow> (case jwt_auth (gs_jwt g) (gs_auth g) now (rq_header rq) of
         Inl e \<Rightarrow> Denied e | Inr c \<Rightarrow> Handled (rt_handler r) (UserU64 (cl_user c)))
     | AdminKey \<Rightarrow> (case admin_api_key (gs_admin g) (rq_header rq) of
         Some e \<Rightarrow> Denied e | None \<Rightarrow> Handled (rt_handler r) NoUser))"

text \<open>The favicon was mounted before the middleware.\<close>

definition serve_request :: "gate_settings \<Rightarrow> int \<Rightarrow> request \<Rightarrow> (string \<times> bucket) list \<Rightarrow> (string \<times> bucket) list \<times> gate_answer" where
  "serve_request g now rq clients =
     (case gs_router g (all_routes (gs_metrics g) (gs_feishu g)) (rq_method rq) (rq_path rq) of
        Some r \<Rightarrow> if rt_path r = [''favicon.ico''] then (clients, Handled (rt_handler r) NoUser)
          else (case rate_limit (gs_fused g) (gs_per_minute g) (gs_burst g) (rq_ip rq) now clients of
              (cs, True) \<Rightarrow> (cs, pass_guard g now rq r) | (cs, False) \<Rightarrow> (cs, RateLimited))
      | None \<Rightarrow> (case rate_limit (gs_fused g) (gs_per_minute g) (gs_burst g) (rq_ip rq) now clients of
              (cs, True) \<Rightarrow> (cs, NoRoute) | (cs, False) \<Rightarrow> (cs, RateLimited)))"

end
