(* ===== verification/GatewayProps.thy ===== *)
theory GatewayProps
  imports Gateway
begin

text \<open>
  What passes the gate: no client more often than its rate allows, no write without a token, and what a missing
  secret means.
\<close>

section \<open>The rate\<close>

primrec rate_run :: "bool \<Rightarrow> int \<Rightarrow> int \<Rightarrow> (string \<times> int) list \<Rightarrow> (string \<times> bucket) list \<Rightarrow> bool list" where
  "rate_run fused pm burst [] cs = []"
| "rate_run fused pm burst (rq # rqs) cs =
     (case rate_limit fused pm burst (fst rq) (snd rq) cs of (cs', pass) \<Rightarrow> pass # rate_run fused pm burst rqs cs')"

text \<open>When the requests of a client came, and when they were let through.\<close>

definition asked :: "string \<Rightarrow> (string \<times> int) list \<Rightarrow> int list" where
  "asked ip rqs = map snd (filter (\<lambda>rq. fst rq = ip) rqs)"

definition passed :: "string \<Rightarrow> (string \<times> int) list \<Rightarrow> bool list \<Rightarrow> int list" where
  "passed ip rqs oks = map (\<lambda>p. snd (fst p)) (filter (\<lambda>p. fst (fst p) = ip \<and> snd p) (zip rqs oks))"

lemma asked_simps [simp]:
  "asked ip [] = []" "asked ip (rq # rqs) = (if fst rq = ip then [snd rq] else []) @ asked ip rqs"
  by (simp_all add: asked_def)

lemma passed_simps [simp]:
  "passed ip [] oks = []"
  "passed ip (rq # rqs) (pass # oks) = (if fst rq = ip \<and> pass then [snd rq] else []) @ passed ip rqs oks"
  by (simp_all add: passed_def)

lemma passed_asked: "set (passed ip rqs oks) \<subseteq> set (asked ip rqs)"
  by (auto simp: passed_def asked_def dest!: set_zip_leftD)

definition bucket_of :: "int \<Rightarrow> string \<Rightarrow> int \<Rightarrow> (string \<times> bucket) list \<Rightarrow> bucket" where
  "bucket_of burst ip now cs = (case map_of cs ip of Some b \<Rightarrow> b | None \<Rightarrow> \<lparr>bk_tokens = full_bucket burst, bk_last = now\<rparr>)"

lemma rate_limit_steps:
  "rate_limit fused pm burst ip now cs = (let have = refilled fused pm burst now (bucket_of burst ip now cs); pass = (have \<ge> 1) in
     (AList.update ip \<lparr>bk_tokens = (if pass then float64 (have - 1) else have), bk_last = now\<rparr> cs, pass))"
  by (auto simp: rate_limit_def bucket_of_def Let_def)

text \<open>One rounding makes a number larger by a factor of at most \<open>one_up\<close>.\<close>

definition one_up :: rat where "one_up = 1 + 1 / 2 ^ 53"

lemma one_up_ge [simp]: "1 \<le> one_up" "0 \<le> one_up"
  by (simp_all add: one_up_def)

lemma float64_up:
  assumes "0 \<le> x" and "x \<le> y * one_up ^ n"
  shows "float64 x \<le> y * one_up ^ Suc n"
proof -
  have "float64 x \<le> x * one_up" using float64_le [OF assms(1)] unfolding one_up_def distrib_left by simp
  also have "\<dots> \<le> y * one_up ^ n * one_up" using assms(2) by (intro mult_right_mono) simp_all
  finally show ?thesis by (simp add: mult_ac)
qed

lemma up_grows: "0 \<le> y \<Longrightarrow> m \<le> n \<Longrightarrow> y * one_up ^ m \<le> y * one_up ^ n"
  by (intro mult_left_mono power_increasing) simp_all

lemma duration_seconds_bounds:
  assumes "0 \<le> d"
  shows "0 \<le> duration_seconds d" and "duration_seconds d \<le> of_int d / 1000000000 * one_up ^ 3"
proof -
  let ?sec = "d div 1000000000" and ?nsec = "d mod 1000000000"
  have eq: "duration_seconds d = float64 (float64 (of_int ?sec) + float64 (float64 (of_int ?nsec) / 1000000000))"
  proof -
    have "sgn d * (\<bar>d\<bar> div 1000000000) = ?sec" using assms by (simp add: sgn_if)
    moreover have "d - ?sec * 1000000000 = ?nsec" by (rule minus_div_mult_eq_mod)
    ultimately show ?thesis unfolding duration_seconds_def Let_def by simp
  qed
  have nonneg: "(0 :: rat) \<le> of_int ?sec" "(0 :: rat) \<le> of_int ?nsec" using assms by simp_all
  then have parts: "0 \<le> float64 (of_int ?sec)" "0 \<le> float64 (float64 (of_int ?nsec) / 1000000000)" by (simp_all add: float64_nonneg)
  then show "0 \<le> duration_seconds d" by (simp add: eq float64_nonneg)
  have "float64 (of_int ?nsec) / 1000000000 \<le> of_int ?nsec / 1000000000 * one_up ^ 1"
    using float64_up [of "of_int ?nsec" "of_int ?nsec" 0] nonneg by simp
  then have "float64 (float64 (of_int ?nsec) / 1000000000) \<le> of_int ?nsec / 1000000000 * one_up ^ 2"
    using float64_up [of "float64 (of_int ?nsec) / 1000000000" "of_int ?nsec / 1000000000" 1] nonneg by (simp add: float64_nonneg numeral_2_eq_2)
  moreover have "float64 (of_int ?sec) \<le> of_int ?sec * one_up ^ 2"
    using float64_up [of "of_int ?sec" "of_int ?sec" 0] up_grows [of "of_int ?sec" 1 2] nonneg by simp
  ultimately have "float64 (of_int ?sec) + float64 (float64 (of_int ?nsec) / 1000000000) \<le>
      (of_int ?sec + of_int ?nsec / 1000000000) * one_up ^ 2" by (simp add: algebra_simps)
  moreover have "of_int ?sec + of_int ?nsec / 1000000000 = (of_int d / 1000000000 :: rat)"
  proof -
    have "of_int d = (of_int (?sec * 1000000000 + ?nsec) :: rat)" by simp
    also have "\<dots> = of_int ?sec * 1000000000 + of_int ?nsec" by (simp only: of_int_add of_int_mult of_int_numeral)
    finally show ?thesis by simp
  qed
  ultimately show "duration_seconds d \<le> of_int d / 1000000000 * one_up ^ 3"
    using float64_up [OF add_nonneg_nonneg [OF parts], of "of_int d / 1000000000" 2] by (simp add: eq numeral_3_eq_3)
qed

lemma tokens_per_second_bounds:
  "0 \<le> tokens_per_second pm" "tokens_per_second pm \<le> of_int (rate_per_minute pm) / 60 * one_up ^ 2"
proof -
  have pos: "(0 :: rat) \<le> of_int (rate_per_minute pm)" by (simp add: rate_per_minute_def)
  then show "0 \<le> tokens_per_second pm" by (simp add: tokens_per_second_def float64_nonneg)
  have "float64 (of_int (rate_per_minute pm)) / 60 \<le> of_int (rate_per_minute pm) / 60 * one_up ^ 1"
    using float64_up [OF pos, of "of_int (rate_per_minute pm)" 0] by simp
  then show "tokens_per_second pm \<le> of_int (rate_per_minute pm) / 60 * one_up ^ 2"
    using float64_up [of "float64 (of_int (rate_per_minute pm)) / 60" "of_int (rate_per_minute pm) / 60" 1] pos
    by (simp add: tokens_per_second_def float64_nonneg numeral_2_eq_2)
qed

lemma full_bucket_pos: "0 \<le> full_bucket burst"
  by (simp add: full_bucket_def float64_nonneg rate_burst_def)

text \<open>The tokens a client earns in \<open>d\<close> nanoseconds, at most, and what one request adds by rounding.\<close>

definition earned :: "int \<Rightarrow> int \<Rightarrow> rat" where
  "earned pm d = of_int d * of_int (rate_per_minute pm) / 60000000000 * one_up ^ 6"

definition slip :: "int \<Rightarrow> rat" where
  "slip burst = full_bucket burst / 2 ^ 53"

lemma float64_slip: "0 \<le> x \<Longrightarrow> x \<le> full_bucket burst \<Longrightarrow> float64 x \<le> x + slip burst"
  unfolding slip_def by (rule order_trans [OF float64_le]) (auto intro: divide_right_mono)

lemma earned_add: "earned pm (d + e) = earned pm d + earned pm e"
  by (simp add: earned_def add_divide_distrib algebra_simps)

lemma earned_diff: "earned pm (d - e) = earned pm d - earned pm e"
  by (simp add: earned_def diff_divide_distrib algebra_simps)

lemma earned_mono: "d \<le> e \<Longrightarrow> earned pm d \<le> earned pm e"
  unfolding earned_def by (intro mult_right_mono divide_right_mono) (simp_all add: rate_per_minute_def)

lemma gain_bounds:
  assumes "0 \<le> d"
  shows "0 \<le> duration_seconds d * tokens_per_second pm"
    and "duration_seconds d * tokens_per_second pm \<le> of_int d * of_int (rate_per_minute pm) / 60000000000 * one_up ^ 5"
proof -
  note d = duration_seconds_bounds [OF assms] and r = tokens_per_second_bounds [of pm]
  from d r show "0 \<le> duration_seconds d * tokens_per_second pm" by simp
  have "duration_seconds d * tokens_per_second pm \<le>
      (of_int d / 1000000000 * one_up ^ 3) * (of_int (rate_per_minute pm) / 60 * one_up ^ 2)"
    using d r assms by (intro mult_mono) simp_all
  also have "\<dots> = of_int d * of_int (rate_per_minute pm) / 60000000000 * one_up ^ 5"
    by (simp add: field_simps flip: power_add)
  finally show "duration_seconds d * tokens_per_second pm \<le> of_int d * of_int (rate_per_minute pm) / 60000000000 * one_up ^ 5" .
qed

lemma refilled_bounds:
  assumes "0 \<le> bk_tokens b" and "bk_last b \<le> now"
  shows "0 \<le> refilled fused pm burst now b" and "refilled fused pm burst now b \<le> full_bucket burst"
    and "refilled fused pm burst now b \<le> bk_tokens b + earned pm (now - bk_last b) + slip burst"
proof -
  let ?d = "time_sub now (bk_last b)" and ?full = "full_bucket burst"
  let ?gain = "duration_seconds ?d * tokens_per_second pm"
  let ?x = "bk_tokens b + (if fused then ?gain else float64 ?gain)"
  have d: "0 \<le> ?d" "?d \<le> now - bk_last b" using assms(2) by (simp_all add: time_sub_def)
  note gain = gain_bounds [OF d(1), of pm]
  have "0 \<le> of_int ?d * of_int (rate_per_minute pm) / (60000000000 :: rat)" using d by (simp add: rate_per_minute_def)
  then have "(if fused then ?gain else float64 ?gain) \<le> earned pm ?d"
    using gain float64_up [OF gain] up_grows [of _ 5 6] by (auto simp: earned_def numeral_eq_Suc intro: order_trans)
  with earned_mono [OF d(2), of pm] have x: "?x \<le> bk_tokens b + earned pm (now - bk_last b)" by simp
  have nonneg: "0 \<le> ?x" using assms(1) gain(1) by (simp add: float64_nonneg)
  have tokens: "refilled fused pm burst now b = min ?full (float64 ?x)" by (simp add: refilled_def Let_def)
  show "0 \<le> refilled fused pm burst now b" "refilled fused pm burst now b \<le> ?full"
    unfolding tokens using nonneg full_bucket_pos by (simp_all add: float64_nonneg)
  have "min ?full (float64 ?x) \<le> ?x + slip burst"
  proof (cases "?full \<le> ?x")
    case True
    moreover have "0 \<le> slip burst" using full_bucket_pos by (simp add: slip_def)
    ultimately show ?thesis by (intro min.coboundedI1) (rule add_increasing2)
  next
    case False
    then have "?x \<le> ?full" by linarith
    from float64_slip [OF nonneg this] show ?thesis by (rule min.coboundedI2)
  qed
  with x show "refilled fused pm burst now b \<le> bk_tokens b + earned pm (now - bk_last b) + slip burst"
    unfolding tokens by linarith
qed

lemma spent_bounds:
  assumes "1 \<le> have" and "have \<le> full_bucket burst"
  shows "0 \<le> float64 (have - 1)" and "float64 (have - 1) \<le> have - 1 + slip burst"
proof -
  show "0 \<le> float64 (have - 1)" using assms(1) by (simp add: float64_nonneg)
  show "float64 (have - 1) \<le> have - 1 + slip burst" using assms by (intro float64_slip) simp_all
qed

text \<open>From a bucket on, a client that has passed since then did so with the tokens that were in it and those earned until it last passed.\<close>

lemma passed_bounded:
  assumes "map_of cs ip = Some b" and "0 \<le> bk_tokens b" and "sorted (bk_last b # asked ip rqs)"
    and "passed ip rqs (rate_run fused pm burst rqs cs) \<noteq> []"
  shows "of_nat (length (passed ip rqs (rate_run fused pm burst rqs cs))) \<le> bk_tokens b +
    earned pm (last (passed ip rqs (rate_run fused pm burst rqs cs)) - bk_last b) + of_nat (length (asked ip rqs)) * (2 * slip burst)"
  using assms
proof (induction rqs arbitrary: cs b)
  case (Cons rq rqs)
  let ?have = "refilled fused pm burst (snd rq) (bucket_of burst (fst rq) (snd rq) cs)"
  let ?b = "\<lparr>bk_tokens = (if ?have \<ge> 1 then float64 (?have - 1) else ?have), bk_last = snd rq\<rparr>"
  let ?cs = "AList.update (fst rq) ?b cs"
  let ?rest = "passed ip rqs (rate_run fused pm burst rqs ?cs)"
  have run: "rate_run fused pm burst (rq # rqs) cs = (?have \<ge> 1) # rate_run fused pm burst rqs ?cs"
    by (simp add: rate_limit_steps Let_def)
  show ?case
  proof (cases "fst rq = ip")
    case False
    then have "map_of ?cs ip = Some b" using Cons.prems(1) by (simp add: update_conv')
    from Cons.IH [OF this Cons.prems(2)] Cons.prems(3,4) False show ?thesis unfolding run by simp
  next
    case True
    have there: "bucket_of burst (fst rq) (snd rq) cs = b" using True Cons.prems(1) by (simp add: bucket_of_def)
    have order: "bk_last b \<le> snd rq" "sorted (snd rq # asked ip rqs)" using Cons.prems(3) True by simp_all
    note hv = refilled_bounds [OF Cons.prems(2) order(1), of fused pm burst]
    have slip: "0 \<le> slip burst" using full_bucket_pos by (simp add: slip_def)
    have mine: "map_of ?cs ip = Some ?b" using True by (simp add: update_conv')
    have tokens: "0 \<le> bk_tokens ?b" "bk_tokens ?b \<le> (if ?have \<ge> 1 then ?have - 1 + slip burst else ?have)"
      using hv spent_bounds [of ?have burst] unfolding there by simp_all
    have rest: "of_nat (length ?rest) \<le> bk_tokens ?b + earned pm (last ?rest - snd rq) + of_nat (length (asked ip rqs)) * (2 * slip burst)"
      if "?rest \<noteq> []"
      using Cons.IH [OF mine tokens(1)] order(2) that by simp
    have count: "of_nat (length (asked ip (rq # rqs))) * (2 * slip burst) =
        2 * slip burst + of_nat (length (asked ip rqs)) * (2 * slip burst)"
      using True by (simp add: algebra_simps)
    obtain k where k: "of_nat (length (asked ip rqs)) * (2 * slip burst) = k" "0 \<le> k" using slip by simp
    have way: "earned pm (last ?rest - bk_last b) = earned pm (last ?rest - snd rq) + earned pm (snd rq - bk_last b)"
      by (simp add: earned_diff)
    show ?thesis
    proof (cases "?have \<ge> 1")
      case pass: True
      then have list: "passed ip (rq # rqs) (rate_run fused pm burst (rq # rqs) cs) = snd rq # ?rest" unfolding run using True by simp
      show ?thesis
      proof (cases "?rest = []")
        case True
        then show ?thesis unfolding list count k(1) using pass hv(3) slip k(2) unfolding there by simp
      next
        case False
        then show ?thesis unfolding list count using way pass hv(3) slip rest tokens(2) unfolding there by simp
      qed
    next
      case fail: False
      then have list: "passed ip (rq # rqs) (rate_run fused pm burst (rq # rqs) cs) = ?rest" unfolding run by simp
      with Cons.prems(4) have "?rest \<noteq> []" by simp
      then show ?thesis unfolding list count using way fail hv(3) slip rest tokens(2) unfolding there by simp
    qed
  qed
qed simp

lemma first_passed_bounded:
  assumes "\<And>b. map_of cs ip = Some b \<Longrightarrow> 0 \<le> bk_tokens b \<and> sorted (bk_last b # asked ip rqs)" and "sorted (asked ip rqs)"
    and "passed ip rqs (rate_run fused pm burst rqs cs) \<noteq> []"
  shows "of_nat (length (passed ip rqs (rate_run fused pm burst rqs cs))) \<le> full_bucket burst +
    earned pm (last (passed ip rqs (rate_run fused pm burst rqs cs)) - hd (passed ip rqs (rate_run fused pm burst rqs cs))) +
    of_nat (length (asked ip rqs)) * (2 * slip burst)"
  using assms
proof (induction rqs arbitrary: cs)
  case (Cons rq rqs)
  let ?before = "bucket_of burst (fst rq) (snd rq) cs"
  let ?have = "refilled fused pm burst (snd rq) ?before"
  let ?b = "\<lparr>bk_tokens = (if ?have \<ge> 1 then float64 (?have - 1) else ?have), bk_last = snd rq\<rparr>"
  let ?cs = "AList.update (fst rq) ?b cs"
  let ?rest = "passed ip rqs (rate_run fused pm burst rqs ?cs)"
  have run: "rate_run fused pm burst (rq # rqs) cs = (?have \<ge> 1) # rate_run fused pm burst rqs ?cs"
    by (simp add: rate_limit_steps Let_def)
  have slip: "0 \<le> slip burst" using full_bucket_pos by (simp add: slip_def)
  show ?case
  proof (cases "fst rq = ip")
    case False
    then have "map_of ?cs ip = map_of cs ip" by (simp add: update_conv')
    with Cons.IH [of ?cs] Cons.prems False show ?thesis unfolding run by simp
  next
    case True
    have before: "0 \<le> bk_tokens ?before" "bk_last ?before \<le> snd rq"
      using Cons.prems(1) True full_bucket_pos by (auto simp: bucket_of_def split: option.split)
    note hv = refilled_bounds [OF before, of fused pm burst]
    have order: "sorted (snd rq # asked ip rqs)" using Cons.prems(2) True by simp
    have mine: "map_of ?cs ip = Some ?b" using True by (simp add: update_conv')
    have tokens: "0 \<le> bk_tokens ?b" using hv spent_bounds [of ?have burst] by simp
    have count: "of_nat (length (asked ip (rq # rqs))) * (2 * slip burst) =
        2 * slip burst + of_nat (length (asked ip rqs)) * (2 * slip burst)"
      using True by (simp add: algebra_simps)
    obtain k where k: "of_nat (length (asked ip rqs)) * (2 * slip burst) = k" "0 \<le> k" using slip by simp
    show ?thesis
    proof (cases "?have \<ge> 1")
      case pass: True
      then have list: "passed ip (rq # rqs) (rate_run fused pm burst (rq # rqs) cs) = snd rq # ?rest" unfolding run using True by simp
      have left: "bk_tokens ?b \<le> full_bucket burst - 1 + slip burst" using pass hv(2) spent_bounds(2) [OF pass hv(2)] by simp
      show ?thesis
      proof (cases "?rest = []")
        case True
        then show ?thesis unfolding list count k(1) using pass hv(2) slip k(2) by (simp add: earned_def)
      next
        case False
        with passed_bounded [OF mine tokens _ False] order left slip show ?thesis unfolding list count by simp
      qed
    next
      case fail: False
      then have list: "passed ip (rq # rqs) (rate_run fused pm burst (rq # rqs) cs) = ?rest" unfolding run by simp
      have "of_nat (length ?rest) \<le> full_bucket burst + earned pm (last ?rest - hd ?rest) + of_nat (length (asked ip rqs)) * (2 * slip burst)"
        using Cons.prems(3) order mine tokens unfolding list by (intro Cons.IH) simp_all
      with slip show ?thesis unfolding list count by simp
    qed
  qed
qed simp

text \<open>C39: A client is let through about as often as the burst and the rate allow, and rounding lets through little more: when the
  requests of a client reach the lock in the order of their times, whatever those of the others do, then until a pass the
  number of passes is at most the burst and what is earned between the first and this pass, where the rate counts for at
  most (1 + 2^-53)^6 of itself and each request of the client adds at most 2^-52 of the burst.\<close>

theorem rate_limit_bounds_passes:
  assumes "sorted (asked ip rqs)" and "passed ip rqs (rate_run fused pm burst rqs []) = t # ts"
  shows "of_nat (length (t # ts)) \<le> full_bucket burst +
    of_int (last (t # ts) - t) * of_int (rate_per_minute pm) / 60000000000 * (1 + 1 / 2 ^ 53) ^ 6 +
    of_nat (length (asked ip rqs)) * (full_bucket burst / 2 ^ 52)"
  using first_passed_bounded [of "[]" ip rqs fused pm burst] assms by (simp add: earned_def one_up_def slip_def)

text \<open>As long as the burst is below 2^53 it is the capacity of the bucket.\<close>

lemma full_bucket_exact: "rate_burst burst < 2 ^ 53 \<Longrightarrow> full_bucket burst = of_int (rate_burst burst)"
  unfolding full_bucket_def by (rule float64_of_int) (simp add: rate_burst_def)

text \<open>At one moment a client passes exactly as often as the burst says: the arithmetic of whole tokens does not round.\<close>

lemma refilled_at_once:
  assumes "bk_tokens b = of_int n" and "bk_last b = now" and "0 \<le> n" and "n \<le> rate_burst burst" and "rate_burst burst < 2 ^ 53"
  shows "refilled fused pm burst now b = of_int n"
  using assms float64_of_int [of n] by (simp add: refilled_def full_bucket_exact duration_seconds_def time_sub_def)

lemma first_request_passes:
  assumes "rate_burst burst < 2 ^ 53"
  shows "snd (rate_limit fused pm burst ip now [])"
proof -
  have "refilled fused pm burst now \<lparr>bk_tokens = full_bucket burst, bk_last = now\<rparr> = of_int (rate_burst burst)"
    using assms by (intro refilled_at_once) (simp_all add: full_bucket_exact rate_burst_def)
  moreover have "1 \<le> (of_int (rate_burst burst) :: rat)" by (simp add: rate_burst_def)
  ultimately show ?thesis by (simp add: rate_limit_def)
qed

theorem rate_limit_bounds_passes_witness:
  "passed ''a'' [(''a'', 0), (''b'', 0), (''a'', 0), (''a'', 0)] (rate_run True 60 2 [(''a'', 0), (''b'', 0), (''a'', 0), (''a'', 0)] []) = [0, 0] \<and>
   (2 :: rat) \<le> 2 + 3 * (2 / 2 ^ 52)"
proof -
  have full: "full_bucket 2 = 2" using full_bucket_exact [of 2] by (simp add: rate_burst_def)
  have now: "refilled True 60 2 0 \<lparr>bk_tokens = of_int n, bk_last = 0\<rparr> = of_int n" if "0 \<le> n" "n \<le> 2" for n
    using that by (intro refilled_at_once) (simp_all add: rate_burst_def)
  have "float64 1 = 1" using float64_of_int [of 1] by simp
  with now [of 2] now [of 1] now [of 0]
  have run: "passed ''a'' [(''a'', 0), (''b'', 0), (''a'', 0), (''a'', 0)] (rate_run True 60 2 [(''a'', 0), (''b'', 0), (''a'', 0), (''a'', 0)] []) = [0, 0]"
    by (simp add: rate_limit_def full)
  have "sorted (asked ''a'' [(''a'', 0), (''b'', 0), (''a'', 0), (''a'', 0)])" by simp
  from rate_limit_bounds_passes [OF this run] run show ?thesis by (simp add: full)
qed

section \<open>Writes\<close>

abbreviation open_writers :: "string set" where
  "open_writers \<equiv> {''UserHandler.SignUpHandle'', ''UserHandler.LoginHandle'', ''ChannelHub.HandleWebhook''}"

text \<open>What the code relies on: the framework answers with a route that was mounted, for the request's method.\<close>

definition finds_mounted :: "(route list \<Rightarrow> string \<Rightarrow> string list \<Rightarrow> route option) \<Rightarrow> bool" where
  "finds_mounted router \<longleftrightarrow> (\<forall>rs verb path r. router rs verb path = Some r \<longrightarrow> r \<in> set rs \<and> rt_method r = verb)"

definition no_open_write :: "route \<Rightarrow> bool" where
  "no_open_write r \<longleftrightarrow> (if rt_guard r = Open then rt_method r = ''GET'' \<or> rt_handler r \<in> open_writers else rt_path r \<noteq> [''favicon.ico''])"

lemma guarded_group: "g \<noteq> Open \<Longrightarrow> hd pre \<noteq> ''favicon.ico'' \<Longrightarrow> pre \<noteq> [] \<Longrightarrow> list_all no_open_write (under pre g rs)"
  by (cases pre) (auto simp: under_def list_all_iff no_open_write_def)

lemma open_group: "list_all no_open_write (under pre Open rs) \<longleftrightarrow> list_all (\<lambda>(m, _, h). m = ''GET'' \<or> h \<in> open_writers) rs"
  by (auto simp: under_def list_all_iff no_open_write_def)

lemma list_all_filter: "list_all P xs \<Longrightarrow> list_all P (filter Q xs)"
  by (simp add: list_all_iff)

lemma routes_checked: "list_all no_open_write (all_routes m f)"
proof -
  have "list_all (\<lambda>(m, _, h). m = ''GET'' \<or> h \<in> open_writers) page_routes"
    "list_all (\<lambda>(m, _, h). m = ''GET'' \<or> h \<in> open_writers) (public_routes @ hub_routes f)"
    by (simp_all add: page_routes_def public_routes_def hub_routes_def)
  then show ?thesis
    by (simp only: all_routes_def list_all_append open_group) (simp add: guarded_group list_all_filter)
qed

lemmas route_checked = routes_checked [unfolded list_all_iff no_open_write_def, rule_format]

text \<open>C40: Every request that is not a \<open>GET\<close> and reaches a handler is a registration, a login or a messenger's callback, or it carried a
  token that the middleware accepted, and the handler sees that token's user, or it carried the configured key of the
  internal API.\<close>

theorem writes_need_a_token:
  assumes "finds_mounted (gs_router g)"
    and "serve_request g now rq cs = (cs', Handled h u)" and "rq_method rq \<noteq> ''GET''"
  shows "h \<in> open_writers \<or> (\<exists>c. jwt_auth (gs_jwt g) (gs_auth g) now (rq_header rq) = Inr c \<and> u = UserU64 (cl_user c)) \<or>
    admin_api_key (gs_admin g) (rq_header rq) = None"
proof -
  obtain r where route: "gs_router g (all_routes (gs_metrics g) (gs_feishu g)) (rq_method rq) (rq_path rq) = Some r"
    and answer: "rt_path r = [''favicon.ico''] \<and> h = rt_handler r \<or> pass_guard g now rq r = Handled h u"
    using assms(2) by (auto simp: serve_request_def split: option.splits prod.splits bool.splits if_splits)
  from assms(1) route have "r \<in> set (all_routes (gs_metrics g) (gs_feishu g)) \<and> rt_method r = rq_method rq"
    unfolding finds_mounted_def by blast
  with assms(3) have r: "r \<in> set (all_routes (gs_metrics g) (gs_feishu g))" "rt_method r \<noteq> ''GET''" by simp_all
  with route_checked [OF r(1)] have "rt_guard r = Open \<Longrightarrow> rt_handler r \<in> open_writers" "rt_guard r \<noteq> Open \<Longrightarrow> rt_path r \<noteq> [''favicon.ico'']"
    by (simp_all split: if_splits)
  with answer show ?thesis
    by (cases "rt_guard r") (auto simp: pass_guard_def split: sum.splits option.splits)
qed

section \<open>A missing secret\<close>

text \<open>Without a configured secret, whoever knows the published one signs in as anybody.\<close>

lemma published_secret_admits:
  assumes "jw_sign lib default_secret c = Some tok" and "jw_parse lib default_secret now tok = JwtParsed True c"
    and "header ''Authorization'' = ''Bearer '' @ tok"
  shows "jwt_auth lib (Some ([], hours)) now header = Inr c"
  using assms by (simp add: jwt_auth_def split_blank_def parse_token_def jwt_secret_def)

section \<open>A run\<close>

text \<open>A router: a path is matched segment by segment, a fixed segment before a parameter.\<close>

definition is_param :: "string \<Rightarrow> bool" where
  "is_param p \<longleftrightarrow> (case p of c # _ \<Rightarrow> c = CHR '':'' | [] \<Rightarrow> False)"

fun path_matches :: "string list \<Rightarrow> string list \<Rightarrow> bool" where
  "path_matches [] [] = True"
| "path_matches (p # ps) (s # ss) = ((p = s \<or> is_param p \<and> s \<noteq> []) \<and> path_matches ps ss)"
| "path_matches _ _ = False"

text \<open>Of two patterns that match, the one that is fixed where they first differ.\<close>

fun more_fixed :: "string list \<Rightarrow> string list \<Rightarrow> bool" where
  "more_fixed (p # ps) (q # qs) = (if is_param p = is_param q then more_fixed ps qs else is_param q)"
| "more_fixed _ _ = True"

fun best_route :: "route list \<Rightarrow> route option" where
  "best_route [] = None"
| "best_route (r # rs) = (case best_route rs of None \<Rightarrow> Some r | Some q \<Rightarrow> Some (if more_fixed (rt_path r) (rt_path q) then r else q))"

definition find_route :: "route list \<Rightarrow> string \<Rightarrow> string list \<Rightarrow> route option" where
  "find_route rs verb path = best_route (filter (\<lambda>r. rt_method r = verb \<and> path_matches (rt_path r) path) rs)"

lemma best_route_in: "best_route rs = Some r \<Longrightarrow> r \<in> set rs"
  by (induction rs arbitrary: r) (auto split: option.splits if_splits)

lemma find_route_in: "find_route rs verb path = Some r \<Longrightarrow> r \<in> set rs \<and> rt_method r = verb \<and> path_matches (rt_path r) path"
  by (auto simp: find_route_def dest: best_route_in)

lemma find_route_mounted: "finds_mounted find_route"
  by (simp add: finds_mounted_def find_route_in)

definition demo_claims :: claims where
  "demo_claims = \<lparr>cl_user = 7, cl_name = ''ann'', cl_expires = 9, cl_issued = 0, cl_not_before = 0, cl_issuer = ''my-blog''\<rparr>"

definition demo_gate :: gate_settings where
  "demo_gate = \<lparr>gs_router = find_route, gs_jwt = \<lparr>jw_sign = (\<lambda>_ _. Some ''t''), jw_parse = (\<lambda>s now t. if s = ''s'' \<and> t = ''t'' \<and> now < 9 then JwtParsed True demo_claims else JwtFailed False)\<rparr>,
     gs_auth = Some (''s'', 24), gs_admin = None, gs_per_minute = 0, gs_burst = 0, gs_fused = False, gs_metrics = False, gs_feishu = False\<rparr>"

definition demo_request :: request where
  "demo_request = \<lparr>rq_method = ''POST'', rq_path = [''api'', ''v1'', ''articles''],
     rq_header = (\<lambda>k. if k = ''Authorization'' then ''Bearer t'' else []), rq_ip = ''ip''\<rparr>"

lemma demo_route: "find_route (all_routes False False) ''POST'' [''api'', ''v1'', ''articles''] =
    Some \<lparr>rt_method = ''POST'', rt_path = [''api'', ''v1'', ''articles''], rt_guard = Token, rt_handler = ''ArticleHandler.CreateArticleHandle''\<rparr>"
  by code_simp

theorem writes_need_a_token_witness:
  "\<exists>cs c. serve_request demo_gate 5 demo_request [] = (cs, Handled ''ArticleHandler.CreateArticleHandle'' (UserU64 7)) \<and>
     jwt_auth (gs_jwt demo_gate) (gs_auth demo_gate) 5 (rq_header demo_request) = Inr c \<and> cl_user c = 7"
proof -
  have "jwt_auth (gs_jwt demo_gate) (gs_auth demo_gate) 5 (rq_header demo_request) = Inr demo_claims"
    by (simp add: jwt_auth_def split_blank_def parse_token_def jwt_secret_def demo_gate_def demo_request_def)
  moreover obtain cs where "rate_limit False 0 0 ''ip'' 5 [] = (cs, True)"
    using first_request_passes [of 0 False 0 "''ip''" 5] by (cases "rate_limit False 0 0 ''ip'' 5 []") (simp add: rate_burst_def)
  moreover have "gs_router demo_gate = find_route" "gs_metrics demo_gate = False" "gs_feishu demo_gate = False" "gs_per_minute demo_gate = 0" "gs_burst demo_gate = 0" "\<not> gs_fused demo_gate"
    "gs_admin demo_gate = None" by (simp_all add: demo_gate_def)
  moreover have "rq_method demo_request = ''POST''" "rq_path demo_request = [''api'', ''v1'', ''articles'']" "rq_ip demo_request = ''ip''"
    by (simp_all add: demo_request_def)
  ultimately have run: "serve_request demo_gate 5 demo_request [] = (cs, Handled ''ArticleHandler.CreateArticleHandle'' (UserU64 7))"
    by (simp add: serve_request_def demo_route pass_guard_def) (simp add: demo_claims_def)
  have mounted: "finds_mounted (gs_router demo_gate)" by (simp add: demo_gate_def find_route_mounted)
  have "rq_method demo_request \<noteq> ''GET''" by (simp add: demo_request_def)
  from writes_need_a_token [OF mounted run this] have
    "\<exists>c. jwt_auth (gs_jwt demo_gate) (gs_auth demo_gate) 5 (rq_header demo_request) = Inr c \<and> UserU64 7 = UserU64 (cl_user c)"
    by (auto simp: admin_api_key_def demo_gate_def)
  with run show ?thesis by auto
qed

end
