(* ===== verification/Spec2Isabelle.thy ===== *)
theory Spec2Isabelle
  imports GoPrelude Table Tool Points PointsService PointsProps PointsConcurrency Mall MallProps MallRedeem
    GoStrings GoJson Redis Content Topics TopicProps Game GameService GameHandlers GameStore GameCache GameCoherence Internal
    JsonDecode ZSet TurnRecord TurnProps Translator AgentChat ChatProps TemplateProps
    Blog Comments CommentProps Stats StatsWorker WorkerProps ArticleStore Articles Kafka KafkaProps Notify NotifyProps
    Users UsersProps Direct DirectProps Search SearchProps
    Channel ChannelCrypt ChannelAdapters ChannelProps HubProps Float64 Gateway GatewayProps
begin

text \<open>
  GameBog: a model of the back end, a Go server for a blog with topics, games, points and an assistant.

  \<^bold>\<open>The program.\<close> Handlers (src/handler) take a request apart and call services (src/service), which combine
  repositories: MySQL through GORM, Redis (both src/database), Elasticsearch (src/search), and the queues NSQ and Kafka
  (src/mq), whose consumers write back to MySQL. A request first passes the middleware and the routes (src/middleware,
  src/router). The assistant is another process: the server passes its stream on to the browser and keeps the
  conversation (src/handler/agent*, src/handler/agentstream), also for users of four messengers (src/handler/channel).

  \<^bold>\<open>How code becomes definitions.\<close> A Go function that may fail is an operation (GoPrelude): it takes the state and returns
  \<open>Inl\<close> an error or \<open>Inr\<close> a result, with the new state; a run-time panic is the error \<open>GoPanic\<close>. Every call that leaves
  the process is an \<open>io\<close>: it consults the script \<open>faults\<close> of the state, whose head says whether this call fails, so that a
  theorem for all states holds for every pattern of failures; \<open>calm\<close> states have none. \<open>tx\<close> is a GORM transaction, which
  puts the tables back when its body or the commit fails. Table has the SQL that is used (first row, order, pages, counts),
  Redis the commands with the key families and the deletion by pattern, ZSet the sorted sets, GoStrings, GoJson and
  JsonDecode what is used of the standard library. Numbers are kept at their width: \<open>u64\<close> is a word, an \<open>int64\<close> an
  \<open>int\<close> that \<open>i64\<close> wraps. Goroutines are jobs or steps that run in any order.

  \<^bold>\<open>State.\<close> Records that extend one another, one per component, so that components compose:
  \<open>io_st\<close>, \<open>points_st\<close> (wallets, ledger, counters, clock, ids), and from there \<open>mall_st\<close>; \<open>chat_st\<close> (conversations) with
  \<open>channel_st\<close> (identities, events, jobs) and \<open>im_st\<close> (platforms); and \<open>content_st\<close> (users, articles, comments), \<open>topics_st\<close>,
  \<open>game_st\<close>, \<open>blog_st\<close> (caches and counters), then \<open>worker_st\<close> (the buffers of the consumers) or \<open>art_st\<close>, \<open>kafka_st\<close>,
  \<open>notify_st\<close>, \<open>social_st\<close>, and \<open>dm_st\<close> or \<open>search_st\<close>.

  \<^bold>\<open>Theories and sources.\<close>
  \<^item> Tool, Points, PointsService: src/tool, points_sql.go, points_redis.go, points_service.go. PointsProps: the ledger
    adds up and its running balances are right, errors leave the tables alone, the daily limit, redeliveries; PointsConcurrency:
    awards that interleave at their statements.
  \<^item> Mall, MallProps, MallRedeem: points_mall_sql.go, points_mall_redis.go, points_mall_service.go: codes are sold once, a
    redemption charges once and is undone when it fails, the idempotency key.
  \<^item> Content, Topics, TopicProps: topic_sql.go, topic_service.go, topic_redis.go: the cascade of a deleted topic, names.
  \<^item> Game, GameService, GameHandlers, GameStore, GameCache, GameCoherence: game_sql.go, game_store_sql.go, game_redis.go,
    game_service.go, game_handler.go: purchases, licences, and readers of the caches see the tables. Internal: internal_handler.go,
    which keeps the caches coherent too.
  \<^item> TurnRecord, Translator, AgentChat with TurnProps, TemplateProps, ChatProps: agentstream, agent_chat_redis.go,
    agent_chat_run.go, agent_handler.go: the record of a turn, what the browser is shown, what is stored.
  \<^item> Blog, Comments, CommentProps: comment_sql.go, redis.go, comment_service.go, comment_handler.go: a page of comments
    against its reference, likes whose message is lost.
  \<^item> Stats, StatsWorker, WorkerProps: the counters of articles and article_consumer.go: views are counted once.
  \<^item> ArticleStore, Articles: article_sql.go, article_redis.go, article_service.go, article_handler.go.
  \<^item> Kafka, KafkaProps: kafka_init.go: the consumers, retries and dead letters. Notify, NotifyProps: sockets, delivery and
    storage of notifications. Users, UsersProps: accounts and follows. Direct, DirectProps: direct messages. Search,
    SearchProps: the search and its fallbacks.
  \<^item> Channel, ChannelCrypt, ChannelAdapters: the messengers. ChannelProps: which callbacks are readable and who may send
    one; HubProps: ids of users, repeated events, a panic that ends the process.
  \<^item> Float64, Gateway, GatewayProps: middleware, jwt_module, router.go, tool.go: the rate limit in the code's floating-point
    arithmetic (a client's requests in the order of their times), and writes need a token.

  \<^bold>\<open>Interfaces.\<close> The locales \<open>store_tx\<close> and \<open>store_tx_rest\<close> (what a rollback puts back), \<open>key_family\<close> (a family of Redis keys),
  \<open>messenger\<close> (an adapter) and
  \<open>hub_invariant\<close> (what every run of the hub keeps) are each
  interpreted on the model's own definitions in the theory that provides them. \<open>keeps\<close>, \<open>wp\<close>, \<open>no_panic\<close> and their rule
  collections carry the proofs about operations.

  \<^bold>\<open>Bounds.\<close> No operation needs fuel: loops run over the list they were given (rows, fetched messages, lines of a stream, the
  keys of a \<open>SCAN\<close>, of which each page takes at least one), and the endless loops of consumers run over the list of what they
  fetched. So every operation returns; where the code may panic the model does.

  \<^bold>\<open>Not modelled.\<close> Setting up (src/bootstrap, src/setting, src/logger, connections, migrations, the search index, seed data): I/O
  with no state of its own. Serving pages and files, health checks. Key expiry is a step of the environment where a property
  depends on it and otherwise left out. Hash functions, ciphers, bcrypt, the JWT library, the JSON and XML syntax, what
  Elasticsearch finds and what the assistant and the messengers answer are arguments of the definitions. The Bloom filter of
  src/cache is only written to and never asked. A crash of the process between two steps is left out except where a theorem
  says so. Numbers of \<open>float64\<close> have neither infinities nor subnormal values.
\<close>

end
